(* ===== verification/Neft_Prelude.thy ===== *)
theory Neft_Prelude
  imports Main "HOL-Library.Char_ord" "HOL-Library.List_Lexorder" "HOL-Library.Product_Lexorder"
    "HOL-Library.Multiset"
begin

text \<open>
  Shared vocabulary of the development: Python exceptions as values, the state-and-exception
  computations in which the services are written, the outside world (clock, random identifiers,
  SHA-256), the query idioms of SQLAlchemy on tables kept as lists of rows, and the list lemmas
  that the component proofs share.
\<close>

named_theorems act_simps \<open>equations of the state-and-exception combinators\<close>
named_theorems frame_simps \<open>which tables an operation leaves alone\<close>

section \<open>Values of JSON payloads\<close>

text \<open>The Python values that the services put into JSON columns, hash payloads and error contexts.\<close>

datatype pyval =
    PNone
  | PBool bool
  | PInt int
  | PStr string
  | PEnum string
  | PUuid string
  | PDatetime int
  | PList "pyval list"
  | PDict "(string \<times> pyval) list"

text \<open>
  A broken rule of \<open>finance_invariants/rules.py\<close> and the exception object of
  \<open>finance_invariants/errors.py\<close> that carries all of them with its context.
\<close>

record invariant_violation =
  iv_name :: string
  iv_expected :: pyval
  iv_actual :: pyval

record fin_violation =
  fv_entity_type :: string
  fv_entity_id :: string
  fv_ledger_transaction_id :: "string option"
  fv_violations :: "invariant_violation list"
  fv_context :: "(string \<times> pyval) list option"

section \<open>Exceptions\<close>

text \<open>
  One constructor per exception class that the modelled code raises. Where the source puts a
  message into the exception the constructor keeps the message.
\<close>

datatype py_exc =
    ValueError string
  | TypeError string
  | AttributeError
  | KeyError
  | IntegrityError
  | MultipleResultsFound
  | NoResultFound
  | InvalidTransitionError string
  | InvoiceInvariantError string
  | FinancialInvariantViolation fin_violation
  | MoneyFlowTransitionError string
  | BillingPeriodConflict
  | PolicyAccessDenied string
  | InvoiceNotFound
  | PaymentReferenceConflict
  | PaymentIdempotencyConflict string
  | RefundReferenceConflict
  | FinanceOperationInProgress
  | OperationNotFound
  | LedgerInvariantViolation string
  | IdempotencyMismatch
  | RuntimeError string
  | HTTPException nat string
  | EdoTransitionError string
  | PostingInvariantError fin_violation
  | PayoutError string
  | PayoutConflictError string
  | RefundAmountInvalid
  | RefundCapExceeded
  | ReversalAlreadyExists
  | DisputeStateError string

type_synonym 'a result = "py_exc + 'a"

section \<open>State and exceptions\<close>

text \<open>
  A service method reads and writes the session and may raise. What it wrote before raising is
  still in the session until somebody rolls back, so an error result carries the state too.
\<close>

type_synonym ('s, 'a) act = "'s \<Rightarrow> 'a result \<times> 's"

definition ret :: "'a \<Rightarrow> ('s, 'a) act" where
  "ret a = (\<lambda>s. (Inr a, s))"

definition raise_exc :: "py_exc \<Rightarrow> ('s, 'a) act" where
  "raise_exc e = (\<lambda>s. (Inl e, s))"

definition and_then :: "('s, 'a) act \<Rightarrow> ('a \<Rightarrow> ('s, 'b) act) \<Rightarrow> ('s, 'b) act" where
  "and_then m k = (\<lambda>s. case m s of (Inl e, t) \<Rightarrow> (Inl e, t) | (Inr a, t) \<Rightarrow> k a t)"

definition update_state :: "('s \<Rightarrow> 's) \<Rightarrow> ('s, unit) act" where
  "update_state f = (\<lambda>s. (Inr (), f s))"

definition reading :: "('s \<Rightarrow> 'a) \<Rightarrow> ('s, 'a) act" where
  "reading f = (\<lambda>s. (Inr (f s), s))"

definition asserting :: "bool \<Rightarrow> py_exc \<Rightarrow> ('s, unit) act" where
  "asserting b e = (if b then ret () else raise_exc e)"

definition lift_result :: "'a result \<Rightarrow> ('s, 'a) act" where
  "lift_result r = (\<lambda>s. (r, s))"

fun for_each :: "'x list \<Rightarrow> ('x \<Rightarrow> ('s, 'b) act) \<Rightarrow> ('s, 'b list) act" where
  "for_each [] f = ret []"
| "for_each (x # xs) f = and_then (f x) (\<lambda>b. and_then (for_each xs f) (\<lambda>bs. ret (b # bs)))"

lemma ret_apply [act_simps, simp]: "ret a s = (Inr a, s)"
  by (simp add: ret_def)

lemma raise_apply [act_simps, simp]: "raise_exc e s = (Inl e, s)"
  by (simp add: raise_exc_def)

lemma update_state_apply [act_simps, simp]: "update_state f s = (Inr (), f s)"
  by (simp add: update_state_def)

lemma reading_apply [act_simps, simp]: "reading f s = (Inr (f s), s)"
  by (simp add: reading_def)

lemma lift_result_apply [act_simps, simp]: "lift_result r s = (r, s)"
  by (simp add: lift_result_def)

lemma asserting_apply [act_simps, simp]:
  "asserting b e s = (if b then Inr () else Inl e, s)"
  by (simp add: asserting_def)

lemma and_then_apply [act_simps]:
  "and_then m k s = (case m s of (Inl e, t) \<Rightarrow> (Inl e, t) | (Inr a, t) \<Rightarrow> k a t)"
  by (simp add: and_then_def)

lemma and_then_Inr [simp]: "m s = (Inr a, t) \<Longrightarrow> and_then m k s = k a t"
  by (simp add: and_then_def)

lemma and_then_Inl [simp]: "m s = (Inl e, t) \<Longrightarrow> and_then m k s = (Inl e, t)"
  by (simp add: and_then_def)

text \<open>Successful runs split into successful parts: the elimination rule of most proofs.\<close>

lemma and_then_Inr_iff:
  "and_then m k s = (Inr b, u) \<longleftrightarrow> (\<exists>a t. m s = (Inr a, t) \<and> k a t = (Inr b, u))"
  by (auto simp: and_then_def split: prod.splits sum.splits)

lemma and_then_Inl_iff:
  "and_then m k s = (Inl e, u) \<longleftrightarrow>
     m s = (Inl e, u) \<or> (\<exists>a t. m s = (Inr a, t) \<and> k a t = (Inl e, u))"
  by (auto simp: and_then_def split: prod.splits sum.splits)

lemma and_then_InrE:
  assumes "and_then m k s = (Inr b, u)"
  obtains a t where "m s = (Inr a, t)" and "k a t = (Inr b, u)"
  using assms by (auto simp: and_then_Inr_iff)

lemma for_each_ConsI:
  "f x s = (Inr b, t) \<Longrightarrow> for_each xs f t = (Inr bs, u) \<Longrightarrow> for_each (x # xs) f s = (Inr (b # bs), u)"
  by (simp add: and_then_def)

text \<open>A state property that every part keeps is kept by the sequence and by the loop.\<close>

definition keeps :: "('s \<Rightarrow> bool) \<Rightarrow> ('s, 'a) act \<Rightarrow> bool" where
  "keeps P m \<longleftrightarrow> (\<forall>s. P s \<longrightarrow> P (snd (m s)))"

lemma keepsI: "(\<And>s. P s \<Longrightarrow> P (snd (m s))) \<Longrightarrow> keeps P m"
  by (simp add: keeps_def)

lemma keepsD: "keeps P m \<Longrightarrow> P s \<Longrightarrow> P (snd (m s))"
  by (simp add: keeps_def)

lemma keeps_ret [intro]: "keeps P (ret a)"
  by (simp add: keeps_def)

lemma keeps_and_then [intro]:
  assumes "keeps P m" and "\<And>a. keeps P (k a)"
  shows "keeps P (and_then m k)"
proof (rule keepsI)
  fix s assume "P s"
  then have P: "P (snd (m s))" using assms(1) by (rule keepsD [rotated])
  obtain r t where m: "m s = (r, t)" by (cases "m s")
  show "P (snd (and_then m k s))"
    using P m assms(2) by (cases r) (auto simp: and_then_def dest: keepsD)
qed

lemma keeps_for_each [intro]: "(\<And>x. keeps P (f x)) \<Longrightarrow> keeps P (for_each xs f)"
  by (induction xs) auto

section \<open>The outside world\<close>

text \<open>
  What the services read from outside: \<open>sha256_hex\<close> is \<open>hashlib.sha256(s.encode('utf-8')).hexdigest()\<close>,
  \<open>uuid_at n\<close> is the \<open>n\<close>-th value drawn from \<open>uuid4\<close> and \<open>time_at n\<close> the \<open>n\<close>-th reading of the
  clock, in microseconds since the epoch (UTC). The clock need not be monotone. The session
  counts the readings in \<open>tick\<close>.
\<close>

record world =
  sha256_hex :: "string \<Rightarrow> string"
  uuid_at :: "nat \<Rightarrow> string"
  time_at :: "nat \<Rightarrow> int"

record session =
  tick :: nat

definition new_uuid_str :: "world \<Rightarrow> ('a session_scheme, string) act" where
  "new_uuid_str w = (\<lambda>s. (Inr (uuid_at w (tick s)), s\<lparr>tick := Suc (tick s)\<rparr>))"

definition now_utc :: "world \<Rightarrow> ('a session_scheme, int) act" where
  "now_utc w = (\<lambda>s. (Inr (time_at w (tick s)), s\<lparr>tick := Suc (tick s)\<rparr>))"

lemma new_uuid_str_apply [act_simps, simp]:
  "new_uuid_str w s = (Inr (uuid_at w (tick s)), s\<lparr>tick := Suc (tick s)\<rparr>)"
  by (simp add: new_uuid_str_def)

lemma now_utc_apply [act_simps, simp]:
  "now_utc w s = (Inr (time_at w (tick s)), s\<lparr>tick := Suc (tick s)\<rparr>)"
  by (simp add: now_utc_def)

section \<open>Queries\<close>

text \<open>
  \<open>query(T).filter(p).one_or_none()\<close> raises when more than one row matches;
  \<open>.first()\<close> takes the first row in the query's order.
\<close>

definition one_or_none :: "('r \<Rightarrow> bool) \<Rightarrow> 'r list \<Rightarrow> 'r option result" where
  "one_or_none p rows =
     (case filter p rows of
        [] \<Rightarrow> Inr None
      | [r] \<Rightarrow> Inr (Some r)
      | _ \<Rightarrow> Inl MultipleResultsFound)"

definition query_one :: "('r \<Rightarrow> bool) \<Rightarrow> ('s \<Rightarrow> 'r list) \<Rightarrow> ('s, 'r option) act" where
  "query_one p table = (\<lambda>s. (one_or_none p (table s), s))"

lemma query_one_apply [act_simps, simp]: "query_one p table s = (one_or_none p (table s), s)"
  by (simp add: query_one_def)

text \<open>
  Adding a row under a savepoint: when a constraint of the table rejects it the savepoint is rolled
  back and the handler for \<open>IntegrityError\<close> runs.
\<close>

definition insert_or_else ::
    "('s \<Rightarrow> bool) \<Rightarrow> ('s \<Rightarrow> 's) \<Rightarrow> ('s, 'a) act \<Rightarrow> ('s, 'a) act \<Rightarrow> ('s, 'a) act" where
  "insert_or_else conflict ins on_conflict on_success =
     (\<lambda>s. if conflict s then on_conflict s else on_success (ins s))"

lemma insert_or_else_apply [act_simps, simp]:
  "insert_or_else c i f g s = (if c s then f s else g (i s))"
  by (simp add: insert_or_else_def)

lemma one_or_none_None [simp]: "one_or_none p rows = Inr None \<longleftrightarrow> (\<forall>r\<in>set rows. \<not> p r)"
proof -
  have "filter p rows = [] \<longleftrightarrow> (\<forall>r\<in>set rows. \<not> p r)" by (simp add: filter_empty_conv)
  then show ?thesis by (cases "filter p rows") (auto simp: one_or_none_def split: list.splits)
qed

lemma one_or_none_SomeD: "one_or_none p rows = Inr (Some r) \<Longrightarrow> r \<in> set rows \<and> p r"
proof -
  assume "one_or_none p rows = Inr (Some r)"
  then have "filter p rows = [r]" by (auto simp: one_or_none_def split: list.splits)
  then have "r \<in> set (filter p rows)" by simp
  then show ?thesis by simp
qed

text \<open>Where a column is unique, a lookup by it never raises and finds the row it names.\<close>

lemma filter_unique_key:
  "distinct (map key rows) \<Longrightarrow> filter (\<lambda>r. key r = k) rows = [] \<or>
     (\<exists>r. filter (\<lambda>r. key r = k) rows = [r])"
proof (induction rows)
  case (Cons r rows)
  show ?case
  proof (cases "key r = k")
    case True
    with Cons.prems have "k \<notin> key ` set rows" by simp
    then have "\<forall>x\<in>set rows. key x \<noteq> k" by (metis imageI)
    then show ?thesis using True by (simp add: filter_empty_conv)
  next
    case False
    with Cons show ?thesis by simp
  qed
qed simp

lemma one_or_none_unique_key:
  assumes "distinct (map key rows)" and "r \<in> set rows"
  shows "one_or_none (\<lambda>x. key x = key r) rows = Inr (Some r)"
proof -
  from filter_unique_key [OF assms(1), of "key r"] assms(2)
  obtain x where x: "filter (\<lambda>y. key y = key r) rows = [x]"
    by (auto simp: filter_empty_conv)
  with assms(2) have "r \<in> set [x]" by (metis (mono_tags, lifting) filter_set Set.filter_eq mem_Collect_eq)
  with x show ?thesis by (simp add: one_or_none_def)
qed

lemma one_or_none_unique_total:
  assumes "distinct (map key rows)"
  shows "\<exists>x. one_or_none (\<lambda>r. key r = k) rows = Inr x"
  using filter_unique_key [OF assms, of k] by (auto simp: one_or_none_def)

text \<open>Writing back a row that the session holds: the row with that primary key is replaced.\<close>

definition store_row :: "('r \<Rightarrow> 'k) \<Rightarrow> 'r \<Rightarrow> 'r list \<Rightarrow> 'r list" where
  "store_row key r rows = map (\<lambda>x. if key x = key r then r else x) rows"

lemma length_store_row [simp]: "length (store_row key r rows) = length rows"
  by (simp add: store_row_def)

lemma map_key_store_row [simp]: "map key (store_row key r rows) = map key rows"
  by (auto simp: store_row_def)

lemma set_store_rowD: "x \<in> set (store_row key r rows) \<Longrightarrow> x = r \<or> x \<in> set rows \<and> key x \<noteq> key r"
  by (auto simp: store_row_def split: if_splits)

lemma store_row_absent: "key r \<notin> key ` set rows \<Longrightarrow> store_row key r rows = rows"
  unfolding store_row_def by (rule map_idI) (metis imageI)

lemma store_row_append: "store_row key r (xs @ ys) = store_row key r xs @ store_row key r ys"
  by (simp add: store_row_def)

section \<open>Python idioms\<close>

text \<open>\<open>x or y\<close> on optional integers and strings: zero and the empty string are falsy too.\<close>

definition int_or :: "int option \<Rightarrow> int \<Rightarrow> int" where
  "int_or x d = (case x of None \<Rightarrow> d | Some v \<Rightarrow> if v = 0 then d else v)"

definition str_truthy :: "string option \<Rightarrow> bool" where
  "str_truthy x = (case x of None \<Rightarrow> False | Some v \<Rightarrow> v \<noteq> [])"

definition str_or_none :: "string option \<Rightarrow> string option" where
  "str_or_none x = (if str_truthy x then x else None)"

lemma str_or_none_idem [simp]: "str_or_none (str_or_none x) = str_or_none x"
  by (simp add: str_or_none_def str_truthy_def)

section \<open>Sums over rows\<close>

lemma sum_list_append_int [simp]:
  "sum_list (map f (xs @ ys)) = sum_list (map f xs) + (sum_list (map f ys) :: int)"
  by simp

lemma sum_list_filter_split:
  fixes f :: "'a \<Rightarrow> int"
  shows "sum_list (map f xs) = sum_list (map f (filter p xs)) + sum_list (map f (filter (\<lambda>x. \<not> p x) xs))"
  by (induction xs) auto

lemma distinct_map_sort_key: "distinct (map g (sort_key f xs)) = distinct (map g xs)"
  by (rule mset_eq_imp_distinct_iff) simp

lemma sort_key_append_max:
  assumes "\<forall>y\<in>set xs. f y \<le> f x"
  shows "sort_key f (xs @ [x]) = sort_key f xs @ [x]"
proof (rule properties_for_sort_key)
  show "mset (sort_key f xs @ [x]) = mset (xs @ [x])" by simp
next
  fix k
  show "filter (\<lambda>y. f k = f y) (sort_key f xs @ [x]) = filter (\<lambda>y. f k = f y) (xs @ [x])"
    using sort_key_stable [of f "f k" xs] by (simp add: eq_commute)
next
  show "sorted (map f (sort_key f xs @ [x]))"
    using assms by (auto simp: sorted_append)
qed

end
