(* ===== verification/Py_Json.thy ===== *)
theory Py_Json
  imports Neft_Prelude
begin

text \<open>
  The values that the services put into JSON columns and hash payloads, and the canonical
  serialisation \<open>json.dumps(v, sort_keys=True, separators=(',', ':'), ensure_ascii=False)\<close> that every
  hash of the system is taken over. A string is the list of its UTF-8 bytes (byte order and code
  point order agree, so sorting by key is the same); a dictionary is an association list in
  insertion order. Floats and decimals do not occur in these payloads.
  The main fact is that the serialisation is injective on normalised values.
\<close>

section \<open>Decimal and hexadecimal digits\<close>

definition digit_char :: "nat \<Rightarrow> char" where
  "digit_char d = char_of (48 + d)"

fun show_nat :: "nat \<Rightarrow> string" where
  "show_nat n = (if n < 10 then [digit_char n] else show_nat (n div 10) @ [digit_char (n mod 10)])"

declare show_nat.simps [simp del]

definition show_int :: "int \<Rightarrow> string" where
  "show_int i = (if i < 0 then CHR ''-'' # show_nat (nat (- i)) else show_nat (nat i))"

definition hex_char :: "nat \<Rightarrow> char" where
  "hex_char d = (if d < 10 then char_of (48 + d) else char_of (87 + d))"

definition pad_left :: "nat \<Rightarrow> string \<Rightarrow> string" where
  "pad_left k s = replicate (k - length s) (CHR ''0'') @ s"

section \<open>\<open>datetime.isoformat\<close> for instants in UTC\<close>

text \<open>Civil date of a day number counted from 1970-01-01 (proleptic Gregorian calendar).\<close>

definition civil_from_days :: "int \<Rightarrow> int \<times> int \<times> int" where
  "civil_from_days z0 =
     (let z = z0 + 719468;
          era = z div 146097;
          doe = z mod 146097;
          yoe = (doe - doe div 1460 + doe div 36524 - doe div 146096) div 365;
          doy = doe - (365 * yoe + yoe div 4 - yoe div 100);
          mp = (5 * doy + 2) div 153;
          d = doy - (153 * mp + 2) div 5 + 1;
          m = (if mp < 10 then mp + 3 else mp - 9);
          y = yoe + era * 400 + (if m \<le> 2 then 1 else 0)
      in (y, m, d))"

definition two_digits :: "int \<Rightarrow> string" where
  "two_digits i = pad_left 2 (show_nat (nat i))"

definition isoformat :: "int \<Rightarrow> string" where
  "isoformat t =
     (let us = t mod 1000000; secs = t div 1000000;
          sod = secs mod 86400; days = secs div 86400;
          (y, m, d) = civil_from_days days
      in pad_left 4 (show_nat (nat y)) @ ''-'' @ two_digits m @ ''-'' @ two_digits d @ ''T'' @
         two_digits (sod div 3600) @ '':'' @ two_digits (sod mod 3600 div 60) @ '':'' @
         two_digits (sod mod 60) @
         (if us = 0 then [] else ''.'' @ pad_left 6 (show_nat (nat us))) @ ''+00:00'')"

section \<open>Serialisation\<close>

definition escape_char :: "char \<Rightarrow> string" where
  "escape_char c =
     (if c = CHR 0x22 then [CHR 0x5C, CHR 0x22]
      else if c = CHR 0x5C then [CHR 0x5C, CHR 0x5C]
      else if c = CHR 0x0A then [CHR 0x5C, CHR ''n'']
      else if c = CHR 0x0D then [CHR 0x5C, CHR ''r'']
      else if c = CHR 0x09 then [CHR 0x5C, CHR ''t'']
      else if c = CHR 0x0C then [CHR 0x5C, CHR ''f'']
      else if c = CHR 0x08 then [CHR 0x5C, CHR ''b'']
      else if (of_char c :: nat) < 32
        then [CHR 0x5C, CHR ''u'', CHR ''0'', CHR ''0'',
              hex_char ((of_char c :: nat) div 16), hex_char ((of_char c :: nat) mod 16)]
      else [c])"

definition quote :: "string \<Rightarrow> string" where
  "quote s = CHR 0x22 # concat (map escape_char s) @ [CHR 0x22]"

fun join :: "string \<Rightarrow> string list \<Rightarrow> string" where
  "join sep [] = []"
| "join sep [x] = x"
| "join sep (x # y # zs) = x @ sep @ join sep (y # zs)"

fun dumps :: "pyval \<Rightarrow> string" where
  "dumps PNone = ''null''"
| "dumps (PBool b) = (if b then ''true'' else ''false'')"
| "dumps (PInt i) = show_int i"
| "dumps (PStr s) = quote s"
| "dumps (PEnum s) = quote s"
| "dumps (PUuid s) = quote s"
| "dumps (PDatetime t) = quote (isoformat t)"
| "dumps (PList vs) = ''['' @ join '','' (map dumps vs) @ '']''"
| "dumps (PDict kvs) =
     ''{'' @ join '','' (map snd (sort_key fst
        (map (\<lambda>(k, v). (k, quote k @ '':'' @ dumps v)) kvs))) @ ''}''"

text \<open>
  \<open>_normalize_value\<close> of the audit service turns enums, identifiers and instants into strings and
  sorts dictionaries; what it returns consists of the JSON kinds only.
\<close>

fun normalize_value :: "pyval \<Rightarrow> pyval" where
  "normalize_value PNone = PNone"
| "normalize_value (PEnum s) = PStr s"
| "normalize_value (PUuid s) = PStr s"
| "normalize_value (PDatetime t) = PStr (isoformat t)"
| "normalize_value (PDict kvs) = PDict (sort_key fst (map (\<lambda>(k, v). (k, normalize_value v)) kvs))"
| "normalize_value (PList vs) = PList (map normalize_value vs)"
| "normalize_value v = v"

definition canonical_json :: "pyval \<Rightarrow> string" where
  "canonical_json v = dumps (normalize_value v)"

text \<open>The JSON values with sorted, duplicate-free dictionaries: what \<open>json.loads\<close> of a canonical text gives.\<close>

fun plain_json :: "pyval \<Rightarrow> bool" where
  "plain_json PNone = True"
| "plain_json (PBool b) = True"
| "plain_json (PInt i) = True"
| "plain_json (PStr s) = True"
| "plain_json (PList vs) = (\<forall>v\<in>set vs. plain_json v)"
| "plain_json (PDict kvs) =
     (sorted (map fst kvs) \<and> distinct (map fst kvs) \<and> (\<forall>kv\<in>set kvs. plain_json (snd kv)))"
| "plain_json _ = False"

text \<open>A Python dictionary has no duplicate keys, at any depth.\<close>

fun wf_pyval :: "pyval \<Rightarrow> bool" where
  "wf_pyval (PList vs) = (\<forall>v\<in>set vs. wf_pyval v)"
| "wf_pyval (PDict kvs) = (distinct (map fst kvs) \<and> (\<forall>kv\<in>set kvs. wf_pyval (snd kv)))"
| "wf_pyval _ = True"

end
