(* ===== verification/Canonical_Json.thy ===== *)
theory Canonical_Json
  imports Py_Json
begin

text \<open>
  The canonical serialisation is unambiguous: two normalised values with the same text are the
  same value. The proof shows that no text of a value is a prefix of the text of another value
  when what follows cannot continue a number, one lemma per kind of value.
\<close>

section \<open>Digits\<close>

definition is_digit :: "char \<Rightarrow> bool" where
  "is_digit c \<longleftrightarrow> 48 \<le> (of_char c :: nat) \<and> (of_char c :: nat) \<le> 57"

definition digits_value :: "string \<Rightarrow> nat" where
  "digits_value s = foldl (\<lambda>a c. 10 * a + ((of_char c :: nat) - 48)) 0 s"

text \<open>What follows a value: never a digit.\<close>

definition stops :: "string \<Rightarrow> bool" where
  "stops r \<longleftrightarrow> (case r of [] \<Rightarrow> True | c # _ \<Rightarrow> \<not> is_digit c)"

lemma of_char_digit_char: "d < 10 \<Longrightarrow> (of_char (digit_char d) :: nat) = 48 + d"
  by (simp add: digit_char_def)

lemma is_digit_digit_char: "d < 10 \<Longrightarrow> is_digit (digit_char d)"
  by (simp add: is_digit_def of_char_digit_char)

lemma show_nat_digits: "\<forall>c\<in>set (show_nat n). is_digit c"
proof (induction n rule: show_nat.induct)
  case (1 n)
  then show ?case
    by (cases "n < 10") (auto simp: show_nat.simps [of n] is_digit_digit_char)
qed

lemma show_nat_nonempty: "show_nat n \<noteq> []"
  by (subst show_nat.simps) simp

lemma digits_value_show_nat: "digits_value (show_nat n) = n"
proof (induction n rule: show_nat.induct)
  case (1 n)
  show ?case
  proof (cases "n < 10")
    case True
    then show ?thesis by (simp add: show_nat.simps [of n] digits_value_def of_char_digit_char)
  next
    case False
    with 1 have "digits_value (show_nat (n div 10)) = n div 10" by simp
    then show ?thesis using False
      by (simp add: show_nat.simps [of n] digits_value_def of_char_digit_char)
  qed
qed

lemma show_nat_inject [simp]: "show_nat n = show_nat m \<longleftrightarrow> n = m"
  by (metis digits_value_show_nat)

lemma takeWhile_digits:
  assumes "\<forall>c\<in>set s. is_digit c" and "stops r"
  shows "takeWhile is_digit (s @ r) = s"
  using assms by (cases r) (auto simp: stops_def takeWhile_append takeWhile_eq_all_conv)

lemma show_nat_prefix:
  assumes "show_nat n @ r = show_nat m @ r'" and "stops r" and "stops r'"
  shows "n = m \<and> r = r'"
proof -
  have "show_nat n = show_nat m"
    using assms takeWhile_digits [OF show_nat_digits] by metis
  with assms(1) show ?thesis by simp
qed

lemma show_nat_Cons: "\<exists>c t. show_nat n = c # t \<and> is_digit c"
  using show_nat_nonempty [of n] show_nat_digits [of n] by (cases "show_nat n") auto

lemma not_digit_minus [simp]: "\<not> is_digit (CHR ''-'')"
  by (simp add: is_digit_def)

lemma show_nat_not_minus: "show_nat a @ x \<noteq> CHR ''-'' # y"
  using show_nat_Cons [of a] by auto

lemma show_int_neg: "i < 0 \<Longrightarrow> show_int i @ r = CHR ''-'' # show_nat (nat (- i)) @ r"
  by (simp add: show_int_def)

lemma show_int_nonneg: "\<not> i < 0 \<Longrightarrow> show_int i @ r = show_nat (nat i) @ r"
  by (simp add: show_int_def)

lemma show_int_prefix:
  assumes eq: "show_int i @ r = show_int j @ r'" and st: "stops r" "stops r'"
  shows "i = j \<and> r = r'"
proof (cases "i < 0")
  case True
  then have "j < 0"
    using eq show_nat_not_minus [of "nat j" r' "show_nat (nat (- i)) @ r"]
    by (cases "j < 0") (simp_all add: show_int_neg show_int_nonneg)
  with True eq have "show_nat (nat (- i)) @ r = show_nat (nat (- j)) @ r'"
    by (simp add: show_int_neg)
  from show_nat_prefix [OF this st] True \<open>j < 0\<close> show ?thesis by (simp add: nat_eq_iff2)
next
  case False
  then have "\<not> j < 0"
    using eq show_nat_not_minus [of "nat i" r "show_nat (nat (- j)) @ r'"]
    by (cases "j < 0") (simp_all add: show_int_neg show_int_nonneg)
  with False eq have "show_nat (nat i) @ r = show_nat (nat j) @ r'"
    by (simp add: show_int_nonneg)
  from show_nat_prefix [OF this st] False \<open>\<not> j < 0\<close> show ?thesis by (simp add: nat_eq_iff2)
qed

section \<open>Strings\<close>

text \<open>A decoder for one escaped character, used only to show that escapes are unambiguous.\<close>

definition unhex :: "char \<Rightarrow> nat" where
  "unhex c = (if (of_char c :: nat) < 58 then of_char c - 48 else of_char c - 87)"

fun unescape :: "string \<Rightarrow> (char \<times> string) option" where
  "unescape [] = None"
| "unescape (c # s) =
     (if c \<noteq> CHR 0x5C then (if c = CHR 0x22 then None else Some (c, s))
      else case s of
        [] \<Rightarrow> None
      | e # s' \<Rightarrow>
          if e = CHR 0x22 \<or> e = CHR 0x5C then Some (e, s')
          else if e = CHR ''n'' then Some (CHR 0x0A, s')
          else if e = CHR ''r'' then Some (CHR 0x0D, s')
          else if e = CHR ''t'' then Some (CHR 0x09, s')
          else if e = CHR ''f'' then Some (CHR 0x0C, s')
          else if e = CHR ''b'' then Some (CHR 0x08, s')
          else Some (char_of (16 * unhex (s' ! 2) + unhex (s' ! 3)), drop 4 s'))"

lemma unhex_hex_char: "d < 16 \<Longrightarrow> unhex (hex_char d) = d"
  by (simp add: unhex_def hex_char_def)

lemma unescape_control:
  assumes "(of_char c :: nat) < 32"
  shows "char_of (16 * unhex (hex_char ((of_char c :: nat) div 16)) +
           unhex (hex_char ((of_char c :: nat) mod 16))) = c"
proof -
  have "(of_char c :: nat) div 16 < 16" "(of_char c :: nat) mod 16 < 16" using assms by auto
  then show ?thesis by (simp add: unhex_hex_char)
qed

lemma unescape_escape: "unescape (escape_char c @ s) = Some (c, s)"
  unfolding escape_char_def by (simp add: unescape_control)

lemma unescape_quote: "unescape (CHR 0x22 # t) = None"
  by simp

lemma escape_char_not_quote: "escape_char c @ s \<noteq> CHR 0x22 # t"
  using unescape_escape [of c s] unescape_quote [of t] by (metis option.distinct(1))

declare unescape.simps [simp del]

lemma escaped_prefix:
  "concat (map escape_char s) @ CHR 0x22 # r = concat (map escape_char s') @ CHR 0x22 # r'
     \<Longrightarrow> s = s' \<and> r = r'"
proof (induction s arbitrary: s')
  case Nil
  show ?case
  proof (cases s')
    case (Cons c t)
    with Nil show ?thesis
      using escape_char_not_quote [of c "concat (map escape_char t) @ CHR 0x22 # r'" r] by simp
  qed (use Nil in simp)
next
  case (Cons c s)
  show ?case
  proof (cases s')
    case Nil
    with Cons.prems show ?thesis
      using escape_char_not_quote [of c "concat (map escape_char s) @ CHR 0x22 # r" r'] by simp
  next
    case s': (Cons c' t)
    let ?x = "concat (map escape_char s) @ CHR 0x22 # r"
    let ?y = "concat (map escape_char t) @ CHR 0x22 # r'"
    from s' Cons.prems have eq: "escape_char c @ ?x = escape_char c' @ ?y" by simp
    have "Some (c, ?x) = Some (c', ?y)"
      using arg_cong [OF eq, of unescape] by (simp only: unescape_escape)
    then have c: "c = c'" and xy: "?x = ?y" by (simp_all only: option.inject prod.inject)
    from Cons.IH [OF xy] c s' show ?thesis by (simp only: simp_thms)
  qed
qed

lemma quote_append: "quote s @ r = CHR 0x22 # (concat (map escape_char s) @ CHR 0x22 # r)"
  by (simp add: quote_def)

lemma quote_prefix: "quote s @ r = quote s' @ r' \<Longrightarrow> s = s' \<and> r = r'"
  unfolding quote_append by (rule escaped_prefix) (simp only: list.inject)

section \<open>Kinds of values by their first character\<close>

definition char_kind :: "char \<Rightarrow> nat" where
  "char_kind c =
     (if c = CHR ''n'' then 0 else if c = CHR ''t'' \<or> c = CHR ''f'' then 1
      else if c = CHR ''-'' \<or> is_digit c then 2 else if c = CHR 0x22 then 3
      else if c = CHR ''['' then 4 else if c = CHR ''{'' then 5 else 6)"

fun val_kind :: "pyval \<Rightarrow> nat" where
  "val_kind PNone = 0"
| "val_kind (PBool b) = 1"
| "val_kind (PInt i) = 2"
| "val_kind (PList vs) = 4"
| "val_kind (PDict kvs) = 5"
| "val_kind v = 3"

lemma char_kind_digit: "is_digit c \<Longrightarrow> char_kind c = 2"
  by (auto simp: char_kind_def is_digit_def)

lemma char_kind_literals [simp]:
  "char_kind (CHR ''n'') = 0" "char_kind (CHR ''t'') = 1" "char_kind (CHR ''f'') = 1"
  "char_kind (CHR ''-'') = 2" "char_kind (CHR 0x22) = 3" "char_kind (CHR ''['') = 4"
  "char_kind (CHR ''{'') = 5" "char_kind (CHR '']'') = 6" "char_kind (CHR ''}'') = 6"
  by (simp_all add: char_kind_def is_digit_def)

lemma dumps_first: "\<exists>c t. dumps v = c # t \<and> char_kind c = val_kind v"
proof (cases v)
  case (PInt i)
  obtain c t where "show_nat (nat i) = c # t" "char_kind c = 2"
    using show_nat_Cons [of "nat i"] by (auto simp: char_kind_digit)
  with PInt show ?thesis by (simp add: show_int_def)
qed (simp_all add: quote_def)

lemma dumps_same_kind: "dumps v @ r = dumps v' @ r' \<Longrightarrow> val_kind v = val_kind v'"
  using dumps_first [of v] dumps_first [of v'] by auto

lemma val_kind_less: "val_kind v < 6"
  by (cases v) simp_all

lemma dumps_not_bracket: "dumps v @ r \<noteq> CHR '']'' # t"
proof
  assume "dumps v @ r = CHR '']'' # t"
  with dumps_first [of v] have "char_kind (CHR '']'') = val_kind v" by auto
  with val_kind_less [of v] show False by simp
qed

section \<open>Lists and dictionaries\<close>

lemma join_Cons: "join sep (x # xs) = x @ concat (map (\<lambda>y. sep @ y) xs)"
  by (induction xs arbitrary: x) auto

lemma join_map_Cons: "join sep (map f (x # xs)) = f x @ concat (map (\<lambda>y. sep @ f y) xs)"
  by (simp only: list.map join_Cons) (simp add: comp_def)

definition unambiguous :: "pyval \<Rightarrow> bool" where
  "unambiguous v \<longleftrightarrow> (\<forall>v' r r'. plain_json v' \<longrightarrow> stops r \<longrightarrow> stops r' \<longrightarrow>
     dumps v @ r = dumps v' @ r' \<longrightarrow> v = v' \<and> r = r')"

lemma unambiguousD:
  "unambiguous v \<Longrightarrow> plain_json v' \<Longrightarrow> stops r \<Longrightarrow> stops r' \<Longrightarrow>
     dumps v @ r = dumps v' @ r' \<Longrightarrow> v = v' \<and> r = r'"
  unfolding unambiguous_def by blast

lemma stops_Cons [simp]: "stops (c # r) \<longleftrightarrow> \<not> is_digit c"
  by (simp add: stops_def)

lemma stops_Nil [simp]: "stops []"
  by (simp add: stops_def)

lemma not_digit_punct [simp]:
  "\<not> is_digit (CHR '','')" "\<not> is_digit (CHR '']'')" "\<not> is_digit (CHR ''}'')"
  by (simp_all add: is_digit_def)

text \<open>
  A separated sequence of unambiguous items followed by a closing bracket is unambiguous. The
  items are the elements of a list, or the members of a dictionary.
\<close>

lemma items_prefix:
  assumes un: "\<And>x y q q'. x \<in> set xs \<Longrightarrow> y \<in> set ys \<Longrightarrow> stops q \<Longrightarrow> stops q' \<Longrightarrow>
      f x @ q = f y @ q' \<Longrightarrow> x = y \<and> q = q'"
    and cl: "close \<noteq> CHR '',''" "\<not> is_digit close"
    and eq: "concat (map (\<lambda>y. '','' @ f y) xs) @ close # r =
      concat (map (\<lambda>y. '','' @ f y) ys) @ close # r'"
  shows "xs = ys \<and> r = r'"
  using un eq
proof (induction xs arbitrary: ys)
  case Nil
  then show ?case using cl by (cases ys) auto
next
  case (Cons x xs)
  show ?case
  proof (cases ys)
    case Nil
    with Cons.prems cl show ?thesis by auto
  next
    case ys: (Cons y zs)
    let ?t = "\<lambda>us q. concat (map (\<lambda>y. '','' @ f y) us) @ close # q"
    have stops_t: "stops (?t us q)" for us q
      using cl(2) by (cases us) auto
    from Cons.prems(2) ys have "f x @ ?t xs r = f y @ ?t zs r'" by simp
    with Cons.prems(1) [of x y "?t xs r" "?t zs r'"] ys stops_t
    have xy: "x = y" and t: "?t xs r = ?t zs r'" by simp_all
    have "xs = zs \<and> r = r'"
    proof (rule Cons.IH [OF _ t])
      fix u v q q'
      assume "u \<in> set xs" "v \<in> set zs" "stops q" "stops q'" "f u @ q = f v @ q'"
      then show "u = v \<and> q = q'" using Cons.prems(1) [of u v q q'] ys by simp
    qed
    with xy ys show ?thesis by simp
  qed
qed

lemma list_items_prefix:
  assumes un: "\<And>x y q q'. x \<in> set xs \<Longrightarrow> y \<in> set ys \<Longrightarrow> stops q \<Longrightarrow> stops q' \<Longrightarrow>
      f x @ q = f y @ q' \<Longrightarrow> x = y \<and> q = q'"
    and cl: "close \<noteq> CHR '',''" "\<not> is_digit close"
    and first: "\<And>x q t. f x @ q \<noteq> close # t"
    and eq: "join '','' (map f xs) @ close # r = join '','' (map f ys) @ close # r'"
  shows "xs = ys \<and> r = r'"
proof -
  let ?t = "\<lambda>us q. concat (map (\<lambda>y. '','' @ f y) us) @ close # q"
  have stops_t: "stops (?t us q)" for us q
    using cl(2) by (cases us) auto
  have jn: "join '','' (map f (u # us)) @ close # q = f u @ ?t us q" for u us q
    by (simp only: join_map_Cons append.assoc)
  have cln: "join '','' (map f []) @ close # q = close # q" for q
    by simp
  show ?thesis
  proof (cases xs; cases ys)
    fix y zs assume "xs = []" "ys = y # zs"
    with eq have "f y @ ?t zs r' = close # r" by (simp only: jn cln)
    with first show ?thesis by blast
  next
    fix x us assume "xs = x # us" "ys = []"
    with eq have "f x @ ?t us r = close # r'" by (simp only: jn cln)
    with first show ?thesis by blast
  next
    fix x us y zs assume xs: "xs = x # us" and ys: "ys = y # zs"
    from eq have "f x @ ?t us r = f y @ ?t zs r'" by (simp only: xs ys jn)
    with un [of x y "?t us r" "?t zs r'"] xs ys stops_t
    have xy: "x = y" and t: "?t us r = ?t zs r'" by simp_all
    have "us = zs \<and> r = r'"
      by (rule items_prefix [OF _ cl t]) (use un xs ys in auto)
    with xy xs ys show ?thesis by simp
  qed (use eq in simp)
qed

section \<open>The serialisation is injective\<close>

definition member_text :: "string \<times> pyval \<Rightarrow> string" where
  "member_text kv = quote (fst kv) @ '':'' @ dumps (snd kv)"

lemma dumps_sorted_dict:
  assumes "sorted (map fst kvs)"
  shows "dumps (PDict kvs) = ''{'' @ join '','' (map member_text kvs) @ ''}''"
proof -
  let ?g = "\<lambda>(k, v). (k, quote k @ '':'' @ dumps v)"
  have m: "map fst (map ?g kvs) = map fst kvs" by auto
  have "sort_key fst (map ?g kvs) = map ?g kvs"
    by (rule sort_key_id_if_sorted) (simp only: m assms)
  moreover have "map snd (map ?g kvs) = map member_text kvs"
    by (auto simp: member_text_def)
  ultimately show ?thesis by (simp only: dumps.simps)
qed

lemma member_prefix:
  assumes "unambiguous (snd kv)" and "plain_json (snd kv')" and "stops q" and "stops q'"
    and "member_text kv @ q = member_text kv' @ q'"
  shows "kv = kv' \<and> q = q'"
proof -
  from assms(5) have "quote (fst kv) @ '':'' @ dumps (snd kv) @ q = quote (fst kv') @ '':'' @ dumps (snd kv') @ q'"
    by (simp add: member_text_def)
  from quote_prefix [OF this] have k: "fst kv = fst kv'" and "dumps (snd kv) @ q = dumps (snd kv') @ q'"
    by simp_all
  then have "snd kv = snd kv' \<and> q = q'" using unambiguousD [OF assms(1-4)] by simp
  with k show ?thesis by (simp add: prod_eq_iff)
qed

lemma member_not_brace: "member_text kv @ q \<noteq> CHR ''}'' # t"
  by (simp add: member_text_def quote_def)

lemma list_unambiguous:
  assumes IH: "\<And>v. v \<in> set vs \<Longrightarrow> unambiguous v"
  shows "unambiguous (PList vs)"
  unfolding unambiguous_def
proof (intro allI impI)
  fix v' r r'
  assume pl: "plain_json v'" and eq: "dumps (PList vs) @ r = dumps v' @ r'"
  from dumps_same_kind [OF eq] pl obtain ws where v': "v' = PList ws" by (cases v') auto
  have "vs = ws \<and> r = r'"
  proof (rule list_items_prefix [where f = dumps and close = "CHR '']''"])
    fix x y q q'
    assume "x \<in> set vs" "y \<in> set ws" "stops q" "stops q'" "dumps x @ q = dumps y @ q'"
    then show "x = y \<and> q = q'" using unambiguousD [OF IH [of x], of y q q'] pl v' by simp
  next
    show "join '','' (map dumps vs) @ CHR '']'' # r = join '','' (map dumps ws) @ CHR '']'' # r'"
      using eq v' by simp
  qed (use dumps_not_bracket in simp_all)
  with v' show "PList vs = v' \<and> r = r'" by simp
qed

lemma dict_unambiguous:
  assumes IH: "\<And>kv. kv \<in> set kvs \<Longrightarrow> unambiguous (snd kv)" and "sorted (map fst kvs)"
  shows "unambiguous (PDict kvs)"
  unfolding unambiguous_def
proof (intro allI impI)
  fix v' r r'
  assume pl: "plain_json v'" and eq: "dumps (PDict kvs) @ r = dumps v' @ r'"
  from dumps_same_kind [OF eq] pl obtain ws where v': "v' = PDict ws" by (cases v') auto
  have "kvs = ws \<and> r = r'"
  proof (rule list_items_prefix [where f = member_text and close = "CHR ''}''"])
    fix x y q q'
    assume "x \<in> set kvs" "y \<in> set ws" "stops q" "stops q'" "member_text x @ q = member_text y @ q'"
    then show "x = y \<and> q = q'" using member_prefix [of x y q q'] IH [of x] pl v' by simp
  next
    show "join '','' (map member_text kvs) @ CHR ''}'' # r = join '','' (map member_text ws) @ CHR ''}'' # r'"
      using eq v' pl assms(2) by (simp add: dumps_sorted_dict del: dumps.simps)
  qed (use member_not_brace in simp_all)
  with v' show "PDict kvs = v' \<and> r = r'" by simp
qed

lemma plain_unambiguous: "plain_json v \<Longrightarrow> unambiguous v"
proof (induction v)
  case (PList vs)
  then show ?case by (intro list_unambiguous) simp
next
  case (PDict kvs)
  have "unambiguous (snd kv)" if "kv \<in> set kvs" for kv
    using PDict.IH [OF that, of "snd kv"] PDict.prems that by (cases kv) auto
  with PDict.prems show ?case by (intro dict_unambiguous) simp_all
next
  case (PInt i)
  show ?case
    unfolding unambiguous_def
  proof (intro allI impI)
    fix v' r r' assume a: "plain_json v'" "stops r" "stops r'" and eq: "dumps (PInt i) @ r = dumps v' @ r'"
    from dumps_same_kind [OF eq] a(1) obtain j where v': "v' = PInt j" by (cases v') auto
    with eq a show_int_prefix [of i r j r'] show "PInt i = v' \<and> r = r'" by simp
  qed
next
  case (PStr s)
  show ?case
    unfolding unambiguous_def
  proof (intro allI impI)
    fix v' r r' assume a: "plain_json v'" "stops r" "stops r'" and eq: "dumps (PStr s) @ r = dumps v' @ r'"
    from dumps_same_kind [OF eq] a(1) obtain t where v': "v' = PStr t" by (cases v') auto
    with eq quote_prefix [of s r t r'] show "PStr s = v' \<and> r = r'" by simp
  qed
next
  case (PBool b)
  show ?case
    unfolding unambiguous_def
  proof (intro allI impI)
    fix v' r r' assume a: "plain_json v'" "stops r" "stops r'" and eq: "dumps (PBool b) @ r = dumps v' @ r'"
    from dumps_same_kind [OF eq] a(1) obtain c where v': "v' = PBool c" by (cases v') auto
    with eq show "PBool b = v' \<and> r = r'" by (cases b; cases c) simp_all
  qed
next
  case PNone
  show ?case
    unfolding unambiguous_def
  proof (intro allI impI)
    fix v' r r' assume a: "plain_json v'" "stops r" "stops r'" and eq: "dumps PNone @ r = dumps v' @ r'"
    from dumps_same_kind [OF eq] a(1) have v': "v' = PNone" by (cases v') auto
    with eq show "PNone = v' \<and> r = r'" by simp
  qed
qed simp_all

lemma dumps_inject_plain:
  "plain_json v \<Longrightarrow> plain_json v' \<Longrightarrow> dumps v = dumps v' \<Longrightarrow> v = v'"
  using plain_unambiguous [of v] unfolding unambiguous_def by (metis append_Nil2 stops_Nil)

text \<open>A dictionary text is followed by anything: the closing brace already ends it.\<close>

lemma dumps_dict_prefix:
  assumes "plain_json (PDict kvs)" and "plain_json (PDict ws)"
    and "dumps (PDict kvs) @ r = dumps (PDict ws) @ r'"
  shows "kvs = ws \<and> r = r'"
proof (rule list_items_prefix [where f = member_text and close = "CHR ''}''"])
  fix x y q q'
  assume "x \<in> set kvs" "y \<in> set ws" "stops q" "stops q'" "member_text x @ q = member_text y @ q'"
  then show "x = y \<and> q = q'"
    using member_prefix [of x y q q'] plain_unambiguous [of "snd x"] assms(1,2) by simp
next
  show "join '','' (map member_text kvs) @ CHR ''}'' # r = join '','' (map member_text ws) @ CHR ''}'' # r'"
    using assms by (simp add: dumps_sorted_dict del: dumps.simps)
qed (use member_not_brace in simp_all)

section \<open>Normalisation\<close>

lemma normalize_plain: "wf_pyval v \<Longrightarrow> plain_json (normalize_value v)"
proof (induction v rule: normalize_value.induct)
  case (5 kvs)
  let ?g = "\<lambda>(k, v). (k, normalize_value v)"
  have m: "map fst (map ?g kvs) = map fst kvs" by auto
  have "\<forall>kv\<in>set (map ?g kvs). plain_json (snd kv)" using 5 by auto
  moreover have "distinct (map fst (map ?g kvs))" unfolding m using "5.prems" by simp
  ultimately show ?case
    by (simp only: normalize_value.simps plain_json.simps distinct_map_sort_key sorted_sort_key set_sort)
qed auto

lemma normalize_plain_id: "plain_json v \<Longrightarrow> normalize_value v = v"
proof (induction v rule: normalize_value.induct)
  case (5 kvs)
  let ?g = "\<lambda>(k, v). (k, normalize_value v)"
  have "map ?g kvs = kvs" using 5 by (intro map_idI) auto
  then show ?case using 5 by (simp add: sort_key_id_if_sorted)
qed (auto intro: map_idI)

lemma normalize_idem: "wf_pyval v \<Longrightarrow> normalize_value (normalize_value v) = normalize_value v"
  by (simp add: normalize_plain normalize_plain_id)

lemma canonical_json_inject:
  "wf_pyval v \<Longrightarrow> wf_pyval v' \<Longrightarrow> canonical_json v = canonical_json v' \<Longrightarrow>
     normalize_value v = normalize_value v'"
  unfolding canonical_json_def by (rule dumps_inject_plain) (simp_all add: normalize_plain)

lemma canonical_json_plain: "plain_json v \<Longrightarrow> canonical_json v = dumps v"
  by (simp add: canonical_json_def normalize_plain_id)

text \<open>Serialising sorts keys and renders enums, identifiers and instants itself, so it does not see normalisation.\<close>

lemma insort_key_map: "insort_key f (g x) (map g xs) = map g (insort_key (f \<circ> g) x xs)"
  by (induction xs) simp_all

lemma sort_key_map: "sort_key f (map g xs) = map g (sort_key (f \<circ> g) xs)"
  by (induction xs) (simp_all add: insort_key_map comp_def)

lemma dumps_normalize: "dumps (normalize_value v) = dumps v"
proof (induction v rule: normalize_value.induct)
  case (5 kvs)
  let ?g = "\<lambda>(k, v). (k, quote k @ '':'' @ dumps v)" and ?n = "\<lambda>(k, v). (k, normalize_value v)"
  have f: "fst \<circ> ?g = fst" "fst \<circ> (\<lambda>(k, v). (k, dumps v)) = fst" by auto
  have "map ?g (sort_key fst (map ?n kvs)) = sort_key fst (map ?g (map ?n kvs))"
    by (simp only: sort_key_map [of fst ?g] f)
  also have "map ?g (map ?n kvs) = map ?g kvs" using 5 by auto
  finally show ?case by (simp add: sort_key_id_if_sorted del: map_map)
qed (simp_all cong: map_cong)

end
