(* ===== verification/Hash_Chain.thy ===== *)
theory Hash_Chain
  imports Neft_Prelude
begin

text \<open>
  The contract that the audit log and the internal ledger share: every record stores the hash of
  its predecessor and a hash over its own content and that value. The locale states what a client
  relies on, and the tamper-evidence argument is proved once from it.
\<close>

fun chain_from :: "(string \<Rightarrow> 'r \<Rightarrow> bool) \<Rightarrow> ('r \<Rightarrow> string) \<Rightarrow> string \<Rightarrow> 'r list \<Rightarrow> bool" where
  "chain_from link hash_of h [] = True"
| "chain_from link hash_of h (r # rs) = (link h r \<and> chain_from link hash_of (hash_of r) rs)"

definition chain_head :: "('r \<Rightarrow> string) \<Rightarrow> string \<Rightarrow> 'r list \<Rightarrow> string" where
  "chain_head hash_of h rs = (if rs = [] then h else hash_of (last rs))"

lemma chain_head_Nil [simp]: "chain_head hash_of h [] = h"
  by (simp add: chain_head_def)

lemma chain_head_Cons [simp]: "chain_head hash_of h (r # rs) = chain_head hash_of (hash_of r) rs"
  by (simp add: chain_head_def)

lemma chain_head_snoc [simp]: "chain_head hash_of h (rs @ [r]) = hash_of r"
  by (simp add: chain_head_def)

lemma chain_from_append:
  "chain_from link hash_of h (rs @ ts) \<longleftrightarrow>
     chain_from link hash_of h rs \<and> chain_from link hash_of (chain_head hash_of h rs) ts"
  by (induction rs arbitrary: h) auto

lemma chain_from_mono:
  assumes "\<And>h r. r \<in> set rs \<Longrightarrow> link h r \<Longrightarrow> link' h r"
  shows "chain_from link hash_of h rs \<Longrightarrow> chain_from link' hash_of h rs"
  using assms by (induction rs arbitrary: h) auto

definition sha_collision :: "(string \<Rightarrow> string) \<Rightarrow> bool" where
  "sha_collision sha \<longleftrightarrow> (\<exists>x y. x \<noteq> y \<and> sha x = sha y)"

locale hash_chain =
  fixes link :: "string \<Rightarrow> 'r \<Rightarrow> bool"
    and hash_of :: "'r \<Rightarrow> string"
    and content :: "'r \<Rightarrow> 'c"
    and hashed_text :: "string \<Rightarrow> 'r \<Rightarrow> string"
    and sha :: "string \<Rightarrow> string"
    and admissible :: "'r \<Rightarrow> bool"
  assumes link_hash: "link h r \<Longrightarrow> hash_of r = sha (hashed_text h r)"
    and text_determines: "admissible r \<Longrightarrow> admissible r' \<Longrightarrow> link h r \<Longrightarrow> link h' r' \<Longrightarrow>
      hashed_text h r = hashed_text h' r' \<Longrightarrow> h = h' \<and> content r = content r'"
begin

lemma link_determines:
  assumes "admissible r" "admissible r'" "link h r" "link h' r'" "hash_of r = hash_of r'"
  shows "(h = h' \<and> content r = content r') \<or> sha_collision sha"
proof (cases "hashed_text h r = hashed_text h' r'")
  case True
  with assms text_determines show ?thesis by blast
next
  case False
  moreover have "sha (hashed_text h r) = sha (hashed_text h' r')"
    using assms link_hash by metis
  ultimately show ?thesis unfolding sha_collision_def by blast
qed

lemma tamper_evident:
  assumes "\<forall>r\<in>set rs \<union> set ts. admissible r"
    and "chain_from link hash_of g rs" and "chain_from link hash_of g ts"
    and "chain_head hash_of g rs = chain_head hash_of g ts"
    and fresh: "\<And>x. sha x \<noteq> g"
  shows "map content rs = map content ts \<or> sha_collision sha"
  using assms(1-4)
proof (induction rs arbitrary: ts rule: rev_induct)
  case Nil
  show ?case
  proof (cases ts rule: rev_cases)
    case (snoc us u)
    with Nil.prems have "hash_of u = g" and "link (chain_head hash_of g us) u"
      by (simp_all add: chain_from_append)
    then show ?thesis using link_hash fresh by metis
  qed simp
next
  case (snoc r rs)
  show ?case
  proof (cases ts rule: rev_cases)
    case Nil
    with snoc.prems have "hash_of r = g" and "link (chain_head hash_of g rs) r"
      by (simp_all add: chain_from_append)
    then show ?thesis using link_hash fresh by metis
  next
    case ts: (snoc us u)
    from snoc.prems ts have l: "link (chain_head hash_of g rs) r" "link (chain_head hash_of g us) u"
      and h: "hash_of r = hash_of u" and a: "admissible r" "admissible u"
      by (simp_all add: chain_from_append)
    from link_determines [OF a l h] show ?thesis
    proof
      assume eq: "chain_head hash_of g rs = chain_head hash_of g us \<and> content r = content u"
      have "map content rs = map content us \<or> sha_collision sha"
        using snoc.prems ts eq by (intro snoc.IH) (auto simp: chain_from_append)
      with eq ts show ?thesis by auto
    qed simp
  qed
qed

end

end
