(* ===== verification/Audit_Log.thy ===== *)
theory Audit_Log
  imports Canonical_Json Hash_Chain
begin

text \<open>
  The audit service (\<open>services/audit_service.py\<close>, \<open>models/audit_log.py\<close>): sanitising payloads, appending
  records to the per-tenant hash chain, and verifying a window of the chain.
\<close>

section \<open>Data\<close>

datatype actor_type = USER | SERVICE | SYSTEM

datatype audit_visibility = PUBLIC | INTERNAL

fun actor_type_value :: "actor_type \<Rightarrow> string" where
  "actor_type_value USER = ''USER''"
| "actor_type_value SERVICE = ''SERVICE''"
| "actor_type_value SYSTEM = ''SYSTEM''"

fun visibility_value :: "audit_visibility \<Rightarrow> string" where
  "visibility_value PUBLIC = ''PUBLIC''"
| "visibility_value INTERNAL = ''INTERNAL''"

type_synonym payload = "(string \<times> pyval) list"

record request_context =
  rc_actor_type :: actor_type
  rc_actor_id :: "string option"
  rc_actor_email :: "string option"
  rc_actor_roles :: "string list option"
  rc_ip :: "string option"
  rc_user_agent :: "string option"
  rc_request_id :: "string option"
  rc_trace_id :: "string option"
  rc_tenant_id :: "int option"

definition system_context :: request_context where
  "system_context =
     \<lparr>rc_actor_type = SYSTEM, rc_actor_id = None, rc_actor_email = None, rc_actor_roles = None,
      rc_ip = None, rc_user_agent = None, rc_request_id = None, rc_trace_id = None,
      rc_tenant_id = None\<rparr>"

text \<open>The keyword arguments of \<open>AuditService.audit\<close>.\<close>

record audit_event =
  ev_event_type :: string
  ev_entity_type :: string
  ev_entity_id :: string
  ev_action :: string
  ev_visibility :: audit_visibility
  ev_before :: "payload option"
  ev_after :: "payload option"
  ev_diff :: "payload option"
  ev_external_refs :: "payload option"
  ev_reason :: "string option"
  ev_attachment_key :: "string option"

record audit_record =
  al_id :: string
  al_ts :: int
  al_tenant_id :: "int option"
  al_actor_type :: actor_type
  al_actor_id :: "string option"
  al_actor_email :: "string option"
  al_actor_roles :: "string list option"
  al_ip :: "string option"
  al_user_agent :: "string option"
  al_request_id :: "string option"
  al_trace_id :: "string option"
  al_event_type :: string
  al_entity_type :: string
  al_entity_id :: string
  al_action :: string
  al_visibility :: audit_visibility
  al_before :: pyval
  al_after :: pyval
  al_diff :: pyval
  al_external_refs :: pyval
  al_reason :: "string option"
  al_attachment_key :: "string option"
  al_prev_hash :: string
  al_hash :: string

record audit_db = session +
  audit_log :: "audit_record list"

section \<open>Sanitising payloads\<close>

definition SENSITIVE_KEYS :: "string list" where
  "SENSITIVE_KEYS = [''password'', ''pin'', ''secret'', ''token'']"

definition MAX_JSON_BYTES :: nat where
  "MAX_JSON_BYTES = 32 * 1024"

definition GENESIS_HASH :: string where
  "GENESIS_HASH = ''GENESIS''"

definition lower_char :: "char \<Rightarrow> char" where
  "lower_char c = (if 65 \<le> (of_char c :: nat) \<and> (of_char c :: nat) \<le> 90 then char_of ((of_char c :: nat) + 32) else c)"

fun occurs_in :: "string \<Rightarrow> string \<Rightarrow> bool" where
  "occurs_in pat [] = (pat = [])"
| "occurs_in pat (c # s) = (take (length pat) (c # s) = pat \<or> occurs_in pat s)"

definition sensitive_key :: "string \<Rightarrow> bool" where
  "sensitive_key k \<longleftrightarrow> k \<noteq> [] \<and> (\<exists>t\<in>set SENSITIVE_KEYS. occurs_in t (map lower_char k))"

fun mask_sensitive :: "pyval \<Rightarrow> pyval" where
  "mask_sensitive (PDict kvs) =
     PDict (map (\<lambda>(k, v). (k, if sensitive_key k then PStr ''***'' else mask_sensitive v)) kvs)"
| "mask_sensitive (PList vs) = PList (map mask_sensitive vs)"
| "mask_sensitive v = v"

definition truncate_payload :: "world \<Rightarrow> pyval \<Rightarrow> pyval" where
  "truncate_payload w p =
     (if p = PNone then PNone
      else let serialized = canonical_json p; size_bytes = length serialized in
        if size_bytes \<le> MAX_JSON_BYTES then p
        else PDict [(''_truncated'', PBool True), (''hash'', PStr (sha256_hex w serialized)),
                    (''size_bytes'', PInt (int size_bytes))])"

definition sanitize_payload :: "world \<Rightarrow> pyval \<Rightarrow> pyval" where
  "sanitize_payload w p = truncate_payload w (normalize_value (mask_sensitive p))"

definition compact_dict :: "payload \<Rightarrow> payload" where
  "compact_dict d = filter (\<lambda>(k, v). v \<noteq> PNone) d"

text \<open>
  Python equality between payload values: booleans are integers, string enums equal their value,
  dictionaries ignore order.
\<close>

fun eq_norm :: "pyval \<Rightarrow> pyval" where
  "eq_norm (PBool b) = PInt (if b then 1 else 0)"
| "eq_norm (PEnum s) = PStr s"
| "eq_norm (PList vs) = PList (map eq_norm vs)"
| "eq_norm (PDict kvs) = PDict (sort_key fst (map (\<lambda>(k, v). (k, eq_norm v)) kvs))"
| "eq_norm v = v"

definition dict_get :: "payload \<Rightarrow> string \<Rightarrow> pyval" where
  "dict_get d k = (case map_of d k of None \<Rightarrow> PNone | Some v \<Rightarrow> v)"

definition falsy_dict :: "payload option \<Rightarrow> bool" where
  "falsy_dict d = (case d of None \<Rightarrow> True | Some kvs \<Rightarrow> kvs = [])"

definition diff_payload :: "payload option \<Rightarrow> payload option \<Rightarrow> payload option" where
  "diff_payload before after =
     (case (before, after) of
        (Some b, Some a) \<Rightarrow>
          if b = [] \<or> a = [] then None
          else let keys = map fst b @ filter (\<lambda>k. k \<notin> set (map fst b)) (map fst a);
                   changed = filter (\<lambda>k. eq_norm (dict_get b k) \<noteq> eq_norm (dict_get a k)) keys;
                   diff = map (\<lambda>k. (k, PDict [(''before'', dict_get b k), (''after'', dict_get a k)])) changed
               in if diff = [] then None else Some diff
      | _ \<Rightarrow> None)"

definition opt_dict :: "payload option \<Rightarrow> pyval" where
  "opt_dict d = (case d of None \<Rightarrow> PNone | Some kvs \<Rightarrow> PDict kvs)"

section \<open>The chain\<close>

definition opt_str :: "string option \<Rightarrow> pyval" where
  "opt_str x = (case x of None \<Rightarrow> PNone | Some s \<Rightarrow> PStr s)"

definition opt_int :: "int option \<Rightarrow> pyval" where
  "opt_int x = (case x of None \<Rightarrow> PNone | Some i \<Rightarrow> PInt i)"

definition opt_strs :: "string list option \<Rightarrow> pyval" where
  "opt_strs x = (case x of None \<Rightarrow> PNone | Some ss \<Rightarrow> PList (map PStr ss))"

definition same_tenant :: "int option \<Rightarrow> audit_record \<Rightarrow> bool" where
  "same_tenant t r \<longleftrightarrow> al_tenant_id r = t"

definition record_key :: "audit_record \<Rightarrow> int \<times> string" where
  "record_key r = (al_ts r, al_id r)"

definition latest_record :: "int option \<Rightarrow> audit_record list \<Rightarrow> audit_record option" where
  "latest_record t log =
     (let rs = sort_key record_key (filter (same_tenant t) log)
      in if rs = [] then None else Some (last rs))"

definition latest_hash :: "int option \<Rightarrow> audit_record list \<Rightarrow> string" where
  "latest_hash t log = (case latest_record t log of None \<Rightarrow> GENESIS_HASH | Some r \<Rightarrow> al_hash r)"

definition hash_payload :: "world \<Rightarrow> payload \<Rightarrow> string \<Rightarrow> string" where
  "hash_payload w data prev_hash = sha256_hex w (canonical_json (PDict data) @ prev_hash)"

definition hash_data_for_record :: "audit_record \<Rightarrow> payload" where
  "hash_data_for_record r = compact_dict
     [(''id'', PStr (al_id r)),
      (''ts'', PDatetime (al_ts r)),
      (''tenant_id'', opt_int (al_tenant_id r)),
      (''actor_type'', PEnum (actor_type_value (al_actor_type r))),
      (''actor_id'', opt_str (al_actor_id r)),
      (''actor_email'', opt_str (al_actor_email r)),
      (''actor_roles'', opt_strs (al_actor_roles r)),
      (''ip'', opt_str (al_ip r)),
      (''user_agent'', opt_str (al_user_agent r)),
      (''request_id'', opt_str (al_request_id r)),
      (''trace_id'', opt_str (al_trace_id r)),
      (''event_type'', PStr (al_event_type r)),
      (''entity_type'', PStr (al_entity_type r)),
      (''entity_id'', PStr (al_entity_id r)),
      (''action'', PStr (al_action r)),
      (''visibility'', PEnum (visibility_value (al_visibility r))),
      (''before'', al_before r),
      (''after'', al_after r),
      (''diff'', al_diff r),
      (''external_refs'', al_external_refs r),
      (''reason'', opt_str (al_reason r)),
      (''attachment_key'', opt_str (al_attachment_key r))]"

text \<open>
  The record that \<open>audit\<close> builds at time \<open>now\<close> with a fresh identifier. The timestamp is moved past the
  latest record of the tenant when the clock has not advanced; \<open>record_data\<close> of the source has the
  same entries, in the same order, as \<open>_hash_data_for_record\<close> of the finished record.
\<close>

definition audit_ts :: "audit_record option \<Rightarrow> int \<Rightarrow> int" where
  "audit_ts latest now =
     (case latest of None \<Rightarrow> now | Some r \<Rightarrow> if now \<le> al_ts r then al_ts r + 1 else now)"

definition draft_audit_record ::
    "world \<Rightarrow> audit_event \<Rightarrow> request_context \<Rightarrow> audit_record list \<Rightarrow> int \<Rightarrow> string \<Rightarrow> audit_record" where
  "draft_audit_record w ev ctx log now record_id =
     \<lparr>al_id = record_id, al_ts = audit_ts (latest_record (rc_tenant_id ctx) log) now,
      al_tenant_id = rc_tenant_id ctx,
      al_actor_type = rc_actor_type ctx, al_actor_id = rc_actor_id ctx,
      al_actor_email = rc_actor_email ctx, al_actor_roles = rc_actor_roles ctx,
      al_ip = rc_ip ctx, al_user_agent = rc_user_agent ctx,
      al_request_id = rc_request_id ctx, al_trace_id = rc_trace_id ctx,
      al_event_type = ev_event_type ev, al_entity_type = ev_entity_type ev,
      al_entity_id = ev_entity_id ev, al_action = ev_action ev,
      al_visibility = ev_visibility ev,
      al_before = sanitize_payload w (opt_dict (ev_before ev)),
      al_after = sanitize_payload w (opt_dict (ev_after ev)),
      al_diff = sanitize_payload w (opt_dict
        (if falsy_dict (ev_diff ev) then diff_payload (ev_before ev) (ev_after ev) else ev_diff ev)),
      al_external_refs = sanitize_payload w (opt_dict (ev_external_refs ev)),
      al_reason = ev_reason ev, al_attachment_key = ev_attachment_key ev,
      al_prev_hash = latest_hash (rc_tenant_id ctx) log, al_hash = []\<rparr>"

definition build_audit_record ::
    "world \<Rightarrow> audit_event \<Rightarrow> request_context \<Rightarrow> audit_record list \<Rightarrow> int \<Rightarrow> string \<Rightarrow> audit_record" where
  "build_audit_record w ev ctx log now record_id =
     (let r = draft_audit_record w ev ctx log now record_id
      in r\<lparr>al_hash := hash_payload w (hash_data_for_record r) (al_prev_hash r)\<rparr>)"

definition audit ::
    "world \<Rightarrow> audit_event \<Rightarrow> request_context option \<Rightarrow> ('a audit_db_scheme, audit_record) act" where
  "audit w ev rc =
     (let ctx = (case rc of None \<Rightarrow> system_context | Some c \<Rightarrow> c) in
      and_then (now_utc w) (\<lambda>now.
      and_then (new_uuid_str w) (\<lambda>record_id.
      and_then (reading (\<lambda>s. build_audit_record w ev ctx (audit_log s) now record_id)) (\<lambda>r.
      and_then (update_state (\<lambda>s. s\<lparr>audit_log := audit_log s @ [r]\<rparr>)) (\<lambda>_.
      ret r)))))"

record chain_report =
  cr_ok :: bool
  cr_checked :: nat
  cr_broken_at_id :: "string option"
  cr_message :: string

fun verify_records :: "world \<Rightarrow> string \<Rightarrow> nat \<Rightarrow> audit_record list \<Rightarrow> chain_report" where
  "verify_records w expected_prev checked [] =
     \<lparr>cr_ok = True, cr_checked = checked, cr_broken_at_id = None, cr_message = []\<rparr>"
| "verify_records w expected_prev checked (r # rs) =
     (if al_prev_hash r \<noteq> expected_prev
      then \<lparr>cr_ok = False, cr_checked = Suc checked, cr_broken_at_id = Some (al_id r),
            cr_message = ''prev_hash mismatch''\<rparr>
      else if al_hash r \<noteq> hash_payload w (hash_data_for_record r) (al_prev_hash r)
      then \<lparr>cr_ok = False, cr_checked = Suc checked, cr_broken_at_id = Some (al_id r),
            cr_message = ''hash mismatch''\<rparr>
      else verify_records w (al_hash r) (Suc checked) rs)"

definition verify_chain ::
    "world \<Rightarrow> int \<Rightarrow> int \<Rightarrow> int option \<Rightarrow> audit_record list \<Rightarrow> chain_report" where
  "verify_chain w date_from date_to t log =
     verify_records w GENESIS_HASH 0
       (sort_key record_key
         (filter (\<lambda>r. date_from \<le> al_ts r \<and> al_ts r \<le> date_to \<and> same_tenant t r) log))"

section \<open>The invariant of the log\<close>

definition audit_link :: "world \<Rightarrow> string \<Rightarrow> audit_record \<Rightarrow> bool" where
  "audit_link w h r \<longleftrightarrow>
     al_prev_hash r = h \<and> al_hash r = hash_payload w (hash_data_for_record r) (al_prev_hash r)"

definition tenant_records :: "int option \<Rightarrow> audit_record list \<Rightarrow> audit_record list" where
  "tenant_records t log = filter (same_tenant t) log"

definition audit_chain_ok :: "world \<Rightarrow> audit_record list \<Rightarrow> bool" where
  "audit_chain_ok w log \<longleftrightarrow>
     (\<forall>t. sorted_wrt (\<lambda>a b. al_ts a < al_ts b) (tenant_records t log) \<and>
          chain_from (audit_link w) al_hash GENESIS_HASH (tenant_records t log))"

fun masked :: "pyval \<Rightarrow> bool" where
  "masked (PDict kvs) = (\<forall>kv\<in>set kvs. if sensitive_key (fst kv) then snd kv = PStr ''***'' else masked (snd kv))"
| "masked (PList vs) = (\<forall>v\<in>set vs. masked v)"
| "masked v = True"

definition record_masked :: "audit_record \<Rightarrow> bool" where
  "record_masked r \<longleftrightarrow>
     masked (al_before r) \<and> masked (al_after r) \<and> masked (al_diff r) \<and> masked (al_external_refs r)"

text \<open>The logs that calls of \<open>audit\<close> can build, interleaved with anything that does not write the log.\<close>

inductive audit_reachable :: "world \<Rightarrow> audit_db \<Rightarrow> bool" for w where
  empty_log: "audit_log s = [] \<Longrightarrow> audit_reachable w s"
| append: "audit_reachable w s \<Longrightarrow> audit w ev rc s = (Inr r, s') \<Longrightarrow> audit_reachable w s'"
| elsewhere: "audit_reachable w s \<Longrightarrow> audit_log s' = audit_log s \<Longrightarrow> audit_reachable w s'"

section \<open>Lemmas\<close>

lemma audit_apply:
  "audit w ev rc s =
     (let ctx = (case rc of None \<Rightarrow> system_context | Some c \<Rightarrow> c);
          r = build_audit_record w ev ctx (audit_log s) (time_at w (tick s)) (uuid_at w (Suc (tick s)))
      in (Inr r, s\<lparr>tick := Suc (Suc (tick s)), audit_log := audit_log s @ [r]\<rparr>))"
  by (simp add: audit_def Let_def and_then_apply)

lemma audit_effect:
  obtains r where "audit w ev rc s = (Inr r, s\<lparr>tick := Suc (Suc (tick s)), audit_log := audit_log s @ [r]\<rparr>)"
  by (simp add: audit_apply Let_def)

lemma hash_data_ignores_hash [simp]:
  "hash_data_for_record (r\<lparr>al_hash := x\<rparr>) = hash_data_for_record r"
  by (simp add: hash_data_for_record_def)

lemma build_prev_hash: "al_prev_hash (build_audit_record w ev ctx log now i) = latest_hash (rc_tenant_id ctx) log"
  by (simp add: build_audit_record_def Let_def draft_audit_record_def)

lemma build_hash:
  "al_hash (build_audit_record w ev ctx log now i) =
     hash_payload w (hash_data_for_record (build_audit_record w ev ctx log now i))
       (al_prev_hash (build_audit_record w ev ctx log now i))"
  by (simp add: build_audit_record_def Let_def)

lemma build_link: "audit_link w (latest_hash (rc_tenant_id ctx) log) (build_audit_record w ev ctx log now i)"
  using build_prev_hash build_hash by (simp add: audit_link_def)

lemma build_tenant [simp]: "al_tenant_id (build_audit_record w ev ctx log now i) = rc_tenant_id ctx"
  by (simp add: build_audit_record_def Let_def draft_audit_record_def)

lemma build_ts [simp]:
  "al_ts (build_audit_record w ev ctx log now i) = audit_ts (latest_record (rc_tenant_id ctx) log) now"
  by (simp add: build_audit_record_def Let_def draft_audit_record_def)

lemma sorted_record_key:
  "sorted_wrt (\<lambda>a b. al_ts a < al_ts b) rs \<Longrightarrow> sort_key record_key rs = rs"
  by (rule sort_key_id_if_sorted)
     (auto simp: sorted_map record_key_def less_eq_prod_def intro: sorted_wrt_mono_rel)

lemma audit_chain_okD:
  "audit_chain_ok w log \<Longrightarrow> sorted_wrt (\<lambda>a b. al_ts a < al_ts b) (tenant_records t log)"
  "audit_chain_ok w log \<Longrightarrow> chain_from (audit_link w) al_hash GENESIS_HASH (tenant_records t log)"
  by (simp_all add: audit_chain_ok_def)

lemma latest_record_ok:
  "audit_chain_ok w log \<Longrightarrow> latest_record t log =
     (if tenant_records t log = [] then None else Some (last (tenant_records t log)))"
  using sorted_record_key [OF audit_chain_okD(1), of w log t]
  by (simp add: latest_record_def tenant_records_def Let_def)

lemma latest_hash_ok:
  "audit_chain_ok w log \<Longrightarrow> latest_hash t log = chain_head al_hash GENESIS_HASH (tenant_records t log)"
  by (simp add: latest_hash_def latest_record_ok chain_head_def)

lemma audit_ts_after: "latest = Some r \<Longrightarrow> al_ts r < audit_ts latest now"
  by (simp add: audit_ts_def)

lemma sorted_wrt_le_last:
  "sorted_wrt (\<lambda>a b. al_ts a < al_ts b) rs \<Longrightarrow> r \<in> set rs \<Longrightarrow> al_ts r \<le> al_ts (last rs)"
proof (induction rs)
  case (Cons a rs)
  then show ?case by (cases "rs = []") (auto intro: order_less_imp_le)
qed simp

lemma tenant_records_append [simp]:
  "tenant_records t (log @ [r]) = tenant_records t log @ (if al_tenant_id r = t then [r] else [])"
  by (simp add: tenant_records_def same_tenant_def)

lemma audit_chain_ok_append:
  assumes ok: "audit_chain_ok w log"
  shows "audit_chain_ok w (log @ [build_audit_record w ev ctx log now i])"
proof -
  let ?r = "build_audit_record w ev ctx log now i"
  have "sorted_wrt (\<lambda>a b. al_ts a < al_ts b) (tenant_records t (log @ [?r])) \<and>
        chain_from (audit_link w) al_hash GENESIS_HASH (tenant_records t (log @ [?r]))" for t
  proof (cases "rc_tenant_id ctx = t")
    case False
    with ok show ?thesis by (simp add: audit_chain_okD)
  next
    case True
    let ?rs = "tenant_records t log"
    have "al_ts x < al_ts ?r" if "x \<in> set ?rs" for x
    proof -
      from that have "latest_record t log = Some (last ?rs)"
        by (auto simp: latest_record_ok [OF ok])
      from audit_ts_after [OF this, of now] sorted_wrt_le_last [OF audit_chain_okD(1) [OF ok] that]
      show ?thesis using True by simp
    qed
    moreover have "audit_link w (chain_head al_hash GENESIS_HASH ?rs) ?r"
      using build_link [of w ctx log] True latest_hash_ok [OF ok] by metis
    ultimately show ?thesis
      using True audit_chain_okD [OF ok, of t] by (simp add: sorted_wrt_append chain_from_append)
  qed
  then show ?thesis by (simp add: audit_chain_ok_def)
qed

lemma audit_keeps_chain:
  "audit_chain_ok w (audit_log s) \<Longrightarrow> audit w ev rc s = (res, s') \<Longrightarrow> audit_chain_ok w (audit_log s')"
  by (auto simp: audit_apply Let_def intro: audit_chain_ok_append)

lemma audit_reachable_chain: "audit_reachable w s \<Longrightarrow> audit_chain_ok w (audit_log s)"
proof (induction rule: audit_reachable.induct)
  case (empty_log s)
  then show ?case by (simp add: audit_chain_ok_def tenant_records_def)
next
  case (append s ev rc r s')
  then show ?case by (blast intro: audit_keeps_chain)
next
  case (elsewhere s s')
  then show ?case by simp
qed

lemma verify_records_ok:
  "chain_from (audit_link w) al_hash h rs \<Longrightarrow>
     verify_records w h n rs =
       \<lparr>cr_ok = True, cr_checked = n + length rs, cr_broken_at_id = None, cr_message = []\<rparr>"
  by (induction rs arbitrary: h n) (auto simp: audit_link_def)

lemma verify_records_sound:
  "cr_ok (verify_records w h n rs) \<Longrightarrow> chain_from (audit_link w) al_hash h rs"
  by (induction rs arbitrary: h n) (auto simp: audit_link_def split: if_splits)

lemma sorted_wrt_filter_ts:
  "sorted_wrt (\<lambda>a b. al_ts a < al_ts b) rs \<Longrightarrow> sorted_wrt (\<lambda>a b. al_ts a < al_ts b) (filter p rs)"
  by (rule sorted_wrt_filter)

lemma filter_upto_prefix:
  "sorted_wrt (\<lambda>a b. al_ts a < al_ts b) rs \<Longrightarrow>
     filter (\<lambda>r. al_ts r \<le> b) rs = takeWhile (\<lambda>r. al_ts r \<le> b) rs"
proof (induction rs)
  case (Cons r rs)
  show ?case
  proof (cases "al_ts r \<le> b")
    case False
    with Cons.prems have "\<forall>x\<in>set rs. \<not> al_ts x \<le> b" by auto
    then show ?thesis using False by simp
  qed (use Cons in simp)
qed simp

lemma chain_from_takeWhile: "chain_from l h g rs \<Longrightarrow> chain_from l h g (takeWhile p rs)"
  by (induction rs arbitrary: g) auto

lemma window_records:
  assumes "audit_chain_ok w log"
  shows "sort_key record_key (filter (\<lambda>r. a \<le> al_ts r \<and> al_ts r \<le> b \<and> same_tenant t r) log) =
         filter (\<lambda>r. a \<le> al_ts r \<and> al_ts r \<le> b) (tenant_records t log)"
proof -
  have f: "filter (\<lambda>r. a \<le> al_ts r \<and> al_ts r \<le> b \<and> same_tenant t r) log =
        filter (\<lambda>r. a \<le> al_ts r \<and> al_ts r \<le> b) (tenant_records t log)"
    by (simp add: tenant_records_def conj_ac)
  show ?thesis
    unfolding f by (rule sorted_record_key) (rule sorted_wrt_filter_ts [OF audit_chain_okD(1) [OF assms]])
qed

section \<open>The audit log as a hash chain\<close>

definition audit_content :: "audit_record \<Rightarrow> pyval" where
  "audit_content r = normalize_value (PDict (hash_data_for_record r))"

definition audit_text :: "world \<Rightarrow> string \<Rightarrow> audit_record \<Rightarrow> string" where
  "audit_text w h r = canonical_json (PDict (hash_data_for_record r)) @ h"

definition wf_record :: "audit_record \<Rightarrow> bool" where
  "wf_record r \<longleftrightarrow> wf_pyval (PDict (hash_data_for_record r))"

interpretation audit_chain: hash_chain "audit_link w" al_hash audit_content "audit_text w" "sha256_hex w" wf_record for w
proof
  fix h r
  assume "audit_link w h r"
  then show "al_hash r = sha256_hex w (audit_text w h r)"
    by (auto simp: audit_link_def hash_payload_def audit_text_def)
next
  fix r r' h h'
  assume wf: "wf_record r" "wf_record r'" and eq: "audit_text w h r = audit_text w h' r'"
  let ?n = "\<lambda>x. normalize_value (PDict (hash_data_for_record x))"
  obtain kvs ws where k: "?n r = PDict kvs" "?n r' = PDict ws" by simp
  have "plain_json (PDict kvs)" "plain_json (PDict ws)"
    using wf normalize_plain k unfolding wf_record_def by metis+
  then have "kvs = ws \<and> h = h'"
    by (rule dumps_dict_prefix)
       (use eq k in \<open>simp only: audit_text_def canonical_json_def\<close>)
  then show "h = h' \<and> audit_content r = audit_content r'"
    using k by (simp only: audit_content_def simp_thms)
qed

lemma linked_prev_not_genesis:
  assumes "chain_from (audit_link w) al_hash g rs" and "x \<in> set rs"
    and "\<forall>y. sha256_hex w y \<noteq> GENESIS_HASH" and "g \<noteq> GENESIS_HASH"
  shows "al_prev_hash x \<noteq> GENESIS_HASH"
  using assms
proof (induction rs arbitrary: g)
  case (Cons r rs)
  have "al_hash r \<noteq> GENESIS_HASH"
    using Cons.prems by (simp add: audit_link_def hash_payload_def)
  with Cons show ?case by (auto simp: audit_link_def)
qed simp

section \<open>Masking\<close>

lemma masked_mask: "masked (mask_sensitive v)"
  by (induction v rule: mask_sensitive.induct) auto

lemma masked_normalize: "masked v \<Longrightarrow> masked (normalize_value v)"
  by (induction v rule: normalize_value.induct) (auto split: if_splits)

lemma truncation_keys_not_sensitive [simp]:
  "\<not> sensitive_key ''_truncated''" "\<not> sensitive_key ''hash''" "\<not> sensitive_key ''size_bytes''"
  by (simp_all add: sensitive_key_def SENSITIVE_KEYS_def lower_char_def)

lemma masked_truncate: "masked v \<Longrightarrow> masked (truncate_payload w v)"
  by (auto simp: truncate_payload_def Let_def)

lemma masked_sanitize: "masked (sanitize_payload w v)"
  by (simp add: sanitize_payload_def masked_truncate masked_normalize masked_mask)

lemma build_masked: "record_masked (build_audit_record w ev ctx log now i)"
  by (simp add: record_masked_def build_audit_record_def draft_audit_record_def Let_def masked_sanitize)

lemma audit_reachable_masked: "audit_reachable w s \<Longrightarrow> \<forall>r\<in>set (audit_log s). record_masked r"
proof (induction rule: audit_reachable.induct)
  case (append s ev rc r s')
  then show ?case by (auto simp: audit_apply Let_def build_masked)
qed auto

end
