(* ===== verification/Internal_Ledger.thy ===== *)
theory Internal_Ledger
  imports Audit_Log
begin

text \<open>
  The internal double-entry ledger (\<open>services/internal_ledger.py\<close>, \<open>models/internal_ledger.py\<close>):
  idempotent posting of balanced transactions, the per-tenant chain of batch hashes and its
  verification, the typed postings of the billing and fuel flows, and the health report.
\<close>

section \<open>Data\<close>

datatype il_account_type =
    CLIENT_AR | CLIENT_CASH | PLATFORM_REVENUE | PLATFORM_FEES | TAX_VAT | PROVIDER_PAYABLE
  | SUSPENSE | SETTLEMENT_CLEARING | PARTNER_SETTLEMENT

fun il_account_type_value :: "il_account_type \<Rightarrow> string" where
  "il_account_type_value CLIENT_AR = ''CLIENT_AR''"
| "il_account_type_value CLIENT_CASH = ''CLIENT_CASH''"
| "il_account_type_value PLATFORM_REVENUE = ''PLATFORM_REVENUE''"
| "il_account_type_value PLATFORM_FEES = ''PLATFORM_FEES''"
| "il_account_type_value TAX_VAT = ''TAX_VAT''"
| "il_account_type_value PROVIDER_PAYABLE = ''PROVIDER_PAYABLE''"
| "il_account_type_value SUSPENSE = ''SUSPENSE''"
| "il_account_type_value SETTLEMENT_CLEARING = ''SETTLEMENT_CLEARING''"
| "il_account_type_value PARTNER_SETTLEMENT = ''PARTNER_SETTLEMENT''"

datatype il_account_status = ACCOUNT_ACTIVE | ACCOUNT_ARCHIVED

datatype il_transaction_type =
    INVOICE_ISSUED | PAYMENT_APPLIED | CREDIT_NOTE_APPLIED | REFUND_APPLIED
  | SETTLEMENT_ALLOCATION_CREATED | ACCOUNTING_EXPORT_CONFIRMED | FUEL_SETTLEMENT | FUEL_REVERSAL
  | ADJUSTMENT | PARTNER_PAYOUT

fun il_transaction_type_value :: "il_transaction_type \<Rightarrow> string" where
  "il_transaction_type_value INVOICE_ISSUED = ''INVOICE_ISSUED''"
| "il_transaction_type_value PAYMENT_APPLIED = ''PAYMENT_APPLIED''"
| "il_transaction_type_value CREDIT_NOTE_APPLIED = ''CREDIT_NOTE_APPLIED''"
| "il_transaction_type_value REFUND_APPLIED = ''REFUND_APPLIED''"
| "il_transaction_type_value SETTLEMENT_ALLOCATION_CREATED = ''SETTLEMENT_ALLOCATION_CREATED''"
| "il_transaction_type_value ACCOUNTING_EXPORT_CONFIRMED = ''ACCOUNTING_EXPORT_CONFIRMED''"
| "il_transaction_type_value FUEL_SETTLEMENT = ''FUEL_SETTLEMENT''"
| "il_transaction_type_value FUEL_REVERSAL = ''FUEL_REVERSAL''"
| "il_transaction_type_value ADJUSTMENT = ''ADJUSTMENT''"
| "il_transaction_type_value PARTNER_PAYOUT = ''PARTNER_PAYOUT''"

datatype il_direction = DEBIT | CREDIT

fun il_direction_value :: "il_direction \<Rightarrow> string" where
  "il_direction_value DEBIT = ''DEBIT''"
| "il_direction_value CREDIT = ''CREDIT''"

record il_account =
  acc_id :: string
  acc_tenant_id :: int
  acc_client_id :: "string option"
  acc_account_type :: il_account_type
  acc_currency :: string
  acc_status :: il_account_status

record il_transaction =
  tx_id :: string
  tx_tenant_id :: int
  tx_transaction_type :: il_transaction_type
  tx_external_ref_type :: string
  tx_external_ref_id :: string
  tx_idempotency_key :: string
  tx_total_amount :: "int option"
  tx_total_debit :: int
  tx_total_credit :: int
  tx_currency :: "string option"
  tx_batch_sequence :: int
  tx_previous_batch_hash :: string
  tx_batch_hash :: string
  tx_posted_at :: "int option"
  tx_created_at :: int
  tx_meta :: "payload option"

record il_entry =
  en_id :: string
  en_tenant_id :: int
  en_ledger_transaction_id :: string
  en_account_id :: string
  en_direction :: il_direction
  en_amount :: int
  en_currency :: string
  en_entry_hash :: string
  en_meta :: "payload option"

record il_line =
  ln_account_type :: il_account_type
  ln_client_id :: "string option"
  ln_direction :: il_direction
  ln_amount :: int
  ln_currency :: string
  ln_meta :: "payload option"

record ledger_db = audit_db +
  il_accounts :: "il_account list"
  il_transactions :: "il_transaction list"
  il_entries :: "il_entry list"

text \<open>The keyword arguments that \<open>post_transaction\<close> hands on to \<open>_get_or_create_transaction\<close>.\<close>

record post_request =
  pr_tenant_id :: int
  pr_transaction_type :: il_transaction_type
  pr_external_ref_type :: string
  pr_external_ref_id :: string
  pr_idempotency_key :: string
  pr_posted_at :: "int option"
  pr_meta :: "payload option"

section \<open>Idempotency keys (\<open>services/key_normalization.py\<close>)\<close>

definition normalize_key :: "world \<Rightarrow> string \<Rightarrow> nat \<Rightarrow> string \<Rightarrow> string" where
  "normalize_key w prefix max_len value =
     (if length value \<le> max_len then value
      else let digest = sha256_hex w value in
        if length prefix + length digest > max_len then take max_len digest else prefix @ digest)"

definition normalize_key_optional :: "world \<Rightarrow> string \<Rightarrow> nat \<Rightarrow> string option \<Rightarrow> string option" where
  "normalize_key_optional w prefix max_len value = map_option (normalize_key w prefix max_len) value"

section \<open>Hashes\<close>

definition GENESIS_BATCH_HASH :: string where
  "GENESIS_BATCH_HASH = ''GENESIS_INTERNAL_LEDGER_V1''"

definition entry_hash_for_payload :: "world \<Rightarrow> payload \<Rightarrow> string" where
  "entry_hash_for_payload w p = sha256_hex w (dumps (PDict p))"

definition meta_or_empty :: "payload option \<Rightarrow> pyval" where
  "meta_or_empty m = PDict (case m of None \<Rightarrow> [] | Some d \<Rightarrow> d)"

definition posting_dict ::
    "il_account_type \<Rightarrow> string option \<Rightarrow> il_direction \<Rightarrow> int \<Rightarrow> string \<Rightarrow> payload option \<Rightarrow> pyval" where
  "posting_dict ty client dir amount currency meta = PDict
     [(''account_type'', PStr (il_account_type_value ty)), (''client_id'', opt_str client),
      (''direction'', PStr (il_direction_value dir)), (''amount'', PInt amount),
      (''currency'', PStr currency), (''meta'', meta_or_empty meta)]"

definition canonical_postings_payload :: "il_line list \<Rightarrow> pyval list" where
  "canonical_postings_payload lines =
     map (\<lambda>l. posting_dict (ln_account_type l) (ln_client_id l) (ln_direction l) (ln_amount l)
                (ln_currency l) (ln_meta l)) lines"

definition compute_batch_hash :: "world \<Rightarrow> string \<Rightarrow> pyval list \<Rightarrow> int \<Rightarrow> int \<Rightarrow> int \<Rightarrow> string" where
  "compute_batch_hash w previous_batch_hash serialized_postings total_debit total_credit timestamp =
     sha256_hex w (dumps (PDict
       [(''previous_batch_hash'', PStr previous_batch_hash),
        (''serialized_postings'', PList serialized_postings),
        (''total_debit'', PInt total_debit), (''total_credit'', PInt total_credit),
        (''timestamp'', PStr (isoformat timestamp))]))"

section \<open>Accounts\<close>

definition account_scope :: "int \<Rightarrow> string option \<Rightarrow> il_account_type \<Rightarrow> string \<Rightarrow> il_account \<Rightarrow> bool" where
  "account_scope tenant client ty currency a \<longleftrightarrow>
     acc_tenant_id a = tenant \<and> acc_client_id a = client \<and> acc_account_type a = ty \<and> acc_currency a = currency"

text \<open>\<open>uq_internal_ledger_accounts_scope\<close>: rows with a NULL client never conflict.\<close>

definition account_conflict :: "il_account \<Rightarrow> il_account list \<Rightarrow> bool" where
  "account_conflict a rows \<longleftrightarrow> acc_client_id a \<noteq> None \<and>
     (\<exists>x\<in>set rows. account_scope (acc_tenant_id a) (acc_client_id a) (acc_account_type a) (acc_currency a) x)"

definition ensure_account ::
    "world \<Rightarrow> int \<Rightarrow> string option \<Rightarrow> il_account_type \<Rightarrow> string \<Rightarrow> ('a ledger_db_scheme, il_account) act" where
  "ensure_account w tenant client ty currency =
     and_then (query_one (account_scope tenant client ty currency) il_accounts) (\<lambda>existing.
     case existing of
       Some a \<Rightarrow> ret a
     | None \<Rightarrow>
         and_then (new_uuid_str w) (\<lambda>i.
         let a = \<lparr>acc_id = i, acc_tenant_id = tenant, acc_client_id = client,
                  acc_account_type = ty, acc_currency = currency, acc_status = ACCOUNT_ACTIVE\<rparr>
         in insert_or_else (\<lambda>s. account_conflict a (il_accounts s))
              (\<lambda>s. s\<lparr>il_accounts := il_accounts s @ [a]\<rparr>)
              (and_then (query_one (account_scope tenant client ty currency) il_accounts) (\<lambda>again.
               case again of Some b \<Rightarrow> ret b | None \<Rightarrow> raise_exc IntegrityError))
              (ret a)))"

section \<open>Transactions\<close>

definition tenant_transactions :: "int \<Rightarrow> il_transaction list \<Rightarrow> il_transaction list" where
  "tenant_transactions tenant rows = filter (\<lambda>t. tx_tenant_id t = tenant) rows"

definition by_sequence :: "il_transaction list \<Rightarrow> il_transaction list" where
  "by_sequence rows = sort_key tx_batch_sequence rows"

definition next_batch_sequence :: "int \<Rightarrow> il_transaction list \<Rightarrow> int" where
  "next_batch_sequence tenant rows =
     (let ts = by_sequence (tenant_transactions tenant rows)
      in (if ts = [] then 0 else tx_batch_sequence (last ts)) + 1)"

definition last_batch_hash :: "int \<Rightarrow> il_transaction list \<Rightarrow> string" where
  "last_batch_hash tenant rows =
     (let ts = by_sequence (tenant_transactions tenant rows)
      in if ts = [] \<or> tx_batch_hash (last ts) = [] then GENESIS_BATCH_HASH else tx_batch_hash (last ts))"

text \<open>The unique key, the unique (tenant, sequence) pair and the check \<open>total_debit = total_credit\<close>.\<close>

definition transaction_conflict :: "il_transaction \<Rightarrow> il_transaction list \<Rightarrow> bool" where
  "transaction_conflict t rows \<longleftrightarrow>
     (\<exists>x\<in>set rows. tx_idempotency_key x = tx_idempotency_key t) \<or>
     (\<exists>x\<in>set rows. tx_tenant_id x = tx_tenant_id t \<and> tx_batch_sequence x = tx_batch_sequence t) \<or>
     tx_total_debit t \<noteq> tx_total_credit t"

definition check_replay :: "il_transaction \<Rightarrow> int option \<Rightarrow> string option \<Rightarrow> unit result" where
  "check_replay existing total_amount currency =
     (if str_truthy currency \<and> str_truthy (tx_currency existing) \<and> tx_currency existing \<noteq> currency
      then Inl (ValueError ''ledger transaction currency mismatch'')
      else if total_amount \<noteq> None \<and> tx_total_amount existing \<noteq> None \<and> tx_total_amount existing \<noteq> total_amount
      then Inl (ValueError ''ledger transaction amount mismatch'')
      else Inr ())"

definition get_or_create_transaction ::
    "world \<Rightarrow> post_request \<Rightarrow> int option \<Rightarrow> string option \<Rightarrow> int option \<Rightarrow> int option \<Rightarrow> pyval list \<Rightarrow>
     ('a ledger_db_scheme, il_transaction \<times> bool) act" where
  "get_or_create_transaction w pr total_amount currency total_debit total_credit serialized_postings =
     (let key = normalize_key w ''ledger:'' 128 (pr_idempotency_key pr) in
      and_then (query_one (\<lambda>t. tx_idempotency_key t = key) il_transactions) (\<lambda>existing.
      case existing of
        Some t \<Rightarrow> and_then (lift_result (check_replay t total_amount currency)) (\<lambda>_. ret (t, True))
      | None \<Rightarrow>
          and_then (reading (\<lambda>s. next_batch_sequence (pr_tenant_id pr) (il_transactions s))) (\<lambda>sequence.
          and_then (reading (\<lambda>s. last_batch_hash (pr_tenant_id pr) (il_transactions s))) (\<lambda>previous.
          and_then (case pr_posted_at pr of Some p \<Rightarrow> ret p | None \<Rightarrow> now_utc w) (\<lambda>posted_at.
          and_then (new_uuid_str w) (\<lambda>i.
          and_then (now_utc w) (\<lambda>created_at.
          let debit = (case total_debit of Some d \<Rightarrow> d | None \<Rightarrow> int_or total_amount 0);
              credit = (case total_credit of Some c \<Rightarrow> c | None \<Rightarrow> int_or total_amount 0);
              t = \<lparr>tx_id = i, tx_tenant_id = pr_tenant_id pr,
                   tx_transaction_type = pr_transaction_type pr,
                   tx_external_ref_type = pr_external_ref_type pr,
                   tx_external_ref_id = pr_external_ref_id pr,
                   tx_idempotency_key = key, tx_total_amount = total_amount,
                   tx_total_debit = debit, tx_total_credit = credit, tx_currency = currency,
                   tx_batch_sequence = sequence, tx_previous_batch_hash = previous,
                   tx_batch_hash = compute_batch_hash w previous serialized_postings debit credit posted_at,
                   tx_posted_at = Some posted_at, tx_created_at = created_at, tx_meta = pr_meta pr\<rparr>
          in insert_or_else (\<lambda>s. transaction_conflict t (il_transactions s))
               (\<lambda>s. s\<lparr>il_transactions := il_transactions s @ [t]\<rparr>)
               (and_then (query_one (\<lambda>x. tx_idempotency_key x = key) il_transactions) (\<lambda>again.
                case again of Some x \<Rightarrow> ret (x, True) | None \<Rightarrow> raise_exc IntegrityError))
               (ret (t, False)))))))))"

definition build_entry ::
    "world \<Rightarrow> int \<Rightarrow> il_transaction \<Rightarrow> il_account \<Rightarrow> il_line \<Rightarrow> il_entry" where
  "build_entry w tenant t a l =
     \<lparr>en_id = [], en_tenant_id = tenant, en_ledger_transaction_id = tx_id t, en_account_id = acc_id a,
      en_direction = ln_direction l, en_amount = ln_amount l, en_currency = ln_currency l,
      en_entry_hash = entry_hash_for_payload w
        [(''tenant_id'', PInt tenant), (''ledger_transaction_id'', PStr (tx_id t)),
         (''account_id'', PStr (acc_id a)), (''direction'', PStr (il_direction_value (ln_direction l))),
         (''amount'', PInt (ln_amount l)), (''currency'', PStr (ln_currency l))],
      en_meta = ln_meta l\<rparr>"

definition sum_direction :: "il_direction \<Rightarrow> ('x \<Rightarrow> il_direction) \<Rightarrow> ('x \<Rightarrow> int) \<Rightarrow> 'x list \<Rightarrow> int" where
  "sum_direction d dir amount xs = sum_list (map amount (filter (\<lambda>x. dir x = d) xs))"

text \<open>\<open>account_map[str(entry.account_id)]\<close>: a missing account is a \<open>KeyError\<close>.\<close>

fun serialize_entries :: "il_account list \<Rightarrow> il_entry list \<Rightarrow> pyval list result" where
  "serialize_entries accounts [] = Inr []"
| "serialize_entries accounts (e # es) =
     (case find (\<lambda>a. acc_id a = en_account_id e) accounts of
        None \<Rightarrow> Inl KeyError
      | Some a \<Rightarrow>
          (case serialize_entries accounts es of
             Inl x \<Rightarrow> Inl x
           | Inr ds \<Rightarrow> Inr (posting_dict (acc_account_type a) (acc_client_id a) (en_direction e)
                              (en_amount e) (en_currency e) (en_meta e) # ds)))"

definition entry_payload :: "il_entry \<Rightarrow> pyval" where
  "entry_payload e = PDict
     [(''account_id'', PStr (en_account_id e)), (''direction'', PStr (il_direction_value (en_direction e))),
      (''amount'', PInt (en_amount e)), (''currency'', PStr (en_currency e)),
      (''entry_hash'', PStr (en_entry_hash e)), (''meta'', opt_dict (en_meta e))]"

definition emit_audit_event ::
    "world \<Rightarrow> il_transaction \<Rightarrow> il_entry list \<Rightarrow> string \<Rightarrow> int \<Rightarrow> ('a ledger_db_scheme, audit_record) act" where
  "emit_audit_event w t entries currency total_amount =
     audit w
       \<lparr>ev_event_type = ''ledger_transaction'', ev_entity_type = ''internal_ledger_transaction'',
        ev_entity_id = tx_id t, ev_action = il_transaction_type_value (tx_transaction_type t),
        ev_visibility = INTERNAL, ev_before = None,
        ev_after = Some
          [(''ledger_transaction_id'', PStr (tx_id t)),
           (''transaction_type'', PStr (il_transaction_type_value (tx_transaction_type t))),
           (''external_ref_type'', PStr (tx_external_ref_type t)),
           (''external_ref_id'', PStr (tx_external_ref_id t)),
           (''currency'', PStr currency), (''total_amount'', PInt total_amount),
           (''entries'', PList (map entry_payload entries))],
        ev_diff = None,
        ev_external_refs = Some
          [(''external_ref_type'', PStr (tx_external_ref_type t)),
           (''external_ref_id'', PStr (tx_external_ref_id t)),
           (''ledger_transaction_id'', PStr (tx_id t))],
        ev_reason = None, ev_attachment_key = None\<rparr>
       (Some (system_context\<lparr>rc_tenant_id := Some (tx_tenant_id t)\<rparr>))"

text \<open>Adding an entry to the session; its identifier is drawn when the row is flushed.\<close>

definition add_entry :: "world \<Rightarrow> il_entry \<Rightarrow> ('a ledger_db_scheme, il_entry) act" where
  "add_entry w e =
     and_then (new_uuid_str w) (\<lambda>i. let e' = e\<lparr>en_id := i\<rparr> in
     and_then (update_state (\<lambda>s. s\<lparr>il_entries := il_entries s @ [e']\<rparr>)) (\<lambda>_. ret e'))"

definition single_currency :: "string list \<Rightarrow> string result" where
  "single_currency cs =
     (if cs = [] then Inl (ValueError ''ledger transaction requires entries'')
      else if length (remdups cs) \<noteq> 1 then Inl (ValueError ''ledger transaction has mixed currencies'')
      else Inr (hd (remdups cs)))"

definition balanced_total ::
    "('x \<Rightarrow> il_direction) \<Rightarrow> ('x \<Rightarrow> int) \<Rightarrow> 'x list \<Rightarrow> int result" where
  "balanced_total dir amount xs =
     (if sum_direction DEBIT dir amount xs \<noteq> sum_direction CREDIT dir amount xs
      then Inl (ValueError ''ledger transaction is unbalanced'')
      else Inr (sum_direction DEBIT dir amount xs))"

definition post_entries ::
    "world \<Rightarrow> il_transaction \<Rightarrow> il_entry list \<Rightarrow> string option \<Rightarrow> ('a ledger_db_scheme, il_transaction) act" where
  "post_entries w t entries expected_currency =
     and_then (lift_result (single_currency (map en_currency entries))) (\<lambda>currency.
     and_then (asserting (\<not> (str_truthy expected_currency \<and> expected_currency \<noteq> Some currency))
                (ValueError ''ledger transaction currency mismatch'')) (\<lambda>_.
     and_then (asserting (\<not> (str_truthy (tx_currency t) \<and> tx_currency t \<noteq> Some currency))
                (ValueError ''ledger transaction currency mismatch'')) (\<lambda>_.
     and_then (lift_result (balanced_total en_direction en_amount entries)) (\<lambda>total.
     and_then (\<lambda>s. (serialize_entries (il_accounts s) entries, s)) (\<lambda>serialized.
     and_then (case tx_posted_at t of Some p \<Rightarrow> ret p | None \<Rightarrow> now_utc w) (\<lambda>posted_at.
     let t' = t\<lparr>tx_total_debit := total, tx_total_credit := total, tx_total_amount := Some total,
                tx_batch_hash := compute_batch_hash w (tx_previous_batch_hash t) serialized total total posted_at,
                tx_posted_at := Some posted_at\<rparr> in
     and_then (update_state (\<lambda>s. s\<lparr>il_transactions := store_row tx_id t' (il_transactions s)\<rparr>)) (\<lambda>_.
     and_then (for_each entries (add_entry w)) (\<lambda>added.
     and_then (emit_audit_event w t' added currency total) (\<lambda>_.
     ret t')))))))))"

definition post_transaction ::
    "world \<Rightarrow> post_request \<Rightarrow> il_line list \<Rightarrow> ('a ledger_db_scheme, il_transaction \<times> bool) act" where
  "post_transaction w pr lines =
     and_then (lift_result (single_currency (map ln_currency lines))) (\<lambda>currency.
     and_then (lift_result (balanced_total ln_direction ln_amount lines)) (\<lambda>total.
     and_then (get_or_create_transaction w pr (Some total) (Some currency) (Some total) (Some total)
                (canonical_postings_payload lines)) (\<lambda>(t, is_replay).
     if is_replay then ret (t, True)
     else
       and_then (for_each lines (\<lambda>l.
         and_then (ensure_account w (pr_tenant_id pr) (ln_client_id l) (ln_account_type l) (ln_currency l)) (\<lambda>a.
         ret (build_entry w (pr_tenant_id pr) t a l)))) (\<lambda>built.
       and_then (post_entries w t built (Some currency)) (\<lambda>t'.
       ret (t', False))))))"

section \<open>Verification of the chain\<close>

definition entries_of :: "il_transaction \<Rightarrow> il_entry list \<Rightarrow> il_entry list" where
  "entries_of t es = sort_key en_id (filter (\<lambda>e. en_ledger_transaction_id e = tx_id t) es)"

text \<open>The inner join of the entries with their accounts.\<close>

definition join_accounts :: "il_account list \<Rightarrow> il_entry list \<Rightarrow> (il_entry \<times> il_account) list" where
  "join_accounts accounts es =
     concat (map (\<lambda>e. map (\<lambda>a. (e, a)) (filter (\<lambda>a. acc_id a = en_account_id e) accounts)) es)"

definition recomputed_hash ::
    "world \<Rightarrow> il_account list \<Rightarrow> il_entry list \<Rightarrow> string \<Rightarrow> il_transaction \<Rightarrow> string" where
  "recomputed_hash w accounts es previous t =
     (let joined = join_accounts accounts (entries_of t es)
      in compute_batch_hash w previous
           (map (\<lambda>(e, a). posting_dict (acc_account_type a) (acc_client_id a) (en_direction e)
                   (en_amount e) (en_currency e) (en_meta e)) joined)
           (sum_direction DEBIT (en_direction \<circ> fst) (en_amount \<circ> fst) joined)
           (sum_direction CREDIT (en_direction \<circ> fst) (en_amount \<circ> fst) joined)
           (case tx_posted_at t of Some p \<Rightarrow> p | None \<Rightarrow> tx_created_at t))"

datatype chain_verdict =
    ChainOk
  | OutOfOrderBatch int
  | PreviousHashMismatch string
  | BatchHashMismatch string

fun verify_rows ::
    "world \<Rightarrow> il_account list \<Rightarrow> il_entry list \<Rightarrow> string \<Rightarrow> int \<Rightarrow> il_transaction list \<Rightarrow> chain_verdict" where
  "verify_rows w accounts es previous expected [] = ChainOk"
| "verify_rows w accounts es previous expected (t # ts) =
     (if tx_batch_sequence t \<noteq> expected then OutOfOrderBatch (tx_batch_sequence t)
      else if tx_previous_batch_hash t \<noteq> previous then PreviousHashMismatch (tx_id t)
      else if tx_batch_hash t \<noteq> recomputed_hash w accounts es previous t then BatchHashMismatch (tx_id t)
      else verify_rows w accounts es (tx_batch_hash t) (expected + 1) ts)"

definition verify_ledger_chain :: "world \<Rightarrow> int option \<Rightarrow> 'a ledger_db_scheme \<Rightarrow> chain_verdict" where
  "verify_ledger_chain w tenant s =
     verify_rows w (il_accounts s) (il_entries s) GENESIS_BATCH_HASH 1
       (by_sequence (case tenant of
          None \<Rightarrow> il_transactions s
        | Some t \<Rightarrow> tenant_transactions t (il_transactions s)))"

end
