(* ===== verification/Finance_Models.thy ===== *)
theory Finance_Models
  imports Internal_Ledger
begin

text \<open>
  The tables of the billing and finance services (\<open>models/invoice.py\<close>, \<open>models/finance.py\<close>,
  \<open>models/billing_period.py\<close>, \<open>models/billing_job_run.py\<close>, \<open>models/money_flow.py\<close>,
  \<open>models/legal_graph.py\<close>), added to the audit
  log and the internal ledger of the same database. Columns that no modelled operation reads or
  writes are left out; non-null integer columns are integers, so \<open>int(x or 0)\<close> is \<open>x\<close>.
\<close>

section \<open>Enumerations\<close>

datatype invoice_status =
    DRAFT | ISSUED | SENT | PARTIALLY_PAID | PAID | OVERDUE | CANCELLED | CREDITED

fun invoice_status_value :: "invoice_status \<Rightarrow> string" where
  "invoice_status_value DRAFT = ''DRAFT''"
| "invoice_status_value ISSUED = ''ISSUED''"
| "invoice_status_value SENT = ''SENT''"
| "invoice_status_value PARTIALLY_PAID = ''PARTIALLY_PAID''"
| "invoice_status_value PAID = ''PAID''"
| "invoice_status_value OVERDUE = ''OVERDUE''"
| "invoice_status_value CANCELLED = ''CANCELLED''"
| "invoice_status_value CREDITED = ''CREDITED''"

datatype invoice_pdf_status =
    PDF_NONE | PDF_QUEUED | PDF_GENERATING | PDF_READY | PDF_FAILED

datatype settlement_source_type =
    SRC_PAYMENT | SRC_CREDIT_NOTE | SRC_REFUND

fun settlement_source_type_value :: "settlement_source_type \<Rightarrow> string" where
  "settlement_source_type_value SRC_PAYMENT = ''PAYMENT''"
| "settlement_source_type_value SRC_CREDIT_NOTE = ''CREDIT_NOTE''"
| "settlement_source_type_value SRC_REFUND = ''REFUND''"

datatype payment_status = PAYMENT_POSTED | PAYMENT_FAILED

datatype credit_note_status = CREDIT_NOTE_POSTED | CREDIT_NOTE_FAILED | CREDIT_NOTE_REVERSED

datatype billing_period_type = DAILY | MONTHLY | ADHOC

datatype billing_period_status =
    OPEN | FINALIZED | LOCKED

fun billing_period_status_value :: "billing_period_status \<Rightarrow> string" where
  "billing_period_status_value OPEN = ''OPEN''"
| "billing_period_status_value FINALIZED = ''FINALIZED''"
| "billing_period_status_value LOCKED = ''LOCKED''"

datatype money_flow_state =
    MF_DRAFT | MF_AUTHORIZED | MF_PENDING_SETTLEMENT | MF_SETTLED | MF_REVERSED | MF_DISPUTED
  | MF_FAILED | MF_CANCELLED

fun money_flow_state_value :: "money_flow_state \<Rightarrow> string" where
  "money_flow_state_value MF_DRAFT = ''DRAFT''"
| "money_flow_state_value MF_AUTHORIZED = ''AUTHORIZED''"
| "money_flow_state_value MF_PENDING_SETTLEMENT = ''PENDING_SETTLEMENT''"
| "money_flow_state_value MF_SETTLED = ''SETTLED''"
| "money_flow_state_value MF_REVERSED = ''REVERSED''"
| "money_flow_state_value MF_DISPUTED = ''DISPUTED''"
| "money_flow_state_value MF_FAILED = ''FAILED''"
| "money_flow_state_value MF_CANCELLED = ''CANCELLED''"

datatype money_flow_type = FLOW_FUEL_TX | FLOW_SUBSCRIPTION_CHARGE | FLOW_INVOICE_PAYMENT | FLOW_REFUND | FLOW_PAYOUT

datatype money_flow_event_type =
    EV_AUTHORIZE | EV_SETTLE | EV_REVERSE | EV_DISPUTE_OPEN | EV_DISPUTE_RESOLVE | EV_FAIL
  | EV_CANCEL

fun money_flow_event_type_value :: "money_flow_event_type \<Rightarrow> string" where
  "money_flow_event_type_value EV_AUTHORIZE = ''AUTHORIZE''"
| "money_flow_event_type_value EV_SETTLE = ''SETTLE''"
| "money_flow_event_type_value EV_REVERSE = ''REVERSE''"
| "money_flow_event_type_value EV_DISPUTE_OPEN = ''DISPUTE_OPEN''"
| "money_flow_event_type_value EV_DISPUTE_RESOLVE = ''DISPUTE_RESOLVE''"
| "money_flow_event_type_value EV_FAIL = ''FAIL''"
| "money_flow_event_type_value EV_CANCEL = ''CANCEL''"

datatype billing_job_type =
    JOB_BILLING_DAILY | JOB_BILLING_FINALIZE | JOB_SUBSCRIPTION_BILLING | JOB_INVOICE_MONTHLY
  | JOB_RECONCILIATION | JOB_MANUAL_RUN | JOB_PDF_GENERATE | JOB_INVOICE_SEND
  | JOB_CREDIT_NOTE_PDF | JOB_FINANCE_EXPORT | JOB_BALANCE_REBUILD | JOB_CLEARING
  | JOB_CLEARING_RUN | JOB_FINANCE_PAYMENT | JOB_FINANCE_CREDIT_NOTE | JOB_BILLING_SEED

datatype billing_job_status = RUN_STARTED | RUN_SUCCESS | RUN_FAILED

datatype legal_node_type =
    NODE_DOCUMENT | NODE_DOCUMENT_FILE | NODE_DOCUMENT_ACK | NODE_CLOSING_PACKAGE
  | NODE_BILLING_PERIOD | NODE_INVOICE | NODE_SUBSCRIPTION | NODE_PAYMENT | NODE_CREDIT_NOTE
  | NODE_REFUND | NODE_SETTLEMENT_ALLOCATION | NODE_ACCOUNTING_EXPORT_BATCH | NODE_RISK_DECISION
  | NODE_OFFER | NODE_FUEL_TRANSACTION | NODE_CARD | NODE_FUEL_STATION | NODE_VEHICLE | NODE_DRIVER
  | NODE_FUEL_LIMIT | NODE_LOGISTICS_ORDER | NODE_LOGISTICS_ROUTE | NODE_LOGISTICS_STOP
  | NODE_FRAUD_SIGNAL

fun legal_node_type_value :: "legal_node_type \<Rightarrow> string" where
  "legal_node_type_value NODE_DOCUMENT = ''DOCUMENT''"
| "legal_node_type_value NODE_DOCUMENT_FILE = ''DOCUMENT_FILE''"
| "legal_node_type_value NODE_DOCUMENT_ACK = ''DOCUMENT_ACK''"
| "legal_node_type_value NODE_CLOSING_PACKAGE = ''CLOSING_PACKAGE''"
| "legal_node_type_value NODE_BILLING_PERIOD = ''BILLING_PERIOD''"
| "legal_node_type_value NODE_INVOICE = ''INVOICE''"
| "legal_node_type_value NODE_SUBSCRIPTION = ''SUBSCRIPTION''"
| "legal_node_type_value NODE_PAYMENT = ''PAYMENT''"
| "legal_node_type_value NODE_CREDIT_NOTE = ''CREDIT_NOTE''"
| "legal_node_type_value NODE_REFUND = ''REFUND''"
| "legal_node_type_value NODE_SETTLEMENT_ALLOCATION = ''SETTLEMENT_ALLOCATION''"
| "legal_node_type_value NODE_ACCOUNTING_EXPORT_BATCH = ''ACCOUNTING_EXPORT_BATCH''"
| "legal_node_type_value NODE_RISK_DECISION = ''RISK_DECISION''"
| "legal_node_type_value NODE_OFFER = ''OFFER''"
| "legal_node_type_value NODE_FUEL_TRANSACTION = ''FUEL_TRANSACTION''"
| "legal_node_type_value NODE_CARD = ''CARD''"
| "legal_node_type_value NODE_FUEL_STATION = ''FUEL_STATION''"
| "legal_node_type_value NODE_VEHICLE = ''VEHICLE''"
| "legal_node_type_value NODE_DRIVER = ''DRIVER''"
| "legal_node_type_value NODE_FUEL_LIMIT = ''FUEL_LIMIT''"
| "legal_node_type_value NODE_LOGISTICS_ORDER = ''LOGISTICS_ORDER''"
| "legal_node_type_value NODE_LOGISTICS_ROUTE = ''LOGISTICS_ROUTE''"
| "legal_node_type_value NODE_LOGISTICS_STOP = ''LOGISTICS_STOP''"
| "legal_node_type_value NODE_FRAUD_SIGNAL = ''FRAUD_SIGNAL''"

datatype legal_edge_type =
    EDGE_GENERATED_FROM | EDGE_CONFIRMS | EDGE_CLOSES | EDGE_INCLUDES | EDGE_RELATES_TO
  | EDGE_SIGNED_BY | EDGE_RISK_GATED_BY | EDGE_GATED_BY_RISK | EDGE_SETTLES | EDGE_EXPORTS
  | EDGE_REPLACES | EDGE_ALLOCATES | EDGE_OVERRIDDEN_BY

fun legal_edge_type_value :: "legal_edge_type \<Rightarrow> string" where
  "legal_edge_type_value EDGE_GENERATED_FROM = ''GENERATED_FROM''"
| "legal_edge_type_value EDGE_CONFIRMS = ''CONFIRMS''"
| "legal_edge_type_value EDGE_CLOSES = ''CLOSES''"
| "legal_edge_type_value EDGE_INCLUDES = ''INCLUDES''"
| "legal_edge_type_value EDGE_RELATES_TO = ''RELATES_TO''"
| "legal_edge_type_value EDGE_SIGNED_BY = ''SIGNED_BY''"
| "legal_edge_type_value EDGE_RISK_GATED_BY = ''RISK_GATED_BY''"
| "legal_edge_type_value EDGE_GATED_BY_RISK = ''GATED_BY_RISK''"
| "legal_edge_type_value EDGE_SETTLES = ''SETTLES''"
| "legal_edge_type_value EDGE_EXPORTS = ''EXPORTS''"
| "legal_edge_type_value EDGE_REPLACES = ''REPLACES''"
| "legal_edge_type_value EDGE_ALLOCATES = ''ALLOCATES''"
| "legal_edge_type_value EDGE_OVERRIDDEN_BY = ''OVERRIDDEN_BY''"

section \<open>Rows\<close>

text \<open>Instants are microseconds since the epoch.\<close>

record invoice =
  inv_id :: string
  inv_client_id :: string
  inv_currency :: string
  inv_billing_period_id :: "string option"
  inv_total_amount :: int
  inv_tax_amount :: int
  inv_total_with_tax :: int
  inv_amount_paid :: int
  inv_amount_due :: int
  inv_amount_refunded :: int
  inv_credited_amount :: int
  inv_status :: invoice_status
  inv_pdf_status :: invoice_pdf_status
  inv_issued_at :: "int option"
  inv_sent_at :: "int option"
  inv_paid_at :: "int option"
  inv_cancelled_at :: "int option"
  inv_credited_at :: "int option"

record invoice_transition_log =
  tl_id :: string
  tl_invoice_id :: string
  tl_from_status :: invoice_status
  tl_to_status :: invoice_status
  tl_actor :: string
  tl_reason :: string
  tl_metadata :: "payload option"

record invoice_payment =
  pay_id :: string
  pay_invoice_id :: string
  pay_amount :: int
  pay_currency :: string
  pay_provider :: "string option"
  pay_external_ref :: "string option"
  pay_idempotency_key :: string
  pay_response_hash :: string
  pay_status :: payment_status
  pay_created_at :: int

record credit_note =
  cn_id :: string
  cn_invoice_id :: string
  cn_amount :: int
  cn_currency :: string
  cn_provider :: "string option"
  cn_external_ref :: "string option"
  cn_reason :: "string option"
  cn_idempotency_key :: string
  cn_response_hash :: string
  cn_status :: credit_note_status
  cn_created_at :: int

record settlement_allocation =
  sa_id :: string
  sa_invoice_id :: string
  sa_tenant_id :: int
  sa_client_id :: string
  sa_settlement_period_id :: string
  sa_source_type :: settlement_source_type
  sa_source_id :: string
  sa_amount :: int
  sa_currency :: string
  sa_applied_at :: int
  sa_meta :: "payload option"

record billing_period =
  bp_id :: string
  bp_period_type :: billing_period_type
  bp_start_at :: int
  bp_end_at :: int
  bp_tz :: string
  bp_status :: billing_period_status
  bp_finalized_at :: "int option"
  bp_locked_at :: "int option"

record money_flow_event =
  mfe_id :: string
  mfe_tenant_id :: int
  mfe_client_id :: string
  mfe_flow_type :: money_flow_type
  mfe_flow_ref_id :: string
  mfe_state_from :: "money_flow_state option"
  mfe_state_to :: money_flow_state
  mfe_event_type :: money_flow_event_type
  mfe_idempotency_key :: string
  mfe_ledger_transaction_id :: "string option"
  mfe_meta :: "payload option"

record billing_job_run =
  jr_id :: string
  jr_job_type :: billing_job_type
  jr_params :: "payload option"
  jr_status :: billing_job_status
  jr_started_at :: int
  jr_finished_at :: "int option"
  jr_error :: "string option"
  jr_metrics :: "payload option"
  jr_celery_task_id :: "string option"
  jr_correlation_id :: "string option"
  jr_invoice_id :: "string option"
  jr_billing_period_id :: "string option"
  jr_updated_at :: int
  jr_attempts :: int
  jr_last_heartbeat_at :: "int option"
  jr_result_ref :: "payload option"

record legal_node =
  nd_id :: string
  nd_tenant_id :: int
  nd_node_type :: legal_node_type
  nd_ref_id :: string
  nd_ref_table :: "string option"
  nd_hash :: "string option"

record legal_edge =
  ed_id :: string
  ed_tenant_id :: int
  ed_edge_type :: legal_edge_type
  ed_src_node_id :: string
  ed_dst_node_id :: string
  ed_meta :: "payload option"

section \<open>The database\<close>

text \<open>Of the refund requests only the identifiers are read, by the settlement code.\<close>

record fin_db = ledger_db +
  invoices :: "invoice list"
  invoice_transition_logs :: "invoice_transition_log list"
  invoice_payments :: "invoice_payment list"
  credit_notes :: "credit_note list"
  allocations :: "settlement_allocation list"
  billing_periods :: "billing_period list"
  money_flow_events :: "money_flow_event list"
  billing_job_runs :: "billing_job_run list"
  legal_nodes :: "legal_node list"
  legal_edges :: "legal_edge list"
  refund_request_ids :: "string list"

text \<open>\<open>db.rollback()\<close>: every table is again as at the start of the transaction; clock and random source go on.\<close>

definition rollback_to :: "'a fin_db_scheme \<Rightarrow> ('a fin_db_scheme, unit) act" where
  "rollback_to base = update_state (\<lambda>s. base\<lparr>tick := tick s\<rparr>)"

lemma rollback_to_apply [simp]: "rollback_to base s = (Inr (), base\<lparr>tick := tick s\<rparr>)"
  by (simp add: rollback_to_def)

text \<open>The amount an invoice bills: \<open>int(invoice.total_with_tax or invoice.total_amount or 0)\<close>.\<close>

definition invoice_total :: "invoice \<Rightarrow> int" where
  "invoice_total i = (if inv_total_with_tax i \<noteq> 0 then inv_total_with_tax i else inv_total_amount i)"

text \<open>A changed invoice object is the row that later queries of the session see.\<close>

definition store_invoice :: "invoice \<Rightarrow> ('a fin_db_scheme, unit) act" where
  "store_invoice i = update_state (\<lambda>s. s\<lparr>invoices := store_row inv_id i (invoices s)\<rparr>)"

lemma store_invoice_apply [simp]:
  "store_invoice i s = (Inr (), s\<lparr>invoices := store_row inv_id i (invoices s)\<rparr>)"
  by (simp add: store_invoice_def)

end
