(* ===== verification/Lifecycle.thy ===== *)
theory Lifecycle
  imports Neft_Prelude
begin

text \<open>
  The contract of the lifecycle tables of the system (invoices, billing periods, money flows, EDO
  documents): a step either fails, or keeps the state, or goes to a listed successor, and every listed
  successor is the result of some step. Reachability, absorbing states and states that can never be
  reached are derived once.
\<close>

text \<open>A sequence of steps stops at the first one that raises.\<close>

fun run_steps :: "('s \<Rightarrow> 'e \<Rightarrow> 's result) \<Rightarrow> 's \<Rightarrow> 'e list \<Rightarrow> 's result" where
  "run_steps step s [] = Inr s"
| "run_steps step s (e # es) = (case step s e of Inl x \<Rightarrow> Inl x | Inr s' \<Rightarrow> run_steps step s' es)"

locale lifecycle =
  fixes step :: "'s \<Rightarrow> 'e \<Rightarrow> 's result"
    and successors :: "'s \<Rightarrow> 's list"
  assumes step_sound: "step s e = Inr s' \<Longrightarrow> s' = s \<or> s' \<in> set (successors s)"
    and step_complete: "s' \<in> set (successors s) \<Longrightarrow> \<exists>e. step s e = Inr s'"
begin

lemma run_closed:
  assumes "\<forall>x\<in>A. set (successors x) \<subseteq> A"
  shows "s \<in> A \<Longrightarrow> run_steps step s es = Inr s' \<Longrightarrow> s' \<in> A"
proof (induction es arbitrary: s)
  case (Cons e es)
  then obtain s1 where s1: "step s e = Inr s1" "run_steps step s1 es = Inr s'"
    by (auto split: sum.splits)
  with step_sound [OF s1(1)] assms Cons show ?case by blast
qed simp

lemma run_absorbed: "successors s = [] \<Longrightarrow> run_steps step s es = Inr s' \<Longrightarrow> s' = s"
  using run_closed [of "{s}" s es s'] by simp

lemma run_avoids:
  assumes "\<forall>x. y \<notin> set (successors x)" and "s \<noteq> y" and "run_steps step s es = Inr s'"
  shows "s' \<noteq> y"
  using run_closed [of "- {y}" s es s'] assms by blast

lemma run_append_one:
  "run_steps step s es = Inr s1 \<Longrightarrow> step s1 e = Inr s2 \<Longrightarrow> run_steps step s (es @ [e]) = Inr s2"
  by (induction es arbitrary: s) (auto split: sum.splits)

lemma run_iff_reachable:
  "(\<exists>es. run_steps step s es = Inr s') \<longleftrightarrow> (s, s') \<in> {(x, y). y \<in> set (successors x)}\<^sup>*"
proof
  assume "\<exists>es. run_steps step s es = Inr s'"
  then obtain es where "run_steps step s es = Inr s'" ..
  then show "(s, s') \<in> {(x, y). y \<in> set (successors x)}\<^sup>*"
  proof (induction es arbitrary: s)
    case (Cons e es)
    then obtain s1 where s1: "step s e = Inr s1" "run_steps step s1 es = Inr s'"
      by (auto split: sum.splits)
    with step_sound [OF s1(1)] Cons.IH [OF s1(2)] show ?case
      by (auto intro: converse_rtrancl_into_rtrancl)
  qed simp
next
  assume "(s, s') \<in> {(x, y). y \<in> set (successors x)}\<^sup>*"
  then show "\<exists>es. run_steps step s es = Inr s'"
  proof (induction rule: rtrancl_induct)
    case base
    show ?case by (rule exI [of _ "[]"]) simp
  next
    case (step y z)
    then show ?case using step_complete run_append_one by blast
  qed
qed

end

end
