(* ===== verification/Invoice_Machine.thy ===== *)
theory Invoice_Machine
  imports Finance_Models Lifecycle
begin

text \<open>
  The invoice lifecycle (\<open>services/invoice_state_machine.py\<close>). The decision engine is a parameter:
  \<open>decide\<close> is \<open>DecisionEngine(db).evaluate\<close> with its effect on the database. Exception messages keep
  their fixed part.
\<close>

section \<open>Decisions\<close>

datatype decision_outcome = ALLOW | DECLINE | MANUAL_REVIEW

fun decision_outcome_value :: "decision_outcome \<Rightarrow> string" where
  "decision_outcome_value ALLOW = ''ALLOW''"
| "decision_outcome_value DECLINE = ''DECLINE''"
| "decision_outcome_value MANUAL_REVIEW = ''MANUAL_REVIEW''"

record decision_context =
  dc_tenant_id :: int
  dc_client_id :: "string option"
  dc_actor_type :: string
  dc_action :: string
  dc_amount :: "int option"
  dc_currency :: "string option"
  dc_invoice_id :: "string option"
  dc_billing_period_id :: "string option"
  dc_metadata :: payload

type_synonym 'a decider = "decision_context \<Rightarrow> ('a fin_db_scheme, decision_outcome) act"

section \<open>The machine\<close>

fun invoice_successors :: "invoice_status \<Rightarrow> invoice_status list" where
  "invoice_successors DRAFT = [ISSUED]"
| "invoice_successors ISSUED = [SENT, CANCELLED]"
| "invoice_successors SENT = [PARTIALLY_PAID, PAID, CANCELLED, OVERDUE]"
| "invoice_successors PARTIALLY_PAID = [PAID, SENT]"
| "invoice_successors PAID = [PARTIALLY_PAID, SENT]"
| "invoice_successors CANCELLED = []"
| "invoice_successors OVERDUE = [PARTIALLY_PAID, PAID]"
| "invoice_successors CREDITED = []"

definition validate_allowed :: "invoice_status \<Rightarrow> invoice_status \<Rightarrow> invoice_status result" where
  "validate_allowed current target =
     (if target = current \<or> target \<in> set (invoice_successors current) then Inr target
      else Inl (InvalidTransitionError ''transition is not allowed''))"

text \<open>The three amounts a transition may book, each optional.\<close>

record amounts =
  am_payment :: "int option"
  am_credit_note :: "int option"
  am_refund :: "int option"

definition amount_of :: "int option \<Rightarrow> int" where
  "amount_of a = (case a of None \<Rightarrow> 0 | Some x \<Rightarrow> x)"

definition negative :: "int option \<Rightarrow> bool" where
  "negative a \<longleftrightarrow> (case a of None \<Rightarrow> False | Some x \<Rightarrow> x < 0)"

definition apply_amounts :: "invoice \<Rightarrow> amounts \<Rightarrow> invoice result" where
  "apply_amounts i am =
     (if negative (am_payment am) then Inl (InvoiceInvariantError ''payment_amount must be non-negative'')
      else if negative (am_credit_note am)
        then Inl (InvoiceInvariantError ''credit_note_amount must be non-negative'')
      else if negative (am_refund am) then Inl (InvoiceInvariantError ''refund_amount must be non-negative'')
      else
        let total_due = invoice_total i;
            paid = inv_amount_paid i + amount_of (am_payment am);
            credits = inv_credited_amount i + amount_of (am_credit_note am);
            refunded = inv_amount_refunded i + amount_of (am_refund am);
            due = total_due - paid - credits + refunded
        in if paid < 0 \<or> credits < 0 \<or> refunded < 0 \<or> due < 0
           then Inl (InvoiceInvariantError ''financial invariants violated'')
           else if paid + credits - refunded + due \<noteq> total_due
           then Inl (InvoiceInvariantError ''paid + credits - refunded + due must equal total'')
           else Inr (i\<lparr>inv_amount_paid := paid, inv_amount_due := due, inv_credited_amount := credits,
                       inv_amount_refunded := refunded\<rparr>))"

definition positive :: "int option \<Rightarrow> bool" where
  "positive a \<longleftrightarrow> (case a of None \<Rightarrow> False | Some x \<Rightarrow> 0 < x)"

definition validate_constraints :: "invoice \<Rightarrow> invoice_status \<Rightarrow> amounts \<Rightarrow> unit result" where
  "validate_constraints i target am =
     (let paid = inv_amount_paid i; credits = inv_credited_amount i; due = inv_amount_due i;
          refunded = inv_amount_refunded i
      in if target = CANCELLED \<and> (paid > 0 \<or> credits > 0 \<or> refunded > 0)
         then Inl (InvalidTransitionError ''cannot cancel invoice with payments or credits'')
         else if target = SENT \<and> inv_pdf_status i \<noteq> PDF_READY
         then Inl (InvalidTransitionError ''invoice pdf must be ready before sending'')
         else if target = PARTIALLY_PAID \<and> paid \<le> 0 \<and> \<not> positive (am_credit_note am)
         then Inl (InvalidTransitionError ''partial payment must be greater than zero'')
         else if target = PARTIALLY_PAID \<and> \<not> positive (am_payment am) \<and> \<not> positive (am_refund am) \<and>
           \<not> positive (am_credit_note am)
         then Inl (InvalidTransitionError ''payment, refund, or credit note amount required for partial payment'')
         else if target = PARTIALLY_PAID \<and> due < 0
         then Inl (InvalidTransitionError ''partial payment cannot overpay invoice'')
         else if target = PAID \<and> (due \<noteq> 0 \<or> paid + credits - refunded \<noteq> invoice_total i)
         then Inl (InvalidTransitionError ''invoice must be fully settled before marking as paid'')
         else if target = OVERDUE \<and> due \<le> 0
         then Inl (InvalidTransitionError ''cannot mark overdue when nothing is due'')
         else Inr ())"

definition stamp :: "int \<Rightarrow> int option \<Rightarrow> int option" where
  "stamp now old = (case old of None \<Rightarrow> Some now | Some t \<Rightarrow> Some t)"

definition update_timestamps :: "invoice \<Rightarrow> invoice_status \<Rightarrow> int \<Rightarrow> invoice" where
  "update_timestamps i target now =
     (case target of
        ISSUED \<Rightarrow> i\<lparr>inv_issued_at := stamp now (inv_issued_at i)\<rparr>
      | SENT \<Rightarrow> i\<lparr>inv_sent_at := stamp now (inv_sent_at i)\<rparr>
      | PAID \<Rightarrow> i\<lparr>inv_paid_at := stamp now (inv_paid_at i)\<rparr>
      | CANCELLED \<Rightarrow> i\<lparr>inv_cancelled_at := stamp now (inv_cancelled_at i)\<rparr>
      | CREDITED \<Rightarrow> i\<lparr>inv_credited_at := stamp now (inv_credited_at i)\<rparr>
      | _ \<Rightarrow> i)"

definition log_transition ::
    "world \<Rightarrow> invoice \<Rightarrow> invoice_status \<Rightarrow> invoice_status \<Rightarrow> string \<Rightarrow> string \<Rightarrow> payload option \<Rightarrow>
     ('a fin_db_scheme, unit) act" where
  "log_transition w i from_status to_status actor reason metadata =
     and_then (new_uuid_str w) (\<lambda>log_id.
     update_state (\<lambda>s. s\<lparr>invoice_transition_logs := invoice_transition_logs s @
       [\<lparr>tl_id = log_id, tl_invoice_id = inv_id i, tl_from_status = from_status, tl_to_status = to_status,
         tl_actor = actor, tl_reason = reason,
         tl_metadata = (if falsy_dict metadata then None else metadata)\<rparr>]\<rparr>))"

text \<open>The keyword arguments of \<open>transition\<close> other than the amounts.\<close>

record transition_request =
  tr_to :: invoice_status
  tr_actor :: string
  tr_reason :: string
  tr_metadata :: "payload option"
  tr_request_ctx :: "request_context option"

definition all_zero :: "amounts \<Rightarrow> bool" where
  "all_zero am \<longleftrightarrow> amount_of (am_payment am) = 0 \<and> amount_of (am_credit_note am) = 0 \<and> amount_of (am_refund am) = 0"

definition is_noop :: "invoice \<Rightarrow> transition_request \<Rightarrow> amounts \<Rightarrow> bool" where
  "is_noop i tr am \<longleftrightarrow> tr_to tr = inv_status i \<and> falsy_dict (tr_metadata tr) \<and> all_zero am"

text \<open>A locked billing period admits only the finance service's own updates.\<close>

definition check_period_lock :: "invoice \<Rightarrow> transition_request \<Rightarrow> amounts \<Rightarrow> ('a fin_db_scheme, unit) act" where
  "check_period_lock i tr am =
     (if \<not> str_truthy (inv_billing_period_id i) then ret ()
      else and_then (query_one (\<lambda>p. Some (bp_id p) = inv_billing_period_id i) billing_periods) (\<lambda>period.
        case period of
          None \<Rightarrow> ret ()
        | Some p \<Rightarrow>
            asserting (\<not> (bp_status p = LOCKED \<and> tr_reason tr \<noteq> ''financial_update'' \<and>
                (tr_to tr \<noteq> inv_status i \<or> \<not> all_zero am)))
              (InvalidTransitionError ''billing period is locked'')))"

definition invoice_snapshot :: "invoice \<Rightarrow> payload" where
  "invoice_snapshot i =
     [(''status'', PStr (invoice_status_value (inv_status i))), (''amount_paid'', PInt (inv_amount_paid i)),
      (''amount_due'', PInt (inv_amount_due i)), (''amount_refunded'', PInt (inv_amount_refunded i)),
      (''credited_amount'', PInt (inv_credited_amount i))]"

definition issue_context :: "invoice \<Rightarrow> request_context option \<Rightarrow> decision_context" where
  "issue_context i rc =
     \<lparr>dc_tenant_id = (case rc of None \<Rightarrow> 0 | Some c \<Rightarrow> (case rc_tenant_id c of None \<Rightarrow> 0 | Some t \<Rightarrow> t)),
      dc_client_id = Some (inv_client_id i),
      dc_actor_type =
        (case rc of None \<Rightarrow> ''SYSTEM'' | Some c \<Rightarrow> if rc_actor_type c = USER then ''ADMIN'' else ''SYSTEM''),
      dc_action = ''INVOICE_ISSUE'', dc_amount = Some (invoice_total i), dc_currency = Some (inv_currency i),
      dc_invoice_id = Some (inv_id i), dc_billing_period_id = str_or_none (inv_billing_period_id i),
      dc_metadata =
        [(''invoice_status'', PStr (invoice_status_value (inv_status i))),
         (''actor_roles'', case rc of None \<Rightarrow> PList [] | Some c \<Rightarrow> opt_strs (rc_actor_roles c)),
         (''subject_id'', PStr (inv_id i))]\<rparr>"

definition require_decision :: "'a decider \<Rightarrow> decision_context \<Rightarrow> ('a fin_db_scheme, unit) act" where
  "require_decision decide ctx =
     and_then (decide ctx) (\<lambda>outcome.
     asserting (outcome = ALLOW) (InvalidTransitionError (''DECISION_'' @ decision_outcome_value outcome)))"

definition audit_transition ::
    "world \<Rightarrow> invoice \<Rightarrow> invoice \<Rightarrow> transition_request \<Rightarrow> ('a fin_db_scheme, audit_record) act" where
  "audit_transition w before after tr =
     audit w
       \<lparr>ev_event_type = ''INVOICE_STATUS_CHANGED'', ev_entity_type = ''invoice'', ev_entity_id = inv_id after,
        ev_action = ''UPDATE_STATE'', ev_visibility = INTERNAL, ev_before = Some (invoice_snapshot before),
        ev_after = Some (invoice_snapshot after), ev_diff = None, ev_external_refs = None,
        ev_reason = Some (tr_reason tr), ev_attachment_key = None\<rparr>
       (Some (case tr_request_ctx tr of
          Some c \<Rightarrow> c
        | None \<Rightarrow> system_context\<lparr>rc_actor_type := SERVICE, rc_actor_id := Some (tr_actor tr)\<rparr>))"

text \<open>
  \<open>_apply_amounts\<close> changes the invoice object before \<open>_validate_constraints\<close> runs, so a transition that the
  constraints refuse leaves the new amounts in the session.
\<close>

definition transition ::
    "world \<Rightarrow> 'a decider \<Rightarrow> invoice \<Rightarrow> transition_request \<Rightarrow> amounts \<Rightarrow> ('a fin_db_scheme, invoice) act" where
  "transition w decide i tr am =
     (if tr_actor tr = [] then raise_exc (ValueError ''actor is required'')
      else if tr_reason tr = [] then raise_exc (ValueError ''reason is required'')
      else if is_noop i tr am then ret i
      else
        and_then (check_period_lock i tr am) (\<lambda>_.
        and_then (now_utc w) (\<lambda>now.
        and_then (lift_result (validate_allowed (inv_status i) (tr_to tr))) (\<lambda>_.
        and_then (if tr_to tr = ISSUED then require_decision decide (issue_context i (tr_request_ctx tr)) else ret ()) (\<lambda>_.
        and_then (lift_result (apply_amounts i am)) (\<lambda>i1.
        and_then (store_invoice i1) (\<lambda>_.
        and_then (lift_result (validate_constraints i1 (tr_to tr) am)) (\<lambda>_.
        let i2 = (update_timestamps i1 (tr_to tr) now)\<lparr>inv_status := tr_to tr\<rparr> in
        and_then (store_invoice i2) (\<lambda>_.
        and_then (log_transition w i2 (inv_status i) (tr_to tr) (tr_actor tr) (tr_reason tr) (tr_metadata tr)) (\<lambda>_.
        and_then (audit_transition w i i2 tr) (\<lambda>_.
        ret i2)))))))))))"

text \<open>The request that the finance service makes (\<open>FinanceService._apply_financial_transition\<close>).\<close>

definition finance_update :: "invoice_status \<Rightarrow> request_context option \<Rightarrow> transition_request" where
  "finance_update target rc =
     \<lparr>tr_to = target, tr_actor = ''finance_service'', tr_reason = ''financial_update'',
      tr_metadata = Some [(''source'', PStr ''finance'')], tr_request_ctx = rc\<rparr>"

end
