(* ===== verification/Finance_Invariants.thy ===== *)
theory Finance_Invariants
  imports Invoice_Machine
begin

text \<open>
  The financial invariants (\<open>services/finance_invariants/rules.py\<close> and \<open>checker.py\<close>): the rules as lists of
  violations, the checks that raise them as \<open>FinancialInvariantViolation\<close>, and the audit record of a
  violation. The debugging context that the checker adds under pytest is left out. The rules on
  ledger lines belong to the posting engine.
\<close>

section \<open>Rules\<close>

definition violation :: "string \<Rightarrow> pyval \<Rightarrow> pyval \<Rightarrow> invariant_violation" where
  "violation name expected actual = \<lparr>iv_name = name, iv_expected = expected, iv_actual = actual\<rparr>"

definition unless :: "bool \<Rightarrow> invariant_violation \<Rightarrow> invariant_violation list" where
  "unless ok v = (if ok then [] else [v])"

definition validate_invoice :: "invoice \<Rightarrow> invariant_violation list" where
  "validate_invoice i =
     (let total_with_tax = inv_total_with_tax i; paid = inv_amount_paid i; refunded = inv_amount_refunded i;
          credited = inv_credited_amount i; due = inv_amount_due i;
          expected_total = inv_total_amount i + inv_tax_amount i;
          expected_due = expected_total - paid - credited + refunded;
          expected_balance = paid + credited - refunded + due
      in unless (total_with_tax = expected_total)
           (violation ''invoice.total_with_tax'' (PInt expected_total) (PInt total_with_tax)) @
         unless (due = expected_due) (violation ''invoice.amount_due'' (PInt expected_due) (PInt due)) @
         unless (\<not> due < 0) (violation ''invoice.amount_due_non_negative'' (PStr ''>= 0'') (PInt due)) @
         unless (\<not> paid < 0) (violation ''invoice.amount_paid_non_negative'' (PStr ''>= 0'') (PInt paid)) @
         unless (\<not> refunded < 0) (violation ''invoice.amount_refunded_non_negative'' (PStr ''>= 0'') (PInt refunded)) @
         unless (\<not> credited < 0) (violation ''invoice.credited_amount_non_negative'' (PStr ''>= 0'') (PInt credited)) @
         unless (expected_balance = expected_total)
           (violation ''invoice.balance_equation'' (PInt expected_total)
             (PDict [(''paid'', PInt paid), (''credited'', PInt credited), (''refunded'', PInt refunded),
                     (''due'', PInt due), (''total_with_tax'', PInt total_with_tax)])))"

definition validate_payment_application :: "invoice \<Rightarrow> int \<Rightarrow> invariant_violation list" where
  "validate_payment_application i amount =
     unless (\<not> amount < 0) (violation ''payment.amount_non_negative'' (PStr ''>= 0'') (PInt amount)) @
     unless (\<not> amount > inv_amount_due i)
       (violation ''payment.amount_within_due'' (PStr (''<= '' @ show_int (inv_amount_due i))) (PInt amount)) @
     unless (inv_status i \<noteq> CANCELLED)
       (violation ''payment.invoice_status'' (PStr ''not_cancelled'')
         (PStr (invoice_status_value (inv_status i))))"

definition validate_refund :: "invoice \<Rightarrow> int \<Rightarrow> invariant_violation list" where
  "validate_refund i amount =
     (let refundable = inv_amount_paid i - inv_amount_refunded i
      in unless (\<not> amount < 0) (violation ''refund.amount_non_negative'' (PStr ''>= 0'') (PInt amount)) @
         unless (\<not> amount > refundable)
           (violation ''refund.amount_within_paid'' (PStr (''<= '' @ show_int refundable)) (PInt amount)))"

definition validate_settlement_period :: "billing_period_status \<Rightarrow> bool \<Rightarrow> invariant_violation list" where
  "validate_settlement_period status override =
     unless (\<not> (status = LOCKED \<and> \<not> override))
       (violation ''settlement.period_locked'' (PStr ''override'') (PStr (billing_period_status_value status)))"

definition validate_settlement_total :: "int \<Rightarrow> int \<Rightarrow> int \<Rightarrow> invariant_violation list" where
  "validate_settlement_total total_allocated net_coverage billed =
     unless (total_allocated = net_coverage)
       (violation ''settlement.allocations_net_matches_coverage'' (PInt net_coverage) (PInt total_allocated)) @
     unless (\<not> abs total_allocated > billed)
       (violation ''settlement.allocations_total'' (PStr (''<= '' @ show_int billed)) (PInt total_allocated))"

section \<open>The checker\<close>

definition build_error ::
    "string \<Rightarrow> string \<Rightarrow> invariant_violation list \<Rightarrow> payload option \<Rightarrow> fin_violation" where
  "build_error entity_type entity_id violations context =
     \<lparr>fv_entity_type = entity_type, fv_entity_id = entity_id, fv_ledger_transaction_id = None,
      fv_violations = violations, fv_context = context\<rparr>"

definition violation_dict :: "invariant_violation \<Rightarrow> pyval" where
  "violation_dict v = PDict [(''name'', PStr (iv_name v)), (''expected'', iv_expected v), (''actual'', iv_actual v)]"

text \<open>The invariant's name is that of the first violation; \<open>_build_error\<close> never sees an empty list.\<close>

definition invariant_name :: "fin_violation \<Rightarrow> string" where
  "invariant_name fv = (case fv_violations fv of [] \<Rightarrow> [] | v # _ \<Rightarrow> iv_name v)"

definition audit_violation ::
    "world \<Rightarrow> fin_violation \<Rightarrow> request_context option \<Rightarrow> payload \<Rightarrow> ('a audit_db_scheme, audit_record) act" where
  "audit_violation w fv rc extra =
     audit w
       \<lparr>ev_event_type = ''FINANCIAL_INVARIANT_VIOLATION'', ev_entity_type = fv_entity_type fv,
        ev_entity_id = fv_entity_id fv, ev_action = ''VALIDATE'', ev_visibility = INTERNAL, ev_before = None,
        ev_after = Some
          ([(''entity'', PStr (fv_entity_type fv)),
            (''invariants'', PList (map violation_dict (fv_violations fv))),
            (''ledger_transaction_id'', opt_str (fv_ledger_transaction_id fv))] @
           (if falsy_dict (fv_context fv) then [] else [(''context'', opt_dict (fv_context fv))]) @ extra),
        ev_diff = None, ev_external_refs = None, ev_reason = Some (invariant_name fv), ev_attachment_key = None\<rparr>
       rc"

definition invoice_allocations :: "string \<Rightarrow> settlement_allocation list \<Rightarrow> settlement_allocation list" where
  "invoice_allocations i as = filter (\<lambda>a. sa_invoice_id a = i) as"

definition alloc_total :: "settlement_source_type \<Rightarrow> settlement_allocation list \<Rightarrow> int" where
  "alloc_total ty as = sum_list (map sa_amount (filter (\<lambda>a. sa_source_type a = ty) as))"

definition checker_snapshot :: "invoice \<Rightarrow> settlement_allocation list \<Rightarrow> payload" where
  "checker_snapshot i as =
     [(''invoice_id'', PStr (inv_id i)), (''billing_period_id'', opt_str (str_or_none (inv_billing_period_id i))),
      (''currency'', PStr (inv_currency i)), (''total'', PInt (invoice_total i)),
      (''total_amount'', PInt (inv_total_amount i)), (''total_with_tax'', PInt (inv_total_with_tax i)),
      (''paid'', PInt (inv_amount_paid i)), (''refunded'', PInt (inv_amount_refunded i)),
      (''credited'', PInt (inv_credited_amount i)), (''due'', PInt (inv_amount_due i)),
      (''allocations'', PDict
        [(''count'', PInt (int (length as))), (''total_payments'', PInt (alloc_total SRC_PAYMENT as)),
         (''total_credits'', PInt (alloc_total SRC_CREDIT_NOTE as)),
         (''total_refunds'', PInt (alloc_total SRC_REFUND as)),
         (''settlement_period_ids'', PList (map PStr (sort (remdups (map sa_settlement_period_id as)))))])]"

text \<open>Raise the violations, if there are any, after auditing them when the caller wants that.\<close>

definition raise_violations ::
    "world \<Rightarrow> bool \<Rightarrow> request_context option \<Rightarrow> payload \<Rightarrow> fin_violation \<Rightarrow> ('a audit_db_scheme, unit) act" where
  "raise_violations w do_audit rc extra fv =
     (if fv_violations fv = [] then ret ()
      else and_then (if do_audit then and_then (audit_violation w fv rc extra) (\<lambda>_. ret ()) else ret ()) (\<lambda>_.
        raise_exc (FinancialInvariantViolation fv)))"

definition check_invoice ::
    "world \<Rightarrow> bool \<Rightarrow> request_context option \<Rightarrow> invoice \<Rightarrow> ('a fin_db_scheme, unit) act" where
  "check_invoice w do_audit rc i =
     and_then (reading (\<lambda>s. checker_snapshot i (invoice_allocations (inv_id i) (allocations s)))) (\<lambda>snapshot.
     raise_violations w do_audit rc [(''invoice_id'', PStr (inv_id i))]
       (build_error ''invoice'' (inv_id i) (validate_invoice i) (Some snapshot)))"

definition check_payment_application ::
    "world \<Rightarrow> bool \<Rightarrow> request_context option \<Rightarrow> invoice \<Rightarrow> int \<Rightarrow> string \<Rightarrow> ('a fin_db_scheme, unit) act" where
  "check_payment_application w do_audit rc i amount key =
     and_then (reading (\<lambda>s. checker_snapshot i (invoice_allocations (inv_id i) (allocations s)))) (\<lambda>snapshot.
     raise_violations w do_audit rc [(''invoice_id'', PStr (inv_id i))]
       (build_error ''payment'' key (validate_payment_application i amount)
         (Some ((''payment_reference'', PStr key) # snapshot))))"

definition check_refund ::
    "world \<Rightarrow> bool \<Rightarrow> request_context option \<Rightarrow> invoice \<Rightarrow> int \<Rightarrow> string \<Rightarrow> ('a fin_db_scheme, unit) act" where
  "check_refund w do_audit rc i amount reference =
     and_then (reading (\<lambda>s. checker_snapshot i (invoice_allocations (inv_id i) (allocations s)))) (\<lambda>snapshot.
     raise_violations w do_audit rc [(''invoice_id'', PStr (inv_id i)), (''refund_reference'', PStr reference)]
       (build_error ''payment'' reference (validate_refund i amount)
         (Some ((''refund_reference'', PStr reference) # snapshot))))"

definition net_coverage :: "invoice \<Rightarrow> int" where
  "net_coverage i = inv_amount_paid i - inv_amount_refunded i - inv_credited_amount i"

text \<open>The allocated totals by source, with the new amount counted in.\<close>

definition totals_with ::
    "settlement_source_type \<Rightarrow> int \<Rightarrow> settlement_allocation list \<Rightarrow> settlement_source_type \<Rightarrow> int" where
  "totals_with ty amount as t = alloc_total t as + (if t = ty then amount else 0)"

definition alloc_net :: "(settlement_source_type \<Rightarrow> int) \<Rightarrow> int" where
  "alloc_net tot = tot SRC_PAYMENT - tot SRC_CREDIT_NOTE - tot SRC_REFUND"

definition allocation_context ::
    "invoice \<Rightarrow> settlement_allocation list \<Rightarrow> int \<Rightarrow> string \<Rightarrow> settlement_source_type \<Rightarrow> string \<Rightarrow> payload" where
  "allocation_context i as amount period_id ty source_id =
     (let tot = totals_with ty amount as in
      checker_snapshot i as @
      [(''settlement_period_id'', PStr period_id), (''source_type'', PStr (settlement_source_type_value ty)),
       (''source_id'', PStr source_id),
       (''allocation_totals'', PDict
         [(''total_payments'', PInt (tot SRC_PAYMENT)), (''total_credits'', PInt (tot SRC_CREDIT_NOTE)),
          (''total_refunds'', PInt (tot SRC_REFUND)), (''allocation_count'', PInt (int (length as))),
          (''net_allocated'', PInt (alloc_net tot)), (''net_coverage'', PInt (net_coverage i))])])"

definition check_settlement_allocation ::
    "world \<Rightarrow> bool \<Rightarrow> request_context option \<Rightarrow> invoice \<Rightarrow> int \<Rightarrow> string \<Rightarrow> settlement_source_type \<Rightarrow> string \<Rightarrow> bool \<Rightarrow>
     ('a fin_db_scheme, unit) act" where
  "check_settlement_allocation w do_audit rc i amount period_id ty source_id override =
     and_then (query_one (\<lambda>p. bp_id p = period_id) billing_periods) (\<lambda>period.
     case period of
       None \<Rightarrow> raise_violations w do_audit rc []
         (build_error ''invoice'' (inv_id i)
           [violation ''settlement.period_missing'' (PStr ''period_exists'') (PStr period_id)] None)
     | Some p \<Rightarrow>
         and_then (raise_violations w do_audit rc [(''settlement_period_id'', PStr period_id)]
           (build_error ''invoice'' (inv_id i) (validate_settlement_period (bp_status p) override) None)) (\<lambda>_.
         and_then (reading (\<lambda>s. invoice_allocations (inv_id i) (allocations s))) (\<lambda>as.
         raise_violations w do_audit rc
           [(''settlement_period_id'', PStr period_id), (''invoice_total'', PInt (invoice_total i))]
           (build_error ''invoice'' (inv_id i)
             (validate_settlement_total (alloc_net (totals_with ty amount as)) (net_coverage i) (invoice_total i))
             (Some (allocation_context i as amount period_id ty source_id))))))"

section \<open>What the rules mean\<close>

lemma unless_Nil [simp]: "unless ok v = [] \<longleftrightarrow> ok"
  by (simp add: unless_def)

lemma validate_invoice_Nil:
  "validate_invoice i = [] \<longleftrightarrow>
     inv_total_with_tax i = inv_total_amount i + inv_tax_amount i \<and>
     inv_amount_paid i + inv_credited_amount i - inv_amount_refunded i + inv_amount_due i = inv_total_with_tax i \<and>
     0 \<le> inv_amount_due i \<and> 0 \<le> inv_amount_paid i \<and> 0 \<le> inv_amount_refunded i \<and> 0 \<le> inv_credited_amount i"
  by (auto simp: validate_invoice_def Let_def)

lemma validate_payment_Nil:
  "validate_payment_application i a = [] \<longleftrightarrow> 0 \<le> a \<and> a \<le> inv_amount_due i \<and> inv_status i \<noteq> CANCELLED"
  by (auto simp: validate_payment_application_def)

lemma validate_refund_Nil:
  "validate_refund i a = [] \<longleftrightarrow> 0 \<le> a \<and> a \<le> inv_amount_paid i - inv_amount_refunded i"
  by (auto simp: validate_refund_def Let_def)

lemma validate_settlement_total_Nil:
  "validate_settlement_total t n b = [] \<longleftrightarrow> t = n \<and> abs t \<le> b"
  by (auto simp: validate_settlement_total_def)

lemma raise_violations_ok [simp]:
  "fv_violations fv = [] \<Longrightarrow> raise_violations w a rc extra fv s = (Inr (), s)"
  by (simp add: raise_violations_def)

lemma raise_violations_quiet:
  "raise_violations w False rc extra fv s =
     (if fv_violations fv = [] then Inr () else Inl (FinancialInvariantViolation fv), s)"
  by (simp add: raise_violations_def)

lemma build_error_violations [simp]: "fv_violations (build_error t i vs c) = vs"
  by (simp add: build_error_def)

lemma check_invoice_quiet:
  "check_invoice w False rc i s = (r, s') \<Longrightarrow> s' = s \<and> (r = Inr () \<longleftrightarrow> validate_invoice i = [])"
  by (auto simp: check_invoice_def and_then_apply raise_violations_quiet split: if_splits)

lemma check_invoice_pass [simp]:
  "validate_invoice i = [] \<Longrightarrow> check_invoice w a rc i s = (Inr (), s)"
  by (simp add: check_invoice_def and_then_apply)

lemma check_payment_pass [simp]:
  "validate_payment_application i amt = [] \<Longrightarrow> check_payment_application w a rc i amt k s = (Inr (), s)"
  by (simp add: check_payment_application_def and_then_apply)

lemma check_refund_pass [simp]:
  "validate_refund i amt = [] \<Longrightarrow> check_refund w a rc i amt k s = (Inr (), s)"
  by (simp add: check_refund_def and_then_apply)

lemma check_settlement_allocation_pass:
  assumes "p \<in> set (billing_periods s)" and "bp_id p = pid" and "distinct (map bp_id (billing_periods s))"
    and "bp_status p = LOCKED \<longrightarrow> override"
    and "validate_settlement_total
      (alloc_net (totals_with ty amount (invoice_allocations (inv_id i) (allocations s))))
      (net_coverage i) (invoice_total i) = []"
  shows "check_settlement_allocation w a rc i amount pid ty src override s = (Inr (), s)"
proof -
  have "one_or_none (\<lambda>x. bp_id x = pid) (billing_periods s) = Inr (Some p)"
    using one_or_none_unique_key [OF assms(3,1)] assms(2) by simp
  then show ?thesis
    using assms(4,5) by (simp add: check_settlement_allocation_def and_then_apply validate_settlement_period_def)
qed

end
