(* ===== verification/Policy_Engine.thy ===== *)
theory Policy_Engine
  imports Audit_Log
begin

text \<open>
  Who may do what (\<open>services/policy/*.py\<close>): the actor read from an access token, the decision of
  \<open>PolicyEngine.check\<close> for every action, and the audit record of a denial. A token carries its claims
  as the issuer writes them, in ASCII; a claim whose value is \<open>None\<close> counts as absent.
\<close>

section \<open>Actions, actors, resources\<close>

datatype policy_action =
    BILLING_PERIOD_FINALIZE | BILLING_PERIOD_LOCK | BILLING_PERIOD_REOPEN
  | INVOICE_ISSUE | INVOICE_ADJUST | PAYMENT_APPLY | CREDIT_NOTE_CREATE
  | PAYOUT_EXPORT_CREATE | PAYOUT_EXPORT_CONFIRM | ACCOUNTING_EXPORT_CREATE | ACCOUNTING_EXPORT_CONFIRM
  | DOCUMENT_ACKNOWLEDGE | DOCUMENT_FINALIZE | DOCUMENT_SIGN_REQUEST | DOCUMENT_SEND_FOR_SIGNING
  | DOCUMENT_FINALIZE_WITH_SIGNATURE | DOCUMENT_VOID_AFTER_SIGNING
  | CLOSING_PACKAGE_ACK | CLOSING_PACKAGE_FINALIZE
  | CRM_CLIENT_MANAGE | CRM_CONTRACT_MANAGE | CRM_TARIFF_MANAGE | CRM_SUBSCRIPTION_MANAGE
  | CRM_FEATURE_TOGGLE

fun policy_action_value :: "policy_action \<Rightarrow> string" where
  "policy_action_value BILLING_PERIOD_FINALIZE = ''BILLING_PERIOD_FINALIZE''"
| "policy_action_value BILLING_PERIOD_LOCK = ''BILLING_PERIOD_LOCK''"
| "policy_action_value BILLING_PERIOD_REOPEN = ''BILLING_PERIOD_REOPEN''"
| "policy_action_value INVOICE_ISSUE = ''INVOICE_ISSUE''"
| "policy_action_value INVOICE_ADJUST = ''INVOICE_ADJUST''"
| "policy_action_value PAYMENT_APPLY = ''PAYMENT_APPLY''"
| "policy_action_value CREDIT_NOTE_CREATE = ''CREDIT_NOTE_CREATE''"
| "policy_action_value PAYOUT_EXPORT_CREATE = ''PAYOUT_EXPORT_CREATE''"
| "policy_action_value PAYOUT_EXPORT_CONFIRM = ''PAYOUT_EXPORT_CONFIRM''"
| "policy_action_value ACCOUNTING_EXPORT_CREATE = ''ACCOUNTING_EXPORT_CREATE''"
| "policy_action_value ACCOUNTING_EXPORT_CONFIRM = ''ACCOUNTING_EXPORT_CONFIRM''"
| "policy_action_value DOCUMENT_ACKNOWLEDGE = ''DOCUMENT_ACKNOWLEDGE''"
| "policy_action_value DOCUMENT_FINALIZE = ''DOCUMENT_FINALIZE''"
| "policy_action_value DOCUMENT_SIGN_REQUEST = ''DOCUMENT_SIGN_REQUEST''"
| "policy_action_value DOCUMENT_SEND_FOR_SIGNING = ''DOCUMENT_SEND_FOR_SIGNING''"
| "policy_action_value DOCUMENT_FINALIZE_WITH_SIGNATURE = ''DOCUMENT_FINALIZE_WITH_SIGNATURE''"
| "policy_action_value DOCUMENT_VOID_AFTER_SIGNING = ''DOCUMENT_VOID_AFTER_SIGNING''"
| "policy_action_value CLOSING_PACKAGE_ACK = ''CLOSING_PACKAGE_ACK''"
| "policy_action_value CLOSING_PACKAGE_FINALIZE = ''CLOSING_PACKAGE_FINALIZE''"
| "policy_action_value CRM_CLIENT_MANAGE = ''CRM_CLIENT_MANAGE''"
| "policy_action_value CRM_CONTRACT_MANAGE = ''CRM_CONTRACT_MANAGE''"
| "policy_action_value CRM_TARIFF_MANAGE = ''CRM_TARIFF_MANAGE''"
| "policy_action_value CRM_SUBSCRIPTION_MANAGE = ''CRM_SUBSCRIPTION_MANAGE''"
| "policy_action_value CRM_FEATURE_TOGGLE = ''CRM_FEATURE_TOGGLE''"

datatype actor_kind = ActorAdmin | ActorClient | ActorSystem

fun actor_kind_value :: "actor_kind \<Rightarrow> string" where
  "actor_kind_value ActorAdmin = ''ADMIN''"
| "actor_kind_value ActorClient = ''CLIENT''"
| "actor_kind_value ActorSystem = ''SYSTEM''"

text \<open>The role set is kept as a duplicate-free list.\<close>

record actor_context =
  ac_actor_type :: actor_kind
  ac_tenant_id :: int
  ac_client_id :: "string option"
  ac_roles :: "string list"
  ac_user_id :: "string option"

record resource_context =
  rs_resource_type :: string
  rs_tenant_id :: int
  rs_client_id :: "string option"
  rs_status :: "string option"

record policy_decision =
  pd_allowed :: bool
  pd_policy :: string
  pd_reason :: "string option"

section \<open>Tokens\<close>

datatype roles_claim = RolesAbsent | RolesText string | RolesList "string list"

datatype tenant_claim = TenantAbsent | TenantBool bool | TenantInt int | TenantText string

record token =
  tk_roles :: roles_claim
  tk_role :: "string option"
  tk_tenant_id :: tenant_claim
  tk_client_id :: "string option"
  tk_user_id :: "string option"
  tk_sub :: "string option"
  tk_email :: "string option"

definition is_space :: "char \<Rightarrow> bool" where
  "is_space c \<longleftrightarrow> (let n = (of_char c :: nat) in n = 32 \<or> (9 \<le> n \<and> n \<le> 13) \<or> (28 \<le> n \<and> n \<le> 31))"

definition strip :: "string \<Rightarrow> string" where
  "strip s = rev (dropWhile is_space (rev (dropWhile is_space s)))"

definition upper_char :: "char \<Rightarrow> char" where
  "upper_char c = (let n = (of_char c :: nat) in if 97 \<le> n \<and> n \<le> 122 then char_of (n - 32) else c)"

definition digit_value :: "char \<Rightarrow> nat option" where
  "digit_value c = (let n = (of_char c :: nat) in if 48 \<le> n \<and> n \<le> 57 then Some (n - 48) else None)"

text \<open>\<open>int(text)\<close>: a sign, then digits that single underscores may separate.\<close>

fun read_digits :: "bool \<Rightarrow> nat \<Rightarrow> string \<Rightarrow> nat option" where
  "read_digits after_digit n [] = (if after_digit then Some n else None)"
| "read_digits after_digit n (c # cs) =
     (case digit_value c of
        Some d \<Rightarrow> read_digits True (10 * n + d) cs
      | None \<Rightarrow> if c = CHR ''_'' \<and> after_digit then read_digits False n cs else None)"

definition read_int :: "string \<Rightarrow> int option" where
  "read_int s =
     (case s of
        [] \<Rightarrow> None
      | c # cs \<Rightarrow>
          if c = CHR ''-'' then map_option (\<lambda>n. - int n) (read_digits False 0 cs)
          else if c = CHR ''+'' then map_option int (read_digits False 0 cs)
          else map_option int (read_digits False 0 s))"

definition coerce_actor_tenant_id :: "tenant_claim \<Rightarrow> int" where
  "coerce_actor_tenant_id v =
     (case v of
        TenantAbsent \<Rightarrow> 0
      | TenantBool _ \<Rightarrow> 0
      | TenantInt i \<Rightarrow> i
      | TenantText t \<Rightarrow> (case read_int (strip t) of Some i \<Rightarrow> i | None \<Rightarrow> 0))"

definition raw_roles :: "token \<Rightarrow> string list" where
  "raw_roles tk =
     (case tk_roles tk of
        RolesAbsent \<Rightarrow> []
      | RolesText r \<Rightarrow> if r = [] then [] else [r]
      | RolesList rs \<Rightarrow> rs)"

definition normalize_role :: "string \<Rightarrow> string" where
  "normalize_role r = map (upper_char \<circ> (\<lambda>c. if c = CHR ''-'' then CHR ''_'' else c)) (strip r)"

definition normalize_roles :: "token option \<Rightarrow> string list" where
  "normalize_roles token =
     (case token of
        None \<Rightarrow> []
      | Some tk \<Rightarrow>
          remdups (map normalize_role (filter (\<lambda>r. strip r \<noteq> [])
            (raw_roles tk @ (if str_truthy (tk_role tk) then [the (tk_role tk)] else [])))))"

definition is_admin_role :: "string list \<Rightarrow> bool" where
  "is_admin_role roles \<longleftrightarrow> (\<exists>r\<in>set roles. r = ''SUPERADMIN'' \<or> take 5 r = ''ADMIN'')"

definition is_client_role :: "string list \<Rightarrow> bool" where
  "is_client_role roles \<longleftrightarrow> (\<exists>r\<in>set roles. take 6 r = ''CLIENT'')"

definition actor_from_token :: "token option \<Rightarrow> actor_context" where
  "actor_from_token token =
     (let roles = normalize_roles token;
          tenant = (case token of None \<Rightarrow> 0 | Some tk \<Rightarrow> coerce_actor_tenant_id (tk_tenant_id tk));
          client = (case token of None \<Rightarrow> None | Some tk \<Rightarrow> tk_client_id tk);
          user = (case token of None \<Rightarrow> None
                  | Some tk \<Rightarrow> if str_truthy (tk_user_id tk) then tk_user_id tk else tk_sub tk)
      in \<lparr>ac_actor_type =
            (if is_admin_role roles then ActorAdmin
             else if is_client_role roles \<or> str_truthy client then ActorClient
             else ActorSystem),
          ac_tenant_id = tenant, ac_client_id = client, ac_roles = roles, ac_user_id = user\<rparr>)"

section \<open>\<open>PolicyEngine.check\<close>\<close>

definition ADMIN_FINANCE_ROLES :: "string list" where
  "ADMIN_FINANCE_ROLES = [''ADMIN_FINANCE'', ''SUPERADMIN'']"

definition ADMIN_ACCOUNTING_ROLES :: "string list" where
  "ADMIN_ACCOUNTING_ROLES = [''ADMIN_ACCOUNTING'', ''SUPERADMIN'']"

definition ADMIN_EXPORT_ROLES :: "string list" where
  "ADMIN_EXPORT_ROLES = [''ADMIN_FINANCE'', ''ADMIN_ACCOUNTING'', ''SUPERADMIN'']"

definition CLIENT_ACK_ROLES :: "string list" where
  "CLIENT_ACK_ROLES = [''CLIENT_OWNER'', ''CLIENT_ADMIN'']"

definition ADMIN_CRM_ROLES :: "string list" where
  "ADMIN_CRM_ROLES = [''ADMIN'', ''FINANCE'', ''ADMIN_FINANCE'', ''SUPERADMIN'']"

definition allow :: "string \<Rightarrow> policy_decision" where
  "allow policy = \<lparr>pd_allowed = True, pd_policy = policy, pd_reason = None\<rparr>"

definition deny :: "string \<Rightarrow> string \<Rightarrow> policy_decision" where
  "deny policy reason = \<lparr>pd_allowed = False, pd_policy = policy, pd_reason = Some reason\<rparr>"

definition has_role :: "actor_context \<Rightarrow> string list \<Rightarrow> bool" where
  "has_role actor roles \<longleftrightarrow> (\<exists>r\<in>set (ac_roles actor). r \<in> set roles)"

definition require_admin :: "actor_context \<Rightarrow> string \<Rightarrow> policy_decision option" where
  "require_admin actor policy =
     (if ac_actor_type actor \<noteq> ActorAdmin then Some (deny policy ''actor_not_admin'') else None)"

definition billing_period_finalize :: "actor_context \<Rightarrow> resource_context \<Rightarrow> policy_decision" where
  "billing_period_finalize actor resource =
     (case require_admin actor ''billing_period_finalize_admin_only'' of
        Some denial \<Rightarrow> denial
      | None \<Rightarrow>
          if \<not> has_role actor ADMIN_FINANCE_ROLES then deny ''billing_period_finalize_role'' ''missing_role''
          else if rs_status resource \<noteq> Some ''OPEN'' then deny ''billing_period_finalize_status'' ''status_not_open''
          else allow ''billing_period_finalize_allowed'')"

definition billing_period_lock :: "actor_context \<Rightarrow> resource_context \<Rightarrow> policy_decision" where
  "billing_period_lock actor resource =
     (case require_admin actor ''billing_period_lock_admin_only'' of
        Some denial \<Rightarrow> denial
      | None \<Rightarrow>
          if \<not> has_role actor ADMIN_FINANCE_ROLES then deny ''billing_period_lock_role'' ''missing_role''
          else if rs_status resource \<noteq> Some ''FINALIZED'' then deny ''billing_period_lock_status'' ''status_not_finalized''
          else allow ''billing_period_lock_allowed'')"

definition invoice_issue :: "actor_context \<Rightarrow> resource_context \<Rightarrow> policy_decision" where
  "invoice_issue actor resource =
     (case require_admin actor ''invoice_issue_admin_only'' of
        Some denial \<Rightarrow> denial
      | None \<Rightarrow>
          if \<not> has_role actor ADMIN_FINANCE_ROLES then deny ''invoice_issue_role'' ''missing_role''
          else if rs_status resource \<notin> {Some ''OPEN'', None} then deny ''invoice_issue_status'' ''period_not_open''
          else allow ''invoice_issue_allowed'')"

definition invoice_adjust :: "actor_context \<Rightarrow> resource_context \<Rightarrow> policy_decision" where
  "invoice_adjust actor resource =
     (case require_admin actor ''invoice_adjust_admin_only'' of
        Some denial \<Rightarrow> denial
      | None \<Rightarrow>
          if \<not> has_role actor [''ADMIN_FINANCE''] then deny ''invoice_adjust_role'' ''missing_role''
          else if rs_status resource \<noteq> Some ''OPEN'' then deny ''invoice_adjust_status'' ''period_not_open''
          else allow ''invoice_adjust_allowed'')"

definition payment_apply :: "actor_context \<Rightarrow> resource_context \<Rightarrow> policy_decision" where
  "payment_apply actor resource =
     (case require_admin actor ''payment_apply_admin_only'' of
        Some denial \<Rightarrow> denial
      | None \<Rightarrow>
          if \<not> has_role actor ADMIN_FINANCE_ROLES then deny ''payment_apply_role'' ''missing_role''
          else allow ''payment_apply_allowed'')"

definition credit_note_create :: "actor_context \<Rightarrow> resource_context \<Rightarrow> policy_decision" where
  "credit_note_create actor resource =
     (case require_admin actor ''credit_note_admin_only'' of
        Some denial \<Rightarrow> denial
      | None \<Rightarrow>
          if \<not> has_role actor ADMIN_FINANCE_ROLES then deny ''credit_note_role'' ''missing_role''
          else allow ''credit_note_allowed'')"

definition payout_export_create :: "actor_context \<Rightarrow> resource_context \<Rightarrow> policy_decision" where
  "payout_export_create actor resource =
     (case require_admin actor ''payout_export_create_admin_only'' of
        Some denial \<Rightarrow> denial
      | None \<Rightarrow>
          if \<not> has_role actor ADMIN_FINANCE_ROLES then deny ''payout_export_create_role'' ''missing_role''
          else if rs_status resource \<notin> {Some ''FINALIZED'', Some ''LOCKED''} then deny ''payout_export_create_status'' ''period_not_finalized''
          else allow ''payout_export_create_allowed'')"

definition payout_export_confirm :: "actor_context \<Rightarrow> resource_context \<Rightarrow> policy_decision" where
  "payout_export_confirm actor resource =
     (case require_admin actor ''payout_export_confirm_admin_only'' of
        Some denial \<Rightarrow> denial
      | None \<Rightarrow>
          if \<not> has_role actor ADMIN_ACCOUNTING_ROLES then deny ''payout_export_confirm_role'' ''missing_role''
          else allow ''payout_export_confirm_allowed'')"

definition accounting_export_create :: "actor_context \<Rightarrow> resource_context \<Rightarrow> policy_decision" where
  "accounting_export_create actor resource =
     (case require_admin actor ''accounting_export_create_admin_only'' of
        Some denial \<Rightarrow> denial
      | None \<Rightarrow>
          if \<not> has_role actor ADMIN_EXPORT_ROLES then deny ''accounting_export_create_role'' ''missing_role''
          else if rs_status resource \<notin> {Some ''FINALIZED'', Some ''LOCKED''} then deny ''accounting_export_create_status'' ''period_not_finalized''
          else allow ''accounting_export_create_allowed'')"

definition accounting_export_confirm :: "actor_context \<Rightarrow> resource_context \<Rightarrow> policy_decision" where
  "accounting_export_confirm actor resource =
     (case require_admin actor ''accounting_export_confirm_admin_only'' of
        Some denial \<Rightarrow> denial
      | None \<Rightarrow>
          if \<not> has_role actor ADMIN_EXPORT_ROLES then deny ''accounting_export_confirm_role'' ''missing_role''
          else allow ''accounting_export_confirm_allowed'')"

definition document_acknowledge :: "actor_context \<Rightarrow> resource_context \<Rightarrow> policy_decision" where
  "document_acknowledge actor resource =
     (if ac_actor_type actor = ActorSystem then allow ''document_acknowledge_system''
      else if ac_actor_type actor \<noteq> ActorClient then deny ''document_acknowledge_client_only'' ''actor_not_client''
      else if \<not> has_role actor CLIENT_ACK_ROLES then deny ''document_acknowledge_role'' ''missing_role''
      else if rs_status resource \<noteq> Some ''ISSUED'' then deny ''document_acknowledge_status'' ''status_not_issued''
      else allow ''document_acknowledge_allowed'')"

definition document_finalize :: "actor_context \<Rightarrow> resource_context \<Rightarrow> policy_decision" where
  "document_finalize actor resource =
     (case require_admin actor ''document_finalize_admin_only'' of
        Some denial \<Rightarrow> denial
      | None \<Rightarrow>
          if \<not> has_role actor ADMIN_FINANCE_ROLES then deny ''document_finalize_role'' ''missing_role''
          else if rs_status resource \<noteq> Some ''ACKNOWLEDGED'' then deny ''document_finalize_status'' ''status_not_acknowledged''
          else allow ''document_finalize_allowed'')"

definition document_send_for_signing :: "actor_context \<Rightarrow> resource_context \<Rightarrow> policy_decision" where
  "document_send_for_signing actor resource =
     (case require_admin actor ''document_send_for_signing_admin_only'' of
        Some denial \<Rightarrow> denial
      | None \<Rightarrow>
          if \<not> has_role actor ADMIN_FINANCE_ROLES then deny ''document_send_for_signing_role'' ''missing_role''
          else if rs_status resource \<noteq> Some ''ISSUED'' then deny ''document_send_for_signing_status'' ''status_not_issued''
          else allow ''document_send_for_signing_allowed'')"

definition document_sign_request :: "actor_context \<Rightarrow> resource_context \<Rightarrow> policy_decision" where
  "document_sign_request actor resource =
     (case require_admin actor ''document_sign_request_admin_only'' of
        Some denial \<Rightarrow> denial
      | None \<Rightarrow>
          if \<not> has_role actor ADMIN_FINANCE_ROLES then deny ''document_sign_request_role'' ''missing_role''
          else if rs_status resource \<noteq> Some ''ISSUED'' then deny ''document_sign_request_status'' ''status_not_issued''
          else allow ''document_sign_request_allowed'')"

definition document_finalize_with_signature :: "actor_context \<Rightarrow> resource_context \<Rightarrow> policy_decision" where
  "document_finalize_with_signature actor resource =
     (case require_admin actor ''document_finalize_with_signature_admin_only'' of
        Some denial \<Rightarrow> denial
      | None \<Rightarrow>
          if \<not> has_role actor ADMIN_FINANCE_ROLES then deny ''document_finalize_with_signature_role'' ''missing_role''
          else if rs_status resource \<noteq> Some ''ACKNOWLEDGED'' then deny ''document_finalize_with_signature_status'' ''status_not_acknowledged''
          else allow ''document_finalize_with_signature_allowed'')"

definition document_void_after_signing :: "actor_context \<Rightarrow> resource_context \<Rightarrow> policy_decision" where
  "document_void_after_signing actor resource =
     (case require_admin actor ''document_void_after_signing_admin_only'' of
        Some denial \<Rightarrow> denial
      | None \<Rightarrow>
          if \<not> has_role actor ADMIN_FINANCE_ROLES then deny ''document_void_after_signing_role'' ''missing_role''
          else if rs_status resource \<notin> {Some ''ISSUED'', Some ''ACKNOWLEDGED''} then deny ''document_void_after_signing_status'' ''status_invalid''
          else allow ''document_void_after_signing_allowed'')"

definition closing_package_ack :: "actor_context \<Rightarrow> resource_context \<Rightarrow> policy_decision" where
  "closing_package_ack actor resource =
     (if ac_actor_type actor = ActorSystem then allow ''closing_package_ack_system''
      else if ac_actor_type actor \<noteq> ActorClient then deny ''closing_package_ack_client_only'' ''actor_not_client''
      else if \<not> has_role actor CLIENT_ACK_ROLES then deny ''closing_package_ack_role'' ''missing_role''
      else if rs_status resource \<noteq> Some ''ISSUED'' then deny ''closing_package_ack_status'' ''status_not_issued''
      else allow ''closing_package_ack_allowed'')"

definition closing_package_finalize :: "actor_context \<Rightarrow> resource_context \<Rightarrow> policy_decision" where
  "closing_package_finalize actor resource =
     (case require_admin actor ''closing_package_finalize_admin_only'' of
        Some denial \<Rightarrow> denial
      | None \<Rightarrow>
          if \<not> has_role actor ADMIN_FINANCE_ROLES then deny ''closing_package_finalize_role'' ''missing_role''
          else if rs_status resource \<noteq> Some ''ACKNOWLEDGED'' then deny ''closing_package_finalize_status'' ''status_not_acknowledged''
          else allow ''closing_package_finalize_allowed'')"

definition crm_manage :: "actor_context \<Rightarrow> resource_context \<Rightarrow> policy_decision" where
  "crm_manage actor resource =
     (case require_admin actor ''crm_manage_admin_only'' of
        Some denial \<Rightarrow> denial
      | None \<Rightarrow>
          if \<not> has_role actor ADMIN_CRM_ROLES then deny ''crm_manage_role'' ''missing_role''
          else allow ''crm_manage_allowed'')"

fun policy_check :: "actor_context \<Rightarrow> policy_action \<Rightarrow> resource_context \<Rightarrow> policy_decision" where
  "policy_check actor BILLING_PERIOD_FINALIZE resource = billing_period_finalize actor resource"
| "policy_check actor BILLING_PERIOD_LOCK resource = billing_period_lock actor resource"
| "policy_check actor INVOICE_ISSUE resource = invoice_issue actor resource"
| "policy_check actor INVOICE_ADJUST resource = invoice_adjust actor resource"
| "policy_check actor PAYMENT_APPLY resource = payment_apply actor resource"
| "policy_check actor CREDIT_NOTE_CREATE resource = credit_note_create actor resource"
| "policy_check actor PAYOUT_EXPORT_CREATE resource = payout_export_create actor resource"
| "policy_check actor PAYOUT_EXPORT_CONFIRM resource = payout_export_confirm actor resource"
| "policy_check actor ACCOUNTING_EXPORT_CREATE resource = accounting_export_create actor resource"
| "policy_check actor ACCOUNTING_EXPORT_CONFIRM resource = accounting_export_confirm actor resource"
| "policy_check actor DOCUMENT_ACKNOWLEDGE resource = document_acknowledge actor resource"
| "policy_check actor DOCUMENT_FINALIZE resource = document_finalize actor resource"
| "policy_check actor DOCUMENT_SIGN_REQUEST resource = document_sign_request actor resource"
| "policy_check actor DOCUMENT_SEND_FOR_SIGNING resource = document_send_for_signing actor resource"
| "policy_check actor DOCUMENT_FINALIZE_WITH_SIGNATURE resource = document_finalize_with_signature actor resource"
| "policy_check actor DOCUMENT_VOID_AFTER_SIGNING resource = document_void_after_signing actor resource"
| "policy_check actor CLOSING_PACKAGE_ACK resource = closing_package_ack actor resource"
| "policy_check actor CLOSING_PACKAGE_FINALIZE resource = closing_package_finalize actor resource"
| "policy_check actor BILLING_PERIOD_REOPEN resource = deny ''billing_period_reopen_disabled'' ''action_disabled''"
| "policy_check actor CRM_CLIENT_MANAGE resource = crm_manage actor resource"
| "policy_check actor CRM_CONTRACT_MANAGE resource = crm_manage actor resource"
| "policy_check actor CRM_TARIFF_MANAGE resource = crm_manage actor resource"
| "policy_check actor CRM_SUBSCRIPTION_MANAGE resource = crm_manage actor resource"
| "policy_check actor CRM_FEATURE_TOGGLE resource = crm_manage actor resource"

lemmas policy_rule_defs =
  billing_period_finalize_def billing_period_lock_def invoice_issue_def
  invoice_adjust_def payment_apply_def credit_note_create_def
  payout_export_create_def payout_export_confirm_def accounting_export_create_def
  accounting_export_confirm_def document_acknowledge_def document_finalize_def
  document_send_for_signing_def document_sign_request_def document_finalize_with_signature_def
  document_void_after_signing_def closing_package_ack_def closing_package_finalize_def
  crm_manage_def

section \<open>Denials\<close>

definition coerce_audit_tenant_id :: "tenant_claim \<Rightarrow> int option" where
  "coerce_audit_tenant_id v =
     (case v of
        TenantAbsent \<Rightarrow> None
      | TenantBool _ \<Rightarrow> None
      | TenantInt i \<Rightarrow> Some i
      | TenantText t \<Rightarrow> read_int (strip t))"

text \<open>The allow-listed part of a token is empty when none of the claims is there.\<close>

definition no_claims :: "token \<Rightarrow> bool" where
  "no_claims tk \<longleftrightarrow> tk_roles tk = RolesAbsent \<and> tk_role tk = None \<and> tk_tenant_id tk = TenantAbsent \<and>
     tk_client_id tk = None \<and> tk_user_id tk = None \<and> tk_sub tk = None \<and> tk_email tk = None"

definition sanitize_token_for_audit :: "token option \<Rightarrow> token option" where
  "sanitize_token_for_audit token =
     (case token of None \<Rightarrow> None | Some tk \<Rightarrow> if no_claims tk then None else Some tk)"

definition request_context_from_token :: "token option \<Rightarrow> request_context" where
  "request_context_from_token token =
     (case token of
        None \<Rightarrow> system_context
      | Some tk \<Rightarrow>
          let roles = raw_roles tk @
                (case tk_role tk of
                   None \<Rightarrow> []
                 | Some r \<Rightarrow> if r \<noteq> [] \<and> r \<notin> set (raw_roles tk) then [r] else [])
          in \<lparr>rc_actor_type = USER,
              rc_actor_id =
                (if str_truthy (tk_user_id tk) then tk_user_id tk
                 else if str_truthy (tk_sub tk) then tk_sub tk else tk_client_id tk),
              rc_actor_email = tk_email tk,
              rc_actor_roles = (if roles = [] then None else Some roles),
              rc_ip = None, rc_user_agent = None, rc_request_id = None, rc_trace_id = None,
              rc_tenant_id = coerce_audit_tenant_id (tk_tenant_id tk)\<rparr>)"

definition audit_access_denied ::
    "world \<Rightarrow> actor_context \<Rightarrow> policy_action \<Rightarrow> resource_context \<Rightarrow> policy_decision \<Rightarrow> token option \<Rightarrow>
     ('a audit_db_scheme, audit_record) act" where
  "audit_access_denied w actor action resource decision token =
     audit w
       \<lparr>ev_event_type = ''ACCESS_DENIED'', ev_entity_type = ''policy'',
        ev_entity_id = policy_action_value action, ev_action = ''ACCESS_DENIED'',
        ev_visibility = INTERNAL, ev_before = None,
        ev_after = Some
          [(''actor'', PDict
             [(''actor_type'', PStr (actor_kind_value (ac_actor_type actor))),
              (''tenant_id'', PInt (ac_tenant_id actor)), (''client_id'', opt_str (ac_client_id actor)),
              (''roles'', PList (map PStr (sort (ac_roles actor)))), (''user_id'', opt_str (ac_user_id actor))]),
           (''action'', PStr (policy_action_value action)),
           (''resource'', PDict
             [(''resource_type'', PStr (rs_resource_type resource)),
              (''tenant_id'', PInt (rs_tenant_id resource)), (''client_id'', opt_str (rs_client_id resource)),
              (''status'', opt_str (rs_status resource))]),
           (''policy'', PStr (pd_policy decision)), (''reason'', opt_str (pd_reason decision))],
        ev_diff = None, ev_external_refs = None, ev_reason = pd_reason decision, ev_attachment_key = None\<rparr>
       (Some (request_context_from_token (sanitize_token_for_audit token)))"

text \<open>The guard that the finance and the billing period service share: check, audit a denial, raise.\<close>

definition enforce_policy ::
    "world \<Rightarrow> token option \<Rightarrow> policy_action \<Rightarrow> resource_context \<Rightarrow> ('a audit_db_scheme, unit) act" where
  "enforce_policy w token action resource =
     (let actor = actor_from_token token; decision = policy_check actor action resource in
      if pd_allowed decision then ret ()
      else and_then (audit_access_denied w actor action resource decision token) (\<lambda>_.
        raise_exc (PolicyAccessDenied
          (case pd_reason decision of None \<Rightarrow> ''access_denied'' | Some r \<Rightarrow> if r = [] then ''access_denied'' else r))))"

end
