(* ===== verification/Idempotency.thy ===== *)
theory Idempotency
  imports Neft_Prelude
begin

text \<open>
  The contract of the operations that callers may retry with the same idempotency key: once a call has
  succeeded, the same call answers with a replay of the first result and leaves the database alone.
\<close>

text \<open>A client that calls an operation and then repeats it \<open>n\<close> times.\<close>

fun retried :: "nat \<Rightarrow> ('s, 'r) act \<Rightarrow> ('s, 'r) act" where
  "retried 0 m = m"
| "retried (Suc n) m = and_then m (\<lambda>_. retried n m)"

locale idempotent_operation =
  fixes operation :: "'q \<Rightarrow> ('s, 'r) act"
    and ok :: "'s \<Rightarrow> bool"
    and as_replay :: "'r \<Rightarrow> 'r"
  assumes keeps_ok: "ok s \<Longrightarrow> ok (snd (operation q s))"
    and replays: "ok s \<Longrightarrow> operation q s = (Inr r, s') \<Longrightarrow> operation q s' = (Inr (as_replay r), s')"
    and replay_once: "as_replay (as_replay r) = as_replay r"
begin

lemma retried_same:
  assumes "ok s" and "operation q s = (Inr r, s')"
  shows "retried n (operation q) s = (Inr (if n = 0 then r else as_replay r), s')"
  using assms
proof (induction n arbitrary: s r)
  case (Suc n)
  have "ok s'" using keeps_ok [OF Suc.prems(1), of q] Suc.prems(2) by simp
  moreover have "operation q s' = (Inr (as_replay r), s')" by (rule replays [OF Suc.prems])
  ultimately have "retried n (operation q) s' = (Inr (if n = 0 then as_replay r else as_replay (as_replay r)), s')"
    by (rule Suc.IH)
  with Suc.prems(2) show ?case by (simp add: replay_once)
qed simp

end

end
