(* ===== verification/Billing_Periods.thy ===== *)
theory Billing_Periods
  imports Finance_Models Policy_Engine Lifecycle Idempotency
begin

text \<open>
  Billing periods (\<open>services/billing_periods.py\<close>) and the settlement period of a booking
  (\<open>services/settlement_allocations.py\<close>). The time zone database is a parameter: \<open>tz_to_local\<close> maps an
  instant to wall-clock time and \<open>tz_to_utc\<close> wall-clock time to an instant, both in microseconds.
\<close>

section \<open>Period bounds\<close>

record tz_rules =
  tz_to_local :: "string \<Rightarrow> int \<Rightarrow> int"
  tz_to_utc :: "string \<Rightarrow> int \<Rightarrow> int"

definition day_us :: int where
  "day_us = 86400000000"

text \<open>\<open>time.min\<close> of the first day and \<open>time.max\<close> of the last; a date is its number of days since 1970-01-01.\<close>

definition period_bounds_for_dates :: "tz_rules \<Rightarrow> int \<Rightarrow> int \<Rightarrow> string \<Rightarrow> int \<times> int" where
  "period_bounds_for_dates tzr date_from date_to tz =
     (tz_to_utc tzr tz (date_from * day_us), tz_to_utc tzr tz (date_to * day_us + (day_us - 1)))"

section \<open>Lifecycle\<close>

fun period_successors :: "billing_period_status \<Rightarrow> billing_period_status list" where
  "period_successors OPEN = [FINALIZED]"
| "period_successors FINALIZED = [LOCKED]"
| "period_successors LOCKED = []"

definition require_transition ::
    "billing_period_status \<Rightarrow> billing_period_status \<Rightarrow> billing_period_status result" where
  "require_transition current target =
     (if current = target \<or> target \<in> set (period_successors current) then Inr target
      else Inl BillingPeriodConflict)"

definition require_status :: "billing_period \<Rightarrow> billing_period_status list \<Rightarrow> unit result" where
  "require_status p allowed = (if bp_status p \<notin> set allowed then Inl BillingPeriodConflict else Inr ())"

section \<open>Operations\<close>

definition same_bounds :: "billing_period_type \<Rightarrow> int \<Rightarrow> int \<Rightarrow> billing_period \<Rightarrow> bool" where
  "same_bounds ty start_at end_at p \<longleftrightarrow>
     bp_period_type p = ty \<and> bp_start_at p = start_at \<and> bp_end_at p = end_at"

definition new_period :: "string \<Rightarrow> billing_period_type \<Rightarrow> int \<Rightarrow> int \<Rightarrow> string \<Rightarrow> billing_period" where
  "new_period i ty start_at end_at tz =
     \<lparr>bp_id = i, bp_period_type = ty, bp_start_at = start_at, bp_end_at = end_at, bp_tz = tz, bp_status = OPEN,
      bp_finalized_at = None, bp_locked_at = None\<rparr>"

record period_key =
  pk_type :: billing_period_type
  pk_start :: int
  pk_end :: int
  pk_tz :: string

definition get_or_create_period :: "world \<Rightarrow> period_key \<Rightarrow> ('a fin_db_scheme, billing_period) act" where
  "get_or_create_period w k =
     and_then (query_one (same_bounds (pk_type k) (pk_start k) (pk_end k)) billing_periods) (\<lambda>existing.
     case existing of
       Some p \<Rightarrow> ret p
     | None \<Rightarrow>
         and_then (new_uuid_str w) (\<lambda>i. let p = new_period i (pk_type k) (pk_start k) (pk_end k) (pk_tz k) in
         and_then (update_state (\<lambda>s. s\<lparr>billing_periods := billing_periods s @ [p]\<rparr>)) (\<lambda>_. ret p)))"

definition get_by_bounds ::
    "int \<Rightarrow> int \<Rightarrow> billing_period_type option \<Rightarrow> billing_period list \<Rightarrow> billing_period option result" where
  "get_by_bounds start_at end_at ty ps =
     one_or_none (\<lambda>p. bp_start_at p = start_at \<and> bp_end_at p = end_at \<and>
       (case ty of None \<Rightarrow> True | Some t \<Rightarrow> bp_period_type p = t)) ps"

definition store_period :: "billing_period \<Rightarrow> ('a fin_db_scheme, unit) act" where
  "store_period p = update_state (\<lambda>s. s\<lparr>billing_periods := store_row bp_id p (billing_periods s)\<rparr>)"

definition period_resource :: "token option \<Rightarrow> billing_period \<Rightarrow> resource_context" where
  "period_resource token p =
     \<lparr>rs_resource_type = ''BILLING_PERIOD'', rs_tenant_id = ac_tenant_id (actor_from_token token),
      rs_client_id = None, rs_status = Some (billing_period_status_value (bp_status p))\<rparr>"

definition lock_period :: "world \<Rightarrow> period_key \<Rightarrow> token option \<Rightarrow> ('a fin_db_scheme, billing_period) act" where
  "lock_period w k token =
     and_then (get_or_create_period w k) (\<lambda>p.
     and_then (enforce_policy w token BILLING_PERIOD_LOCK (period_resource token p)) (\<lambda>_.
     and_then (lift_result (require_transition (bp_status p) LOCKED)) (\<lambda>_.
     if bp_status p \<noteq> LOCKED
     then and_then (now_utc w) (\<lambda>now. let p' = p\<lparr>bp_status := LOCKED, bp_locked_at := Some now\<rparr> in
       and_then (store_period p') (\<lambda>_. ret p'))
     else ret p)))"

definition finalize_period :: "world \<Rightarrow> period_key \<Rightarrow> token option \<Rightarrow> ('a fin_db_scheme, billing_period) act" where
  "finalize_period w k token =
     and_then (get_or_create_period w k) (\<lambda>p.
     and_then (enforce_policy w token BILLING_PERIOD_FINALIZE (period_resource token p)) (\<lambda>_.
     and_then (lift_result (require_transition (bp_status p) FINALIZED)) (\<lambda>_.
     if bp_status p \<noteq> FINALIZED
     then and_then (now_utc w) (\<lambda>now. let p' = p\<lparr>bp_status := FINALIZED, bp_finalized_at := Some now\<rparr> in
       and_then (store_period p') (\<lambda>_. ret p'))
     else ret p)))"

definition list_periods ::
    "billing_period_status option \<Rightarrow> billing_period_type option \<Rightarrow> int option \<Rightarrow> int option \<Rightarrow>
     billing_period list \<Rightarrow> billing_period list" where
  "list_periods status ty start_from start_to ps =
     sort_key (\<lambda>p. - bp_start_at p)
       (filter (\<lambda>p.
          (case status of None \<Rightarrow> True | Some x \<Rightarrow> bp_status p = x) \<and>
          (case ty of None \<Rightarrow> True | Some x \<Rightarrow> bp_period_type p = x) \<and>
          (case start_from of None \<Rightarrow> True | Some x \<Rightarrow> x \<le> bp_start_at p) \<and>
          (case start_to of None \<Rightarrow> True | Some x \<Rightarrow> bp_start_at p \<le> x)) ps)"

section \<open>Settlement periods\<close>

definition resolve_settlement_period ::
    "world \<Rightarrow> tz_rules \<Rightarrow> string \<Rightarrow> int \<Rightarrow> ('a fin_db_scheme, billing_period) act" where
  "resolve_settlement_period w tzr tz event_at =
     (let event_date = tz_to_local tzr tz event_at div day_us;
          (start_at, end_at) = period_bounds_for_dates tzr event_date event_date tz
      in and_then (get_or_create_period w \<lparr>pk_type = DAILY, pk_start = start_at, pk_end = end_at, pk_tz = tz\<rparr>) (\<lambda>p.
         if bp_status p \<in> {FINALIZED, LOCKED}
         then get_or_create_period w \<lparr>pk_type = ADHOC, pk_start = start_at, pk_end = end_at, pk_tz = tz\<rparr>
         else ret p))"

record settlement_summary_row =
  ss_settlement_period_id :: string
  ss_period_start :: int
  ss_period_end :: int
  ss_currency :: string
  ss_total_payments :: int
  ss_total_credits :: int
  ss_total_refunds :: int
  ss_allocations_count :: nat

text \<open>The join of the allocations with their periods, restricted to the window and the client.\<close>

definition summary_join ::
    "int \<Rightarrow> int \<Rightarrow> string option \<Rightarrow> settlement_allocation list \<Rightarrow> billing_period list \<Rightarrow>
     (settlement_allocation \<times> billing_period) list" where
  "summary_join start_at end_at client as ps =
     filter (\<lambda>(a, p). start_at \<le> bp_start_at p \<and> bp_start_at p \<le> end_at \<and>
         (str_truthy client \<longrightarrow> client = Some (sa_client_id a)))
       (concat (map (\<lambda>a. map (\<lambda>p. (a, p)) (filter (\<lambda>p. bp_id p = sa_settlement_period_id a) ps)) as))"

definition summary_key :: "settlement_allocation \<times> billing_period \<Rightarrow> string \<times> int \<times> int \<times> string" where
  "summary_key x = (sa_settlement_period_id (fst x), bp_start_at (snd x), bp_end_at (snd x), sa_currency (fst x))"

definition source_total :: "settlement_source_type \<Rightarrow> settlement_allocation list \<Rightarrow> int" where
  "source_total ty as = sum_list (map (\<lambda>a. if sa_source_type a = ty then sa_amount a else 0) as)"

definition summary_row :: "(settlement_allocation \<times> billing_period) list \<Rightarrow> string \<times> int \<times> int \<times> string \<Rightarrow> settlement_summary_row" where
  "summary_row rows k =
     (let as = map fst (filter (\<lambda>x. summary_key x = k) rows) in
      \<lparr>ss_settlement_period_id = fst k, ss_period_start = fst (snd k), ss_period_end = fst (snd (snd k)),
       ss_currency = snd (snd (snd k)), ss_total_payments = source_total SRC_PAYMENT as,
       ss_total_credits = source_total SRC_CREDIT_NOTE as, ss_total_refunds = source_total SRC_REFUND as,
       ss_allocations_count = length as\<rparr>)"

definition list_settlement_summary ::
    "tz_rules \<Rightarrow> string \<Rightarrow> int \<Rightarrow> int \<Rightarrow> string option \<Rightarrow> 'a fin_db_scheme \<Rightarrow> settlement_summary_row list" where
  "list_settlement_summary tzr tz date_from date_to client s =
     (let (start_at, end_at) = period_bounds_for_dates tzr date_from date_to tz;
          rows = summary_join start_at end_at client (allocations s) (billing_periods s)
      in sort_key ss_period_start (map (summary_row rows) (remdups (map summary_key rows))))"

section \<open>The invariant of the period table\<close>

definition period_scope :: "billing_period \<Rightarrow> billing_period_type \<times> int \<times> int" where
  "period_scope p = (bp_period_type p, bp_start_at p, bp_end_at p)"

definition periods_ok :: "billing_period list \<Rightarrow> bool" where
  "periods_ok ps \<longleftrightarrow> distinct (map period_scope ps) \<and> distinct (map bp_id ps)"

lemma same_bounds_iff: "same_bounds ty a b p \<longleftrightarrow> period_scope p = (ty, a, b)"
  by (auto simp: same_bounds_def period_scope_def)

interpretation period_lc: lifecycle require_transition period_successors
proof unfold_locales
  show "require_transition s e = Inr s' \<Longrightarrow> s' = s \<or> s' \<in> set (period_successors s)" for s e s'
    by (auto simp: require_transition_def split: if_splits)
  show "s' \<in> set (period_successors s) \<Longrightarrow> \<exists>e. require_transition s e = Inr s'" for s s'
    by (rule exI [of _ s']) (simp add: require_transition_def)
qed

lemma get_or_create_found:
  assumes "distinct (map period_scope (billing_periods s))" and "p \<in> set (billing_periods s)"
    and "period_scope p = (pk_type k, pk_start k, pk_end k)"
  shows "get_or_create_period w k s = (Inr p, s)"
proof -
  have "one_or_none (same_bounds (pk_type k) (pk_start k) (pk_end k)) (billing_periods s) = Inr (Some p)"
    using one_or_none_unique_key [OF assms(1,2)] assms(3) by (simp add: same_bounds_iff [abs_def])
  then show ?thesis by (simp add: get_or_create_period_def)
qed

lemma get_or_create_created:
  assumes "(pk_type k, pk_start k, pk_end k) \<notin> period_scope ` set (billing_periods s)"
  shows "get_or_create_period w k s =
    (Inr (new_period (uuid_at w (tick s)) (pk_type k) (pk_start k) (pk_end k) (pk_tz k)),
     s\<lparr>tick := Suc (tick s), billing_periods := billing_periods s @
       [new_period (uuid_at w (tick s)) (pk_type k) (pk_start k) (pk_end k) (pk_tz k)]\<rparr>)"
proof -
  have none: "one_or_none (same_bounds (pk_type k) (pk_start k) (pk_end k)) (billing_periods s) = Inr None"
    using assms by (auto simp: same_bounds_iff image_iff)
  show ?thesis by (simp add: get_or_create_period_def and_then_apply none Let_def)
qed

lemma new_period_scope [simp]: "period_scope (new_period i ty a b tz) = (ty, a, b)" "bp_id (new_period i ty a b tz) = i"
  "bp_status (new_period i ty a b tz) = OPEN"
  by (simp_all add: period_scope_def new_period_def)

text \<open>Looking up a period creates it at most once: the two cases of every caller.\<close>

lemma get_or_create_cases:
  assumes "distinct (map period_scope (billing_periods s))"
  obtains (found) p where "get_or_create_period w k s = (Inr p, s)" and "p \<in> set (billing_periods s)"
      and "period_scope p = (pk_type k, pk_start k, pk_end k)"
  | (created) p where "get_or_create_period w k s = (Inr p, s\<lparr>tick := Suc (tick s), billing_periods := billing_periods s @ [p]\<rparr>)"
      and "p = new_period (uuid_at w (tick s)) (pk_type k) (pk_start k) (pk_end k) (pk_tz k)"
      and "period_scope p \<notin> period_scope ` set (billing_periods s)"
proof (cases "(pk_type k, pk_start k, pk_end k) \<in> period_scope ` set (billing_periods s)")
  case True
  then obtain p where "p \<in> set (billing_periods s)" "period_scope p = (pk_type k, pk_start k, pk_end k)" by auto
  with get_or_create_found [OF assms this] show ?thesis using found by blast
next
  case False
  show ?thesis by (rule created [OF get_or_create_created [OF False] refl]) (use False in simp)
qed

lemma get_or_create_keeps:
  assumes "distinct (map period_scope (billing_periods s))"
  shows "distinct (map period_scope (billing_periods (snd (get_or_create_period w k s))))"
  by (rule get_or_create_cases [OF assms, of w k]) (use assms in simp_all)

lemma get_or_create_replays:
  assumes "distinct (map period_scope (billing_periods s))" and "get_or_create_period w k s = (Inr p, s')"
  shows "get_or_create_period w k s' = (Inr p, s')"
proof (rule get_or_create_cases [OF assms(1), of w k], goal_cases found created)
  case (found q)
  with assms(2) show ?case by simp
next
  case (created q)
  with assms(2) have s': "s' = s\<lparr>tick := Suc (tick s), billing_periods := billing_periods s @ [p]\<rparr>" and p: "p = q" by auto
  show ?case
    by (rule get_or_create_found) (use created assms(1) s' p in simp_all)
qed

interpretation period_retry: idempotent_operation "get_or_create_period w"
    "\<lambda>s. distinct (map period_scope (billing_periods s))" "\<lambda>p. p" for w
  by unfold_locales (auto intro: get_or_create_keeps dest: get_or_create_replays)

end
