(* ===== verification/Legal_Graph.thy ===== *)
theory Legal_Graph
  imports Finance_Models Idempotency
begin

text \<open>
  The legal graph as the finance service writes it (\<open>services/legal_graph/registry.py\<close>, the settlement part
  of \<open>builder.py\<close>, \<open>errors.py\<close>): nodes and edges are created once per scope and each creation is audited.
\<close>

section \<open>The registry\<close>

definition node_scope :: "int \<Rightarrow> legal_node_type \<Rightarrow> string \<Rightarrow> legal_node \<Rightarrow> bool" where
  "node_scope tenant ty ref n \<longleftrightarrow> nd_tenant_id n = tenant \<and> nd_node_type n = ty \<and> nd_ref_id n = ref"

definition edge_scope :: "int \<Rightarrow> legal_edge_type \<Rightarrow> string \<Rightarrow> string \<Rightarrow> legal_edge \<Rightarrow> bool" where
  "edge_scope tenant ty src dst e \<longleftrightarrow>
     ed_tenant_id e = tenant \<and> ed_edge_type e = ty \<and> ed_src_node_id e = src \<and> ed_dst_node_id e = dst"

text \<open>\<open>.one()\<close> raises when there is no row or more than one.\<close>

definition query_single :: "('r \<Rightarrow> bool) \<Rightarrow> ('s \<Rightarrow> 'r list) \<Rightarrow> ('s, 'r) act" where
  "query_single p table =
     and_then (query_one p table) (\<lambda>x. case x of None \<Rightarrow> raise_exc NoResultFound | Some r \<Rightarrow> ret r)"

definition audit_created ::
    "world \<Rightarrow> request_context option \<Rightarrow> string \<Rightarrow> string \<Rightarrow> string \<Rightarrow> payload \<Rightarrow> ('a audit_db_scheme, audit_record) act" where
  "audit_created w rc event_type entity_type entity_id after =
     audit w
       \<lparr>ev_event_type = event_type, ev_entity_type = entity_type, ev_entity_id = entity_id,
        ev_action = ''CREATE'', ev_visibility = INTERNAL, ev_before = None, ev_after = Some after,
        ev_diff = None, ev_external_refs = None, ev_reason = None, ev_attachment_key = None\<rparr> rc"

text \<open>The metadata of a node goes into the audit record only; most callers pass none.\<close>

definition get_or_create_node_meta ::
    "world \<Rightarrow> request_context option \<Rightarrow> int \<Rightarrow> legal_node_type \<Rightarrow> string \<Rightarrow> string option \<Rightarrow> string option \<Rightarrow>
     payload option \<Rightarrow> ('a fin_db_scheme, legal_node) act" where
  "get_or_create_node_meta w rc tenant ty ref ref_table hash_value meta =
     and_then (query_one (node_scope tenant ty ref) legal_nodes) (\<lambda>existing.
     case existing of
       Some n \<Rightarrow> ret n
     | None \<Rightarrow>
         and_then (new_uuid_str w) (\<lambda>i.
         let n = \<lparr>nd_id = i, nd_tenant_id = tenant, nd_node_type = ty, nd_ref_id = ref,
                  nd_ref_table = ref_table, nd_hash = hash_value\<rparr>
         in insert_or_else (\<lambda>s. \<exists>x\<in>set (legal_nodes s). node_scope tenant ty ref x)
              (\<lambda>s. s\<lparr>legal_nodes := legal_nodes s @ [n]\<rparr>)
              (query_single (node_scope tenant ty ref) legal_nodes)
              (and_then (audit_created w rc ''LEGAL_NODE_CREATED'' ''legal_node'' i
                 [(''node_type'', PStr (legal_node_type_value ty)), (''ref_id'', PStr ref),
                  (''ref_table'', opt_str ref_table), (''meta'', opt_dict meta)]) (\<lambda>_. ret n))))"

definition get_or_create_node ::
    "world \<Rightarrow> request_context option \<Rightarrow> int \<Rightarrow> legal_node_type \<Rightarrow> string \<Rightarrow> string option \<Rightarrow> string option \<Rightarrow>
     ('a fin_db_scheme, legal_node) act" where
  "get_or_create_node w rc tenant ty ref ref_table hash_value =
     get_or_create_node_meta w rc tenant ty ref ref_table hash_value None"

definition link_edge ::
    "world \<Rightarrow> request_context option \<Rightarrow> int \<Rightarrow> string \<Rightarrow> string \<Rightarrow> legal_edge_type \<Rightarrow> payload option \<Rightarrow>
     ('a fin_db_scheme, legal_edge) act" where
  "link_edge w rc tenant src dst ty meta =
     and_then (query_one (edge_scope tenant ty src dst) legal_edges) (\<lambda>existing.
     case existing of
       Some e \<Rightarrow> ret e
     | None \<Rightarrow>
         and_then (new_uuid_str w) (\<lambda>i.
         let e = \<lparr>ed_id = i, ed_tenant_id = tenant, ed_edge_type = ty, ed_src_node_id = src,
                  ed_dst_node_id = dst, ed_meta = meta\<rparr>
         in insert_or_else (\<lambda>s. \<exists>x\<in>set (legal_edges s). edge_scope tenant ty src dst x)
              (\<lambda>s. s\<lparr>legal_edges := legal_edges s @ [e]\<rparr>)
              (query_single (edge_scope tenant ty src dst) legal_edges)
              (and_then (audit_created w rc ''LEGAL_EDGE_CREATED'' ''legal_edge'' i
                 [(''edge_type'', PStr (legal_edge_type_value ty)), (''src_node_id'', PStr src),
                  (''dst_node_id'', PStr dst), (''meta'', opt_dict meta)]) (\<lambda>_. ret e))))"

section \<open>The graph of a settlement allocation\<close>

text \<open>The source object of the allocation: its identifier and table.\<close>

type_synonym graph_source = "(string \<times> string) option"

fun source_node_type :: "settlement_source_type \<Rightarrow> legal_node_type" where
  "source_node_type SRC_PAYMENT = NODE_PAYMENT"
| "source_node_type SRC_CREDIT_NOTE = NODE_CREDIT_NOTE"
| "source_node_type SRC_REFUND = NODE_REFUND"

definition link_source ::
    "world \<Rightarrow> request_context option \<Rightarrow> settlement_allocation \<Rightarrow> string \<Rightarrow> string \<Rightarrow> graph_source \<Rightarrow>
     ('a fin_db_scheme, unit) act" where
  "link_source w rc a allocation_node invoice_node source =
     (case source of
        None \<Rightarrow> ret ()
      | Some (source_id, table) \<Rightarrow>
          and_then (get_or_create_node w rc (sa_tenant_id a) (source_node_type (sa_source_type a)) source_id
            (Some table) None) (\<lambda>n.
          and_then (link_edge w rc (sa_tenant_id a) allocation_node (nd_id n) EDGE_GENERATED_FROM None) (\<lambda>_.
          if sa_source_type a = SRC_PAYMENT
          then and_then (link_edge w rc (sa_tenant_id a) (nd_id n) invoice_node EDGE_SETTLES None) (\<lambda>_. ret ())
          else ret ())))"

definition ensure_settlement_allocation_graph ::
    "world \<Rightarrow> request_context option \<Rightarrow> settlement_allocation \<Rightarrow> invoice \<Rightarrow> graph_source \<Rightarrow> ('a fin_db_scheme, unit) act" where
  "ensure_settlement_allocation_graph w rc a i source =
     and_then (get_or_create_node w rc (sa_tenant_id a) NODE_SETTLEMENT_ALLOCATION (sa_id a)
       (Some ''invoice_settlement_allocations'') None) (\<lambda>an.
     and_then (get_or_create_node w rc (sa_tenant_id a) NODE_INVOICE (inv_id i) (Some ''invoices'') None) (\<lambda>inode.
     and_then (link_edge w rc (sa_tenant_id a) (nd_id an) (nd_id inode) EDGE_ALLOCATES
       (Some [(''allocation_type'', PStr (settlement_source_type_value (sa_source_type a))),
              (''amount'', PInt (sa_amount a)), (''currency'', PStr (sa_currency a)),
              (''applied_at'', PStr (isoformat (sa_applied_at a)))])) (\<lambda>_.
     and_then (if sa_settlement_period_id a = [] then ret ()
       else and_then (get_or_create_node w rc (sa_tenant_id a) NODE_BILLING_PERIOD (sa_settlement_period_id a)
              (Some ''billing_periods'') None) (\<lambda>pn.
            and_then (link_edge w rc (sa_tenant_id a) (nd_id an) (nd_id pn) EDGE_RELATES_TO None) (\<lambda>_. ret ()))) (\<lambda>_.
     link_source w rc a (nd_id an) (nd_id inode) source))))"

definition audit_graph_write_failure ::
    "world \<Rightarrow> request_context option \<Rightarrow> string \<Rightarrow> string \<Rightarrow> string \<Rightarrow> ('a audit_db_scheme, audit_record) act" where
  "audit_graph_write_failure w rc entity_type entity_id error =
     audit w
       \<lparr>ev_event_type = ''LEGAL_GRAPH_WRITE_FAILED'', ev_entity_type = entity_type, ev_entity_id = entity_id,
        ev_action = ''WRITE_FAILED'', ev_visibility = INTERNAL, ev_before = None,
        ev_after = Some [(''error'', PStr error)], ev_diff = None, ev_external_refs = None,
        ev_reason = None, ev_attachment_key = None\<rparr> rc"

section \<open>Frame\<close>

text \<open>
  The side effects that a graph write may have: clock, audit log and the graph itself. Everything the
  money of the system lives in stays.
\<close>

definition graph_only :: "'a fin_db_scheme \<Rightarrow> 'a fin_db_scheme \<Rightarrow> bool" where
  "graph_only s s' \<longleftrightarrow> tick s \<le> tick s' \<and> (\<exists>n log nodes edges. s' = s\<lparr>tick := n, audit_log := audit_log s @ log,
     legal_nodes := nodes, legal_edges := edges\<rparr>)"

lemma graph_only_refl [intro]: "graph_only s s"
  unfolding graph_only_def
  by (intro conjI exI [of _ "tick s"] exI [of _ "[]"] exI [of _ "legal_nodes s"] exI [of _ "legal_edges s"]) simp_all

lemma graph_only_trans [trans]: "graph_only s t \<Longrightarrow> graph_only t u \<Longrightarrow> graph_only s u"
  unfolding graph_only_def by (elim conjE exE, intro conjI exI) (rule order_trans, assumption+, simp)

lemma graph_only_audit:
  "graph_only s (s\<lparr>tick := Suc (Suc (tick s)), audit_log := audit_log s @ [r]\<rparr>)"
  unfolding graph_only_def
  by (intro conjI exI [of _ "Suc (Suc (tick s))"] exI [of _ "[r]"] exI [of _ "legal_nodes s"] exI [of _ "legal_edges s"]) simp_all

definition graph_act :: "('a fin_db_scheme, 'b) act \<Rightarrow> bool" where
  "graph_act m \<longleftrightarrow> (\<forall>s. graph_only s (snd (m s)))"

lemma graph_actI: "(\<And>s. graph_only s (snd (m s))) \<Longrightarrow> graph_act m"
  by (simp add: graph_act_def)

lemma graph_actD: "graph_act m \<Longrightarrow> graph_only s (snd (m s))"
  by (simp add: graph_act_def)

lemma graph_act_ret [intro!]: "graph_act (ret x)"
  by (rule graph_actI) auto

lemma graph_act_raise [intro!]: "graph_act (raise_exc e)"
  by (rule graph_actI) auto

lemma graph_act_query [intro!]: "graph_act (query_one p table)"
  by (rule graph_actI) auto

lemma graph_act_and_then [intro!]:
  assumes "graph_act m" and "\<And>a. graph_act (k a)"
  shows "graph_act (and_then m k)"
proof (rule graph_actI)
  fix s
  obtain r t where m: "m s = (r, t)" by (cases "m s")
  with graph_actD [OF assms(1), of s] have st: "graph_only s t" by simp
  show "graph_only s (snd (and_then m k s))"
  proof (cases r)
    case (Inr a)
    from graph_only_trans [OF st graph_actD [OF assms(2)]] m Inr show ?thesis by simp
  qed (use st m in simp)
qed

lemma graph_act_audit [intro!]: "graph_act (audit w ev rc)"
  by (rule graph_actI) (auto simp: audit_apply Let_def intro: graph_only_audit)

lemma graph_act_insert [intro!]:
  assumes "graph_act f" and "graph_act g" and "\<And>s. graph_only s (i s)"
  shows "graph_act (insert_or_else c i f g)"
proof (rule graph_actI)
  fix s
  show "graph_only s (snd (insert_or_else c i f g s))"
    using graph_actD [OF assms(1)] graph_only_trans [OF assms(3) graph_actD [OF assms(2)]] by simp
qed

lemma graph_act_tick [intro!]: "graph_act (new_uuid_str w)"
proof (rule graph_actI)
  fix s :: "'a fin_db_scheme"
  show "graph_only s (snd (new_uuid_str w s))"
    unfolding graph_only_def
    by (intro conjI exI [of _ "Suc (tick s)"] exI [of _ "[]"] exI [of _ "legal_nodes s"] exI [of _ "legal_edges s"])
      simp_all
qed

lemma graph_only_nodes [intro!]: "graph_only s (s\<lparr>legal_nodes := ns\<rparr>)"
  unfolding graph_only_def
  by (intro conjI exI [of _ "tick s"] exI [of _ "[]"] exI [of _ ns] exI [of _ "legal_edges s"]) simp_all

lemma graph_only_edges [intro!]: "graph_only s (s\<lparr>legal_edges := es\<rparr>)"
  unfolding graph_only_def
  by (intro conjI exI [of _ "tick s"] exI [of _ "[]"] exI [of _ "legal_nodes s"] exI [of _ es]) simp_all

lemma graph_act_node_meta [intro!]: "graph_act (get_or_create_node_meta w rc tenant ty ref tab h meta)"
  unfolding get_or_create_node_meta_def audit_created_def query_single_def Let_def
  by (auto split: option.split)

lemma graph_act_node [intro!]: "graph_act (get_or_create_node w rc tenant ty ref tab h)"
  unfolding get_or_create_node_def by (rule graph_act_node_meta)

lemma graph_act_edge [intro!]: "graph_act (link_edge w rc tenant src dst ty meta)"
  unfolding link_edge_def audit_created_def query_single_def Let_def
  by (auto split: option.split)

lemma graph_act_allocation: "graph_act (ensure_settlement_allocation_graph w rc a i source)"
  unfolding ensure_settlement_allocation_graph_def link_source_def
  by (auto split: option.split prod.split)

end
