(* ===== verification/Double_Entry.thy ===== *)
theory Double_Entry
  imports Neft_Prelude
begin

text \<open>
  The contract that the ledgers of the system share: entries come in batches of one currency whose
  signed amounts cancel. From it every currency has a zero trial balance and the account balances of a
  currency cancel each other.
\<close>

definition signed_sum :: "('e \<Rightarrow> int) \<Rightarrow> 'e list \<Rightarrow> int" where
  "signed_sum signed es = sum_list (map signed es)"

lemma signed_sum_Nil [simp]: "signed_sum f [] = 0"
  by (simp add: signed_sum_def)

lemma signed_sum_Cons [simp]: "signed_sum f (e # es) = f e + signed_sum f es"
  by (simp add: signed_sum_def)

lemma signed_sum_append [simp]: "signed_sum f (xs @ ys) = signed_sum f xs + signed_sum f ys"
  by (simp add: signed_sum_def)

lemma signed_sum_group:
  assumes "finite K" and "key ` set es \<subseteq> K"
  shows "signed_sum f es = (\<Sum>k\<in>K. signed_sum f (filter (\<lambda>e. key e = k) es))"
  using assms(2)
proof (induction es)
  case (Cons e es)
  have "(\<Sum>k\<in>K. signed_sum f (filter (\<lambda>x. key x = k) (e # es))) =
      (\<Sum>k\<in>K. (if k = key e then f e else 0) + signed_sum f (filter (\<lambda>x. key x = k) es))"
    by (intro sum.cong) auto
  also have "\<dots> = f e + signed_sum f es"
    using Cons assms(1) by (simp add: sum.distrib)
  finally show ?case by simp
qed simp

locale double_entry =
  fixes ok :: "'s \<Rightarrow> bool"
    and entries :: "'s \<Rightarrow> 'e list"
    and batch_of :: "'e \<Rightarrow> 'b"
    and currency_of :: "'e \<Rightarrow> 'c"
    and account_of :: "'e \<Rightarrow> 'k"
    and signed :: "'e \<Rightarrow> int"
  assumes one_currency: "ok s \<Longrightarrow> e \<in> set (entries s) \<Longrightarrow> e' \<in> set (entries s) \<Longrightarrow>
      batch_of e = batch_of e' \<Longrightarrow> currency_of e = currency_of e'"
    and batch_zero: "ok s \<Longrightarrow> e \<in> set (entries s) \<Longrightarrow>
      signed_sum signed (filter (\<lambda>x. batch_of x = batch_of e) (entries s)) = 0"
begin

lemma currency_batch_zero:
  assumes "ok s"
  shows "signed_sum signed (filter (\<lambda>x. batch_of x = b) (filter (\<lambda>x. currency_of x = c) (entries s))) = 0"
proof (cases "filter (\<lambda>x. batch_of x = b) (filter (\<lambda>x. currency_of x = c) (entries s))")
  case (Cons e es)
  then have "e \<in> set (filter (\<lambda>x. batch_of x = b) (filter (\<lambda>x. currency_of x = c) (entries s)))" by simp
  then have e: "e \<in> set (entries s)" "batch_of e = b" "currency_of e = c" by simp_all
  have "filter (\<lambda>x. batch_of x = b) (filter (\<lambda>x. currency_of x = c) (entries s)) =
      filter (\<lambda>x. batch_of x = batch_of e) (entries s)"
    unfolding filter_filter using one_currency [OF assms _ e(1)] e by (intro filter_cong) auto
  then show ?thesis using batch_zero [OF assms e(1)] by simp
qed simp

lemma trial_balance:
  assumes "ok s"
  shows "signed_sum signed (filter (\<lambda>x. currency_of x = c) (entries s)) = 0"
proof -
  let ?es = "filter (\<lambda>x. currency_of x = c) (entries s)"
  have "signed_sum signed ?es = (\<Sum>b\<in>batch_of ` set ?es. signed_sum signed (filter (\<lambda>x. batch_of x = b) ?es))"
    by (rule signed_sum_group) simp_all
  also have "\<dots> = 0" by (rule sum.neutral) (use currency_batch_zero [OF assms] in blast)
  finally show ?thesis .
qed

lemma account_balances_cancel:
  assumes "ok s" and "finite A" and "account_of ` set (entries s) \<subseteq> A"
  shows "(\<Sum>k\<in>A. signed_sum signed (filter (\<lambda>x. account_of x = k) (filter (\<lambda>x. currency_of x = c) (entries s)))) = 0"
proof -
  have "account_of ` set (filter (\<lambda>x. currency_of x = c) (entries s)) \<subseteq> A" using assms(3) by auto
  from signed_sum_group [OF assms(2) this, of signed] trial_balance [OF assms(1), of c]
  show ?thesis by (simp only:)
qed

end

end
