(* ===== verification/Ledger_Invariant.thy ===== *)
theory Ledger_Invariant
  imports Internal_Ledger Hash_Chain Double_Entry Idempotency
begin

text \<open>
  The invariant of the internal ledger and the effect of one posting: keys, identifiers and batch
  sequences are unique, every transaction is balanced by its entries, and the transactions of a tenant
  form a hash chain over their entries in the order of posting.
\<close>

section \<open>The outside world, as documented\<close>

text \<open>A hexadecimal SHA-256 digest has 64 characters, and \<open>uuid4\<close> never repeats.\<close>

definition sane_world :: "world \<Rightarrow> bool" where
  "sane_world w \<longleftrightarrow> inj (uuid_at w) \<and> (\<forall>x. length (sha256_hex w x) = 64)"

definition ids_below :: "world \<Rightarrow> nat \<Rightarrow> string list \<Rightarrow> bool" where
  "ids_below w n xs \<longleftrightarrow> distinct xs \<and> (\<forall>x\<in>set xs. \<exists>k<n. x = uuid_at w k)"

lemma ids_below_mono: "ids_below w n xs \<Longrightarrow> n \<le> m \<Longrightarrow> ids_below w m xs"
  unfolding ids_below_def by (meson order_less_le_trans)

lemma uuid_fresh: "sane_world w \<Longrightarrow> ids_below w n xs \<Longrightarrow> n \<le> m \<Longrightarrow> uuid_at w m \<notin> set xs"
  unfolding ids_below_def sane_world_def by (metis injD leD)

lemma ids_below_snoc:
  "sane_world w \<Longrightarrow> ids_below w n xs \<Longrightarrow> n \<le> m \<Longrightarrow> m < k \<Longrightarrow> ids_below w k (xs @ [uuid_at w m])"
  using uuid_fresh [of w n xs m] by (auto simp: ids_below_def) (meson order_less_le_trans order_less_trans)

lemma ids_below_Nil [simp]: "ids_below w n []"
  by (simp add: ids_below_def)

section \<open>Invariant\<close>

definition acc_scope :: "il_account \<Rightarrow> int \<times> string option \<times> il_account_type \<times> string" where
  "acc_scope a = (acc_tenant_id a, acc_client_id a, acc_account_type a, acc_currency a)"

lemma account_scope_iff: "account_scope tenant client ty cur a \<longleftrightarrow> acc_scope a = (tenant, client, ty, cur)"
  by (simp add: account_scope_def acc_scope_def)

definition accounts_ok :: "world \<Rightarrow> nat \<Rightarrow> il_account list \<Rightarrow> bool" where
  "accounts_ok w n accs \<longleftrightarrow> distinct (map acc_scope accs) \<and> ids_below w n (map acc_id accs)"

definition tx_entries :: "il_transaction \<Rightarrow> il_entry list \<Rightarrow> il_entry list" where
  "tx_entries t es = filter (\<lambda>e. en_ledger_transaction_id e = tx_id t) es"

definition joined_postings :: "il_account list \<Rightarrow> il_entry list \<Rightarrow> pyval list" where
  "joined_postings accs es = map (\<lambda>(e, a). posting_dict (acc_account_type a) (acc_client_id a)
     (en_direction e) (en_amount e) (en_currency e) (en_meta e)) (join_accounts accs es)"

definition ledger_link :: "world \<Rightarrow> il_account list \<Rightarrow> il_entry list \<Rightarrow> string \<Rightarrow> il_transaction \<Rightarrow> bool" where
  "ledger_link w accs es h t \<longleftrightarrow> tx_previous_batch_hash t = h \<and>
     (\<exists>p. tx_posted_at t = Some p \<and>
        tx_batch_hash t = compute_batch_hash w h (joined_postings accs (tx_entries t es))
          (tx_total_debit t) (tx_total_credit t) p)"

definition tx_balanced :: "il_entry list \<Rightarrow> il_transaction \<Rightarrow> bool" where
  "tx_balanced es t \<longleftrightarrow> tx_total_amount t = Some (tx_total_debit t) \<and>
     tx_total_credit t = tx_total_debit t \<and>
     (\<forall>e\<in>set (tx_entries t es). tx_currency t = Some (en_currency e)) \<and>
     sum_direction DEBIT en_direction en_amount (tx_entries t es) = tx_total_debit t \<and>
     sum_direction CREDIT en_direction en_amount (tx_entries t es) = tx_total_credit t"

definition txs_ok :: "world \<Rightarrow> nat \<Rightarrow> il_transaction list \<Rightarrow> bool" where
  "txs_ok w n txs \<longleftrightarrow> distinct (map tx_idempotency_key txs) \<and> ids_below w n (map tx_id txs) \<and>
     (\<forall>tenant. map tx_batch_sequence (tenant_transactions tenant txs) =
        map int [1..<Suc (length (tenant_transactions tenant txs))])"

definition entries_ok :: "world \<Rightarrow> nat \<Rightarrow> il_account list \<Rightarrow> il_transaction list \<Rightarrow> il_entry list \<Rightarrow> bool" where
  "entries_ok w n accs txs es \<longleftrightarrow> ids_below w n (map en_id es) \<and>
     (\<forall>e\<in>set es. en_account_id e \<in> acc_id ` set accs \<and> en_ledger_transaction_id e \<in> tx_id ` set txs)"

definition ledger_ok :: "world \<Rightarrow> 'a ledger_db_scheme \<Rightarrow> bool" where
  "ledger_ok w s \<longleftrightarrow> accounts_ok w (tick s) (il_accounts s) \<and> txs_ok w (tick s) (il_transactions s) \<and>
     entries_ok w (tick s) (il_accounts s) (il_transactions s) (il_entries s) \<and>
     (\<forall>t\<in>set (il_transactions s). tx_balanced (il_entries s) t) \<and>
     (\<forall>tenant. chain_from (ledger_link w (il_accounts s) (il_entries s)) tx_batch_hash GENESIS_BATCH_HASH
        (tenant_transactions tenant (il_transactions s)))"

lemma ledger_okD:
  assumes "ledger_ok w s"
  shows "accounts_ok w (tick s) (il_accounts s)" "txs_ok w (tick s) (il_transactions s)"
    "entries_ok w (tick s) (il_accounts s) (il_transactions s) (il_entries s)"
    "t \<in> set (il_transactions s) \<Longrightarrow> tx_balanced (il_entries s) t"
    "chain_from (ledger_link w (il_accounts s) (il_entries s)) tx_batch_hash GENESIS_BATCH_HASH
        (tenant_transactions tenant (il_transactions s))"
  using assms by (simp_all add: ledger_ok_def)

lemma ledger_ok_empty:
  "il_accounts s = [] \<Longrightarrow> il_transactions s = [] \<Longrightarrow> il_entries s = [] \<Longrightarrow> ledger_ok w s"
  by (simp add: ledger_ok_def accounts_ok_def txs_ok_def entries_ok_def tenant_transactions_def)

section \<open>Accounts are found or created\<close>

lemma accounts_ok_snoc:
  "sane_world w \<Longrightarrow> accounts_ok w n accs \<Longrightarrow> acc_scope a \<notin> acc_scope ` set accs \<Longrightarrow> acc_id a = uuid_at w n \<Longrightarrow>
     accounts_ok w (Suc n) (accs @ [a])"
  using ids_below_snoc [of w n "map acc_id accs" n "Suc n"] by (simp add: accounts_ok_def)

definition grows_accounts :: "world \<Rightarrow> 'a ledger_db_scheme \<Rightarrow> 'a ledger_db_scheme \<Rightarrow> bool" where
  "grows_accounts w s s' \<longleftrightarrow>
     (\<exists>n new. s' = s\<lparr>tick := tick s + n, il_accounts := il_accounts s @ new\<rparr>) \<and>
     accounts_ok w (tick s') (il_accounts s')"

lemma grows_accounts_trans: "grows_accounts w s t \<Longrightarrow> grows_accounts w t u \<Longrightarrow> grows_accounts w s u"
  unfolding grows_accounts_def by (auto simp: add.assoc) (metis add.assoc)

lemma grows_accounts_refl: "accounts_ok w (tick s) (il_accounts s) \<Longrightarrow> grows_accounts w s s"
  unfolding grows_accounts_def by (auto intro!: exI [of _ 0] exI [of _ "[]"])

lemma grows_accounts_frame:
  assumes "grows_accounts w s s'"
  shows "il_transactions s' = il_transactions s" "il_entries s' = il_entries s"
    "audit_log s' = audit_log s" "tick s \<le> tick s'" "\<exists>new. il_accounts s' = il_accounts s @ new"
    "set (il_accounts s) \<subseteq> set (il_accounts s')" "accounts_ok w (tick s') (il_accounts s')"
  using assms by (auto simp: grows_accounts_def)

lemma ensure_account_effect:
  assumes w: "sane_world w" and ok: "accounts_ok w (tick s) (il_accounts s)"
  obtains a s' where "ensure_account w tenant client ty cur s = (Inr a, s')"
    and "grows_accounts w s s'" and "a \<in> set (il_accounts s')" and "acc_scope a = (tenant, client, ty, cur)"
proof (cases "(tenant, client, ty, cur) \<in> acc_scope ` set (il_accounts s)")
  case True
  then obtain a where a: "a \<in> set (il_accounts s)" "acc_scope a = (tenant, client, ty, cur)" by auto
  have "one_or_none (account_scope tenant client ty cur) (il_accounts s) = Inr (Some a)"
    using one_or_none_unique_key [of acc_scope "il_accounts s" a] ok a
    by (simp add: accounts_ok_def account_scope_iff [abs_def])
  then have "ensure_account w tenant client ty cur s = (Inr a, s)"
    by (simp add: ensure_account_def)
  with a ok show ?thesis using that grows_accounts_refl by blast
next
  case False
  let ?a = "\<lparr>acc_id = uuid_at w (tick s), acc_tenant_id = tenant, acc_client_id = client,
     acc_account_type = ty, acc_currency = cur, acc_status = ACCOUNT_ACTIVE\<rparr>"
  let ?s' = "s\<lparr>tick := Suc (tick s), il_accounts := il_accounts s @ [?a]\<rparr>"
  have none: "one_or_none (account_scope tenant client ty cur) (il_accounts s) = Inr None"
    using False by (auto simp: account_scope_iff image_iff)
  have nc: "\<not> account_conflict ?a (il_accounts s)"
    using False by (auto simp: account_conflict_def account_scope_iff image_iff)
  have "ensure_account w tenant client ty cur s = (Inr ?a, ?s')"
    using nc by (simp add: ensure_account_def and_then_apply none Let_def)
  moreover have "grows_accounts w s ?s'"
    unfolding grows_accounts_def
    using accounts_ok_snoc [OF w ok, of ?a] False
    by (auto simp: acc_scope_def intro!: exI [of _ "Suc 0"] exI [of _ "[?a]"])
  ultimately show ?thesis using that [of ?a ?s'] by (simp add: acc_scope_def)
qed

text \<open>What a built entry shares with its line.\<close>

definition entry_for :: "int \<Rightarrow> il_transaction \<Rightarrow> il_account list \<Rightarrow> il_line \<Rightarrow> il_entry \<Rightarrow> bool" where
  "entry_for tenant t accs l e \<longleftrightarrow> en_ledger_transaction_id e = tx_id t \<and> en_tenant_id e = tenant \<and>
     en_direction e = ln_direction l \<and> en_amount e = ln_amount l \<and> en_currency e = ln_currency l \<and>
     en_meta e = ln_meta l \<and>
     (\<exists>a\<in>set accs. acc_id a = en_account_id e \<and>
        acc_scope a = (tenant, ln_client_id l, ln_account_type l, ln_currency l))"

lemma entry_for_mono: "entry_for tenant t accs l e \<Longrightarrow> set accs \<subseteq> set accs' \<Longrightarrow> entry_for tenant t accs' l e"
  by (auto simp: entry_for_def)

lemma build_all_entries:
  assumes w: "sane_world w"
  shows "accounts_ok w (tick s) (il_accounts s) \<Longrightarrow>
    \<exists>built s'. for_each lines (\<lambda>l. and_then (ensure_account w tenant (ln_client_id l) (ln_account_type l)
         (ln_currency l)) (\<lambda>a. ret (build_entry w tenant t a l))) s = (Inr built, s') \<and>
      grows_accounts w s s' \<and> list_all2 (entry_for tenant t (il_accounts s')) lines built"
proof (induction lines arbitrary: s)
  case Nil
  then show ?case by (auto intro: grows_accounts_refl)
next
  case (Cons l lines)
  from ensure_account_effect [OF w Cons.prems, of tenant "ln_client_id l" "ln_account_type l" "ln_currency l"]
  obtain a s1 where a: "ensure_account w tenant (ln_client_id l) (ln_account_type l) (ln_currency l) s = (Inr a, s1)"
    and g1: "grows_accounts w s s1" and a_in: "a \<in> set (il_accounts s1)"
    and scope: "acc_scope a = (tenant, ln_client_id l, ln_account_type l, ln_currency l)" by blast
  from Cons.IH [OF grows_accounts_frame(7) [OF g1]] obtain built s2 where
    b: "for_each lines (\<lambda>l. and_then (ensure_account w tenant (ln_client_id l) (ln_account_type l)
         (ln_currency l)) (\<lambda>a. ret (build_entry w tenant t a l))) s1 = (Inr built, s2)"
    and g2: "grows_accounts w s1 s2" and all: "list_all2 (entry_for tenant t (il_accounts s2)) lines built"
    by blast
  have "entry_for tenant t (il_accounts s2) l (build_entry w tenant t a l)"
    using a_in scope grows_accounts_frame(6) [OF g2] by (auto simp: entry_for_def build_entry_def)
  with all have "list_all2 (entry_for tenant t (il_accounts s2)) (l # lines) (build_entry w tenant t a l # built)"
    by simp
  moreover have "and_then (ensure_account w tenant (ln_client_id l) (ln_account_type l) (ln_currency l))
      (\<lambda>a. ret (build_entry w tenant t a l)) s = (Inr (build_entry w tenant t a l), s1)"
    using a by simp
  ultimately show ?case
    using for_each_ConsI [OF _ b] grows_accounts_trans [OF g1 g2] by blast
qed

section \<open>Storing the entries\<close>

lemma add_entry_apply:
  "add_entry w e s = (Inr (e\<lparr>en_id := uuid_at w (tick s)\<rparr>),
     s\<lparr>tick := Suc (tick s), il_entries := il_entries s @ [e\<lparr>en_id := uuid_at w (tick s)\<rparr>]\<rparr>)"
  by (simp add: add_entry_def and_then_apply Let_def)

fun stamp_entries :: "world \<Rightarrow> nat \<Rightarrow> il_entry list \<Rightarrow> il_entry list" where
  "stamp_entries w n [] = []"
| "stamp_entries w n (e # es) = e\<lparr>en_id := uuid_at w n\<rparr> # stamp_entries w (Suc n) es"

lemma add_all_entries:
  "for_each es (add_entry w) s = (Inr (stamp_entries w (tick s) es),
     s\<lparr>tick := tick s + length es, il_entries := il_entries s @ stamp_entries w (tick s) es\<rparr>)"
  by (induction es arbitrary: s) (simp_all add: and_then_def add_entry_apply)

lemma length_stamp [simp]: "length (stamp_entries w n es) = length es"
  by (induction es arbitrary: n) simp_all

lemma stamp_ids: "map en_id (stamp_entries w n es) = map (uuid_at w) [n..<n + length es]"
proof (induction es arbitrary: n)
  case (Cons e es)
  have "[n..<n + length (e # es)] = n # [Suc n..<Suc n + length es]" by (simp add: upt_conv_Cons del: upt_Suc)
  with Cons show ?case by (simp del: upt_Suc)
qed simp

lemma ids_below_append_upt:
  assumes "sane_world w" and "ids_below w n xs" and "n \<le> m"
  shows "ids_below w (m + k) (xs @ map (uuid_at w) [m..<m + k])"
proof (induction k)
  case 0
  then show ?case using ids_below_mono [OF assms(2,3)] by simp
next
  case (Suc k)
  from ids_below_snoc [OF assms(1) Suc, of "m + k" "m + Suc k"] show ?case by simp
qed

lemma entry_for_stamp:
  "list_all2 (entry_for tenant t accs) lines es \<Longrightarrow> list_all2 (entry_for tenant t accs) lines (stamp_entries w n es)"
proof (induction lines es arbitrary: n rule: list_all2_induct)
  case (Cons l ls e es)
  from Cons.hyps have "entry_for tenant t accs l (e\<lparr>en_id := uuid_at w n\<rparr>)" by (simp add: entry_for_def)
  with Cons.IH show ?case by simp
qed simp

text \<open>Entries that mirror their lines have the lines' totals, currency and postings.\<close>

lemma mirrored_sum:
  "list_all2 (entry_for tenant t accs) lines es \<Longrightarrow>
     sum_direction d en_direction en_amount es = sum_direction d ln_direction ln_amount lines"
  by (induction lines es rule: list_all2_induct) (auto simp: sum_direction_def entry_for_def)

lemma mirrored_currency:
  "list_all2 (entry_for tenant t accs) lines es \<Longrightarrow> map en_currency es = map ln_currency lines"
  by (induction lines es rule: list_all2_induct) (auto simp: entry_for_def)

lemma mirrored_txid:
  "list_all2 (entry_for tenant t accs) lines es \<Longrightarrow> \<forall>e\<in>set es. en_ledger_transaction_id e = tx_id t"
  by (induction lines es rule: list_all2_induct) (auto simp: entry_for_def)

lemma mirrored_account:
  "list_all2 (entry_for tenant t accs) lines es \<Longrightarrow> \<forall>e\<in>set es. en_account_id e \<in> acc_id ` set accs"
  by (induction lines es rule: list_all2_induct) (force simp: entry_for_def)+

lemma find_unique:
  "distinct (map key xs) \<Longrightarrow> x \<in> set xs \<Longrightarrow> find (\<lambda>y. key y = key x) xs = Some x"
  by (induction xs) auto

lemma filter_unique:
  "distinct (map key xs) \<Longrightarrow> x \<in> set xs \<Longrightarrow> filter (\<lambda>y. key y = key x) xs = [x]"
  using one_or_none_unique_key [of key xs x] by (auto simp: one_or_none_def split: list.splits)

lemma mirrored_serialize:
  assumes "distinct (map acc_id accs)"
  shows "list_all2 (entry_for tenant t accs) lines es \<Longrightarrow>
     serialize_entries accs es = Inr (canonical_postings_payload lines)"
proof (induction lines es rule: list_all2_induct)
  case (Cons l ls e es)
  from Cons.hyps obtain a where a: "a \<in> set accs" "acc_id a = en_account_id e"
    "acc_scope a = (tenant, ln_client_id l, ln_account_type l, ln_currency l)" by (auto simp: entry_for_def)
  from find_unique [OF assms a(1)] a(2) have "find (\<lambda>y. acc_id y = en_account_id e) accs = Some a" by simp
  with Cons a(3) show ?case
    by (simp add: canonical_postings_payload_def acc_scope_def entry_for_def)
qed (simp add: canonical_postings_payload_def)

lemma mirrored_join:
  assumes "distinct (map acc_id accs)"
  shows "list_all2 (entry_for tenant t accs) lines es \<Longrightarrow>
     joined_postings accs es = canonical_postings_payload lines"
proof (induction lines es rule: list_all2_induct)
  case (Cons l ls e es)
  from Cons.hyps obtain a where a: "a \<in> set accs" "acc_id a = en_account_id e"
    "acc_scope a = (tenant, ln_client_id l, ln_account_type l, ln_currency l)" by (auto simp: entry_for_def)
  from filter_unique [OF assms a(1)] a(2) have "filter (\<lambda>y. acc_id y = en_account_id e) accs = [a]" by simp
  with Cons a(3) show ?case
    by (simp add: canonical_postings_payload_def joined_postings_def join_accounts_def acc_scope_def entry_for_def)
qed (simp add: canonical_postings_payload_def joined_postings_def join_accounts_def)

section \<open>A new transaction\<close>

lemma sorted_seq: "sorted (map int [1..<Suc n])"
  unfolding sorted_map by (rule sorted_wrt_mono_rel [OF _ sorted_upt]) simp

lemma by_sequence_id:
  assumes "txs_ok w n txs"
  shows "by_sequence (tenant_transactions tenant txs) = tenant_transactions tenant txs"
proof -
  have "sorted (map tx_batch_sequence (tenant_transactions tenant txs))"
    using assms sorted_seq unfolding txs_ok_def by metis
  then show ?thesis by (simp add: by_sequence_def sort_key_id_if_sorted)
qed

lemma next_sequence_eq:
  assumes "txs_ok w n txs"
  shows "next_batch_sequence tenant txs = int (length (tenant_transactions tenant txs)) + 1"
proof (cases "tenant_transactions tenant txs")
  case Nil
  then show ?thesis by (simp add: next_batch_sequence_def by_sequence_def)
next
  case (Cons t ts)
  let ?ts = "tenant_transactions tenant txs"
  have "map tx_batch_sequence ?ts = map int [1..<Suc (length ?ts)]"
    using assms by (simp only: txs_ok_def)
  then have "last (map tx_batch_sequence ?ts) = last (map int [1..<Suc (length ?ts)])" by simp
  also have "\<dots> = int (length ?ts)" using Cons by (simp add: last_map)
  finally show ?thesis
    using Cons unfolding next_batch_sequence_def by_sequence_id [OF assms] Let_def
    by (simp add: last_map split: if_splits)
qed

lemma last_batch_hash_eq:
  assumes "sane_world w" and "txs_ok w n txs"
    and "chain_from (ledger_link w accs es) tx_batch_hash GENESIS_BATCH_HASH (tenant_transactions tenant txs)"
  shows "last_batch_hash tenant txs = chain_head tx_batch_hash GENESIS_BATCH_HASH (tenant_transactions tenant txs)"
proof (cases "tenant_transactions tenant txs" rule: rev_cases)
  case Nil
  then show ?thesis by (simp add: last_batch_hash_def by_sequence_def)
next
  case (snoc ts t)
  with assms(3) have "ledger_link w accs es (chain_head tx_batch_hash GENESIS_BATCH_HASH ts) t"
    by (simp add: chain_from_append)
  then have "tx_batch_hash t \<noteq> []"
    using assms(1) by (auto simp: ledger_link_def compute_batch_hash_def sane_world_def)
      (metis list.size(3) zero_neq_numeral)
  then show ?thesis
    using snoc unfolding last_batch_hash_def by_sequence_id [OF assms(2)] Let_def by simp
qed

definition posting_time :: "world \<Rightarrow> post_request \<Rightarrow> nat \<Rightarrow> int" where
  "posting_time w pr n = (case pr_posted_at pr of Some p \<Rightarrow> p | None \<Rightarrow> time_at w n)"

definition posting_tick :: "post_request \<Rightarrow> nat \<Rightarrow> nat" where
  "posting_tick pr n = (case pr_posted_at pr of Some p \<Rightarrow> n | None \<Rightarrow> Suc n)"

definition new_transaction ::
    "world \<Rightarrow> post_request \<Rightarrow> int \<Rightarrow> string \<Rightarrow> il_line list \<Rightarrow> 'a ledger_db_scheme \<Rightarrow> il_transaction" where
  "new_transaction w pr tot currency lines s =
     \<lparr>tx_id = uuid_at w (posting_tick pr (tick s)), tx_tenant_id = pr_tenant_id pr,
      tx_transaction_type = pr_transaction_type pr,
      tx_external_ref_type = pr_external_ref_type pr, tx_external_ref_id = pr_external_ref_id pr,
      tx_idempotency_key = normalize_key w ''ledger:'' 128 (pr_idempotency_key pr),
      tx_total_amount = Some tot, tx_total_debit = tot, tx_total_credit = tot,
      tx_currency = Some currency,
      tx_batch_sequence = next_batch_sequence (pr_tenant_id pr) (il_transactions s),
      tx_previous_batch_hash = last_batch_hash (pr_tenant_id pr) (il_transactions s),
      tx_batch_hash = compute_batch_hash w (last_batch_hash (pr_tenant_id pr) (il_transactions s))
        (canonical_postings_payload lines) tot tot (posting_time w pr (tick s)),
      tx_posted_at = Some (posting_time w pr (tick s)),
      tx_created_at = time_at w (Suc (posting_tick pr (tick s))), tx_meta = pr_meta pr\<rparr>"

definition key_used :: "world \<Rightarrow> post_request \<Rightarrow> il_transaction list \<Rightarrow> bool" where
  "key_used w pr txs \<longleftrightarrow>
     (\<exists>t\<in>set txs. tx_idempotency_key t = normalize_key w ''ledger:'' 128 (pr_idempotency_key pr))"

lemma new_transaction_fields [simp]:
  "tx_id (new_transaction w pr tot cur lines s) = uuid_at w (posting_tick pr (tick s))"
  "tx_tenant_id (new_transaction w pr tot cur lines s) = pr_tenant_id pr"
  "tx_external_ref_type (new_transaction w pr tot cur lines s) = pr_external_ref_type pr"
  "tx_external_ref_id (new_transaction w pr tot cur lines s) = pr_external_ref_id pr"
  "tx_idempotency_key (new_transaction w pr tot cur lines s) =
     normalize_key w ''ledger:'' 128 (pr_idempotency_key pr)"
  "tx_total_amount (new_transaction w pr tot cur lines s) = Some tot"
  "tx_total_debit (new_transaction w pr tot cur lines s) = tot"
  "tx_total_credit (new_transaction w pr tot cur lines s) = tot"
  "tx_currency (new_transaction w pr tot cur lines s) = Some cur"
  "tx_batch_sequence (new_transaction w pr tot cur lines s) =
     next_batch_sequence (pr_tenant_id pr) (il_transactions s)"
  by (simp_all add: new_transaction_def)

lemma new_no_conflict:
  assumes "txs_ok w n (il_transactions s)" and "\<not> key_used w pr (il_transactions s)"
  shows "\<not> transaction_conflict (new_transaction w pr tot currency lines s) (il_transactions s)"
proof -
  let ?tn = "tenant_transactions (pr_tenant_id pr) (il_transactions s)"
  have seqs: "map tx_batch_sequence ?tn = map int [1..<Suc (length ?tn)]"
    using assms(1) by (simp only: txs_ok_def)
  have "tx_batch_sequence x \<noteq> int (length ?tn) + 1" if "x \<in> set ?tn" for x
  proof -
    from that have "tx_batch_sequence x \<in> set (map tx_batch_sequence ?tn)" by simp
    then show ?thesis unfolding seqs by auto
  qed
  then show ?thesis
    using assms(2) next_sequence_eq [OF assms(1)]
    by (auto simp: transaction_conflict_def new_transaction_def key_used_def tenant_transactions_def)
qed

lemma get_or_create_new:
  assumes "txs_ok w (tick s) (il_transactions s)" and "\<not> key_used w pr (il_transactions s)"
  shows "get_or_create_transaction w pr (Some tot) (Some currency) (Some tot) (Some tot)
      (canonical_postings_payload lines) s =
    (Inr (new_transaction w pr tot currency lines s, False),
     s\<lparr>tick := Suc (Suc (posting_tick pr (tick s))),
       il_transactions := il_transactions s @ [new_transaction w pr tot currency lines s]\<rparr>)"
proof -
  let ?key = "normalize_key w ''ledger:'' 128 (pr_idempotency_key pr)"
  have none: "one_or_none (\<lambda>t. tx_idempotency_key t = ?key) (il_transactions s) = Inr None"
    using assms(2) by (auto simp: key_used_def)
  show ?thesis
    using new_no_conflict [OF assms, of tot currency lines]
    by (cases "pr_posted_at pr")
      (simp_all add: get_or_create_transaction_def Let_def and_then_apply none new_transaction_def
        posting_time_def posting_tick_def)
qed

lemma get_or_create_replay:
  assumes "distinct (map tx_idempotency_key (il_transactions s))" and "t \<in> set (il_transactions s)"
    and "tx_idempotency_key t = normalize_key w ''ledger:'' 128 (pr_idempotency_key pr)"
  shows "get_or_create_transaction w pr ta cur td tc sp s =
     (case check_replay t ta cur of Inl e \<Rightarrow> Inl e | Inr _ \<Rightarrow> Inr (t, True), s)"
  using one_or_none_unique_key [OF assms(1,2)] assms(3)
  by (simp add: get_or_create_transaction_def Let_def and_then_apply split: sum.split)

section \<open>The effect of a posting\<close>

lemma store_row_last: "store_row key r (xs @ [r]) = store_row key r xs @ [r]"
  by (simp add: store_row_def)

lemma emit_audit_event_effect:
  obtains r where "emit_audit_event w t es cur tot s =
     (Inr r, s\<lparr>tick := Suc (Suc (tick s)), audit_log := audit_log s @ [r]\<rparr>)"
  by (simp add: emit_audit_event_def audit_apply Let_def)

lemma single_currency_all: "single_currency cs = Inr cur \<Longrightarrow> c \<in> set cs \<Longrightarrow> c = cur"
  by (auto simp: single_currency_def length_Suc_conv split: if_splits) (metis list.sel(1) set_ConsD set_remdups empty_iff set_empty)

lemma post_entries_new:
  assumes "single_currency (map en_currency built) = Inr cur" and "tx_currency t = Some cur"
    and "balanced_total en_direction en_amount built = Inr tot"
    and "serialize_entries (il_accounts s) built = Inr payload"
    and "tx_posted_at t = Some p"
    and "tx_total_debit t = tot" "tx_total_credit t = tot" "tx_total_amount t = Some tot"
    and "tx_batch_hash t = compute_batch_hash w (tx_previous_batch_hash t) payload tot tot p"
    and "il_transactions s = txs @ [t]" and "tx_id t \<notin> tx_id ` set txs"
  shows "\<exists>r. post_entries w t built (Some cur) s = (Inr t,
     s\<lparr>tick := tick s + length built + 2, audit_log := audit_log s @ [r],
       il_entries := il_entries s @ stamp_entries w (tick s) built\<rparr>)"
proof -
  have same: "t\<lparr>tx_total_debit := tot, tx_total_credit := tot, tx_total_amount := Some tot,
      tx_batch_hash := compute_batch_hash w (tx_previous_batch_hash t) payload tot tot p,
      tx_posted_at := Some p\<rparr> = t"
    using assms by (cases t) simp
  have rows: "store_row tx_id t (il_transactions s) = il_transactions s"
    using assms(10,11) by (simp add: store_row_last store_row_absent)
  have upd: "s\<lparr>il_transactions := il_transactions s\<rparr> = s" by simp
  let ?s = "s\<lparr>tick := tick s + length built, il_entries := il_entries s @ stamp_entries w (tick s) built\<rparr>"
  obtain r where r: "emit_audit_event w t (stamp_entries w (tick s) built) cur tot ?s =
     (Inr r, ?s\<lparr>tick := Suc (Suc (tick ?s)), audit_log := audit_log ?s @ [r]\<rparr>)"
    by (rule emit_audit_event_effect)
  have "post_entries w t built (Some cur) s = (Inr t, ?s\<lparr>tick := Suc (Suc (tick ?s)), audit_log := audit_log ?s @ [r]\<rparr>)"
    unfolding post_entries_def
    by (simp add: and_then_apply assms(1-5) Let_def same rows upd add_all_entries r)
  then show ?thesis by (intro exI [of _ r]) simp
qed

text \<open>\<open>s'\<close> is \<open>s\<close> after one posting of \<open>lines\<close>: one transaction, one entry per line, some accounts, one audit record.\<close>

definition posted ::
    "world \<Rightarrow> post_request \<Rightarrow> il_line list \<Rightarrow> il_transaction \<Rightarrow> 'a ledger_db_scheme \<Rightarrow> 'a ledger_db_scheme \<Rightarrow> bool" where
  "posted w pr lines t s s' \<longleftrightarrow>
     (\<exists>n m accs es r.
        s' = s\<lparr>tick := n, audit_log := audit_log s @ [r], il_accounts := il_accounts s @ accs,
               il_transactions := il_transactions s @ [t], il_entries := il_entries s @ es\<rparr> \<and>
        accounts_ok w n (il_accounts s @ accs) \<and>
        list_all2 (entry_for (pr_tenant_id pr) t (il_accounts s @ accs)) lines es \<and>
        map en_id es = map (uuid_at w) [m..<m + length es] \<and>
        posting_tick pr (tick s) < m \<and> m + length es \<le> n)"

lemma posted_accounts:
  assumes "posted w pr lines t s s'"
  shows "accounts_ok w (tick s') (il_accounts s')" "set (il_accounts s) \<subseteq> set (il_accounts s')"
    "il_transactions s' = il_transactions s @ [t]"
  using assms unfolding posted_def by auto

lemma posted_entries:
  assumes "posted w pr lines t s s'"
  obtains es m where "il_entries s' = il_entries s @ es"
    and "list_all2 (entry_for (pr_tenant_id pr) t (il_accounts s')) lines es"
    and "map en_id es = map (uuid_at w) [m..<m + length es]"
  using assms that unfolding posted_def by (elim exE conjE) simp

lemma post_transaction_new:
  assumes w: "sane_world w" and ok: "ledger_ok w s"
    and cur: "single_currency (map ln_currency lines) = Inr cur"
    and bal: "balanced_total ln_direction ln_amount lines = Inr tot"
    and fresh: "\<not> key_used w pr (il_transactions s)"
  shows "\<exists>s'. post_transaction w pr lines s = (Inr (new_transaction w pr tot cur lines s, False), s') \<and>
     posted w pr lines (new_transaction w pr tot cur lines s) s s'"
proof -
  define t where "t = new_transaction w pr tot cur lines s"
  define s1 where "s1 = s\<lparr>tick := Suc (Suc (posting_tick pr (tick s))), il_transactions := il_transactions s @ [t]\<rparr>"
  have pt: "tick s \<le> posting_tick pr (tick s)" by (simp add: posting_tick_def split: option.split)
  have g: "get_or_create_transaction w pr (Some tot) (Some cur) (Some tot) (Some tot)
      (canonical_postings_payload lines) s = (Inr (t, False), s1)"
    unfolding t_def s1_def by (rule get_or_create_new [OF ledger_okD(2) [OF ok] fresh])
  have "accounts_ok w (tick s1) (il_accounts s1)"
    using ledger_okD(1) [OF ok] pt by (auto simp: s1_def accounts_ok_def intro: ids_below_mono)
  from build_all_entries [OF w this, of lines "pr_tenant_id pr" t] obtain built s2 where
    b: "for_each lines (\<lambda>l. and_then (ensure_account w (pr_tenant_id pr) (ln_client_id l) (ln_account_type l)
         (ln_currency l)) (\<lambda>a. ret (build_entry w (pr_tenant_id pr) t a l))) s1 = (Inr built, s2)"
    and gr: "grows_accounts w s1 s2"
    and all: "list_all2 (entry_for (pr_tenant_id pr) t (il_accounts s2)) lines built" by blast
  from gr obtain k new where s2: "s2 = s1\<lparr>tick := tick s1 + k, il_accounts := il_accounts s1 @ new\<rparr>"
    and acc: "accounts_ok w (tick s2) (il_accounts s2)" by (auto simp: grows_accounts_def)
  have fresh_id: "tx_id t \<notin> tx_id ` set (il_transactions s)"
    using uuid_fresh [OF w _ pt, of "map tx_id (il_transactions s)"] ledger_okD(2) [OF ok]
    by (simp add: t_def new_transaction_def txs_ok_def)
  have rows: "il_transactions s2 = il_transactions s @ [t]" by (simp add: s2 s1_def)
  have c: "single_currency (map en_currency built) = Inr cur"
    "balanced_total en_direction en_amount built = Inr tot"
    using mirrored_currency [OF all] mirrored_sum [OF all] cur bal
    by (auto simp: balanced_total_def split: if_splits)
  have ser: "serialize_entries (il_accounts s2) built = Inr (canonical_postings_payload lines)"
    using mirrored_serialize [OF _ all] acc by (simp add: accounts_ok_def ids_below_def)
  obtain r where r: "post_entries w t built (Some cur) s2 = (Inr t,
     s2\<lparr>tick := tick s2 + length built + 2, audit_log := audit_log s2 @ [r],
       il_entries := il_entries s2 @ stamp_entries w (tick s2) built\<rparr>)"
    using post_entries_new [OF c(1) _ c(2) ser _ _ _ _ _ rows fresh_id, of "posting_time w pr (tick s)" w]
    by (auto simp: t_def new_transaction_def)
  have "accounts_ok w (tick s2 + length built + 2) (il_accounts s @ new)"
    using acc by (auto simp: s2 s1_def accounts_ok_def intro: ids_below_mono)
  then have "posted w pr lines t s (s2\<lparr>tick := tick s2 + length built + 2, audit_log := audit_log s2 @ [r],
       il_entries := il_entries s2 @ stamp_entries w (tick s2) built\<rparr>)"
    unfolding posted_def
    using entry_for_stamp [OF all, of w "tick s2"]
    by (intro exI [of _ "tick s2 + length built + 2"] exI [of _ "tick s2"] exI [of _ new]
        exI [of _ "stamp_entries w (tick s2) built"] exI [of _ r])
      (simp add: s2 s1_def stamp_ids del: upt_Suc)
  moreover have "post_transaction w pr lines s = (Inr (t, False), s2\<lparr>tick := tick s2 + length built + 2,
     audit_log := audit_log s2 @ [r], il_entries := il_entries s2 @ stamp_entries w (tick s2) built\<rparr>)"
    using g b r by (simp add: post_transaction_def and_then_apply cur bal)
  ultimately show ?thesis unfolding t_def by blast
qed

section \<open>The invariant is kept\<close>

lemma joined_postings_more_accounts:
  assumes "distinct (map acc_id (accs @ new))" and "\<forall>e\<in>set es. en_account_id e \<in> acc_id ` set accs"
  shows "joined_postings (accs @ new) es = joined_postings accs es"
proof -
  have "filter (\<lambda>a. acc_id a = en_account_id e) new = []" if "e \<in> set es" for e
    using assms that by (force simp: filter_empty_conv)
  then have "join_accounts (accs @ new) es = join_accounts accs es"
    unfolding join_accounts_def by (intro arg_cong [of _ _ concat] map_cong) simp_all
  then show ?thesis by (simp add: joined_postings_def)
qed

lemma tx_entries_append_other:
  "\<forall>e\<in>set new. en_ledger_transaction_id e \<noteq> tx_id t \<Longrightarrow> tx_entries t (es @ new) = tx_entries t es"
  by (simp add: tx_entries_def)

lemma tx_entries_new:
  "\<forall>e\<in>set es. en_ledger_transaction_id e \<noteq> tx_id t \<Longrightarrow> \<forall>e\<in>set new. en_ledger_transaction_id e = tx_id t \<Longrightarrow>
     tx_entries t (es @ new) = new"
  by (simp add: tx_entries_def)

lemma tenant_transactions_append [simp]:
  "tenant_transactions tenant (xs @ ys) = tenant_transactions tenant xs @ tenant_transactions tenant ys"
  by (simp add: tenant_transactions_def)

lemma txs_ok_snoc:
  assumes "sane_world w" and "txs_ok w n txs" and "tx_id t = uuid_at w m" "n \<le> m" "m < k"
    and "tx_idempotency_key t \<notin> tx_idempotency_key ` set txs"
    and "tx_batch_sequence t = next_batch_sequence (tx_tenant_id t) txs"
  shows "txs_ok w k (txs @ [t])"
proof -
  have "map tx_batch_sequence (tenant_transactions tenant (txs @ [t])) =
     map int [1..<Suc (length (tenant_transactions tenant (txs @ [t])))]" for tenant
    using assms(2,7) next_sequence_eq [OF assms(2), of tenant]
    by (auto simp: txs_ok_def tenant_transactions_def)
  moreover have "ids_below w k (map tx_id (txs @ [t]))"
    using ids_below_snoc [OF assms(1) _ assms(4,5)] assms(2,3) by (simp add: txs_ok_def)
  ultimately show ?thesis using assms(2,6) by (simp add: txs_ok_def)
qed

lemma ledger_link_kept:
  assumes "entries_ok w n accs txs es" and "distinct (map acc_id (accs @ new_accs))"
    and "t \<in> set txs" and "\<forall>e\<in>set new. en_ledger_transaction_id e \<notin> tx_id ` set txs"
  shows "ledger_link w (accs @ new_accs) (es @ new) h t \<longleftrightarrow> ledger_link w accs es h t"
proof -
  have "tx_entries t (es @ new) = tx_entries t es"
    using assms(3,4) by (intro tx_entries_append_other) auto
  moreover have "joined_postings (accs @ new_accs) (tx_entries t es) = joined_postings accs (tx_entries t es)"
    using assms(1,2) by (intro joined_postings_more_accounts) (auto simp: entries_ok_def tx_entries_def)
  ultimately show ?thesis by (simp add: ledger_link_def)
qed

lemma posted_keeps_ok:
  assumes w: "sane_world w" and ok: "ledger_ok w s"
    and cur: "single_currency (map ln_currency lines) = Inr cur"
    and bal: "balanced_total ln_direction ln_amount lines = Inr tot"
    and fresh: "\<not> key_used w pr (il_transactions s)"
    and post: "posted w pr lines (new_transaction w pr tot cur lines s) s s'"
  shows "ledger_ok w s'"
proof -
  define t where "t = new_transaction w pr tot cur lines s"
  let ?accs = "il_accounts s" and ?txs = "il_transactions s" and ?es = "il_entries s"
  have pt: "tick s \<le> posting_tick pr (tick s)" by (simp add: posting_tick_def split: option.split)
  from post obtain n m accs es r where
    s': "s' = s\<lparr>tick := n, audit_log := audit_log s @ [r], il_accounts := ?accs @ accs,
               il_transactions := ?txs @ [t], il_entries := ?es @ es\<rparr>"
    and acc: "accounts_ok w n (?accs @ accs)"
    and all: "list_all2 (entry_for (pr_tenant_id pr) t (?accs @ accs)) lines es"
    and ids: "map en_id es = map (uuid_at w) [m..<m + length es]"
    and m: "posting_tick pr (tick s) < m" and mn: "m + length es \<le> n"
    unfolding posted_def t_def by blast
  have dacc: "distinct (map acc_id (?accs @ accs))" using acc by (simp add: accounts_ok_def ids_below_def)
  have tf: "tx_tenant_id t = pr_tenant_id pr" "tx_total_amount t = Some tot" "tx_total_debit t = tot"
    "tx_total_credit t = tot" "tx_batch_sequence t = next_batch_sequence (tx_tenant_id t) ?txs"
    "tx_currency t = Some cur"
    "tx_idempotency_key t = normalize_key w ''ledger:'' 128 (pr_idempotency_key pr)"
    and id: "tx_id t = uuid_at w (posting_tick pr (tick s))" by (simp_all add: t_def)
  have "tx_id t \<notin> tx_id ` set ?txs"
    using uuid_fresh [OF w _ pt, of "map tx_id ?txs"] ledger_okD(2) [OF ok] id by (simp add: txs_ok_def)
  then have new_id: "\<forall>x\<in>set ?txs. tx_id x \<noteq> tx_id t" by (metis imageI)
  have txs: "txs_ok w n (?txs @ [t])"
    using fresh m mn
    by (intro txs_ok_snoc [OF w ledger_okD(2) [OF ok] id pt])
      (auto simp: key_used_def tf)
  have ids': "ids_below w n (map en_id (?es @ es))"
    using ids_below_append_upt [OF w, of "tick s" "map en_id ?es" m "length es"] ledger_okD(3) [OF ok] pt m mn
    by (auto simp: entries_ok_def ids intro: ids_below_mono)
  have old_e: "\<forall>e\<in>set ?es. en_ledger_transaction_id e \<noteq> tx_id t"
    using ledger_okD(3) [OF ok] new_id by (force simp: entries_ok_def)
  have new_e: "\<forall>e\<in>set es. en_ledger_transaction_id e = tx_id t" by (rule mirrored_txid [OF all])
  have entries: "entries_ok w n (?accs @ accs) (?txs @ [t]) (?es @ es)"
    using ids' ledger_okD(3) [OF ok] mirrored_account [OF all] new_e by (auto simp: entries_ok_def)
  have ent: "tx_entries t (?es @ es) = es" by (rule tx_entries_new [OF old_e new_e])
  have "en_currency e = cur" if "e \<in> set es" for e
    using single_currency_all [OF cur, of "en_currency e"] mirrored_currency [OF all] that
    by (metis imageI set_map)
  then have bal_t: "tx_balanced (?es @ es) t"
    using bal mirrored_sum [OF all]
    by (auto simp: tx_balanced_def ent balanced_total_def tf split: if_splits)
  have bal_old: "tx_balanced (?es @ es) x" if "x \<in> set ?txs" for x
  proof -
    have "\<forall>e\<in>set es. en_ledger_transaction_id e \<noteq> tx_id x" using new_id new_e that by metis
    from tx_entries_append_other [OF this] ledger_okD(4) [OF ok that]
    show ?thesis by (simp add: tx_balanced_def)
  qed
  have link: "ledger_link w (?accs @ accs) (?es @ es) (last_batch_hash (pr_tenant_id pr) ?txs) t"
    unfolding ledger_link_def ent mirrored_join [OF dacc all] by (simp add: t_def new_transaction_def)
  have kept: "chain_from (ledger_link w (?accs @ accs) (?es @ es)) tx_batch_hash GENESIS_BATCH_HASH
      (tenant_transactions tenant ?txs)" for tenant
  proof (rule chain_from_mono [OF _ ledger_okD(5) [OF ok]])
    fix h x assume "x \<in> set (tenant_transactions tenant ?txs)" and l: "ledger_link w ?accs ?es h x"
    then have "x \<in> set ?txs" by (simp add: tenant_transactions_def)
    moreover have "\<forall>e\<in>set es. en_ledger_transaction_id e \<notin> tx_id ` set ?txs" using new_e new_id by force
    ultimately show "ledger_link w (?accs @ accs) (?es @ es) h x"
      using ledger_link_kept [OF ledger_okD(3) [OF ok] dacc] l by blast
  qed
  have "chain_from (ledger_link w (?accs @ accs) (?es @ es)) tx_batch_hash GENESIS_BATCH_HASH
      (tenant_transactions tenant (?txs @ [t]))" for tenant
    using kept [of tenant] link last_batch_hash_eq [OF w ledger_okD(2) [OF ok] kept, of tenant]
    by (auto simp: chain_from_append tenant_transactions_def tf)
  then show ?thesis
    using acc txs entries bal_t bal_old by (simp add: ledger_ok_def s')
qed

lemma post_transaction_cases:
  assumes w: "sane_world w" and ok: "ledger_ok w s"
  obtains (rejected) e where "post_transaction w pr lines s = (Inl (ValueError e), s)"
  | (replayed) t where "post_transaction w pr lines s = (Inr (t, True), s)" and "t \<in> set (il_transactions s)"
      and "tx_idempotency_key t = normalize_key w ''ledger:'' 128 (pr_idempotency_key pr)"
      and "tx_total_amount t = Some (sum_direction DEBIT ln_direction ln_amount lines)"
  | (new) cur tot s' where "post_transaction w pr lines s =
        (Inr (new_transaction w pr tot cur lines s, False), s')"
      and "posted w pr lines (new_transaction w pr tot cur lines s) s s'"
      and "single_currency (map ln_currency lines) = Inr cur"
      and "balanced_total ln_direction ln_amount lines = Inr tot"
      and "\<not> key_used w pr (il_transactions s)"
proof (cases "single_currency (map ln_currency lines)")
  case (Inl e)
  then have "post_transaction w pr lines s = (Inl e, s)" by (simp add: post_transaction_def and_then_apply)
  moreover from Inl obtain x where "e = ValueError x" by (auto simp: single_currency_def split: if_splits)
  ultimately show ?thesis using rejected by simp
next
  case (Inr cur)
  note cur = this
  show ?thesis
  proof (cases "balanced_total ln_direction ln_amount lines")
    case (Inl e)
    with cur have "post_transaction w pr lines s = (Inl e, s)"
      by (simp add: post_transaction_def and_then_apply)
    moreover from Inl obtain x where "e = ValueError x" by (auto simp: balanced_total_def split: if_splits)
    ultimately show ?thesis using rejected by simp
  next
    case (Inr tot)
    note bal = this
    show ?thesis
    proof (cases "key_used w pr (il_transactions s)")
      case True
      then obtain t where t: "t \<in> set (il_transactions s)"
        "tx_idempotency_key t = normalize_key w ''ledger:'' 128 (pr_idempotency_key pr)"
        by (auto simp: key_used_def)
      have d: "distinct (map tx_idempotency_key (il_transactions s))"
        using ledger_okD(2) [OF ok] by (simp add: txs_ok_def)
      have am: "tx_total_amount t = Some (tx_total_debit t)"
        using ledger_okD(4) [OF ok t(1)] by (simp add: tx_balanced_def)
      have run: "post_transaction w pr lines s =
          (case check_replay t (Some tot) (Some cur) of Inl e \<Rightarrow> Inl e | Inr _ \<Rightarrow> Inr (t, True), s)"
        unfolding post_transaction_def
        by (simp add: and_then_apply cur bal get_or_create_replay [OF d t] split: sum.split)
      show ?thesis
      proof (cases "check_replay t (Some tot) (Some cur)")
        case (Inl e)
        moreover from Inl obtain x where "e = ValueError x" by (auto simp: check_replay_def split: if_splits)
        ultimately show ?thesis using rejected run by simp
      next
        case (Inr u)
        moreover from Inr am have "tx_total_amount t = Some tot" by (auto simp: check_replay_def split: if_splits)
        moreover from bal have "tot = sum_direction DEBIT ln_direction ln_amount lines"
          by (auto simp: balanced_total_def split: if_splits)
        ultimately show ?thesis using replayed run t by simp
      qed
    next
      case False
      from post_transaction_new [OF w ok cur bal this] False cur bal show ?thesis using new by blast
    qed
  qed
qed

lemma post_transaction_keeps_ok:
  assumes "sane_world w" and "ledger_ok w s"
  shows "ledger_ok w (snd (post_transaction w pr lines s))"
proof (rule post_transaction_cases [OF assms, of pr lines], goal_cases rejected replayed new)
  case (new cur tot s')
  then show ?case using posted_keeps_ok [OF assms new(3,4,5,2)] by simp
qed (use assms in simp_all)

section \<open>Reachable ledgers and the verification of the chain\<close>

text \<open>The ledgers that calls of \<open>post_transaction\<close> build, whatever else reads the clock or draws identifiers.\<close>

inductive ledger_reachable :: "world \<Rightarrow> 'a ledger_db_scheme \<Rightarrow> bool" for w where
  empty_ledger: "il_accounts s = [] \<Longrightarrow> il_transactions s = [] \<Longrightarrow> il_entries s = [] \<Longrightarrow> ledger_reachable w s"
| post: "ledger_reachable w s \<Longrightarrow> ledger_reachable w (snd (post_transaction w pr lines s))"

inductive_cases ledger_reachableE: "ledger_reachable w s"

lemma reachable_ledger_ok: "ledger_reachable w s \<Longrightarrow> sane_world w \<Longrightarrow> ledger_ok w s"
  by (induction rule: ledger_reachable.induct) (auto intro: ledger_ok_empty post_transaction_keeps_ok)

lemma join_sums:
  assumes "distinct (map acc_id accs)" and "\<forall>e\<in>set es. en_account_id e \<in> acc_id ` set accs"
  shows "map fst (join_accounts accs es) = es"
  using assms(2)
proof (induction es)
  case (Cons e es)
  then obtain a where a: "a \<in> set accs" "acc_id a = en_account_id e" by auto
  from filter_unique [OF assms(1) a(1)] a(2) have "filter (\<lambda>y. acc_id y = en_account_id e) accs = [a]" by simp
  with Cons show ?case by (simp add: join_accounts_def)
qed (simp add: join_accounts_def)

lemma sum_direction_fst:
  "sum_direction d (dir \<circ> fst) (amount \<circ> fst) xs = sum_direction d dir amount (map fst xs)"
  by (induction xs) (auto simp: sum_direction_def)

text \<open>What the verification recomputes, when the entries of the transaction are stored in the order of their ids.\<close>

lemma recomputed_in_order:
  assumes ok: "ledger_ok w s" and t: "t \<in> set (il_transactions s)"
    and link: "ledger_link w (il_accounts s) (il_entries s) h t"
    and ord: "sorted (map en_id (tx_entries t (il_entries s)))"
  shows "recomputed_hash w (il_accounts s) (il_entries s) h t = tx_batch_hash t"
proof -
  have e: "entries_of t (il_entries s) = tx_entries t (il_entries s)"
    using ord unfolding entries_of_def tx_entries_def by (rule sort_key_id_if_sorted)
  have f: "map fst (join_accounts (il_accounts s) (tx_entries t (il_entries s))) = tx_entries t (il_entries s)"
    using ledger_okD(1,3) [OF ok]
    by (intro join_sums) (auto simp: accounts_ok_def ids_below_def entries_ok_def tx_entries_def)
  from link ledger_okD(4) [OF ok t] show ?thesis
    by (auto simp: recomputed_hash_def e sum_direction_fst f Let_def ledger_link_def tx_balanced_def
        joined_postings_def)
qed

lemma verify_rows_verdict:
  assumes ok: "ledger_ok w s" and sub: "set ts \<subseteq> set (il_transactions s)"
  shows "chain_from (ledger_link w (il_accounts s) (il_entries s)) tx_batch_hash h ts \<Longrightarrow>
     map tx_batch_sequence ts = map int [n..<n + length ts] \<Longrightarrow>
     verify_rows w (il_accounts s) (il_entries s) h (int n) ts = ChainOk \<or>
     (\<exists>t\<in>set ts. verify_rows w (il_accounts s) (il_entries s) h (int n) ts = BatchHashMismatch (tx_id t) \<and>
        \<not> sorted (map en_id (tx_entries t (il_entries s))))"
  using sub
proof (induction ts arbitrary: h n)
  case (Cons t ts)
  have "[n..<n + length (t # ts)] = n # [Suc n..<Suc n + length ts]" by (simp add: upt_conv_Cons del: upt_Suc)
  with Cons.prems(2) have seq: "tx_batch_sequence t = int n" "map tx_batch_sequence ts = map int [Suc n..<Suc n + length ts]"
    by (simp_all del: upt_Suc)
  have link: "ledger_link w (il_accounts s) (il_entries s) h t" using Cons.prems(1) by simp
  let ?v = "verify_rows w (il_accounts s) (il_entries s)"
  have v: "?v h (int n) (t # ts) =
     (if tx_batch_hash t \<noteq> recomputed_hash w (il_accounts s) (il_entries s) h t then BatchHashMismatch (tx_id t)
      else ?v (tx_batch_hash t) (int (Suc n)) ts)"
    using link seq(1) by (simp add: ledger_link_def add.commute)
  show ?case
  proof (cases "tx_batch_hash t = recomputed_hash w (il_accounts s) (il_entries s) h t")
    case True
    have "?v (tx_batch_hash t) (int (Suc n)) ts = ChainOk \<or>
        (\<exists>u\<in>set ts. ?v (tx_batch_hash t) (int (Suc n)) ts = BatchHashMismatch (tx_id u) \<and>
           \<not> sorted (map en_id (tx_entries u (il_entries s))))"
      using Cons.prems seq(2) by (intro Cons.IH) auto
    with v True show ?thesis by auto
  next
    case False
    then have "\<not> sorted (map en_id (tx_entries t (il_entries s)))"
      using recomputed_in_order [OF ok _ link] Cons.prems(3) by auto
    with v False show ?thesis by auto
  qed
qed simp

section \<open>The contracts that the ledger fulfils\<close>

definition il_signed :: "il_entry \<Rightarrow> int" where
  "il_signed e = (if en_direction e = DEBIT then en_amount e else - en_amount e)"

lemma il_signed_sum:
  "signed_sum il_signed es =
     sum_direction DEBIT en_direction en_amount es - sum_direction CREDIT en_direction en_amount es"
proof (induction es)
  case (Cons e es)
  then show ?case by (cases "en_direction e") (simp_all add: sum_direction_def il_signed_def)
qed (simp add: sum_direction_def)

lemma entry_transaction:
  assumes "ledger_ok w s" and "e \<in> set (il_entries s)"
  obtains t where "t \<in> set (il_transactions s)" and "en_ledger_transaction_id e = tx_id t"
    and "filter (\<lambda>x. en_ledger_transaction_id x = en_ledger_transaction_id e) (il_entries s) =
      tx_entries t (il_entries s)"
  using ledger_okD(3) [OF assms(1)] assms(2) that by (fastforce simp: entries_ok_def tx_entries_def)

interpretation il_book: double_entry "ledger_ok w" il_entries en_ledger_transaction_id en_currency en_account_id
    il_signed for w
proof unfold_locales
  fix s :: "'a ledger_db_scheme" and e e'
  assume ok: "ledger_ok w s" and e: "e \<in> set (il_entries s)" and e': "e' \<in> set (il_entries s)"
    and same: "en_ledger_transaction_id e = en_ledger_transaction_id e'"
  obtain t where t: "t \<in> set (il_transactions s)" "en_ledger_transaction_id e = tx_id t"
    by (rule entry_transaction [OF ok e])
  from ledger_okD(4) [OF ok t(1)]
  have "\<forall>x\<in>set (tx_entries t (il_entries s)). tx_currency t = Some (en_currency x)"
    by (simp add: tx_balanced_def)
  moreover have "e \<in> set (tx_entries t (il_entries s))" "e' \<in> set (tx_entries t (il_entries s))"
    using e e' same t(2) by (simp_all add: tx_entries_def)
  ultimately show "en_currency e = en_currency e'" by (metis option.inject)
next
  fix s :: "'a ledger_db_scheme" and e
  assume ok: "ledger_ok w s" and e: "e \<in> set (il_entries s)"
  obtain t where t: "t \<in> set (il_transactions s)" and f:
    "filter (\<lambda>x. en_ledger_transaction_id x = en_ledger_transaction_id e) (il_entries s) = tx_entries t (il_entries s)"
    by (rule entry_transaction [OF ok e])
  from ledger_okD(4) [OF ok t]
  show "signed_sum il_signed
      (filter (\<lambda>x. en_ledger_transaction_id x = en_ledger_transaction_id e) (il_entries s)) = 0"
    by (simp add: f il_signed_sum tx_balanced_def)
qed

lemma post_transaction_replays:
  assumes w: "sane_world w" and ok: "ledger_ok w s"
    and run: "post_transaction w pr lines s = (Inr (t, b), s')"
  shows "post_transaction w pr lines s' = (Inr (t, True), s')"
proof (rule post_transaction_cases [OF w ok, of pr lines], goal_cases rejected replayed new)
  case (rejected e)
  with run show ?case by simp
next
  case (replayed u)
  with run show ?case by simp
next
  case (new cur tot s2)
  with run have s': "s2 = s'" and t: "t = new_transaction w pr tot cur lines s" by simp_all
  have ok': "ledger_ok w s'" using posted_keeps_ok [OF w ok new(3,4,5,2)] s' by simp
  have "t \<in> set (il_transactions s')" using new(2) s' t by (auto simp: posted_def)
  moreover have "tx_idempotency_key t = normalize_key w ''ledger:'' 128 (pr_idempotency_key pr)"
    using t by simp
  moreover have "distinct (map tx_idempotency_key (il_transactions s'))"
    using ledger_okD(2) [OF ok'] by (simp add: txs_ok_def)
  moreover have "check_replay t (Some tot) (Some cur) = Inr ()"
    using t by (simp add: check_replay_def)
  ultimately show ?case
    using new(3,4) by (simp add: post_transaction_def and_then_apply get_or_create_replay)
qed

interpretation il_retry: idempotent_operation "\<lambda>(pr, lines). post_transaction w pr lines"
    "\<lambda>s. sane_world w \<and> ledger_ok w s" "\<lambda>(t, b). (t, True)" for w
  by unfold_locales (auto simp: post_transaction_keeps_ok dest: post_transaction_replays split: prod.splits)

end
