(* ===== verification/Ledger_Postings.thy ===== *)
theory Ledger_Postings
  imports Finance_Models Ledger_Invariant
begin

text \<open>
  The typed postings of the internal ledger (\<open>post_invoice_issued\<close>, \<open>post_fuel_settlement\<close>,
  \<open>post_fuel_reversal\<close>, \<open>post_payment_applied\<close>, \<open>post_credit_note_applied\<close>, \<open>post_refund_applied\<close>) and the
  health report, with the balances they leave on the accounts.
\<close>

section \<open>Postings\<close>

definition ledger_line ::
    "il_account_type \<Rightarrow> string option \<Rightarrow> il_direction \<Rightarrow> int \<Rightarrow> string \<Rightarrow> payload \<Rightarrow> il_line" where
  "ledger_line ty client dir amount currency meta =
     \<lparr>ln_account_type = ty, ln_client_id = client, ln_direction = dir, ln_amount = amount,
      ln_currency = currency, ln_meta = Some meta\<rparr>"

definition invoice_issued_lines :: "invoice \<Rightarrow> il_line list" where
  "invoice_issued_lines i =
     (let net = inv_total_amount i; tax = inv_tax_amount i;
          due = (if inv_total_with_tax i \<noteq> 0 then inv_total_with_tax i else net + tax);
          meta = (\<lambda>kind. [(''invoice_id'', PStr (inv_id i)), (''kind'', PStr kind)])
      in [ledger_line CLIENT_AR (Some (inv_client_id i)) DEBIT due (inv_currency i) (meta ''invoice_issued''),
          ledger_line PLATFORM_REVENUE None CREDIT net (inv_currency i) (meta ''invoice_revenue'')] @
         (if tax \<noteq> 0
          then [ledger_line TAX_VAT None CREDIT tax (inv_currency i) (meta ''invoice_tax'')] else []))"

definition post_invoice_issued :: "world \<Rightarrow> invoice \<Rightarrow> int \<Rightarrow> ('a ledger_db_scheme, unit) act" where
  "post_invoice_issued w i tenant =
     (if inv_status i \<notin> {ISSUED, SENT, PARTIALLY_PAID, PAID} then ret ()
      else and_then (case inv_issued_at i of Some p \<Rightarrow> ret p | None \<Rightarrow> now_utc w) (\<lambda>posted_at.
        and_then (post_transaction w
          \<lparr>pr_tenant_id = tenant, pr_transaction_type = INVOICE_ISSUED, pr_external_ref_type = ''INVOICE'',
           pr_external_ref_id = inv_id i, pr_idempotency_key = ''invoice:'' @ inv_id i @ '':issued:v1'',
           pr_posted_at = Some posted_at, pr_meta = Some [(''invoice_id'', PStr (inv_id i))]\<rparr>
          (invoice_issued_lines i)) (\<lambda>_. ret ())))"

definition fuel_lines ::
    "il_direction \<Rightarrow> string \<Rightarrow> string \<Rightarrow> int \<Rightarrow> string \<Rightarrow> il_line list" where
  "fuel_lines client_side fuel_tx client amount currency =
     (let meta = [(''fuel_transaction_id'', PStr fuel_tx)];
          ar = ledger_line CLIENT_AR (Some client) client_side amount currency meta;
          payable = ledger_line PROVIDER_PAYABLE None
            (if client_side = DEBIT then CREDIT else DEBIT) amount currency meta
      in if client_side = DEBIT then [ar, payable] else [payable, ar])"

definition fuel_request :: "il_transaction_type \<Rightarrow> string \<Rightarrow> int \<Rightarrow> string \<Rightarrow> int option \<Rightarrow> post_request" where
  "fuel_request ty step tenant fuel_tx posted_at =
     \<lparr>pr_tenant_id = tenant, pr_transaction_type = ty, pr_external_ref_type = ''FUEL_TRANSACTION'',
      pr_external_ref_id = fuel_tx, pr_idempotency_key = ''fuel_tx:'' @ fuel_tx @ '':'' @ step @ '':v1'',
      pr_posted_at = posted_at, pr_meta = Some [(''fuel_transaction_id'', PStr fuel_tx)]\<rparr>"

definition post_fuel_settlement ::
    "world \<Rightarrow> int \<Rightarrow> string \<Rightarrow> string \<Rightarrow> int \<Rightarrow> string \<Rightarrow> int option \<Rightarrow> ('a ledger_db_scheme, il_transaction) act" where
  "post_fuel_settlement w tenant fuel_tx client amount currency posted_at =
     and_then (post_transaction w (fuel_request FUEL_SETTLEMENT ''settlement'' tenant fuel_tx posted_at)
       (fuel_lines DEBIT fuel_tx client amount currency)) (\<lambda>(t, _). ret t)"

definition post_fuel_reversal ::
    "world \<Rightarrow> int \<Rightarrow> string \<Rightarrow> string \<Rightarrow> int \<Rightarrow> string \<Rightarrow> int option \<Rightarrow> ('a ledger_db_scheme, il_transaction) act" where
  "post_fuel_reversal w tenant fuel_tx client amount currency posted_at =
     and_then (post_transaction w (fuel_request FUEL_REVERSAL ''reversal'' tenant fuel_tx posted_at)
       (fuel_lines CREDIT fuel_tx client amount currency)) (\<lambda>(t, _). ret t)"

text \<open>The two-line posting about one invoice and one source document.\<close>

definition pair_lines ::
    "invoice \<Rightarrow> payload \<Rightarrow> il_account_type \<Rightarrow> string option \<Rightarrow> il_account_type \<Rightarrow> string option \<Rightarrow> int \<Rightarrow> string \<Rightarrow> il_line list" where
  "pair_lines i meta debit_ty debit_client credit_ty credit_client amount currency =
     [ledger_line debit_ty debit_client DEBIT amount currency meta,
      ledger_line credit_ty credit_client CREDIT amount currency meta]"

definition has_external_ref :: "string \<Rightarrow> string \<Rightarrow> il_transaction \<Rightarrow> bool" where
  "has_external_ref ty ref t \<longleftrightarrow> tx_external_ref_type t = ty \<and> tx_external_ref_id t = ref"

definition payment_request :: "invoice \<Rightarrow> invoice_payment \<Rightarrow> int \<Rightarrow> post_request" where
  "payment_request i p tenant =
     \<lparr>pr_tenant_id = tenant, pr_transaction_type = PAYMENT_APPLIED, pr_external_ref_type = ''PAYMENT'',
      pr_external_ref_id = pay_id p, pr_idempotency_key = ''payment:'' @ pay_idempotency_key p @ '':applied:v1'',
      pr_posted_at = Some (pay_created_at p),
      pr_meta = Some [(''invoice_id'', PStr (inv_id i)), (''payment_id'', PStr (pay_id p))]\<rparr>"

definition payment_lines :: "invoice \<Rightarrow> invoice_payment \<Rightarrow> il_line list" where
  "payment_lines i p =
     pair_lines i [(''invoice_id'', PStr (inv_id i)), (''payment_id'', PStr (pay_id p))]
       CLIENT_CASH (Some (inv_client_id i)) CLIENT_AR (Some (inv_client_id i)) (pay_amount p) (pay_currency p)"

definition post_payment_applied ::
    "world \<Rightarrow> invoice \<Rightarrow> invoice_payment \<Rightarrow> int \<Rightarrow> ('a ledger_db_scheme, unit) act" where
  "post_payment_applied w i p tenant =
     and_then (query_one (has_external_ref ''PAYMENT'' (pay_id p)) il_transactions) (\<lambda>existing.
     case existing of
       Some _ \<Rightarrow> ret ()
     | None \<Rightarrow> and_then (post_transaction w (payment_request i p tenant) (payment_lines i p)) (\<lambda>_. ret ()))"

definition credit_note_request :: "invoice \<Rightarrow> credit_note \<Rightarrow> int \<Rightarrow> post_request" where
  "credit_note_request i c tenant =
     \<lparr>pr_tenant_id = tenant, pr_transaction_type = CREDIT_NOTE_APPLIED, pr_external_ref_type = ''CREDIT_NOTE'',
      pr_external_ref_id = cn_id c, pr_idempotency_key = ''credit_note:'' @ cn_id c @ '':applied:v1'',
      pr_posted_at = Some (cn_created_at c),
      pr_meta = Some [(''invoice_id'', PStr (inv_id i)), (''credit_note_id'', PStr (cn_id c))]\<rparr>"

definition credit_note_lines :: "invoice \<Rightarrow> credit_note \<Rightarrow> il_line list" where
  "credit_note_lines i c =
     pair_lines i [(''invoice_id'', PStr (inv_id i)), (''credit_note_id'', PStr (cn_id c))]
       PLATFORM_REVENUE None CLIENT_AR (Some (inv_client_id i)) (cn_amount c) (cn_currency c)"

definition post_credit_note_applied ::
    "world \<Rightarrow> invoice \<Rightarrow> credit_note \<Rightarrow> int \<Rightarrow> ('a ledger_db_scheme, unit) act" where
  "post_credit_note_applied w i c tenant =
     and_then (post_transaction w (credit_note_request i c tenant) (credit_note_lines i c)) (\<lambda>_. ret ())"

definition refund_request :: "invoice \<Rightarrow> credit_note \<Rightarrow> int \<Rightarrow> post_request" where
  "refund_request i c tenant =
     \<lparr>pr_tenant_id = tenant, pr_transaction_type = REFUND_APPLIED, pr_external_ref_type = ''REFUND'',
      pr_external_ref_id = cn_id c, pr_idempotency_key = ''refund:'' @ cn_id c @ '':applied:v1'',
      pr_posted_at = Some (cn_created_at c),
      pr_meta = Some [(''invoice_id'', PStr (inv_id i)), (''refund_id'', PStr (cn_id c))]\<rparr>"

definition refund_lines :: "invoice \<Rightarrow> credit_note \<Rightarrow> il_line list" where
  "refund_lines i c =
     pair_lines i [(''invoice_id'', PStr (inv_id i)), (''refund_id'', PStr (cn_id c))]
       CLIENT_AR (Some (inv_client_id i)) CLIENT_CASH (Some (inv_client_id i)) (cn_amount c) (cn_currency c)"

definition post_refund_applied ::
    "world \<Rightarrow> invoice \<Rightarrow> credit_note \<Rightarrow> int \<Rightarrow> ('a ledger_db_scheme, unit) act" where
  "post_refund_applied w i c tenant =
     and_then (post_transaction w (refund_request i c tenant) (refund_lines i c)) (\<lambda>_. ret ())"

section \<open>Health\<close>

record ledger_health =
  lh_broken_transactions :: nat
  lh_missing_postings :: nat

definition broken_transaction_ids :: "il_entry list \<Rightarrow> string list" where
  "broken_transaction_ids es =
     filter (\<lambda>i. let xs = filter (\<lambda>e. en_ledger_transaction_id e = i) es in
        sum_direction DEBIT en_direction en_amount xs \<noteq> sum_direction CREDIT en_direction en_amount xs)
       (remdups (map en_ledger_transaction_id es))"

definition health_check :: "'a fin_db_scheme \<Rightarrow> ledger_health" where
  "health_check s =
     \<lparr>lh_broken_transactions = length (broken_transaction_ids (il_entries s)),
      lh_missing_postings =
        length (filter (\<lambda>i. inv_status i \<in> {ISSUED, SENT, PARTIALLY_PAID, PAID} \<and>
                  \<not> (\<exists>t\<in>set (il_transactions s). has_external_ref ''INVOICE'' (inv_id i) t)) (invoices s)) +
        length (filter (\<lambda>p. \<not> (\<exists>t\<in>set (il_transactions s). has_external_ref ''PAYMENT'' (pay_id p) t))
                  (invoice_payments s))\<rparr>"

end
