(* ===== verification/Job_Runs.thy ===== *)
theory Job_Runs
  imports Finance_Models
begin

text \<open>
  The records of billing jobs (\<open>services/billing_job_runs.py\<close>). The duration in milliseconds, a floating
  point figure that nothing reads back, is left out.
\<close>

text \<open>What \<open>start\<close> is called with.\<close>

record job_request =
  jq_job_type :: billing_job_type
  jq_params :: "payload option"
  jq_correlation_id :: "string option"
  jq_celery_task_id :: "string option"
  jq_invoice_id :: "string option"
  jq_billing_period_id :: "string option"

definition find_by_correlation :: "billing_job_type \<Rightarrow> string \<Rightarrow> 'a fin_db_scheme \<Rightarrow> billing_job_run option" where
  "find_by_correlation ty correlation s =
     (case sort_key (\<lambda>r. - jr_started_at r)
        (filter (\<lambda>r. jr_job_type r = ty \<and> jr_correlation_id r = Some correlation) (billing_job_runs s)) of
        [] \<Rightarrow> None
      | r # _ \<Rightarrow> Some r)"

definition start_job :: "world \<Rightarrow> job_request \<Rightarrow> ('a fin_db_scheme, billing_job_run) act" where
  "start_job w q =
     and_then (now_utc w) (\<lambda>updated_at.
     and_then (new_uuid_str w) (\<lambda>i.
     and_then (now_utc w) (\<lambda>started_at.
     let run = \<lparr>jr_id = i, jr_job_type = jq_job_type q, jr_params = jq_params q, jr_status = RUN_STARTED,
                jr_started_at = started_at, jr_finished_at = None, jr_error = None, jr_metrics = None,
                jr_celery_task_id = jq_celery_task_id q, jr_correlation_id = jq_correlation_id q,
                jr_invoice_id = jq_invoice_id q, jr_billing_period_id = jq_billing_period_id q,
                jr_updated_at = updated_at,
                jr_attempts = (if str_truthy (jq_celery_task_id q) then 1 else 0),
                jr_last_heartbeat_at = None, jr_result_ref = None\<rparr> in
     and_then (update_state (\<lambda>s. s\<lparr>billing_job_runs := billing_job_runs s @ [run]\<rparr>)) (\<lambda>_. ret run))))"

definition store_run :: "billing_job_run \<Rightarrow> ('a fin_db_scheme, unit) act" where
  "store_run r = update_state (\<lambda>s. s\<lparr>billing_job_runs := store_row jr_id r (billing_job_runs s)\<rparr>)"

definition succeed_job ::
    "world \<Rightarrow> billing_job_run \<Rightarrow> payload option \<Rightarrow> payload option \<Rightarrow> ('a fin_db_scheme, billing_job_run) act" where
  "succeed_job w run metrics result_ref =
     and_then (now_utc w) (\<lambda>now.
     let run' = run\<lparr>jr_status := RUN_SUCCESS, jr_metrics := metrics, jr_finished_at := Some now,
                    jr_updated_at := now,
                    jr_result_ref := (case result_ref of None \<Rightarrow> jr_result_ref run | Some r \<Rightarrow> Some r)\<rparr> in
     and_then (store_run run') (\<lambda>_. ret run'))"

definition fail_job :: "world \<Rightarrow> billing_job_run \<Rightarrow> string \<Rightarrow> ('a fin_db_scheme, billing_job_run) act" where
  "fail_job w run error =
     and_then (now_utc w) (\<lambda>now.
     let run' = run\<lparr>jr_status := RUN_FAILED, jr_error := Some error, jr_finished_at := Some now,
                    jr_updated_at := now\<rparr> in
     and_then (store_run run') (\<lambda>_. ret run'))"

definition heartbeat :: "world \<Rightarrow> billing_job_run \<Rightarrow> ('a fin_db_scheme, billing_job_run) act" where
  "heartbeat w run =
     and_then (now_utc w) (\<lambda>now.
     let run' = run\<lparr>jr_last_heartbeat_at := Some now, jr_updated_at := now\<rparr> in
     and_then (store_run run') (\<lambda>_. ret run'))"

section \<open>Effects\<close>

text \<open>A job record touches the clock and its own table only.\<close>

lemma start_job_effect:
  "\<exists>run. start_job w q s =
     (Inr run, s\<lparr>tick := tick s + 3, billing_job_runs := billing_job_runs s @ [run]\<rparr>) \<and>
     jr_id run = uuid_at w (Suc (tick s)) \<and> jr_status run = RUN_STARTED"
  by (simp add: start_job_def and_then_apply Let_def)

lemma succeed_job_effect:
  "\<exists>run'. succeed_job w run m rr s =
     (Inr run', s\<lparr>tick := Suc (tick s), billing_job_runs := store_row jr_id run' (billing_job_runs s)\<rparr>) \<and>
     jr_id run' = jr_id run \<and> jr_status run' = RUN_SUCCESS"
  by (simp add: succeed_job_def and_then_apply Let_def store_run_def)

end
