(* ===== verification/Job_Locks.thy ===== *)
theory Job_Locks
  imports Neft_Prelude "HOL-Library.Word"
begin

text \<open>
  The advisory locks of the jobs (\<open>services/job_locks.py\<close>): 64-bit lock tokens from SHA-256, the
  transaction-level lock of PostgreSQL and the lock of the Python process. Sessions and processes are
  numbered; the state holds who owns which lock, and a step relation runs several sessions.
\<close>

unbundle bit_operations_syntax

section \<open>Tokens\<close>

definition to_signed_int64 :: "int \<Rightarrow> int" where
  "to_signed_int64 value =
     (let v = value AND (2 ^ 64 - 1) in if v \<ge> 2 ^ 63 then v - 2 ^ 64 else v)"

text \<open>\<open>int.from_bytes(digest[:8], 'big')\<close> reads the first sixteen characters of the hexadecimal digest.\<close>

definition hex_digit :: "char \<Rightarrow> int" where
  "hex_digit c = (let n = (of_char c :: int) in if n \<ge> 97 then n - 87 else n - 48)"

definition int_from_hex :: "string \<Rightarrow> int" where
  "int_from_hex cs = foldl (\<lambda>n c. 16 * n + hex_digit c) 0 cs"

definition make_lock_token :: "world \<Rightarrow> string \<Rightarrow> string \<Rightarrow> int" where
  "make_lock_token w job_type scope_key =
     to_signed_int64 (int_from_hex (take 16 (sha256_hex w (job_type @ '':'' @ scope_key))))"

section \<open>Locks\<close>

record lock_client =
  lc_postgres :: bool
  lc_process :: nat
  lc_session :: nat

record lock_state =
  pg_owner :: "int \<rightharpoonup> nat"
  local_held :: "(nat \<times> int) list"

datatype lock_way = ByPostgres | ByProcess

definition try_pg_lock :: "lock_client \<Rightarrow> int \<Rightarrow> lock_state \<Rightarrow> bool \<times> lock_state" where
  "try_pg_lock c token ls =
     (if \<not> lc_postgres c then (False, ls)
      else case pg_owner ls token of
             None \<Rightarrow> (True, ls\<lparr>pg_owner := (pg_owner ls)(token \<mapsto> lc_session c)\<rparr>)
           | Some owner \<Rightarrow> (owner = lc_session c, ls))"

text \<open>Entering \<open>with advisory_lock(...) as acquired\<close>; \<open>None\<close> is \<open>acquired = False\<close>.\<close>

definition enter_lock :: "lock_client \<Rightarrow> int \<Rightarrow> lock_state \<Rightarrow> lock_way option \<times> lock_state" where
  "enter_lock c token ls =
     (let t = to_signed_int64 token; (acquired, ls1) = try_pg_lock c t ls
      in if acquired then (Some ByPostgres, ls1)
         else if (lc_process c, t) \<in> set (local_held ls1) then (None, ls1)
         else (Some ByProcess, ls1\<lparr>local_held := (lc_process c, t) # local_held ls1\<rparr>))"

text \<open>Leaving the \<open>with\<close> block releases a process lock; PostgreSQL releases its lock with the transaction.\<close>

definition exit_lock :: "lock_client \<Rightarrow> int \<Rightarrow> lock_way \<Rightarrow> lock_state \<Rightarrow> lock_state" where
  "exit_lock c token way ls =
     (case way of
        ByPostgres \<Rightarrow> ls
      | ByProcess \<Rightarrow> ls\<lparr>local_held := removeAll (lc_process c, to_signed_int64 token) (local_held ls)\<rparr>)"

definition end_transaction :: "lock_client \<Rightarrow> lock_state \<Rightarrow> lock_state" where
  "end_transaction c ls =
     ls\<lparr>pg_owner := (\<lambda>t. if pg_owner ls t = Some (lc_session c) then None else pg_owner ls t)\<rparr>"

section \<open>Concurrent sessions\<close>

text \<open>The state of the system: the locks and the \<open>with\<close> blocks that are open with \<open>acquired = True\<close>.\<close>

type_synonym lock_section = "lock_client \<times> int \<times> lock_way"

inductive lock_reachable :: "lock_state \<Rightarrow> lock_section list \<Rightarrow> bool" where
  lock_start: "lock_reachable \<lparr>pg_owner = Map.empty, local_held = []\<rparr> []"
| lock_enter: "lock_reachable ls open_blocks \<Longrightarrow> enter_lock c token ls = (Some way, ls') \<Longrightarrow>
    lock_reachable ls' ((c, token, way) # open_blocks)"
| lock_refused: "lock_reachable ls open_blocks \<Longrightarrow> enter_lock c token ls = (None, ls') \<Longrightarrow>
    lock_reachable ls' open_blocks"
| lock_exit: "lock_reachable ls (xs @ (c, token, way) # ys) \<Longrightarrow>
    lock_reachable (exit_lock c token way ls) (xs @ ys)"
| lock_commit: "lock_reachable ls open_blocks \<Longrightarrow> lock_reachable (end_transaction c ls) open_blocks"

definition section_key :: "lock_section \<Rightarrow> nat \<times> int" where
  "section_key x = (lc_process (fst x), to_signed_int64 (fst (snd x)))"

definition by_process :: "lock_section \<Rightarrow> bool" where
  "by_process x \<longleftrightarrow> snd (snd x) = ByProcess"

lemma try_pg_lock_local: "try_pg_lock c t ls = (b, ls') \<Longrightarrow> local_held ls' = local_held ls"
  by (auto simp: try_pg_lock_def split: if_splits option.splits)

lemma enter_by_process:
  "enter_lock c token ls = (Some ByProcess, ls') \<Longrightarrow>
     (lc_process c, to_signed_int64 token) \<notin> set (local_held ls) \<and>
     local_held ls' = (lc_process c, to_signed_int64 token) # local_held ls"
  by (auto simp: enter_lock_def Let_def split: prod.splits if_splits dest: try_pg_lock_local)

lemma enter_otherwise:
  "enter_lock c token ls = (way, ls') \<Longrightarrow> way \<noteq> Some ByProcess \<Longrightarrow> local_held ls' = local_held ls"
  by (auto simp: enter_lock_def Let_def split: prod.splits if_splits dest: try_pg_lock_local)

lemma end_transaction_local [simp]: "local_held (end_transaction c ls) = local_held ls"
  by (simp add: end_transaction_def)

lemma local_locks_exclusive:
  "lock_reachable ls blocks \<Longrightarrow>
     distinct (map section_key (filter by_process blocks)) \<and>
     set (local_held ls) = section_key ` set (filter by_process blocks)"
proof (induction rule: lock_reachable.induct)
  case (lock_enter ls blocks c token way ls')
  show ?case
  proof (cases way)
    case ByPostgres
    with lock_enter enter_otherwise [OF lock_enter.hyps(2)] show ?thesis by (simp add: by_process_def)
  next
    case ByProcess
    with lock_enter enter_by_process [of c token ls ls']
    have new: "section_key (c, token, way) \<notin> section_key ` set (filter by_process blocks)"
      and held: "local_held ls' = section_key (c, token, way) # local_held ls"
      by (simp_all add: section_key_def)
    from ByProcess have "filter by_process ((c, token, way) # blocks) = (c, token, way) # filter by_process blocks"
      by (simp add: by_process_def)
    with new held lock_enter.IH show ?thesis by simp
  qed
next
  case (lock_refused ls blocks c token ls')
  with enter_otherwise [OF lock_refused.hyps(2)] show ?case by simp
next
  case (lock_exit ls xs c token way ys)
  show ?case
  proof (cases way)
    case ByPostgres
    with lock_exit.IH show ?thesis by (simp add: exit_lock_def by_process_def)
  next
    case ByProcess
    have "filter by_process (xs @ (c, token, way) # ys) =
        filter by_process xs @ (c, token, way) # filter by_process ys"
      using ByProcess by (simp add: by_process_def)
    moreover have "set (local_held (exit_lock c token way ls)) = set (local_held ls) - {section_key (c, token, way)}"
      using ByProcess by (simp add: exit_lock_def section_key_def)
    ultimately show ?thesis using lock_exit.IH by (simp del: set_filter) blast
  qed
qed simp_all

lemma enter_without_postgres: "enter_lock c token ls = (Some way, ls') \<Longrightarrow> \<not> lc_postgres c \<Longrightarrow> way = ByProcess"
  by (auto simp: enter_lock_def try_pg_lock_def Let_def split: if_splits)

lemma no_postgres_by_process:
  "lock_reachable ls blocks \<Longrightarrow> x \<in> set blocks \<Longrightarrow> \<not> lc_postgres (fst x) \<Longrightarrow> by_process x"
  by (induction rule: lock_reachable.induct) (auto simp: by_process_def dest: enter_without_postgres)

section \<open>Properties\<close>

lemma low_64_bits: "v AND (2 ^ 64 - 1) = v mod 2 ^ 64" for v :: int
  using take_bit_eq_mask [of 64 v] by (simp add: take_bit_eq_mod mask_eq_exp_minus_1)

text \<open>C40. \<open>to_signed_int64\<close> is the two's complement reading of the low 64 bits: it is the signed value of the
  64-bit word of its argument, it lies in the range of a PostgreSQL BIGINT, it differs from its
  argument by a multiple of \<open>2^64\<close>, and applying it again, as \<open>advisory_lock\<close> does to the token of
  \<open>make_lock_token\<close>, changes nothing.\<close>

theorem to_signed_int64_two_complement:
  "to_signed_int64 v = sint (word_of_int v :: 64 word) \<and>
   - (2 ^ 63) \<le> to_signed_int64 v \<and> to_signed_int64 v < 2 ^ 63 \<and>
   (to_signed_int64 v - v) mod 2 ^ 64 = 0 \<and>
   to_signed_int64 (to_signed_int64 v) = to_signed_int64 v"
  (is "?sint \<and> ?low \<and> ?high \<and> ?cong \<and> ?idem")
proof -
  have val: "to_signed_int64 v = (let m = v mod 2 ^ 64 in if m \<ge> 2 ^ 63 then m - 2 ^ 64 else m)" for v
    unfolding to_signed_int64_def low_64_bits ..
  have m: "0 \<le> v mod 2 ^ 64" "v mod 2 ^ 64 < 2 ^ 64" by simp_all
  have "?low \<and> ?high" using m unfolding val Let_def by (simp split: if_split) linarith
  then have low: ?low and high: ?high by simp_all
  have "to_signed_int64 v = v mod 2 ^ 64 \<or> to_signed_int64 v = v mod 2 ^ 64 - 2 ^ 64"
    by (simp add: val Let_def)
  then have congr: "to_signed_int64 v mod 2 ^ 64 = v mod 2 ^ 64" by (auto simp: mod_diff_eq)
  then have ?cong by (metis mod_eq_dvd_iff dvd_imp_mod_0)
  moreover have ?idem using congr by (simp add: val)
  moreover have ?sint
  proof -
    have "sint (word_of_int v :: 64 word) = signed_take_bit 63 v" by transfer simp
    also have "\<dots> = signed_take_bit 63 (to_signed_int64 v)"
      by (rule signed_take_bit_eq_iff_take_bit_eq [THEN iffD2]) (use congr in \<open>simp add: take_bit_eq_mod\<close>)
    also have "\<dots> = to_signed_int64 v" using low high by (simp add: signed_take_bit_int_eq_self_iff)
    finally show ?thesis by simp
  qed
  ultimately show ?thesis using low high by blast
qed

text \<open>Within one process that does not use PostgreSQL the lock excludes: in every reachable state of any
  number of sessions, two open blocks of that process are for different tokens.\<close>

theorem process_lock_excludes:
  assumes "lock_reachable ls (xs @ a # ys @ b # zs)"
    and "\<not> lc_postgres (fst a)" and "\<not> lc_postgres (fst b)" and "lc_process (fst a) = lc_process (fst b)"
  shows "to_signed_int64 (fst (snd a)) \<noteq> to_signed_int64 (fst (snd b))"
proof -
  have "by_process a" "by_process b"
    using no_postgres_by_process [OF assms(1)] assms(2,3) by simp_all
  with local_locks_exclusive [OF assms(1)] assms(4) show ?thesis by (simp add: section_key_def)
qed

definition local_session :: "nat \<Rightarrow> lock_client" where
  "local_session n = \<lparr>lc_postgres = False, lc_process = 1, lc_session = n\<rparr>"

definition pg_session :: "nat \<Rightarrow> lock_client" where
  "pg_session n = \<lparr>lc_postgres = True, lc_process = n, lc_session = n\<rparr>"

lemmas lock_run_defs = enter_lock_def try_pg_lock_def local_session_def pg_session_def Let_def

lemma two_local_sections:
  "lock_reachable \<lparr>pg_owner = Map.empty, local_held = [(1, to_signed_int64 8), (1, to_signed_int64 7)]\<rparr>
     ([] @ (local_session 2, 8, ByProcess) # [] @ (local_session 1, 7, ByProcess) # [])"
proof -
  have ne: "to_signed_int64 8 \<noteq> to_signed_int64 7" by (simp add: to_signed_int64_def low_64_bits Let_def)
  have "enter_lock (local_session 1) 7 \<lparr>pg_owner = Map.empty, local_held = []\<rparr> =
      (Some ByProcess, \<lparr>pg_owner = Map.empty, local_held = [(1, to_signed_int64 7)]\<rparr>)"
    by (simp add: lock_run_defs)
  from lock_enter [OF lock_start this]
  have one: "lock_reachable \<lparr>pg_owner = Map.empty, local_held = [(1, to_signed_int64 7)]\<rparr>
      [(local_session 1, 7, ByProcess)]" .
  have "enter_lock (local_session 2) 8 \<lparr>pg_owner = Map.empty, local_held = [(1, to_signed_int64 7)]\<rparr> =
      (Some ByProcess, \<lparr>pg_owner = Map.empty, local_held = [(1, to_signed_int64 8), (1, to_signed_int64 7)]\<rparr>)"
    using ne by (simp add: lock_run_defs)
  from lock_enter [OF one this] show ?thesis by simp
qed

theorem process_lock_excludes_witness:
  "lock_reachable \<lparr>pg_owner = Map.empty, local_held = [(1, to_signed_int64 8), (1, to_signed_int64 7)]\<rparr>
     ([] @ (local_session 2, 8, ByProcess) # [] @ (local_session 1, 7, ByProcess) # []) \<and>
   to_signed_int64 8 \<noteq> to_signed_int64 7"
  using process_lock_excludes [OF two_local_sections] two_local_sections
  by (simp add: local_session_def)

text \<open>On PostgreSQL the lock does not exclude: two sessions of two processes can be inside blocks for the same
  token at the same time, both with \<open>acquired = True\<close>, because a refused PostgreSQL lock falls back to
  the free lock of the second process.\<close>

theorem postgres_lock_does_not_exclude:
  "\<exists>ls c c'. lock_reachable ls [(c', token, ByProcess), (c, token, ByPostgres)] \<and>
     lc_postgres c \<and> lc_postgres c' \<and> lc_session c \<noteq> lc_session c' \<and>
     pg_owner ls (to_signed_int64 token) = Some (lc_session c)"
proof -
  let ?t = "to_signed_int64 token"
  have "enter_lock (pg_session 1) token \<lparr>pg_owner = Map.empty, local_held = []\<rparr> =
      (Some ByPostgres, \<lparr>pg_owner = [?t \<mapsto> 1], local_held = []\<rparr>)" by (simp add: lock_run_defs)
  from lock_enter [OF lock_start this]
  have one: "lock_reachable \<lparr>pg_owner = [?t \<mapsto> 1], local_held = []\<rparr> [(pg_session 1, token, ByPostgres)]" .
  have "enter_lock (pg_session 2) token \<lparr>pg_owner = [?t \<mapsto> 1], local_held = []\<rparr> =
      (Some ByProcess, \<lparr>pg_owner = [?t \<mapsto> 1], local_held = [(2, ?t)]\<rparr>)" by (simp add: lock_run_defs)
  from lock_enter [OF one this] show ?thesis
    by (intro exI [of _ "\<lparr>pg_owner = [?t \<mapsto> 1], local_held = [(2, ?t)]\<rparr>"] exI [of _ "pg_session 1"]
        exI [of _ "pg_session 2"]) (simp add: pg_session_def)
qed

end
