(* ===== verification/Settlement.thy ===== *)
theory Settlement
  imports Finance_Invariants Billing_Periods Legal_Graph Ledger_Postings Job_Runs Job_Locks "HOL-Library.AList"
begin

text \<open>
  The shared part of the finance service (\<open>services/finance.py\<close>): lookups and guards, the settlement
  allocations with their audit record and legal graph, and the reconciliation of an invoice's
  allocations with its amounts. Metrics and log lines are left out.
\<close>

section \<open>Environment\<close>

text \<open>
  What the service reads besides the session: the outside world, the time zone database and the billing
  time zone, the decision engine, the locks, and the text of an exception.
\<close>

record 'a fin_env =
  fe_world :: world
  fe_tz_rules :: tz_rules
  fe_tz :: string
  fe_decide :: "'a decider"
  fe_client :: lock_client
  fe_locks :: lock_state
  fe_error_text :: "py_exc \<Rightarrow> string"

text \<open>\<open>except\<close> clauses: the handler runs in the state that the exception left.\<close>

definition catching :: "(py_exc \<Rightarrow> bool) \<Rightarrow> ('s, 'a) act \<Rightarrow> (py_exc \<Rightarrow> ('s, 'a) act) \<Rightarrow> ('s, 'a) act" where
  "catching p m handler =
     (\<lambda>s. case m s of (Inl e, t) \<Rightarrow> if p e then handler e t else (Inl e, t) | (Inr a, t) \<Rightarrow> (Inr a, t))"

definition rollback_and_raise :: "'a fin_db_scheme \<Rightarrow> py_exc \<Rightarrow> ('a fin_db_scheme, 'b) act" where
  "rollback_and_raise base e = and_then (rollback_to base) (\<lambda>_. raise_exc e)"

definition is_sqlalchemy_error :: "py_exc \<Rightarrow> bool" where
  "is_sqlalchemy_error e \<longleftrightarrow> e \<in> {IntegrityError, MultipleResultsFound, NoResultFound}"

fun is_invariant_violation :: "py_exc \<Rightarrow> bool" where
  "is_invariant_violation (FinancialInvariantViolation _) = True"
| "is_invariant_violation _ = False"

fun is_transition_error :: "py_exc \<Rightarrow> bool" where
  "is_transition_error (InvalidTransitionError _) = True"
| "is_transition_error (InvoiceInvariantError _) = True"
| "is_transition_error _ = False"

section \<open>Guards\<close>

definition response_hash :: "world \<Rightarrow> payload \<Rightarrow> string" where
  "response_hash w p = sha256_hex w (dumps (PDict p))"

definition lock_invoice :: "string \<Rightarrow> ('a fin_db_scheme, invoice) act" where
  "lock_invoice invoice_id =
     and_then (query_one (\<lambda>i. inv_id i = invoice_id) invoices) (\<lambda>found.
     case found of None \<Rightarrow> raise_exc InvoiceNotFound | Some i \<Rightarrow> ret i)"

definition require_settlement_period :: "invoice \<Rightarrow> ('a fin_db_scheme, unit) act" where
  "require_settlement_period i =
     (if \<not> str_truthy (inv_billing_period_id i) then ret ()
      else and_then (query_one (\<lambda>p. Some (bp_id p) = inv_billing_period_id i) billing_periods) (\<lambda>period.
        case period of
          None \<Rightarrow> raise_exc (InvalidTransitionError ''billing period not found'')
        | Some p \<Rightarrow> asserting (bp_status p \<in> {FINALIZED, LOCKED})
            (InvalidTransitionError ''billing period is not closed'')))"

definition resolve_tenant_id :: "request_context option \<Rightarrow> int" where
  "resolve_tenant_id rc =
     (case rc of None \<Rightarrow> 0 | Some c \<Rightarrow> (case rc_tenant_id c of None \<Rightarrow> 0 | Some t \<Rightarrow> t))"

definition policy_resource_for_invoice :: "invoice \<Rightarrow> int \<Rightarrow> ('a fin_db_scheme, resource_context) act" where
  "policy_resource_for_invoice i tenant =
     and_then (if \<not> str_truthy (inv_billing_period_id i) then ret None
       else query_one (\<lambda>p. Some (bp_id p) = inv_billing_period_id i) billing_periods) (\<lambda>period.
     ret \<lparr>rs_resource_type = ''INVOICE'', rs_tenant_id = tenant, rs_client_id = Some (inv_client_id i),
          rs_status = map_option (\<lambda>p. billing_period_status_value (bp_status p)) period\<rparr>)"

definition enforce_invoice_policy ::
    "world \<Rightarrow> token option \<Rightarrow> policy_action \<Rightarrow> invoice \<Rightarrow> ('a fin_db_scheme, unit) act" where
  "enforce_invoice_policy w token action i =
     and_then (policy_resource_for_invoice i (ac_tenant_id (actor_from_token token))) (\<lambda>resource.
     enforce_policy w token action resource)"

text \<open>\<open>_audit_invariant_violation\<close> after a rollback, and the violation again; the commit is the end of the call.\<close>

definition audit_and_raise ::
    "world \<Rightarrow> 'a fin_db_scheme \<Rightarrow> request_context option \<Rightarrow> invoice \<Rightarrow> py_exc \<Rightarrow> ('a fin_db_scheme, 'b) act" where
  "audit_and_raise w base rc i e =
     and_then (rollback_to base) (\<lambda>_.
     and_then (case e of
         FinancialInvariantViolation fv \<Rightarrow>
           and_then (audit_violation w fv rc [(''invoice_id'', PStr (inv_id i))]) (\<lambda>_. ret ())
       | _ \<Rightarrow> ret ()) (\<lambda>_.
     raise_exc e))"

section \<open>Settlement allocations\<close>

record alloc_request =
  aq_source_type :: settlement_source_type
  aq_source_id :: string
  aq_amount :: int
  aq_currency :: string
  aq_applied_at :: "int option"

definition same_source :: "string \<Rightarrow> settlement_source_type \<Rightarrow> string \<Rightarrow> settlement_allocation \<Rightarrow> bool" where
  "same_source invoice_id ty source_id a \<longleftrightarrow>
     sa_invoice_id a = invoice_id \<and> sa_source_type a = ty \<and> sa_source_id a = source_id"

fun allocated_event :: "settlement_source_type \<Rightarrow> string" where
  "allocated_event SRC_PAYMENT = ''INVOICE_PAYMENT_ALLOCATED''"
| "allocated_event SRC_CREDIT_NOTE = ''CREDIT_NOTE_ALLOCATED''"
| "allocated_event SRC_REFUND = ''REFUND_ALLOCATED''"

definition audit_allocation ::
    "world \<Rightarrow> request_context option \<Rightarrow> invoice \<Rightarrow> alloc_request \<Rightarrow> string \<Rightarrow> ('a fin_db_scheme, audit_record) act" where
  "audit_allocation w rc i q period_id =
     audit w
       \<lparr>ev_event_type = allocated_event (aq_source_type q), ev_entity_type = ''invoice'', ev_entity_id = inv_id i,
        ev_action = ''SETTLEMENT_ALLOCATED'', ev_visibility = INTERNAL, ev_before = None,
        ev_after = Some
          [(''invoice_id'', PStr (inv_id i)),
           (''source_type'', PStr (settlement_source_type_value (aq_source_type q))),
           (''source_id'', PStr (aq_source_id q)), (''amount'', PInt (aq_amount q)),
           (''currency'', PStr (aq_currency q)), (''settlement_period_id'', PStr period_id),
           (''charge_period_id'', opt_str (str_or_none (inv_billing_period_id i)))],
        ev_diff = None, ev_external_refs = None, ev_reason = None, ev_attachment_key = None\<rparr> rc"

text \<open>The object behind the allocation: a refund is looked up among the refund requests.\<close>

definition source_object :: "settlement_source_type \<Rightarrow> string \<Rightarrow> ('a fin_db_scheme, graph_source) act" where
  "source_object ty source_id =
     (case ty of
        SRC_PAYMENT \<Rightarrow>
          and_then (query_one (\<lambda>p. pay_id p = source_id) invoice_payments) (\<lambda>x.
          ret (map_option (\<lambda>p. (pay_id p, ''invoice_payments'')) x))
      | SRC_CREDIT_NOTE \<Rightarrow>
          and_then (query_one (\<lambda>c. cn_id c = source_id) credit_notes) (\<lambda>x.
          ret (map_option (\<lambda>c. (cn_id c, ''credit_notes'')) x))
      | SRC_REFUND \<Rightarrow>
          and_then (query_one (\<lambda>r. r = source_id) refund_request_ids) (\<lambda>x.
          ret (map_option (\<lambda>r. (r, ''refund_requests'')) x)))"

text \<open>Any exception of the graph builder is recorded and swallowed.\<close>

definition write_graph ::
    "'a fin_env \<Rightarrow> request_context option \<Rightarrow> invoice \<Rightarrow> settlement_allocation \<Rightarrow> graph_source \<Rightarrow> ('a fin_db_scheme, unit) act" where
  "write_graph env rc i a source =
     catching (\<lambda>_. True) (ensure_settlement_allocation_graph (fe_world env) rc a i source) (\<lambda>e.
       and_then (audit_graph_write_failure (fe_world env) rc ''settlement_allocation'' (sa_id a) (fe_error_text env e))
         (\<lambda>_. ret ()))"

definition ensure_settlement_allocation ::
    "'a fin_env \<Rightarrow> request_context option \<Rightarrow> invoice \<Rightarrow> alloc_request \<Rightarrow> ('a fin_db_scheme, settlement_allocation) act" where
  "ensure_settlement_allocation env rc i q =
     (let w = fe_world env; mine = same_source (inv_id i) (aq_source_type q) (aq_source_id q) in
      and_then (query_one mine allocations) (\<lambda>existing.
      case existing of
        Some a \<Rightarrow> ret a
      | None \<Rightarrow>
          and_then (case aq_applied_at q of Some t \<Rightarrow> ret t | None \<Rightarrow> now_utc w) (\<lambda>event_at.
          and_then (resolve_settlement_period w (fe_tz_rules env) (fe_tz env) event_at) (\<lambda>period.
          and_then (check_settlement_allocation w False rc i (aq_amount q) (bp_id period) (aq_source_type q)
            (aq_source_id q) False) (\<lambda>_.
          and_then (new_uuid_str w) (\<lambda>new_id.
          let a = \<lparr>sa_id = new_id, sa_invoice_id = inv_id i, sa_tenant_id = resolve_tenant_id rc,
                   sa_client_id = inv_client_id i, sa_settlement_period_id = bp_id period,
                   sa_source_type = aq_source_type q, sa_source_id = aq_source_id q, sa_amount = aq_amount q,
                   sa_currency = aq_currency q, sa_applied_at = event_at, sa_meta = None\<rparr>
          in insert_or_else (\<lambda>s. \<exists>x\<in>set (allocations s). mine x)
               (\<lambda>s. s\<lparr>allocations := allocations s @ [a]\<rparr>)
               (and_then (query_one mine allocations) (\<lambda>again.
                case again of Some x \<Rightarrow> ret x | None \<Rightarrow> raise_exc IntegrityError))
               (and_then (audit_allocation w rc i q (bp_id period)) (\<lambda>_.
                and_then (source_object (aq_source_type q) (aq_source_id q)) (\<lambda>source.
                and_then (write_graph env rc i a source) (\<lambda>_.
                ret a))))))))))"

definition ensure_settlement_allocation_guarded ::
    "'a fin_env \<Rightarrow> 'a fin_db_scheme \<Rightarrow> request_context option \<Rightarrow> invoice \<Rightarrow> alloc_request \<Rightarrow>
     ('a fin_db_scheme, settlement_allocation) act" where
  "ensure_settlement_allocation_guarded env base rc i q =
     catching is_invariant_violation (ensure_settlement_allocation env rc i q)
       (audit_and_raise (fe_world env) base rc i)"

section \<open>Reconciliation\<close>

text \<open>The dictionary from (source type, source id) to allocation.\<close>

type_synonym alloc_dict = "((settlement_source_type \<times> string) \<times> settlement_allocation) list"

definition alloc_key :: "settlement_allocation \<Rightarrow> settlement_source_type \<times> string" where
  "alloc_key a = (sa_source_type a, sa_source_id a)"

definition allocs_by_source :: "settlement_allocation list \<Rightarrow> alloc_dict" where
  "allocs_by_source as = fold (\<lambda>a d. AList.update (alloc_key a) a d) as []"

definition payment_alloc :: "invoice_payment \<Rightarrow> alloc_request" where
  "payment_alloc p =
     \<lparr>aq_source_type = SRC_PAYMENT, aq_source_id = pay_id p, aq_amount = pay_amount p,
      aq_currency = pay_currency p, aq_applied_at = Some (pay_created_at p)\<rparr>"

definition credit_note_alloc :: "settlement_source_type \<Rightarrow> credit_note \<Rightarrow> alloc_request" where
  "credit_note_alloc ty c =
     \<lparr>aq_source_type = ty, aq_source_id = cn_id c, aq_amount = cn_amount c,
      aq_currency = cn_currency c, aq_applied_at = Some (cn_created_at c)\<rparr>"

fun reconcile_payments ::
    "'a fin_env \<Rightarrow> request_context option \<Rightarrow> invoice \<Rightarrow> invoice_payment list \<Rightarrow> alloc_dict \<Rightarrow> ('a fin_db_scheme, alloc_dict) act" where
  "reconcile_payments env rc i [] existing = ret existing"
| "reconcile_payments env rc i (p # ps) existing =
     (if map_of existing (SRC_PAYMENT, pay_id p) \<noteq> None then reconcile_payments env rc i ps existing
      else and_then (ensure_settlement_allocation env rc i (payment_alloc p)) (\<lambda>a.
        reconcile_payments env rc i ps (AList.update (SRC_PAYMENT, pay_id p) a existing)))"

fun reconcile_credit_notes ::
    "'a fin_env \<Rightarrow> request_context option \<Rightarrow> invoice \<Rightarrow> credit_note list \<Rightarrow> alloc_dict \<Rightarrow> ('a fin_db_scheme, alloc_dict) act" where
  "reconcile_credit_notes env rc i [] existing = ret existing"
| "reconcile_credit_notes env rc i (c # cs) existing =
     (if map_of existing (SRC_CREDIT_NOTE, cn_id c) \<noteq> None \<or> map_of existing (SRC_REFUND, cn_id c) \<noteq> None
      then reconcile_credit_notes env rc i cs existing
      else and_then (query_one (has_external_ref ''REFUND'' (cn_id c)) il_transactions) (\<lambda>refund_tx.
        let ty = (if refund_tx = None then SRC_CREDIT_NOTE else SRC_REFUND) in
        and_then (ensure_settlement_allocation env rc i (credit_note_alloc ty c)) (\<lambda>a.
        reconcile_credit_notes env rc i cs (AList.update (ty, cn_id c) a existing))))"

definition dict_net :: "alloc_dict \<Rightarrow> int" where
  "dict_net d = alloc_net (\<lambda>ty. alloc_total ty (map snd d))"

definition reconcile_adjustment ::
    "'a fin_env \<Rightarrow> request_context option \<Rightarrow> string \<Rightarrow> string option \<Rightarrow> invoice \<Rightarrow> int \<Rightarrow> ('a fin_db_scheme, unit) act" where
  "reconcile_adjustment env rc reason correlation_id i net =
     (let w = fe_world env; coverage = net_coverage i; amount = abs (coverage - net);
          ty = (if net > coverage then SRC_REFUND else SRC_PAYMENT) in
      and_then (new_uuid_str w) (\<lambda>adjustment_id.
      and_then (now_utc w) (\<lambda>now.
      and_then (ensure_settlement_allocation env rc i
        \<lparr>aq_source_type = ty, aq_source_id = adjustment_id, aq_amount = amount, aq_currency = inv_currency i,
         aq_applied_at = Some now\<rparr>) (\<lambda>a.
      and_then (update_state (\<lambda>s. s\<lparr>allocations := store_row sa_id (a\<lparr>sa_meta := Some
          [(''reconciliation_reason'', PStr reason), (''correlation_id'', opt_str correlation_id),
           (''adjustment'', PBool True)]\<rparr>) (allocations s)\<rparr>)) (\<lambda>_.
      and_then (audit w
        \<lparr>ev_event_type = ''SETTLEMENT_ALLOCATION_RECONCILED'', ev_entity_type = ''invoice'', ev_entity_id = inv_id i,
         ev_action = ''SETTLEMENT_ALLOCATIONS_RECONCILED'', ev_visibility = INTERNAL, ev_before = None,
         ev_after = Some
           [(''invoice_id'', PStr (inv_id i)), (''adjustment_id'', PStr adjustment_id),
            (''adjustment_type'', PStr (settlement_source_type_value ty)), (''adjustment_amount'', PInt amount),
            (''alloc_net_before'', PInt net), (''net_coverage'', PInt coverage), (''reason'', PStr reason),
            (''correlation_id'', opt_str correlation_id)],
         ev_diff = None, ev_external_refs = None, ev_reason = None, ev_attachment_key = None\<rparr> rc) (\<lambda>_.
      ret ()))))))"

definition reconcile_invoice_allocations ::
    "'a fin_env \<Rightarrow> request_context option \<Rightarrow> string \<Rightarrow> string option \<Rightarrow> string \<Rightarrow> ('a fin_db_scheme, unit) act" where
  "reconcile_invoice_allocations env rc reason correlation_id invoice_id =
     and_then (lock_invoice invoice_id) (\<lambda>i.
     and_then (reading (\<lambda>s. allocs_by_source (invoice_allocations (inv_id i) (allocations s)))) (\<lambda>existing.
     and_then (reading (\<lambda>s. filter (\<lambda>p. pay_invoice_id p = inv_id i) (invoice_payments s))) (\<lambda>payments.
     and_then (reconcile_payments env rc i payments existing) (\<lambda>existing1.
     and_then (reading (\<lambda>s. filter (\<lambda>c. cn_invoice_id c = inv_id i) (credit_notes s))) (\<lambda>notes.
     and_then (reconcile_credit_notes env rc i notes existing1) (\<lambda>existing2.
     if dict_net existing2 = net_coverage i then ret ()
     else reconcile_adjustment env rc reason correlation_id i (dict_net existing2)))))))"

end
