(* ===== verification/Payments.thy ===== *)
theory Payments
  imports Settlement
begin

text \<open>
  Payments of the finance service (\<open>FinanceService.apply_payment\<close> and its helpers). \<open>base\<close> is the database at
  the last commit, to which \<open>rollback\<close> returns. Where the source opens a transaction or a savepoint
  the model continues; the probe \<open>SELECT 1\<close> and connection failures are left out.
\<close>

section \<open>The call\<close>

record payment_call =
  pc_invoice_id :: string
  pc_amount :: int
  pc_currency :: string
  pc_idempotency_key :: string
  pc_external_ref :: "string option"
  pc_provider :: "string option"
  pc_request_ctx :: "request_context option"
  pc_token :: "token option"

record payment_result =
  prs_payment :: invoice_payment
  prs_invoice :: invoice
  prs_is_replay :: bool

definition replay_result :: "invoice_payment \<Rightarrow> invoice \<Rightarrow> payment_result" where
  "replay_result p i = \<lparr>prs_payment = p, prs_invoice = i, prs_is_replay = True\<rparr>"

definition payment_response_hash ::
    "world \<Rightarrow> string \<Rightarrow> int \<Rightarrow> string \<Rightarrow> string option \<Rightarrow> string option \<Rightarrow> string" where
  "payment_response_hash w invoice_id amount currency external_ref provider =
     response_hash w
       [(''invoice_id'', PStr invoice_id), (''amount'', PInt amount), (''currency'', PStr currency),
        (''external_ref'', opt_str external_ref), (''provider'', opt_str provider)]"

section \<open>Finding an earlier payment\<close>

definition by_reference :: "string option \<Rightarrow> string option \<Rightarrow> invoice_payment \<Rightarrow> bool" where
  "by_reference external_ref provider p \<longleftrightarrow> pay_external_ref p = external_ref \<and> pay_provider p = provider"

definition resolve_existing_payment ::
    "'a fin_db_scheme \<Rightarrow> payment_call \<Rightarrow> ('a fin_db_scheme, invoice_payment option) act" where
  "resolve_existing_payment base pc =
     catching is_sqlalchemy_error
       (and_then (if str_truthy (pc_external_ref pc)
          then query_one (by_reference (pc_external_ref pc) (pc_provider pc)) invoice_payments else ret None) (\<lambda>by_ref.
        case by_ref of
          Some p \<Rightarrow> if pay_invoice_id p \<noteq> pc_invoice_id pc then raise_exc PaymentReferenceConflict else ret (Some p)
        | None \<Rightarrow>
            and_then (query_one (\<lambda>p. pay_idempotency_key p = pc_idempotency_key pc) invoice_payments) (\<lambda>by_key.
            case by_key of
              Some p \<Rightarrow> if pay_invoice_id p \<noteq> pc_invoice_id pc then raise_exc PaymentReferenceConflict else ret (Some p)
            | None \<Rightarrow> ret None)))
       (rollback_and_raise base)"

definition validate_payment_replay :: "world \<Rightarrow> payment_call \<Rightarrow> invoice_payment \<Rightarrow> unit result" where
  "validate_payment_replay w pc p =
     (if pay_amount p \<noteq> pc_amount pc then Inl (PaymentIdempotencyConflict ''amount_mismatch'')
      else if pay_currency p \<noteq> pc_currency pc then Inl (PaymentIdempotencyConflict ''currency_mismatch'')
      else if str_or_none (pay_external_ref p) \<noteq> str_or_none (pc_external_ref pc)
        then Inl (PaymentIdempotencyConflict ''external_ref_mismatch'')
      else if str_or_none (pay_provider p) \<noteq> str_or_none (pc_provider pc)
        then Inl (PaymentIdempotencyConflict ''provider_mismatch'')
      else if pay_response_hash p \<noteq> payment_response_hash w (pay_invoice_id p) (pc_amount pc) (pc_currency pc)
          (pc_external_ref pc) (pc_provider pc)
        then Inl (PaymentIdempotencyConflict ''response_hash_mismatch'')
      else Inr ())"

definition resolve_payment_money_flow_event :: "string \<Rightarrow> ('a fin_db_scheme, money_flow_event option) act" where
  "resolve_payment_money_flow_event key = query_one (\<lambda>e. mfe_idempotency_key e = key) money_flow_events"

definition event_payment_id :: "money_flow_event \<Rightarrow> string option" where
  "event_payment_id e =
     (case mfe_meta e of
        None \<Rightarrow> None
      | Some m \<Rightarrow> (case map_of m ''payment_id'' of Some (PStr x) \<Rightarrow> str_or_none (Some x) | _ \<Rightarrow> None))"

definition resolve_payment_from_event ::
    "money_flow_event \<Rightarrow> string \<Rightarrow> ('a fin_db_scheme, invoice_payment option) act" where
  "resolve_payment_from_event e key =
     and_then (case event_payment_id e of
         None \<Rightarrow> ret None
       | Some i \<Rightarrow> query_one (\<lambda>p. pay_id p = i) invoice_payments) (\<lambda>by_id.
     case by_id of
       Some p \<Rightarrow> ret (Some p)
     | None \<Rightarrow> query_one (\<lambda>p. pay_idempotency_key p = key) invoice_payments)"

definition replay_from_money_flow_event ::
    "'a fin_env \<Rightarrow> 'a fin_db_scheme \<Rightarrow> payment_call \<Rightarrow> ('a fin_db_scheme, payment_result option) act" where
  "replay_from_money_flow_event env base pc =
     catching is_sqlalchemy_error
       (and_then (resolve_payment_money_flow_event (pc_idempotency_key pc)) (\<lambda>event.
        case event of
          None \<Rightarrow> ret None
        | Some e \<Rightarrow>
            and_then (resolve_payment_from_event e (pc_idempotency_key pc)) (\<lambda>payment.
            case payment of
              None \<Rightarrow> ret None
            | Some p \<Rightarrow>
                and_then (asserting (pay_invoice_id p = pc_invoice_id pc) PaymentReferenceConflict) (\<lambda>_.
                and_then (lock_invoice (pc_invoice_id pc)) (\<lambda>i.
                and_then (lift_result (validate_payment_replay (fe_world env) pc p)) (\<lambda>_.
                ret (Some (replay_result p i))))))))
       (rollback_and_raise base)"

section \<open>Replays\<close>

definition payment_already_applied :: "invoice \<Rightarrow> invoice_payment \<Rightarrow> ('a fin_db_scheme, bool) act" where
  "payment_already_applied i p =
     and_then (query_one (same_source (inv_id i) SRC_PAYMENT (pay_id p)) allocations) (\<lambda>allocation.
     and_then (query_one (has_external_ref ''PAYMENT'' (pay_id p)) il_transactions) (\<lambda>tx.
     ret (allocation \<noteq> None \<and> tx \<noteq> None)))"

definition replay_payment ::
    "'a fin_env \<Rightarrow> 'a fin_db_scheme \<Rightarrow> payment_call \<Rightarrow> invoice_payment \<Rightarrow> invoice option \<Rightarrow> ('a fin_db_scheme, payment_result) act" where
  "replay_payment env base pc p known =
     (let w = fe_world env; rc = pc_request_ctx pc in
      and_then (case known of Some i \<Rightarrow> ret i | None \<Rightarrow> lock_invoice (pc_invoice_id pc)) (\<lambda>i.
      and_then (enforce_invoice_policy w (pc_token pc) PAYMENT_APPLY i) (\<lambda>_.
      and_then (payment_already_applied i p) (\<lambda>applied.
      if applied then ret (replay_result p i)
      else
        and_then (post_payment_applied w i p (resolve_tenant_id rc)) (\<lambda>_.
        and_then (ensure_settlement_allocation_guarded env base rc i (payment_alloc p)) (\<lambda>_.
        and_then (reconcile_invoice_allocations env rc ''payment_replay'' (Some (pay_idempotency_key p)) (inv_id i)) (\<lambda>_.
        ret (replay_result p i))))))))"

definition validated_replay ::
    "'a fin_env \<Rightarrow> 'a fin_db_scheme \<Rightarrow> payment_call \<Rightarrow> invoice_payment \<Rightarrow> invoice option \<Rightarrow> ('a fin_db_scheme, payment_result) act" where
  "validated_replay env base pc p known =
     and_then (lift_result (validate_payment_replay (fe_world env) pc p)) (\<lambda>_. replay_payment env base pc p known)"

section \<open>The payment row and its event\<close>

text \<open>The unique key and the unique index on \<open>(coalesce(provider, ''), external_ref)\<close>.\<close>

definition payment_conflict :: "invoice_payment \<Rightarrow> invoice_payment list \<Rightarrow> bool" where
  "payment_conflict p rows \<longleftrightarrow>
     (\<exists>x\<in>set rows. pay_idempotency_key x = pay_idempotency_key p) \<or>
     (pay_external_ref p \<noteq> None \<and>
      (\<exists>x\<in>set rows. pay_external_ref x = pay_external_ref p \<and>
         case_option [] id (pay_provider x) = case_option [] id (pay_provider p)))"

definition new_payment :: "world \<Rightarrow> payment_call \<Rightarrow> string \<Rightarrow> int \<Rightarrow> invoice_payment" where
  "new_payment w pc new_id created_at =
     \<lparr>pay_id = new_id, pay_invoice_id = pc_invoice_id pc, pay_amount = pc_amount pc,
      pay_currency = pc_currency pc, pay_provider = pc_provider pc, pay_external_ref = pc_external_ref pc,
      pay_idempotency_key = pc_idempotency_key pc,
      pay_response_hash = payment_response_hash w (pc_invoice_id pc) (pc_amount pc) (pc_currency pc)
        (pc_external_ref pc) (pc_provider pc),
      pay_status = PAYMENT_POSTED, pay_created_at = created_at\<rparr>"

definition ensure_payment_money_flow_event ::
    "world \<Rightarrow> invoice \<Rightarrow> invoice_payment \<Rightarrow> int \<Rightarrow> string option \<Rightarrow> string \<Rightarrow> ('a fin_db_scheme, money_flow_event \<times> bool) act" where
  "ensure_payment_money_flow_event w i p tenant ledger_tx key =
     and_then (resolve_payment_money_flow_event key) (\<lambda>existing.
     case existing of
       Some e \<Rightarrow> ret (e, False)
     | None \<Rightarrow>
         and_then (new_uuid_str w) (\<lambda>new_id.
         let e = \<lparr>mfe_id = new_id, mfe_tenant_id = tenant, mfe_client_id = inv_client_id i,
                  mfe_flow_type = FLOW_INVOICE_PAYMENT, mfe_flow_ref_id = inv_id i, mfe_state_from = None,
                  mfe_state_to = MF_SETTLED, mfe_event_type = EV_SETTLE, mfe_idempotency_key = key,
                  mfe_ledger_transaction_id = ledger_tx,
                  mfe_meta = Some [(''invoice_id'', PStr (inv_id i)), (''payment_id'', PStr (pay_id p))]\<rparr>
         in insert_or_else (\<lambda>s. \<exists>x\<in>set (money_flow_events s). mfe_idempotency_key x = key)
              (\<lambda>s. s\<lparr>money_flow_events := money_flow_events s @ [e]\<rparr>)
              (and_then (resolve_payment_money_flow_event key) (\<lambda>again.
               case again of Some x \<Rightarrow> ret (x, False) | None \<Rightarrow> raise_exc IntegrityError))
              (ret (e, True))))"

section \<open>Applying\<close>

definition apply_financial_transition ::
    "'a fin_env \<Rightarrow> request_context option \<Rightarrow> invoice \<Rightarrow> invoice_status \<Rightarrow> amounts \<Rightarrow> ('a fin_db_scheme, invoice) act" where
  "apply_financial_transition env rc i target am = transition (fe_world env) (fe_decide env) i (finance_update target rc) am"

text \<open>The two \<open>except\<close> clauses that follow every financial transition.\<close>

definition guarded_transition ::
    "'a fin_env \<Rightarrow> 'a fin_db_scheme \<Rightarrow> request_context option \<Rightarrow> invoice \<Rightarrow> ('a fin_db_scheme, invoice) act \<Rightarrow>
     ('a fin_db_scheme, invoice) act" where
  "guarded_transition env base rc i move =
     catching is_invariant_violation
       (catching is_transition_error
         (and_then move (\<lambda>i'. and_then (check_invoice (fe_world env) False rc i') (\<lambda>_. ret i')))
         (rollback_and_raise base))
       (audit_and_raise (fe_world env) base rc i)"

definition outstanding :: "invoice \<Rightarrow> int" where
  "outstanding i = invoice_total i - inv_amount_paid i - inv_credited_amount i + inv_amount_refunded i"

definition settle_payment ::
    "'a fin_env \<Rightarrow> 'a fin_db_scheme \<Rightarrow> payment_call \<Rightarrow> invoice \<Rightarrow> invoice_payment \<Rightarrow> ('a fin_db_scheme, invoice) act" where
  "settle_payment env base pc i p =
     (let rc = pc_request_ctx pc in
      and_then (if inv_status i \<notin> {SENT, PARTIALLY_PAID, OVERDUE}
        then rollback_and_raise base (InvalidTransitionError ''payments allowed only from sent/partial/overdue'')
        else ret ()) (\<lambda>_.
      and_then (guarded_transition env base rc i
        (apply_financial_transition env rc i (if pc_amount pc \<ge> outstanding i then PAID else PARTIALLY_PAID)
          \<lparr>am_payment = Some (pc_amount pc), am_credit_note = None, am_refund = None\<rparr>)) (\<lambda>i'.
      and_then (ensure_settlement_allocation_guarded env base rc i'
        \<lparr>aq_source_type = SRC_PAYMENT, aq_source_id = pay_id p, aq_amount = pc_amount pc,
         aq_currency = pc_currency pc, aq_applied_at = Some (pay_created_at p)\<rparr>) (\<lambda>_.
      ret i'))))"

definition finish_job ::
    "world \<Rightarrow> billing_job_run \<Rightarrow> string \<Rightarrow> int \<Rightarrow> string \<Rightarrow> string \<Rightarrow> string \<Rightarrow> invoice \<Rightarrow> ('a fin_db_scheme, billing_job_run) act" where
  "finish_job w run invoice_id amount currency document_key document_id i =
     succeed_job w run
       (Some [(''invoice_id'', PStr invoice_id), (''amount'', PInt amount), (''currency'', PStr currency),
              (''due_amount'', PInt (inv_amount_due i))])
       (Some [(''invoice_id'', PStr invoice_id), (document_key, PStr document_id),
              (''due_amount'', PInt (inv_amount_due i))])"

definition book_payment ::
    "'a fin_env \<Rightarrow> 'a fin_db_scheme \<Rightarrow> payment_call \<Rightarrow> billing_job_run \<Rightarrow> invoice \<Rightarrow> invoice_payment \<Rightarrow>
     ('a fin_db_scheme, payment_result) act" where
  "book_payment env base pc run i p =
     (let w = fe_world env; rc = pc_request_ctx pc; tenant = resolve_tenant_id rc in
      and_then (post_payment_applied w i p tenant) (\<lambda>_.
      and_then (query_one (has_external_ref ''PAYMENT'' (pay_id p)) il_transactions) (\<lambda>ledger_tx.
      and_then (ensure_payment_money_flow_event w i p tenant (map_option tx_id ledger_tx) (pc_idempotency_key pc)) (\<lambda>(e, created).
      and_then (if created then settle_payment env base pc i p else ret i) (\<lambda>i'.
      and_then (reconcile_invoice_allocations env rc ''payment_apply'' (Some (pc_idempotency_key pc)) (inv_id i')) (\<lambda>_.
      and_then (finish_job w run (pc_invoice_id pc) (pc_amount pc) (pc_currency pc) ''payment_id'' (pay_id p) i') (\<lambda>_.
      ret \<lparr>prs_payment = p, prs_invoice = i', prs_is_replay = \<not> created\<rparr>)))))))"

definition payment_job :: "payment_call \<Rightarrow> job_request" where
  "payment_job pc =
     \<lparr>jq_job_type = JOB_FINANCE_PAYMENT,
      jq_params = Some
        [(''invoice_id'', PStr (pc_invoice_id pc)), (''amount'', PInt (pc_amount pc)),
         (''currency'', PStr (pc_currency pc)), (''external_ref'', opt_str (pc_external_ref pc)),
         (''provider'', opt_str (pc_provider pc))],
      jq_correlation_id = Some (pc_idempotency_key pc), jq_celery_task_id = None,
      jq_invoice_id = Some (pc_invoice_id pc), jq_billing_period_id = None\<rparr>"

definition insert_payment ::
    "'a fin_env \<Rightarrow> 'a fin_db_scheme \<Rightarrow> payment_call \<Rightarrow> billing_job_run \<Rightarrow> invoice \<Rightarrow> ('a fin_db_scheme, payment_result) act" where
  "insert_payment env base pc run i =
     and_then (new_uuid_str (fe_world env)) (\<lambda>new_id.
     and_then (now_utc (fe_world env)) (\<lambda>created_at.
     let p = new_payment (fe_world env) pc new_id created_at in
     insert_or_else (\<lambda>s. payment_conflict p (invoice_payments s))
       (\<lambda>s. s\<lparr>invoice_payments := invoice_payments s @ [p]\<rparr>)
       (and_then (resolve_existing_payment base pc) (\<lambda>existing.
        case existing of
          Some x \<Rightarrow> validated_replay env base pc x (Some i)
        | None \<Rightarrow> raise_exc IntegrityError))
       (book_payment env base pc run i p)))"

definition check_payment_rules ::
    "'a fin_env \<Rightarrow> 'a fin_db_scheme \<Rightarrow> payment_call \<Rightarrow> invoice \<Rightarrow> ('a fin_db_scheme, unit) act" where
  "check_payment_rules env base pc i =
     (let w = fe_world env; rc = pc_request_ctx pc in
      catching is_invariant_violation
        (and_then (check_invoice w False rc i) (\<lambda>_.
         check_payment_application w False rc i (pc_amount pc) (pc_idempotency_key pc)))
        (audit_and_raise w base rc i))"

definition apply_payment_locked ::
    "'a fin_env \<Rightarrow> 'a fin_db_scheme \<Rightarrow> payment_call \<Rightarrow> ('a fin_db_scheme, payment_result) act" where
  "apply_payment_locked env base pc =
     and_then (lock_invoice (pc_invoice_id pc)) (\<lambda>i.
     and_then (enforce_invoice_policy (fe_world env) (pc_token pc) PAYMENT_APPLY i) (\<lambda>_.
     and_then (resolve_existing_payment base pc) (\<lambda>existing.
     case existing of
       Some p \<Rightarrow> validated_replay env base pc p (Some i)
     | None \<Rightarrow>
         and_then (check_payment_rules env base pc i) (\<lambda>_.
         and_then (require_settlement_period i) (\<lambda>_.
         and_then (start_job (fe_world env) (payment_job pc)) (\<lambda>run.
         insert_payment env base pc run i))))))"

definition lock_acquired :: "'a fin_env \<Rightarrow> string \<Rightarrow> string \<Rightarrow> bool" where
  "lock_acquired env job_type key \<longleftrightarrow>
     fst (enter_lock (fe_client env) (make_lock_token (fe_world env) job_type key) (fe_locks env)) \<noteq> None"

definition normalized_call :: "world \<Rightarrow> payment_call \<Rightarrow> payment_call" where
  "normalized_call w pc =
     pc\<lparr>pc_idempotency_key := normalize_key w ''hash:'' 128 (pc_idempotency_key pc),
        pc_external_ref := normalize_key_optional w ''hash:'' 128 (pc_external_ref pc)\<rparr>"

definition apply_payment ::
    "'a fin_env \<Rightarrow> 'a fin_db_scheme \<Rightarrow> payment_call \<Rightarrow> ('a fin_db_scheme, payment_result) act" where
  "apply_payment env base call =
     (let pc = normalized_call (fe_world env) call in
      and_then (replay_from_money_flow_event env base pc) (\<lambda>replayed.
      case replayed of
        Some r \<Rightarrow> ret r
      | None \<Rightarrow>
          and_then (resolve_existing_payment base pc) (\<lambda>existing.
          case existing of
            Some p \<Rightarrow> validated_replay env base pc p None
          | None \<Rightarrow>
              and_then (asserting (lock_acquired env ''finance_payment'' (pc_idempotency_key pc))
                FinanceOperationInProgress) (\<lambda>_.
              apply_payment_locked env base pc))))"

end
