(* ===== verification/Credit_Notes.thy ===== *)
theory Credit_Notes
  imports Payments
begin

text \<open>
  Credit notes and refunds of the finance service (\<open>FinanceService.create_credit_note\<close>,
  \<open>FinanceService.create_refund\<close>). The session does not flush before queries: the new row, added before the
  transition, reaches the table with the audit record of the transition, and a violated key is raised
  there, which ends the transaction. Of the table's constraints the unique idempotency key is modelled.
\<close>

section \<open>The calls\<close>

record note_call =
  nc_invoice_id :: string
  nc_amount :: int
  nc_currency :: string
  nc_reason :: "string option"
  nc_idempotency_key :: string
  nc_request_ctx :: "request_context option"
  nc_token :: "token option"

record refund_call =
  rf_invoice_id :: string
  rf_amount :: int
  rf_currency :: string
  rf_reason :: "string option"
  rf_external_ref :: "string option"
  rf_provider :: "string option"
  rf_request_ctx :: "request_context option"
  rf_token :: "token option"

record note_result =
  nrs_credit_note :: credit_note
  nrs_invoice :: invoice
  nrs_is_replay :: bool

definition credit_note_response_hash :: "world \<Rightarrow> string \<Rightarrow> int \<Rightarrow> string \<Rightarrow> string option \<Rightarrow> string" where
  "credit_note_response_hash w invoice_id amount currency reason =
     response_hash w
       [(''invoice_id'', PStr invoice_id), (''amount'', PInt amount), (''currency'', PStr currency),
        (''reason'', opt_str reason)]"

section \<open>Shared steps\<close>

text \<open>What a replay does: ledger, allocation and reconciliation are completed, then the stored note is returned.\<close>

definition complete_note ::
    "'a fin_env \<Rightarrow> 'a fin_db_scheme \<Rightarrow> request_context option \<Rightarrow> settlement_source_type \<Rightarrow> string \<Rightarrow> credit_note \<Rightarrow>
     invoice \<Rightarrow> ('a fin_db_scheme, note_result) act" where
  "complete_note env base rc ty reason c i =
     and_then (if ty = SRC_REFUND then post_refund_applied (fe_world env) i c (resolve_tenant_id rc)
               else post_credit_note_applied (fe_world env) i c (resolve_tenant_id rc)) (\<lambda>_.
     and_then (ensure_settlement_allocation_guarded env base rc i (credit_note_alloc ty c)) (\<lambda>_.
     and_then (reconcile_invoice_allocations env rc reason (Some (cn_idempotency_key c)) (inv_id i)) (\<lambda>_.
     ret \<lparr>nrs_credit_note = c, nrs_invoice = i, nrs_is_replay = True\<rparr>)))"

text \<open>The flush of the new row.\<close>

definition flush_credit_note ::
    "world \<Rightarrow> 'a fin_db_scheme \<Rightarrow> (string \<Rightarrow> int \<Rightarrow> credit_note) \<Rightarrow> ('a fin_db_scheme, credit_note) act" where
  "flush_credit_note w base build =
     and_then (new_uuid_str w) (\<lambda>new_id.
     and_then (now_utc w) (\<lambda>created_at.
     let c = build new_id created_at in
     insert_or_else (\<lambda>s. \<exists>x\<in>set (credit_notes s). cn_idempotency_key x = cn_idempotency_key c)
       (\<lambda>s. s\<lparr>credit_notes := credit_notes s @ [c]\<rparr>)
       (rollback_and_raise base IntegrityError)
       (ret c)))"

text \<open>The transition with its check, and the \<open>except\<close> clauses for refused transitions and violated invariants.\<close>

definition guarded_note ::
    "'a fin_env \<Rightarrow> 'a fin_db_scheme \<Rightarrow> request_context option \<Rightarrow> invoice \<Rightarrow> ('a fin_db_scheme, credit_note \<times> invoice) act \<Rightarrow>
     ('a fin_db_scheme, credit_note \<times> invoice) act" where
  "guarded_note env base rc i move =
     catching is_invariant_violation
       (catching is_transition_error
         (and_then move (\<lambda>(c, i'). and_then (check_invoice (fe_world env) False rc i') (\<lambda>_. ret (c, i'))))
         (rollback_and_raise base))
       (audit_and_raise (fe_world env) base rc i)"

text \<open>Allocation, ledger, reconciliation and job record of a new note.\<close>

definition book_note ::
    "'a fin_env \<Rightarrow> 'a fin_db_scheme \<Rightarrow> request_context option \<Rightarrow> settlement_source_type \<Rightarrow> string \<Rightarrow> billing_job_run \<Rightarrow>
     credit_note \<Rightarrow> invoice \<Rightarrow> ('a fin_db_scheme, note_result) act" where
  "book_note env base rc ty reason run c i =
     and_then (ensure_settlement_allocation_guarded env base rc i (credit_note_alloc ty c)) (\<lambda>_.
     and_then (if ty = SRC_REFUND then post_refund_applied (fe_world env) i c (resolve_tenant_id rc)
               else post_credit_note_applied (fe_world env) i c (resolve_tenant_id rc)) (\<lambda>_.
     and_then (reconcile_invoice_allocations env rc reason (Some (cn_idempotency_key c)) (inv_id i)) (\<lambda>_.
     and_then (finish_job (fe_world env) run (cn_invoice_id c) (cn_amount c) (cn_currency c) ''credit_note_id'' (cn_id c) i) (\<lambda>_.
     ret \<lparr>nrs_credit_note = c, nrs_invoice = i, nrs_is_replay = False\<rparr>))))"

section \<open>Credit notes\<close>

definition roles_payload :: "token option \<Rightarrow> pyval" where
  "roles_payload tok =
     (case tok of
        None \<Rightarrow> PList []
      | Some t \<Rightarrow> (case tk_roles t of
            RolesAbsent \<Rightarrow> PNone
          | RolesText x \<Rightarrow> PStr x
          | RolesList xs \<Rightarrow> PList (map PStr xs)))"

definition credit_note_context ::
    "note_call \<Rightarrow> invoice \<Rightarrow> resource_context \<Rightarrow> decision_context" where
  "credit_note_context nc i resource =
     \<lparr>dc_tenant_id = resolve_tenant_id (nc_request_ctx nc), dc_client_id = Some (inv_client_id i), dc_actor_type = ''ADMIN'',
      dc_action = ''CREDIT_NOTE_CREATE'', dc_amount = Some (nc_amount nc), dc_currency = Some (nc_currency nc),
      dc_invoice_id = Some (inv_id i), dc_billing_period_id = str_or_none (inv_billing_period_id i),
      dc_metadata =
        [(''invoice_status'', PStr (invoice_status_value (inv_status i))),
         (''billing_period_status'', opt_str (rs_status resource)), (''actor_roles'', roles_payload (nc_token nc)),
         (''subject_id'', PStr (inv_id i))]\<rparr>"

definition credit_note_job :: "note_call \<Rightarrow> job_request" where
  "credit_note_job nc =
     \<lparr>jq_job_type = JOB_FINANCE_CREDIT_NOTE,
      jq_params = Some
        [(''invoice_id'', PStr (nc_invoice_id nc)), (''amount'', PInt (nc_amount nc)),
         (''currency'', PStr (nc_currency nc)), (''reason'', opt_str (nc_reason nc))],
      jq_correlation_id = Some (nc_idempotency_key nc), jq_celery_task_id = None,
      jq_invoice_id = Some (nc_invoice_id nc), jq_billing_period_id = None\<rparr>"

definition new_credit_note :: "world \<Rightarrow> note_call \<Rightarrow> string \<Rightarrow> int \<Rightarrow> credit_note" where
  "new_credit_note w nc new_id created_at =
     \<lparr>cn_id = new_id, cn_invoice_id = nc_invoice_id nc, cn_amount = nc_amount nc, cn_currency = nc_currency nc,
      cn_provider = None, cn_external_ref = None, cn_reason = nc_reason nc,
      cn_idempotency_key = nc_idempotency_key nc,
      cn_response_hash = credit_note_response_hash w (nc_invoice_id nc) (nc_amount nc) (nc_currency nc) (nc_reason nc),
      cn_status = CREDIT_NOTE_POSTED, cn_created_at = created_at\<rparr>"

definition credit_amounts :: "int \<Rightarrow> amounts" where
  "credit_amounts a = \<lparr>am_payment = None, am_credit_note = Some a, am_refund = None\<rparr>"

definition status_only :: amounts where
  "status_only = \<lparr>am_payment = None, am_credit_note = None, am_refund = None\<rparr>"

definition move_credit_note ::
    "'a fin_env \<Rightarrow> 'a fin_db_scheme \<Rightarrow> note_call \<Rightarrow> invoice \<Rightarrow> ('a fin_db_scheme, credit_note \<times> invoice) act" where
  "move_credit_note env base nc i =
     (let rc = nc_request_ctx nc; w = fe_world env; amount = nc_amount nc;
          flush = flush_credit_note w base (new_credit_note w nc);
          remaining = invoice_total i - inv_amount_paid i - (inv_credited_amount i + amount) + inv_amount_refunded i in
      if inv_status i \<notin> {SENT, PARTIALLY_PAID}
      then rollback_and_raise base (InvalidTransitionError ''credit notes allowed only from sent/partial'')
      else if inv_status i = SENT
      then and_then (apply_financial_transition env rc i PARTIALLY_PAID (credit_amounts amount)) (\<lambda>i1.
           and_then flush (\<lambda>c.
           and_then (if inv_amount_due i1 \<le> 0 then apply_financial_transition env rc i1 PAID status_only else ret i1) (\<lambda>i2.
           ret (c, i2))))
      else and_then (apply_financial_transition env rc i (if remaining \<le> 0 then PAID else PARTIALLY_PAID)
             (credit_amounts amount)) (\<lambda>i1.
           and_then flush (\<lambda>c.
           ret (c, i1))))"

definition check_credit_note_invoice ::
    "'a fin_env \<Rightarrow> 'a fin_db_scheme \<Rightarrow> request_context option \<Rightarrow> invoice \<Rightarrow> ('a fin_db_scheme, unit) act" where
  "check_credit_note_invoice env base rc i =
     catching is_invariant_violation (check_invoice (fe_world env) False rc i) (audit_and_raise (fe_world env) base rc i)"

definition normalized_note :: "world \<Rightarrow> note_call \<Rightarrow> note_call" where
  "normalized_note w nc = nc\<lparr>nc_idempotency_key := normalize_key w ''hash:'' 128 (nc_idempotency_key nc)\<rparr>"

definition create_credit_note_new ::
    "'a fin_env \<Rightarrow> 'a fin_db_scheme \<Rightarrow> note_call \<Rightarrow> ('a fin_db_scheme, note_result) act" where
  "create_credit_note_new env base nc =
     (let w = fe_world env; rc = nc_request_ctx nc in
      and_then (asserting (lock_acquired env ''finance_credit_note'' (nc_idempotency_key nc)) FinanceOperationInProgress) (\<lambda>_.
      and_then (lock_invoice (nc_invoice_id nc)) (\<lambda>i.
      and_then (check_credit_note_invoice env base rc i) (\<lambda>_.
      and_then (policy_resource_for_invoice i (resolve_tenant_id rc)) (\<lambda>resource.
      and_then (require_decision (fe_decide env) (credit_note_context nc i resource)) (\<lambda>_.
      and_then (enforce_invoice_policy w (nc_token nc) CREDIT_NOTE_CREATE i) (\<lambda>_.
      and_then (require_settlement_period i) (\<lambda>_.
      and_then (start_job w (credit_note_job nc)) (\<lambda>run.
      and_then (guarded_note env base rc i (move_credit_note env base nc i)) (\<lambda>(c, i').
      book_note env base rc SRC_CREDIT_NOTE ''credit_note_apply'' run c i'))))))))))"

definition create_credit_note ::
    "'a fin_env \<Rightarrow> 'a fin_db_scheme \<Rightarrow> note_call \<Rightarrow> ('a fin_db_scheme, note_result) act" where
  "create_credit_note env base call =
     (let nc = normalized_note (fe_world env) call; rc = nc_request_ctx nc in
      and_then (query_one (\<lambda>c. cn_idempotency_key c = nc_idempotency_key nc) credit_notes) (\<lambda>existing.
      case existing of
        Some c \<Rightarrow>
          and_then (lock_invoice (nc_invoice_id nc)) (\<lambda>i.
          and_then (enforce_invoice_policy (fe_world env) (nc_token nc) CREDIT_NOTE_CREATE i) (\<lambda>_.
          complete_note env base rc SRC_CREDIT_NOTE ''credit_note_replay'' c i))
      | None \<Rightarrow> create_credit_note_new env base nc))"

section \<open>Refunds\<close>

definition note_by_reference :: "string option \<Rightarrow> string option \<Rightarrow> credit_note \<Rightarrow> bool" where
  "note_by_reference external_ref provider c \<longleftrightarrow> cn_external_ref c = external_ref \<and> cn_provider c = provider"

definition ref_or :: "refund_call \<Rightarrow> string \<Rightarrow> string" where
  "ref_or rf other = (case rf_external_ref rf of Some x \<Rightarrow> if x \<noteq> [] then x else other | None \<Rightarrow> other)"

definition refund_key :: "world \<Rightarrow> refund_call \<Rightarrow> string" where
  "refund_key w rf =
     normalize_key w ''hash:'' 128 (ref_or rf (''refund:'' @ rf_invoice_id rf @ '':'' @ show_int (rf_amount rf)))"

definition refund_reference :: "world \<Rightarrow> refund_call \<Rightarrow> string" where
  "refund_reference w rf = normalize_key w ''hash:'' 128 (ref_or rf (''refund:'' @ rf_invoice_id rf))"

definition refund_job :: "world \<Rightarrow> refund_call \<Rightarrow> job_request" where
  "refund_job w rf =
     \<lparr>jq_job_type = JOB_FINANCE_CREDIT_NOTE,
      jq_params = Some
        [(''invoice_id'', PStr (rf_invoice_id rf)), (''amount'', PInt (rf_amount rf)),
         (''currency'', PStr (rf_currency rf)), (''reason'', opt_str (rf_reason rf)),
         (''external_ref'', opt_str (rf_external_ref rf)), (''provider'', opt_str (rf_provider rf))],
      jq_correlation_id = Some (refund_reference w rf), jq_celery_task_id = None,
      jq_invoice_id = Some (rf_invoice_id rf), jq_billing_period_id = None\<rparr>"

definition new_refund :: "world \<Rightarrow> refund_call \<Rightarrow> string \<Rightarrow> int \<Rightarrow> credit_note" where
  "new_refund w rf new_id created_at =
     \<lparr>cn_id = new_id, cn_invoice_id = rf_invoice_id rf, cn_amount = rf_amount rf, cn_currency = rf_currency rf,
      cn_provider = rf_provider rf, cn_external_ref = rf_external_ref rf, cn_reason = rf_reason rf,
      cn_idempotency_key = refund_key w rf, cn_response_hash = [], cn_status = CREDIT_NOTE_POSTED,
      cn_created_at = created_at\<rparr>"

definition refund_amounts :: "int \<Rightarrow> amounts" where
  "refund_amounts a = \<lparr>am_payment = None, am_credit_note = None, am_refund = Some a\<rparr>"

definition check_refund_rules ::
    "'a fin_env \<Rightarrow> 'a fin_db_scheme \<Rightarrow> refund_call \<Rightarrow> invoice \<Rightarrow> ('a fin_db_scheme, unit) act" where
  "check_refund_rules env base rf i =
     (let w = fe_world env; rc = rf_request_ctx rf in
      catching is_invariant_violation
        (and_then (check_invoice w False rc i) (\<lambda>_.
         check_refund w False rc i (rf_amount rf) (refund_reference w rf)))
        (audit_and_raise w base rc i))"

definition move_refund ::
    "'a fin_env \<Rightarrow> 'a fin_db_scheme \<Rightarrow> refund_call \<Rightarrow> invoice \<Rightarrow> ('a fin_db_scheme, credit_note \<times> invoice) act" where
  "move_refund env base rf i =
     (let net_paid_after = inv_amount_paid i - (inv_amount_refunded i + rf_amount rf) in
      and_then (apply_financial_transition env (rf_request_ctx rf) i
        (if net_paid_after \<le> 0 then SENT else PARTIALLY_PAID) (refund_amounts (rf_amount rf))) (\<lambda>i'.
      and_then (flush_credit_note (fe_world env) base (new_refund (fe_world env) rf)) (\<lambda>c.
      ret (c, i'))))"

text \<open>The \<open>except IntegrityError\<close> clause: another session may have stored the refund.\<close>

definition refund_after_conflict ::
    "'a fin_env \<Rightarrow> 'a fin_db_scheme \<Rightarrow> refund_call \<Rightarrow> py_exc \<Rightarrow> ('a fin_db_scheme, note_result) act" where
  "refund_after_conflict env base rf e =
     and_then (rollback_to base) (\<lambda>_.
     and_then (if str_truthy (rf_external_ref rf)
       then query_one (note_by_reference (rf_external_ref rf) (rf_provider rf)) credit_notes else ret None) (\<lambda>existing.
     case existing of
       None \<Rightarrow> raise_exc e
     | Some c \<Rightarrow>
         and_then (lock_invoice (rf_invoice_id rf)) (\<lambda>i.
         complete_note env base (rf_request_ctx rf) SRC_REFUND ''refund_replay'' c i)))"

definition insert_refund ::
    "'a fin_env \<Rightarrow> 'a fin_db_scheme \<Rightarrow> refund_call \<Rightarrow> billing_job_run \<Rightarrow> invoice \<Rightarrow> ('a fin_db_scheme, note_result) act" where
  "insert_refund env base rf run i =
     and_then (catching (\<lambda>e. e = IntegrityError)
       (and_then (guarded_note env base (rf_request_ctx rf) i (move_refund env base rf i)) (\<lambda>moved. ret (Inr moved)))
       (\<lambda>e. and_then (refund_after_conflict env base rf e) (\<lambda>r. ret (Inl r)))) (\<lambda>outcome.
     case outcome of
       Inl r \<Rightarrow> ret r
     | Inr (c, i') \<Rightarrow> book_note env base (rf_request_ctx rf) SRC_REFUND ''refund_apply'' run c i')"

text \<open>The refund goes on when the advisory lock is not acquired: only a metric is counted.\<close>

definition create_refund_new ::
    "'a fin_env \<Rightarrow> 'a fin_db_scheme \<Rightarrow> refund_call \<Rightarrow> ('a fin_db_scheme, note_result) act" where
  "create_refund_new env base rf =
     and_then (lock_invoice (rf_invoice_id rf)) (\<lambda>i.
     and_then (enforce_invoice_policy (fe_world env) (rf_token rf) CREDIT_NOTE_CREATE i) (\<lambda>_.
     and_then (check_refund_rules env base rf i) (\<lambda>_.
     and_then (require_settlement_period i) (\<lambda>_.
     and_then (if inv_status i \<notin> {PAID, PARTIALLY_PAID}
       then rollback_and_raise base (InvalidTransitionError ''refunds allowed only from paid/partial'')
       else ret ()) (\<lambda>_.
     and_then (start_job (fe_world env) (refund_job (fe_world env) rf)) (\<lambda>run.
     insert_refund env base rf run i))))))"

definition normalized_refund :: "world \<Rightarrow> refund_call \<Rightarrow> refund_call" where
  "normalized_refund w rf = rf\<lparr>rf_external_ref := normalize_key_optional w ''hash:'' 128 (rf_external_ref rf)\<rparr>"

definition create_refund ::
    "'a fin_env \<Rightarrow> 'a fin_db_scheme \<Rightarrow> refund_call \<Rightarrow> ('a fin_db_scheme, note_result) act" where
  "create_refund env base call =
     (let rf = normalized_refund (fe_world env) call in
      and_then (if str_truthy (rf_external_ref rf)
        then query_one (note_by_reference (rf_external_ref rf) (rf_provider rf)) credit_notes else ret None) (\<lambda>existing.
      case existing of
        Some c \<Rightarrow>
          and_then (asserting (cn_invoice_id c = rf_invoice_id rf) RefundReferenceConflict) (\<lambda>_.
          and_then (lock_invoice (rf_invoice_id rf)) (\<lambda>i.
          and_then (enforce_invoice_policy (fe_world env) (rf_token rf) CREDIT_NOTE_CREATE i) (\<lambda>_.
          complete_note env base (rf_request_ctx rf) SRC_REFUND ''refund_replay'' c i)))
      | None \<Rightarrow> create_refund_new env base rf))"

end
