(* ===== verification/Audit_Properties.thy ===== *)
theory Audit_Properties
  imports Audit_Log
begin

text \<open>
  What the audit log promises: a log that only \<open>audit\<close> wrote verifies, a verified log is determined by
  its last hash unless SHA-256 collides, no secret reaches the log in clear, and a verification window
  that starts after the tenant's first record always reports a broken chain.
\<close>

section \<open>A concrete log for the witnesses\<close>

definition demo_world :: world where
  "demo_world = \<lparr>sha256_hex = (\<lambda>s. CHR ''h'' # s), uuid_at = show_nat, time_at = (\<lambda>n. 10 * int n)\<rparr>"

definition demo_event :: audit_event where
  "demo_event =
     \<lparr>ev_event_type = ''INVOICE_STATUS_CHANGED'', ev_entity_type = ''invoice'', ev_entity_id = ''inv-1'',
      ev_action = ''UPDATE_STATE'', ev_visibility = INTERNAL, ev_before = None,
      ev_after = Some [(''status'', PStr ''SENT''), (''access_token'', PStr ''abc'')],
      ev_diff = None, ev_external_refs = None, ev_reason = None, ev_attachment_key = None\<rparr>"

definition demo_db0 :: audit_db where
  "demo_db0 = \<lparr>tick = 0, audit_log = []\<rparr>"

definition demo_db1 :: audit_db where
  "demo_db1 = snd (audit demo_world demo_event None demo_db0)"

definition demo_db2 :: audit_db where
  "demo_db2 = snd (audit demo_world demo_event None demo_db1)"

lemma audit_reachable_snd: "audit_reachable w s \<Longrightarrow> audit_reachable w (snd (audit w ev rc s))"
  by (rule audit_reachable.append [where ev = ev and rc = rc]) (auto simp: audit_apply Let_def)

lemma demo_reachable: "audit_reachable demo_world demo_db1" "audit_reachable demo_world demo_db2"
proof -
  show 1: "audit_reachable demo_world demo_db1"
    unfolding demo_db1_def
    by (rule audit_reachable_snd) (rule audit_reachable.empty_log, simp add: demo_db0_def)
  show "audit_reachable demo_world demo_db2"
    unfolding demo_db2_def by (rule audit_reachable_snd [OF 1])
qed

lemma demo_log1:
  "\<exists>r. audit_log demo_db1 = [r] \<and> al_ts r = 0 \<and> al_tenant_id r = None \<and> tick demo_db1 = 2"
  by (simp add: demo_db1_def demo_db0_def audit_apply Let_def system_context_def latest_record_def
      audit_ts_def demo_world_def)

lemma demo_log2:
  "\<exists>r r'. audit_log demo_db2 = [r, r'] \<and> al_ts r = 0 \<and> al_ts r' = 20 \<and>
     al_tenant_id r = None \<and> al_tenant_id r' = None"
proof -
  from demo_log1 obtain r where r: "audit_log demo_db1 = [r]" "al_ts r = 0" "al_tenant_id r = None"
    "tick demo_db1 = 2" by blast
  then show ?thesis
    by (simp add: demo_db2_def audit_apply Let_def system_context_def latest_record_def
        same_tenant_def audit_ts_def demo_world_def)
qed

section \<open>Properties\<close>

text \<open>C16. A log that only \<open>AuditService.audit\<close> ever wrote passes \<open>verify_chain\<close> for every tenant and
  every window that starts no later than the tenant's first record, whatever the clock did between the
  calls; the report counts exactly the tenant's records up to the end of the window.\<close>

theorem audit_log_verifies:
  assumes "audit_reachable w s"
    and "\<forall>r\<in>set (audit_log s). same_tenant t r \<longrightarrow> date_from \<le> al_ts r"
  shows "verify_chain w date_from date_to t (audit_log s) =
     \<lparr>cr_ok = True,
      cr_checked = length (filter (\<lambda>r. same_tenant t r \<and> al_ts r \<le> date_to) (audit_log s)),
      cr_broken_at_id = None, cr_message = []\<rparr>"
proof -
  let ?log = "audit_log s"
  have ok: "audit_chain_ok w ?log" using assms(1) by (rule audit_reachable_chain)
  have win: "filter (\<lambda>r. date_from \<le> al_ts r \<and> al_ts r \<le> date_to) (tenant_records t ?log) =
      filter (\<lambda>r. al_ts r \<le> date_to) (tenant_records t ?log)"
    using assms(2) by (intro filter_cong) (auto simp: tenant_records_def)
  have "chain_from (audit_link w) al_hash GENESIS_HASH
      (filter (\<lambda>r. al_ts r \<le> date_to) (tenant_records t ?log))"
    unfolding filter_upto_prefix [OF audit_chain_okD(1) [OF ok]]
    by (rule chain_from_takeWhile [OF audit_chain_okD(2) [OF ok]])
  then have "verify_records w GENESIS_HASH 0 (filter (\<lambda>r. al_ts r \<le> date_to) (tenant_records t ?log)) =
      \<lparr>cr_ok = True, cr_checked = 0 + length (filter (\<lambda>r. al_ts r \<le> date_to) (tenant_records t ?log)),
       cr_broken_at_id = None, cr_message = []\<rparr>"
    by (rule verify_records_ok)
  moreover have "filter (\<lambda>r. al_ts r \<le> date_to) (tenant_records t ?log) =
      filter (\<lambda>r. same_tenant t r \<and> al_ts r \<le> date_to) ?log"
    by (simp add: tenant_records_def conj_commute)
  ultimately show ?thesis
    unfolding verify_chain_def window_records [OF ok] win by simp
qed

theorem audit_log_verifies_witness:
  "audit_reachable demo_world demo_db2 \<and>
   cr_ok (verify_chain demo_world 0 100 None (audit_log demo_db2))"
proof -
  from demo_log2 have "\<forall>r\<in>set (audit_log demo_db2). same_tenant None r \<longrightarrow> 0 \<le> al_ts r" by auto
  from audit_log_verifies [OF demo_reachable(2) this, of 100] show ?thesis
    by (simp add: demo_reachable)
qed

text \<open>C17. Tamper evidence. Take two sequences of records that \<open>verify_chain\<close> accepts from the genesis
  value and whose last hashes agree, and suppose no digest equals the genesis marker. Then the two
  sequences have the same hashed fields record by record (after JSON normalisation), or SHA-256 has a
  collision.\<close>

theorem audit_tamper_evident:
  assumes "\<forall>r\<in>set rs \<union> set ts. wf_record r"
    and "cr_ok (verify_records w GENESIS_HASH 0 rs)" and "cr_ok (verify_records w GENESIS_HASH 0 ts)"
    and "chain_head al_hash GENESIS_HASH rs = chain_head al_hash GENESIS_HASH ts"
    and "\<forall>x. sha256_hex w x \<noteq> GENESIS_HASH"
  shows "map audit_content rs = map audit_content ts \<or> sha_collision (sha256_hex w)"
  using audit_chain.tamper_evident [OF assms(1) verify_records_sound [OF assms(2)]
      verify_records_sound [OF assms(3)] assms(4)] assms(5) by blast

lemma demo_sha: "sha256_hex demo_world x \<noteq> GENESIS_HASH"
  by (simp add: demo_world_def GENESIS_HASH_def)

lemma demo_verified: "cr_ok (verify_records demo_world GENESIS_HASH 0 (audit_log demo_db1))"
proof -
  from demo_log1 obtain r where r: "audit_log demo_db1 = [r]" "al_tenant_id r = None" by blast
  then have "tenant_records None (audit_log demo_db1) = audit_log demo_db1"
    by (simp add: tenant_records_def same_tenant_def)
  with audit_chain_okD(2) [OF audit_reachable_chain [OF demo_reachable(1)], of None]
  show ?thesis by (simp add: verify_records_ok)
qed

lemma demo_wf: "\<forall>r\<in>set (audit_log demo_db1). wf_record r"
proof -
  have "wf_record (build_audit_record demo_world demo_event system_context [] 0 i)" for i
    by (simp add: wf_record_def hash_data_for_record_def build_audit_record_def draft_audit_record_def
        Let_def demo_event_def system_context_def opt_str_def opt_int_def opt_strs_def compact_dict_def
        sanitize_payload_def truncate_payload_def opt_dict_def diff_payload_def falsy_dict_def)
  then show ?thesis
    by (simp add: demo_db1_def demo_db0_def audit_apply Let_def demo_world_def)
qed

theorem audit_tamper_evident_witness:
  "cr_ok (verify_records demo_world GENESIS_HASH 0 (audit_log demo_db1)) \<and>
   (map audit_content (audit_log demo_db1) = map audit_content (audit_log demo_db1) \<or>
    sha_collision (sha256_hex demo_world))"
proof -
  have wf: "\<forall>r\<in>set (audit_log demo_db1) \<union> set (audit_log demo_db1). wf_record r"
    using demo_wf by simp
  have fr: "\<forall>x. sha256_hex demo_world x \<noteq> GENESIS_HASH" using demo_sha by simp
  show ?thesis
    using audit_tamper_evident [OF wf demo_verified demo_verified refl fr] demo_verified by simp
qed

text \<open>Secrets never reach the log: in every log that \<open>audit\<close> calls built, in each of the four JSON
  payloads of a record and at any depth, a value stored under a key containing "password", "pin",
  "secret" or "token" (in any letter case) is the mask.\<close>

theorem audit_masks_sensitive:
  assumes "audit_reachable w s" and "r \<in> set (audit_log s)"
  shows "masked (al_before r) \<and> masked (al_after r) \<and> masked (al_diff r) \<and> masked (al_external_refs r)"
  using audit_reachable_masked [OF assms(1)] assms(2) by (simp add: record_masked_def)

theorem audit_masks_sensitive_witness:
  "audit_log demo_db1 \<noteq> [] \<and> masked (al_after (hd (audit_log demo_db1))) \<and> sensitive_key ''access_token''"
proof -
  from demo_log1 obtain r where r: "audit_log demo_db1 = [r]" by blast
  have "sensitive_key ''access_token''"
    by (simp add: sensitive_key_def SENSITIVE_KEYS_def lower_char_def)
  with r audit_masks_sensitive [OF demo_reachable(1), of r] show ?thesis by simp
qed

text \<open>A verification window that starts after the first record of the tenant and still contains one
  of its later records reports a broken chain at the first record of the window, although nothing was
  tampered with: the check expects the genesis marker as the predecessor of whatever comes first.\<close>

theorem audit_window_reports_broken:
  assumes "audit_reachable w s" and "tenant_records t (audit_log s) = r # rs"
    and "al_ts r < date_from"
    and "r' \<in> set rs" and "date_from \<le> al_ts r'" and "al_ts r' \<le> date_to"
    and "\<forall>x. sha256_hex w x \<noteq> GENESIS_HASH"
  shows "\<exists>i. verify_chain w date_from date_to t (audit_log s) =
     \<lparr>cr_ok = False, cr_checked = 1, cr_broken_at_id = Some i, cr_message = ''prev_hash mismatch''\<rparr>"
proof -
  let ?win = "filter (\<lambda>r. date_from \<le> al_ts r \<and> al_ts r \<le> date_to)"
  have ok: "audit_chain_ok w (audit_log s)" using assms(1) by (rule audit_reachable_chain)
  from assms(2,3) have win: "?win (tenant_records t (audit_log s)) = ?win rs" by simp
  from assms(4-6) have "?win rs \<noteq> []" by (auto simp: filter_empty_conv)
  then obtain x xs where x: "?win rs = x # xs" by (cases "?win rs") auto
  then have "x \<in> set rs" by (metis filter_is_subset list.set_intros(1) subsetD)
  have "chain_from (audit_link w) al_hash (al_hash r) rs" and "audit_link w GENESIS_HASH r"
    using audit_chain_okD(2) [OF ok, of t] assms(2) by simp_all
  then have "al_prev_hash x \<noteq> GENESIS_HASH"
    using linked_prev_not_genesis [OF _ \<open>x \<in> set rs\<close>] assms(7)
    by (auto simp: audit_link_def hash_payload_def)
  then show ?thesis
    unfolding verify_chain_def window_records [OF ok] win x by simp
qed

theorem audit_window_reports_broken_witness:
  "\<exists>i. verify_chain demo_world 5 100 None (audit_log demo_db2) =
     \<lparr>cr_ok = False, cr_checked = 1, cr_broken_at_id = Some i, cr_message = ''prev_hash mismatch''\<rparr>"
proof -
  from demo_log2 obtain r r' where r: "audit_log demo_db2 = [r, r']" "al_ts r = 0" "al_ts r' = 20"
    "al_tenant_id r = None" "al_tenant_id r' = None" by blast
  then have "tenant_records None (audit_log demo_db2) = [r, r']"
    by (simp add: tenant_records_def same_tenant_def)
  from audit_window_reports_broken [OF demo_reachable(2) this, of 5 r' 100] r demo_sha
  show ?thesis by simp
qed

end
