(* ===== verification/Ledger_Properties.thy ===== *)
theory Ledger_Properties
  imports Ledger_Postings Audit_Properties
begin

text \<open>
  What the internal ledger promises its callers: postings happen as a whole or not at all, a repeated
  request is a replay, the books of every currency balance, a fuel reversal cancels its settlement, and
  what \<open>verify_ledger_chain\<close> says about an untouched ledger.
\<close>

section \<open>A concrete world and request for the witnesses\<close>

definition ref_world :: world where
  "ref_world = \<lparr>sha256_hex = (\<lambda>s. take 64 (s @ replicate 64 (CHR ''0''))),
     uuid_at = (\<lambda>n. replicate n (CHR ''a'')), time_at = (\<lambda>n. int n)\<rparr>"

lemma ref_world_sane: "sane_world ref_world"
  by (auto simp: sane_world_def ref_world_def inj_def min_def)

definition empty_ledger_db :: ledger_db where
  "empty_ledger_db = \<lparr>tick = 0, audit_log = [], il_accounts = [], il_transactions = [], il_entries = []\<rparr>"

lemma empty_ledger_reachable: "ledger_reachable w empty_ledger_db"
  by (rule ledger_reachable.empty_ledger) (simp_all add: empty_ledger_db_def)

lemma empty_ledger_db_ok: "ledger_ok w empty_ledger_db"
  by (rule ledger_ok_empty) (simp_all add: empty_ledger_db_def)

definition ref_request :: post_request where
  "ref_request = fuel_request FUEL_SETTLEMENT ''settlement'' 1 ''f-1'' (Some 5)"

definition ref_lines :: "il_line list" where
  "ref_lines = fuel_lines DEBIT ''f-1'' ''c-1'' 700 ''RUB''"

lemma ref_lines_valid:
  "single_currency (map ln_currency ref_lines) = Inr ''RUB''"
  "balanced_total ln_direction ln_amount ref_lines = Inr 700"
  by (simp_all add: ref_lines_def fuel_lines_def ledger_line_def Let_def single_currency_def
      balanced_total_def sum_direction_def)

section \<open>Properties\<close>

text \<open>C18. A posting with at least one line, a single currency and equal debit and credit totals, under a
  key the ledger has not seen, succeeds on every reachable ledger. It appends exactly one transaction,
  numbered next in the tenant's sequence and carrying the totals, one entry per line with the line's
  direction, amount, currency and meta on the account of the line's scope, and one audit record;
  existing accounts, transactions and entries stay as they are.\<close>

theorem post_transaction_succeeds:
  assumes "sane_world w" and "ledger_reachable w s"
    and "single_currency (map ln_currency lines) = Inr cur"
    and "balanced_total ln_direction ln_amount lines = Inr tot"
    and "\<not> key_used w pr (il_transactions s)"
  shows "\<exists>t s' accs es r. post_transaction w pr lines s = (Inr (t, False), s') \<and>
     il_transactions s' = il_transactions s @ [t] \<and> il_entries s' = il_entries s @ es \<and>
     il_accounts s' = il_accounts s @ accs \<and> audit_log s' = audit_log s @ [r] \<and>
     list_all2 (entry_for (pr_tenant_id pr) t (il_accounts s')) lines es \<and>
     tx_total_debit t = tot \<and> tx_total_credit t = tot \<and> tx_currency t = Some cur \<and>
     tx_idempotency_key t = normalize_key w ''ledger:'' 128 (pr_idempotency_key pr) \<and>
     tx_batch_sequence t = int (length (tenant_transactions (pr_tenant_id pr) (il_transactions s))) + 1"
proof -
  have ok: "ledger_ok w s" by (rule reachable_ledger_ok [OF assms(2,1)])
  from post_transaction_new [OF assms(1) ok assms(3-5)] obtain s' where
    "post_transaction w pr lines s = (Inr (new_transaction w pr tot cur lines s, False), s')"
    and "posted w pr lines (new_transaction w pr tot cur lines s) s s'" by blast
  then show ?thesis
    using next_sequence_eq [OF ledger_okD(2) [OF ok], of "pr_tenant_id pr"] by (force simp: posted_def)
qed

theorem post_transaction_succeeds_witness:
  "\<exists>t s'. post_transaction ref_world ref_request ref_lines empty_ledger_db = (Inr (t, False), s') \<and>
     length (il_entries s') = 2 \<and> tx_total_debit t = 700 \<and> tx_batch_sequence t = 1"
proof -
  have "\<not> key_used ref_world ref_request (il_transactions empty_ledger_db)"
    by (simp add: key_used_def empty_ledger_db_def)
  from post_transaction_succeeds [OF ref_world_sane empty_ledger_reachable ref_lines_valid this]
  obtain t s' es where 1: "post_transaction ref_world ref_request ref_lines empty_ledger_db = (Inr (t, False), s')"
    "il_entries s' = il_entries empty_ledger_db @ es" "tx_total_debit t = 700"
    and 2: "list_all2 (entry_for (pr_tenant_id ref_request) t (il_accounts s')) ref_lines es"
    and 3: "tx_batch_sequence t =
      int (length (tenant_transactions (pr_tenant_id ref_request) (il_transactions empty_ledger_db))) + 1"
    by blast
  have "length ref_lines = 2" by (simp add: ref_lines_def fuel_lines_def Let_def)
  with 1 3 list_all2_lengthD [OF 2] show ?thesis
    by (simp add: empty_ledger_db_def tenant_transactions_def)
qed

text \<open>C21. Retrying a posting: after a call succeeded, any number of further calls with the same request
  return the same transaction as a replay and change nothing, neither ledger nor audit log.\<close>

theorem post_transaction_idempotent:
  assumes "sane_world w" and "ledger_reachable w s"
    and "post_transaction w pr lines s = (Inr (t, b), s')"
  shows "retried (Suc n) (post_transaction w pr lines) s = (Inr (t, True), s')"
  using il_retry.retried_same [of w s "(pr, lines)" "(t, b)" s' "Suc n"] reachable_ledger_ok [OF assms(2,1)] assms
  by simp

theorem post_transaction_idempotent_witness:
  "\<exists>t s'. retried 3 (post_transaction ref_world ref_request ref_lines) empty_ledger_db = (Inr (t, True), s') \<and>
     length (il_transactions s') = 1"
proof -
  have "\<not> key_used ref_world ref_request (il_transactions empty_ledger_db)"
    by (simp add: key_used_def empty_ledger_db_def)
  from post_transaction_new [OF ref_world_sane empty_ledger_db_ok ref_lines_valid this] obtain t s' where
    1: "post_transaction ref_world ref_request ref_lines empty_ledger_db = (Inr (t, False), s')"
    and 2: "posted ref_world ref_request ref_lines t empty_ledger_db s'" by blast
  from 2 have "length (il_transactions s') = 1" by (auto simp: posted_def empty_ledger_db_def)
  with post_transaction_idempotent [OF ref_world_sane empty_ledger_reachable 1, of 2] show ?thesis
    by (auto simp: numeral_3_eq_3 numeral_2_eq_2)
qed

text \<open>C19. The books balance: on every reachable ledger, in every currency, debits and credits cancel over
  all entries, the balances of any set of accounts that covers all entries cancel each other, every
  transaction carries the totals of its entries, and the health report counts no broken transaction.\<close>

theorem ledger_books_balance:
  fixes s :: "'a fin_db_scheme"
  assumes "sane_world w" and "ledger_reachable w s" and "t \<in> set (il_transactions s)"
  shows "signed_sum il_signed (filter (\<lambda>e. en_currency e = c) (il_entries s)) = 0 \<and>
    (\<Sum>a\<in>acc_id ` set (il_accounts s). signed_sum il_signed
       (filter (\<lambda>e. en_account_id e = a) (filter (\<lambda>e. en_currency e = c) (il_entries s)))) = 0 \<and>
    tx_balanced (il_entries s) t \<and>
    lh_broken_transactions (health_check s) = 0"
proof -
  have ok: "ledger_ok w s" by (rule reachable_ledger_ok [OF assms(2,1)])
  have cover: "en_account_id ` set (il_entries s) \<subseteq> acc_id ` set (il_accounts s)"
    using ledger_okD(3) [OF ok] by (auto simp: entries_ok_def)
  have "broken_transaction_ids (il_entries s) = []"
    using il_book.batch_zero [OF ok]
    by (auto simp: broken_transaction_ids_def filter_empty_conv Let_def il_signed_sum)
  then show ?thesis
    using il_book.trial_balance [OF ok] il_book.account_balances_cancel [OF ok _ cover]
      ledger_okD(4) [OF ok assms(3)] by (simp add: health_check_def)
qed

definition empty_fin_db :: fin_db where
  "empty_fin_db = \<lparr>tick = 0, audit_log = [], il_accounts = [], il_transactions = [], il_entries = [],
     invoices = [], invoice_transition_logs = [], invoice_payments = [], credit_notes = [], allocations = [],
     billing_periods = [], money_flow_events = [], billing_job_runs = [], legal_nodes = [], legal_edges = [],
     refund_request_ids = []\<rparr>"

lemma empty_fin_ok: "ledger_ok w empty_fin_db" "ledger_reachable w empty_fin_db"
  by (rule ledger_ok_empty, simp_all add: empty_fin_db_def)
    (rule ledger_reachable.empty_ledger, simp_all)

definition ref_posted_db :: fin_db where
  "ref_posted_db = snd (post_transaction ref_world ref_request ref_lines empty_fin_db)"

lemma ref_posted:
  "\<exists>t. post_transaction ref_world ref_request ref_lines empty_fin_db = (Inr (t, False), ref_posted_db) \<and>
     posted ref_world ref_request ref_lines t empty_fin_db ref_posted_db \<and> il_transactions ref_posted_db = [t]"
proof -
  have "\<not> key_used ref_world ref_request (il_transactions empty_fin_db)"
    by (simp add: key_used_def empty_fin_db_def)
  from post_transaction_new [OF ref_world_sane empty_fin_ok(1) ref_lines_valid this] obtain t s' where
    1: "post_transaction ref_world ref_request ref_lines empty_fin_db = (Inr (t, False), s')"
    and 2: "posted ref_world ref_request ref_lines t empty_fin_db s'" by blast
  then have "s' = ref_posted_db" by (simp add: ref_posted_db_def)
  moreover from 2 have "il_transactions s' = [t]" by (auto simp: posted_def empty_fin_db_def)
  ultimately show ?thesis using 1 2 by blast
qed

lemma ref_posted_reachable: "ledger_reachable ref_world ref_posted_db"
  unfolding ref_posted_db_def by (rule ledger_reachable.post [OF empty_fin_ok(2)])

theorem ledger_books_balance_witness:
  "il_transactions ref_posted_db \<noteq> [] \<and>
   signed_sum il_signed (filter (\<lambda>e. en_currency e = ''RUB'') (il_entries ref_posted_db)) = 0 \<and>
   lh_broken_transactions (health_check ref_posted_db) = 0"
proof -
  obtain t where "il_transactions ref_posted_db = [t]" using ref_posted by blast
  with ledger_books_balance [OF ref_world_sane ref_posted_reachable, of t "''RUB''"] show ?thesis by simp
qed

text \<open>C22. A posting that is refused leaves no trace. On a reachable ledger \<open>post_transaction\<close> either succeeds
  or raises \<open>ValueError\<close> with the database untouched, and it raises for an empty list of lines, for mixed
  currencies and for unequal totals.\<close>

theorem post_transaction_all_or_nothing:
  assumes "sane_world w" and "ledger_reachable w s"
  shows "((\<exists>t b s'. post_transaction w pr lines s = (Inr (t, b), s')) \<or>
      (\<exists>m. post_transaction w pr lines s = (Inl (ValueError m), s))) \<and>
    (lines = [] \<or> length (remdups (map ln_currency lines)) \<noteq> 1 \<or>
      sum_direction DEBIT ln_direction ln_amount lines \<noteq> sum_direction CREDIT ln_direction ln_amount lines \<longrightarrow>
      (\<exists>m. post_transaction w pr lines s = (Inl (ValueError m), s)))"
proof (rule conjI, goal_cases)
  case 1
  show ?case
    by (rule post_transaction_cases [OF assms(1) reachable_ledger_ok [OF assms(2,1)], of pr lines]) auto
next
  case 2
  show ?case by (auto simp: post_transaction_def and_then_apply single_currency_def balanced_total_def)
qed

theorem post_transaction_all_or_nothing_witness:
  "(\<exists>m. post_transaction ref_world ref_request [] ref_posted_db = (Inl (ValueError m), ref_posted_db)) \<and>
   (\<exists>m. post_transaction ref_world ref_request [hd ref_lines] ref_posted_db = (Inl (ValueError m), ref_posted_db))"
  using post_transaction_all_or_nothing [OF ref_world_sane ref_posted_reachable, of ref_request "[]"]
    post_transaction_all_or_nothing [OF ref_world_sane ref_posted_reachable, of ref_request "[hd ref_lines]"]
  by (simp add: ref_lines_def fuel_lines_def ledger_line_def Let_def sum_direction_def)

lemma replicate_le_Suc: "replicate m (c::char) \<le> c # replicate m c"
  by (induction m) simp_all

lemma ref_posted_entries:
  assumes "il_transactions ref_posted_db = [t]"
  shows "sorted (map en_id (tx_entries t (il_entries ref_posted_db)))"
    and "tx_entries t (il_entries ref_posted_db) = il_entries ref_posted_db"
    and "list_all2 (entry_for (pr_tenant_id ref_request) t (il_accounts ref_posted_db)) ref_lines
      (il_entries ref_posted_db)"
proof -
  have t: "posted ref_world ref_request ref_lines t empty_fin_db ref_posted_db"
    using ref_posted assms by auto
  obtain es m where "il_entries ref_posted_db = il_entries empty_fin_db @ es"
    and all: "list_all2 (entry_for (pr_tenant_id ref_request) t (il_accounts ref_posted_db)) ref_lines es"
    and "map en_id es = map (uuid_at ref_world) [m..<m + length es]"
    by (rule posted_entries [OF t])
  then have e: "il_entries ref_posted_db = es" "map en_id es = map (uuid_at ref_world) [m..<m + length es]"
    by (simp_all add: empty_fin_db_def)
  show 2: "tx_entries t (il_entries ref_posted_db) = il_entries ref_posted_db"
    using mirrored_txid [OF all] e by (simp add: tx_entries_def)
  show "list_all2 (entry_for (pr_tenant_id ref_request) t (il_accounts ref_posted_db)) ref_lines
      (il_entries ref_posted_db)" using all e by simp
  have "sorted (map (uuid_at ref_world) [m..<m + 2])"
    by (simp add: ref_world_def numeral_2_eq_2 replicate_le_Suc)
  moreover have "length es = 2"
    using list_all2_lengthD [OF all] by (simp add: ref_lines_def fuel_lines_def Let_def)
  ultimately show "sorted (map en_id (tx_entries t (il_entries ref_posted_db)))" using e 2 by simp
qed

text \<open>What \<open>verify_ledger_chain\<close> says about one tenant of a ledger that only postings ever changed: the
  chain is in order, or the check blames the batch hash of a transaction whose entries, in the order
  they were hashed in, do not have ascending identifiers. Sequence numbers and links are never blamed.\<close>

theorem verify_ledger_chain_verdict:
  assumes "sane_world w" and "ledger_reachable w s"
  shows "verify_ledger_chain w (Some tenant) s = ChainOk \<or>
    (\<exists>t\<in>set (tenant_transactions tenant (il_transactions s)).
       verify_ledger_chain w (Some tenant) s = BatchHashMismatch (tx_id t) \<and>
       \<not> sorted (map en_id (tx_entries t (il_entries s))))"
proof -
  have ok: "ledger_ok w s" by (rule reachable_ledger_ok [OF assms(2,1)])
  have seq: "map tx_batch_sequence (tenant_transactions tenant (il_transactions s)) =
      map int [1..<1 + length (tenant_transactions tenant (il_transactions s))]"
    using ledger_okD(2) [OF ok] by (simp add: txs_ok_def del: upt_Suc)
  have "set (tenant_transactions tenant (il_transactions s)) \<subseteq> set (il_transactions s)"
    by (auto simp: tenant_transactions_def)
  from verify_rows_verdict [OF ok this ledger_okD(5) [OF ok] seq] show ?thesis
    by (simp add: verify_ledger_chain_def by_sequence_id [OF ledger_okD(2) [OF ok]])
qed

theorem verify_ledger_chain_verdict_witness:
  "verify_ledger_chain ref_world (Some 1) ref_posted_db = ChainOk"
proof -
  obtain t where t: "il_transactions ref_posted_db = [t]" using ref_posted by blast
  from verify_ledger_chain_verdict [OF ref_world_sane ref_posted_reachable, of 1] t ref_posted_entries(1) [OF t]
  show ?thesis by (auto simp: tenant_transactions_def split: if_splits)
qed

lemma fuel_lines_valid:
  "single_currency (map ln_currency (fuel_lines d f c a cur)) = Inr cur"
  "balanced_total ln_direction ln_amount (fuel_lines d f c a cur) = Inr a"
  by (cases d; simp add: fuel_lines_def ledger_line_def Let_def single_currency_def
      balanced_total_def sum_direction_def)+

lemma fuel_key:
  assumes "length f \<le> 64" and "length step \<le> 10"
  shows "normalize_key w ''ledger:'' 128 (pr_idempotency_key (fuel_request ty step tenant f p)) =
    ''fuel_tx:'' @ f @ '':'' @ step @ '':v1''"
  using assms by (simp add: fuel_request_def normalize_key_def)

lemma same_scope_account:
  "accounts_ok w n accs \<Longrightarrow> a \<in> set accs \<Longrightarrow> b \<in> set accs \<Longrightarrow> acc_scope a = acc_scope b \<Longrightarrow> a = b"
  by (auto simp: accounts_ok_def distinct_map inj_on_def)

text \<open>The two entries of a fuel posting, by side.\<close>

lemma fuel_entries:
  assumes "list_all2 (entry_for tenant t accs) (fuel_lines d f c a cur) es"
  obtains ar pay where "ar \<in> set accs" and "acc_scope ar = (tenant, Some c, CLIENT_AR, cur)"
    and "pay \<in> set accs" and "acc_scope pay = (tenant, None, PROVIDER_PAYABLE, cur)"
    and "\<forall>k. signed_sum il_signed (filter (\<lambda>e. en_account_id e = k) es) =
      (if d = DEBIT then 1 else -1) * ((if acc_id ar = k then a else 0) - (if acc_id pay = k then a else 0))"
proof (cases d)
  case DEBIT
  with assms obtain e1 e2 where es: "es = [e1, e2]"
    and e1: "entry_for tenant t accs (ledger_line CLIENT_AR (Some c) DEBIT a cur [(''fuel_transaction_id'', PStr f)]) e1"
    and e2: "entry_for tenant t accs (ledger_line PROVIDER_PAYABLE None CREDIT a cur [(''fuel_transaction_id'', PStr f)]) e2"
    by (auto simp: fuel_lines_def Let_def list_all2_Cons1)
  from e1 e2 obtain ar pay where "ar \<in> set accs" "pay \<in> set accs"
    "acc_id ar = en_account_id e1" "acc_scope ar = (tenant, Some c, CLIENT_AR, cur)"
    "acc_id pay = en_account_id e2" "acc_scope pay = (tenant, None, PROVIDER_PAYABLE, cur)"
    by (auto simp: entry_for_def ledger_line_def)
  with e1 e2 es DEBIT show ?thesis
    by (intro that [of ar pay]) (auto simp: entry_for_def ledger_line_def il_signed_def)
next
  case CREDIT
  with assms obtain e1 e2 where es: "es = [e1, e2]"
    and e1: "entry_for tenant t accs (ledger_line PROVIDER_PAYABLE None DEBIT a cur [(''fuel_transaction_id'', PStr f)]) e1"
    and e2: "entry_for tenant t accs (ledger_line CLIENT_AR (Some c) CREDIT a cur [(''fuel_transaction_id'', PStr f)]) e2"
    by (auto simp: fuel_lines_def Let_def list_all2_Cons1)
  from e1 e2 obtain ar pay where "ar \<in> set accs" "pay \<in> set accs"
    "acc_id ar = en_account_id e2" "acc_scope ar = (tenant, Some c, CLIENT_AR, cur)"
    "acc_id pay = en_account_id e1" "acc_scope pay = (tenant, None, PROVIDER_PAYABLE, cur)"
    by (auto simp: entry_for_def ledger_line_def)
  with e1 e2 es CREDIT show ?thesis
    by (intro that [of ar pay]) (auto simp: entry_for_def ledger_line_def il_signed_def)
qed

text \<open>A fuel reversal cancels its settlement: posting the settlement of a fuel transaction and then its
  reversal, with the same client, amount and currency and neither posted before, succeeds twice and
  leaves the balance of every account of the ledger where it was.\<close>

theorem fuel_reversal_cancels_settlement:
  assumes w: "sane_world w" and reach: "ledger_reachable w s" and len: "length f \<le> 64"
    and new: "\<not> key_used w (fuel_request FUEL_SETTLEMENT ''settlement'' tenant f p) (il_transactions s)"
      "\<not> key_used w (fuel_request FUEL_REVERSAL ''reversal'' tenant f q) (il_transactions s)"
  shows "\<exists>t1 s1 t2 s2. post_fuel_settlement w tenant f c a cur p s = (Inr t1, s1) \<and>
     post_fuel_reversal w tenant f c a cur q s1 = (Inr t2, s2) \<and>
     (\<forall>k. signed_sum il_signed (filter (\<lambda>e. en_account_id e = k) (il_entries s2)) =
          signed_sum il_signed (filter (\<lambda>e. en_account_id e = k) (il_entries s)))"
proof -
  let ?pr1 = "fuel_request FUEL_SETTLEMENT ''settlement'' tenant f p"
  let ?pr2 = "fuel_request FUEL_REVERSAL ''reversal'' tenant f q"
  have ok: "ledger_ok w s" by (rule reachable_ledger_ok [OF reach w])
  have tenants: "pr_tenant_id ?pr1 = tenant" "pr_tenant_id ?pr2 = tenant" by (simp_all add: fuel_request_def)
  define t1 where "t1 = new_transaction w ?pr1 a cur (fuel_lines DEBIT f c a cur) s"
  from post_transaction_new [OF w ok fuel_lines_valid new(1), of DEBIT f c a cur] obtain s1 where
    1: "post_transaction w ?pr1 (fuel_lines DEBIT f c a cur) s = (Inr (t1, False), s1)"
    "posted w ?pr1 (fuel_lines DEBIT f c a cur) t1 s s1" unfolding t1_def by blast
  have ok1: "ledger_ok w s1"
    using posted_keeps_ok [OF w ok fuel_lines_valid new(1)] 1(2) unfolding t1_def by blast
  have "tx_idempotency_key t1 \<noteq> normalize_key w ''ledger:'' 128 (pr_idempotency_key ?pr2)"
    using fuel_key [OF len, of "''settlement''"] fuel_key [OF len, of "''reversal''"] by (simp add: t1_def)
  then have new2: "\<not> key_used w ?pr2 (il_transactions s1)"
    using new(2) posted_accounts(3) [OF 1(2)] by (auto simp: key_used_def)
  from post_transaction_new [OF w ok1 fuel_lines_valid new2, of CREDIT f c a cur] obtain t2 s2 where
    2: "post_transaction w ?pr2 (fuel_lines CREDIT f c a cur) s1 = (Inr (t2, False), s2)"
    "posted w ?pr2 (fuel_lines CREDIT f c a cur) t2 s1 s2" by blast
  obtain es1 where e1: "il_entries s1 = il_entries s @ es1"
    "list_all2 (entry_for tenant t1 (il_accounts s1)) (fuel_lines DEBIT f c a cur) es1"
    using posted_entries [OF 1(2)] tenants by metis
  obtain es2 where e2: "il_entries s2 = il_entries s1 @ es2"
    "list_all2 (entry_for tenant t2 (il_accounts s2)) (fuel_lines CREDIT f c a cur) es2"
    using posted_entries [OF 2(2)] tenants by metis
  obtain ar1 pay1 where a1: "ar1 \<in> set (il_accounts s1)" "acc_scope ar1 = (tenant, Some c, CLIENT_AR, cur)"
    "pay1 \<in> set (il_accounts s1)" "acc_scope pay1 = (tenant, None, PROVIDER_PAYABLE, cur)"
    and s1: "\<forall>k. signed_sum il_signed (filter (\<lambda>e. en_account_id e = k) es1) =
      (if DEBIT = DEBIT then 1 else -1) * ((if acc_id ar1 = k then a else 0) - (if acc_id pay1 = k then a else 0))"
    by (rule fuel_entries [OF e1(2)])
  obtain ar2 pay2 where a2: "ar2 \<in> set (il_accounts s2)" "acc_scope ar2 = (tenant, Some c, CLIENT_AR, cur)"
    "pay2 \<in> set (il_accounts s2)" "acc_scope pay2 = (tenant, None, PROVIDER_PAYABLE, cur)"
    and s2: "\<forall>k. signed_sum il_signed (filter (\<lambda>e. en_account_id e = k) es2) =
      (if CREDIT = DEBIT then 1 else -1) * ((if acc_id ar2 = k then a else 0) - (if acc_id pay2 = k then a else 0))"
    by (rule fuel_entries [OF e2(2)])
  have same: "ar1 = ar2" "pay1 = pay2"
    using posted_accounts(2) [OF 2(2)] a1 a2 same_scope_account [OF posted_accounts(1) [OF 2(2)]] by auto
  have "signed_sum il_signed (filter (\<lambda>e. en_account_id e = k) (il_entries s2)) =
      signed_sum il_signed (filter (\<lambda>e. en_account_id e = k) (il_entries s))" for k
    using s1 [rule_format, of k] s2 [rule_format, of k] by (simp add: e1(1) e2(1) same)
  moreover have "post_fuel_settlement w tenant f c a cur p s = (Inr t1, s1)"
    "post_fuel_reversal w tenant f c a cur q s1 = (Inr t2, s2)"
    using 1(1) 2(1) by (simp_all add: post_fuel_settlement_def post_fuel_reversal_def)
  ultimately show ?thesis by blast
qed

theorem fuel_reversal_cancels_settlement_witness:
  "\<exists>t1 s1 t2 s2. post_fuel_settlement ref_world 1 ''f-1'' ''c-1'' 700 ''RUB'' None empty_ledger_db = (Inr t1, s1) \<and>
     post_fuel_reversal ref_world 1 ''f-1'' ''c-1'' 700 ''RUB'' None s1 = (Inr t2, s2) \<and>
     (\<forall>k. signed_sum il_signed (filter (\<lambda>e. en_account_id e = k) (il_entries s2)) = 0)"
  using fuel_reversal_cancels_settlement [OF ref_world_sane empty_ledger_reachable, of "''f-1''" 1 None None "''c-1''" 700 "''RUB''"]
  by (simp add: key_used_def empty_ledger_db_def)

section \<open>A false alarm of the chain check\<close>

text \<open>Fresh identifiers that happen to descend, and a digest that keeps a window of its text.\<close>

definition desc_world :: world where
  "desc_world = \<lparr>sha256_hex = (\<lambda>s. take 64 (drop 70 s @ replicate 64 (CHR ''0''))),
     uuid_at = (\<lambda>n. replicate n (CHR ''a'') @ ''b''), time_at = (\<lambda>n. int n)\<rparr>"

lemma desc_world_sane: "sane_world desc_world"
  by (auto simp: sane_world_def desc_world_def inj_def min_def)

lemma desc_ids: "uuid_at desc_world (Suc m) < uuid_at desc_world m"
  by (induction m) (simp_all add: desc_world_def)

lemma batch_hash_depends_on_order:
  "compute_batch_hash desc_world GENESIS_BATCH_HASH (canonical_postings_payload (rev ref_lines)) 700 700 5 \<noteq>
   compute_batch_hash desc_world GENESIS_BATCH_HASH (canonical_postings_payload ref_lines) 700 700 5"
  by code_simp

text \<open>\<open>verify_ledger_chain\<close> reports a batch hash mismatch for a ledger that nobody touched: it reads the
  entries of a transaction in the order of their random identifiers, while the batch hash was taken
  in the order of the posting. One posting with two lines whose second identifier happens to be the
  smaller one is enough.\<close>

theorem verify_ledger_chain_false_alarm:
  "sane_world desc_world \<and>
   (\<exists>t s. post_transaction desc_world ref_request ref_lines empty_ledger_db = (Inr (t, False), s) \<and>
      verify_ledger_chain desc_world (Some 1) s = BatchHashMismatch (tx_id t))"
proof -
  let ?t = "new_transaction desc_world ref_request 700 ''RUB'' ref_lines empty_ledger_db"
  have "\<not> key_used desc_world ref_request (il_transactions empty_ledger_db)"
    by (simp add: key_used_def empty_ledger_db_def)
  from post_transaction_new [OF desc_world_sane empty_ledger_db_ok ref_lines_valid this] obtain s where
    run: "post_transaction desc_world ref_request ref_lines empty_ledger_db = (Inr (?t, False), s)"
    and p: "posted desc_world ref_request ref_lines ?t empty_ledger_db s" by blast
  obtain es m where "il_entries s = il_entries empty_ledger_db @ es"
    and all: "list_all2 (entry_for (pr_tenant_id ref_request) ?t (il_accounts s)) ref_lines es"
    and ids: "map en_id es = map (uuid_at desc_world) [m..<m + length es]"
    by (rule posted_entries [OF p])
  then have es: "il_entries s = es" by (simp add: empty_ledger_db_def)
  have acc: "distinct (map acc_id (il_accounts s))"
    using posted_accounts(1) [OF p] by (simp add: accounts_ok_def ids_below_def)
  have "length es = 2" using list_all2_lengthD [OF all] by (simp add: ref_lines_def fuel_lines_def Let_def)
  then obtain e1 e2 where e12: "es = [e1, e2]" by (metis length_0_conv length_Suc_conv numeral_2_eq_2)
  with ids have "en_id e2 < en_id e1" using desc_ids [of m] by (simp add: upt_conv_Cons)
  then have ord: "entries_of ?t (il_entries s) = rev es"
    using mirrored_txid [OF all] by (simp add: entries_of_def es e12)
  have all': "list_all2 (entry_for (pr_tenant_id ref_request) ?t (il_accounts s)) (rev ref_lines) (rev es)"
    using all by simp
  have sums: "sum_direction d en_direction en_amount (rev es) = 700" for d
    unfolding mirrored_sum [OF all']
    by (cases d) (simp_all add: ref_lines_def fuel_lines_def ledger_line_def Let_def sum_direction_def)
  have "map fst (join_accounts (il_accounts s) (rev es)) = rev es"
    using mirrored_account [OF all'] by (intro join_sums [OF acc]) simp
  moreover have "tx_posted_at ?t = Some 5"
    by (simp add: new_transaction_def posting_time_def ref_request_def fuel_request_def)
  ultimately have "recomputed_hash desc_world (il_accounts s) (il_entries s) GENESIS_BATCH_HASH ?t =
      compute_batch_hash desc_world GENESIS_BATCH_HASH (canonical_postings_payload (rev ref_lines)) 700 700 5"
    using mirrored_join [OF acc all']
    by (simp add: recomputed_hash_def ord Let_def sum_direction_fst sums joined_postings_def)
  moreover have "tx_batch_hash ?t =
      compute_batch_hash desc_world GENESIS_BATCH_HASH (canonical_postings_payload ref_lines) 700 700 5"
    "tx_previous_batch_hash ?t = GENESIS_BATCH_HASH" "tx_batch_sequence ?t = 1"
    by (simp_all add: new_transaction_def posting_time_def ref_request_def fuel_request_def
        last_batch_hash_def next_batch_sequence_def tenant_transactions_def by_sequence_def empty_ledger_db_def)
  moreover have "il_transactions s = [?t]" using posted_accounts(3) [OF p] by (simp add: empty_ledger_db_def)
  ultimately have "verify_ledger_chain desc_world (Some 1) s = BatchHashMismatch (tx_id ?t)"
    using batch_hash_depends_on_order
    by (simp add: verify_ledger_chain_def tenant_transactions_def by_sequence_def ref_request_def fuel_request_def)
  with run desc_world_sane show ?thesis by blast
qed

end
