(* ===== verification/Invoice_Properties.thy ===== *)
theory Invoice_Properties
  imports Invoice_Machine Ledger_Properties
begin

text \<open>
  What the invoice state machine guarantees: the lifecycle graph, the balance of an invoice after
  every transition, the meaning of each status, the lock of a billing period, and the effect of a
  successful transition on the database.
\<close>

section \<open>The lifecycle graph\<close>

interpretation invoice_lc: lifecycle validate_allowed invoice_successors
proof unfold_locales
  show "validate_allowed s e = Inr s' \<Longrightarrow> s' = s \<or> s' \<in> set (invoice_successors s)" for s e s'
    by (auto simp: validate_allowed_def split: if_splits)
  show "s' \<in> set (invoice_successors s) \<Longrightarrow> \<exists>e. validate_allowed s e = Inr s'" for s s'
    by (rule exI [of _ s']) (simp add: validate_allowed_def)
qed

text \<open>The lifecycle graph of invoices: a sequence of targets is accepted exactly along the paths of the
  table, a cancelled invoice stays cancelled, and no sequence of transitions from any other status
  ends in \<open>CREDITED\<close>.\<close>

theorem invoice_lifecycle:
  "((\<exists>ts. run_steps validate_allowed a ts = Inr b) \<longleftrightarrow> (a, b) \<in> {(x, y). y \<in> set (invoice_successors x)}\<^sup>*) \<and>
   (run_steps validate_allowed CANCELLED ts = Inr b \<longrightarrow> b = CANCELLED) \<and>
   (a \<noteq> CREDITED \<and> run_steps validate_allowed a ts = Inr b \<longrightarrow> b \<noteq> CREDITED)"
proof -
  have "CREDITED \<notin> set (invoice_successors x)" for x by (cases x) simp_all
  then show ?thesis
    using invoice_lc.run_iff_reachable invoice_lc.run_absorbed [of CANCELLED ts b]
      invoice_lc.run_avoids [of CREDITED a ts b] by auto
qed

theorem invoice_lifecycle_witness:
  "run_steps validate_allowed DRAFT [ISSUED, SENT, PARTIALLY_PAID, PAID, SENT, CANCELLED] = Inr CANCELLED \<and>
   run_steps validate_allowed CANCELLED [CANCELLED] = Inr CANCELLED"
  using invoice_lifecycle [of DRAFT CANCELLED "[CANCELLED]"] by (simp add: validate_allowed_def)

section \<open>Effect of a transition\<close>

lemma update_timestamps_frame [simp]:
  "inv_id (update_timestamps i t now) = inv_id i" "inv_client_id (update_timestamps i t now) = inv_client_id i"
  "inv_currency (update_timestamps i t now) = inv_currency i"
  "inv_billing_period_id (update_timestamps i t now) = inv_billing_period_id i"
  "inv_total_amount (update_timestamps i t now) = inv_total_amount i"
  "inv_tax_amount (update_timestamps i t now) = inv_tax_amount i"
  "inv_total_with_tax (update_timestamps i t now) = inv_total_with_tax i"
  "inv_amount_paid (update_timestamps i t now) = inv_amount_paid i"
  "inv_amount_due (update_timestamps i t now) = inv_amount_due i"
  "inv_amount_refunded (update_timestamps i t now) = inv_amount_refunded i"
  "inv_credited_amount (update_timestamps i t now) = inv_credited_amount i"
  "inv_pdf_status (update_timestamps i t now) = inv_pdf_status i"
  by (cases t; simp add: update_timestamps_def)+

lemma invoice_total_cong:
  "inv_total_with_tax i = inv_total_with_tax j \<Longrightarrow> inv_total_amount i = inv_total_amount j \<Longrightarrow>
     invoice_total i = invoice_total j"
  by (simp add: invoice_total_def)

text \<open>The invoice that a transition leaves behind: amounts booked, timestamps set, status changed.\<close>

definition moved :: "invoice \<Rightarrow> transition_request \<Rightarrow> amounts \<Rightarrow> int \<Rightarrow> invoice \<Rightarrow> bool" where
  "moved i tr am now i' \<longleftrightarrow> (\<exists>i1. apply_amounts i am = Inr i1 \<and> validate_constraints i1 (tr_to tr) am = Inr () \<and>
     i' = (update_timestamps i1 (tr_to tr) now)\<lparr>inv_status := tr_to tr\<rparr>)"

lemma apply_amounts_Inr:
  assumes "apply_amounts i am = Inr i1"
  shows "i1 = i\<lparr>inv_amount_paid := inv_amount_paid i + amount_of (am_payment am),
      inv_amount_due := invoice_total i - (inv_amount_paid i + amount_of (am_payment am)) -
        (inv_credited_amount i + amount_of (am_credit_note am)) +
        (inv_amount_refunded i + amount_of (am_refund am)),
      inv_credited_amount := inv_credited_amount i + amount_of (am_credit_note am),
      inv_amount_refunded := inv_amount_refunded i + amount_of (am_refund am)\<rparr>"
    and "0 \<le> inv_amount_paid i1 \<and> 0 \<le> inv_credited_amount i1 \<and> 0 \<le> inv_amount_refunded i1 \<and> 0 \<le> inv_amount_due i1"
    and "\<not> negative (am_payment am) \<and> \<not> negative (am_credit_note am) \<and> \<not> negative (am_refund am)"
  using assms by (auto simp: apply_amounts_def Let_def split: if_splits)

lemma moved_fields:
  assumes "moved i tr am now i'"
  shows "inv_id i' = inv_id i" "inv_client_id i' = inv_client_id i" "inv_currency i' = inv_currency i"
    "inv_billing_period_id i' = inv_billing_period_id i" "inv_total_amount i' = inv_total_amount i"
    "inv_tax_amount i' = inv_tax_amount i" "inv_total_with_tax i' = inv_total_with_tax i"
    "inv_pdf_status i' = inv_pdf_status i" "inv_status i' = tr_to tr"
    "inv_amount_paid i' = inv_amount_paid i + amount_of (am_payment am)"
    "inv_credited_amount i' = inv_credited_amount i + amount_of (am_credit_note am)"
    "inv_amount_refunded i' = inv_amount_refunded i + amount_of (am_refund am)"
    "inv_amount_due i' = invoice_total i - inv_amount_paid i' - inv_credited_amount i' + inv_amount_refunded i'"
    "invoice_total i' = invoice_total i"
  using assms unfolding moved_def by (auto dest!: apply_amounts_Inr(1) simp: invoice_total_def)

lemma moved_nonneg:
  assumes "moved i tr am now i'"
  shows "0 \<le> inv_amount_paid i' \<and> 0 \<le> inv_credited_amount i' \<and> 0 \<le> inv_amount_refunded i' \<and> 0 \<le> inv_amount_due i'"
  using assms unfolding moved_def by (auto dest: apply_amounts_Inr(2))

lemma transition_success:
  assumes "transition w decide i tr am s = (Inr i', s')" and "\<not> is_noop i tr am"
  shows "validate_allowed (inv_status i) (tr_to tr) = Inr (tr_to tr) \<and> (\<exists>now. moved i tr am now i')"
proof -
  from assms have "\<exists>x now i1. validate_allowed (inv_status i) (tr_to tr) = Inr x \<and> apply_amounts i am = Inr i1 \<and>
      validate_constraints i1 (tr_to tr) am = Inr () \<and>
      i' = (update_timestamps i1 (tr_to tr) now)\<lparr>inv_status := tr_to tr\<rparr>"
    unfolding transition_def Let_def
    by (auto simp: and_then_Inr_iff split: if_splits)
  then show ?thesis by (auto simp: moved_def validate_allowed_def split: if_splits)
qed

section \<open>What a status means\<close>

definition invoice_ok :: "invoice \<Rightarrow> bool" where
  "invoice_ok i \<longleftrightarrow>
     inv_amount_paid i + inv_credited_amount i - inv_amount_refunded i + inv_amount_due i = invoice_total i \<and>
     0 \<le> inv_amount_paid i \<and> 0 \<le> inv_credited_amount i \<and> 0 \<le> inv_amount_refunded i \<and> 0 \<le> inv_amount_due i \<and>
     (case inv_status i of
        PAID \<Rightarrow> inv_amount_due i = 0
      | OVERDUE \<Rightarrow> 0 < inv_amount_due i
      | CANCELLED \<Rightarrow> inv_amount_paid i = 0 \<and> inv_credited_amount i = 0 \<and> inv_amount_refunded i = 0
      | PARTIALLY_PAID \<Rightarrow> 0 < inv_amount_paid i \<or> 0 < inv_credited_amount i
      | SENT \<Rightarrow> inv_pdf_status i = PDF_READY
      | _ \<Rightarrow> True)"

lemma constraints_meaning:
  assumes "moved i tr am now i'"
  shows "case inv_status i' of
        PAID \<Rightarrow> inv_amount_due i' = 0
      | OVERDUE \<Rightarrow> 0 < inv_amount_due i'
      | CANCELLED \<Rightarrow> inv_amount_paid i' \<le> 0 \<and> inv_credited_amount i' \<le> 0 \<and> inv_amount_refunded i' \<le> 0
      | PARTIALLY_PAID \<Rightarrow> 0 < inv_amount_paid i' \<or> positive (am_credit_note am)
      | SENT \<Rightarrow> inv_pdf_status i' = PDF_READY
      | _ \<Rightarrow> True"
proof -
  from assms obtain i1 where i1: "validate_constraints i1 (tr_to tr) am = Inr ()"
    and i': "i' = (update_timestamps i1 (tr_to tr) now)\<lparr>inv_status := tr_to tr\<rparr>"
    unfolding moved_def by blast
  from i1 show ?thesis
    by (cases "tr_to tr") (auto simp: i' validate_constraints_def Let_def split: if_splits)
qed

lemma positive_credit:
  assumes "apply_amounts i am = Inr i1" and "positive (am_credit_note am)" and "0 \<le> inv_credited_amount i"
  shows "0 < inv_credited_amount i1"
  using apply_amounts_Inr(1) [OF assms(1)] assms(2,3)
  by (cases "am_credit_note am") (simp_all add: positive_def amount_of_def)

lemma moved_ok:
  assumes "moved i tr am now i'" and "0 \<le> inv_credited_amount i"
  shows "invoice_ok i'"
proof -
  note f = moved_fields [OF assms(1)] and n = moved_nonneg [OF assms(1)]
  have "positive (am_credit_note am) \<Longrightarrow> 0 < inv_credited_amount i'"
    using f(11) assms(2) by (auto simp: positive_def amount_of_def split: option.splits)
  then show ?thesis
    using constraints_meaning [OF assms(1)] n f(13,14)
    by (cases "inv_status i'") (auto simp: invoice_ok_def)
qed

text \<open>C20. Every transition keeps an invoice consistent. After a successful transition of a consistent invoice
  paid plus credited minus refunded plus due is the billed total, none of the four is negative, and
  the status tells the truth: nothing is due on a paid invoice, something is due on an overdue one,
  no money was booked on a cancelled one, money or credit was booked on a partially paid one, and a
  sent one has its PDF. The amounts moved by exactly what the call booked, and the totals, the
  client and the currency are as before.\<close>

theorem transition_keeps_invoice_ok:
  assumes "invoice_ok i" and "transition w decide i tr am s = (Inr i', s')"
  shows "invoice_ok i' \<and> inv_status i' = tr_to tr \<and>
    inv_amount_paid i' = inv_amount_paid i + amount_of (am_payment am) \<and>
    inv_credited_amount i' = inv_credited_amount i + amount_of (am_credit_note am) \<and>
    inv_amount_refunded i' = inv_amount_refunded i + amount_of (am_refund am) \<and>
    inv_id i' = inv_id i \<and> invoice_total i' = invoice_total i \<and>
    inv_client_id i' = inv_client_id i \<and> inv_currency i' = inv_currency i"
proof (cases "is_noop i tr am")
  case True
  then have "i' = i" using assms(2) by (auto simp: transition_def split: if_splits)
  with True assms(1) show ?thesis by (simp add: is_noop_def all_zero_def)
next
  case False
  from transition_success [OF assms(2) False] obtain now where m: "moved i tr am now i'" by blast
  have "0 \<le> inv_credited_amount i" using assms(1) by (simp add: invoice_ok_def)
  from moved_ok [OF m this] moved_fields [OF m] show ?thesis by simp
qed

definition ref_invoice :: invoice where
  "ref_invoice = \<lparr>inv_id = ''inv-1'', inv_client_id = ''c-1'', inv_currency = ''RUB'',
     inv_billing_period_id = Some ''bp-1'', inv_total_amount = 1000, inv_tax_amount = 200,
     inv_total_with_tax = 1200, inv_amount_paid = 0, inv_amount_due = 1200, inv_amount_refunded = 0,
     inv_credited_amount = 0, inv_status = SENT, inv_pdf_status = PDF_READY, inv_issued_at = Some 1,
     inv_sent_at = Some 2, inv_paid_at = None, inv_cancelled_at = None, inv_credited_at = None\<rparr>"

definition ref_period :: "billing_period_status \<Rightarrow> billing_period" where
  "ref_period st = \<lparr>bp_id = ''bp-1'', bp_period_type = MONTHLY, bp_start_at = 0, bp_end_at = 9, bp_tz = ''UTC'',
     bp_status = st, bp_finalized_at = None, bp_locked_at = None\<rparr>"

definition no_amounts :: amounts where
  "no_amounts = \<lparr>am_payment = None, am_credit_note = None, am_refund = None\<rparr>"

lemma finance_update_fields [simp]:
  "tr_to (finance_update t rc) = t" "tr_actor (finance_update t rc) = ''finance_service''"
  "tr_reason (finance_update t rc) = ''financial_update''" "\<not> falsy_dict (tr_metadata (finance_update t rc))"
  "tr_request_ctx (finance_update t rc) = rc"
  by (simp_all add: finance_update_def falsy_dict_def)

lemma finance_update_not_noop [simp]: "\<not> is_noop i (finance_update t rc) am"
  by (simp add: is_noop_def)

lemma store_row_twice: "key a = key b \<Longrightarrow> store_row key b (store_row key a rows) = store_row key b rows"
  by (auto simp: store_row_def)

lemma check_period_lock_financial:
  assumes "distinct (map bp_id (billing_periods s))" and "tr_reason tr = ''financial_update''"
  shows "check_period_lock i tr am s = (Inr (), s)"
proof (cases "inv_billing_period_id i")
  case (Some p)
  have "\<exists>x. one_or_none (\<lambda>r. bp_id r = p) (billing_periods s) = Inr x"
    by (rule one_or_none_unique_total [OF assms(1)])
  then show ?thesis
    using Some assms(2) by (auto simp: check_period_lock_def str_truthy_def and_then_apply split: option.splits)
qed (simp add: check_period_lock_def str_truthy_def)

text \<open>
  The whole effect of a transition that needs no decision: one row of \<open>invoices\<close> is replaced, one log row and one
  audit record are appended, and nothing else changes.
\<close>

lemma transition_effect:
  assumes "tr_actor tr \<noteq> []" "tr_reason tr = ''financial_update''" "\<not> is_noop i tr am" "tr_to tr \<noteq> ISSUED"
    and "distinct (map bp_id (billing_periods s))"
    and "tr_to tr = inv_status i \<or> tr_to tr \<in> set (invoice_successors (inv_status i))"
    and "apply_amounts i am = Inr i1" and "validate_constraints i1 (tr_to tr) am = Inr ()"
  shows "\<exists>i' l r. moved i tr am (time_at w (tick s)) i' \<and> transition w decide i tr am s = (Inr i',
     s\<lparr>tick := tick s + 4, audit_log := audit_log s @ [r], invoices := store_row inv_id i' (invoices s),
       invoice_transition_logs := invoice_transition_logs s @ [l]\<rparr>)"
proof -
  let ?i = "(update_timestamps i1 (tr_to tr) (time_at w (tick s)))\<lparr>inv_status := tr_to tr\<rparr>"
  have m: "moved i tr am (time_at w (tick s)) ?i" using assms(7,8) unfolding moved_def by blast
  have v: "validate_allowed (inv_status i) (tr_to tr) = Inr (tr_to tr)"
    using assms(6) by (simp add: validate_allowed_def)
  have tw: "store_row inv_id ?i (store_row inv_id i1 rows) = store_row inv_id ?i rows" for rows
    by (rule store_row_twice) simp
  let ?l = "\<lparr>tl_id = uuid_at w (Suc (tick s)), tl_invoice_id = inv_id i1, tl_from_status = inv_status i,
    tl_to_status = tr_to tr, tl_actor = tr_actor tr, tl_reason = tr_reason tr,
    tl_metadata = (if falsy_dict (tr_metadata tr) then None else tr_metadata tr)\<rparr>"
  let ?s = "s\<lparr>invoices := store_row inv_id ?i (invoices s), tick := Suc (Suc (tick s)),
    invoice_transition_logs := invoice_transition_logs s @ [?l]\<rparr>"
  obtain r where "audit_transition w i ?i tr ?s =
      (Inr r, ?s\<lparr>tick := Suc (Suc (tick ?s)), audit_log := audit_log ?s @ [r]\<rparr>)"
    unfolding audit_transition_def by (rule audit_effect)
  then have "transition w decide i tr am s = (Inr ?i, ?s\<lparr>tick := Suc (Suc (tick ?s)), audit_log := audit_log ?s @ [r]\<rparr>)"
    by (simp add: transition_def assms and_then_apply check_period_lock_financial v Let_def tw log_transition_def)
  also have "?s\<lparr>tick := Suc (Suc (tick ?s)), audit_log := audit_log ?s @ [r]\<rparr> =
      s\<lparr>tick := tick s + 4, audit_log := audit_log s @ [r], invoices := store_row inv_id ?i (invoices s),
        invoice_transition_logs := invoice_transition_logs s @ [?l]\<rparr>" by simp
  finally show ?thesis using m by blast
qed

definition ref_fin_db :: "billing_period_status \<Rightarrow> fin_db" where
  "ref_fin_db st = empty_fin_db\<lparr>invoices := [ref_invoice], billing_periods := [ref_period st]\<rparr>"

definition allow_all :: "unit decider" where
  "allow_all ctx = ret ALLOW"

lemma ref_invoice_ok: "invoice_ok ref_invoice"
  by (simp add: invoice_ok_def ref_invoice_def invoice_total_def)

definition pay_amounts :: "int \<Rightarrow> amounts" where
  "pay_amounts a = \<lparr>am_payment = Some a, am_credit_note = None, am_refund = None\<rparr>"

lemma ref_transition:
  "\<exists>i' s'. transition ref_world allow_all ref_invoice (finance_update PARTIALLY_PAID None) (pay_amounts 500)
      (ref_fin_db FINALIZED) = (Inr i', s')"
proof -
  let ?i1 = "ref_invoice\<lparr>inv_amount_paid := 500, inv_amount_due := 700\<rparr>"
  have "apply_amounts ref_invoice (pay_amounts 500) = Inr ?i1"
    "validate_constraints ?i1 PARTIALLY_PAID (pay_amounts 500) = Inr ()"
    by (simp_all add: apply_amounts_def validate_constraints_def pay_amounts_def ref_invoice_def negative_def
        positive_def amount_of_def invoice_total_def Let_def)
  then show ?thesis
    using transition_effect [of "finance_update PARTIALLY_PAID None" ref_invoice "pay_amounts 500"
        "ref_fin_db FINALIZED" ?i1 ref_world allow_all]
    by (force simp: ref_fin_db_def ref_invoice_def)
qed

theorem transition_keeps_invoice_ok_witness:
  "\<exists>i' s'. transition ref_world allow_all ref_invoice (finance_update PARTIALLY_PAID None) (pay_amounts 500)
      (ref_fin_db FINALIZED) = (Inr i', s') \<and> invoice_ok i' \<and> inv_amount_paid i' = 500"
proof -
  obtain i' s' where run: "transition ref_world allow_all ref_invoice (finance_update PARTIALLY_PAID None)
      (pay_amounts 500) (ref_fin_db FINALIZED) = (Inr i', s')" using ref_transition by blast
  from transition_keeps_invoice_ok [OF ref_invoice_ok run] run show ?thesis
    by (simp add: ref_invoice_def pay_amounts_def amount_of_def)
qed

text \<open>A locked billing period is closed: while the period of an invoice is \<open>LOCKED\<close>, every attempt to change
  the status or book an amount for a reason other than the finance service's \<open>financial_update\<close> raises
  \<open>InvalidTransitionError\<close> and changes nothing at all.\<close>

theorem locked_period_refuses_transition:
  assumes "inv_billing_period_id i = Some (bp_id p)" and "bp_id p \<noteq> []"
    and "p \<in> set (billing_periods s)" and "distinct (map bp_id (billing_periods s))" and "bp_status p = LOCKED"
    and "tr_reason tr \<noteq> ''financial_update''" and "tr_to tr \<noteq> inv_status i \<or> \<not> all_zero am"
    and "tr_actor tr \<noteq> []" and "tr_reason tr \<noteq> []"
  shows "transition w decide i tr am s = (Inl (InvalidTransitionError ''billing period is locked''), s)"
proof -
  have "one_or_none (\<lambda>x. bp_id x = bp_id p) (billing_periods s) = Inr (Some p)"
    by (rule one_or_none_unique_key [OF assms(4,3)])
  moreover have "\<not> is_noop i tr am" using assms(7) by (auto simp: is_noop_def)
  ultimately show ?thesis
    using assms by (simp add: transition_def check_period_lock_def str_truthy_def and_then_apply)
qed

definition cancel_request :: transition_request where
  "cancel_request = \<lparr>tr_to = CANCELLED, tr_actor = ''admin'', tr_reason = ''manual'', tr_metadata = None,
     tr_request_ctx = None\<rparr>"

theorem locked_period_refuses_transition_witness:
  "transition ref_world allow_all ref_invoice cancel_request no_amounts (ref_fin_db LOCKED) =
     (Inl (InvalidTransitionError ''billing period is locked''), ref_fin_db LOCKED)"
  by (rule locked_period_refuses_transition [where p = "ref_period LOCKED"])
    (simp_all add: ref_invoice_def ref_period_def ref_fin_db_def cancel_request_def)

end
