(* ===== verification/Policy_Properties.thy ===== *)
theory Policy_Properties
  imports Policy_Engine
begin

text \<open>
  The access table that \<open>PolicyEngine.check\<close> implements, the roles that a token needs for money
  operations, and the effect of the guard \<open>_enforce_policy\<close>.
\<close>

section \<open>The access table\<close>

text \<open>
  An administrator's rule names the roles of which one is needed and, where the status of the resource
  matters, the admissible ones; an acknowledgement belongs to the client, or to a system actor.
\<close>

datatype access_rule =
    AdminRule "string list" "string option list option"
  | AckRule
  | NoRule

fun access_table :: "policy_action \<Rightarrow> access_rule" where
  "access_table BILLING_PERIOD_FINALIZE = AdminRule ADMIN_FINANCE_ROLES (Some [Some ''OPEN''])"
| "access_table BILLING_PERIOD_LOCK = AdminRule ADMIN_FINANCE_ROLES (Some [Some ''FINALIZED''])"
| "access_table BILLING_PERIOD_REOPEN = NoRule"
| "access_table INVOICE_ISSUE = AdminRule ADMIN_FINANCE_ROLES (Some [Some ''OPEN'', None])"
| "access_table INVOICE_ADJUST = AdminRule [''ADMIN_FINANCE''] (Some [Some ''OPEN''])"
| "access_table PAYMENT_APPLY = AdminRule ADMIN_FINANCE_ROLES None"
| "access_table CREDIT_NOTE_CREATE = AdminRule ADMIN_FINANCE_ROLES None"
| "access_table PAYOUT_EXPORT_CREATE = AdminRule ADMIN_FINANCE_ROLES (Some [Some ''FINALIZED'', Some ''LOCKED''])"
| "access_table PAYOUT_EXPORT_CONFIRM = AdminRule ADMIN_ACCOUNTING_ROLES None"
| "access_table ACCOUNTING_EXPORT_CREATE = AdminRule ADMIN_EXPORT_ROLES (Some [Some ''FINALIZED'', Some ''LOCKED''])"
| "access_table ACCOUNTING_EXPORT_CONFIRM = AdminRule ADMIN_EXPORT_ROLES None"
| "access_table DOCUMENT_ACKNOWLEDGE = AckRule"
| "access_table DOCUMENT_FINALIZE = AdminRule ADMIN_FINANCE_ROLES (Some [Some ''ACKNOWLEDGED''])"
| "access_table DOCUMENT_SIGN_REQUEST = AdminRule ADMIN_FINANCE_ROLES (Some [Some ''ISSUED''])"
| "access_table DOCUMENT_SEND_FOR_SIGNING = AdminRule ADMIN_FINANCE_ROLES (Some [Some ''ISSUED''])"
| "access_table DOCUMENT_FINALIZE_WITH_SIGNATURE = AdminRule ADMIN_FINANCE_ROLES (Some [Some ''ACKNOWLEDGED''])"
| "access_table DOCUMENT_VOID_AFTER_SIGNING = AdminRule ADMIN_FINANCE_ROLES (Some [Some ''ISSUED'', Some ''ACKNOWLEDGED''])"
| "access_table CLOSING_PACKAGE_ACK = AckRule"
| "access_table CLOSING_PACKAGE_FINALIZE = AdminRule ADMIN_FINANCE_ROLES (Some [Some ''ACKNOWLEDGED''])"
| "access_table CRM_CLIENT_MANAGE = AdminRule ADMIN_CRM_ROLES None"
| "access_table CRM_CONTRACT_MANAGE = AdminRule ADMIN_CRM_ROLES None"
| "access_table CRM_TARIFF_MANAGE = AdminRule ADMIN_CRM_ROLES None"
| "access_table CRM_SUBSCRIPTION_MANAGE = AdminRule ADMIN_CRM_ROLES None"
| "access_table CRM_FEATURE_TOGGLE = AdminRule ADMIN_CRM_ROLES None"

definition permitted :: "actor_context \<Rightarrow> policy_action \<Rightarrow> resource_context \<Rightarrow> bool" where
  "permitted actor action resource \<longleftrightarrow>
     (case access_table action of
        NoRule \<Rightarrow> False
      | AckRule \<Rightarrow> ac_actor_type actor = ActorSystem \<or>
          (ac_actor_type actor = ActorClient \<and> has_role actor CLIENT_ACK_ROLES \<and>
           rs_status resource = Some ''ISSUED'')
      | AdminRule roles statuses \<Rightarrow> ac_actor_type actor = ActorAdmin \<and> has_role actor roles \<and>
          (case statuses of None \<Rightarrow> True | Some ss \<Rightarrow> rs_status resource \<in> set ss))"

lemma allow_deny_allowed [simp]: "pd_allowed (allow p)" "\<not> pd_allowed (deny p r)"
  by (simp_all add: allow_def deny_def)

lemma allow_deny_reason [simp]: "pd_reason (allow p) = None" "pd_reason (deny p r) = Some r"
  by (simp_all add: allow_def deny_def)


lemma require_admin_token:
  "ac_actor_type (actor_from_token tok) = ActorAdmin \<longleftrightarrow> is_admin_role (normalize_roles tok)"
  by (simp add: actor_from_token_def Let_def)

lemma actor_roles [simp]: "ac_roles (actor_from_token tok) = normalize_roles tok"
  by (simp add: actor_from_token_def Let_def)

lemma finance_role_is_admin:
  "r \<in> set roles \<Longrightarrow> r \<in> {''ADMIN_FINANCE'', ''SUPERADMIN''} \<Longrightarrow> is_admin_role roles"
  unfolding is_admin_role_def by (rule bexI [of _ r]) auto

definition finance_role :: "token option \<Rightarrow> bool" where
  "finance_role tok \<longleftrightarrow> (\<exists>r\<in>set (normalize_roles tok). r = ''ADMIN_FINANCE'' \<or> r = ''SUPERADMIN'')"

lemma finance_role_decides:
  "pd_allowed (policy_check (actor_from_token tok) PAYMENT_APPLY resource) = finance_role tok"
  "pd_allowed (policy_check (actor_from_token tok) CREDIT_NOTE_CREATE resource) = finance_role tok"
proof -
  have "has_role (actor_from_token tok) ADMIN_FINANCE_ROLES \<longleftrightarrow> finance_role tok"
    by (simp add: has_role_def ADMIN_FINANCE_ROLES_def finance_role_def)
  moreover have "has_role (actor_from_token tok) ADMIN_FINANCE_ROLES \<Longrightarrow>
      ac_actor_type (actor_from_token tok) = ActorAdmin"
    unfolding require_admin_token has_role_def ADMIN_FINANCE_ROLES_def
    using finance_role_is_admin by force
  ultimately show "pd_allowed (policy_check (actor_from_token tok) PAYMENT_APPLY resource) = finance_role tok"
    "pd_allowed (policy_check (actor_from_token tok) CREDIT_NOTE_CREATE resource) = finance_role tok"
    by (auto simp: payment_apply_def credit_note_create_def require_admin_def)
qed

text \<open>Applying a payment and creating a credit note or a refund is allowed exactly for tokens with a
  role that normalises to \<open>ADMIN_FINANCE\<close> or \<open>SUPERADMIN\<close>: the separate test that the actor is an
  administrator never denies such a token, and nothing else in the token matters.\<close>

theorem money_needs_finance_role:
  "pd_allowed (policy_check (actor_from_token tok) PAYMENT_APPLY resource) =
     (\<exists>r\<in>set (normalize_roles tok). r = ''ADMIN_FINANCE'' \<or> r = ''SUPERADMIN'') \<and>
   pd_allowed (policy_check (actor_from_token tok) CREDIT_NOTE_CREATE resource) =
     (\<exists>r\<in>set (normalize_roles tok). r = ''ADMIN_FINANCE'' \<or> r = ''SUPERADMIN'')"
  unfolding finance_role_decides finance_role_def by blast

lemma enforce_policy_allowed:
  "pd_allowed (policy_check (actor_from_token tok) action resource) \<Longrightarrow>
     enforce_policy w tok action resource s = (Inr (), s)"
  by (simp add: enforce_policy_def Let_def)

lemma enforce_policy_denied:
  assumes "\<not> pd_allowed (policy_check (actor_from_token tok) action resource)"
  shows "\<exists>m r. enforce_policy w tok action resource s =
     (Inl (PolicyAccessDenied m), s\<lparr>tick := Suc (Suc (tick s)), audit_log := audit_log s @ [r]\<rparr>)"
  using assms
  by (simp add: enforce_policy_def Let_def audit_access_denied_def and_then_apply audit_apply) blast

text \<open>The guard \<open>_enforce_policy\<close> either lets the call through without touching anything, or raises
  \<open>PolicyAccessDenied\<close> after appending exactly one record to the audit log and changing nothing else.\<close>

theorem enforce_policy_effect:
  "(permitted (actor_from_token tok) action resource \<and>
     enforce_policy w tok action resource s = (Inr (), s)) \<or>
   (\<not> permitted (actor_from_token tok) action resource \<and>
     (\<exists>m r. enforce_policy w tok action resource s =
        (Inl (PolicyAccessDenied m), s\<lparr>tick := Suc (Suc (tick s)), audit_log := audit_log s @ [r]\<rparr>)))"
proof -
  have "pd_allowed (policy_check (actor_from_token tok) action resource) =
      permitted (actor_from_token tok) action resource"
    by (cases action; simp add: policy_rule_defs permitted_def require_admin_def split: option.split)
  then show ?thesis using enforce_policy_allowed enforce_policy_denied by metis
qed

text \<open>The role \<open>FINANCE\<close> is listed among the roles that may manage CRM data, but a token whose only role
  is \<open>FINANCE\<close> is never an administrator and every CRM action is denied to it.\<close>

theorem crm_finance_role_denied:
  assumes "normalize_roles tok = [''FINANCE'']"
    and "action \<in> {CRM_CLIENT_MANAGE, CRM_CONTRACT_MANAGE, CRM_TARIFF_MANAGE, CRM_SUBSCRIPTION_MANAGE, CRM_FEATURE_TOGGLE}"
  shows "''FINANCE'' \<in> set ADMIN_CRM_ROLES \<and>
    \<not> pd_allowed (policy_check (actor_from_token tok) action resource)"
proof -
  have "ac_actor_type (actor_from_token tok) \<noteq> ActorAdmin"
    unfolding require_admin_token assms(1) by (simp add: is_admin_role_def)
  then show ?thesis using assms(2) by (auto simp: crm_manage_def require_admin_def ADMIN_CRM_ROLES_def)
qed

definition finance_token :: token where
  "finance_token = \<lparr>tk_roles = RolesText ''finance'', tk_role = None, tk_tenant_id = TenantText '' 7'',
     tk_client_id = None, tk_user_id = None, tk_sub = Some ''u-1'', tk_email = None\<rparr>"

theorem crm_finance_role_denied_witness:
  "''FINANCE'' \<in> set ADMIN_CRM_ROLES \<and>
   \<not> pd_allowed (policy_check (actor_from_token (Some finance_token)) CRM_TARIFF_MANAGE
       \<lparr>rs_resource_type = ''DOCUMENT'', rs_tenant_id = 7, rs_client_id = None, rs_status = None\<rparr>)"
proof -
  have "normalize_roles (Some finance_token) = [''FINANCE'']"
    by code_simp
  then show ?thesis by (rule crm_finance_role_denied) simp
qed

end
