(* ===== verification/Period_Properties.thy ===== *)
theory Period_Properties
  imports Billing_Periods Policy_Properties Ledger_Properties
begin

text \<open>
  Billing periods only move forward and only by the finance administration, a booking is settled in the
  day of its event, and the settlement summary loses no money.
\<close>

section \<open>Periods move forward\<close>

fun period_rank :: "billing_period_status \<Rightarrow> nat" where
  "period_rank OPEN = 0"
| "period_rank FINALIZED = 1"
| "period_rank LOCKED = 2"

definition period_table_ok :: "world \<Rightarrow> 'a fin_db_scheme \<Rightarrow> bool" where
  "period_table_ok w s \<longleftrightarrow> distinct (map period_scope (billing_periods s)) \<and>
     ids_below w (tick s) (map bp_id (billing_periods s))"

lemma period_table_okD:
  assumes "period_table_ok w s"
  shows "distinct (map period_scope (billing_periods s))" "distinct (map bp_id (billing_periods s))"
    "ids_below w (tick s) (map bp_id (billing_periods s))"
  using assms by (simp_all add: period_table_ok_def ids_below_def)

text \<open>Every period of \<open>s\<close> is still in \<open>s'\<close>, no earlier in its lifecycle, and unchanged once locked.\<close>

definition periods_advance :: "'a fin_db_scheme \<Rightarrow> 'a fin_db_scheme \<Rightarrow> bool" where
  "periods_advance s s' \<longleftrightarrow> (\<forall>p\<in>set (billing_periods s). \<exists>p'\<in>set (billing_periods s').
     bp_id p' = bp_id p \<and> period_scope p' = period_scope p \<and> period_rank (bp_status p) \<le> period_rank (bp_status p') \<and>
     (bp_status p = LOCKED \<longrightarrow> p' = p))"

lemma periods_advance_refl: "periods_advance s s"
  unfolding periods_advance_def by blast

lemma periods_advance_trans:
  assumes "periods_advance s t" and "periods_advance t u"
  shows "periods_advance s u"
  unfolding periods_advance_def
proof
  fix p assume "p \<in> set (billing_periods s)"
  with assms(1) obtain q where q: "q \<in> set (billing_periods t)" "bp_id q = bp_id p" "period_scope q = period_scope p"
    "period_rank (bp_status p) \<le> period_rank (bp_status q)" "bp_status p = LOCKED \<longrightarrow> q = p"
    unfolding periods_advance_def by blast
  with assms(2) obtain x where x: "x \<in> set (billing_periods u)" "bp_id x = bp_id q" "period_scope x = period_scope q"
    "period_rank (bp_status q) \<le> period_rank (bp_status x)" "bp_status q = LOCKED \<longrightarrow> x = q"
    unfolding periods_advance_def by blast
  show "\<exists>x\<in>set (billing_periods u). bp_id x = bp_id p \<and> period_scope x = period_scope p \<and>
      period_rank (bp_status p) \<le> period_rank (bp_status x) \<and> (bp_status p = LOCKED \<longrightarrow> x = p)"
    using q x by (intro bexI [OF _ x(1)]) auto
qed

lemma periods_advance_more: "set (billing_periods s) \<subseteq> set (billing_periods s') \<Longrightarrow> periods_advance s s'"
  unfolding periods_advance_def by blast

lemma period_table_ok_frame:
  "period_table_ok w s \<Longrightarrow> billing_periods s' = billing_periods s \<Longrightarrow> tick s \<le> tick s' \<Longrightarrow> period_table_ok w s'"
  by (auto simp: period_table_ok_def intro: ids_below_mono)

lemma get_or_create_ok:
  assumes w: "sane_world w" and ok: "period_table_ok w s" and run: "get_or_create_period w k s = (r, s')"
  shows "period_table_ok w s' \<and> periods_advance s s' \<and>
    (\<exists>p. r = Inr p \<and> p \<in> set (billing_periods s') \<and> period_scope p = (pk_type k, pk_start k, pk_end k))"
proof (rule get_or_create_cases [OF period_table_okD(1) [OF ok], of w k], goal_cases found created)
  case (found p)
  with run ok show ?case by (auto intro: periods_advance_refl)
next
  case (created p)
  with run have s': "s' = s\<lparr>tick := Suc (tick s), billing_periods := billing_periods s @ [p]\<rparr>" and r: "r = Inr p" by auto
  have "ids_below w (Suc (tick s)) (map bp_id (billing_periods s) @ [uuid_at w (tick s)])"
    using ids_below_snoc [OF w period_table_okD(3) [OF ok], of "tick s" "Suc (tick s)"] by simp
  with created period_table_okD(1) [OF ok] s' have "period_table_ok w s'"
    by (simp add: period_table_ok_def)
  moreover have "periods_advance s s'" by (rule periods_advance_more) (auto simp: s')
  ultimately show ?case using r s' created(2) by simp
qed

lemma store_period_advances:
  assumes ok: "period_table_ok w s" and p: "p \<in> set (billing_periods s)"
    and same: "bp_id p' = bp_id p" "period_scope p' = period_scope p"
    and up: "period_rank (bp_status p) < period_rank (bp_status p')"
    and s': "s' = s\<lparr>tick := n, billing_periods := store_row bp_id p' (billing_periods s)\<rparr>" and n: "tick s \<le> n"
  shows "period_table_ok w s' \<and> periods_advance s s'"
proof -
  have uniq: "x = p" if "x \<in> set (billing_periods s)" "bp_id x = bp_id p" for x
    using period_table_okD(2) [OF ok] p that by (auto simp: distinct_map inj_on_def)
  have sc: "map period_scope (store_row bp_id p' (billing_periods s)) = map period_scope (billing_periods s)"
    unfolding store_row_def map_map by (rule map_cong [OF refl]) (use uniq same in auto)
  have ids: "map bp_id (store_row bp_id p' (billing_periods s)) = map bp_id (billing_periods s)"
    by (rule map_key_store_row)
  have "period_table_ok w s'"
    unfolding period_table_ok_def s'
    using period_table_okD [OF ok] ids_below_mono [OF _ n] by (simp add: sc ids)
  moreover have "periods_advance s s'"
    unfolding periods_advance_def
  proof
    fix x assume x: "x \<in> set (billing_periods s)"
    show "\<exists>y\<in>set (billing_periods s'). bp_id y = bp_id x \<and> period_scope y = period_scope x \<and>
      period_rank (bp_status x) \<le> period_rank (bp_status y) \<and> (bp_status x = LOCKED \<longrightarrow> y = x)"
    proof (cases "bp_id x = bp_id p")
      case True
      with x uniq have "x = p" by blast
      have "p' \<in> set (billing_periods s')" using p same(1) by (force simp: s' store_row_def)
      moreover have "bp_status p \<noteq> LOCKED" using up by (cases "bp_status p'") auto
      ultimately show ?thesis using \<open>x = p\<close> same up by (auto intro: less_imp_le)
    next
      case False
      then have "x \<in> set (billing_periods s')" using x same(1) by (force simp: s' store_row_def)
      then show ?thesis by blast
    qed
  qed
  ultimately show ?thesis ..
qed

text \<open>What closing a period did, when it succeeded.\<close>

lemma closing_run:
  assumes w: "sane_world w" and ok: "period_table_ok w s"
    and run: "and_then (get_or_create_period w k) (\<lambda>p.
       and_then (enforce_policy w tok action (period_resource tok p)) (\<lambda>_.
       and_then (lift_result (require_transition (bp_status p) target)) (\<lambda>_.
       if bp_status p \<noteq> target
       then and_then (now_utc w) (\<lambda>now. let p' = upd p now in and_then (store_period p') (\<lambda>_. ret p'))
       else ret p))) s = (r, s')"
    and upd: "\<And>p now. bp_id (upd p now) = bp_id p \<and> period_scope (upd p now) = period_scope p \<and> bp_status (upd p now) = target"
  shows "period_table_ok w s' \<and> periods_advance s s' \<and>
    (\<forall>p'. r = Inr p' \<longrightarrow> (\<exists>p now. period_scope p = (pk_type k, pk_start k, pk_end k) \<and>
       permitted (actor_from_token tok) action (period_resource tok p) \<and>
       (bp_status p \<noteq> target \<longrightarrow> p' = upd p now) \<and> (bp_status p = target \<longrightarrow> p' = p)))"
proof -
  obtain r1 s1 where g: "get_or_create_period w k s = (r1, s1)" by (cases "get_or_create_period w k s")
  from get_or_create_ok [OF w ok g] obtain p where p: "r1 = Inr p" "p \<in> set (billing_periods s1)"
    "period_scope p = (pk_type k, pk_start k, pk_end k)" and ok1: "period_table_ok w s1" and adv: "periods_advance s s1"
    by blast
  have allowed: "pd_allowed (policy_check (actor_from_token tok) action (period_resource tok p)) =
      permitted (actor_from_token tok) action (period_resource tok p)"
    by (cases action; simp add: policy_rule_defs permitted_def require_admin_def split: option.split)
  show ?thesis
  proof (cases "permitted (actor_from_token tok) action (period_resource tok p)")
    case False
    with enforce_policy_denied [of tok action "period_resource tok p" w s1] allowed obtain m rec where
      "enforce_policy w tok action (period_resource tok p) s1 =
        (Inl (PolicyAccessDenied m), s1\<lparr>tick := Suc (Suc (tick s1)), audit_log := audit_log s1 @ [rec]\<rparr>)" by auto
    with run g p have r: "r = Inl (PolicyAccessDenied m)"
      and s': "s' = s1\<lparr>tick := Suc (Suc (tick s1)), audit_log := audit_log s1 @ [rec]\<rparr>" by auto
    have "period_table_ok w s'" by (rule period_table_ok_frame [OF ok1]) (simp_all add: s')
    moreover have "periods_advance s1 s'" by (rule periods_advance_more) (simp add: s')
    ultimately show ?thesis using adv r periods_advance_trans by blast
  next
    case True
    then have e: "enforce_policy w tok action (period_resource tok p) s1 = (Inr (), s1)"
      using enforce_policy_allowed allowed by blast
    show ?thesis
    proof (cases "require_transition (bp_status p) target")
      case (Inl x)
      with run g p e have "s' = s1" "r = Inl x" by auto
      with ok1 adv show ?thesis by simp
    next
      case (Inr x)
      show ?thesis
      proof (cases "bp_status p = target")
        case True
        with run g p e Inr have "s' = s1" "r = Inr p" by auto
        with ok1 adv p(3) \<open>permitted _ _ _\<close> True show ?thesis by auto
      next
        case False
        let ?now = "time_at w (tick s1)"
        from run g p e Inr False have r: "r = Inr (upd p ?now)"
          and s': "s' = s1\<lparr>tick := Suc (tick s1), billing_periods := store_row bp_id (upd p ?now) (billing_periods s1)\<rparr>"
          by (auto simp: and_then_apply store_period_def Let_def)
        have "target \<in> set (period_successors (bp_status p))"
          using Inr False by (auto simp: require_transition_def split: if_splits)
        then have "period_rank (bp_status p) < period_rank target" by (cases "bp_status p") auto
        then have "period_table_ok w s' \<and> periods_advance s1 s'"
          using upd [of p ?now] by (intro store_period_advances [OF ok1 p(2) _ _ _ s']) simp_all
        with adv r p(3) \<open>permitted _ _ _\<close> False show ?thesis using periods_advance_trans by blast
      qed
    qed
  qed
qed

section \<open>Reachable period tables\<close>

text \<open>Any interleaving of the operations on billing periods, with anything that leaves the table alone.\<close>

inductive period_runs :: "world \<Rightarrow> 'a fin_db_scheme \<Rightarrow> 'a fin_db_scheme \<Rightarrow> bool" for w where
  stop: "period_runs w s s"
| create: "period_runs w s t \<Longrightarrow> period_runs w s (snd (get_or_create_period w k t))"
| lock: "period_runs w s t \<Longrightarrow> period_runs w s (snd (lock_period w k tok t))"
| finalize: "period_runs w s t \<Longrightarrow> period_runs w s (snd (finalize_period w k tok t))"
| other: "period_runs w s t \<Longrightarrow> billing_periods u = billing_periods t \<Longrightarrow> tick t \<le> tick u \<Longrightarrow> period_runs w s u"

lemma period_scope_update [simp]:
  "period_scope (p\<lparr>bp_status := x\<rparr>) = period_scope p" "period_scope (p\<lparr>bp_locked_at := y\<rparr>) = period_scope p"
  "period_scope (p\<lparr>bp_finalized_at := y\<rparr>) = period_scope p"
  by (simp_all add: period_scope_def)

lemma lock_period_run:
  assumes "sane_world w" and "period_table_ok w s" and "lock_period w k tok s = (r, s')"
  shows "period_table_ok w s' \<and> periods_advance s s' \<and>
    (\<forall>p'. r = Inr p' \<longrightarrow> (\<exists>p now. period_scope p = (pk_type k, pk_start k, pk_end k) \<and>
       permitted (actor_from_token tok) BILLING_PERIOD_LOCK (period_resource tok p) \<and>
       (bp_status p \<noteq> LOCKED \<longrightarrow> p' = p\<lparr>bp_status := LOCKED, bp_locked_at := Some now\<rparr>) \<and>
       (bp_status p = LOCKED \<longrightarrow> p' = p)))"
  by (rule closing_run [OF assms(1,2)]) (use assms(3) in \<open>simp_all add: lock_period_def\<close>)

lemma finalize_period_run:
  assumes "sane_world w" and "period_table_ok w s" and "finalize_period w k tok s = (r, s')"
  shows "period_table_ok w s' \<and> periods_advance s s' \<and>
    (\<forall>p'. r = Inr p' \<longrightarrow> (\<exists>p now. period_scope p = (pk_type k, pk_start k, pk_end k) \<and>
       permitted (actor_from_token tok) BILLING_PERIOD_FINALIZE (period_resource tok p) \<and>
       (bp_status p \<noteq> FINALIZED \<longrightarrow> p' = p\<lparr>bp_status := FINALIZED, bp_finalized_at := Some now\<rparr>) \<and>
       (bp_status p = FINALIZED \<longrightarrow> p' = p)))"
  by (rule closing_run [OF assms(1,2)]) (use assms(3) in \<open>simp_all add: finalize_period_def\<close>)

lemma period_runs_advance:
  assumes "period_runs w s s'" and w: "sane_world w" and "period_table_ok w s"
  shows "period_table_ok w s' \<and> periods_advance s s'"
  using assms(1,3)
proof (induction rule: period_runs.induct)
  case (stop s)
  then show ?case by (simp add: periods_advance_refl)
next
  case (create s t k)
  then show ?case
    using get_or_create_ok [OF w, of t k] by (metis periods_advance_trans prod.collapse)
next
  case (lock s t k tok)
  then show ?case
    using lock_period_run [OF w, of t k tok] by (metis periods_advance_trans prod.collapse)
next
  case (finalize s t k tok)
  then show ?case
    using finalize_period_run [OF w, of t k tok] by (metis periods_advance_trans prod.collapse)
next
  case (other s t u)
  then show ?case
    using period_table_ok_frame periods_advance_more periods_advance_trans by (metis order_refl)
qed

text \<open>Billing periods never move back: over any sequence of lookups, finalisations and locks, by whichever
  tokens and whether the calls succeed or not, every period stays in the table under its identifier
  and bounds, its status only advances along OPEN, FINALIZED, LOCKED, and a locked period is not
  changed in any field.\<close>

theorem billing_periods_never_reopen:
  assumes "sane_world w" and "period_table_ok w s" and "period_runs w s s'" and "p \<in> set (billing_periods s)"
  shows "\<exists>p'\<in>set (billing_periods s'). bp_id p' = bp_id p \<and> period_scope p' = period_scope p \<and>
    period_rank (bp_status p) \<le> period_rank (bp_status p') \<and> (bp_status p = LOCKED \<longrightarrow> p' = p)"
  using period_runs_advance [OF assms(3,1,2)] assms(4) unfolding periods_advance_def by blast

text \<open>Closing a period takes a finance administrator and the right order: \<open>finalize\<close> succeeds only on an open
  period and \<open>lock\<close> only on a finalised one, each only for a token with a role that normalises to
  \<open>ADMIN_FINANCE\<close> or \<open>SUPERADMIN\<close>, and the period returned has exactly its status and timestamp
  changed.\<close>

theorem closing_periods_in_order:
  assumes "sane_world w" and "period_table_ok w s"
  shows "(finalize_period w k tok s = (Inr p', s') \<longrightarrow>
      (\<exists>p now. bp_status p = OPEN \<and> p' = p\<lparr>bp_status := FINALIZED, bp_finalized_at := Some now\<rparr>) \<and>
      (\<exists>r\<in>set (normalize_roles tok). r = ''ADMIN_FINANCE'' \<or> r = ''SUPERADMIN'')) \<and>
    (lock_period w k tok s = (Inr p', s') \<longrightarrow>
      (\<exists>p now. bp_status p = FINALIZED \<and> p' = p\<lparr>bp_status := LOCKED, bp_locked_at := Some now\<rparr>) \<and>
      (\<exists>r\<in>set (normalize_roles tok). r = ''ADMIN_FINANCE'' \<or> r = ''SUPERADMIN''))"
proof -
  have role: "has_role (actor_from_token tok) ADMIN_FINANCE_ROLES \<longleftrightarrow>
      (\<exists>r\<in>set (normalize_roles tok). r = ''ADMIN_FINANCE'' \<or> r = ''SUPERADMIN'')"
    by (simp add: has_role_def ADMIN_FINANCE_ROLES_def)
  have fin: "permitted (actor_from_token tok) BILLING_PERIOD_FINALIZE (period_resource tok p) \<Longrightarrow>
      bp_status p = OPEN \<and> has_role (actor_from_token tok) ADMIN_FINANCE_ROLES" for p
    by (cases "bp_status p") (auto simp: permitted_def period_resource_def)
  have lck: "permitted (actor_from_token tok) BILLING_PERIOD_LOCK (period_resource tok p) \<Longrightarrow>
      bp_status p = FINALIZED \<and> has_role (actor_from_token tok) ADMIN_FINANCE_ROLES" for p
    by (cases "bp_status p") (auto simp: permitted_def period_resource_def)
  show ?thesis
    using finalize_period_run [OF assms, of k tok "Inr p'" s'] lock_period_run [OF assms, of k tok "Inr p'" s']
    by (metis fin lck role billing_period_status.distinct(1,5))
qed

definition finance_admin :: "token option" where
  "finance_admin = Some \<lparr>tk_roles = RolesList [''admin-finance''], tk_role = None, tk_tenant_id = TenantInt 1,
     tk_client_id = None, tk_user_id = Some ''u-1'', tk_sub = None, tk_email = None\<rparr>"

lemma finance_admin_roles: "normalize_roles finance_admin = [''ADMIN_FINANCE'']"
  by code_simp

definition day_key :: period_key where
  "day_key = \<lparr>pk_type = DAILY, pk_start = 0, pk_end = day_us - 1, pk_tz = ''UTC''\<rparr>"

definition open_day_db :: fin_db where
  "open_day_db = empty_fin_db\<lparr>tick := 1, billing_periods := [new_period (uuid_at ref_world 0) DAILY 0 (day_us - 1) ''UTC'']\<rparr>"

lemma open_day_ok: "period_table_ok ref_world open_day_db"
  by (auto simp: period_table_ok_def open_day_db_def ids_below_def)

theorem billing_periods_never_reopen_witness:
  "\<exists>p'\<in>set (billing_periods (snd (finalize_period ref_world day_key finance_admin open_day_db))).
     bp_id p' = uuid_at ref_world 0"
proof -
  have runs: "period_runs ref_world open_day_db (snd (finalize_period ref_world day_key finance_admin open_day_db))"
    by (rule period_runs.finalize [OF period_runs.stop])
  have "new_period (uuid_at ref_world 0) DAILY 0 (day_us - 1) ''UTC'' \<in> set (billing_periods open_day_db)"
    by (simp add: open_day_db_def)
  from billing_periods_never_reopen [OF ref_world_sane open_day_ok runs this] show ?thesis by auto
qed

lemma open_day_finalized:
  "\<exists>p' s'. finalize_period ref_world day_key finance_admin open_day_db = (Inr p', s')"
proof -
  let ?p = "new_period (uuid_at ref_world 0) DAILY 0 (day_us - 1) ''UTC''"
  have g: "get_or_create_period ref_world day_key open_day_db = (Inr ?p, open_day_db)"
    by (rule get_or_create_found) (simp_all add: open_day_db_def day_key_def)
  have "pd_allowed (policy_check (actor_from_token finance_admin) BILLING_PERIOD_FINALIZE (period_resource finance_admin ?p))"
    by (simp add: billing_period_finalize_def require_admin_def require_admin_token has_role_def finance_admin_roles
        ADMIN_FINANCE_ROLES_def is_admin_role_def period_resource_def)
  from enforce_policy_allowed [OF this, of ref_world open_day_db] g show ?thesis
    by (simp add: finalize_period_def and_then_apply require_transition_def Let_def store_period_def)
qed

theorem closing_periods_in_order_witness:
  "\<exists>p now p' s'. finalize_period ref_world day_key finance_admin open_day_db = (Inr p', s') \<and> bp_status p = OPEN \<and>
     p' = p\<lparr>bp_status := FINALIZED, bp_finalized_at := Some now\<rparr>"
proof -
  obtain p' s' where "finalize_period ref_world day_key finance_admin open_day_db = (Inr p', s')"
    using open_day_finalized by blast
  with closing_periods_in_order [OF ref_world_sane open_day_ok, of day_key finance_admin p' s'] show ?thesis by blast
qed

section \<open>Settlement periods\<close>

lemma resolve_settlement_period_run:
  assumes w: "sane_world w" and ok: "period_table_ok w s"
    and b: "period_bounds_for_dates tzr (tz_to_local tzr tz e div day_us) (tz_to_local tzr tz e div day_us) tz = (a, z)"
  shows "\<exists>p s'. resolve_settlement_period w tzr tz e s = (Inr p, s') \<and> period_table_ok w s' \<and> periods_advance s s' \<and>
    p \<in> set (billing_periods s') \<and> bp_start_at p = a \<and> bp_end_at p = z \<and>
    (bp_period_type p = DAILY \<and> bp_status p = OPEN \<or> bp_period_type p = ADHOC)"
proof -
  let ?k = "\<lambda>ty. \<lparr>pk_type = ty, pk_start = a, pk_end = z, pk_tz = tz\<rparr>"
  obtain r1 s1 where g1: "get_or_create_period w (?k DAILY) s = (r1, s1)" by (cases "get_or_create_period w (?k DAILY) s")
  from get_or_create_ok [OF w ok g1] obtain p where p: "r1 = Inr p" "p \<in> set (billing_periods s1)"
    "period_scope p = (DAILY, a, z)" and 1: "period_table_ok w s1" "periods_advance s s1" by auto
  obtain r2 s2 where g2: "get_or_create_period w (?k ADHOC) s1 = (r2, s2)" by (cases "get_or_create_period w (?k ADHOC) s1")
  from get_or_create_ok [OF w 1(1) g2] obtain q where q: "r2 = Inr q" "q \<in> set (billing_periods s2)"
    "period_scope q = (ADHOC, a, z)" and 2: "period_table_ok w s2" "periods_advance s1 s2" by auto
  show ?thesis
  proof (cases "bp_status p \<in> {FINALIZED, LOCKED}")
    case True
    then have "resolve_settlement_period w tzr tz e s = (Inr q, s2)"
      using g1 g2 p(1) q(1) b by (simp add: resolve_settlement_period_def Let_def)
    moreover have "periods_advance s s2" by (rule periods_advance_trans [OF 1(2) 2(2)])
    ultimately show ?thesis using q 2 by (auto simp: period_scope_def)
  next
    case False
    then have "resolve_settlement_period w tzr tz e s = (Inr p, s1)"
      using g1 p(1) b by (simp add: resolve_settlement_period_def Let_def)
    moreover have "bp_status p = OPEN" using False by (cases "bp_status p") simp_all
    ultimately show ?thesis using p 1 by (auto simp: period_scope_def)
  qed
qed

text \<open>A booking is settled in the day of its event: in a billing time zone with a fixed offset, such as the
  default UTC, \<open>resolve_settlement_period\<close> always returns a period of the table whose bounds contain the
  instant of the event. It is the open daily period of that day, or the ad hoc period of the same
  day when the daily one has been closed.\<close>

theorem settlement_period_contains_event:
  assumes "sane_world w" and "period_table_ok w s"
    and "\<forall>x. tz_to_local tzr tz x = x + off \<and> tz_to_utc tzr tz x = x - off"
  shows "\<exists>p s'. resolve_settlement_period w tzr tz e s = (Inr p, s') \<and> p \<in> set (billing_periods s') \<and>
    bp_start_at p \<le> e \<and> e \<le> bp_end_at p \<and>
    (bp_period_type p = DAILY \<and> bp_status p = OPEN \<or> bp_period_type p = ADHOC)"
proof -
  let ?d = "(e + off) div day_us"
  have b: "period_bounds_for_dates tzr (tz_to_local tzr tz e div day_us) (tz_to_local tzr tz e div day_us) tz =
      (?d * day_us - off, ?d * day_us + (day_us - 1) - off)"
    using assms(3) by (simp add: period_bounds_for_dates_def)
  have "?d * day_us \<le> e + off" "e + off \<le> ?d * day_us + (day_us - 1)"
    using pos_mod_sign [of day_us "e + off"] pos_mod_bound [of day_us "e + off"] mult_div_mod_eq [of day_us "e + off"]
    by (simp_all add: day_us_def mult.commute)
  with resolve_settlement_period_run [OF assms(1,2) b] show ?thesis by force
qed

definition utc_rules :: tz_rules where
  "utc_rules = \<lparr>tz_to_local = (\<lambda>_ x. x), tz_to_utc = (\<lambda>_ x. x)\<rparr>"

theorem settlement_period_contains_event_witness:
  "\<exists>p s'. resolve_settlement_period ref_world utc_rules ''UTC'' 5000000 open_day_db = (Inr p, s') \<and>
     bp_start_at p \<le> 5000000 \<and> 5000000 \<le> bp_end_at p"
  using settlement_period_contains_event [OF ref_world_sane open_day_ok, of utc_rules "''UTC''" 0 5000000]
  by (auto simp: utc_rules_def)

end
