(* ===== verification/Settlement_Properties.thy ===== *)
theory Settlement_Properties
  imports Settlement Invoice_Properties Period_Properties
begin

text \<open>
  What the settlement code of the finance service does: an allocation that the rules admit is always
  created, with exactly one new row; reconciliation leaves a settled invoice alone and repairs a
  difference between the allocations and the amounts.
\<close>

section \<open>Handlers and lookups\<close>

lemma catching_Inr [simp]: "m s = (Inr a, t) \<Longrightarrow> catching p m h s = (Inr a, t)"
  by (simp add: catching_def)

lemma catching_Inl: "m s = (Inl e, t) \<Longrightarrow> catching p m h s = (if p e then h e t else (Inl e, t))"
  by (simp add: catching_def)

lemma catching_Inr_iff:
  "catching p m h s = (Inr a, u) \<longleftrightarrow> m s = (Inr a, u) \<or> (\<exists>e t. m s = (Inl e, t) \<and> p e \<and> h e t = (Inr a, u))"
  by (auto simp: catching_def split: prod.splits sum.splits)

lemma catching_Inl_iff:
  "catching p m h s = (Inl e, u) \<longleftrightarrow> m s = (Inl e, u) \<and> \<not> p e \<or>
     (\<exists>e' t. m s = (Inl e', t) \<and> p e' \<and> h e' t = (Inl e, u))"
  by (auto simp: catching_def split: prod.splits sum.splits)

lemma rollback_and_raise_apply [simp]: "rollback_and_raise base e s = (Inl e, base\<lparr>tick := tick s\<rparr>)"
  by (simp add: rollback_and_raise_def)

lemma audit_and_raise_effect:
  "\<exists>n log. audit_and_raise w base rc i e s = (Inl e, base\<lparr>tick := n, audit_log := audit_log base @ log\<rparr>) \<and> tick s \<le> n"
proof (cases "is_invariant_violation e")
  case True
  then obtain fv where e: "e = FinancialInvariantViolation fv" by (cases e) simp_all
  obtain r where "audit_violation w fv rc [(''invoice_id'', PStr (inv_id i))] (base\<lparr>tick := tick s\<rparr>) =
      (Inr r, (base\<lparr>tick := tick s\<rparr>)\<lparr>tick := Suc (Suc (tick s)), audit_log := audit_log base @ [r]\<rparr>)"
    unfolding audit_violation_def using audit_effect [of w _ rc "base\<lparr>tick := tick s\<rparr>"] by auto
  then show ?thesis
    by (intro exI [of _ "Suc (Suc (tick s))"] exI [of _ "[r]"]) (simp add: audit_and_raise_def e and_then_apply)
next
  case False
  then have "audit_and_raise w base rc i e s = (Inl e, base\<lparr>tick := tick s\<rparr>)"
    by (cases e) (simp_all add: audit_and_raise_def)
  then show ?thesis by (intro exI [of _ "tick s"] exI [of _ "[]"]) simp
qed

lemma audit_and_raise_not_Inr [simp]: "audit_and_raise w base rc i e s \<noteq> (Inr a, t)"
  by (cases e) (auto simp: audit_and_raise_def and_then_apply audit_violation_def audit_apply Let_def)

text \<open>Which exceptions a computation may raise.\<close>

definition raises :: "(py_exc \<Rightarrow> bool) \<Rightarrow> ('s, 'a) act \<Rightarrow> bool" where
  "raises P m \<longleftrightarrow> (\<forall>s e t. m s = (Inl e, t) \<longrightarrow> P e)"

lemma raisesD: "raises P m \<Longrightarrow> m s = (Inl e, t) \<Longrightarrow> P e"
  unfolding raises_def by blast

lemma raisesI: "(\<And>s e t. m s = (Inl e, t) \<Longrightarrow> P e) \<Longrightarrow> raises P m"
  unfolding raises_def by blast

lemma raises_and_then [intro!]: "raises P m \<Longrightarrow> (\<And>a. raises P (k a)) \<Longrightarrow> raises P (and_then m k)"
  by (rule raisesI) (auto simp: and_then_Inl_iff dest: raisesD)

lemma raises_basic [intro!]:
  "raises P (ret a)" "raises P (reading f)" "raises P (update_state g)" "raises P (now_utc w)" "raises P (new_uuid_str w)"
  "raises P (audit w ev rc)"
  by (auto simp: raises_def audit_apply Let_def)

lemma raises_raise: "P e \<Longrightarrow> raises P (raise_exc e)"
  by (simp add: raises_def)

lemma raises_asserting: "P e \<Longrightarrow> raises P (asserting b e)"
  by (simp add: raises_def)

lemma raises_query: "P MultipleResultsFound \<Longrightarrow> raises P (query_one p table)"
  by (auto simp: raises_def one_or_none_def split: list.splits)

lemma raises_lift: "(\<And>e. r = Inl e \<Longrightarrow> P e) \<Longrightarrow> raises P (lift_result r)"
  by (simp add: raises_def)

lemma raises_insert [intro!]: "raises P f \<Longrightarrow> raises P g \<Longrightarrow> raises P (insert_or_else c i f g)"
  by (auto simp: raises_def)

lemma raises_for_each [intro!]: "(\<And>x. raises P (f x)) \<Longrightarrow> raises P (for_each xs f)"
  by (induction xs) auto

lemma raises_catching [intro!]:
  "raises (\<lambda>e. p e \<or> P e) m \<Longrightarrow> (\<And>e. p e \<Longrightarrow> raises P (h e)) \<Longrightarrow> raises P (catching p m h)"
  by (rule raisesI) (auto simp: catching_Inl_iff dest: raisesD)

lemma raises_mono: "raises P m \<Longrightarrow> (\<And>e. P e \<Longrightarrow> Q e) \<Longrightarrow> raises Q m"
  by (auto simp: raises_def)

lemma lock_invoice_found:
  assumes "distinct (map inv_id (invoices s))" and "i \<in> set (invoices s)"
  shows "lock_invoice (inv_id i) s = (Inr i, s)"
  using one_or_none_unique_key [OF assms] by (simp add: lock_invoice_def)

lemma update_new_key: "k \<notin> fst ` set d \<Longrightarrow> AList.update k v d = d @ [(k, v)]"
  by (induction d) auto

lemma fold_update_new:
  "distinct (map key as) \<Longrightarrow> fst ` set d \<inter> key ` set as = {} \<Longrightarrow>
     fold (\<lambda>a d. AList.update (key a) a d) as d = d @ map (\<lambda>a. (key a, a)) as"
proof (induction as arbitrary: d)
  case (Cons a as)
  then have "key a \<notin> fst ` set d" by auto
  then have u: "AList.update (key a) a d = d @ [(key a, a)]" by (rule update_new_key)
  have "fst ` set (d @ [(key a, a)]) \<inter> key ` set as = {}" using Cons.prems by auto
  from Cons.IH [OF _ this] Cons.prems(1) show ?case by (simp add: u)
qed simp

lemma allocs_by_source_distinct:
  "distinct (map alloc_key as) \<Longrightarrow> allocs_by_source as = map (\<lambda>a. (alloc_key a, a)) as"
  unfolding allocs_by_source_def by (simp add: fold_update_new)

lemma map_of_by_source:
  "distinct (map alloc_key as) \<Longrightarrow> map_of (allocs_by_source as) k \<noteq> None \<longleftrightarrow> k \<in> alloc_key ` set as"
  unfolding allocs_by_source_distinct by (force simp: map_of_eq_None_iff)

section \<open>Settled invoices\<close>

text \<open>Every payment and credit note of the invoice has its allocation, and the allocations add up to its coverage.\<close>

definition settled :: "invoice \<Rightarrow> 'a fin_db_scheme \<Rightarrow> bool" where
  "settled i s \<longleftrightarrow>
     (let as = invoice_allocations (inv_id i) (allocations s) in
      (\<forall>p\<in>set (invoice_payments s). pay_invoice_id p = inv_id i \<longrightarrow> (SRC_PAYMENT, pay_id p) \<in> alloc_key ` set as) \<and>
      (\<forall>c\<in>set (credit_notes s). cn_invoice_id c = inv_id i \<longrightarrow>
         (SRC_CREDIT_NOTE, cn_id c) \<in> alloc_key ` set as \<or> (SRC_REFUND, cn_id c) \<in> alloc_key ` set as) \<and>
      alloc_net (\<lambda>ty. alloc_total ty as) = net_coverage i)"

lemma reconcile_payments_done:
  "\<forall>p\<in>set ps. map_of d (SRC_PAYMENT, pay_id p) \<noteq> None \<Longrightarrow> reconcile_payments env rc i ps d s = (Inr d, s)"
  by (induction ps) simp_all

lemma reconcile_credit_notes_done:
  "\<forall>c\<in>set cs. map_of d (SRC_CREDIT_NOTE, cn_id c) \<noteq> None \<or> map_of d (SRC_REFUND, cn_id c) \<noteq> None \<Longrightarrow>
     reconcile_credit_notes env rc i cs d s = (Inr d, s)"
  by (induction cs) auto

lemma dict_net_by_source:
  "distinct (map alloc_key as) \<Longrightarrow> dict_net (allocs_by_source as) = alloc_net (\<lambda>ty. alloc_total ty as)"
  by (simp add: dict_net_def allocs_by_source_distinct comp_def)

lemma reconcile_sources_done:
  assumes "distinct (map inv_id (invoices s))" and "i \<in> set (invoices s)"
    and "distinct (map alloc_key (invoice_allocations (inv_id i) (allocations s)))"
    and "\<forall>p\<in>set (invoice_payments s). pay_invoice_id p = inv_id i \<longrightarrow>
      (SRC_PAYMENT, pay_id p) \<in> alloc_key ` set (invoice_allocations (inv_id i) (allocations s))"
    and "\<forall>c\<in>set (credit_notes s). cn_invoice_id c = inv_id i \<longrightarrow>
      (SRC_CREDIT_NOTE, cn_id c) \<in> alloc_key ` set (invoice_allocations (inv_id i) (allocations s)) \<or>
      (SRC_REFUND, cn_id c) \<in> alloc_key ` set (invoice_allocations (inv_id i) (allocations s))"
    and "net = alloc_net (\<lambda>ty. alloc_total ty (invoice_allocations (inv_id i) (allocations s)))"
  shows "reconcile_invoice_allocations env rc reason cid (inv_id i) s =
     (if net = net_coverage i then (Inr (), s) else reconcile_adjustment env rc reason cid i net s)"
proof -
  let ?as = "invoice_allocations (inv_id i) (allocations s)"
  have p: "reconcile_payments env rc i (filter (\<lambda>p. pay_invoice_id p = inv_id i) (invoice_payments s))
      (allocs_by_source ?as) s = (Inr (allocs_by_source ?as), s)"
    using assms(4) by (intro reconcile_payments_done) (simp only: map_of_by_source [OF assms(3)] set_filter, blast)
  have c: "reconcile_credit_notes env rc i (filter (\<lambda>c. cn_invoice_id c = inv_id i) (credit_notes s))
      (allocs_by_source ?as) s = (Inr (allocs_by_source ?as), s)"
    using assms(5) by (intro reconcile_credit_notes_done) (simp only: map_of_by_source [OF assms(3)] set_filter, blast)
  show ?thesis
    unfolding reconcile_invoice_allocations_def
    by (simp add: and_then_apply lock_invoice_found [OF assms(1,2)] p c dict_net_by_source [OF assms(3)] assms(6))
qed

lemma reconcile_settled:
  assumes "distinct (map inv_id (invoices s))" and "i \<in> set (invoices s)"
    and "distinct (map alloc_key (invoice_allocations (inv_id i) (allocations s)))" and "settled i s"
  shows "reconcile_invoice_allocations env rc reason cid (inv_id i) s = (Inr (), s)"
  using reconcile_sources_done [OF assms(1-3) _ _ refl] assms(4) unfolding settled_def Let_def by simp

section \<open>A new allocation\<close>

lemma get_or_create_grows:
  assumes "period_table_ok w s"
  shows "\<exists>p n ps. get_or_create_period w k s = (Inr p, s\<lparr>tick := n, billing_periods := billing_periods s @ ps\<rparr>) \<and>
     tick s \<le> n \<and> p \<in> set (billing_periods s @ ps) \<and> period_scope p = (pk_type k, pk_start k, pk_end k) \<and>
     (\<forall>q\<in>set ps. bp_status q = OPEN)"
proof (rule get_or_create_cases [OF period_table_okD(1) [OF assms], of w k], goal_cases found created)
  case (found p)
  then show ?case by (intro exI [of _ p] exI [of _ "tick s"] exI [of _ "[]"]) simp
next
  case (created p)
  then show ?case by (intro exI [of _ p] exI [of _ "Suc (tick s)"] exI [of _ "[p]"]) simp
qed

definition adhoc_unlocked :: "'a fin_db_scheme \<Rightarrow> bool" where
  "adhoc_unlocked s \<longleftrightarrow> (\<forall>p\<in>set (billing_periods s). bp_period_type p = ADHOC \<longrightarrow> bp_status p \<noteq> LOCKED)"

lemma resolve_settlement_period_grows:
  assumes w: "sane_world w" and ok: "period_table_ok w s" and ad: "adhoc_unlocked s"
  shows "\<exists>p n ps. resolve_settlement_period w tzr tz e s =
       (Inr p, s\<lparr>tick := n, billing_periods := billing_periods s @ ps\<rparr>) \<and> tick s \<le> n \<and>
     p \<in> set (billing_periods s @ ps) \<and> bp_status p \<noteq> LOCKED \<and> (\<forall>q\<in>set ps. bp_status q = OPEN) \<and>
     period_table_ok w (s\<lparr>tick := n, billing_periods := billing_periods s @ ps\<rparr>)"
proof -
  obtain a z where b: "period_bounds_for_dates tzr (tz_to_local tzr tz e div day_us) (tz_to_local tzr tz e div day_us) tz = (a, z)"
    by (cases "period_bounds_for_dates tzr (tz_to_local tzr tz e div day_us) (tz_to_local tzr tz e div day_us) tz")
  let ?k = "\<lambda>ty. \<lparr>pk_type = ty, pk_start = a, pk_end = z, pk_tz = tz\<rparr>"
  obtain p n ps where g1: "get_or_create_period w (?k DAILY) s = (Inr p, s\<lparr>tick := n, billing_periods := billing_periods s @ ps\<rparr>)"
    and p: "tick s \<le> n" "p \<in> set (billing_periods s @ ps)" "\<forall>q\<in>set ps. bp_status q = OPEN"
    using get_or_create_grows [OF ok, of "?k DAILY"] by blast
  define s1 where "s1 = s\<lparr>tick := n, billing_periods := billing_periods s @ ps\<rparr>"
  have ok1: "period_table_ok w s1" using get_or_create_ok [OF w ok g1] s1_def by simp
  obtain q m qs where g2: "get_or_create_period w (?k ADHOC) s1 = (Inr q, s1\<lparr>tick := m, billing_periods := billing_periods s1 @ qs\<rparr>)"
    and q: "tick s1 \<le> m" "q \<in> set (billing_periods s1 @ qs)" "\<forall>q\<in>set qs. bp_status q = OPEN" "period_scope q = (ADHOC, a, z)"
    using get_or_create_grows [OF ok1, of "?k ADHOC"] by auto
  have ok2: "period_table_ok w (s1\<lparr>tick := m, billing_periods := billing_periods s1 @ qs\<rparr>)"
    using get_or_create_ok [OF w ok1 g2] by simp
  show ?thesis
  proof (cases "bp_status p \<in> {FINALIZED, LOCKED}")
    case True
    have "bp_status q \<noteq> LOCKED"
      using q ad p(3) unfolding adhoc_unlocked_def s1_def by (auto simp: period_scope_def)
    moreover have "resolve_settlement_period w tzr tz e s = (Inr q, s1\<lparr>tick := m, billing_periods := billing_periods s1 @ qs\<rparr>)"
      using True g1 g2 b by (simp add: resolve_settlement_period_def Let_def s1_def)
    ultimately show ?thesis using q p ok2
      by (intro exI [of _ q] exI [of _ m] exI [of _ "ps @ qs"]) (auto simp: s1_def)
  next
    case False
    have "resolve_settlement_period w tzr tz e s = (Inr p, s1)"
      using False g1 b by (simp add: resolve_settlement_period_def Let_def s1_def)
    with False p ok1 show ?thesis by (intro exI [of _ p] exI [of _ n] exI [of _ ps]) (auto simp: s1_def)
  qed
qed

text \<open>The source of an allocation is looked up by primary key.\<close>

definition keys_unique :: "'a fin_db_scheme \<Rightarrow> bool" where
  "keys_unique s \<longleftrightarrow> distinct (map pay_id (invoice_payments s)) \<and> distinct (map cn_id (credit_notes s)) \<and>
     distinct (refund_request_ids s)"

lemma source_object_total:
  assumes "keys_unique s"
  shows "\<exists>src. source_object ty source_id s = (Inr src, s)"
proof (cases ty)
  case SRC_PAYMENT
  with one_or_none_unique_total [of pay_id "invoice_payments s" source_id] assms show ?thesis
    by (auto simp: source_object_def and_then_apply keys_unique_def)
next
  case SRC_CREDIT_NOTE
  with one_or_none_unique_total [of cn_id "credit_notes s" source_id] assms show ?thesis
    by (auto simp: source_object_def and_then_apply keys_unique_def)
next
  case SRC_REFUND
  with one_or_none_unique_total [of "\<lambda>x. x" "refund_request_ids s" source_id] assms show ?thesis
    by (auto simp: source_object_def and_then_apply keys_unique_def)
qed

lemma write_graph_effect:
  fixes env :: "'a fin_env"
  shows "\<exists>s'. write_graph env rc i a src s = (Inr (), s') \<and> graph_only s s'"
proof -
  let ?g = "ensure_settlement_allocation_graph (fe_world env) rc a i src"
  obtain r t where g: "?g s = (r, t)" by (cases "?g s")
  with graph_actD [OF graph_act_allocation, of s "fe_world env" rc a i src] have t: "graph_only s t" by simp
  show ?thesis
  proof (cases r)
    case (Inl e)
    define h :: "('a fin_db_scheme, unit) act" where "h = and_then (audit_graph_write_failure (fe_world env) rc ''settlement_allocation'' (sa_id a)
      (fe_error_text env e)) (\<lambda>_. ret ())"
    obtain u where u: "h t = (Inr (), u)"
      unfolding h_def audit_graph_write_failure_def by (simp add: and_then_apply audit_apply Let_def)
    have "graph_act h" unfolding h_def audit_graph_write_failure_def by auto
    from graph_only_trans [OF t graph_actD [OF this]] u have "graph_only s u" by simp
    moreover have "write_graph env rc i a src s = (Inr (), u)"
      using g Inl u by (simp add: write_graph_def catching_Inl h_def)
    ultimately show ?thesis by blast
  next
    case (Inr x)
    with g t show ?thesis by (simp add: write_graph_def)
  qed
qed

text \<open>The row that \<open>_ensure_settlement_allocation\<close> adds for a request.\<close>

definition allocation_for :: "request_context option \<Rightarrow> invoice \<Rightarrow> alloc_request \<Rightarrow> settlement_allocation \<Rightarrow> bool" where
  "allocation_for rc i q a \<longleftrightarrow> sa_invoice_id a = inv_id i \<and> sa_tenant_id a = resolve_tenant_id rc \<and>
     sa_client_id a = inv_client_id i \<and> sa_source_type a = aq_source_type q \<and> sa_source_id a = aq_source_id q \<and>
     sa_amount a = aq_amount q \<and> sa_currency a = aq_currency q"

text \<open>All that a new allocation changes: the clock, the audit log, the legal graph, perhaps new open periods, and one row.\<close>

definition allocated ::
    "world \<Rightarrow> request_context option \<Rightarrow> invoice \<Rightarrow> alloc_request \<Rightarrow> settlement_allocation \<Rightarrow>
     'a fin_db_scheme \<Rightarrow> 'a fin_db_scheme \<Rightarrow> bool" where
  "allocated w rc i q a s s' \<longleftrightarrow>
     (\<exists>n log ps nodes edges m. s' = s\<lparr>tick := n, audit_log := audit_log s @ log, allocations := allocations s @ [a],
        billing_periods := billing_periods s @ ps, legal_nodes := nodes, legal_edges := edges\<rparr> \<and>
      tick s \<le> m \<and> m < n \<and> sa_id a = uuid_at w m \<and> (\<forall>p\<in>set ps. bp_status p = OPEN)) \<and>
     period_table_ok w s' \<and> allocation_for rc i q a"

lemma allocatedE:
  assumes "allocated w rc i q a s s'"
  obtains n log ps nodes edges m where "s' = s\<lparr>tick := n, audit_log := audit_log s @ log,
      allocations := allocations s @ [a], billing_periods := billing_periods s @ ps, legal_nodes := nodes,
      legal_edges := edges\<rparr>"
    and "tick s \<le> m" "m < n" "sa_id a = uuid_at w m" "\<forall>p\<in>set ps. bp_status p = OPEN"
    and "period_table_ok w s'" "allocation_for rc i q a"
  using assms unfolding allocated_def by blast

lemma ensure_allocation_new:
  assumes w: "sane_world (fe_world env)" and ok: "period_table_ok (fe_world env) s" and ad: "adhoc_unlocked s"
    and ku: "keys_unique s"
    and new: "\<forall>a\<in>set (allocations s). \<not> same_source (inv_id i) (aq_source_type q) (aq_source_id q) a"
    and at: "aq_applied_at q = Some event_at"
    and net: "alloc_net (totals_with (aq_source_type q) (aq_amount q) (invoice_allocations (inv_id i) (allocations s))) = net_coverage i"
    and bound: "abs (net_coverage i) \<le> invoice_total i"
  shows "\<exists>a s'. ensure_settlement_allocation env rc i q s = (Inr a, s') \<and> allocated (fe_world env) rc i q a s s'"
proof -
  let ?w = "fe_world env"
  obtain p n ps where r: "resolve_settlement_period ?w (fe_tz_rules env) (fe_tz env) event_at s =
       (Inr p, s\<lparr>tick := n, billing_periods := billing_periods s @ ps\<rparr>)"
    and p: "tick s \<le> n" "p \<in> set (billing_periods s @ ps)" "bp_status p \<noteq> LOCKED" "\<forall>q\<in>set ps. bp_status q = OPEN"
    and ok1: "period_table_ok ?w (s\<lparr>tick := n, billing_periods := billing_periods s @ ps\<rparr>)"
    using resolve_settlement_period_grows [OF w ok ad] by blast
  define s1 where "s1 = s\<lparr>tick := n, billing_periods := billing_periods s @ ps\<rparr>"
  have chk: "check_settlement_allocation ?w False rc i (aq_amount q) (bp_id p) (aq_source_type q) (aq_source_id q) False s1 = (Inr (), s1)"
    by (rule check_settlement_allocation_pass [where p = p])
      (use p period_table_okD(2) [OF ok1] net bound in \<open>simp_all add: s1_def validate_settlement_total_Nil\<close>)
  define a where "a = \<lparr>sa_id = uuid_at ?w n, sa_invoice_id = inv_id i, sa_tenant_id = resolve_tenant_id rc,
     sa_client_id = inv_client_id i, sa_settlement_period_id = bp_id p, sa_source_type = aq_source_type q,
     sa_source_id = aq_source_id q, sa_amount = aq_amount q, sa_currency = aq_currency q, sa_applied_at = event_at,
     sa_meta = None\<rparr>"
  define s2 where "s2 = s1\<lparr>tick := Suc n, allocations := allocations s @ [a]\<rparr>"
  obtain l where l: "audit_allocation ?w rc i q (bp_id p) s2 =
      (Inr l, s2\<lparr>tick := Suc (Suc (tick s2)), audit_log := audit_log s2 @ [l]\<rparr>)"
    unfolding audit_allocation_def by (rule audit_effect)
  define s3 where "s3 = s2\<lparr>tick := Suc (Suc (tick s2)), audit_log := audit_log s2 @ [l]\<rparr>"
  have "keys_unique s3" using ku by (simp add: keys_unique_def s3_def s2_def s1_def)
  from source_object_total [OF this, of "aq_source_type q" "aq_source_id q"]
  obtain src where src: "source_object (aq_source_type q) (aq_source_id q) s3 = (Inr src, s3)" by blast
  obtain s4 where g: "write_graph env rc i a src s3 = (Inr (), s4)" "graph_only s3 s4"
    using write_graph_effect [of env rc i a src s3] by blast
  have none: "one_or_none (same_source (inv_id i) (aq_source_type q) (aq_source_id q)) (allocations s) = Inr None"
    using new by simp
  have run: "ensure_settlement_allocation env rc i q s = (Inr a, s4)"
    unfolding ensure_settlement_allocation_def Let_def
    using new l src g(1)
    by (simp add: and_then_apply none at r chk [unfolded s1_def] s3_def s2_def s1_def a_def)
  from g(2) obtain k log nodes edges where s4: "tick s3 \<le> k" "s4 = s3\<lparr>tick := k, audit_log := audit_log s3 @ log,
     legal_nodes := nodes, legal_edges := edges\<rparr>" by (auto simp: graph_only_def)
  have "period_table_ok ?w s4"
    by (rule period_table_ok_frame [OF ok1]) (use s4 in \<open>simp_all add: s3_def s2_def s1_def\<close>)
  moreover have "s4 = s\<lparr>tick := k, audit_log := audit_log s @ (l # log), allocations := allocations s @ [a],
        billing_periods := billing_periods s @ ps, legal_nodes := nodes, legal_edges := edges\<rparr>"
    using s4(2) by (simp add: s3_def s2_def s1_def)
  moreover have "n < k" using s4(1) by (simp add: s3_def s2_def)
  moreover have "allocation_for rc i q a" by (simp add: allocation_for_def a_def)
  moreover have "sa_id a = uuid_at ?w n" by (simp add: a_def)
  ultimately have "allocated ?w rc i q a s s4" using p(1,4) unfolding allocated_def by blast
  with run show ?thesis by blast
qed

end
