(* ===== verification/Payment_Steps.thy ===== *)
theory Payment_Steps
  imports Payments Settlement_Properties
begin

text \<open>
  The single steps of \<open>apply_payment\<close> on an admissible payment: the amounts move, the ledger posts, the money
  flow records the event, the allocation is created, and booking composes them.
\<close>

section \<open>The amounts\<close>

definition payable :: "int \<Rightarrow> invoice \<Rightarrow> bool" where
  "payable amount i \<longleftrightarrow> validate_invoice i = [] \<and> inv_status i \<in> {SENT, PARTIALLY_PAID, OVERDUE} \<and>
     0 < amount \<and> amount \<le> inv_amount_due i \<and> inv_amount_refunded i \<le> inv_amount_paid i"

definition paid_status :: "int \<Rightarrow> invoice \<Rightarrow> invoice_status" where
  "paid_status amount i = (if amount \<ge> outstanding i then PAID else PARTIALLY_PAID)"

lemma payable_total: "payable a i \<Longrightarrow> invoice_total i = inv_total_with_tax i \<and> outstanding i = inv_amount_due i"
  by (auto simp: payable_def validate_invoice_Nil invoice_total_def outstanding_def)

lemma payable_moves:
  assumes "payable a i"
  shows "\<exists>i1. apply_amounts i (pay_amounts a) = Inr i1 \<and> validate_constraints i1 (paid_status a i) (pay_amounts a) = Inr ()"
proof -
  let ?i1 = "i\<lparr>inv_amount_paid := inv_amount_paid i + a, inv_amount_due := inv_amount_due i - a,
    inv_credited_amount := inv_credited_amount i, inv_amount_refunded := inv_amount_refunded i\<rparr>"
  note t = payable_total [OF assms]
  have "apply_amounts i (pay_amounts a) = Inr ?i1"
    using assms t by (simp add: apply_amounts_def payable_def validate_invoice_Nil pay_amounts_def negative_def
        amount_of_def Let_def)
  moreover have "invoice_total ?i1 = invoice_total i" by (simp add: invoice_total_def)
  then have "validate_constraints ?i1 (paid_status a i) (pay_amounts a) = Inr ()"
    using assms t by (simp add: validate_constraints_def paid_status_def payable_def validate_invoice_Nil
        pay_amounts_def positive_def Let_def)
  ultimately show ?thesis by blast
qed

lemma payable_allowed:
  "payable a i \<Longrightarrow> paid_status a i = inv_status i \<or> paid_status a i \<in> set (invoice_successors (inv_status i))"
  by (auto simp: payable_def paid_status_def)

lemma payable_moved:
  assumes "payable a i" and "moved i (finance_update (paid_status a i) rc) (pay_amounts a) now i'"
  shows "validate_invoice i' = []" "inv_amount_paid i' = inv_amount_paid i + a"
    "inv_amount_due i' = inv_amount_due i - a" "inv_credited_amount i' = inv_credited_amount i"
    "inv_amount_refunded i' = inv_amount_refunded i" "net_coverage i' = net_coverage i + a"
    "abs (net_coverage i') \<le> invoice_total i'" "inv_id i' = inv_id i" "inv_client_id i' = inv_client_id i"
    "inv_status i' = (if a = inv_amount_due i then PAID else PARTIALLY_PAID)" "inv_currency i' = inv_currency i"
  using moved_fields [OF assms(2)] payable_total [OF assms(1)] assms(1)
  by (auto simp: payable_def validate_invoice_Nil pay_amounts_def amount_of_def net_coverage_def paid_status_def)

section \<open>The steps\<close>

definition known_id :: "world \<Rightarrow> nat \<Rightarrow> string \<Rightarrow> bool" where
  "known_id w n x \<longleftrightarrow> (\<exists>k<n. x = uuid_at w k)"

lemma known_id_fresh: "sane_world w \<Longrightarrow> known_id w n x \<Longrightarrow> n \<le> m \<Longrightarrow> x \<noteq> uuid_at w m"
  unfolding known_id_def sane_world_def by (metis injD leD)

lemma known_id_mono: "known_id w n x \<Longrightarrow> n \<le> m \<Longrightarrow> known_id w m x"
  unfolding known_id_def by (blast intro: order_less_le_trans)

lemma payment_lines_fit:
  "single_currency (map ln_currency (payment_lines i p)) = Inr (pay_currency p)"
  "balanced_total ln_direction ln_amount (payment_lines i p) = Inr (pay_amount p)"
  by (simp_all add: payment_lines_def pair_lines_def ledger_line_def single_currency_def balanced_total_def sum_direction_def)

lemma post_payment_new:
  assumes w: "sane_world w" and ok: "ledger_ok w s"
    and ref: "\<forall>t\<in>set (il_transactions s). \<not> has_external_ref ''PAYMENT'' (pay_id p) t"
    and key: "\<not> key_used w (payment_request i p tenant) (il_transactions s)"
  shows "\<exists>t s'. post_payment_applied w i p tenant s = (Inr (), s') \<and> ledger_ok w s' \<and>
    posted w (payment_request i p tenant) (payment_lines i p) t s s' \<and> has_external_ref ''PAYMENT'' (pay_id p) t \<and>
    tx_total_amount t = Some (pay_amount p) \<and> tx_tenant_id t = tenant"
proof -
  let ?pr = "payment_request i p tenant"
  let ?t = "new_transaction w ?pr (pay_amount p) (pay_currency p) (payment_lines i p) s"
  from post_transaction_new [OF w ok payment_lines_fit key] obtain s' where
    run: "post_transaction w ?pr (payment_lines i p) s = (Inr (?t, False), s')"
    and post: "posted w ?pr (payment_lines i p) ?t s s'" by blast
  have none: "one_or_none (has_external_ref ''PAYMENT'' (pay_id p)) (il_transactions s) = Inr None" using ref by simp
  have "post_payment_applied w i p tenant s = (Inr (), s')"
    using run by (simp add: post_payment_applied_def and_then_apply none)
  moreover have "ledger_ok w s'" by (rule posted_keeps_ok [OF w ok payment_lines_fit key post])
  moreover have "has_external_ref ''PAYMENT'' (pay_id p) ?t"
    by (simp add: has_external_ref_def payment_request_def)
  ultimately show ?thesis
    using post by (intro exI [of _ ?t] exI [of _ s']) (simp add: payment_request_def)
qed

lemma one_or_none_only_new:
  "\<forall>x\<in>set xs. \<not> P x \<Longrightarrow> P y \<Longrightarrow> one_or_none P (xs @ [y]) = Inr (Some y)"
  by (simp add: one_or_none_def filter_empty_conv [THEN iffD2])

definition payment_event :: "invoice \<Rightarrow> invoice_payment \<Rightarrow> string \<Rightarrow> money_flow_event \<Rightarrow> bool" where
  "payment_event i p key e \<longleftrightarrow> mfe_idempotency_key e = key \<and> mfe_flow_ref_id e = inv_id i \<and>
     mfe_state_to e = MF_SETTLED \<and> event_payment_id e = str_or_none (Some (pay_id p))"

lemma ensure_event_new:
  assumes "\<forall>e\<in>set (money_flow_events s). mfe_idempotency_key e \<noteq> key"
  shows "\<exists>e. ensure_payment_money_flow_event w i p tenant tx key s =
     (Inr (e, True), s\<lparr>tick := Suc (tick s), money_flow_events := money_flow_events s @ [e]\<rparr>) \<and> payment_event i p key e \<and>
     mfe_ledger_transaction_id e = tx"
proof -
  have none: "one_or_none (\<lambda>e. mfe_idempotency_key e = key) (money_flow_events s) = Inr None" using assms by simp
  show ?thesis
    using assms by (simp add: none ensure_payment_money_flow_event_def resolve_payment_money_flow_event_def and_then_apply
        Let_def payment_event_def event_payment_id_def)
qed

lemma ledger_ok_frame:
  assumes "ledger_ok w s" and "il_accounts s' = il_accounts s" and "il_transactions s' = il_transactions s"
    and "il_entries s' = il_entries s" and "tick s \<le> tick s'"
  shows "ledger_ok w s'"
  using assms unfolding ledger_ok_def accounts_ok_def txs_ok_def entries_ok_def
  by (auto intro: ids_below_mono)

lemma totals_with_net:
  "alloc_net (totals_with SRC_PAYMENT x as) = alloc_net (\<lambda>ty. alloc_total ty as) + x"
  "alloc_net (totals_with SRC_CREDIT_NOTE x as) = alloc_net (\<lambda>ty. alloc_total ty as) - x"
  "alloc_net (totals_with SRC_REFUND x as) = alloc_net (\<lambda>ty. alloc_total ty as) - x"
  by (simp_all add: alloc_net_def totals_with_def)

lemma settle_payment_run:
  assumes w: "sane_world (fe_world env)" and ok: "period_table_ok (fe_world env) s" and ad: "adhoc_unlocked s"
    and ku: "keys_unique s" and pay: "payable (pc_amount pc) i"
    and new: "\<forall>a\<in>set (allocations s). \<not> same_source (inv_id i) SRC_PAYMENT (pay_id p) a"
    and net: "alloc_net (\<lambda>ty. alloc_total ty (invoice_allocations (inv_id i) (allocations s))) = net_coverage i"
    and q: "q = \<lparr>aq_source_type = SRC_PAYMENT, aq_source_id = pay_id p, aq_amount = pc_amount pc,
         aq_currency = pc_currency pc, aq_applied_at = Some (pay_created_at p)\<rparr>"
  shows "\<exists>i' a s' now l r. settle_payment env base pc i p s = (Inr i', s') \<and>
    moved i (finance_update (paid_status (pc_amount pc) i) (pc_request_ctx pc)) (pay_amounts (pc_amount pc)) now i' \<and>
    allocated (fe_world env) (pc_request_ctx pc) i' q a (s\<lparr>tick := tick s + 4, audit_log := audit_log s @ [r],
      invoices := store_row inv_id i' (invoices s), invoice_transition_logs := invoice_transition_logs s @ [l]\<rparr>) s'"
proof -
  let ?rc = "pc_request_ctx pc" let ?amt = "pc_amount pc" let ?st = "paid_status ?amt i" let ?w = "fe_world env"
  from payable_moves [OF pay] obtain i1 where i1: "apply_amounts i (pay_amounts ?amt) = Inr i1"
    "validate_constraints i1 ?st (pay_amounts ?amt) = Inr ()" by blast
  have st: "?st \<noteq> ISSUED" by (simp add: paid_status_def)
  have "\<exists>i' l r. moved i (finance_update ?st ?rc) (pay_amounts ?amt) (time_at ?w (tick s)) i' \<and>
     transition ?w (fe_decide env) i (finance_update ?st ?rc) (pay_amounts ?amt) s = (Inr i',
     s\<lparr>tick := tick s + 4, audit_log := audit_log s @ [r], invoices := store_row inv_id i' (invoices s),
       invoice_transition_logs := invoice_transition_logs s @ [l]\<rparr>)"
    by (rule transition_effect) (use i1 st payable_allowed [OF pay] period_table_okD(2) [OF ok] in simp_all)
  then obtain i' l r where m: "moved i (finance_update ?st ?rc) (pay_amounts ?amt) (time_at ?w (tick s)) i'"
    and tr: "transition ?w (fe_decide env) i (finance_update ?st ?rc) (pay_amounts ?amt) s = (Inr i',
     s\<lparr>tick := tick s + 4, audit_log := audit_log s @ [r], invoices := store_row inv_id i' (invoices s),
       invoice_transition_logs := invoice_transition_logs s @ [l]\<rparr>)" by blast
  define t where "t = s\<lparr>tick := tick s + 4, audit_log := audit_log s @ [r],
      invoices := store_row inv_id i' (invoices s), invoice_transition_logs := invoice_transition_logs s @ [l]\<rparr>"
  note f = payable_moved [OF pay m]
  have guard: "guarded_transition env base ?rc i (apply_financial_transition env ?rc i ?st
      \<lparr>am_payment = Some ?amt, am_credit_note = None, am_refund = None\<rparr>) s = (Inr i', t)"
    using tr f(1) by (simp add: guarded_transition_def apply_financial_transition_def pay_amounts_def t_def)
  have "\<exists>a s'. ensure_settlement_allocation env ?rc i' q t = (Inr a, s') \<and> allocated ?w ?rc i' q a t s'"
  proof (rule ensure_allocation_new [OF w, where event_at = "pay_created_at p"])
    show "period_table_ok ?w t" by (rule period_table_ok_frame [OF ok]) (simp_all add: t_def)
    show "adhoc_unlocked t" "keys_unique t" using ad ku by (simp_all add: adhoc_unlocked_def keys_unique_def t_def)
  qed (use new net f in \<open>simp_all add: q t_def totals_with_net\<close>)
  then obtain a s' where a: "ensure_settlement_allocation env ?rc i' q t = (Inr a, s')" "allocated ?w ?rc i' q a t s'"
    by blast
  have "settle_payment env base pc i p s = (Inr i', s')"
    using pay guard a(1)
    by (simp add: settle_payment_def Let_def paid_status_def [symmetric] payable_def
        ensure_settlement_allocation_guarded_def q [symmetric])
  with m a(2) show ?thesis unfolding t_def by blast
qed

lemma store_row_mem: "x \<in> set rows \<Longrightarrow> key x = key r \<Longrightarrow> r \<in> set (store_row key r rows)"
  by (auto simp: store_row_def image_iff)

lemma settled_after_allocation:
  assumes before: "settled i (s\<lparr>invoice_payments := ps\<rparr>)" and rows: "invoice_payments t = ps @ [p]"
    and same: "inv_id i' = inv_id i" "credit_notes t = credit_notes s" "allocations t = allocations s @ [a]"
    and a: "sa_invoice_id a = inv_id i" "alloc_key a = (SRC_PAYMENT, pay_id p)"
    and cov: "net_coverage i' = net_coverage i + sa_amount a"
  shows "settled i' t"
proof -
  let ?as = "invoice_allocations (inv_id i) (allocations s)"
  have as: "invoice_allocations (inv_id i') (allocations t) = ?as @ [a]"
    using same a(1) by (simp add: invoice_allocations_def)
  have "alloc_total ty (?as @ [a]) = alloc_total ty ?as + (if ty = SRC_PAYMENT then sa_amount a else 0)" for ty
    using a(2) by (simp add: alloc_total_def alloc_key_def)
  then have "alloc_net (\<lambda>ty. alloc_total ty (?as @ [a])) = alloc_net (\<lambda>ty. alloc_total ty ?as) + sa_amount a"
    by (simp add: alloc_net_def)
  with before cov a(2) show ?thesis
    unfolding settled_def Let_def as by (auto simp: rows same)
qed

text \<open>The parts of the database that a booked payment changes.\<close>

definition payment_booked ::
    "payment_call \<Rightarrow> invoice \<Rightarrow> invoice_payment \<Rightarrow> invoice \<Rightarrow> 'a fin_db_scheme \<Rightarrow> 'a fin_db_scheme \<Rightarrow> bool" where
  "payment_booked pc i p i' s s' \<longleftrightarrow>
     invoices s' = store_row inv_id i' (invoices s) \<and> credit_notes s' = credit_notes s \<and>
     refund_request_ids s' = refund_request_ids s \<and>
     (\<exists>a. allocations s' = allocations s @ [a] \<and> sa_invoice_id a = inv_id i \<and> sa_source_type a = SRC_PAYMENT \<and>
        sa_source_id a = pay_id p \<and> sa_amount a = pc_amount pc \<and> sa_currency a = pc_currency pc) \<and>
     (\<exists>e. money_flow_events s' = money_flow_events s @ [e] \<and> payment_event i p (pc_idempotency_key pc) e) \<and>
     (\<exists>t. il_transactions s' = il_transactions s @ [t] \<and> has_external_ref ''PAYMENT'' (pay_id p) t \<and>
        tx_total_amount t = Some (pay_amount p))"

lemma finish_job_effect:
  "\<exists>j. finish_job w run iid amt cur k d i s =
     (Inr j, s\<lparr>tick := Suc (tick s), billing_job_runs := store_row jr_id j (billing_job_runs s)\<rparr>)"
  using succeed_job_effect unfolding finish_job_def by blast

lemma book_payment_run:
  assumes w: "sane_world (fe_world env)" and led: "ledger_ok (fe_world env) s"
    and per: "period_table_ok (fe_world env) s" and ad: "adhoc_unlocked s" and ku: "keys_unique s"
    and inv: "distinct (map inv_id (invoices s))" "i \<in> set (invoices s)"
    and pay: "payable (pc_amount pc) i" and amt: "pay_amount p = pc_amount pc"
    and ref: "\<forall>t\<in>set (il_transactions s). \<not> has_external_ref ''PAYMENT'' (pay_id p) t"
    and key: "\<not> key_used (fe_world env) (payment_request i p (resolve_tenant_id (pc_request_ctx pc))) (il_transactions s)"
    and ev: "\<forall>e\<in>set (money_flow_events s). mfe_idempotency_key e \<noteq> pc_idempotency_key pc"
    and new: "\<forall>a\<in>set (allocations s). \<not> same_source (inv_id i) SRC_PAYMENT (pay_id p) a"
    and dist: "distinct (map alloc_key (invoice_allocations (inv_id i) (allocations s)))"
    and rows: "invoice_payments s = ps @ [p]" and before: "settled i (s\<lparr>invoice_payments := ps\<rparr>)"
  shows "\<exists>i' s' now. book_payment env base pc run i p s =
      (Inr \<lparr>prs_payment = p, prs_invoice = i', prs_is_replay = False\<rparr>, s') \<and>
    moved i (finance_update (paid_status (pc_amount pc) i) (pc_request_ctx pc)) (pay_amounts (pc_amount pc)) now i' \<and>
    payment_booked pc i p i' s s' \<and> invoice_payments s' = invoice_payments s \<and> settled i' s' \<and>
    ledger_ok (fe_world env) s' \<and> period_table_ok (fe_world env) s' \<and> adhoc_unlocked s' \<and> tick s \<le> tick s'"
proof -
  let ?w = "fe_world env" let ?rc = "pc_request_ctx pc" let ?ten = "resolve_tenant_id ?rc"
  have "\<exists>t s1. post_payment_applied ?w i p ?ten s = (Inr (), s1) \<and> ledger_ok ?w s1 \<and>
      posted ?w (payment_request i p ?ten) (payment_lines i p) t s s1 \<and>
      has_external_ref ''PAYMENT'' (pay_id p) t \<and> tx_total_amount t = Some (pay_amount p) \<and> tx_tenant_id t = ?ten"
    by (rule post_payment_new [OF w led ref key])
  then obtain t s1 where post: "post_payment_applied ?w i p ?ten s = (Inr (), s1)" and led1: "ledger_ok ?w s1"
    and posted: "posted ?w (payment_request i p ?ten) (payment_lines i p) t s s1"
    and t: "has_external_ref ''PAYMENT'' (pay_id p) t" "tx_total_amount t = Some (pay_amount p)"
    by (elim exE conjE) (rule that)
  from posted obtain n accs es r where s1: "s1 = s\<lparr>tick := n, audit_log := audit_log s @ [r],
      il_accounts := il_accounts s @ accs, il_transactions := il_transactions s @ [t], il_entries := il_entries s @ es\<rparr>"
    and n: "tick s \<le> n" unfolding posted_def by (auto simp: posting_tick_def payment_request_def)
  have look: "one_or_none (has_external_ref ''PAYMENT'' (pay_id p)) (il_transactions s1) = Inr (Some t)"
    using one_or_none_only_new [of "il_transactions s" "has_external_ref ''PAYMENT'' (pay_id p)" t, OF ref t(1)]
    by (simp only: s1) simp
  have "\<forall>e\<in>set (money_flow_events s1). mfe_idempotency_key e \<noteq> pc_idempotency_key pc" using ev by (simp add: s1)
  from ensure_event_new [OF this] obtain e where e: "ensure_payment_money_flow_event ?w i p ?ten (Some (tx_id t)) (pc_idempotency_key pc) s1 =
     (Inr (e, True), s1\<lparr>tick := Suc (tick s1), money_flow_events := money_flow_events s1 @ [e]\<rparr>)"
    and pe: "payment_event i p (pc_idempotency_key pc) e" by blast
  define s2 where "s2 = s1\<lparr>tick := Suc (tick s1), money_flow_events := money_flow_events s1 @ [e]\<rparr>"
  define q where "q = \<lparr>aq_source_type = SRC_PAYMENT, aq_source_id = pay_id p, aq_amount = pc_amount pc,
         aq_currency = pc_currency pc, aq_applied_at = Some (pay_created_at p)\<rparr>"
  have "\<exists>i' a s' now l r. settle_payment env base pc i p s2 = (Inr i', s') \<and>
    moved i (finance_update (paid_status (pc_amount pc) i) ?rc) (pay_amounts (pc_amount pc)) now i' \<and>
    allocated ?w ?rc i' q a (s2\<lparr>tick := tick s2 + 4, audit_log := audit_log s2 @ [r],
      invoices := store_row inv_id i' (invoices s2), invoice_transition_logs := invoice_transition_logs s2 @ [l]\<rparr>) s'"
  proof (rule settle_payment_run [OF w _ _ _ pay _ _ q_def])
    show "period_table_ok ?w s2" by (rule period_table_ok_frame [OF per]) (use n in \<open>simp_all add: s2_def s1\<close>)
    show "adhoc_unlocked s2" "keys_unique s2" using ad ku by (simp_all add: adhoc_unlocked_def keys_unique_def s2_def s1)
  qed (use new before in \<open>simp_all add: s2_def s1 settled_def Let_def\<close>)
  then obtain i' a s3 now l r2 where settle: "settle_payment env base pc i p s2 = (Inr i', s3)"
    and m: "moved i (finance_update (paid_status (pc_amount pc) i) ?rc) (pay_amounts (pc_amount pc)) now i'"
    and al: "allocated ?w ?rc i' q a (s2\<lparr>tick := tick s2 + 4, audit_log := audit_log s2 @ [r2],
      invoices := store_row inv_id i' (invoices s2), invoice_transition_logs := invoice_transition_logs s2 @ [l]\<rparr>) s3"
    by (elim exE conjE) (rule that)
  note f = payable_moved [OF pay m]
  define u where "u = s2\<lparr>tick := tick s2 + 4, audit_log := audit_log s2 @ [r2],
      invoices := store_row inv_id i' (invoices s2), invoice_transition_logs := invoice_transition_logs s2 @ [l]\<rparr>"
  obtain k log pds nodes edges z where s3': "s3 = u\<lparr>tick := k, audit_log := audit_log u @ log,
      allocations := allocations u @ [a], billing_periods := billing_periods u @ pds,
      legal_nodes := nodes, legal_edges := edges\<rparr>"
    and k': "tick u \<le> z" "z < k" "sa_id a = uuid_at ?w z" "\<forall>p\<in>set pds. bp_status p = OPEN" and per3: "period_table_ok ?w s3"
    and a: "allocation_for ?rc i' q a"
    by (rule allocatedE [OF al [folded u_def]])
  have k: "tick s2 + 4 \<le> z" "z < k" "sa_id a = uuid_at ?w z" "\<forall>p\<in>set pds. bp_status p = OPEN"
    using k' by (simp_all add: u_def)
  note s3 = s3' u_def
  have tk: "tick s \<le> z" "tick s \<le> k" using k n by (simp_all add: s2_def s1)
  have a': "sa_invoice_id a = inv_id i" "alloc_key a = (SRC_PAYMENT, pay_id p)" "sa_amount a = pc_amount pc"
      "sa_currency a = pc_currency pc" "sa_source_type a = SRC_PAYMENT" "sa_source_id a = pay_id p"
    using a f(8) by (simp_all add: allocation_for_def alloc_key_def q_def)
  have set3: "settled i' s3"
    by (rule settled_after_allocation [OF before _ f(8), where a = a and p = p]) (use rows f(6) a' in \<open>simp_all add: s3 s2_def s1\<close>)
  have rec: "reconcile_invoice_allocations env ?rc ''payment_apply'' (Some (pc_idempotency_key pc)) (inv_id i') s3 = (Inr (), s3)"
  proof (rule reconcile_settled [OF _ _ _ set3])
    show "distinct (map inv_id (invoices s3))" using inv(1) by (simp add: s3 s2_def s1)
    show "i' \<in> set (invoices s3)" using store_row_mem [OF inv(2), of inv_id i'] f(8) by (simp add: s3 s2_def s1)
    have "alloc_key a \<notin> alloc_key ` set (invoice_allocations (inv_id i) (allocations s))"
      using new a'(2) by (auto simp: invoice_allocations_def same_source_def alloc_key_def)
    then show "distinct (map alloc_key (invoice_allocations (inv_id i') (allocations s3)))"
      using dist f(8) a'(1) by (simp add: s3 s2_def s1 invoice_allocations_def)
  qed
  obtain j where j: "finish_job ?w run (pc_invoice_id pc) (pc_amount pc) (pc_currency pc) ''payment_id'' (pay_id p) i' s3 =
      (Inr j, s3\<lparr>tick := Suc (tick s3), billing_job_runs := store_row jr_id j (billing_job_runs s3)\<rparr>)"
    using finish_job_effect by blast
  define s4 where "s4 = s3\<lparr>tick := Suc (tick s3), billing_job_runs := store_row jr_id j (billing_job_runs s3)\<rparr>"
  have run: "book_payment env base pc run i p s = (Inr \<lparr>prs_payment = p, prs_invoice = i', prs_is_replay = False\<rparr>, s4)"
    unfolding book_payment_def Let_def s4_def
    using post e settle rec j by (simp add: and_then_apply look s2_def)
  have "ledger_ok ?w s4" by (rule ledger_ok_frame [OF led1]) (use k in \<open>simp_all add: s4_def s3 s2_def\<close>)
  moreover have "period_table_ok ?w s4" by (rule period_table_ok_frame [OF per3]) (simp_all add: s4_def)
  moreover have "settled i' s4" using set3 by (simp add: settled_def s4_def)
  moreover have "adhoc_unlocked s4" using ad k(4) by (auto simp: adhoc_unlocked_def s4_def s3 s2_def s1)
  moreover have "payment_booked pc i p i' s s4"
    unfolding payment_booked_def using a' pe t k(2,3) tk by (auto simp: s4_def s3 s2_def s1)
  moreover have "invoice_payments s4 = invoice_payments s" "tick s \<le> tick s4" using tk by (simp_all add: s4_def s3 s2_def s1)
  ultimately show ?thesis using run m by blast
qed

end
