(* ===== verification/Payment_Properties.thy ===== *)
theory Payment_Properties
  imports Payment_Steps
begin

text \<open>
  What \<open>apply_payment\<close> promises: an admissible payment always succeeds and books the same amount in the
  invoice, the internal ledger, the settlement allocations and the money flow; a repeated call
  replays it; a payment never exceeds what is due; a refused payment leaves no trace.
\<close>

section \<open>The books\<close>

text \<open>
  The invariant of the finance tables: the ledger and the period table are in order, keys are unique,
  and the identifiers that allocations and ledger transactions refer to were drawn before.
\<close>

definition fin_ok :: "world \<Rightarrow> 'a fin_db_scheme \<Rightarrow> bool" where
  "fin_ok w s \<longleftrightarrow> ledger_ok w s \<and> period_table_ok w s \<and> adhoc_unlocked s \<and>
     distinct (map inv_id (invoices s)) \<and> ids_below w (tick s) (map pay_id (invoice_payments s)) \<and>
     distinct (map pay_idempotency_key (invoice_payments s)) \<and> ids_below w (tick s) (map cn_id (credit_notes s)) \<and>
     distinct (refund_request_ids s) \<and> distinct (map mfe_idempotency_key (money_flow_events s)) \<and>
     distinct (map (\<lambda>a. (sa_invoice_id a, alloc_key a)) (allocations s)) \<and>
     (\<forall>a\<in>set (allocations s). known_id w (tick s) (sa_source_id a)) \<and>
     (\<forall>t\<in>set (il_transactions s). tx_external_ref_type t = ''PAYMENT'' \<longrightarrow> known_id w (tick s) (tx_external_ref_id t))"

definition books_ok :: "world \<Rightarrow> 'a fin_db_scheme \<Rightarrow> bool" where
  "books_ok w s \<longleftrightarrow> fin_ok w s \<and> (\<forall>i\<in>set (invoices s). settled i s)"

lemma fin_okD:
  assumes "fin_ok w s"
  shows "ledger_ok w s" "period_table_ok w s" "adhoc_unlocked s" "distinct (map inv_id (invoices s))"
    "ids_below w (tick s) (map pay_id (invoice_payments s))" "distinct (map pay_idempotency_key (invoice_payments s))"
    "distinct (map mfe_idempotency_key (money_flow_events s))" "keys_unique s"
    "distinct (map (\<lambda>a. (sa_invoice_id a, alloc_key a)) (allocations s))"
    "a \<in> set (allocations s) \<Longrightarrow> known_id w (tick s) (sa_source_id a)"
    "t \<in> set (il_transactions s) \<Longrightarrow> tx_external_ref_type t = ''PAYMENT'' \<Longrightarrow> known_id w (tick s) (tx_external_ref_id t)"
    "ids_below w (tick s) (map cn_id (credit_notes s))"
  using assms by (simp_all add: fin_ok_def keys_unique_def ids_below_def)

lemma distinct_pair_filter:
  "distinct (map (\<lambda>a. (f a, g a)) xs) \<Longrightarrow> distinct (map g (filter (\<lambda>a. f a = c) xs))"
  by (induction xs) (auto simp: image_iff)

lemma fin_ok_alloc_keys:
  "fin_ok w s \<Longrightarrow> distinct (map alloc_key (invoice_allocations i (allocations s)))"
  unfolding invoice_allocations_def by (rule distinct_pair_filter) (rule fin_okD(9))

text \<open>An invoice that another invoice's payment does not touch stays settled.\<close>

lemma settled_other:
  assumes "settled j s" and "inv_id j \<noteq> k" and "invoice_payments s' = invoice_payments s @ ps"
    and "allocations s' = allocations s @ as" and "credit_notes s' = credit_notes s @ cs"
    and "\<forall>p\<in>set ps. pay_invoice_id p = k" and "\<forall>a\<in>set as. sa_invoice_id a = k" and "\<forall>c\<in>set cs. cn_invoice_id c = k"
  shows "settled j s'"
proof -
  have "filter (\<lambda>a. sa_invoice_id a = inv_id j) as = []" using assms(2,7) by (auto simp: filter_empty_conv)
  then have "invoice_allocations (inv_id j) (allocations s') = invoice_allocations (inv_id j) (allocations s)"
    using assms(4) by (simp add: invoice_allocations_def)
  with assms show ?thesis by (auto simp: settled_def Let_def)
qed

section \<open>Admissible payments\<close>

definition period_closed :: "invoice \<Rightarrow> 'a fin_db_scheme \<Rightarrow> bool" where
  "period_closed i s \<longleftrightarrow> str_truthy (inv_billing_period_id i) \<longrightarrow>
     (\<exists>p\<in>set (billing_periods s). Some (bp_id p) = inv_billing_period_id i \<and> bp_status p \<in> {FINALIZED, LOCKED})"

text \<open>No payment, event or ledger transaction carries the key of the call, and its reference is free.\<close>

definition fresh_call :: "world \<Rightarrow> payment_call \<Rightarrow> 'a fin_db_scheme \<Rightarrow> bool" where
  "fresh_call w pc s \<longleftrightarrow>
     (\<forall>e\<in>set (money_flow_events s). mfe_idempotency_key e \<noteq> pc_idempotency_key pc) \<and>
     (\<forall>p\<in>set (invoice_payments s). pay_idempotency_key p \<noteq> pc_idempotency_key pc) \<and>
     (pc_external_ref pc \<noteq> None \<longrightarrow> (\<forall>p\<in>set (invoice_payments s). \<not> (pay_external_ref p = pc_external_ref pc \<and>
        case_option [] id (pay_provider p) = case_option [] id (pc_provider pc)))) \<and>
     (\<forall>t\<in>set (il_transactions s). tx_idempotency_key t \<noteq>
        normalize_key w ''ledger:'' 128 (''payment:'' @ pc_idempotency_key pc @ '':applied:v1''))"

definition admissible :: "'a fin_env \<Rightarrow> payment_call \<Rightarrow> invoice \<Rightarrow> 'a fin_db_scheme \<Rightarrow> bool" where
  "admissible env call i s \<longleftrightarrow>
     (let pc = normalized_call (fe_world env) call in
      sane_world (fe_world env) \<and> books_ok (fe_world env) s \<and> i \<in> set (invoices s) \<and> inv_id i = pc_invoice_id pc \<and>
      payable (pc_amount pc) i \<and> period_closed i s \<and> finance_role (pc_token pc) \<and> fresh_call (fe_world env) pc s \<and>
      lock_acquired env ''finance_payment'' (pc_idempotency_key pc))"

lemma period_query:
  assumes "distinct (map bp_id (billing_periods s))"
  shows "\<exists>x. one_or_none (\<lambda>p. Some (bp_id p) = inv_billing_period_id i) (billing_periods s) = Inr x"
proof (cases "inv_billing_period_id i")
  case (Some k)
  then show ?thesis using one_or_none_unique_total [OF assms, of k] by simp
qed (simp add: one_or_none_def)

lemma require_settlement_period_pass:
  assumes "distinct (map bp_id (billing_periods s))" and "period_closed i s"
  shows "require_settlement_period i s = (Inr (), s)"
proof (cases "str_truthy (inv_billing_period_id i)")
  case True
  with assms(2) obtain p where p: "p \<in> set (billing_periods s)" "Some (bp_id p) = inv_billing_period_id i"
    "bp_status p \<in> {FINALIZED, LOCKED}" by (auto simp: period_closed_def)
  have "one_or_none (\<lambda>x. Some (bp_id x) = inv_billing_period_id i) (billing_periods s) = Inr (Some p)"
    using one_or_none_unique_key [OF assms(1) p(1)] by (simp flip: p(2))
  then show ?thesis using True p(3) by (simp add: require_settlement_period_def and_then_apply)
qed (simp add: require_settlement_period_def)

lemma invoice_policy_pass:
  assumes "distinct (map bp_id (billing_periods s))" and "finance_role tok" and "action \<in> {PAYMENT_APPLY, CREDIT_NOTE_CREATE}"
  shows "enforce_invoice_policy w tok action i s = (Inr (), s)"
proof -
  have "\<exists>res. policy_resource_for_invoice i (ac_tenant_id (actor_from_token tok)) s = (Inr res, s)"
    using period_query [OF assms(1), of i] by (auto simp: policy_resource_for_invoice_def and_then_apply)
  then show ?thesis
    using assms(2,3) finance_role_decides
    by (auto simp: enforce_invoice_policy_def and_then_apply intro!: enforce_policy_allowed)
qed

lemma no_existing_payment:
  assumes "fresh_call w pc s"
  shows "resolve_existing_payment base pc s = (Inr None, s)"
proof -
  have ref: "one_or_none (by_reference (pc_external_ref pc) (pc_provider pc)) (invoice_payments s) = Inr None"
    if "str_truthy (pc_external_ref pc)"
    using assms that by (auto simp: fresh_call_def by_reference_def str_truthy_def)
  have key: "one_or_none (\<lambda>p. pay_idempotency_key p = pc_idempotency_key pc) (invoice_payments s) = Inr None"
    using assms by (simp add: fresh_call_def)
  show ?thesis unfolding resolve_existing_payment_def
    by (rule catching_Inr) (simp add: and_then_apply ref key)
qed

lemma no_replayed_event:
  assumes "fresh_call w pc s"
  shows "replay_from_money_flow_event env base pc s = (Inr None, s)"
proof -
  have key: "one_or_none (\<lambda>e. mfe_idempotency_key e = pc_idempotency_key pc) (money_flow_events s) = Inr None"
    using assms by (simp add: fresh_call_def)
  show ?thesis unfolding replay_from_money_flow_event_def resolve_payment_money_flow_event_def
    by (rule catching_Inr) (simp add: and_then_apply key)
qed

lemma admissible_parts:
  assumes "admissible env call i s" and "pc = normalized_call (fe_world env) call" and "w = fe_world env"
  shows "sane_world w" "fin_ok w s" "\<forall>j\<in>set (invoices s). settled j s" "i \<in> set (invoices s)"
    "inv_id i = pc_invoice_id pc" "payable (pc_amount pc) i" "period_closed i s" "finance_role (pc_token pc)"
    "fresh_call w pc s" "lock_acquired env ''finance_payment'' (pc_idempotency_key pc)"
  using assms by (simp_all add: admissible_def books_ok_def Let_def)

lemma check_payment_rules_pass:
  assumes "payable (pc_amount pc) i"
  shows "check_payment_rules env base pc i s = (Inr (), s)"
proof -
  have "validate_invoice i = []" "validate_payment_application i (pc_amount pc) = []"
    using assms by (auto simp: payable_def validate_payment_Nil)
  then show ?thesis by (simp add: check_payment_rules_def Let_def)
qed

lemma apply_payment_reaches_insert:
  assumes adm: "admissible env call i s" and pc: "pc = normalized_call (fe_world env) call"
  shows "\<exists>run. apply_payment env base call s = insert_payment env base pc run i
    (s\<lparr>tick := tick s + 3, billing_job_runs := billing_job_runs s @ [run]\<rparr>)"
proof -
  note a = admissible_parts [OF adm pc refl]
  note per = period_table_okD(2) [OF fin_okD(2) [OF a(2)]]
  obtain run where run: "start_job (fe_world env) (payment_job pc) s =
      (Inr run, s\<lparr>tick := tick s + 3, billing_job_runs := billing_job_runs s @ [run]\<rparr>)"
    using start_job_effect by blast
  have "apply_payment_locked env base pc s = insert_payment env base pc run i
      (s\<lparr>tick := tick s + 3, billing_job_runs := billing_job_runs s @ [run]\<rparr>)"
    unfolding apply_payment_locked_def
    using lock_invoice_found [OF fin_okD(4) [OF a(2)] a(4)] a(5) run
    by (simp add: invoice_policy_pass [OF per a(8)] no_existing_payment [OF a(9)] check_payment_rules_pass [OF a(6)]
        require_settlement_period_pass [OF per a(7)])
  then have "apply_payment env base call s = insert_payment env base pc run i
      (s\<lparr>tick := tick s + 3, billing_job_runs := billing_job_runs s @ [run]\<rparr>)"
    unfolding apply_payment_def Let_def pc [symmetric]
    using a(10) by (simp add: no_replayed_event [OF a(9)] no_existing_payment [OF a(9)])
  then show ?thesis by blast
qed

lemma payment_request_key:
  "key_used w (payment_request i p tenant) txs \<longleftrightarrow>
     (\<exists>t\<in>set txs. tx_idempotency_key t = normalize_key w ''ledger:'' 128 (''payment:'' @ pay_idempotency_key p @ '':applied:v1''))"
  by (simp add: key_used_def payment_request_def)

lemma new_payment_fields [simp]:
  "pay_id (new_payment w pc x c) = x" "pay_invoice_id (new_payment w pc x c) = pc_invoice_id pc"
  "pay_amount (new_payment w pc x c) = pc_amount pc" "pay_currency (new_payment w pc x c) = pc_currency pc"
  "pay_provider (new_payment w pc x c) = pc_provider pc" "pay_external_ref (new_payment w pc x c) = pc_external_ref pc"
  "pay_idempotency_key (new_payment w pc x c) = pc_idempotency_key pc"
  by (simp_all add: new_payment_def)

lemma payment_booked_frame:
  assumes "payment_booked pc i p i' s1 s'" and "invoices s1 = invoices s" "credit_notes s1 = credit_notes s"
    "refund_request_ids s1 = refund_request_ids s" "allocations s1 = allocations s"
    "money_flow_events s1 = money_flow_events s" "il_transactions s1 = il_transactions s"
  shows "payment_booked pc i p i' s s'"
  using assms unfolding payment_booked_def by simp

text \<open>The whole run of an admissible payment.\<close>

lemma apply_payment_run:
  assumes adm: "admissible env call i s" and pc: "pc = normalized_call (fe_world env) call"
  shows "\<exists>p i' s' now c. apply_payment env base call s = (Inr \<lparr>prs_payment = p, prs_invoice = i', prs_is_replay = False\<rparr>, s') \<and>
    p = new_payment (fe_world env) pc (uuid_at (fe_world env) (tick s + 3)) c \<and>
    moved i (finance_update (paid_status (pc_amount pc) i) (pc_request_ctx pc)) (pay_amounts (pc_amount pc)) now i' \<and>
    payment_booked pc i p i' s s' \<and> invoice_payments s' = invoice_payments s @ [p] \<and> settled i' s' \<and>
    ledger_ok (fe_world env) s' \<and> period_table_ok (fe_world env) s' \<and> adhoc_unlocked s' \<and> tick s + 5 \<le> tick s'"
proof -
  let ?w = "fe_world env"
  note a = admissible_parts [OF adm pc refl]
  obtain run where reach: "apply_payment env base call s = insert_payment env base pc run i
    (s\<lparr>tick := tick s + 3, billing_job_runs := billing_job_runs s @ [run]\<rparr>)"
    using apply_payment_reaches_insert [OF adm pc] by blast
  define c where "c = time_at ?w (tick s + 4)"
  define p where "p = new_payment ?w pc (uuid_at ?w (tick s + 3)) c"
  define s1 where "s1 = s\<lparr>billing_job_runs := billing_job_runs s @ [run], tick := tick s + 5,
    invoice_payments := invoice_payments s @ [p]\<rparr>"
  have noconf: "\<not> payment_conflict p (invoice_payments s)"
    using a(9) by (auto simp: payment_conflict_def fresh_call_def p_def)
  have ins: "apply_payment env base call s = book_payment env base pc run i p s1"
    unfolding reach insert_payment_def Let_def
    using noconf by (simp add: and_then_apply p_def c_def s1_def eval_nat_numeral)
  have f: "p = new_payment ?w pc (uuid_at ?w (tick s + 3)) c" by (rule p_def)
  have "\<exists>i' s' now. book_payment env base pc run i p s1 =
      (Inr \<lparr>prs_payment = p, prs_invoice = i', prs_is_replay = False\<rparr>, s') \<and>
    moved i (finance_update (paid_status (pc_amount pc) i) (pc_request_ctx pc)) (pay_amounts (pc_amount pc)) now i' \<and>
    payment_booked pc i p i' s1 s' \<and> invoice_payments s' = invoice_payments s1 \<and> settled i' s' \<and>
    ledger_ok ?w s' \<and> period_table_ok ?w s' \<and> adhoc_unlocked s' \<and> tick s1 \<le> tick s'"
  proof (rule book_payment_run [OF a(1), where ps = "invoice_payments s"])
    show "ledger_ok ?w s1" by (rule ledger_ok_frame [OF fin_okD(1) [OF a(2)]]) (simp_all add: s1_def)
    show "period_table_ok ?w s1" by (rule period_table_ok_frame [OF fin_okD(2) [OF a(2)]]) (simp_all add: s1_def)
    show "adhoc_unlocked s1" using fin_okD(3) [OF a(2)] by (simp add: adhoc_unlocked_def s1_def)
    have "uuid_at ?w (tick s + 3) \<notin> set (map pay_id (invoice_payments s))"
      by (rule uuid_fresh [OF a(1) fin_okD(5) [OF a(2)]]) simp
    then show "keys_unique s1" using fin_okD(8) [OF a(2)] by (simp add: keys_unique_def s1_def p_def)
    show "\<forall>t\<in>set (il_transactions s1). \<not> has_external_ref ''PAYMENT'' (pay_id p) t"
      using known_id_fresh [OF a(1) fin_okD(11) [OF a(2)], where m = "tick s + 3"]
      by (auto simp: has_external_ref_def s1_def p_def)
    show "\<forall>x\<in>set (allocations s1). \<not> same_source (inv_id i) SRC_PAYMENT (pay_id p) x"
      using known_id_fresh [OF a(1) fin_okD(10) [OF a(2)], where m = "tick s + 3"]
      by (auto simp: same_source_def s1_def p_def)
    show "distinct (map alloc_key (invoice_allocations (inv_id i) (allocations s1)))"
      using fin_ok_alloc_keys [OF a(2)] by (simp add: s1_def)
    show "\<not> key_used ?w (payment_request i p (resolve_tenant_id (pc_request_ctx pc))) (il_transactions s1)"
      using a(9) by (simp add: payment_request_key fresh_call_def p_def s1_def)
    show "settled i (s1\<lparr>invoice_payments := invoice_payments s\<rparr>)"
      using a(3,4) by (simp add: settled_def s1_def)
  qed (use a fin_okD(4) [OF a(2)] in \<open>simp_all add: s1_def p_def fresh_call_def\<close>)
  then obtain i' s' now where b: "book_payment env base pc run i p s1 =
      (Inr \<lparr>prs_payment = p, prs_invoice = i', prs_is_replay = False\<rparr>, s')"
    "moved i (finance_update (paid_status (pc_amount pc) i) (pc_request_ctx pc)) (pay_amounts (pc_amount pc)) now i'"
    "payment_booked pc i p i' s1 s'" "invoice_payments s' = invoice_payments s1" "settled i' s'"
    "ledger_ok ?w s'" "period_table_ok ?w s'" "adhoc_unlocked s'" "tick s1 \<le> tick s'"
    by (elim exE conjE) (rule that)
  have "payment_booked pc i p i' s s'" by (rule payment_booked_frame [OF b(3)]) (simp_all add: s1_def)
  moreover have "invoice_payments s' = invoice_payments s @ [p]" "tick s + 5 \<le> tick s'" using b(4,9) by (simp_all add: s1_def)
  ultimately show ?thesis using ins b f by auto
qed

lemma booked_fin_ok:
  assumes w: "sane_world w" and ok: "fin_ok w s" and fresh: "fresh_call w pc s"
    and p: "p = new_payment w pc (uuid_at w m) c" "tick s \<le> m" "m < tick s'"
    and b: "payment_booked pc i p i' s s'" and rows: "invoice_payments s' = invoice_payments s @ [p]"
    and led: "ledger_ok w s'" and per: "period_table_ok w s'" and ad: "adhoc_unlocked s'"
  shows "fin_ok w s'"
proof -
  from b obtain a e t where a: "allocations s' = allocations s @ [a]" "alloc_key a = (SRC_PAYMENT, pay_id p)"
    and e: "money_flow_events s' = money_flow_events s @ [e]" "mfe_idempotency_key e = pc_idempotency_key pc"
    and t: "il_transactions s' = il_transactions s @ [t]" "tx_external_ref_id t = pay_id p"
    and same: "invoices s' = store_row inv_id i' (invoices s)" "credit_notes s' = credit_notes s"
      "refund_request_ids s' = refund_request_ids s"
    by (auto simp: payment_booked_def alloc_key_def payment_event_def has_external_ref_def)
  have le: "tick s \<le> tick s'" using p by simp
  have new: "known_id w (tick s') (pay_id p)" using p by (auto simp: known_id_def)
  have "ids_below w (tick s') (map pay_id (invoice_payments s'))"
    using ids_below_snoc [OF w fin_okD(5) [OF ok] p(2,3)] p(1) rows by simp
  moreover have "ids_below w (tick s') (map cn_id (credit_notes s'))"
    using ids_below_mono [OF fin_okD(12) [OF ok] le] same by simp
  moreover have "distinct (map (\<lambda>a. (sa_invoice_id a, alloc_key a)) (allocations s'))"
  proof -
    have "\<forall>x\<in>set (allocations s). sa_source_id x \<noteq> pay_id p"
      using known_id_fresh [OF w fin_okD(10) [OF ok] p(2)] p(1) by simp
    then have "(sa_invoice_id a, alloc_key a) \<notin> (\<lambda>x. (sa_invoice_id x, alloc_key x)) ` set (allocations s)"
      using a(2) by (auto simp: alloc_key_def)
    then show ?thesis using fin_okD(9) [OF ok] a(1) by simp
  qed
  moreover have "\<forall>x\<in>set (allocations s'). known_id w (tick s') (sa_source_id x)"
    using known_id_mono [OF fin_okD(10) [OF ok] le] new a by (auto simp: alloc_key_def)
  moreover have "\<forall>x\<in>set (il_transactions s'). tx_external_ref_type x = ''PAYMENT'' \<longrightarrow> known_id w (tick s') (tx_external_ref_id x)"
    using known_id_mono [OF fin_okD(11) [OF ok] le] new t by auto
  moreover have "distinct (map pay_idempotency_key (invoice_payments s'))" "distinct (map mfe_idempotency_key (money_flow_events s'))"
    using fin_okD(6,7) [OF ok] fresh rows e p(1) by (auto simp: fresh_call_def)
  ultimately show ?thesis
    using led per ad fin_okD(4) [OF ok] ok same unfolding fin_ok_def by simp
qed

lemma apply_payment_books:
  assumes adm: "admissible env call i s" and pc: "pc = normalized_call (fe_world env) call"
  shows "\<exists>p i' s'. apply_payment env base call s = (Inr \<lparr>prs_payment = p, prs_invoice = i', prs_is_replay = False\<rparr>, s') \<and>
    (\<exists>x c. p = new_payment (fe_world env) pc x c) \<and>
    (\<exists>now. moved i (finance_update (paid_status (pc_amount pc) i) (pc_request_ctx pc)) (pay_amounts (pc_amount pc)) now i') \<and>
    payment_booked pc i p i' s s' \<and> invoice_payments s' = invoice_payments s @ [p] \<and> books_ok (fe_world env) s'"
proof -
  note a = admissible_parts [OF adm pc refl]
  obtain p i' s' now c where r: "apply_payment env base call s = (Inr \<lparr>prs_payment = p, prs_invoice = i', prs_is_replay = False\<rparr>, s')"
    "p = new_payment (fe_world env) pc (uuid_at (fe_world env) (tick s + 3)) c"
    "moved i (finance_update (paid_status (pc_amount pc) i) (pc_request_ctx pc)) (pay_amounts (pc_amount pc)) now i'"
    "payment_booked pc i p i' s s'" "invoice_payments s' = invoice_payments s @ [p]" "settled i' s'"
    "ledger_ok (fe_world env) s'" "period_table_ok (fe_world env) s'" "adhoc_unlocked s'" "tick s + 5 \<le> tick s'"
    using apply_payment_run [OF adm pc, of base] by (elim exE conjE) (rule that)
  have ok: "fin_ok (fe_world env) s'"
    by (rule booked_fin_ok [OF a(1,2,9) r(2) _ _ r(4,5,7,8,9)]) (use r(10) in simp_all)
  have "settled j s'" if j: "j \<in> set (invoices s')" for j
  proof -
    from r(4) have inv: "invoices s' = store_row inv_id i' (invoices s)"
      and cn: "credit_notes s' = credit_notes s @ []" by (simp_all add: payment_booked_def)
    from r(4) obtain al where al: "allocations s' = allocations s @ [al]" "sa_invoice_id al = inv_id i"
      unfolding payment_booked_def by blast
    from set_store_rowD [of j inv_id i' "invoices s"] j inv
    consider "j = i'" | "j \<in> set (invoices s)" "inv_id j \<noteq> inv_id i'" by auto
    then show ?thesis
    proof cases
      case 2
      have id: "inv_id i' = inv_id i" by (rule moved_fields(1) [OF r(3)])
      show ?thesis
        by (rule settled_other [OF _ _ r(5) al(1) cn, where k = "inv_id i"])
          (use 2 a(3,5) al(2) id r(2) in simp_all)
    qed (use r(6) in simp)
  qed
  with ok r show ?thesis unfolding books_ok_def by blast
qed

section \<open>Properties\<close>


definition ref_env :: "unit fin_env" where
  "ref_env = \<lparr>fe_world = ref_world, fe_tz_rules = utc_rules, fe_tz = ''UTC'', fe_decide = allow_all,
     fe_client = local_session 1, fe_locks = \<lparr>pg_owner = Map.empty, local_held = []\<rparr>, fe_error_text = (\<lambda>_. ''error'')\<rparr>"

definition open_invoice :: invoice where
  "open_invoice = ref_invoice\<lparr>inv_billing_period_id := Some ''a''\<rparr>"

definition ref_books :: fin_db where
  "ref_books = empty_fin_db\<lparr>tick := 2, invoices := [open_invoice],
     billing_periods := [(new_period ''a'' MONTHLY 0 (30 * day_us - 1) ''UTC'')\<lparr>bp_status := FINALIZED\<rparr>]\<rparr>"

definition ref_call :: "int \<Rightarrow> payment_call" where
  "ref_call x = \<lparr>pc_invoice_id = ''inv-1'', pc_amount = x, pc_currency = ''RUB'', pc_idempotency_key = ''k-1'',
     pc_external_ref = Some ''bank-1'', pc_provider = None, pc_request_ctx = None, pc_token = finance_admin\<rparr>"

lemma ref_books_ok: "books_ok ref_world ref_books"
proof -
  have "ids_below ref_world 2 [''a'']"
    unfolding ids_below_def by (simp add: ref_world_def) (rule exI [of _ 1], simp)
  then have "fin_ok ref_world ref_books"
    by (simp add: fin_ok_def ledger_ok_empty period_table_ok_def adhoc_unlocked_def ref_books_def empty_fin_db_def
        new_period_def)
  moreover have "\<forall>i\<in>set (invoices ref_books). settled i ref_books"
    by (simp add: settled_def ref_books_def empty_fin_db_def invoice_allocations_def alloc_net_def alloc_total_def
        net_coverage_def open_invoice_def ref_invoice_def)
  ultimately show ?thesis by (simp add: books_ok_def)
qed

lemma ref_normalized: "normalized_call ref_world (ref_call x) = ref_call x"
  by (simp add: normalized_call_def ref_call_def normalize_key_def normalize_key_optional_def)

lemma ref_admissible: "0 < x \<Longrightarrow> x \<le> 1200 \<Longrightarrow> admissible ref_env (ref_call x) open_invoice ref_books"
proof -
  assume x: "0 < x" "x \<le> 1200"
  have "payable x open_invoice" using x
    by (simp add: payable_def validate_invoice_Nil open_invoice_def ref_invoice_def)
  moreover have "period_closed open_invoice ref_books"
    by (simp add: period_closed_def open_invoice_def ref_books_def new_period_def)
  moreover have "finance_role finance_admin" by (simp add: finance_role_def finance_admin_roles)
  moreover have "lock_acquired ref_env job key" for job key
    by (simp add: lock_acquired_def ref_env_def enter_lock_def try_pg_lock_def local_session_def Let_def)
  moreover have "fresh_call ref_world (ref_call x) ref_books"
    by (simp add: fresh_call_def ref_books_def empty_fin_db_def)
  moreover have w: "fe_world ref_env = ref_world" by (simp add: ref_env_def)
  ultimately show ?thesis unfolding admissible_def w ref_normalized Let_def
    using ref_books_ok ref_world_sane by (simp add: ref_call_def ref_books_def open_invoice_def ref_invoice_def)
qed


subsection \<open>Replays\<close>

lemma replay_of_booked:
  assumes ok: "fin_ok (fe_world env) s" and p: "p \<in> set (invoice_payments s)" "p = new_payment (fe_world env) pc x c"
    and e: "e \<in> set (money_flow_events s)" "payment_event i p (pc_idempotency_key pc) e"
    and inv: "i' \<in> set (invoices s)" "inv_id i' = pc_invoice_id pc"
  shows "replay_from_money_flow_event env base pc s = (Inr (Some (replay_result p i')), s)"
proof -
  have key: "one_or_none (\<lambda>x. mfe_idempotency_key x = pc_idempotency_key pc) (money_flow_events s) = Inr (Some e)"
    using one_or_none_unique_key [OF fin_okD(7) [OF ok] e(1)] e(2) by (simp add: payment_event_def)
  have by_key: "one_or_none (\<lambda>x. pay_idempotency_key x = pc_idempotency_key pc) (invoice_payments s) = Inr (Some p)"
    using one_or_none_unique_key [OF fin_okD(6) [OF ok] p(1)] p(2) by simp
  have "distinct (map pay_id (invoice_payments s))" using fin_okD(8) [OF ok] by (simp add: keys_unique_def)
  from one_or_none_unique_key [OF this p(1)]
  have by_id: "one_or_none (\<lambda>x. pay_id x = pay_id p) (invoice_payments s) = Inr (Some p)" .
  have ev: "event_payment_id e = str_or_none (Some (pay_id p))" using e(2) by (simp add: payment_event_def)
  have res: "resolve_payment_from_event e (pc_idempotency_key pc) s = (Inr (Some p), s)"
    by (simp add: resolve_payment_from_event_def ev str_or_none_def and_then_apply by_id by_key)
  have lock: "lock_invoice (pc_invoice_id pc) s = (Inr i', s)"
    using lock_invoice_found [OF fin_okD(4) [OF ok] inv(1)] inv(2) by simp
  have own: "pay_invoice_id p = pc_invoice_id pc" by (simp add: p(2))
  have val: "validate_payment_replay (fe_world env) pc p = Inr ()"
    by (simp add: validate_payment_replay_def p(2) new_payment_def)
  show ?thesis
    unfolding replay_from_money_flow_event_def resolve_payment_money_flow_event_def
    by (rule catching_Inr) (simp add: and_then_apply key res lock val own)
qed

text \<open>C4. A payment is applied once. After an admissible payment has been booked, every further call with the same
  arguments returns the same payment and the same invoice, marked as a replay, and changes nothing,
  however often the client retries.\<close>

theorem apply_payment_idempotent:
  assumes "admissible env call i s"
  shows "\<exists>r s'. apply_payment env base call s = (Inr r, s') \<and>
    retried (Suc n) (apply_payment env base call) s = (Inr (r\<lparr>prs_is_replay := True\<rparr>), s')"
proof -
  let ?pc = "normalized_call (fe_world env) call"
  note a = admissible_parts [OF assms refl refl]
  obtain p i' s' x c now where r: "apply_payment env base call s = (Inr \<lparr>prs_payment = p, prs_invoice = i', prs_is_replay = False\<rparr>, s')"
    "p = new_payment (fe_world env) ?pc x c"
    "moved i (finance_update (paid_status (pc_amount ?pc) i) (pc_request_ctx ?pc)) (pay_amounts (pc_amount ?pc)) now i'"
    "payment_booked ?pc i p i' s s'" "invoice_payments s' = invoice_payments s @ [p]" "books_ok (fe_world env) s'"
    using apply_payment_books [OF assms refl, of base] by (elim exE conjE) (rule that)
  from r(4) obtain e where e: "money_flow_events s' = money_flow_events s @ [e]" "payment_event i p (pc_idempotency_key ?pc) e"
    and inv: "invoices s' = store_row inv_id i' (invoices s)" unfolding payment_booked_def by blast
  have id: "inv_id i' = inv_id i" by (rule moved_fields(1) [OF r(3)])
  have again: "apply_payment env base call s' = (Inr (replay_result p i'), s')"
  proof -
    have "replay_from_money_flow_event env base ?pc s' = (Inr (Some (replay_result p i')), s')"
      by (rule replay_of_booked [OF _ _ r(2) _ e(2)])
        (use r(5,6) e(1) inv a(4,5) id store_row_mem [of i "invoices s" inv_id i'] in \<open>simp_all add: books_ok_def\<close>)
    then show ?thesis by (simp add: apply_payment_def Let_def)
  qed
  have more: "retried n (apply_payment env base call) s' = (Inr (replay_result p i'), s')" for n
    by (induction n) (simp_all add: again)
  show ?thesis using r(1) more
    by (intro exI [of _ "\<lparr>prs_payment = p, prs_invoice = i', prs_is_replay = False\<rparr>"] exI [of _ s'])
      (simp add: replay_result_def)
qed

theorem apply_payment_idempotent_witness:
  "\<exists>r s'. apply_payment ref_env ref_books (ref_call 1200) ref_books = (Inr r, s') \<and>
     retried 3 (apply_payment ref_env ref_books (ref_call 1200)) ref_books = (Inr (r\<lparr>prs_is_replay := True\<rparr>), s')"
proof -
  have "admissible ref_env (ref_call 1200) open_invoice ref_books" by (rule ref_admissible) simp_all
  from apply_payment_idempotent [OF this, of ref_books 2] show ?thesis by (simp add: numeral_3_eq_3 numeral_2_eq_2)
qed

end
