(* ===== verification/Payment_Safety.thy ===== *)
theory Payment_Safety
  imports Payment_Properties
begin

text \<open>
  What holds of every call of \<open>apply_payment\<close>, admissible or not: a booked payment passed all guards and stayed
  within what was due, and a payment that the lifecycle refuses leaves no trace.
\<close>

section \<open>Exceptions of the parts\<close>

definition no_transition_error :: "py_exc \<Rightarrow> bool" where
  "no_transition_error e \<longleftrightarrow> \<not> is_transition_error e"

lemma no_transition_error_simps [simp]:
  "no_transition_error IntegrityError" "no_transition_error MultipleResultsFound" "no_transition_error NoResultFound"
  "no_transition_error (ValueError m)" "no_transition_error KeyError" "no_transition_error InvoiceNotFound"
  "no_transition_error PaymentReferenceConflict" "no_transition_error (PaymentIdempotencyConflict m)"
  "no_transition_error (PolicyAccessDenied m)" "no_transition_error (FinancialInvariantViolation fv)"
  "no_transition_error FinanceOperationInProgress" "\<not> no_transition_error (InvalidTransitionError m)"
  "\<not> no_transition_error (InvoiceInvariantError m)"
  by (simp_all add: no_transition_error_def)

lemmas raises_rules = raises_raise raises_asserting raises_query raises_lift

lemma raises_rollback: "P e \<Longrightarrow> raises P (rollback_and_raise base e)"
  by (simp add: raises_def)

lemma raises_audit_and_raise: "P e \<Longrightarrow> raises P (audit_and_raise w base rc i e)"
  by (cases e) (auto simp: audit_and_raise_def audit_violation_def rollback_to_def intro: raises_raise)

lemma quiet_lock_invoice [intro!]: "raises no_transition_error (lock_invoice k)"
  unfolding lock_invoice_def by (auto intro!: raises_rules split: option.split)

lemma quiet_policy [intro!]: "raises no_transition_error (enforce_invoice_policy w tok action i)"
  unfolding enforce_invoice_policy_def policy_resource_for_invoice_def enforce_policy_def audit_access_denied_def Let_def
  by (auto intro!: raises_rules)

lemma quiet_ensure_account [intro!]: "raises no_transition_error (ensure_account w tenant client ty cur)"
  unfolding ensure_account_def Let_def by (auto intro!: raises_rules split: option.split)

lemma quiet_transaction [intro!]: "raises no_transition_error (get_or_create_transaction w pr ta cur td tc sp)"
proof -
  have "raises no_transition_error (lift_result (check_replay t x y))" for t x y
    by (rule raises_lift) (auto simp: check_replay_def split: if_splits)
  then show ?thesis
    unfolding get_or_create_transaction_def Let_def by (auto intro!: raises_raise raises_query split: option.split)
qed

lemma quiet_totals [intro!]:
  "raises no_transition_error (lift_result (single_currency cs))"
  "raises no_transition_error (lift_result (balanced_total dir amount xs))"
  by (auto intro!: raises_lift simp: single_currency_def balanced_total_def split: if_splits)

lemma quiet_post_entries [intro!]: "raises no_transition_error (post_entries w t es cur)"
proof -
  have s: "serialize_entries accs es = Inl e \<Longrightarrow> e = KeyError" for accs es e
    by (induction es) (auto split: option.splits sum.splits)
  have ser: "raises no_transition_error (\<lambda>s. (serialize_entries (il_accounts s) es, s))" for es
    by (rule raisesI) (auto dest!: s)
  show ?thesis
    unfolding post_entries_def add_entry_def emit_audit_event_def Let_def
    by (auto intro!: raises_asserting ser split: option.split)
qed

lemma quiet_post_transaction [intro!]: "raises no_transition_error (post_transaction w pr lines)"
  unfolding post_transaction_def by (auto split: prod.split)

lemma quiet_post_payment [intro!]: "raises no_transition_error (post_payment_applied w i p tenant)"
  unfolding post_payment_applied_def by (auto intro!: raises_rules split: option.split)

lemma quiet_event [intro!]: "raises no_transition_error (ensure_payment_money_flow_event w i p tenant tx key)"
  unfolding ensure_payment_money_flow_event_def resolve_payment_money_flow_event_def Let_def
  by (auto intro!: raises_rules split: option.split)

lemma quiet_check [intro!]: "raises no_transition_error (raise_violations w a rc extra fv)"
  unfolding raise_violations_def audit_violation_def by (auto intro!: raises_rules)

lemma quiet_allocation [intro!]: "raises no_transition_error (ensure_settlement_allocation env rc i q)"
proof -
  have period: "raises no_transition_error (resolve_settlement_period w tzr tz e)" for w tzr tz e
    unfolding resolve_settlement_period_def get_or_create_period_def Let_def
    by (auto intro!: raises_rules split: option.split prod.split)
  have source: "raises no_transition_error (source_object ty sid)" for ty sid
    unfolding source_object_def by (auto intro!: raises_rules split: settlement_source_type.split)
  have graph: "raises no_transition_error (write_graph env rc i a src)" for a src
    using write_graph_effect [of env rc i a src] unfolding raises_def by (metis Pair_inject Inl_Inr_False)
  show ?thesis
    unfolding ensure_settlement_allocation_def check_settlement_allocation_def audit_allocation_def Let_def
    by (auto intro!: raises_rules period source graph split: option.split)
qed

lemma quiet_allocation_guarded [intro!]: "raises no_transition_error (ensure_settlement_allocation_guarded env base rc i q)"
  unfolding ensure_settlement_allocation_guarded_def
  by (rule raises_catching, rule raises_mono [OF quiet_allocation], blast)
    (auto intro!: raises_audit_and_raise simp: no_transition_error_def elim: is_invariant_violation.elims)

lemma quiet_reconcile [intro!]: "raises no_transition_error (reconcile_invoice_allocations env rc reason cid k)"
proof -
  have pay: "raises no_transition_error (reconcile_payments env rc i ps d)" for i ps d
    by (induction ps arbitrary: d) auto
  have notes': "raises no_transition_error (reconcile_credit_notes env rc i cs d)" for i cs d
    by (induction cs arbitrary: d) (auto intro!: raises_rules simp: Let_def)
  show ?thesis
    unfolding reconcile_invoice_allocations_def reconcile_adjustment_def Let_def
    by (auto intro!: pay notes')
qed

lemma quiet_finish [intro!]: "raises no_transition_error (finish_job w run iid amt cur k d i)"
  unfolding finish_job_def succeed_job_def store_run_def Let_def by auto

lemma quiet_replay [intro!]: "raises no_transition_error (validated_replay env base pc p known)"
  unfolding validated_replay_def replay_payment_def payment_already_applied_def Let_def
  by (auto intro!: raises_rules split: option.split simp: validate_payment_replay_def split: if_splits)

lemma quiet_existing [intro!]: "raises no_transition_error (resolve_existing_payment base pc)"
  unfolding resolve_existing_payment_def
  by (auto intro!: raises_rules raises_rollback split: option.split simp: is_sqlalchemy_error_def)

lemma quiet_replay_event [intro!]: "raises no_transition_error (replay_from_money_flow_event env base pc)"
  unfolding replay_from_money_flow_event_def resolve_payment_money_flow_event_def resolve_payment_from_event_def
    lock_invoice_def
  by (auto intro!: raises_rules raises_rollback split: option.split
      simp: is_sqlalchemy_error_def validate_payment_replay_def split: if_splits)

section \<open>Guards that succeeded\<close>

text \<open>Computations that leave the state alone when they succeed, and what they return.\<close>

definition looks_only :: "('a \<Rightarrow> bool) \<Rightarrow> ('s, 'a) act \<Rightarrow> bool" where
  "looks_only Q m \<longleftrightarrow> (\<forall>s a t. m s = (Inr a, t) \<longrightarrow> t = s \<and> Q a)"

lemma looks_onlyD: "looks_only Q m \<Longrightarrow> m s = (Inr a, t) \<Longrightarrow> t = s \<and> Q a"
  unfolding looks_only_def by blast

lemma looks_only_and_then: "looks_only (\<lambda>_. True) m \<Longrightarrow> (\<And>a. looks_only Q (k a)) \<Longrightarrow> looks_only Q (and_then m k)"
  unfolding looks_only_def by (auto simp: and_then_Inr_iff) blast+

lemma looks_only_basic:
  "Q a \<Longrightarrow> looks_only Q (ret a)" "looks_only Q (raise_exc e)" "looks_only (\<lambda>_. True) (query_one p table)"
  "looks_only (\<lambda>_. True) (lift_result r)" "looks_only (\<lambda>_. True) (asserting b e)"
  by (auto simp: looks_only_def)

lemma looks_only_catching:
  "looks_only Q m \<Longrightarrow> (\<And>e. p e \<Longrightarrow> looks_only (\<lambda>_. False) (h e)) \<Longrightarrow> looks_only Q (catching p m h)"
  unfolding looks_only_def by (auto simp: catching_Inr_iff)

lemma looks_only_rollback: "looks_only Q (rollback_and_raise base e)"
  by (simp add: looks_only_def)

lemmas looks_only_rules = looks_only_and_then looks_only_basic looks_only_catching looks_only_rollback

lemma lock_invoice_Inr: "lock_invoice k s = (Inr i, t) \<Longrightarrow> t = s \<and> i \<in> set (invoices s) \<and> inv_id i = k"
  by (auto simp: lock_invoice_def and_then_Inr_iff split: option.splits dest: one_or_none_SomeD)

lemma looks_only_lock: "looks_only (\<lambda>_. True) (lock_invoice k)"
  unfolding looks_only_def using lock_invoice_Inr by blast

lemma invoice_policy_Inr:
  assumes "enforce_invoice_policy w tok action i s = (Inr x, t)" and "action \<in> {PAYMENT_APPLY, CREDIT_NOTE_CREATE}"
  shows "t = s \<and> finance_role tok"
proof -
  from assms(1) obtain res u where u: "policy_resource_for_invoice i (ac_tenant_id (actor_from_token tok)) s = (Inr res, u)"
    "enforce_policy w tok action res u = (Inr x, t)"
    unfolding enforce_invoice_policy_def by (auto simp: and_then_Inr_iff)
  have us: "u = s" using u(1) by (auto simp: policy_resource_for_invoice_def and_then_Inr_iff split: if_splits)
  have al: "pd_allowed (policy_check (actor_from_token tok) action res)"
    using enforce_policy_denied [of tok action res w u] u(2) by fastforce
  then have "t = u" using enforce_policy_allowed [OF al, of w u] u(2) by simp
  with us al assms(2) show ?thesis using finance_role_decides by auto
qed

lemma resolve_existing_Inr: "resolve_existing_payment base pc s = (Inr x, t) \<Longrightarrow> t = s"
proof -
  have "looks_only (\<lambda>_. True) (resolve_existing_payment base pc)"
    unfolding resolve_existing_payment_def by (auto intro!: looks_only_rules split: option.split)
  then show "resolve_existing_payment base pc s = (Inr x, t) \<Longrightarrow> t = s" by (auto dest: looks_onlyD)
qed

lemma replay_event_Inr:
  "replay_from_money_flow_event env base pc s = (Inr x, t) \<Longrightarrow> t = s \<and> (\<forall>r. x = Some r \<longrightarrow> prs_is_replay r)"
proof -
  have "looks_only (\<lambda>x. \<forall>r. x = Some r \<longrightarrow> prs_is_replay r) (replay_from_money_flow_event env base pc)"
    unfolding replay_from_money_flow_event_def resolve_payment_money_flow_event_def resolve_payment_from_event_def
    by (auto intro!: looks_only_rules looks_only_lock split: option.split simp: replay_result_def)
  then show "replay_from_money_flow_event env base pc s = (Inr x, t) \<Longrightarrow> ?thesis" by (auto dest: looks_onlyD)
qed

lemma check_payment_rules_Inr:
  "check_payment_rules env base pc i s = (Inr x, t) \<Longrightarrow>
     t = s \<and> validate_invoice i = [] \<and> validate_payment_application i (pc_amount pc) = []"
  by (auto simp: check_payment_rules_def check_invoice_def check_payment_application_def Let_def catching_Inr_iff
      and_then_Inr_iff raise_violations_quiet split: if_splits)

lemma require_settlement_period_state: "snd (require_settlement_period i s) = s"
  by (auto simp: require_settlement_period_def and_then_apply split: option.splits sum.splits)

lemma validated_replay_Inr: "validated_replay env base pc p known s = (Inr r, t) \<Longrightarrow> prs_is_replay r"
  by (auto simp: validated_replay_def replay_payment_def replay_result_def and_then_Inr_iff Let_def split: if_splits)

lemma require_settlement_period_Inr: "require_settlement_period i s = (Inr x, t) \<Longrightarrow> t = s \<and> period_closed i s"
  by (auto simp: require_settlement_period_def period_closed_def and_then_Inr_iff split: if_splits option.splits
      dest!: one_or_none_SomeD)

lemma guarded_transition_Inr:
  assumes "guarded_transition env base rc i move s = (Inr i', t)"
  shows "move s = (Inr i', t) \<and> validate_invoice i' = []"
proof -
  from assms have "and_then move (\<lambda>i'. and_then (check_invoice (fe_world env) False rc i') (\<lambda>_. ret i')) s = (Inr i', t)"
    by (auto simp: guarded_transition_def catching_Inr_iff catching_Inl_iff)
  then obtain u where m: "move s = (Inr i', u)" "check_invoice (fe_world env) False rc i' u = (Inr (), t)"
    by (auto simp: and_then_Inr_iff)
  then show ?thesis using check_invoice_quiet [OF m(2)] by auto
qed

lemma settle_payment_Inr:
  assumes "settle_payment env base pc i p s = (Inr i', t)"
  shows "inv_status i \<in> {SENT, PARTIALLY_PAID, OVERDUE} \<and> validate_invoice i' = [] \<and>
    (\<exists>tr now. moved i tr (pay_amounts (pc_amount pc)) now i')"
proof -
  let ?tgt = "if pc_amount pc \<ge> outstanding i then PAID else PARTIALLY_PAID"
  from assms obtain u where st: "inv_status i \<in> {SENT, PARTIALLY_PAID, OVERDUE}"
    and g: "guarded_transition env base (pc_request_ctx pc) i (apply_financial_transition env (pc_request_ctx pc) i ?tgt
      (pay_amounts (pc_amount pc))) s = (Inr i', u)"
    unfolding settle_payment_def Let_def pay_amounts_def by (auto simp: and_then_Inr_iff split: if_split_asm)
  from guarded_transition_Inr [OF g] transition_success [OF _ finance_update_not_noop] st show ?thesis
    unfolding apply_financial_transition_def by blast
qed

lemma book_payment_Inr:
  assumes "book_payment env base pc run i p s = (Inr r, t)" and "\<not> prs_is_replay r"
  shows "\<exists>u v. settle_payment env base pc i p u = (Inr (prs_invoice r), v)"
proof -
  from assms obtain e created u i' v where
    "(if created then settle_payment env base pc i p else ret i) u = (Inr i', v)" "prs_invoice r = i'" "prs_is_replay r = (\<not> created)"
    unfolding book_payment_def Let_def by (auto simp: and_then_Inr_iff split: prod.splits)
  with assms(2) show ?thesis by auto
qed

lemma apply_payment_Inr:
  assumes "apply_payment env base call s = (Inr r, s')" and "\<not> prs_is_replay r"
    and pc: "pc = normalized_call (fe_world env) call"
  shows "\<exists>i run p u. i \<in> set (invoices s) \<and> inv_id i = pc_invoice_id pc \<and> finance_role (pc_token pc) \<and>
    validate_invoice i = [] \<and> validate_payment_application i (pc_amount pc) = [] \<and> period_closed i s \<and>
    book_payment env base pc run i p u = (Inr r, s')"
proof -
  from assms(1,2) have "apply_payment_locked env base pc s = (Inr r, s')"
    unfolding apply_payment_def Let_def pc [symmetric]
    by (auto simp: and_then_Inr_iff split: option.splits dest!: replay_event_Inr validated_replay_Inr resolve_existing_Inr)
  then obtain i t1 x t2 t3 where l: "lock_invoice (pc_invoice_id pc) s = (Inr i, t1)"
    "enforce_invoice_policy (fe_world env) (pc_token pc) PAYMENT_APPLY i t1 = (Inr (), t2)"
    "resolve_existing_payment base pc t2 = (Inr x, t3)"
    and k: "(case x of Some p \<Rightarrow> validated_replay env base pc p (Some i)
      | None \<Rightarrow> and_then (check_payment_rules env base pc i) (\<lambda>_. and_then (require_settlement_period i) (\<lambda>_.
         and_then (start_job (fe_world env) (payment_job pc)) (\<lambda>run. insert_payment env base pc run i)))) t3 = (Inr r, s')"
    unfolding apply_payment_locked_def by (auto simp: and_then_Inr_iff)
  have t: "t1 = s" "t2 = s" "t3 = s" "i \<in> set (invoices s)" "inv_id i = pc_invoice_id pc" "finance_role (pc_token pc)"
    using lock_invoice_Inr [OF l(1)] invoice_policy_Inr [OF l(2)] resolve_existing_Inr [OF l(3)] by auto
  from k assms(2) have "x = None" by (cases x) (auto dest: validated_replay_Inr)
  with k t(3) obtain t4 t5 run t6 where c: "check_payment_rules env base pc i s = (Inr (), t4)"
    "require_settlement_period i t4 = (Inr (), t5)" "insert_payment env base pc run i t6 = (Inr r, s')"
    by (auto simp: and_then_Inr_iff)
  from c(3) assms(2) obtain p u where "book_payment env base pc run i p u = (Inr r, s')"
    unfolding insert_payment_def Let_def
    by (auto simp: and_then_Inr_iff split: if_splits option.splits dest: validated_replay_Inr)
  with t check_payment_rules_Inr [OF c(1)] require_settlement_period_Inr [OF c(2)] show ?thesis by blast
qed

section \<open>Properties\<close>

text \<open>C3. Nobody can overpay. Whatever the database, whenever \<open>apply_payment\<close> books a payment, the caller's token
  had a finance role, the invoice was consistent, sent, partially paid or overdue, its billing period
  was closed, and the amount was not negative and not above what was due; afterwards exactly that
  amount has moved from due to paid and the invoice is consistent again, so what is due is never
  negative.\<close>

theorem payment_never_overpays:
  assumes "apply_payment env base call s = (Inr r, s')" and "\<not> prs_is_replay r"
  shows "\<exists>i\<in>set (invoices s). inv_id i = pc_invoice_id call \<and> finance_role (pc_token call) \<and> period_closed i s \<and>
    inv_status i \<in> {SENT, PARTIALLY_PAID, OVERDUE} \<and> 0 \<le> pc_amount call \<and> pc_amount call \<le> inv_amount_due i \<and>
    inv_amount_paid (prs_invoice r) = inv_amount_paid i + pc_amount call \<and>
    inv_amount_due (prs_invoice r) = inv_amount_due i - pc_amount call \<and> validate_invoice (prs_invoice r) = []"
proof -
  let ?pc = "normalized_call (fe_world env) call"
  have same: "pc_invoice_id ?pc = pc_invoice_id call" "pc_amount ?pc = pc_amount call" "pc_token ?pc = pc_token call"
    by (simp_all add: normalized_call_def)
  obtain i run p u where i: "i \<in> set (invoices s)" "inv_id i = pc_invoice_id ?pc" "finance_role (pc_token ?pc)"
    "validate_invoice i = []" "validate_payment_application i (pc_amount ?pc) = []" "period_closed i s"
    "book_payment env base ?pc run i p u = (Inr r, s')"
    using apply_payment_Inr [OF assms refl] by (elim exE conjE) (rule that)
  from book_payment_Inr [OF i(7) assms(2)] obtain u v where "settle_payment env base ?pc i p u = (Inr (prs_invoice r), v)" by blast
  from settle_payment_Inr [OF this] obtain tr now where st: "inv_status i \<in> {SENT, PARTIALLY_PAID, OVERDUE}"
    and v: "validate_invoice (prs_invoice r) = []" and m: "moved i tr (pay_amounts (pc_amount ?pc)) now (prs_invoice r)" by blast
  have "inv_amount_paid (prs_invoice r) = inv_amount_paid i + pc_amount call"
    "inv_amount_due (prs_invoice r) = inv_amount_due i - pc_amount call"
    using moved_fields [OF m] i(4) v same(2) by (simp_all add: validate_invoice_Nil pay_amounts_def amount_of_def)
  with i st v same show ?thesis by (intro bexI [OF _ i(1)]) (simp add: validate_payment_Nil)
qed

theorem payment_never_overpays_witness:
  "\<exists>r s'. apply_payment ref_env ref_books (ref_call 1200) ref_books = (Inr r, s') \<and> \<not> prs_is_replay r \<and>
     validate_invoice (prs_invoice r) = [] \<and> inv_amount_due (prs_invoice r) = 0"
proof -
  have "admissible ref_env (ref_call 1200) open_invoice ref_books" by (rule ref_admissible) simp_all
  from apply_payment_books [OF this refl, of ref_books] obtain r s' where
    r: "apply_payment ref_env ref_books (ref_call 1200) ref_books = (Inr r, s')" "\<not> prs_is_replay r" by force
  from payment_never_overpays [OF r] r show ?thesis
    by (auto simp: ref_books_def open_invoice_def ref_invoice_def ref_call_def)
qed

subsection \<open>Refused payments\<close>

definition rolled_back :: "'a fin_db_scheme \<Rightarrow> 'a fin_db_scheme \<Rightarrow> bool" where
  "rolled_back base s \<longleftrightarrow> s = base\<lparr>tick := tick s\<rparr>"

text \<open>After a transition error the database is as at the last commit; \<open>from_base\<close>: when it was so before the call.\<close>

definition fails_clean :: "'a fin_db_scheme \<Rightarrow> ('a fin_db_scheme, 'b) act \<Rightarrow> bool" where
  "fails_clean base m \<longleftrightarrow> (\<forall>s e t. m s = (Inl e, t) \<longrightarrow> is_transition_error e \<longrightarrow> rolled_back base t)"

definition fails_clean_from_base :: "'a fin_db_scheme \<Rightarrow> ('a fin_db_scheme, 'b) act \<Rightarrow> bool" where
  "fails_clean_from_base base m \<longleftrightarrow>
     (\<forall>s e t. rolled_back base s \<longrightarrow> m s = (Inl e, t) \<longrightarrow> is_transition_error e \<longrightarrow> rolled_back base t)"

lemma clean_quiet: "raises no_transition_error m \<Longrightarrow> fails_clean base m"
  unfolding fails_clean_def raises_def no_transition_error_def by blast

lemma clean_and_then: "fails_clean base m \<Longrightarrow> (\<And>a. fails_clean base (k a)) \<Longrightarrow> fails_clean base (and_then m k)"
  unfolding fails_clean_def and_then_Inl_iff by blast

lemma clean_insert: "fails_clean base f \<Longrightarrow> fails_clean base g \<Longrightarrow> fails_clean base (insert_or_else c i f g)"
  unfolding fails_clean_def by (auto split: if_splits)

lemma clean_rollback: "fails_clean base (rollback_and_raise base e)"
  by (simp add: fails_clean_def rolled_back_def)

lemma clean_from_base: "fails_clean base m \<Longrightarrow> fails_clean_from_base base m"
  unfolding fails_clean_def fails_clean_from_base_def by blast

lemma clean_after_look:
  assumes "looks_only (\<lambda>_. True) m" and "fails_clean_from_base base m" and "\<And>a. fails_clean_from_base base (k a)"
  shows "fails_clean_from_base base (and_then m k)"
  using assms unfolding fails_clean_from_base_def looks_only_def and_then_Inl_iff by blast

lemma clean_audit: "is_invariant_violation e \<Longrightarrow> fails_clean base (audit_and_raise w base rc i e)"
  by (cases e) (auto simp: fails_clean_def audit_and_raise_def and_then_apply audit_violation_def audit_apply Let_def)

lemma clean_catching_invariant:
  "fails_clean base m \<Longrightarrow> fails_clean base (catching is_invariant_violation m (audit_and_raise w base rc i))"
  using clean_audit unfolding fails_clean_def catching_Inl_iff by blast

lemma clean_guarded: "fails_clean base (guarded_transition env base rc i move)"
  unfolding guarded_transition_def
  by (rule clean_catching_invariant) (auto simp: fails_clean_def catching_Inl_iff rolled_back_def)

lemmas clean_rules = clean_and_then clean_insert clean_guarded clean_rollback

lemma clean_settle: "fails_clean base (settle_payment env base pc i p)"
  unfolding settle_payment_def Let_def by (auto intro!: clean_rules intro: clean_quiet)

lemma clean_book: "fails_clean base (book_payment env base pc run i p)"
  unfolding book_payment_def Let_def
  by (auto intro!: clean_rules clean_settle raises_query intro: clean_quiet split: prod.split)

lemma clean_insert_payment: "fails_clean base (insert_payment env base pc run i)"
  unfolding insert_payment_def Let_def
  by (auto intro!: clean_rules clean_book clean_quiet [OF quiet_replay] clean_quiet [OF raises_raise] intro: clean_quiet
      split: option.split)

lemma clean_locked: "fails_clean_from_base base (apply_payment_locked env base pc)"
proof -
  have pol: "looks_only (\<lambda>_. True) (enforce_invoice_policy (fe_world env) (pc_token pc) PAYMENT_APPLY i)" for i
    unfolding looks_only_def using invoice_policy_Inr by blast
  have ex: "looks_only (\<lambda>_. True) (resolve_existing_payment base pc)"
    unfolding looks_only_def using resolve_existing_Inr by blast
  have rules: "looks_only (\<lambda>_. True) (check_payment_rules env base pc i)" for i
    unfolding looks_only_def using check_payment_rules_Inr by blast
  have quiet_rules: "raises no_transition_error (check_payment_rules env base pc i)" for i
    unfolding check_payment_rules_def check_invoice_def check_payment_application_def Let_def
    by (auto intro!: raises_audit_and_raise elim: is_invariant_violation.elims intro: raises_mono [OF quiet_check])
  have per: "looks_only (\<lambda>_. True) (require_settlement_period i)" "fails_clean_from_base base (require_settlement_period i)" for i
    using require_settlement_period_state [of i] unfolding looks_only_def fails_clean_from_base_def by (metis snd_conv)+
  have insert: "fails_clean_from_base base (and_then (start_job (fe_world env) (payment_job pc)) (\<lambda>run. insert_payment env base pc run i))" for i
    by (rule clean_from_base) (auto intro!: clean_and_then clean_insert_payment intro: clean_quiet simp: start_job_def Let_def)
  show ?thesis
    unfolding apply_payment_locked_def
    by (intro clean_after_look looks_only_lock pol ex)
      (auto intro!: clean_after_look rules per insert quiet_rules intro: clean_from_base clean_quiet split: option.split)
qed

text \<open>C9. A payment that the invoice lifecycle refuses leaves no trace: when a call of \<open>apply_payment\<close> that starts at a
  commit raises \<open>InvalidTransitionError\<close> or \<open>InvoiceInvariantError\<close> (the billing period is open or missing,
  the invoice is not payable, the constraints of the new status fail), every table is as before the
  call, although the job, the payment, the ledger transaction and the event had been written.\<close>

theorem refused_payment_leaves_no_trace:
  assumes "apply_payment env s call s = (Inl e, s')" and "is_transition_error e"
  shows "s' = s\<lparr>tick := tick s'\<rparr>"
proof -
  have ev: "looks_only (\<lambda>_. True) (replay_from_money_flow_event env s pc)" for pc
    unfolding looks_only_def using replay_event_Inr by blast
  have ex: "looks_only (\<lambda>_. True) (resolve_existing_payment s pc)" for pc
    unfolding looks_only_def using resolve_existing_Inr by blast
  note quiet = clean_from_base [OF clean_quiet]
  have locked: "fails_clean_from_base s (and_then (asserting b FinanceOperationInProgress) (\<lambda>_. apply_payment_locked env s pc))"
    for b pc
    by (rule clean_after_look [OF _ quiet clean_locked]) (simp_all add: looks_only_basic raises_asserting)
  have existing: "fails_clean_from_base s (and_then (resolve_existing_payment s pc) (\<lambda>x. case x of
      Some p \<Rightarrow> validated_replay env s pc p None
    | None \<Rightarrow> and_then (asserting b FinanceOperationInProgress) (\<lambda>_. apply_payment_locked env s pc)))" for b pc
    by (rule clean_after_look [OF ex quiet [OF quiet_existing]]) (simp add: locked quiet [OF quiet_replay] split: option.split)
  have "fails_clean_from_base s (apply_payment env s call)"
    unfolding apply_payment_def Let_def
  proof (rule clean_after_look [OF ev quiet [OF quiet_replay_event]])
    fix a :: "payment_result option"
    let ?pc = "normalized_call (fe_world env) call"
    show "fails_clean_from_base s (case a of Some r \<Rightarrow> ret r
      | None \<Rightarrow> and_then (resolve_existing_payment s ?pc) (\<lambda>x. case x of
          Some p \<Rightarrow> validated_replay env s ?pc p None
        | None \<Rightarrow> and_then (asserting (lock_acquired env ''finance_payment'' (pc_idempotency_key ?pc)) FinanceOperationInProgress)
            (\<lambda>_. apply_payment_locked env s ?pc)))"
      by (cases a) (simp_all only: option.case existing quiet [OF raises_basic(1)])
  qed
  moreover have "rolled_back s s" by (simp add: rolled_back_def)
  ultimately have "rolled_back s s'" using assms unfolding fails_clean_from_base_def by blast
  then show ?thesis by (simp only: rolled_back_def)
qed

definition open_books :: fin_db where
  "open_books = ref_books\<lparr>billing_periods := [new_period ''a'' MONTHLY 0 (30 * day_us - 1) ''UTC'']\<rparr>"

theorem refused_payment_leaves_no_trace_witness:
  "\<exists>s'. apply_payment ref_env open_books (ref_call 500) open_books =
       (Inl (InvalidTransitionError ''billing period is not closed''), s') \<and> invoices s' = [open_invoice] \<and> invoice_payments s' = []"
proof -
  have w: "fe_world ref_env = ref_world" by (simp add: ref_env_def)
  have fresh: "fresh_call ref_world (ref_call 500) open_books"
    by (simp add: fresh_call_def open_books_def ref_books_def empty_fin_db_def)
  have pol: "enforce_invoice_policy ref_world (pc_token (ref_call 500)) PAYMENT_APPLY open_invoice open_books = (Inr (), open_books)"
    by (rule invoice_policy_pass) (simp_all add: ref_call_def finance_role_def finance_admin_roles open_books_def ref_books_def)
  have lock: "lock_invoice (pc_invoice_id (ref_call 500)) open_books = (Inr open_invoice, open_books)"
    by (simp add: lock_invoice_def and_then_apply one_or_none_def open_books_def ref_books_def ref_call_def
        open_invoice_def ref_invoice_def)
  have rules: "check_payment_rules ref_env open_books (ref_call 500) open_invoice open_books = (Inr (), open_books)"
    by (rule check_payment_rules_pass) (simp add: payable_def validate_invoice_Nil open_invoice_def ref_invoice_def ref_call_def)
  have period: "require_settlement_period open_invoice open_books =
      (Inl (InvalidTransitionError ''billing period is not closed''), open_books)"
    by (simp add: require_settlement_period_def and_then_apply one_or_none_def open_books_def ref_books_def open_invoice_def
        new_period_def str_truthy_def)
  have acq: "lock_acquired ref_env job key" for job key
    by (simp add: lock_acquired_def ref_env_def enter_lock_def try_pg_lock_def local_session_def Let_def)
  have "apply_payment ref_env open_books (ref_call 500) open_books =
      (Inl (InvalidTransitionError ''billing period is not closed''), open_books)"
    unfolding apply_payment_def apply_payment_locked_def Let_def w ref_normalized
    by (simp add: no_replayed_event [OF fresh] no_existing_payment [OF fresh] acq lock pol rules and_then_apply period)
  from refused_payment_leaves_no_trace [OF this] this show ?thesis
    by (simp add: open_books_def ref_books_def empty_fin_db_def)
qed

end
