(* ===== verification/Note_Safety.thy ===== *)
theory Note_Safety
  imports Credit_Notes Payment_Safety
begin

text \<open>
  What holds of every new credit note and refund, whatever the database: the guards were passed, the
  amount stayed within what was due or paid, and the invoice is consistent.
\<close>

section \<open>Guards that succeeded\<close>

lemma complete_note_Inr: "complete_note env base rc ty reason c i s = (Inr r, t) \<Longrightarrow> nrs_is_replay r"
  by (auto simp: complete_note_def and_then_Inr_iff)

lemma book_note_Inr:
  "book_note env base rc ty reason run c i s = (Inr r, t) \<Longrightarrow>
     r = \<lparr>nrs_credit_note = c, nrs_invoice = i, nrs_is_replay = False\<rparr>"
  by (auto simp: book_note_def and_then_Inr_iff)

lemma flush_credit_note_Inr:
  "flush_credit_note w base build s = (Inr c, t) \<Longrightarrow> \<exists>x at. c = build x at \<and> c \<in> set (credit_notes t)"
  by (auto simp: flush_credit_note_def and_then_Inr_iff Let_def split: if_splits)

lemma guarded_note_Inr:
  assumes "guarded_note env base rc i move s = (Inr (c, i'), t)"
  shows "move s = (Inr (c, i'), t) \<and> validate_invoice i' = []"
proof -
  from assms have "and_then move (\<lambda>(c, i'). and_then (check_invoice (fe_world env) False rc i') (\<lambda>_. ret (c, i'))) s = (Inr (c, i'), t)"
    by (auto simp: guarded_note_def catching_Inr_iff catching_Inl_iff)
  then obtain u where m: "move s = (Inr (c, i'), u)" "check_invoice (fe_world env) False rc i' u = (Inr (), t)"
    by (auto simp: and_then_Inr_iff)
  then show ?thesis using check_invoice_quiet [OF m(2)] by auto
qed

lemma financial_transition_Inr:
  "apply_financial_transition env rc i tgt am s = (Inr i', t) \<Longrightarrow> \<exists>now. moved i (finance_update tgt rc) am now i'"
  using transition_success [OF _ finance_update_not_noop] unfolding apply_financial_transition_def by blast

lemma check_refund_rules_Inr:
  "check_refund_rules env base rf i s = (Inr x, t) \<Longrightarrow>
     t = s \<and> validate_invoice i = [] \<and> validate_refund i (rf_amount rf) = []"
  by (auto simp: check_refund_rules_def check_invoice_def check_refund_def Let_def catching_Inr_iff
      and_then_Inr_iff raise_violations_quiet split: if_splits)

lemma check_credit_note_invoice_Inr:
  "check_credit_note_invoice env base rc i s = (Inr x, t) \<Longrightarrow> t = s \<and> validate_invoice i = []"
  by (auto simp: check_credit_note_invoice_def check_invoice_def catching_Inr_iff
      and_then_Inr_iff raise_violations_quiet split: if_splits)

section \<open>Refunds\<close>

lemma move_refund_Inr:
  assumes "move_refund env base rf i s = (Inr (c, i'), t)"
  shows "\<exists>now x at. c = new_refund (fe_world env) rf x at \<and> moved i (finance_update
     (if inv_amount_paid i - (inv_amount_refunded i + rf_amount rf) \<le> 0 then SENT else PARTIALLY_PAID) (rf_request_ctx rf))
     (refund_amounts (rf_amount rf)) now i'"
proof -
  let ?st = "if inv_amount_paid i - (inv_amount_refunded i + rf_amount rf) \<le> 0 then SENT else PARTIALLY_PAID"
  from assms obtain u v where
    "apply_financial_transition env (rf_request_ctx rf) i ?st (refund_amounts (rf_amount rf)) s = (Inr i', u)"
    "flush_credit_note (fe_world env) base (new_refund (fe_world env) rf) u = (Inr c, v)"
    unfolding move_refund_def Let_def by (auto simp: and_then_Inr_iff)
  then show ?thesis using financial_transition_Inr flush_credit_note_Inr by blast
qed

lemma insert_refund_Inr:
  assumes "insert_refund env base rf run i s = (Inr r, t)" and "\<not> nrs_is_replay r"
  shows "\<exists>c i' u. guarded_note env base (rf_request_ctx rf) i (move_refund env base rf i) s = (Inr (c, i'), u) \<and>
    r = \<lparr>nrs_credit_note = c, nrs_invoice = i', nrs_is_replay = False\<rparr>"
proof -
  let ?g = "guarded_note env base (rf_request_ctx rf) i (move_refund env base rf i)"
  let ?a = "catching (\<lambda>e. e = IntegrityError) (and_then ?g (\<lambda>moved. ret (Inr moved)))
     (\<lambda>e. and_then (refund_after_conflict env base rf e) (\<lambda>r. ret (Inl r)))"
  have conflict: "nrs_is_replay x" if "refund_after_conflict env base rf e u = (Inr x, v)" for e u v x
    using that by (auto simp: refund_after_conflict_def and_then_Inr_iff split: option.splits if_splits dest: complete_note_Inr)
  from assms(1) obtain x u where a: "?a s = (Inr x, u)"
    and k: "(case x of Inl r \<Rightarrow> ret r | Inr (c, i') \<Rightarrow> book_note env base (rf_request_ctx rf) SRC_REFUND ''refund_apply'' run c i') u = (Inr r, t)"
    unfolding insert_refund_def and_then_Inr_iff by blast
  show ?thesis
  proof (cases x)
    case (Inl y)
    with a have "nrs_is_replay y" by (auto simp: catching_Inr_iff and_then_Inr_iff dest: conflict)
    with k Inl assms(2) show ?thesis by simp
  next
    case (Inr ci)
    obtain c i' where ci: "ci = (c, i')" by (cases ci)
    from a Inr ci have "?g s = (Inr (c, i'), u)" by (auto simp: catching_Inr_iff and_then_Inr_iff)
    with k Inr ci show ?thesis by (auto dest: book_note_Inr)
  qed
qed

lemma create_refund_Inr:
  assumes "create_refund env base call s = (Inr r, s')" and "\<not> nrs_is_replay r"
    and rf: "rf = normalized_refund (fe_world env) call"
  shows "\<exists>i run t. i \<in> set (invoices s) \<and> inv_id i = rf_invoice_id rf \<and> finance_role (rf_token rf) \<and> period_closed i s \<and>
    validate_invoice i = [] \<and> validate_refund i (rf_amount rf) = [] \<and> inv_status i \<in> {PAID, PARTIALLY_PAID} \<and>
    insert_refund env base rf run i t = (Inr r, s')"
proof -
  from assms(1,2) have "create_refund_new env base rf s = (Inr r, s')"
    unfolding create_refund_def Let_def rf [symmetric]
    by (auto simp: and_then_Inr_iff split: option.splits if_splits dest!: complete_note_Inr)
  then obtain i t1 t2 t3 t4 t5 t6 run where l: "lock_invoice (rf_invoice_id rf) s = (Inr i, t1)"
    "enforce_invoice_policy (fe_world env) (rf_token rf) CREDIT_NOTE_CREATE i t1 = (Inr (), t2)"
    "check_refund_rules env base rf i t2 = (Inr (), t3)" "require_settlement_period i t3 = (Inr (), t4)"
    "inv_status i \<in> {PAID, PARTIALLY_PAID}" "insert_refund env base rf run i t6 = (Inr r, s')"
    unfolding create_refund_new_def by (auto simp: and_then_Inr_iff split: if_split_asm)
  with lock_invoice_Inr [OF l(1)] invoice_policy_Inr [OF l(2)] check_refund_rules_Inr [OF l(3)]
    require_settlement_period_Inr [OF l(4)] show ?thesis by blast
qed

text \<open>C7. Nobody is refunded more than was paid. Whatever the database, whenever \<open>create_refund\<close> makes a new
  refund, the caller's token had a finance role, the invoice was consistent, paid or partially paid, its
  billing period was closed, and the amount was between zero and what had been paid and not yet
  refunded; afterwards exactly that amount is refunded and due again, the invoice is back to \<open>SENT\<close>
  when nothing of the payments is left and \<open>PARTIALLY_PAID\<close> otherwise, and it is consistent.\<close>

theorem refund_never_exceeds_paid:
  assumes "create_refund env base call s = (Inr r, s')" and "\<not> nrs_is_replay r"
  shows "\<exists>i\<in>set (invoices s). inv_id i = rf_invoice_id call \<and> finance_role (rf_token call) \<and> period_closed i s \<and>
    inv_status i \<in> {PAID, PARTIALLY_PAID} \<and> 0 \<le> rf_amount call \<and>
    rf_amount call \<le> inv_amount_paid i - inv_amount_refunded i \<and>
    inv_amount_refunded (nrs_invoice r) = inv_amount_refunded i + rf_amount call \<and>
    inv_amount_paid (nrs_invoice r) = inv_amount_paid i \<and>
    inv_amount_due (nrs_invoice r) = inv_amount_due i + rf_amount call \<and>
    inv_status (nrs_invoice r) = (if inv_amount_paid i - inv_amount_refunded i = rf_amount call then SENT else PARTIALLY_PAID) \<and>
    validate_invoice (nrs_invoice r) = [] \<and> cn_amount (nrs_credit_note r) = rf_amount call"
proof -
  let ?rf = "normalized_refund (fe_world env) call"
  have same: "rf_invoice_id ?rf = rf_invoice_id call" "rf_amount ?rf = rf_amount call" "rf_token ?rf = rf_token call"
    by (simp_all add: normalized_refund_def)
  obtain i run t where i: "i \<in> set (invoices s)" "inv_id i = rf_invoice_id ?rf" "finance_role (rf_token ?rf)" "period_closed i s"
    "validate_invoice i = []" "validate_refund i (rf_amount ?rf) = []" "inv_status i \<in> {PAID, PARTIALLY_PAID}"
    "insert_refund env base ?rf run i t = (Inr r, s')"
    using create_refund_Inr [OF assms refl] by (elim exE conjE) (rule that)
  from insert_refund_Inr [OF i(8) assms(2)] obtain c i' u where
    g: "guarded_note env base (rf_request_ctx ?rf) i (move_refund env base ?rf i) t = (Inr (c, i'), u)"
    and r: "r = \<lparr>nrs_credit_note = c, nrs_invoice = i', nrs_is_replay = False\<rparr>" by blast
  from guarded_note_Inr [OF g] have v: "validate_invoice i' = []"
    and mv: "move_refund env base ?rf i t = (Inr (c, i'), u)" by simp_all
  from move_refund_Inr [OF mv] obtain now x at where c: "c = new_refund (fe_world env) ?rf x at"
    and m: "moved i (finance_update (if inv_amount_paid i - (inv_amount_refunded i + rf_amount ?rf) \<le> 0 then SENT else PARTIALLY_PAID)
      (rf_request_ctx ?rf)) (refund_amounts (rf_amount ?rf)) now i'" by blast
  note f = moved_fields(9-13,7) [OF m]
  have "0 \<le> rf_amount call \<and> rf_amount call \<le> inv_amount_paid i - inv_amount_refunded i"
    using i(6) same(2) by (simp add: validate_refund_Nil)
  moreover have "inv_amount_refunded i' = inv_amount_refunded i + rf_amount call" "inv_amount_paid i' = inv_amount_paid i"
    "inv_amount_due i' = inv_amount_due i + rf_amount call"
    using f v i(5) same(2) by (simp_all add: refund_amounts_def amount_of_def validate_invoice_Nil)
  moreover have "inv_status i' = (if inv_amount_paid i - inv_amount_refunded i = rf_amount call then SENT else PARTIALLY_PAID)"
    using f(1) calculation(1) same(2) by (auto simp: finance_update_def)
  moreover have "cn_amount c = rf_amount call" using c same(2) by (simp add: new_refund_def)
  ultimately show ?thesis using i same v r by (intro bexI [OF _ i(1)]) simp
qed

section \<open>Credit notes\<close>

lemma move_credit_note_Inr:
  assumes "move_credit_note env base nc i s = (Inr (c, i'), t)" and "validate_invoice i = []" and "validate_invoice i' = []"
  shows "inv_status i \<in> {SENT, PARTIALLY_PAID} \<and> (\<exists>x at. c = new_credit_note (fe_world env) nc x at) \<and>
    0 \<le> nc_amount nc \<and> inv_credited_amount i' = inv_credited_amount i + nc_amount nc \<and>
    inv_amount_paid i' = inv_amount_paid i \<and> inv_amount_refunded i' = inv_amount_refunded i \<and>
    inv_amount_due i' = inv_amount_due i - nc_amount nc \<and> inv_id i' = inv_id i \<and>
    inv_status i' = (if nc_amount nc = inv_amount_due i then PAID else PARTIALLY_PAID) \<and> 0 \<le> inv_amount_due i'"
proof -
  let ?rc = "nc_request_ctx nc" let ?am = "credit_amounts (nc_amount nc)" let ?w = "fe_world env"
  let ?rem = "invoice_total i - inv_amount_paid i - (inv_credited_amount i + nc_amount nc) + inv_amount_refunded i"
  from assms(1) obtain tgt i1 u v where st: "inv_status i \<in> {SENT, PARTIALLY_PAID}"
    and tr: "apply_financial_transition env ?rc i tgt ?am s = (Inr i1, u)"
    and fl: "flush_credit_note ?w base (new_credit_note ?w nc) u = (Inr c, v)"
    and i': "inv_status i = SENT \<and> tgt = PARTIALLY_PAID \<and>
        (if inv_amount_due i1 \<le> 0 then apply_financial_transition env ?rc i1 PAID status_only v = (Inr i', t) else i' = i1) \<or>
      inv_status i \<noteq> SENT \<and> tgt = (if ?rem \<le> 0 then PAID else PARTIALLY_PAID) \<and> i' = i1"
    unfolding move_credit_note_def Let_def by (auto simp: and_then_Inr_iff split: if_split_asm)
  obtain now where m: "moved i (finance_update tgt ?rc) ?am now i1" using financial_transition_Inr [OF tr] by blast
  note f = moved_fields [OF m] and nn = moved_nonneg [OF m]
  have am: "0 \<le> nc_amount nc"
    using m by (auto simp: moved_def credit_amounts_def negative_def dest!: apply_amounts_Inr(3))
  let ?due = "invoice_total i - inv_amount_paid i - (inv_credited_amount i + nc_amount nc) + inv_amount_refunded i"
  have i1: "inv_credited_amount i1 = inv_credited_amount i + nc_amount nc" "inv_amount_paid i1 = inv_amount_paid i"
    "inv_amount_refunded i1 = inv_amount_refunded i" "inv_amount_due i1 = ?due" "0 \<le> inv_amount_due i1"
    "inv_id i1 = inv_id i" "inv_status i1 = tgt" "invoice_total i1 = invoice_total i" "inv_total_with_tax i1 = inv_total_with_tax i"
    using f nn by (simp_all add: credit_amounts_def amount_of_def finance_update_def)
  have i2: "inv_credited_amount i' = inv_credited_amount i1 \<and> inv_amount_paid i' = inv_amount_paid i1 \<and>
    inv_amount_refunded i' = inv_amount_refunded i1 \<and> inv_amount_due i' = inv_amount_due i1 \<and> inv_id i' = inv_id i1 \<and>
    inv_total_with_tax i' = inv_total_with_tax i1 \<and> inv_status i' = (if ?due = 0 then PAID else PARTIALLY_PAID)"
  proof (cases "inv_status i = SENT \<and> inv_amount_due i1 \<le> 0")
    case True
    with i' have "apply_financial_transition env ?rc i1 PAID status_only v = (Inr i', t)" by auto
    then obtain now' where "moved i1 (finance_update PAID ?rc) status_only now' i'" using financial_transition_Inr by blast
    from moved_fields [OF this] i1 True show ?thesis by (simp add: status_only_def amount_of_def finance_update_def)
  next
    case False
    with i' i1 show ?thesis by auto
  qed
  then have "?due = inv_amount_due i - nc_amount nc" using assms(2,3) i1 by (simp add: validate_invoice_Nil)
  moreover note i2
  moreover have "\<exists>x at. c = new_credit_note ?w nc x at" using flush_credit_note_Inr [OF fl] by blast
  ultimately show ?thesis using st am i1 by simp
qed

text \<open>What the guard on the billing period needs of the decision engine: a decision leaves the periods alone.\<close>

definition keeps_periods :: "'a decider \<Rightarrow> bool" where
  "keeps_periods decide \<longleftrightarrow> (\<forall>ctx s x t. decide ctx s = (Inr x, t) \<longrightarrow> billing_periods t = billing_periods s)"

lemma create_credit_note_Inr:
  assumes "create_credit_note env base call s = (Inr r, s')" and "\<not> nrs_is_replay r"
    and nc: "nc = normalized_note (fe_world env) call"
    and dec: "keeps_periods (fe_decide env)"
  shows "\<exists>i c t u. i \<in> set (invoices s) \<and> inv_id i = nc_invoice_id nc \<and> finance_role (nc_token nc) \<and> period_closed i s \<and>
    validate_invoice i = [] \<and>
    guarded_note env base (nc_request_ctx nc) i (move_credit_note env base nc i) t = (Inr (c, nrs_invoice r), u) \<and>
    nrs_credit_note r = c"
proof -
  from assms(1,2) have "create_credit_note_new env base nc s = (Inr r, s')"
    unfolding create_credit_note_def Let_def nc [symmetric]
    by (auto simp: and_then_Inr_iff split: option.splits dest!: complete_note_Inr)
  then obtain i res o' t1 t2 t3 t4 t5 t6 t7 run c i' where l: "lock_invoice (nc_invoice_id nc) s = (Inr i, t1)"
    "check_credit_note_invoice env base (nc_request_ctx nc) i t1 = (Inr (), t2)"
    "policy_resource_for_invoice i (resolve_tenant_id (nc_request_ctx nc)) t2 = (Inr res, t3)"
    "fe_decide env (credit_note_context nc i res) t3 = (Inr o', t4)"
    "enforce_invoice_policy (fe_world env) (nc_token nc) CREDIT_NOTE_CREATE i t4 = (Inr (), t5)"
    "require_settlement_period i t5 = (Inr (), t6)"
    "guarded_note env base (nc_request_ctx nc) i (move_credit_note env base nc i) t7 = (Inr (c, i'), run)"
    "\<exists>x. book_note env base (nc_request_ctx nc) SRC_CREDIT_NOTE ''credit_note_apply'' x c i' run = (Inr r, s')"
    unfolding create_credit_note_new_def Let_def require_decision_def
    by (clarsimp simp: and_then_Inr_iff split: if_split_asm prod.splits) (rule that; (rule exI)?; assumption)
  have "t3 = t2" using l(3) by (auto simp: policy_resource_for_invoice_def and_then_Inr_iff split: if_splits)
  moreover have "billing_periods t4 = billing_periods t3" using dec l(4) unfolding keeps_periods_def by blast
  moreover have t: "t1 = s" "t2 = s" "t5 = t4" using lock_invoice_Inr [OF l(1)] check_credit_note_invoice_Inr [OF l(2)]
    invoice_policy_Inr [OF l(5)] by auto
  ultimately have "period_closed i s" using require_settlement_period_Inr [OF l(6)] by (simp add: period_closed_def)
  with l lock_invoice_Inr [OF l(1)] check_credit_note_invoice_Inr [OF l(2)] invoice_policy_Inr [OF l(5)] show ?thesis
    by (intro exI [of _ i] exI [of _ c] exI [of _ t7] exI [of _ run]) (auto dest!: book_note_Inr)
qed

text \<open>C8. A credit note never exceeds what is due. Whatever the database, with a decision engine that leaves the
  billing periods alone: whenever \<open>create_credit_note\<close> makes a new note, the caller's token had a finance
  role, the invoice was consistent, sent or partially paid, its billing period was closed, and the
  amount was between zero and what was due; afterwards exactly that amount has moved from due to credited, the
  invoice is \<open>PAID\<close> when nothing is due any more and \<open>PARTIALLY_PAID\<close> otherwise, and it is consistent.\<close>

theorem credit_note_never_exceeds_due:
  assumes "create_credit_note env base call s = (Inr r, s')" and "\<not> nrs_is_replay r"
    and "keeps_periods (fe_decide env)"
  shows "\<exists>i\<in>set (invoices s). inv_id i = nc_invoice_id call \<and> finance_role (nc_token call) \<and> period_closed i s \<and>
    inv_status i \<in> {SENT, PARTIALLY_PAID} \<and> 0 \<le> nc_amount call \<and> nc_amount call \<le> inv_amount_due i \<and>
    inv_credited_amount (nrs_invoice r) = inv_credited_amount i + nc_amount call \<and>
    inv_amount_paid (nrs_invoice r) = inv_amount_paid i \<and>
    inv_amount_due (nrs_invoice r) = inv_amount_due i - nc_amount call \<and>
    inv_status (nrs_invoice r) = (if nc_amount call = inv_amount_due i then PAID else PARTIALLY_PAID) \<and>
    validate_invoice (nrs_invoice r) = [] \<and> cn_amount (nrs_credit_note r) = nc_amount call"
proof -
  let ?nc = "normalized_note (fe_world env) call"
  have same: "nc_invoice_id ?nc = nc_invoice_id call" "nc_amount ?nc = nc_amount call" "nc_token ?nc = nc_token call"
    by (simp_all add: normalized_note_def)
  obtain i c t u where i: "i \<in> set (invoices s)" "inv_id i = nc_invoice_id ?nc" "finance_role (nc_token ?nc)" "period_closed i s"
    "validate_invoice i = []" "nrs_credit_note r = c"
    and g: "guarded_note env base (nc_request_ctx ?nc) i (move_credit_note env base ?nc i) t = (Inr (c, nrs_invoice r), u)"
    using create_credit_note_Inr [OF assms(1,2) refl assms(3)] by (elim exE conjE) (rule that)
  from guarded_note_Inr [OF g] have v: "validate_invoice (nrs_invoice r) = []"
    and mv: "move_credit_note env base ?nc i t = (Inr (c, nrs_invoice r), u)" by simp_all
  note m = move_credit_note_Inr [OF mv i(5) v]
  show ?thesis using m i v same by (intro bexI [OF _ i(1)]) (auto simp: new_credit_note_def)
qed

end
