(* ===== verification/Note_Steps.thy ===== *)
theory Note_Steps
  imports Note_Safety
begin

text \<open>
  The single steps of an admissible credit note or refund: the ledger posts, the allocation is created,
  the reconciliation has nothing to do.
\<close>

section \<open>The ledger\<close>

definition note_request :: "settlement_source_type \<Rightarrow> invoice \<Rightarrow> credit_note \<Rightarrow> int \<Rightarrow> post_request" where
  "note_request ty = (if ty = SRC_REFUND then refund_request else credit_note_request)"

definition note_lines :: "settlement_source_type \<Rightarrow> invoice \<Rightarrow> credit_note \<Rightarrow> il_line list" where
  "note_lines ty = (if ty = SRC_REFUND then refund_lines else credit_note_lines)"

definition note_ref :: "settlement_source_type \<Rightarrow> string" where
  "note_ref ty = (if ty = SRC_REFUND then ''REFUND'' else ''CREDIT_NOTE'')"

definition note_ledger_key :: "world \<Rightarrow> settlement_source_type \<Rightarrow> credit_note \<Rightarrow> string" where
  "note_ledger_key w ty c =
     normalize_key w ''ledger:'' 128 ((if ty = SRC_REFUND then ''refund:'' else ''credit_note:'') @ cn_id c @ '':applied:v1'')"

lemma note_lines_fit:
  "single_currency (map ln_currency (note_lines ty i c)) = Inr (cn_currency c)"
  "balanced_total ln_direction ln_amount (note_lines ty i c) = Inr (cn_amount c)"
  by (simp_all add: note_lines_def refund_lines_def credit_note_lines_def pair_lines_def ledger_line_def single_currency_def
      balanced_total_def sum_direction_def)

lemma note_request_fields:
  "pr_posted_at (note_request ty i c tenant) = Some (cn_created_at c)"
  "pr_external_ref_type (note_request ty i c tenant) = note_ref ty" "pr_external_ref_id (note_request ty i c tenant) = cn_id c"
  "normalize_key w ''ledger:'' 128 (pr_idempotency_key (note_request ty i c tenant)) = note_ledger_key w ty c"
  by (simp_all add: note_request_def refund_request_def credit_note_request_def note_ref_def note_ledger_key_def)

lemma post_note_new:
  assumes w: "sane_world w" and ok: "ledger_ok w s"
    and key: "\<not> key_used w (note_request ty i c tenant) (il_transactions s)"
  shows "\<exists>t n accs es r. (if ty = SRC_REFUND then post_refund_applied w i c tenant else post_credit_note_applied w i c tenant) s =
      (Inr (), s\<lparr>tick := n, audit_log := audit_log s @ [r], il_accounts := il_accounts s @ accs,
         il_transactions := il_transactions s @ [t], il_entries := il_entries s @ es\<rparr>) \<and> tick s \<le> n \<and>
    ledger_ok w (s\<lparr>tick := n, audit_log := audit_log s @ [r], il_accounts := il_accounts s @ accs,
         il_transactions := il_transactions s @ [t], il_entries := il_entries s @ es\<rparr>) \<and>
    has_external_ref (note_ref ty) (cn_id c) t \<and> tx_total_amount t = Some (cn_amount c) \<and>
    tx_currency t = Some (cn_currency c) \<and> tx_idempotency_key t = note_ledger_key w ty c"
proof -
  let ?pr = "note_request ty i c tenant"
  let ?t = "new_transaction w ?pr (cn_amount c) (cn_currency c) (note_lines ty i c) s"
  from post_transaction_new [OF w ok note_lines_fit key] obtain s' where
    run: "post_transaction w ?pr (note_lines ty i c) s = (Inr (?t, False), s')"
    and post: "posted w ?pr (note_lines ty i c) ?t s s'" by blast
  have ok': "ledger_ok w s'" by (rule posted_keeps_ok [OF w ok note_lines_fit key post])
  from post obtain n accs es r where s': "s' = s\<lparr>tick := n, audit_log := audit_log s @ [r],
      il_accounts := il_accounts s @ accs, il_transactions := il_transactions s @ [?t], il_entries := il_entries s @ es\<rparr>"
    "tick s \<le> n" unfolding posted_def by (auto simp: posting_tick_def note_request_fields)
  have "(if ty = SRC_REFUND then post_refund_applied w i c tenant else post_credit_note_applied w i c tenant) s = (Inr (), s')"
    using run by (cases "ty = SRC_REFUND")
      (simp_all add: post_refund_applied_def post_credit_note_applied_def note_request_def note_lines_def and_then_apply)
  moreover have "has_external_ref (note_ref ty) (cn_id c) ?t" "tx_currency ?t = Some (cn_currency c)"
    "tx_idempotency_key ?t = note_ledger_key w ty c"
    by (simp_all add: has_external_ref_def note_request_fields)
  ultimately show ?thesis using s' ok' by (intro exI [of _ ?t] exI [of _ n] exI [of _ accs] exI [of _ es] exI [of _ r]) simp
qed

section \<open>Booking\<close>

text \<open>An invoice all of whose sources but the new note are allocated, while its amounts already count the note.\<close>

definition almost_settled :: "settlement_source_type \<Rightarrow> credit_note \<Rightarrow> invoice \<Rightarrow> 'a fin_db_scheme \<Rightarrow> bool" where
  "almost_settled ty c i s \<longleftrightarrow>
     (let as = invoice_allocations (inv_id i) (allocations s) in
      (\<forall>p\<in>set (invoice_payments s). pay_invoice_id p = inv_id i \<longrightarrow> (SRC_PAYMENT, pay_id p) \<in> alloc_key ` set as) \<and>
      (\<forall>x\<in>set (credit_notes s). cn_invoice_id x = inv_id i \<longrightarrow> x = c \<or>
         (SRC_CREDIT_NOTE, cn_id x) \<in> alloc_key ` set as \<or> (SRC_REFUND, cn_id x) \<in> alloc_key ` set as) \<and>
      alloc_net (\<lambda>ty. alloc_total ty as) - cn_amount c = net_coverage i)"

lemma settled_after_note:
  assumes "almost_settled ty c i s" and ty: "ty \<in> {SRC_CREDIT_NOTE, SRC_REFUND}"
    and a: "sa_invoice_id a = inv_id i" "alloc_key a = (ty, cn_id c)" "sa_amount a = cn_amount c"
    and t: "allocations t = allocations s @ [a]" "invoice_payments t = invoice_payments s" "credit_notes t = credit_notes s"
  shows "settled i t"
proof -
  let ?as = "invoice_allocations (inv_id i) (allocations s)"
  have as: "invoice_allocations (inv_id i) (allocations t) = ?as @ [a]" using t(1) a(1) by (simp add: invoice_allocations_def)
  have "alloc_total x (?as @ [a]) = alloc_total x ?as + (if x = ty then sa_amount a else 0)" for x
    using a(2) by (simp add: alloc_total_def alloc_key_def)
  then have "alloc_net (\<lambda>ty. alloc_total ty (?as @ [a])) = alloc_net (\<lambda>ty. alloc_total ty ?as) - sa_amount a"
    using ty by (auto simp: alloc_net_def)
  with assms(1) a ty show ?thesis unfolding settled_def almost_settled_def Let_def as t(2,3) by auto
qed

text \<open>What booking a note adds to the tables.\<close>

definition note_booked ::
    "world \<Rightarrow> settlement_source_type \<Rightarrow> credit_note \<Rightarrow> invoice \<Rightarrow> 'a fin_db_scheme \<Rightarrow> 'a fin_db_scheme \<Rightarrow> bool" where
  "note_booked w ty c i s s' \<longleftrightarrow>
     invoices s' = invoices s \<and> invoice_payments s' = invoice_payments s \<and> credit_notes s' = credit_notes s \<and>
     money_flow_events s' = money_flow_events s \<and> refund_request_ids s' = refund_request_ids s \<and>
     (\<exists>a. allocations s' = allocations s @ [a] \<and> sa_invoice_id a = inv_id i \<and> sa_source_type a = ty \<and>
        sa_source_id a = cn_id c \<and> sa_amount a = cn_amount c) \<and>
     (\<exists>t. il_transactions s' = il_transactions s @ [t] \<and> has_external_ref (note_ref ty) (cn_id c) t \<and>
        tx_total_amount t = Some (cn_amount c) \<and> tx_currency t = Some (cn_currency c) \<and>
        tx_idempotency_key t = note_ledger_key w ty c) \<and> tick s \<le> tick s'"

lemma book_note_run:
  fixes env :: "'a fin_env"
  assumes w: "sane_world (fe_world env)" and led: "ledger_ok (fe_world env) s"
    and per: "period_table_ok (fe_world env) s" and ad: "adhoc_unlocked s" and ku: "keys_unique s"
    and inv: "distinct (map inv_id (invoices s))" "i \<in> set (invoices s)"
    and ty: "ty \<in> {SRC_CREDIT_NOTE, SRC_REFUND}"
    and key: "\<not> key_used (fe_world env) (note_request ty i c (resolve_tenant_id rc)) (il_transactions s)"
    and new: "\<forall>a\<in>set (allocations s). \<not> same_source (inv_id i) ty (cn_id c) a"
    and dist: "distinct (map alloc_key (invoice_allocations (inv_id i) (allocations s)))"
    and almost: "almost_settled ty c i s" and bound: "abs (net_coverage i) \<le> invoice_total i"
  shows "\<exists>s'. book_note env base rc ty reason run c i s =
      (Inr \<lparr>nrs_credit_note = c, nrs_invoice = i, nrs_is_replay = False\<rparr>, s') \<and> note_booked (fe_world env) ty c i s s' \<and> settled i s' \<and>
    ledger_ok (fe_world env) s' \<and> period_table_ok (fe_world env) s' \<and> adhoc_unlocked s'"
proof -
  let ?w = "fe_world env" let ?ten = "resolve_tenant_id rc" let ?q = "credit_note_alloc ty c"
  have q: "aq_source_type ?q = ty" "aq_source_id ?q = cn_id c" "aq_amount ?q = cn_amount c"
    "aq_applied_at ?q = Some (cn_created_at c)" by (simp_all add: credit_note_alloc_def)
  have "\<exists>a s1. ensure_settlement_allocation env rc i ?q s = (Inr a, s1) \<and> allocated ?w rc i ?q a s s1"
    by (rule ensure_allocation_new [OF w per ad ku])
      (use new almost ty bound in \<open>auto simp: q totals_with_net almost_settled_def Let_def\<close>)
  then obtain a s1 where al: "ensure_settlement_allocation env rc i ?q s = (Inr a, s1)" "allocated ?w rc i ?q a s s1" by blast
  obtain n log pds nodes edges m where s1: "s1 = s\<lparr>tick := n, audit_log := audit_log s @ log,
      allocations := allocations s @ [a], billing_periods := billing_periods s @ pds, legal_nodes := nodes, legal_edges := edges\<rparr>"
    and m: "tick s \<le> m" "m < n" "sa_id a = uuid_at ?w m" "\<forall>p\<in>set pds. bp_status p = OPEN"
    and per1: "period_table_ok ?w s1" and af: "allocation_for rc i ?q a"
    by (rule allocatedE [OF al(2)])
  have a: "sa_invoice_id a = inv_id i" "alloc_key a = (ty, cn_id c)" "sa_amount a = cn_amount c" "sa_source_type a = ty"
    "sa_source_id a = cn_id c" using af by (simp_all add: allocation_for_def alloc_key_def q)
  have led1: "ledger_ok ?w s1" by (rule ledger_ok_frame [OF led]) (use m in \<open>simp_all add: s1\<close>)
  have key1: "\<not> key_used ?w (note_request ty i c ?ten) (il_transactions s1)" using key by (simp add: s1)
  define post :: "('a fin_db_scheme, unit) act" where
    "post = (if ty = SRC_REFUND then post_refund_applied ?w i c ?ten else post_credit_note_applied ?w i c ?ten)"
  obtain t k accs es r where p: "post s1 = (Inr (), s1\<lparr>tick := k, audit_log := audit_log s1 @ [r], il_accounts := il_accounts s1 @ accs,
         il_transactions := il_transactions s1 @ [t], il_entries := il_entries s1 @ es\<rparr>)" "tick s1 \<le> k"
    and led2': "ledger_ok ?w (s1\<lparr>tick := k, audit_log := audit_log s1 @ [r], il_accounts := il_accounts s1 @ accs,
         il_transactions := il_transactions s1 @ [t], il_entries := il_entries s1 @ es\<rparr>)"
    and t: "has_external_ref (note_ref ty) (cn_id c) t" "tx_total_amount t = Some (cn_amount c)"
      "tx_currency t = Some (cn_currency c)" "tx_idempotency_key t = note_ledger_key ?w ty c"
    using post_note_new [OF w led1 key1, folded post_def] by (elim exE conjE) (rule that)
  define s2 where "s2 = s1\<lparr>tick := k, audit_log := audit_log s1 @ [r], il_accounts := il_accounts s1 @ accs,
         il_transactions := il_transactions s1 @ [t], il_entries := il_entries s1 @ es\<rparr>"
  have set2: "settled i s2" by (rule settled_after_note [OF almost ty a(1,2,3)]) (simp_all add: s2_def s1)
  have rec: "reconcile_invoice_allocations env rc reason (Some (cn_idempotency_key c)) (inv_id i) s2 = (Inr (), s2)"
  proof (rule reconcile_settled [OF _ _ _ set2])
    have "alloc_key a \<notin> alloc_key ` set (invoice_allocations (inv_id i) (allocations s))"
      using new a(2) by (auto simp: invoice_allocations_def same_source_def alloc_key_def)
    then show "distinct (map alloc_key (invoice_allocations (inv_id i) (allocations s2)))"
      using dist a(1) by (simp add: s2_def s1 invoice_allocations_def)
  qed (use inv in \<open>simp_all add: s2_def s1\<close>)
  obtain j where j: "finish_job ?w run (cn_invoice_id c) (cn_amount c) (cn_currency c) ''credit_note_id'' (cn_id c) i s2 =
      (Inr j, s2\<lparr>tick := Suc (tick s2), billing_job_runs := store_row jr_id j (billing_job_runs s2)\<rparr>)"
    using finish_job_effect by blast
  define s3 where "s3 = s2\<lparr>tick := Suc (tick s2), billing_job_runs := store_row jr_id j (billing_job_runs s2)\<rparr>"
  have "book_note env base rc ty reason run c i s = (Inr \<lparr>nrs_credit_note = c, nrs_invoice = i, nrs_is_replay = False\<rparr>, s3)"
    unfolding book_note_def post_def [symmetric] s3_def
    using al(1) p(1) rec j by (simp add: ensure_settlement_allocation_guarded_def and_then_apply s2_def)
  moreover have "ledger_ok ?w s3" by (rule ledger_ok_frame [OF led2']) (simp_all add: s3_def s2_def)
  moreover have "period_table_ok ?w s3" by (rule period_table_ok_frame [OF per1]) (use p(2) in \<open>simp_all add: s3_def s2_def\<close>)
  moreover have "settled i s3" using set2 by (simp add: settled_def s3_def)
  moreover have "adhoc_unlocked s3" using ad m(4) by (auto simp: adhoc_unlocked_def s3_def s2_def s1)
  moreover have "note_booked (fe_world env) ty c i s s3"
    unfolding note_booked_def using a t m p(2) by (auto simp: s3_def s2_def s1)
  ultimately show ?thesis by blast
qed

end
