(* ===== verification/Note_Properties.thy ===== *)
theory Note_Properties
  imports Note_Steps
begin

text \<open>
  What credit notes and refunds promise: an admissible one succeeds, books the same amount in the
  invoice, the note table, the ledger and the allocations, and keeps the books in order.
\<close>

section \<open>The books after a note\<close>

lemma note_books:
  fixes env :: "'a fin_env"
  assumes w: "sane_world (fe_world env)" and ok: "books_ok (fe_world env) s" and i: "i \<in> set (invoices s)"
    and ty: "ty \<in> {SRC_CREDIT_NOTE, SRC_REFUND}"
    and i': "inv_id i' = inv_id i" "net_coverage i' = net_coverage i - cn_amount c" "abs (net_coverage i') \<le> invoice_total i'"
    and c: "cn_id c = uuid_at (fe_world env) m" "tick s \<le> m" "m < tick s1" "cn_invoice_id c = inv_id i"
    and key: "\<not> key_used (fe_world env) (note_request ty i' c (resolve_tenant_id rc)) (il_transactions s)"
    and frame: "invoices s1 = store_row inv_id i' (invoices s)" "credit_notes s1 = credit_notes s @ [c]"
      "invoice_payments s1 = invoice_payments s" "allocations s1 = allocations s" "billing_periods s1 = billing_periods s"
      "money_flow_events s1 = money_flow_events s" "refund_request_ids s1 = refund_request_ids s"
      "il_accounts s1 = il_accounts s" "il_transactions s1 = il_transactions s" "il_entries s1 = il_entries s"
  shows "\<exists>s'. book_note env base rc ty reason run c i' s1 =
      (Inr \<lparr>nrs_credit_note = c, nrs_invoice = i', nrs_is_replay = False\<rparr>, s') \<and> note_booked (fe_world env) ty c i' s1 s' \<and>
    books_ok (fe_world env) s'"
proof -
  let ?w = "fe_world env"
  have fin: "fin_ok ?w s" and set: "\<And>j. j \<in> set (invoices s) \<Longrightarrow> settled j s" using ok by (auto simp: books_ok_def)
  note d = fin_okD [OF fin]
  have le: "tick s \<le> tick s1" using c by simp
  have cns: "ids_below ?w (tick s1) (map cn_id (credit_notes s1))"
    using ids_below_snoc [OF w d(12) c(2,3)] c(1) frame(2) by simp
  have fresh: "\<forall>x\<in>set (allocations s). sa_source_id x \<noteq> cn_id c"
    using known_id_fresh [OF w d(10) c(2)] c(1) by simp
  have "\<exists>s'. book_note env base rc ty reason run c i' s1 =
      (Inr \<lparr>nrs_credit_note = c, nrs_invoice = i', nrs_is_replay = False\<rparr>, s') \<and> note_booked (fe_world env) ty c i' s1 s' \<and> settled i' s' \<and>
    ledger_ok ?w s' \<and> period_table_ok ?w s' \<and> adhoc_unlocked s'"
  proof (rule book_note_run [OF w _ _ _ _ _ _ ty])
    show "ledger_ok ?w s1" by (rule ledger_ok_frame [OF d(1)]) (use frame le in simp_all)
    show "period_table_ok ?w s1" by (rule period_table_ok_frame [OF d(2)]) (use frame le in simp_all)
    show "adhoc_unlocked s1" using d(3) frame by (simp add: adhoc_unlocked_def)
    show "keys_unique s1" using d(8) frame cns by (simp add: keys_unique_def ids_below_def)
    show "i' \<in> set (invoices s1)" using store_row_mem [OF i, of inv_id i'] i'(1) frame(1) by simp
    show "almost_settled ty c i' s1"
      using set [OF i] i' frame unfolding almost_settled_def settled_def Let_def by auto
    show "distinct (map alloc_key (invoice_allocations (inv_id i') (allocations s1)))"
      using fin_ok_alloc_keys [OF fin] frame(4) by simp
  qed (use d(4) frame fresh key i'(3) in \<open>auto simp: same_source_def\<close>)
  then obtain s' where r: "book_note env base rc ty reason run c i' s1 =
      (Inr \<lparr>nrs_credit_note = c, nrs_invoice = i', nrs_is_replay = False\<rparr>, s')" and b: "note_booked (fe_world env) ty c i' s1 s'"
    and st: "settled i' s'" "ledger_ok ?w s'" "period_table_ok ?w s'" "adhoc_unlocked s'" by blast
  from b obtain a t where a: "allocations s' = allocations s @ [a]" "sa_invoice_id a = inv_id i" "alloc_key a = (ty, cn_id c)"
    and t: "il_transactions s' = il_transactions s @ [t]" "tx_external_ref_type t \<noteq> ''PAYMENT''"
    and le': "tick s1 \<le> tick s'"
    and fr: "invoices s' = store_row inv_id i' (invoices s)" "invoice_payments s' = invoice_payments s"
      "credit_notes s' = credit_notes s @ [c]" "money_flow_events s' = money_flow_events s"
      "refund_request_ids s' = refund_request_ids s"
    using frame i'(1) by (auto simp: note_booked_def alloc_key_def has_external_ref_def note_ref_def split: if_splits)
  have le2: "tick s \<le> tick s'" using le le' by simp
  have "known_id ?w (tick s') (cn_id c)" using c le' by (auto simp: known_id_def intro: order_less_le_trans)
  then have "\<forall>x\<in>set (allocations s'). known_id ?w (tick s') (sa_source_id x)"
    using known_id_mono [OF d(10) le2] a by (auto simp: alloc_key_def)
  moreover have "distinct (map (\<lambda>a. (sa_invoice_id a, alloc_key a)) (allocations s'))"
    using d(9) fresh a by (auto simp: alloc_key_def)
  moreover have "\<forall>x\<in>set (il_transactions s'). tx_external_ref_type x = ''PAYMENT'' \<longrightarrow> known_id ?w (tick s') (tx_external_ref_id x)"
    using known_id_mono [OF d(11) le2] t by auto
  moreover have "ids_below ?w (tick s') (map cn_id (credit_notes s'))" "ids_below ?w (tick s') (map pay_id (invoice_payments s'))"
    using ids_below_mono [OF cns le'] ids_below_mono [OF d(5) le2] fr frame by simp_all
  ultimately have "fin_ok ?w s'" using st fr d(4,6,7) fin unfolding fin_ok_def by simp
  moreover have "settled j s'" if j: "j \<in> set (invoices s')" for j
  proof -
    from set_store_rowD [of j inv_id i' "invoices s"] j fr(1)
    consider "j = i'" | "j \<in> set (invoices s)" "inv_id j \<noteq> inv_id i'" by auto
    then show ?thesis
    proof cases
      case 2
      have pays: "invoice_payments s' = invoice_payments s @ []" using fr(2) by simp
      show ?thesis by (rule settled_other [OF _ _ pays a(1) fr(3), where k = "inv_id i"]) (use 2 set a c i' in simp_all)
    qed (use st in simp)
  qed
  ultimately show ?thesis using r b unfolding books_ok_def by blast
qed

section \<open>Refunds\<close>

definition refundable :: "int \<Rightarrow> invoice \<Rightarrow> bool" where
  "refundable a i \<longleftrightarrow> validate_invoice i = [] \<and> inv_status i \<in> {PAID, PARTIALLY_PAID} \<and> 0 < a \<and>
     a \<le> inv_amount_paid i - inv_amount_refunded i \<and>
     (a = inv_amount_paid i - inv_amount_refunded i \<longrightarrow> inv_pdf_status i = PDF_READY)"

definition refunded_status :: "int \<Rightarrow> invoice \<Rightarrow> invoice_status" where
  "refunded_status a i = (if inv_amount_paid i - (inv_amount_refunded i + a) \<le> 0 then SENT else PARTIALLY_PAID)"

lemma refundable_total: "refundable a i \<Longrightarrow> invoice_total i = inv_total_with_tax i"
  by (auto simp: refundable_def validate_invoice_Nil invoice_total_def)

lemma refundable_moves:
  assumes "refundable a i"
  shows "\<exists>i1. apply_amounts i (refund_amounts a) = Inr i1 \<and> validate_constraints i1 (refunded_status a i) (refund_amounts a) = Inr ()"
proof -
  let ?i1 = "i\<lparr>inv_amount_paid := inv_amount_paid i, inv_amount_due := inv_amount_due i + a,
    inv_credited_amount := inv_credited_amount i, inv_amount_refunded := inv_amount_refunded i + a\<rparr>"
  note t = refundable_total [OF assms]
  have "apply_amounts i (refund_amounts a) = Inr ?i1"
    using assms t by (simp add: apply_amounts_def refundable_def validate_invoice_Nil refund_amounts_def negative_def
        amount_of_def Let_def)
  moreover have "validate_constraints ?i1 (refunded_status a i) (refund_amounts a) = Inr ()"
    using assms t by (auto simp: validate_constraints_def refunded_status_def refundable_def validate_invoice_Nil
        refund_amounts_def positive_def Let_def)
  ultimately show ?thesis by blast
qed

lemma refundable_moved:
  assumes "refundable a i" and "moved i (finance_update (refunded_status a i) rc) (refund_amounts a) now i'"
  shows "validate_invoice i' = []" "inv_amount_refunded i' = inv_amount_refunded i + a"
    "inv_amount_due i' = inv_amount_due i + a" "net_coverage i' = net_coverage i - a"
    "abs (net_coverage i') \<le> invoice_total i'" "inv_id i' = inv_id i" "inv_amount_paid i' = inv_amount_paid i"
    "inv_status i' = (if a = inv_amount_paid i - inv_amount_refunded i then SENT else PARTIALLY_PAID)"
  using moved_fields [OF assms(2)] refundable_total [OF assms(1)] assms(1)
  by (auto simp: refundable_def validate_invoice_Nil refund_amounts_def amount_of_def net_coverage_def refunded_status_def)

text \<open>A transition, the flush of the note and the check of the new amounts.\<close>

lemma flush_credit_note_new:
  assumes "\<forall>x\<in>set (credit_notes s). cn_idempotency_key x \<noteq> cn_idempotency_key (build (uuid_at w (tick s)) (time_at w (Suc (tick s))))"
  shows "flush_credit_note w base build s = (Inr (build (uuid_at w (tick s)) (time_at w (Suc (tick s)))),
     s\<lparr>tick := tick s + 2, credit_notes := credit_notes s @ [build (uuid_at w (tick s)) (time_at w (Suc (tick s)))]\<rparr>)"
  using assms by (simp add: flush_credit_note_def and_then_apply Let_def)

lemma move_refund_run:
  assumes ref: "refundable (rf_amount rf) i" and per: "distinct (map bp_id (billing_periods s))"
    and key: "\<forall>x\<in>set (credit_notes s). cn_idempotency_key x \<noteq> refund_key (fe_world env) rf"
  shows "\<exists>i' l r now c. guarded_note env base (rf_request_ctx rf) i (move_refund env base rf i) s = (Inr (c, i'),
      s\<lparr>tick := tick s + 6, audit_log := audit_log s @ [r], invoices := store_row inv_id i' (invoices s),
        invoice_transition_logs := invoice_transition_logs s @ [l], credit_notes := credit_notes s @ [c]\<rparr>) \<and>
    moved i (finance_update (refunded_status (rf_amount rf) i) (rf_request_ctx rf)) (refund_amounts (rf_amount rf)) now i' \<and>
    (\<exists>at. c = new_refund (fe_world env) rf (uuid_at (fe_world env) (tick s + 4)) at)"
proof -
  let ?w = "fe_world env" let ?st = "refunded_status (rf_amount rf) i" let ?rc = "rf_request_ctx rf"
  let ?am = "refund_amounts (rf_amount rf)"
  from refundable_moves [OF ref] obtain i1 where i1: "apply_amounts i ?am = Inr i1" "validate_constraints i1 ?st ?am = Inr ()" by blast
  have "\<exists>i' l r. moved i (finance_update ?st ?rc) ?am (time_at ?w (tick s)) i' \<and>
     transition ?w (fe_decide env) i (finance_update ?st ?rc) ?am s = (Inr i',
     s\<lparr>tick := tick s + 4, audit_log := audit_log s @ [r], invoices := store_row inv_id i' (invoices s),
       invoice_transition_logs := invoice_transition_logs s @ [l]\<rparr>)"
    by (rule transition_effect) (use i1 per ref in \<open>auto simp: refunded_status_def refundable_def\<close>)
  then obtain i' l r where m: "moved i (finance_update ?st ?rc) ?am (time_at ?w (tick s)) i'"
    and tr: "transition ?w (fe_decide env) i (finance_update ?st ?rc) ?am s = (Inr i',
     s\<lparr>tick := tick s + 4, audit_log := audit_log s @ [r], invoices := store_row inv_id i' (invoices s),
       invoice_transition_logs := invoice_transition_logs s @ [l]\<rparr>)" by blast
  define t where "t = s\<lparr>tick := tick s + 4, audit_log := audit_log s @ [r],
      invoices := store_row inv_id i' (invoices s), invoice_transition_logs := invoice_transition_logs s @ [l]\<rparr>"
  define c where "c = new_refund ?w rf (uuid_at ?w (tick t)) (time_at ?w (Suc (tick t)))"
  have fl: "flush_credit_note ?w base (new_refund ?w rf) t = (Inr c, t\<lparr>tick := tick t + 2, credit_notes := credit_notes t @ [c]\<rparr>)"
    unfolding c_def by (rule flush_credit_note_new) (use key in \<open>simp add: t_def new_refund_def\<close>)
  have "move_refund env base rf i s = (Inr (c, i'), t\<lparr>tick := tick t + 2, credit_notes := credit_notes t @ [c]\<rparr>)"
    unfolding move_refund_def Let_def refunded_status_def [symmetric] apply_financial_transition_def
    using tr [folded t_def] fl by (simp add: and_then_apply)
  then have "guarded_note env base ?rc i (move_refund env base rf i) s =
      (Inr (c, i'), t\<lparr>tick := tick t + 2, credit_notes := credit_notes t @ [c]\<rparr>)"
    using refundable_moved(1) [OF ref m] by (simp add: guarded_note_def)
  then show ?thesis using m
    by (intro exI [of _ i'] exI [of _ l] exI [of _ r] exI [of _ "time_at ?w (tick s)"] exI [of _ c])
      (auto simp: t_def c_def eval_nat_numeral)
qed

definition note_key_free :: "world \<Rightarrow> string \<Rightarrow> 'a fin_db_scheme \<Rightarrow> bool" where
  "note_key_free w kind s \<longleftrightarrow> (\<forall>n\<ge>tick s. \<forall>t\<in>set (il_transactions s).
     tx_idempotency_key t \<noteq> normalize_key w ''ledger:'' 128 (kind @ uuid_at w n @ '':applied:v1''))"

text \<open>When a refund is admissible; the reference is new, and the ledger has no transaction of a future refund.\<close>

definition refund_admissible :: "'a fin_env \<Rightarrow> refund_call \<Rightarrow> invoice \<Rightarrow> 'a fin_db_scheme \<Rightarrow> bool" where
  "refund_admissible env call i s \<longleftrightarrow>
     (let w = fe_world env; rf = normalized_refund w call in
      sane_world w \<and> books_ok w s \<and> i \<in> set (invoices s) \<and> inv_id i = rf_invoice_id rf \<and> refundable (rf_amount rf) i \<and>
      period_closed i s \<and> finance_role (rf_token rf) \<and>
      (\<forall>x\<in>set (credit_notes s). cn_idempotency_key x \<noteq> refund_key w rf \<and> \<not> note_by_reference (rf_external_ref rf) (rf_provider rf) x) \<and>
      note_key_free w ''refund:'' s)"

lemma check_refund_rules_pass:
  assumes "refundable (rf_amount rf) i"
  shows "check_refund_rules env base rf i s = (Inr (), s)"
proof -
  have "validate_invoice i = []" "validate_refund i (rf_amount rf) = []"
    using assms by (auto simp: refundable_def validate_refund_Nil)
  then show ?thesis by (simp add: check_refund_rules_def Let_def)
qed

lemma refund_admissible_parts:
  assumes "refund_admissible env call i s" and "rf = normalized_refund (fe_world env) call" and "w = fe_world env"
  shows "sane_world w" "books_ok w s" "i \<in> set (invoices s)" "inv_id i = rf_invoice_id rf" "refundable (rf_amount rf) i"
    "period_closed i s" "finance_role (rf_token rf)" "\<forall>x\<in>set (credit_notes s). cn_idempotency_key x \<noteq> refund_key w rf"
    "\<forall>x\<in>set (credit_notes s). \<not> note_by_reference (rf_external_ref rf) (rf_provider rf) x" "note_key_free w ''refund:'' s"
  using assms by (simp_all add: refund_admissible_def Let_def)

lemma create_refund_books:
  fixes env :: "'a fin_env"
  assumes adm: "refund_admissible env call i s" and rf: "rf = normalized_refund (fe_world env) call"
  shows "\<exists>c i' s' s1. create_refund env base call s = (Inr \<lparr>nrs_credit_note = c, nrs_invoice = i', nrs_is_replay = False\<rparr>, s') \<and>
    (\<exists>x at. c = new_refund (fe_world env) rf x at) \<and>
    (\<exists>now. moved i (finance_update (refunded_status (rf_amount rf) i) (rf_request_ctx rf)) (refund_amounts (rf_amount rf)) now i') \<and>
    invoices s1 = store_row inv_id i' (invoices s) \<and> credit_notes s1 = credit_notes s @ [c] \<and>
    invoice_payments s1 = invoice_payments s \<and> allocations s1 = allocations s \<and> il_transactions s1 = il_transactions s \<and>
    note_booked (fe_world env) SRC_REFUND c i' s1 s' \<and> books_ok (fe_world env) s'"
proof -
  let ?w = "fe_world env" let ?rc = "rf_request_ctx rf"
  note a = refund_admissible_parts [OF adm rf refl]
  have fin: "fin_ok ?w s" using a(2) by (simp add: books_ok_def)
  note d = fin_okD [OF fin] and per = period_table_okD(2) [OF fin_okD(2) [OF fin]]
  obtain run where run: "start_job ?w (refund_job ?w rf) s =
      (Inr run, s\<lparr>tick := tick s + 3, billing_job_runs := billing_job_runs s @ [run]\<rparr>)" using start_job_effect by blast
  define s0 where "s0 = s\<lparr>tick := tick s + 3, billing_job_runs := billing_job_runs s @ [run]\<rparr>"
  have "\<exists>i' l r now c. guarded_note env base ?rc i (move_refund env base rf i) s0 = (Inr (c, i'),
      s0\<lparr>tick := tick s0 + 6, audit_log := audit_log s0 @ [r], invoices := store_row inv_id i' (invoices s0),
        invoice_transition_logs := invoice_transition_logs s0 @ [l], credit_notes := credit_notes s0 @ [c]\<rparr>) \<and>
    moved i (finance_update (refunded_status (rf_amount rf) i) ?rc) (refund_amounts (rf_amount rf)) now i' \<and>
    (\<exists>at. c = new_refund ?w rf (uuid_at ?w (tick s0 + 4)) at)"
    by (rule move_refund_run [OF a(5)]) (use a(8) per in \<open>simp_all add: s0_def\<close>)
  then obtain i' l r now c at where g: "guarded_note env base ?rc i (move_refund env base rf i) s0 = (Inr (c, i'),
      s0\<lparr>tick := tick s0 + 6, audit_log := audit_log s0 @ [r], invoices := store_row inv_id i' (invoices s0),
        invoice_transition_logs := invoice_transition_logs s0 @ [l], credit_notes := credit_notes s0 @ [c]\<rparr>)"
    and m: "moved i (finance_update (refunded_status (rf_amount rf) i) ?rc) (refund_amounts (rf_amount rf)) now i'"
    and c: "c = new_refund ?w rf (uuid_at ?w (tick s0 + 4)) at" by (elim exE conjE) (rule that)
  note f = refundable_moved [OF a(5) m]
  define s1 where "s1 = s0\<lparr>tick := tick s0 + 6, audit_log := audit_log s0 @ [r], invoices := store_row inv_id i' (invoices s0),
        invoice_transition_logs := invoice_transition_logs s0 @ [l], credit_notes := credit_notes s0 @ [c]\<rparr>"
  have cf: "cn_id c = uuid_at ?w (tick s + 7)" "cn_amount c = rf_amount rf" "cn_invoice_id c = rf_invoice_id rf"
    using c by (simp_all add: new_refund_def s0_def add.commute)
  have "\<exists>s'. book_note env base ?rc SRC_REFUND ''refund_apply'' run c i' s1 =
      (Inr \<lparr>nrs_credit_note = c, nrs_invoice = i', nrs_is_replay = False\<rparr>, s') \<and> note_booked (fe_world env) SRC_REFUND c i' s1 s' \<and> books_ok ?w s'"
  proof (rule note_books [OF a(1,2,3)])
    show "tick s \<le> tick s + 7" "tick s + 7 < tick s1" by (simp_all add: s1_def s0_def)
    show "\<not> key_used ?w (note_request SRC_REFUND i' c (resolve_tenant_id ?rc)) (il_transactions s)"
      using a(10) cf(1) by (auto simp: key_used_def note_request_def refund_request_def note_key_free_def)
  qed (use f cf a(4) in \<open>simp_all add: s1_def s0_def\<close>)
  then obtain s' where b: "book_note env base ?rc SRC_REFUND ''refund_apply'' run c i' s1 =
      (Inr \<lparr>nrs_credit_note = c, nrs_invoice = i', nrs_is_replay = False\<rparr>, s')" "note_booked (fe_world env) SRC_REFUND c i' s1 s'" "books_ok ?w s'"
    by blast
  have none: "one_or_none (note_by_reference (rf_external_ref rf) (rf_provider rf)) (credit_notes s) = Inr None" using a(9) by simp
  have ins: "insert_refund env base rf run i s0 = book_note env base ?rc SRC_REFUND ''refund_apply'' run c i' s1"
    using g by (simp add: insert_refund_def and_then_apply s1_def)
  have "create_refund_new env base rf s = insert_refund env base rf run i s0"
    unfolding create_refund_new_def
    using lock_invoice_found [OF d(4) a(3)] a(4) run a(5)
    by (simp add: invoice_policy_pass [OF per a(7)] check_refund_rules_pass [OF a(5)]
        require_settlement_period_pass [OF per a(6)] refundable_def s0_def)
  then have "create_refund env base call s = (Inr \<lparr>nrs_credit_note = c, nrs_invoice = i', nrs_is_replay = False\<rparr>, s')"
    unfolding create_refund_def Let_def rf [symmetric] using ins b(1) by (simp add: and_then_apply none)
  with b m c show ?thesis
    by (intro exI [of _ c] exI [of _ i'] exI [of _ s'] exI [of _ s1]) (auto simp: s1_def s0_def)
qed

text \<open>C6. An admissible refund succeeds and books the same amount everywhere. When the caller has a finance role, the
  reference is new, the billing period is closed, the invoice is consistent and paid or partially paid, and
  the amount is positive and within what was paid and not yet refunded, then \<open>create_refund\<close> returns a new note. The amount
  is refunded and due again; one note, one ledger transaction and one settlement allocation
  of that amount were added, all other invoices and all payments are as before, and
  the books are in order again: the allocations of every invoice add up to its coverage.\<close>

theorem create_refund_succeeds:
  assumes "refund_admissible env call i s"
  shows "\<exists>r s'. create_refund env base call s = (Inr r, s') \<and> \<not> nrs_is_replay r \<and>
    inv_amount_refunded (nrs_invoice r) = inv_amount_refunded i + rf_amount call \<and>
    inv_amount_due (nrs_invoice r) = inv_amount_due i + rf_amount call \<and>
    inv_status (nrs_invoice r) = (if rf_amount call = inv_amount_paid i - inv_amount_refunded i then SENT else PARTIALLY_PAID) \<and>
    cn_amount (nrs_credit_note r) = rf_amount call \<and>
    invoices s' = store_row inv_id (nrs_invoice r) (invoices s) \<and>
    credit_notes s' = credit_notes s @ [nrs_credit_note r] \<and> invoice_payments s' = invoice_payments s \<and>
    (\<exists>a. allocations s' = allocations s @ [a] \<and> sa_invoice_id a = inv_id i \<and> sa_source_type a = SRC_REFUND \<and>
       sa_source_id a = cn_id (nrs_credit_note r) \<and> sa_amount a = rf_amount call) \<and>
    (\<exists>t. il_transactions s' = il_transactions s @ [t] \<and> tx_total_amount t = Some (rf_amount call) \<and>
       has_external_ref ''REFUND'' (cn_id (nrs_credit_note r)) t) \<and>
    books_ok (fe_world env) s'"
proof -
  let ?rf = "normalized_refund (fe_world env) call"
  have amt: "rf_amount ?rf = rf_amount call" by (simp add: normalized_refund_def)
  note a = refund_admissible_parts [OF assms refl refl]
  obtain c i' s' s1 x at now where r: "create_refund env base call s = (Inr \<lparr>nrs_credit_note = c, nrs_invoice = i', nrs_is_replay = False\<rparr>, s')"
    "c = new_refund (fe_world env) ?rf x at"
    "moved i (finance_update (refunded_status (rf_amount ?rf) i) (rf_request_ctx ?rf)) (refund_amounts (rf_amount ?rf)) now i'"
    "invoices s1 = store_row inv_id i' (invoices s)" "credit_notes s1 = credit_notes s @ [c]"
    "invoice_payments s1 = invoice_payments s" "allocations s1 = allocations s" "il_transactions s1 = il_transactions s"
    "note_booked (fe_world env) SRC_REFUND c i' s1 s'" "books_ok (fe_world env) s'"
    using create_refund_books [OF assms refl, of base] by (elim exE conjE) (rule that)
  note f = refundable_moved [OF a(5) r(3)]
  have "cn_amount c = rf_amount call" using r(2) amt by (simp add: new_refund_def)
  then show ?thesis
    using r f amt unfolding note_booked_def
    by (intro exI [of _ "\<lparr>nrs_credit_note = c, nrs_invoice = i', nrs_is_replay = False\<rparr>"] exI [of _ s'])
      (auto simp: note_ref_def)
qed

subsection \<open>A reference refund\<close>

definition paid_invoice :: invoice where
  "paid_invoice = open_invoice\<lparr>inv_amount_paid := 500, inv_amount_due := 700, inv_status := PARTIALLY_PAID\<rparr>"

definition paid_books :: fin_db where
  "paid_books = ref_books\<lparr>tick := 4, invoices := [paid_invoice],
     invoice_payments := [\<lparr>pay_id = ''aa'', pay_invoice_id = ''inv-1'', pay_amount = 500, pay_currency = ''RUB'',
       pay_provider = None, pay_external_ref = None, pay_idempotency_key = ''k-1'', pay_response_hash = [],
       pay_status = PAYMENT_POSTED, pay_created_at = 1\<rparr>],
     allocations := [\<lparr>sa_id = ''aaa'', sa_invoice_id = ''inv-1'', sa_tenant_id = 1, sa_client_id = ''c-1'',
       sa_settlement_period_id = ''a'', sa_source_type = SRC_PAYMENT, sa_source_id = ''aa'', sa_amount = 500,
       sa_currency = ''RUB'', sa_applied_at = 1, sa_meta = None\<rparr>]\<rparr>"

lemma ref_uuid: "uuid_at ref_world 1 = ''a''" "uuid_at ref_world 2 = ''aa''" "uuid_at ref_world 3 = ''aaa''"
  by (simp_all add: ref_world_def numeral_eq_Suc)

lemma paid_books_ok: "books_ok ref_world paid_books"
proof -
  have ids: "ids_below ref_world 4 [''a'']" "ids_below ref_world 4 [''aa'']" "known_id ref_world 4 ''aa''"
    unfolding ids_below_def known_id_def using ref_uuid by (force intro: exI [of _ 1] exI [of _ 2])+
  then have "fin_ok ref_world paid_books"
    by (simp add: fin_ok_def ledger_ok_empty period_table_ok_def adhoc_unlocked_def paid_books_def ref_books_def
        empty_fin_db_def new_period_def)
  moreover have "\<forall>i\<in>set (invoices paid_books). settled i paid_books"
    by (simp add: settled_def paid_books_def ref_books_def empty_fin_db_def invoice_allocations_def alloc_net_def
        alloc_total_def net_coverage_def paid_invoice_def open_invoice_def ref_invoice_def alloc_key_def)
  ultimately show ?thesis by (simp add: books_ok_def)
qed

definition ref_refund :: "int \<Rightarrow> refund_call" where
  "ref_refund x = \<lparr>rf_invoice_id = ''inv-1'', rf_amount = x, rf_currency = ''RUB'', rf_reason = None,
     rf_external_ref = Some ''ret-1'', rf_provider = None, rf_request_ctx = None, rf_token = finance_admin\<rparr>"

lemma ref_refund_admissible: "0 < x \<Longrightarrow> x \<le> 500 \<Longrightarrow> refund_admissible ref_env (ref_refund x) paid_invoice paid_books"
proof -
  assume x: "0 < x" "x \<le> 500"
  have n: "normalized_refund ref_world (ref_refund x) = ref_refund x"
    by (simp add: normalized_refund_def ref_refund_def normalize_key_def normalize_key_optional_def)
  have "refundable x paid_invoice" using x
    by (simp add: refundable_def validate_invoice_Nil paid_invoice_def open_invoice_def ref_invoice_def)
  moreover have "period_closed paid_invoice paid_books"
    by (simp add: period_closed_def paid_invoice_def open_invoice_def paid_books_def ref_books_def new_period_def)
  moreover have "finance_role finance_admin" by (simp add: finance_role_def finance_admin_roles)
  moreover have w: "fe_world ref_env = ref_world" by (simp add: ref_env_def)
  ultimately show ?thesis unfolding refund_admissible_def w n Let_def
    using paid_books_ok ref_world_sane
    by (simp add: ref_refund_def paid_books_def ref_books_def empty_fin_db_def paid_invoice_def open_invoice_def
        ref_invoice_def note_key_free_def)
qed

theorem create_refund_succeeds_witness:
  "\<exists>r s'. create_refund ref_env paid_books (ref_refund 500) paid_books = (Inr r, s') \<and> \<not> nrs_is_replay r \<and>
     inv_amount_due (nrs_invoice r) = 1200 \<and> inv_status (nrs_invoice r) = SENT"
proof -
  have "refund_admissible ref_env (ref_refund 500) paid_invoice paid_books" by (rule ref_refund_admissible) simp_all
  from create_refund_succeeds [OF this, of paid_books] obtain r s' where
    "create_refund ref_env paid_books (ref_refund 500) paid_books = (Inr r, s')" "\<not> nrs_is_replay r"
    "inv_amount_due (nrs_invoice r) = inv_amount_due paid_invoice + rf_amount (ref_refund 500)"
    "inv_status (nrs_invoice r) = (if rf_amount (ref_refund 500) = inv_amount_paid paid_invoice - inv_amount_refunded paid_invoice
      then SENT else PARTIALLY_PAID)"
    by (elim exE conjE) (rule that)
  then show ?thesis by (simp add: ref_refund_def paid_invoice_def open_invoice_def ref_invoice_def)
qed

theorem refund_never_exceeds_paid_witness:
  "\<exists>r s'. create_refund ref_env paid_books (ref_refund 200) paid_books = (Inr r, s') \<and>
     inv_amount_refunded (nrs_invoice r) = 200 \<and> inv_status (nrs_invoice r) = PARTIALLY_PAID"
proof -
  have "refund_admissible ref_env (ref_refund 200) paid_invoice paid_books" by (rule ref_refund_admissible) simp_all
  from create_refund_books [OF this refl, of paid_books] obtain r s' where
    r: "create_refund ref_env paid_books (ref_refund 200) paid_books = (Inr r, s')" "\<not> nrs_is_replay r" by force
  from refund_never_exceeds_paid [OF r] r show ?thesis
    by (auto simp: paid_books_def paid_invoice_def open_invoice_def ref_invoice_def ref_refund_def)
qed

end
