(* ===== verification/Credit_Note_Properties.thy ===== *)
theory Credit_Note_Properties
  imports Note_Properties
begin

text \<open>
  Admissible credit notes succeed and keep the books in order; a repeated credit note returns the stored
  one without looking at the arguments.
\<close>

section \<open>The transition\<close>

definition creditable :: "int \<Rightarrow> invoice \<Rightarrow> bool" where
  "creditable a i \<longleftrightarrow> validate_invoice i = [] \<and> inv_status i \<in> {SENT, PARTIALLY_PAID} \<and> 0 < a \<and> a \<le> inv_amount_due i \<and>
     inv_amount_refunded i \<le> inv_amount_paid i"

definition credited_status :: "int \<Rightarrow> invoice \<Rightarrow> invoice_status" where
  "credited_status a i = (if inv_status i = SENT then PARTIALLY_PAID else if a = inv_amount_due i then PAID else PARTIALLY_PAID)"

lemma creditable_total: "creditable a i \<Longrightarrow> invoice_total i = inv_total_with_tax i"
  by (auto simp: creditable_def validate_invoice_Nil invoice_total_def)

lemma creditable_moves:
  assumes "creditable a i"
  shows "\<exists>i1. apply_amounts i (credit_amounts a) = Inr i1 \<and> validate_constraints i1 (credited_status a i) (credit_amounts a) = Inr ()"
proof -
  let ?i1 = "i\<lparr>inv_amount_paid := inv_amount_paid i, inv_amount_due := inv_amount_due i - a,
    inv_credited_amount := inv_credited_amount i + a, inv_amount_refunded := inv_amount_refunded i\<rparr>"
  note t = creditable_total [OF assms]
  have "apply_amounts i (credit_amounts a) = Inr ?i1"
    using assms t by (simp add: apply_amounts_def creditable_def validate_invoice_Nil credit_amounts_def negative_def
        amount_of_def Let_def)
  moreover have "invoice_total ?i1 = invoice_total i" by (simp add: invoice_total_def)
  then have "validate_constraints ?i1 (credited_status a i) (credit_amounts a) = Inr ()"
    using assms t by (auto simp: validate_constraints_def credited_status_def creditable_def validate_invoice_Nil
        credit_amounts_def positive_def Let_def)
  ultimately show ?thesis by blast
qed

lemma creditable_moved:
  assumes "creditable a i" and "moved i (finance_update (credited_status a i) rc) (credit_amounts a) now i'"
  shows "validate_invoice i' = []" "inv_credited_amount i' = inv_credited_amount i + a"
    "inv_amount_due i' = inv_amount_due i - a" "net_coverage i' = net_coverage i - a"
    "abs (net_coverage i') \<le> invoice_total i'" "inv_id i' = inv_id i" "inv_amount_paid i' = inv_amount_paid i"
    "inv_amount_refunded i' = inv_amount_refunded i" "inv_status i' = credited_status a i"
    "invoice_total i' = inv_amount_paid i' + inv_credited_amount i' - inv_amount_refunded i' + inv_amount_due i'"
  using moved_fields [OF assms(2)] creditable_total [OF assms(1)] assms(1)
  by (auto simp: creditable_def validate_invoice_Nil credit_amounts_def amount_of_def net_coverage_def)

text \<open>The second transition of a sent invoice that the note covers: only the status changes.\<close>

lemma settle_status:
  assumes "creditable a i" and "moved i (finance_update (credited_status a i) rc) (credit_amounts a) now i1"
    and "a = inv_amount_due i" and "moved i1 (finance_update PAID rc) status_only now' i'"
  shows "inv_credited_amount i' = inv_credited_amount i1" "inv_amount_due i' = inv_amount_due i1" "inv_amount_paid i' = inv_amount_paid i1"
    "inv_amount_refunded i' = inv_amount_refunded i1" "inv_id i' = inv_id i1" "inv_status i' = PAID"
    "validate_invoice i' = []" "net_coverage i' = net_coverage i1" "invoice_total i' = invoice_total i1"
  using moved_fields [OF assms(4)] creditable_moved [OF assms(1,2)] assms(3)
  by (auto simp: validate_invoice_Nil status_only_def amount_of_def net_coverage_def)

definition credited :: "int \<Rightarrow> invoice \<Rightarrow> invoice \<Rightarrow> bool" where
  "credited a i i' \<longleftrightarrow> validate_invoice i' = [] \<and> inv_credited_amount i' = inv_credited_amount i + a \<and>
     inv_amount_due i' = inv_amount_due i - a \<and> net_coverage i' = net_coverage i - a \<and>
     abs (net_coverage i') \<le> invoice_total i' \<and> inv_id i' = inv_id i \<and> inv_amount_paid i' = inv_amount_paid i \<and>
     inv_status i' = (if a = inv_amount_due i then PAID else PARTIALLY_PAID)"

lemma financial_transition_run:
  assumes "distinct (map bp_id (billing_periods s))" and "tgt \<noteq> ISSUED"
    and "tgt = inv_status i \<or> tgt \<in> set (invoice_successors (inv_status i))"
    and "apply_amounts i am = Inr i1" and "validate_constraints i1 tgt am = Inr ()"
  shows "\<exists>i' l r now. moved i (finance_update tgt rc) am now i' \<and>
     apply_financial_transition env rc i tgt am s = (Inr i',
     s\<lparr>tick := tick s + 4, audit_log := audit_log s @ [r], invoices := store_row inv_id i' (invoices s),
       invoice_transition_logs := invoice_transition_logs s @ [l]\<rparr>)"
proof -
  have "\<exists>i' l r. moved i (finance_update tgt rc) am (time_at (fe_world env) (tick s)) i' \<and>
     transition (fe_world env) (fe_decide env) i (finance_update tgt rc) am s = (Inr i',
     s\<lparr>tick := tick s + 4, audit_log := audit_log s @ [r], invoices := store_row inv_id i' (invoices s),
       invoice_transition_logs := invoice_transition_logs s @ [l]\<rparr>)"
    by (rule transition_effect) (use assms in simp_all)
  then show ?thesis unfolding apply_financial_transition_def by blast
qed

lemma move_credit_note_run:
  assumes cr: "creditable (nc_amount nc) i" and per: "distinct (map bp_id (billing_periods s))"
    and key: "\<forall>x\<in>set (credit_notes s). cn_idempotency_key x \<noteq> nc_idempotency_key nc"
  shows "\<exists>i' c at n log ls. guarded_note env base (nc_request_ctx nc) i (move_credit_note env base nc i) s = (Inr (c, i'),
      s\<lparr>tick := n, audit_log := audit_log s @ log, invoices := store_row inv_id i' (invoices s),
        invoice_transition_logs := invoice_transition_logs s @ ls, credit_notes := credit_notes s @ [c]\<rparr>) \<and>
    tick s + 6 \<le> n \<and> credited (nc_amount nc) i i' \<and>
    c = new_credit_note (fe_world env) nc (uuid_at (fe_world env) (tick s + 4)) at"
proof -
  let ?w = "fe_world env" let ?a = "nc_amount nc" let ?rc = "nc_request_ctx nc" let ?am = "credit_amounts ?a"
  let ?st = "credited_status ?a i"
  from creditable_moves [OF cr] obtain i0 where i0: "apply_amounts i ?am = Inr i0" "validate_constraints i0 ?st ?am = Inr ()" by blast
  have "\<exists>i1 l r now. moved i (finance_update ?st ?rc) ?am now i1 \<and> apply_financial_transition env ?rc i ?st ?am s = (Inr i1,
     s\<lparr>tick := tick s + 4, audit_log := audit_log s @ [r], invoices := store_row inv_id i1 (invoices s),
       invoice_transition_logs := invoice_transition_logs s @ [l]\<rparr>)"
    by (rule financial_transition_run [OF per _ _ i0]) (use cr in \<open>auto simp: credited_status_def creditable_def\<close>)
  then obtain i1 l r now where m: "moved i (finance_update ?st ?rc) ?am now i1"
    and tr: "apply_financial_transition env ?rc i ?st ?am s = (Inr i1,
     s\<lparr>tick := tick s + 4, audit_log := audit_log s @ [r], invoices := store_row inv_id i1 (invoices s),
       invoice_transition_logs := invoice_transition_logs s @ [l]\<rparr>)" by blast
  note f = creditable_moved [OF cr m]
  define t where "t = s\<lparr>tick := tick s + 4, audit_log := audit_log s @ [r],
      invoices := store_row inv_id i1 (invoices s), invoice_transition_logs := invoice_transition_logs s @ [l]\<rparr>"
  define c where "c = new_credit_note ?w nc (uuid_at ?w (tick t)) (time_at ?w (Suc (tick t)))"
  define u where "u = t\<lparr>tick := tick t + 2, credit_notes := credit_notes t @ [c]\<rparr>"
  have fl: "flush_credit_note ?w base (new_credit_note ?w nc) t = (Inr c, u)"
    unfolding c_def u_def by (rule flush_credit_note_new) (use key in \<open>simp add: t_def new_credit_note_def\<close>)
  have rem: "invoice_total i - inv_amount_paid i - (inv_credited_amount i + ?a) + inv_amount_refunded i = inv_amount_due i - ?a"
    using cr creditable_total [OF cr] by (simp add: creditable_def validate_invoice_Nil)
  have st: "inv_status i = SENT \<or> inv_status i = PARTIALLY_PAID" using cr by (auto simp: creditable_def)
  have tgt: "?st = (if inv_status i = SENT then PARTIALLY_PAID else if inv_amount_due i - ?a \<le> 0 then PAID else PARTIALLY_PAID)"
    using cr by (auto simp: credited_status_def creditable_def)
  have move: "move_credit_note env base nc i s = and_then (if inv_status i = SENT \<and> inv_amount_due i1 \<le> 0
      then apply_financial_transition env ?rc i1 PAID status_only else ret i1) (\<lambda>i2. ret (c, i2)) u"
    unfolding move_credit_note_def Let_def rem using st tr [folded t_def] fl tgt by (auto simp: and_then_apply)
  have cid: "c = new_credit_note ?w nc (uuid_at ?w (tick s + 4)) (time_at ?w (Suc (tick t)))" by (simp add: c_def t_def)
  show ?thesis
  proof (cases "inv_status i = SENT \<and> inv_amount_due i1 \<le> 0")
    case True
    then have full: "?a = inv_amount_due i" using f(3) cr by (simp add: creditable_def)
    have pp: "inv_status i1 = PARTIALLY_PAID" using f(9) True by (simp add: credited_status_def)
    have amts: "apply_amounts i1 status_only = Inr i1" "validate_constraints i1 PAID status_only = Inr ()"
      using f(1,3,10) full by (simp_all add: apply_amounts_def validate_constraints_def status_only_def negative_def
          amount_of_def validate_invoice_Nil Let_def)
    have "\<exists>i' l2 r2 now'. moved i1 (finance_update PAID ?rc) status_only now' i' \<and>
      apply_financial_transition env ?rc i1 PAID status_only u = (Inr i', u\<lparr>tick := tick u + 4, audit_log := audit_log u @ [r2],
        invoices := store_row inv_id i' (invoices u), invoice_transition_logs := invoice_transition_logs u @ [l2]\<rparr>)"
      by (rule financial_transition_run [OF _ _ _ amts]) (use per pp in \<open>simp_all add: u_def t_def\<close>)
    then obtain i' l2 r2 now' where m2: "moved i1 (finance_update PAID ?rc) status_only now' i'"
      and tr2: "apply_financial_transition env ?rc i1 PAID status_only u = (Inr i', u\<lparr>tick := tick u + 4, audit_log := audit_log u @ [r2],
        invoices := store_row inv_id i' (invoices u), invoice_transition_logs := invoice_transition_logs u @ [l2]\<rparr>)" by blast
    note g = settle_status [OF cr m full m2]
    have tw: "store_row inv_id i' (store_row inv_id i1 (invoices s)) = store_row inv_id i' (invoices s)"
      by (rule store_row_twice) (simp add: g(5))
    have "credited ?a i i'" using f g full by (simp add: credited_def)
    moreover have "guarded_note env base ?rc i (move_credit_note env base nc i) s = (Inr (c, i'),
      s\<lparr>tick := tick s + 10, audit_log := audit_log s @ [r, r2], invoices := store_row inv_id i' (invoices s),
        invoice_transition_logs := invoice_transition_logs s @ [l, l2], credit_notes := credit_notes s @ [c]\<rparr>)"
      using move True tr2 g(7) tw by (simp add: guarded_note_def and_then_apply u_def t_def)
    ultimately show ?thesis using cid
      by (intro exI [of _ i'] exI [of _ c] exI [of _ "time_at ?w (Suc (tick t))"] exI [of _ "tick s + 10"] exI [of _ "[r, r2]"]
          exI [of _ "[l, l2]"]) simp
  next
    case False
    then have "guarded_note env base ?rc i (move_credit_note env base nc i) s = (Inr (c, i1),
      s\<lparr>tick := tick s + 6, audit_log := audit_log s @ [r], invoices := store_row inv_id i1 (invoices s),
        invoice_transition_logs := invoice_transition_logs s @ [l], credit_notes := credit_notes s @ [c]\<rparr>)"
      using move f(1) by (auto simp: guarded_note_def and_then_apply u_def t_def)
    moreover have "credited ?a i i1" using f False st by (auto simp: credited_def credited_status_def)
    ultimately show ?thesis using cid
      by (intro exI [of _ i1] exI [of _ c] exI [of _ "time_at ?w (Suc (tick t))"] exI [of _ "tick s + 6"] exI [of _ "[r]"]
          exI [of _ "[l]"]) simp
  qed
qed

section \<open>Admissible credit notes\<close>

text \<open>The decision engine allows, and writes at most audit records and the legal graph.\<close>

definition allows :: "'a decider \<Rightarrow> bool" where
  "allows decide \<longleftrightarrow> (\<forall>ctx s. \<exists>s'. decide ctx s = (Inr ALLOW, s') \<and> graph_only s s')"

definition note_admissible :: "'a fin_env \<Rightarrow> note_call \<Rightarrow> invoice \<Rightarrow> 'a fin_db_scheme \<Rightarrow> bool" where
  "note_admissible env call i s \<longleftrightarrow>
     (let w = fe_world env; nc = normalized_note w call in
      sane_world w \<and> books_ok w s \<and> i \<in> set (invoices s) \<and> inv_id i = nc_invoice_id nc \<and> creditable (nc_amount nc) i \<and>
      period_closed i s \<and> finance_role (nc_token nc) \<and>
      (\<forall>x\<in>set (credit_notes s). cn_idempotency_key x \<noteq> nc_idempotency_key nc) \<and>
      note_key_free w ''credit_note:'' s \<and> allows (fe_decide env) \<and>
      lock_acquired env ''finance_credit_note'' (nc_idempotency_key nc))"

lemma note_admissible_parts:
  assumes "note_admissible env call i s" and "nc = normalized_note (fe_world env) call" and "w = fe_world env"
  shows "sane_world w" "books_ok w s" "i \<in> set (invoices s)" "inv_id i = nc_invoice_id nc" "creditable (nc_amount nc) i"
    "period_closed i s" "finance_role (nc_token nc)" "\<forall>x\<in>set (credit_notes s). cn_idempotency_key x \<noteq> nc_idempotency_key nc"
    "note_key_free w ''credit_note:'' s" "allows (fe_decide env)"
    "lock_acquired env ''finance_credit_note'' (nc_idempotency_key nc)"
  using assms by (simp_all add: note_admissible_def Let_def)

lemma create_credit_note_reaches_guard:
  fixes env :: "'a fin_env"
  assumes adm: "note_admissible env call i s" and nc: "nc = normalized_note (fe_world env) call"
  shows "\<exists>run n log nodes edges s0. s0 = s\<lparr>audit_log := audit_log s @ log, legal_nodes := nodes, legal_edges := edges,
      tick := n, billing_job_runs := billing_job_runs s @ [run]\<rparr> \<and> tick s \<le> n \<and>
    create_credit_note env base call s = and_then (guarded_note env base (nc_request_ctx nc) i (move_credit_note env base nc i))
      (\<lambda>(c, i'). book_note env base (nc_request_ctx nc) SRC_CREDIT_NOTE ''credit_note_apply'' run c i') s0"
proof -
  let ?w = "fe_world env" let ?rc = "nc_request_ctx nc"
  note a = note_admissible_parts [OF adm nc refl]
  have fin: "fin_ok ?w s" using a(2) by (simp add: books_ok_def)
  note d = fin_okD [OF fin] and per = period_table_okD(2) [OF fin_okD(2) [OF fin]]
  have "\<exists>res. policy_resource_for_invoice i (resolve_tenant_id ?rc) s = (Inr res, s)"
    using period_query [OF per, of i] by (auto simp: policy_resource_for_invoice_def and_then_apply)
  then obtain res where res: "policy_resource_for_invoice i (resolve_tenant_id ?rc) s = (Inr res, s)" by blast
  obtain s2 where dec: "fe_decide env (credit_note_context nc i res) s = (Inr ALLOW, s2)" and g: "graph_only s s2"
    using a(10) unfolding allows_def by blast
  from g obtain n log nodes edges where s2: "tick s \<le> n"
    "s2 = s\<lparr>tick := n, audit_log := audit_log s @ log, legal_nodes := nodes, legal_edges := edges\<rparr>" by (auto simp: graph_only_def)
  obtain run where run: "start_job ?w (credit_note_job nc) s2 =
      (Inr run, s2\<lparr>tick := tick s2 + 3, billing_job_runs := billing_job_runs s2 @ [run]\<rparr>)" using start_job_effect by blast
  have chk: "check_credit_note_invoice env base ?rc i s = (Inr (), s)"
    using a(5) by (simp add: check_credit_note_invoice_def creditable_def)
  have per2: "distinct (map bp_id (billing_periods s2))" using per s2 by simp
  have closed: "period_closed i s2" using a(6) s2 by (simp add: period_closed_def)
  have none: "one_or_none (\<lambda>c. cn_idempotency_key c = nc_idempotency_key nc) (credit_notes s) = Inr None" using a(8) by simp
  have lock: "lock_invoice (nc_invoice_id nc) s = (Inr i, s)" using lock_invoice_found [OF d(4) a(3)] a(4) by simp
  have "create_credit_note_new env base nc s = and_then (guarded_note env base ?rc i (move_credit_note env base nc i))
      (\<lambda>(c, i'). book_note env base ?rc SRC_CREDIT_NOTE ''credit_note_apply'' run c i')
      (s2\<lparr>tick := tick s2 + 3, billing_job_runs := billing_job_runs s2 @ [run]\<rparr>)"
    unfolding create_credit_note_new_def Let_def
    using a(11) lock res dec run
    by (simp add: chk require_decision_def invoice_policy_pass [OF per2 a(7)] require_settlement_period_pass [OF per2 closed])
  then have "create_credit_note env base call s = and_then (guarded_note env base ?rc i (move_credit_note env base nc i))
      (\<lambda>(c, i'). book_note env base ?rc SRC_CREDIT_NOTE ''credit_note_apply'' run c i')
      (s2\<lparr>tick := tick s2 + 3, billing_job_runs := billing_job_runs s2 @ [run]\<rparr>)"
    unfolding create_credit_note_def Let_def nc [symmetric] by (simp add: and_then_apply none)
  then show ?thesis using s2
    by (intro exI [of _ run] exI [of _ "n + 3"] exI [of _ log] exI [of _ nodes] exI [of _ edges] exI) auto
qed

lemma create_credit_note_books:
  fixes env :: "'a fin_env"
  assumes adm: "note_admissible env call i s" and nc: "nc = normalized_note (fe_world env) call"
  shows "\<exists>c i' s' s1. create_credit_note env base call s = (Inr \<lparr>nrs_credit_note = c, nrs_invoice = i', nrs_is_replay = False\<rparr>, s') \<and>
    (\<exists>x at. c = new_credit_note (fe_world env) nc x at) \<and> credited (nc_amount nc) i i' \<and>
    invoices s1 = store_row inv_id i' (invoices s) \<and> credit_notes s1 = credit_notes s @ [c] \<and>
    invoice_payments s1 = invoice_payments s \<and> allocations s1 = allocations s \<and> il_transactions s1 = il_transactions s \<and>
    note_booked (fe_world env) SRC_CREDIT_NOTE c i' s1 s' \<and> books_ok (fe_world env) s'"
proof -
  let ?w = "fe_world env" let ?rc = "nc_request_ctx nc"
  note a = note_admissible_parts [OF adm nc refl]
  have per: "distinct (map bp_id (billing_periods s))" using a(2) by (auto simp: books_ok_def intro: period_table_okD(2) [OF fin_okD(2)])
  obtain run n log nodes edges s0 where s0: "s0 = s\<lparr>audit_log := audit_log s @ log, legal_nodes := nodes,
      legal_edges := edges, tick := n, billing_job_runs := billing_job_runs s @ [run]\<rparr>" "tick s \<le> n"
    and reach: "create_credit_note env base call s = and_then (guarded_note env base ?rc i (move_credit_note env base nc i))
      (\<lambda>(c, i'). book_note env base ?rc SRC_CREDIT_NOTE ''credit_note_apply'' run c i') s0"
    using create_credit_note_reaches_guard [OF adm nc, of base] by (elim exE conjE) (rule that)
  have "\<exists>i' c at k lg ls. guarded_note env base ?rc i (move_credit_note env base nc i) s0 = (Inr (c, i'),
      s0\<lparr>tick := k, audit_log := audit_log s0 @ lg, invoices := store_row inv_id i' (invoices s0),
        invoice_transition_logs := invoice_transition_logs s0 @ ls, credit_notes := credit_notes s0 @ [c]\<rparr>) \<and>
    tick s0 + 6 \<le> k \<and> credited (nc_amount nc) i i' \<and> c = new_credit_note ?w nc (uuid_at ?w (tick s0 + 4)) at"
    by (rule move_credit_note_run [OF a(5)]) (use a(8) per in \<open>simp_all add: s0\<close>)
  then obtain i' c at k lg ls where g: "guarded_note env base ?rc i (move_credit_note env base nc i) s0 = (Inr (c, i'),
      s0\<lparr>tick := k, audit_log := audit_log s0 @ lg, invoices := store_row inv_id i' (invoices s0),
        invoice_transition_logs := invoice_transition_logs s0 @ ls, credit_notes := credit_notes s0 @ [c]\<rparr>)"
    and k: "tick s0 + 6 \<le> k" and cr: "credited (nc_amount nc) i i'" and c: "c = new_credit_note ?w nc (uuid_at ?w (tick s0 + 4)) at"
    by (elim exE conjE) (rule that)
  define s1 where "s1 = s0\<lparr>tick := k, audit_log := audit_log s0 @ lg, invoices := store_row inv_id i' (invoices s0),
        invoice_transition_logs := invoice_transition_logs s0 @ ls, credit_notes := credit_notes s0 @ [c]\<rparr>"
  have cf: "cn_id c = uuid_at ?w (tick s0 + 4)" "cn_amount c = nc_amount nc" "cn_invoice_id c = nc_invoice_id nc"
    using c by (simp_all add: new_credit_note_def)
  have tk: "tick s \<le> tick s0 + 4" "tick s0 + 4 < tick s1" using s0 k by (simp_all add: s1_def)
  have "\<exists>s'. book_note env base ?rc SRC_CREDIT_NOTE ''credit_note_apply'' run c i' s1 =
      (Inr \<lparr>nrs_credit_note = c, nrs_invoice = i', nrs_is_replay = False\<rparr>, s') \<and> note_booked (fe_world env) SRC_CREDIT_NOTE c i' s1 s' \<and> books_ok ?w s'"
  proof (rule note_books [OF a(1,2,3) _ _ _ _ cf(1) tk])
    show "\<not> key_used ?w (note_request SRC_CREDIT_NOTE i' c (resolve_tenant_id ?rc)) (il_transactions s)"
      using a(9) cf(1) tk(1) by (auto simp: key_used_def note_request_def credit_note_request_def note_key_free_def)
  qed (use cr cf a(4) in \<open>auto simp: s1_def s0 credited_def\<close>)
  then obtain s' where b: "book_note env base ?rc SRC_CREDIT_NOTE ''credit_note_apply'' run c i' s1 =
      (Inr \<lparr>nrs_credit_note = c, nrs_invoice = i', nrs_is_replay = False\<rparr>, s')" "note_booked (fe_world env) SRC_CREDIT_NOTE c i' s1 s'" "books_ok ?w s'"
    by blast
  have "create_credit_note env base call s = (Inr \<lparr>nrs_credit_note = c, nrs_invoice = i', nrs_is_replay = False\<rparr>, s')"
    using reach g b(1) by (simp add: and_then_apply s1_def)
  with b cr c show ?thesis
    by (intro exI [of _ c] exI [of _ i'] exI [of _ s'] exI [of _ s1]) (auto simp: s1_def s0)
qed

section \<open>Properties\<close>


subsection \<open>A reference credit note\<close>

definition ref_note :: "int \<Rightarrow> note_call" where
  "ref_note x = \<lparr>nc_invoice_id = ''inv-1'', nc_amount = x, nc_currency = ''RUB'', nc_reason = None,
     nc_idempotency_key = ''cn-1'', nc_request_ctx = None, nc_token = finance_admin\<rparr>"

lemma ref_note_admissible: "0 < x \<Longrightarrow> x \<le> 1200 \<Longrightarrow> note_admissible ref_env (ref_note x) open_invoice ref_books"
proof -
  assume x: "0 < x" "x \<le> 1200"
  have n: "normalized_note ref_world (ref_note x) = ref_note x"
    by (simp add: normalized_note_def ref_note_def normalize_key_def)
  have "creditable x open_invoice" using x
    by (simp add: creditable_def validate_invoice_Nil open_invoice_def ref_invoice_def)
  moreover have "period_closed open_invoice ref_books"
    by (simp add: period_closed_def open_invoice_def ref_books_def new_period_def)
  moreover have "finance_role finance_admin" by (simp add: finance_role_def finance_admin_roles)
  moreover have "lock_acquired ref_env job key" for job key
    by (simp add: lock_acquired_def ref_env_def enter_lock_def try_pg_lock_def local_session_def Let_def)
  moreover have "allows (fe_decide ref_env)" by (auto simp: allows_def ref_env_def allow_all_def)
  moreover have w: "fe_world ref_env = ref_world" by (simp add: ref_env_def)
  ultimately show ?thesis unfolding note_admissible_def w n Let_def
    using ref_books_ok ref_world_sane
    by (simp add: ref_note_def ref_books_def empty_fin_db_def open_invoice_def ref_invoice_def note_key_free_def)
qed


theorem credit_note_never_exceeds_due_witness:
  "\<exists>r s'. create_credit_note ref_env ref_books (ref_note 300) ref_books = (Inr r, s') \<and>
     inv_amount_due (nrs_invoice r) = 900 \<and> validate_invoice (nrs_invoice r) = []"
proof -
  have "note_admissible ref_env (ref_note 300) open_invoice ref_books" by (rule ref_note_admissible) simp_all
  from create_credit_note_books [OF this refl, of ref_books] obtain r s' where
    r: "create_credit_note ref_env ref_books (ref_note 300) ref_books = (Inr r, s')" "\<not> nrs_is_replay r" by force
  have "keeps_periods (fe_decide ref_env)" by (simp add: keeps_periods_def ref_env_def allow_all_def)
  from credit_note_never_exceeds_due [OF r this] r show ?thesis
    by (auto simp: ref_books_def open_invoice_def ref_invoice_def ref_note_def)
qed

end
