(* ===== verification/Note_Replay.thy ===== *)
theory Note_Replay
  imports Credit_Note_Properties
begin

text \<open>
  Repeated credit notes and refunds. A credit note is recognised by its key alone; a refund whose key is
  taken by a note with another reference is refused by the database.
\<close>

section \<open>Repeated credit notes\<close>

text \<open>A stored credit note whose ledger transaction and allocation exist.\<close>

definition note_recorded :: "world \<Rightarrow> credit_note \<Rightarrow> 'a fin_db_scheme \<Rightarrow> bool" where
  "note_recorded w c s \<longleftrightarrow> c \<in> set (credit_notes s) \<and> distinct (map cn_idempotency_key (credit_notes s)) \<and>
     (\<exists>a\<in>set (allocations s). same_source (cn_invoice_id c) SRC_CREDIT_NOTE (cn_id c) a) \<and>
     (\<exists>t\<in>set (il_transactions s). tx_total_amount t = Some (cn_amount c) \<and> tx_currency t = Some (cn_currency c) \<and>
        tx_idempotency_key t = note_ledger_key w SRC_CREDIT_NOTE c)"

lemma credit_note_posting_replayed:
  assumes "fin_ok w s" and "note_recorded w c s"
  shows "post_credit_note_applied w i c tenant s = (Inr (), s)"
proof -
  from assms(2) obtain t where t: "t \<in> set (il_transactions s)" "tx_total_amount t = Some (cn_amount c)"
    "tx_currency t = Some (cn_currency c)"
    "tx_idempotency_key t = note_ledger_key w SRC_CREDIT_NOTE c"
    unfolding note_recorded_def by blast
  have key: "tx_idempotency_key t = normalize_key w ''ledger:'' 128 (pr_idempotency_key (credit_note_request i c tenant))"
    using t(4) by (simp add: credit_note_request_def note_ledger_key_def)
  have dist: "distinct (map tx_idempotency_key (il_transactions s))"
    using ledger_okD(2) [OF fin_okD(1) [OF assms(1)]] by (simp add: txs_ok_def)
  have fit: "single_currency (map ln_currency (credit_note_lines i c)) = Inr (cn_currency c)"
    "balanced_total ln_direction ln_amount (credit_note_lines i c) = Inr (cn_amount c)"
    using note_lines_fit [of SRC_CREDIT_NOTE i c] by (simp_all add: note_lines_def)
  have "check_replay t (Some (cn_amount c)) (Some (cn_currency c)) = Inr ()" using t(2,3) by (simp add: check_replay_def)
  then show ?thesis
    by (simp add: post_credit_note_applied_def post_transaction_def and_then_apply fit get_or_create_replay [OF dist t(1) key])
qed

lemma allocation_replayed:
  assumes "fin_ok w s" and "a \<in> set (allocations s)" and "same_source (inv_id i) (aq_source_type q) (aq_source_id q) a"
  shows "ensure_settlement_allocation env rc i q s = (Inr a, s)"
proof -
  have "one_or_none (\<lambda>x. (sa_invoice_id x, alloc_key x) = (sa_invoice_id a, alloc_key a)) (allocations s) = Inr (Some a)"
    by (rule one_or_none_unique_key [OF fin_okD(9) [OF assms(1)] assms(2)])
  moreover have "(\<lambda>x. (sa_invoice_id x, alloc_key x) = (sa_invoice_id a, alloc_key a)) =
      same_source (inv_id i) (aq_source_type q) (aq_source_id q)"
    using assms(3) by (auto simp: same_source_def alloc_key_def fun_eq_iff)
  ultimately show ?thesis by (simp add: ensure_settlement_allocation_def Let_def and_then_apply)
qed

text \<open>A repeated credit note is recognised by its key alone. Once a note is recorded on an invoice whose books
  are in order, every call with its key for that invoice by a finance role returns the stored note as a
  replay and changes nothing, whatever amount, currency and reason the call names. (A repeated payment with a different
  amount is refused with \<open>PaymentIdempotencyConflict\<close>.)\<close>

theorem credit_note_replay_ignores_payload:
  assumes "books_ok (fe_world env) s" and "note_recorded (fe_world env) c s"
    and "i \<in> set (invoices s)" and "inv_id i = cn_invoice_id c" and "nc_invoice_id call = cn_invoice_id c"
    and "normalize_key (fe_world env) ''hash:'' 128 (nc_idempotency_key call) = cn_idempotency_key c"
    and "finance_role (nc_token call)"
  shows "create_credit_note env base call s = (Inr \<lparr>nrs_credit_note = c, nrs_invoice = i, nrs_is_replay = True\<rparr>, s)"
proof -
  let ?w = "fe_world env"
  have fin: "fin_ok ?w s" and st: "settled i s" using assms(1,3) by (auto simp: books_ok_def)
  note d = fin_okD [OF fin]
  have n: "nc_idempotency_key (normalized_note ?w call) = cn_idempotency_key c" "nc_invoice_id (normalized_note ?w call) = inv_id i"
    "nc_token (normalized_note ?w call) = nc_token call" using assms by (simp_all add: normalized_note_def)
  have found: "one_or_none (\<lambda>x. cn_idempotency_key x = cn_idempotency_key c) (credit_notes s) = Inr (Some c)"
    using assms(2) one_or_none_unique_key [of cn_idempotency_key "credit_notes s" c] by (simp add: note_recorded_def)
  from assms(2,4) obtain a where a: "a \<in> set (allocations s)" "same_source (inv_id i) SRC_CREDIT_NOTE (cn_id c) a"
    unfolding note_recorded_def by auto
  have al: "ensure_settlement_allocation_guarded env base rc i (credit_note_alloc SRC_CREDIT_NOTE c) s = (Inr a, s)" for rc
    unfolding ensure_settlement_allocation_guarded_def
    by (rule catching_Inr, rule allocation_replayed [OF fin a(1)]) (simp add: credit_note_alloc_def a(2))
  have rec: "reconcile_invoice_allocations env rc reason cid (inv_id i) s = (Inr (), s)" for rc reason cid
    by (rule reconcile_settled [OF d(4) assms(3) fin_ok_alloc_keys [OF fin] st])
  have pol: "enforce_invoice_policy ?w (nc_token call) CREDIT_NOTE_CREATE i s = (Inr (), s)"
    by (rule invoice_policy_pass [OF period_table_okD(2) [OF d(2)] assms(7)]) simp
  show ?thesis
    unfolding create_credit_note_def Let_def complete_note_def n
    by (simp add: and_then_apply found lock_invoice_found [OF d(4) assms(3)] pol al rec
        credit_note_posting_replayed [OF fin assms(2)])
qed

section \<open>Refunds with a taken key\<close>

text \<open>A refund whose idempotency key another note has taken is refused. The key is the external reference, or
  the invoice and amount when there is none, while the search for an earlier refund compares reference and
  provider; so the same reference from a second provider, and a second refund of the
  same amount without reference, end in \<open>IntegrityError\<close> although they would be admissible otherwise. Every table is as
  before the call.\<close>

theorem refund_key_collision:
  assumes "books_ok (fe_world env) s" and "i \<in> set (invoices s)" and "inv_id i = rf_invoice_id call"
    and "refundable (rf_amount call) i" and "period_closed i s" and "finance_role (rf_token call)"
    and "rf = normalized_refund (fe_world env) call"
    and "x \<in> set (credit_notes s)" and "cn_idempotency_key x = refund_key (fe_world env) rf"
    and "\<forall>y\<in>set (credit_notes s). \<not> note_by_reference (rf_external_ref rf) (rf_provider rf) y"
  shows "\<exists>n. create_refund env s call s = (Inl IntegrityError, s\<lparr>tick := n\<rparr>)"
proof -
  let ?w = "fe_world env" let ?rc = "rf_request_ctx rf" let ?st = "refunded_status (rf_amount rf) i"
  let ?am = "refund_amounts (rf_amount rf)"
  have same: "rf_invoice_id rf = inv_id i" "rf_amount rf = rf_amount call" "rf_token rf = rf_token call"
    using assms(3,7) by (simp_all add: normalized_refund_def)
  have fin: "fin_ok ?w s" using assms(1) by (simp add: books_ok_def)
  note per = period_table_okD(2) [OF fin_okD(2) [OF fin]]
  have ref: "refundable (rf_amount rf) i" using assms(4) same by simp
  obtain run where run: "start_job ?w (refund_job ?w rf) s =
      (Inr run, s\<lparr>tick := tick s + 3, billing_job_runs := billing_job_runs s @ [run]\<rparr>)" using start_job_effect by blast
  define s0 where "s0 = s\<lparr>tick := tick s + 3, billing_job_runs := billing_job_runs s @ [run]\<rparr>"
  from refundable_moves [OF ref] obtain i1 where i1: "apply_amounts i ?am = Inr i1" "validate_constraints i1 ?st ?am = Inr ()" by blast
  have "\<exists>i' l r now. moved i (finance_update ?st ?rc) ?am now i' \<and> apply_financial_transition env ?rc i ?st ?am s0 = (Inr i',
     s0\<lparr>tick := tick s0 + 4, audit_log := audit_log s0 @ [r], invoices := store_row inv_id i' (invoices s0),
       invoice_transition_logs := invoice_transition_logs s0 @ [l]\<rparr>)"
    by (rule financial_transition_run [OF _ _ _ i1])
      (use per ref in \<open>auto simp: s0_def refunded_status_def refundable_def\<close>)
  then obtain i' t where tr: "apply_financial_transition env ?rc i ?st ?am s0 = (Inr i', t)" and ct: "credit_notes t = credit_notes s"
    by (force simp: s0_def)
  have fl: "\<exists>n. flush_credit_note ?w s (new_refund ?w rf) t = (Inl IntegrityError, s\<lparr>tick := n\<rparr>)"
    using assms(8,9) ct by (auto simp: flush_credit_note_def and_then_apply Let_def new_refund_def)
  have "\<exists>n. move_refund env s rf i s0 = (Inl IntegrityError, s\<lparr>tick := n\<rparr>)"
    unfolding move_refund_def Let_def refunded_status_def [symmetric] using tr fl by (auto simp: and_then_apply)
  then obtain n where mv: "move_refund env s rf i s0 = (Inl IntegrityError, s\<lparr>tick := n\<rparr>)" by blast
  have none: "one_or_none (note_by_reference (rf_external_ref rf) (rf_provider rf)) (credit_notes s) = Inr None"
    using assms(10) by simp
  have g: "guarded_note env s ?rc i (move_refund env s rf i) s0 = (Inl IntegrityError, s\<lparr>tick := n\<rparr>)"
    using mv by (simp add: guarded_note_def catching_Inl and_then_apply)
  have conf: "refund_after_conflict env s rf IntegrityError (s\<lparr>tick := n\<rparr>) = (Inl IntegrityError, s\<lparr>tick := n\<rparr>)"
    by (simp add: refund_after_conflict_def and_then_apply none)
  have ins: "insert_refund env s rf run i s0 = (Inl IntegrityError, s\<lparr>tick := n\<rparr>)"
    using g conf by (simp add: insert_refund_def and_then_apply catching_Inl)
  have "create_refund_new env s rf s = insert_refund env s rf run i s0"
    unfolding create_refund_new_def
    using lock_invoice_found [OF fin_okD(4) [OF fin] assms(2)] same run ref
    by (simp add: invoice_policy_pass [OF per] assms(5,6) check_refund_rules_pass [OF ref]
        require_settlement_period_pass [OF per assms(5)] refundable_def s0_def)
  then show ?thesis
    unfolding create_refund_def Let_def assms(7) [symmetric] using ins
    by (intro exI [of _ n]) (simp add: and_then_apply none)
qed

subsection \<open>Witnesses\<close>

text \<open>The same bank reference, first from one provider and then from another.\<close>

definition refunded_books :: fin_db where
  "refunded_books = paid_books\<lparr>credit_notes := [(new_refund ref_world (ref_refund 100) ''aaa'' 1)\<lparr>cn_invoice_id := ''inv-2''\<rparr>]\<rparr>"

theorem refund_key_collision_witness:
  "\<exists>n. create_refund ref_env refunded_books ((ref_refund 200)\<lparr>rf_provider := Some ''bank''\<rparr>) refunded_books =
     (Inl IntegrityError, refunded_books\<lparr>tick := n\<rparr>)"
proof -
  let ?call = "(ref_refund 200)\<lparr>rf_provider := Some ''bank''\<rparr>"
  have w: "fe_world ref_env = ref_world" by (simp add: ref_env_def)
  have ids: "ids_below ref_world 4 [''aaa'']" unfolding ids_below_def using ref_uuid by (force intro: exI [of _ 3])
  have "fin_ok ref_world refunded_books"
    using paid_books_ok ids by (simp add: books_ok_def fin_ok_def refunded_books_def paid_books_def new_refund_def
        ledger_ok_empty period_table_ok_def adhoc_unlocked_def ref_books_def empty_fin_db_def)
  moreover have "\<forall>i\<in>set (invoices refunded_books). settled i refunded_books"
    by (simp add: settled_def refunded_books_def paid_books_def ref_books_def empty_fin_db_def paid_invoice_def
        open_invoice_def ref_invoice_def new_refund_def invoice_allocations_def alloc_net_def alloc_total_def
        net_coverage_def alloc_key_def)
  ultimately have ok: "books_ok (fe_world ref_env) refunded_books" by (simp add: books_ok_def w)
  show ?thesis
    by (rule refund_key_collision [OF ok, where i = paid_invoice and x = "hd (credit_notes refunded_books)" and rf = ?call])
      (simp_all add: w normalized_refund_def normalize_key_def normalize_key_optional_def refunded_books_def paid_books_def ref_books_def new_refund_def refund_key_def ref_or_def
        note_by_reference_def ref_refund_def paid_invoice_def open_invoice_def ref_invoice_def refundable_def
        validate_invoice_Nil period_closed_def new_period_def finance_role_def finance_admin_roles)
qed

theorem credit_note_replay_ignores_payload_witness:
  "\<exists>c i s. create_credit_note ref_env s ((ref_note 900)\<lparr>nc_currency := ''EUR''\<rparr>) s =
     (Inr \<lparr>nrs_credit_note = c, nrs_invoice = i, nrs_is_replay = True\<rparr>, s) \<and> cn_amount c = 300 \<and> cn_currency c = ''RUB''"
proof -
  have w: "fe_world ref_env = ref_world" by (simp add: ref_env_def)
  have adm: "note_admissible ref_env (ref_note 300) open_invoice ref_books" by (rule ref_note_admissible) simp_all
  have n: "normalized_note (fe_world ref_env) (ref_note 300) = ref_note 300"
    by (simp add: normalized_note_def ref_note_def normalize_key_def)
  obtain c i' x at and s' s1 :: fin_db where r: "c = new_credit_note (fe_world ref_env) (ref_note 300) x at" "credited (nc_amount (ref_note 300)) open_invoice i'"
    "invoices s1 = store_row inv_id i' (invoices ref_books)" "credit_notes s1 = credit_notes ref_books @ [c]"
    "note_booked (fe_world ref_env) SRC_CREDIT_NOTE c i' s1 s'" "books_ok (fe_world ref_env) s'"
    using create_credit_note_books [OF adm refl, of ref_books] unfolding n by (elim exE conjE) (rule that)
  have c: "cn_id c = x" "cn_amount c = 300" "cn_currency c = ''RUB''" "cn_invoice_id c = ''inv-1''" "cn_idempotency_key c = ''cn-1''"
    using r(1) by (simp_all add: new_credit_note_def ref_note_def)
  have i': "inv_id i' = ''inv-1''" using r(2) by (simp add: credited_def open_invoice_def ref_invoice_def)
  have rows: "credit_notes s' = [c]" "invoices s' = [i']"
    using r(3,4,5) i' by (simp_all add: note_booked_def ref_books_def empty_fin_db_def store_row_def open_invoice_def ref_invoice_def)
  have rec: "note_recorded (fe_world ref_env) c s'"
    unfolding note_recorded_def rows using r(5) c i' by (auto simp: note_booked_def same_source_def)
  have "create_credit_note ref_env s' ((ref_note 900)\<lparr>nc_currency := ''EUR''\<rparr>) s' =
     (Inr \<lparr>nrs_credit_note = c, nrs_invoice = i', nrs_is_replay = True\<rparr>, s')"
    by (rule credit_note_replay_ignores_payload [OF r(6) rec])
      (simp_all add: rows i' c ref_note_def normalize_key_def finance_role_def finance_admin_roles)
  with c show ?thesis by blast
qed

end
