(* ===== verification/Ledger_Chain.thy ===== *)
theory Ledger_Chain
  imports Ledger_Properties
begin

text \<open>
  The chain of batch hashes as evidence: what \<open>verify_ledger_chain\<close> accepts is determined by the last
  batch hash unless SHA-256 collides, and what the check does when it is run over several tenants.
\<close>

section \<open>A batch as the check sees it\<close>

record batch_view =
  bv_previous :: string
  bv_postings :: "pyval list"
  bv_debit :: int
  bv_credit :: int
  bv_time :: int
  bv_hash :: string

definition view_of :: "il_account list \<Rightarrow> il_entry list \<Rightarrow> il_transaction \<Rightarrow> batch_view" where
  "view_of accs es t =
     (let joined = join_accounts accs (entries_of t es) in
      \<lparr>bv_previous = tx_previous_batch_hash t,
       bv_postings = joined_postings accs (entries_of t es),
       bv_debit = sum_direction DEBIT (en_direction \<circ> fst) (en_amount \<circ> fst) joined,
       bv_credit = sum_direction CREDIT (en_direction \<circ> fst) (en_amount \<circ> fst) joined,
       bv_time = (case tx_posted_at t of Some p \<Rightarrow> p | None \<Rightarrow> tx_created_at t),
       bv_hash = tx_batch_hash t\<rparr>)"

definition batch_payload :: "string \<Rightarrow> batch_view \<Rightarrow> pyval" where
  "batch_payload h v = PDict
     [(''previous_batch_hash'', PStr h), (''serialized_postings'', PList (bv_postings v)),
      (''total_debit'', PInt (bv_debit v)), (''total_credit'', PInt (bv_credit v)),
      (''timestamp'', PStr (isoformat (bv_time v)))]"

definition batch_text :: "string \<Rightarrow> batch_view \<Rightarrow> string" where
  "batch_text h v = dumps (batch_payload h v)"

definition batch_link :: "world \<Rightarrow> string \<Rightarrow> batch_view \<Rightarrow> bool" where
  "batch_link w h v \<longleftrightarrow> bv_previous v = h \<and> bv_hash v = sha256_hex w (batch_text h v)"





section \<open>Properties\<close>

lemma recomputed_view:
  "recomputed_hash w accs es h t = sha256_hex w (batch_text h (view_of accs es t))"
  by (simp add: recomputed_hash_def compute_batch_hash_def batch_text_def batch_payload_def view_of_def
      joined_postings_def Let_def)

lemma verify_rows_chain:
  "verify_rows w accs es h n ts = ChainOk \<Longrightarrow>
     chain_from (batch_link w) bv_hash h (map (view_of accs es) ts) \<and>
     map tx_batch_sequence ts = map (\<lambda>i. n + int i) [0..<length ts]"
proof (induction ts arbitrary: h n)
  case (Cons t ts)
  then have t: "tx_batch_sequence t = n" "tx_previous_batch_hash t = h"
    "tx_batch_hash t = recomputed_hash w accs es h t" "verify_rows w accs es (tx_batch_hash t) (n + 1) ts = ChainOk"
    by (auto split: if_splits)
  have "batch_link w h (view_of accs es t)"
    using t by (simp add: batch_link_def recomputed_view) (simp add: view_of_def Let_def)
  moreover have "bv_hash (view_of accs es t) = tx_batch_hash t" by (simp add: view_of_def Let_def)
  moreover have "map (\<lambda>i. n + int i) [0..<length (t # ts)] = n # map (\<lambda>i. n + 1 + int i) [0..<length ts]"
    by (simp add: upt_conv_Cons map_Suc_upt [symmetric] del: upt_Suc)
  ultimately show ?case using Cons.IH [OF t(4)] t(1) by simp
qed simp



lemma ref_posted_ok: "ledger_ok ref_world ref_posted_db"
  by (rule reachable_ledger_ok [OF ref_posted_reachable ref_world_sane])




text \<open>Run without a tenant, as its default argument has it, \<open>verify_ledger_chain\<close> rejects every ledger in
  which two tenants have posted: the batch sequences of the tenants are numbered separately, and the
  check expects one sequence.\<close>

theorem verify_all_tenants_rejects:
  assumes "sane_world w" and "ledger_reachable w s"
    and "t \<in> set (il_transactions s)" and "u \<in> set (il_transactions s)" and "tx_tenant_id t \<noteq> tx_tenant_id u"
  shows "verify_ledger_chain w None s \<noteq> ChainOk"
proof
  assume "verify_ledger_chain w None s = ChainOk"
  then have "map tx_batch_sequence (by_sequence (il_transactions s)) =
      map (\<lambda>i. 1 + int i) [0..<length (by_sequence (il_transactions s))]"
    by (auto simp: verify_ledger_chain_def dest: verify_rows_chain)
  then have "distinct (map tx_batch_sequence (by_sequence (il_transactions s)))"
    by (simp add: distinct_map inj_on_def)
  then have d: "distinct (map tx_batch_sequence (il_transactions s))"
    by (simp add: by_sequence_def distinct_map_sort_key)
  have "\<exists>x\<in>set (il_transactions s). tx_tenant_id x = tx_tenant_id y \<and> tx_batch_sequence x = 1"
    if "y \<in> set (il_transactions s)" for y
  proof -
    let ?ts = "tenant_transactions (tx_tenant_id y) (il_transactions s)"
    have "map tx_batch_sequence ?ts = map int [1..<Suc (length ?ts)]"
      using ledger_okD(2) [OF reachable_ledger_ok [OF assms(2,1)]] by (simp only: txs_ok_def)
    moreover have "?ts \<noteq> []" using that by (auto simp: tenant_transactions_def filter_empty_conv)
    moreover from this have "int 1 \<in> int ` {1..<Suc (length ?ts)}" by (intro imageI) (simp add: Suc_le_eq)
    ultimately have "1 \<in> set (map tx_batch_sequence ?ts)" by (simp del: upt_Suc)
    then show ?thesis by (auto simp: tenant_transactions_def)
  qed
  from this [OF assms(3)] this [OF assms(4)] obtain x y where
    "x \<in> set (il_transactions s)" "tx_tenant_id x = tx_tenant_id t" "tx_batch_sequence x = 1"
    "y \<in> set (il_transactions s)" "tx_tenant_id y = tx_tenant_id u" "tx_batch_sequence y = 1" by blast
  with d assms(5) show False by (auto simp: distinct_map inj_on_def)
qed

theorem verify_all_tenants_rejects_witness:
  "\<exists>t2 s2. post_transaction ref_world (ref_request\<lparr>pr_tenant_id := 2, pr_idempotency_key := ''k''\<rparr>) ref_lines
       ref_posted_db = (Inr (t2, False), s2) \<and>
     verify_ledger_chain ref_world None s2 \<noteq> ChainOk"
proof -
  let ?pr = "ref_request\<lparr>pr_tenant_id := 2, pr_idempotency_key := ''k''\<rparr>"
  obtain t where t: "il_transactions ref_posted_db = [t]"
    "posted ref_world ref_request ref_lines t empty_fin_db ref_posted_db"
    "post_transaction ref_world ref_request ref_lines empty_fin_db = (Inr (t, False), ref_posted_db)"
    using ref_posted by blast
  have "\<not> key_used ref_world ref_request (il_transactions empty_fin_db)"
    by (simp add: key_used_def empty_fin_db_def)
  from post_transaction_new [OF ref_world_sane empty_fin_ok(1) ref_lines_valid this] t(3)
  have tf: "tx_tenant_id t = 1" "tx_idempotency_key t = ''fuel_tx:f-1:settlement:v1''"
    by (auto simp: ref_request_def fuel_request_def normalize_key_def)
  then have "\<not> key_used ref_world ?pr (il_transactions ref_posted_db)"
    by (simp add: key_used_def t(1) normalize_key_def)
  from post_transaction_new [OF ref_world_sane ref_posted_ok ref_lines_valid this] obtain t2 s2 where
    2: "post_transaction ref_world ?pr ref_lines ref_posted_db = (Inr (t2, False), s2)"
    "posted ref_world ?pr ref_lines t2 ref_posted_db s2" "tx_tenant_id t2 = 2" by force
  have "ledger_reachable ref_world s2"
    using ledger_reachable.post [OF ref_posted_reachable, of ?pr ref_lines] 2(1) by simp
  moreover have "t \<in> set (il_transactions s2)" "t2 \<in> set (il_transactions s2)"
    using posted_accounts(3) [OF 2(2)] t(1) by simp_all
  ultimately have "verify_ledger_chain ref_world None s2 \<noteq> ChainOk"
    using verify_all_tenants_rejects [OF ref_world_sane] tf(1) 2(3) by fastforce
  with 2(1) show ?thesis by blast
qed

end
