(* ===== verification/Json_Loads.thy ===== *)
theory Json_Loads
  imports Canonical_Json "HOL-Library.AList"
begin

text \<open>
  \<open>json.loads\<close> on canonical texts. The services read JSON back only to bring it into canonical form
  (\<open>canonicalize_snapshot\<close>), so the reader knows the texts that \<open>json.dumps\<close> writes with sorted keys and
  compact separators: no white space, integers, and the escapes of control characters. Anything
  else is rejected. Every step of the reader consumes a character, so the length of the text is
  enough fuel.
\<close>

section \<open>The reader\<close>

definition hex_digit :: "char \<Rightarrow> bool" where
  "hex_digit c \<longleftrightarrow> is_digit c \<or> 97 \<le> (of_char c :: nat) \<and> (of_char c :: nat) \<le> 102"

fun scan_escape :: "string \<Rightarrow> (char \<times> string) option" where
  "scan_escape [] = None"
| "scan_escape (e # s) =
     (if e = CHR 0x22 \<or> e = CHR 0x5C \<or> e = CHR ''/'' then Some (e, s)
      else if e = CHR ''n'' then Some (CHR 0x0A, s)
      else if e = CHR ''r'' then Some (CHR 0x0D, s)
      else if e = CHR ''t'' then Some (CHR 0x09, s)
      else if e = CHR ''f'' then Some (CHR 0x0C, s)
      else if e = CHR ''b'' then Some (CHR 0x08, s)
      else if e = CHR ''u'' then
        (case s of
           a # b # x # y # t \<Rightarrow>
             if a = CHR ''0'' \<and> b = CHR ''0'' \<and> hex_digit x \<and> hex_digit y \<and> unhex x < 8
             then Some (char_of (16 * unhex x + unhex y), t) else None
         | _ \<Rightarrow> None)
      else None)"

lemma scan_escape_shorter: "scan_escape s = Some (c, t) \<Longrightarrow> length t < length s"
  by (cases s) (auto split: if_splits list.splits)

text \<open>The characters after an opening quote, up to the closing one.\<close>

function scan_string :: "string \<Rightarrow> (string \<times> string) option" where
  "scan_string [] = None"
| "scan_string (c # s) =
     (if c = CHR 0x22 then Some ([], s)
      else if c = CHR 0x5C then
        (case scan_escape s of
           None \<Rightarrow> None
         | Some (x, t) \<Rightarrow> map_option (\<lambda>(cs, u). (x # cs, u)) (scan_string t))
      else if (of_char c :: nat) < 32 then None
      else map_option (\<lambda>(cs, u). (c # cs, u)) (scan_string s))"
  by pat_completeness auto
termination by (relation "measure length") (auto dest: scan_escape_shorter)

definition scan_number :: "string \<Rightarrow> (pyval \<times> string) option" where
  "scan_number s =
     (let negative = (case s of c # _ \<Rightarrow> c = CHR ''-'' | [] \<Rightarrow> False);
          body = (if negative then tl s else s);
          digits = takeWhile is_digit body;
          n = int (digits_value digits)
      in if digits = [] \<or> (hd digits = CHR ''0'' \<and> length digits > 1) then None
         else Some (PInt (if negative then - n else n), dropWhile is_digit body))"

definition scan_literal :: "string \<Rightarrow> (pyval \<times> string) option" where
  "scan_literal s =
     (if take 4 s = ''null'' then Some (PNone, drop 4 s)
      else if take 4 s = ''true'' then Some (PBool True, drop 4 s)
      else if take 5 s = ''false'' then Some (PBool False, drop 5 s)
      else None)"

text \<open>Members are stored one after the other: a repeated key keeps its place and gets the last value.\<close>

definition dict_of :: "(string \<times> pyval) list \<Rightarrow> (string \<times> pyval) list" where
  "dict_of kvs = fold (\<lambda>(k, v) d. AList.update k v d) kvs []"

fun scan_value :: "nat \<Rightarrow> string \<Rightarrow> (pyval \<times> string) option"
  and scan_items :: "nat \<Rightarrow> string \<Rightarrow> (pyval list \<times> string) option"
  and scan_members :: "nat \<Rightarrow> string \<Rightarrow> ((string \<times> pyval) list \<times> string) option" where
  "scan_value 0 s = None"
| "scan_value (Suc n) [] = None"
| "scan_value (Suc n) (c # s) =
     (if c = CHR 0x22 then map_option (\<lambda>(x, t). (PStr x, t)) (scan_string s)
      else if c = CHR ''['' then
        (if s \<noteq> [] \<and> hd s = CHR '']'' then Some (PList [], tl s)
         else map_option (\<lambda>(vs, t). (PList vs, t)) (scan_items n s))
      else if c = CHR ''{'' then
        (if s \<noteq> [] \<and> hd s = CHR ''}'' then Some (PDict [], tl s)
         else map_option (\<lambda>(kvs, t). (PDict (dict_of kvs), t)) (scan_members n s))
      else if c = CHR ''-'' \<or> is_digit c then scan_number (c # s)
      else scan_literal (c # s))"
| "scan_items 0 s = None"
| "scan_items (Suc n) s =
     (case scan_value n s of
        Some (v, c # t) \<Rightarrow>
          if c = CHR '','' then map_option (\<lambda>(vs, u). (v # vs, u)) (scan_items n t)
          else if c = CHR '']'' then Some ([v], t) else None
      | _ \<Rightarrow> None)"
| "scan_members 0 s = None"
| "scan_members (Suc n) s =
     (if s = [] \<or> hd s \<noteq> CHR 0x22 then None
      else case scan_string (tl s) of
        Some (k, x # t) \<Rightarrow>
          if x \<noteq> CHR '':'' then None
          else (case scan_value n t of
             Some (v, c # u) \<Rightarrow>
               if c = CHR '','' then map_option (\<lambda>(kvs, y). ((k, v) # kvs, y)) (scan_members n u)
               else if c = CHR ''}'' then Some ([(k, v)], u) else None
           | _ \<Rightarrow> None)
      | _ \<Rightarrow> None)"

definition loads :: "string \<Rightarrow> pyval option" where
  "loads s = (case scan_value (length s) s of Some (v, []) \<Rightarrow> Some v | _ \<Rightarrow> None)"

section \<open>Strings and numbers\<close>

lemma hex_digit_hex_char: "d < 16 \<Longrightarrow> hex_digit (hex_char d)"
  by (auto simp: hex_digit_def hex_char_def is_digit_def)

lemma scan_string_quote [simp]: "scan_string (CHR 0x22 # s) = Some ([], s)"
  by simp

lemma scan_escaped: "scan_string (escape_char c @ s) = map_option (\<lambda>(cs, u). (c # cs, u)) (scan_string s)"
proof -
  have hx: "hex_digit (hex_char ((of_char c :: nat) div 16))" "hex_digit (hex_char ((of_char c :: nat) mod 16))"
    "unhex (hex_char ((of_char c :: nat) div 16)) < 8" if "(of_char c :: nat) < 32"
    using that by (auto intro!: hex_digit_hex_char simp: unhex_hex_char)
  show ?thesis
    unfolding escape_char_def by (simp add: hx unescape_control)
qed

lemma scan_quoted: "scan_string (concat (map escape_char x) @ CHR 0x22 # r) = Some (x, r)"
  by (induction x) (simp_all add: scan_escaped del: scan_string.simps)

lemma show_nat_leading: "n \<ge> 10 \<Longrightarrow> hd (show_nat n) \<noteq> CHR ''0''"
proof (induction n rule: show_nat.induct)
  case (1 n)
  have "hd (show_nat (n div 10)) \<noteq> CHR ''0''"
  proof (cases "n div 10 < 10")
    case True
    then have "show_nat (n div 10) = [digit_char (n div 10)]" by (simp add: show_nat.simps)
    moreover have "digit_char (n div 10) \<noteq> digit_char 0"
      using 1 True of_char_digit_char [of "n div 10"] of_char_digit_char [of 0] by auto
    moreover have "digit_char 0 = CHR ''0''" by code_simp
    ultimately show ?thesis by simp
  qed (use 1 in auto)
  with 1 show ?case by (subst show_nat.simps) (simp add: show_nat_nonempty)
qed

lemma show_nat_no_leading_zero: "length (show_nat n) > 1 \<Longrightarrow> hd (show_nat n) \<noteq> CHR ''0''"
  using show_nat_leading [of n] by (cases "n < 10") (auto simp: show_nat.simps [of n])

lemma scan_digits:
  assumes "stops r"
  shows "takeWhile is_digit (show_nat n @ r) = show_nat n" "dropWhile is_digit (show_nat n @ r) = r"
proof -
  have "\<forall>c\<in>set (show_nat n). is_digit c" by (rule show_nat_digits)
  then show "takeWhile is_digit (show_nat n @ r) = show_nat n" "dropWhile is_digit (show_nat n @ r) = r"
    using assms by (auto simp: stops_def takeWhile_append dropWhile_append split: list.splits)
qed

lemma scan_int: "stops r \<Longrightarrow> scan_number (show_int i @ r) = Some (PInt i, r)"
proof -
  assume r: "stops r"
  have nz: "\<not> (show_nat n = [] \<or> hd (show_nat n) = CHR ''0'' \<and> length (show_nat n) > 1)" for n
    using show_nat_no_leading_zero [of n] show_nat_nonempty [of n] by auto
  show ?thesis
  proof (cases "i < 0")
    case True
    with r nz [of "nat (- i)"] show ?thesis
      by (simp add: scan_number_def show_int_def scan_digits digits_value_show_nat Let_def)
  next
    case False
    obtain c t where ct: "show_nat (nat i) = c # t" "is_digit c" using show_nat_Cons by blast
    have "c \<noteq> CHR ''-''" using ct(2) by auto
    moreover have "digits_value (c # t) = nat i" using digits_value_show_nat [of "nat i"] ct(1) by simp
    ultimately show ?thesis using False r ct nz [of "nat i"] scan_digits [OF r, of "nat i"]
      by (auto simp: scan_number_def show_int_def Let_def)
  qed
qed

section \<open>The round trip\<close>

text \<open>Reading a value with enough fuel, whatever follows.\<close>

definition reads_back :: "pyval \<Rightarrow> bool" where
  "reads_back v \<longleftrightarrow> (\<forall>n r. length (dumps v) \<le> n \<longrightarrow> stops r \<longrightarrow> scan_value n (dumps v @ r) = Some (v, r))"

lemma reads_backD: "reads_back v \<Longrightarrow> length (dumps v) \<le> n \<Longrightarrow> stops r \<Longrightarrow> scan_value n (dumps v @ r) = Some (v, r)"
  unfolding reads_back_def by blast

lemma dumps_nonempty: "0 < length (dumps v)"
  using dumps_first [of v] by auto

lemma items_read_back:
  assumes "\<forall>v\<in>set vs. reads_back v" and "vs \<noteq> []" and "length (join '','' (map dumps vs)) < n"
  shows "scan_items n (join '','' (map dumps vs) @ CHR '']'' # r) = Some (vs, r)"
  using assms
proof (induction vs arbitrary: n)
  case (Cons v vs)
  then obtain m where n: "n = Suc m" by (cases n) auto
  show ?case
  proof (cases vs)
    case Nil
    have "scan_value m (dumps v @ CHR '']'' # r) = Some (v, CHR '']'' # r)"
      by (rule reads_backD) (use Cons.prems Nil n in auto)
    with Nil n show ?thesis by simp
  next
    case (Cons w ws)
    let ?rest = "join '','' (map dumps vs)"
    have shape: "join '','' (map dumps (v # vs)) = dumps v @ CHR '','' # ?rest" using Cons by simp
    have "scan_value m (dumps v @ CHR '','' # ?rest @ CHR '']'' # r) = Some (v, CHR '','' # ?rest @ CHR '']'' # r)"
      by (rule reads_backD) (use Cons.prems n shape in auto)
    moreover have "scan_items m (?rest @ CHR '']'' # r) = Some (vs, r)"
      by (rule Cons.IH) (use Cons.prems Cons n shape dumps_nonempty [of v] in auto)
    ultimately show ?thesis unfolding shape n by simp
  qed
qed simp

lemma member_text_Cons: "member_text kv @ q = CHR 0x22 # concat (map escape_char (fst kv)) @ CHR 0x22 # CHR '':'' # dumps (snd kv) @ q"
  by (simp add: member_text_def quote_def)

lemma members_read_back:
  assumes "\<forall>kv\<in>set kvs. reads_back (snd kv)" and "kvs \<noteq> []" and "length (join '','' (map member_text kvs)) < n"
  shows "scan_members n (join '','' (map member_text kvs) @ CHR ''}'' # r) = Some (kvs, r)"
  using assms
proof (induction kvs arbitrary: n)
  case (Cons kv kvs)
  obtain k v where kv: "kv = (k, v)" by (cases kv)
  from Cons obtain m where n: "n = Suc m" by (cases n) auto
  have key: "scan_string (concat (map escape_char k) @ CHR 0x22 # u) = Some (k, u)" for u by (rule scan_quoted)
  have len: "length (dumps v) < length (member_text kv)" by (simp add: member_text_def kv quote_def)
  show ?case
  proof (cases kvs)
    case Nil
    have "scan_value m (dumps v @ CHR ''}'' # r) = Some (v, CHR ''}'' # r)"
      by (rule reads_backD) (use Cons.prems Nil n len kv in auto)
    with Nil n kv show ?thesis by (simp add: member_text_Cons key del: scan_string.simps)
  next
    case (Cons w ws)
    let ?rest = "join '','' (map member_text kvs)"
    have shape: "join '','' (map member_text (kv # kvs)) = member_text kv @ CHR '','' # ?rest" using Cons by simp
    have "scan_value m (dumps v @ CHR '','' # ?rest @ CHR ''}'' # r) = Some (v, CHR '','' # ?rest @ CHR ''}'' # r)"
      by (rule reads_backD) (use Cons.prems n shape len kv in auto)
    moreover have "scan_members m (?rest @ CHR ''}'' # r) = Some (kvs, r)"
      by (rule Cons.IH) (use Cons.prems Cons n shape len in auto)
    ultimately show ?thesis unfolding shape n using kv by (simp add: member_text_Cons key del: scan_string.simps)
  qed
qed simp

lemma dict_of_distinct: "distinct (map fst kvs) \<Longrightarrow> dict_of kvs = kvs"
proof -
  have step: "k \<notin> fst ` set d \<Longrightarrow> AList.update k v d = d @ [(k, v)]" for k and v :: pyval and d
    by (induction d) auto
  have "distinct (map fst kvs) \<Longrightarrow> fst ` set d \<inter> fst ` set kvs = {} \<Longrightarrow>
      fold (\<lambda>(k, v) d. AList.update k v d) kvs d = d @ kvs" for d
  proof (induction kvs arbitrary: d)
    case (Cons kv kvs)
    obtain k v where kv: "kv = (k, v)" by (cases kv)
    with Cons.prems have "AList.update k v d = d @ [(k, v)]" by (intro step) auto
    moreover have "fst ` set (d @ [(k, v)]) \<inter> fst ` set kvs = {}" using Cons.prems kv by auto
    ultimately show ?case using Cons.IH [of "d @ [(k, v)]"] Cons.prems kv by simp
  qed simp
  then show "distinct (map fst kvs) \<Longrightarrow> dict_of kvs = kvs" by (simp add: dict_of_def)
qed

lemma list_reads_back: "\<forall>v\<in>set vs. reads_back v \<Longrightarrow> reads_back (PList vs)"
  unfolding reads_back_def [of "PList vs"]
proof (intro allI impI)
  fix n r
  assume vs: "\<forall>v\<in>set vs. reads_back v" and n: "length (dumps (PList vs)) \<le> n" and r: "stops r"
  then obtain m where m: "n = Suc m" by (cases n) auto
  show "scan_value n (dumps (PList vs) @ r) = Some (PList vs, r)"
  proof (cases vs)
    case (Cons v ws)
    obtain c t where ct: "dumps v = c # t" using dumps_first by blast
    then have "c \<noteq> CHR '']''" using dumps_not_bracket [of v "[]" t] by auto
    then have "hd (join '','' (map dumps vs) @ CHR '']'' # r) \<noteq> CHR '']''"
      using ct Cons by (cases ws) (auto simp: join_Cons)
    moreover have "scan_items m (join '','' (map dumps vs) @ CHR '']'' # r) = Some (vs, r)"
      by (rule items_read_back [OF vs]) (use Cons n m in auto)
    ultimately show ?thesis using m by simp
  qed (use m in simp)
qed

lemma dict_reads_back:
  "\<forall>kv\<in>set kvs. reads_back (snd kv) \<Longrightarrow> sorted (map fst kvs) \<Longrightarrow> distinct (map fst kvs) \<Longrightarrow> reads_back (PDict kvs)"
  unfolding reads_back_def [of "PDict kvs"]
proof (intro allI impI)
  fix n r
  assume kvs: "\<forall>kv\<in>set kvs. reads_back (snd kv)" "sorted (map fst kvs)" "distinct (map fst kvs)"
    and n: "length (dumps (PDict kvs)) \<le> n" and r: "stops r"
  note shape = dumps_sorted_dict [OF kvs(2)]
  from n obtain m where m: "n = Suc m" by (cases n) (auto simp: shape)
  show "scan_value n (dumps (PDict kvs) @ r) = Some (PDict kvs, r)"
  proof (cases kvs)
    case (Cons kv ws)
    have "hd (join '','' (map member_text kvs) @ CHR ''}'' # r) \<noteq> CHR ''}''"
      using Cons by (cases ws) (auto simp: member_text_def quote_def)
    moreover have "scan_members m (join '','' (map member_text kvs) @ CHR ''}'' # r) = Some (kvs, r)"
      by (rule members_read_back [OF kvs(1)]) (use Cons n [unfolded shape] m in auto)
    ultimately show ?thesis unfolding shape m using dict_of_distinct [OF kvs(3)] by simp
  qed (use m in simp)
qed

lemma literal_reads_back: "reads_back PNone" "reads_back (PBool b)"
proof -
  have "scan_value (Suc m) (dumps PNone @ r) = Some (PNone, r)"
    "scan_value (Suc m) (dumps (PBool b) @ r) = Some (PBool b, r)" for m r
    by (simp_all add: scan_literal_def is_digit_def)
  then show "reads_back PNone" "reads_back (PBool b)"
    unfolding reads_back_def using dumps_nonempty by (metis Suc_pred less_le_trans)+
qed

lemma plain_reads_back: "plain_json v \<Longrightarrow> reads_back v"
proof (induction v rule: plain_json.induct)
  case (3 i)
  have "\<exists>c t. show_int i = c # t \<and> (c = CHR ''-'' \<or> is_digit c)"
    using show_nat_Cons [of "nat i"] by (cases "i < 0") (auto simp: show_int_def)
  then obtain c t where ct: "show_int i = c # t" "c = CHR ''-'' \<or> is_digit c" by blast
  have no: "c \<noteq> CHR 0x22" "c \<noteq> CHR ''[''" "c \<noteq> CHR ''{''" using ct(2) by (auto simp: is_digit_def)
  show ?case unfolding reads_back_def
  proof (intro allI impI)
    fix n r
    assume "length (dumps (PInt i)) \<le> n" and r: "stops r"
    then obtain m where "n = Suc m" using ct by (cases n) auto
    then show "scan_value n (dumps (PInt i) @ r) = Some (PInt i, r)"
      using no ct scan_int [OF r, of i] by auto
  qed
next
  case (4 x)
  show ?case unfolding reads_back_def
  proof (intro allI impI)
    fix n r
    assume "length (dumps (PStr x)) \<le> n"
    then obtain m where "n = Suc m" by (cases n) (auto simp: quote_def)
    then show "scan_value n (dumps (PStr x) @ r) = Some (PStr x, r)"
      by (simp add: quote_def scan_quoted del: scan_string.simps)
  qed
next
  case (5 vs)
  then show ?case by (intro list_reads_back) auto
next
  case (6 kvs)
  then show ?case by (intro dict_reads_back) auto
qed (auto simp: literal_reads_back)

lemma loads_dumps: "plain_json v \<Longrightarrow> loads (dumps v) = Some v"
  using reads_backD [OF plain_reads_back, of v "length (dumps v)" "[]"] by (simp add: loads_def)

end
