(* ===== verification/Py_Values.thy ===== *)
theory Py_Values
  imports Policy_Engine
begin

text \<open>
  Python's view of the values in JSON payloads: truth, \<open>dict.get\<close>, \<open>int()\<close>, \<open>str()\<close>, iteration and computations
  that may raise.
\<close>

definition res_then :: "'a result \<Rightarrow> ('a \<Rightarrow> 'b result) \<Rightarrow> 'b result" where
  "res_then r k = (case r of Inl e \<Rightarrow> Inl e | Inr x \<Rightarrow> k x)"

lemma res_then_simps [simp]: "res_then (Inr x) k = k x" "res_then (Inl e) k = Inl e"
  by (simp_all add: res_then_def)

lemma res_then_Inr_iff: "res_then r k = Inr y \<longleftrightarrow> (\<exists>x. r = Inr x \<and> k x = Inr y)"
  by (cases r) simp_all

fun truthy :: "pyval option \<Rightarrow> bool" where
  "truthy None = False"
| "truthy (Some PNone) = False"
| "truthy (Some (PBool b)) = b"
| "truthy (Some (PInt i)) = (i \<noteq> 0)"
| "truthy (Some (PStr x)) = (x \<noteq> [])"
| "truthy (Some (PEnum x)) = (x \<noteq> [])"
| "truthy (Some (PList vs)) = (vs \<noteq> [])"
| "truthy (Some (PDict kvs)) = (kvs \<noteq> [])"
| "truthy (Some _) = True"

fun is_dict :: "pyval option \<Rightarrow> bool" where
  "is_dict (Some (PDict _)) = True"
| "is_dict _ = False"

definition dict_get :: "string \<Rightarrow> pyval \<Rightarrow> pyval option" where
  "dict_get k v = (case v of PDict kvs \<Rightarrow> map_of kvs k | _ \<Rightarrow> None)"

definition int_of_text :: "string \<Rightarrow> int result" where
  "int_of_text t =
     (case read_int (strip t) of Some i \<Rightarrow> Inr i | None \<Rightarrow> Inl (ValueError ''invalid literal for int()''))"

text \<open>\<open>int(v)\<close>; identifiers and instants do not occur where the services read numbers.\<close>

fun py_int :: "pyval \<Rightarrow> int result" where
  "py_int (PBool b) = Inr (if b then 1 else 0)"
| "py_int (PInt i) = Inr i"
| "py_int (PStr x) = int_of_text x"
| "py_int (PEnum x) = int_of_text x"
| "py_int _ = Inl (TypeError ''int() argument'')"

text \<open>\<open>int(d.get(k, 0) or 0)\<close>\<close>

definition int_or_zero :: "pyval option \<Rightarrow> int result" where
  "int_or_zero v = (if truthy v then py_int (the v) else Inr 0)"

text \<open>
  \<open>str(v)\<close> where it is compared with names: the text of an enum member carries the name of its class, and
  the text of a container is none of the names.
\<close>

fun py_text :: "pyval \<Rightarrow> string" where
  "py_text PNone = ''None''"
| "py_text (PBool b) = (if b then ''True'' else ''False'')"
| "py_text (PInt i) = show_int i"
| "py_text (PStr x) = x"
| "py_text (PEnum x) = ''Enum.'' @ x"
| "py_text (PUuid x) = x"
| "py_text (PDatetime t) = isoformat t"
| "py_text v = dumps v"

text \<open>Iteration over a value: elements of a list, keys of a dictionary, characters of a text.\<close>

fun py_iter :: "pyval \<Rightarrow> pyval list result" where
  "py_iter (PList vs) = Inr vs"
| "py_iter (PDict kvs) = Inr (map (PStr \<circ> fst) kvs)"
| "py_iter (PStr x) = Inr (map (\<lambda>c. PStr [c]) x)"
| "py_iter (PEnum x) = Inr (map (\<lambda>c. PStr [c]) x)"
| "py_iter _ = Inl (TypeError ''object is not iterable'')"

end
