(* ===== verification/Money_Flow.thy ===== *)
theory Money_Flow
  imports Legal_Graph Lifecycle Idempotency Json_Loads Py_Values
begin

text \<open>
  Money flows (\<open>services/money_flow\<close>): the lifecycle of a flow (\<open>engine.py\<close>), the links between the documents of
  a flow (\<open>graph.py\<close>), the invariant snapshots (\<open>snapshots.py\<close>), their comparison (\<open>diff.py\<close>) and the fuel part of
  the replay (\<open>replay.py\<close>), with the tables of \<open>models/money_flow_v3.py\<close>.
\<close>

section \<open>The lifecycle of a flow\<close>

record transition_result =
  trr_state :: money_flow_state
  trr_idempotent :: bool

fun flow_transitions :: "money_flow_state \<Rightarrow> money_flow_event_type \<Rightarrow> money_flow_state option" where
  "flow_transitions MF_DRAFT EV_AUTHORIZE = Some MF_AUTHORIZED"
| "flow_transitions MF_DRAFT EV_CANCEL = Some MF_CANCELLED"
| "flow_transitions MF_AUTHORIZED EV_SETTLE = Some MF_SETTLED"
| "flow_transitions MF_AUTHORIZED EV_CANCEL = Some MF_CANCELLED"
| "flow_transitions MF_AUTHORIZED EV_FAIL = Some MF_FAILED"
| "flow_transitions MF_PENDING_SETTLEMENT EV_SETTLE = Some MF_SETTLED"
| "flow_transitions MF_PENDING_SETTLEMENT EV_FAIL = Some MF_FAILED"
| "flow_transitions MF_SETTLED EV_REVERSE = Some MF_REVERSED"
| "flow_transitions MF_SETTLED EV_DISPUTE_OPEN = Some MF_DISPUTED"
| "flow_transitions MF_DISPUTED EV_DISPUTE_RESOLVE = Some MF_SETTLED"
| "flow_transitions _ _ = None"

fun idempotent_events :: "money_flow_event_type \<Rightarrow> money_flow_state option" where
  "idempotent_events EV_SETTLE = Some MF_SETTLED"
| "idempotent_events EV_REVERSE = Some MF_REVERSED"
| "idempotent_events EV_CANCEL = Some MF_CANCELLED"
| "idempotent_events _ = None"

definition apply_transition :: "money_flow_state option \<Rightarrow> money_flow_event_type \<Rightarrow> transition_result result" where
  "apply_transition current event =
     (case current of
        None \<Rightarrow> Inl (MoneyFlowTransitionError ''current_state_required'')
      | Some s \<Rightarrow>
          if idempotent_events event = Some s then Inr \<lparr>trr_state = s, trr_idempotent = True\<rparr>
          else (case flow_transitions s event of
             None \<Rightarrow> Inl (MoneyFlowTransitionError (''invalid_transition:'' @ money_flow_state_value s @ ''->'' @
               money_flow_event_type_value event))
           | Some t \<Rightarrow> Inr \<lparr>trr_state = t, trr_idempotent = False\<rparr>))"

section \<open>Tables\<close>

datatype link_node_type =
    LN_SUBSCRIPTION | LN_SUBSCRIPTION_SEGMENT | LN_SUBSCRIPTION_CHARGE | LN_USAGE_COUNTER | LN_INVOICE
  | LN_DOCUMENT | LN_PAYMENT | LN_REFUND | LN_FUEL_TX | LN_LOGISTICS_ORDER | LN_ACCOUNTING_EXPORT
  | LN_LEDGER_TX | LN_BILLING_PERIOD

datatype flow_link_type = GENERATES | SETTLES | POSTS | FEEDS | RELATES

datatype snapshot_phase = BEFORE | AFTER

datatype fuel_status = FUEL_AUTHORIZED | FUEL_REVIEW_REQUIRED | FUEL_DECLINED | FUEL_REVERSED | FUEL_SETTLED

record link_spec =
  lk_src_type :: link_node_type
  lk_src_id :: string
  lk_link_type :: flow_link_type
  lk_dst_type :: link_node_type
  lk_dst_id :: string
  lk_meta :: "payload option"

record money_flow_link =
  ml_tenant_id :: int
  ml_client_id :: string
  ml_spec :: link_spec

record money_invariant_snapshot =
  ms_tenant_id :: int
  ms_client_id :: string
  ms_flow_type :: money_flow_type
  ms_flow_ref_id :: string
  ms_event_id :: string
  ms_phase :: snapshot_phase
  ms_snapshot_hash :: string
  ms_snapshot_json :: pyval
  ms_passed :: bool
  ms_violations :: "string list option"

text \<open>The columns of a fuel transaction that the money flow reads.\<close>

record fuel_transaction =
  ft_id :: string
  ft_tenant_id :: int
  ft_client_id :: string
  ft_occurred_at :: int
  ft_volume_ml :: int
  ft_amount_total_minor :: int
  ft_currency :: string
  ft_status :: fuel_status
  ft_ledger_transaction_id :: "string option"

text \<open>Of an invoice line the replay reads product, amount and volume; \<open>int(float(liters) * 1000)\<close> is kept as computed.\<close>

record invoice_line =
  il_invoice_id :: string
  il_product_id :: string
  il_line_amount :: int
  il_volume_ml :: "int option"

record flow_db = fin_db +
  money_flow_links :: "money_flow_link list"
  money_snapshots :: "money_invariant_snapshot list"
  fuel_transactions :: "fuel_transaction list"
  invoice_lines :: "invoice_line list"

section \<open>Links\<close>

definition link_key :: "link_spec \<Rightarrow> link_node_type \<times> string \<times> flow_link_type \<times> link_node_type \<times> string" where
  "link_key l = (lk_src_type l, lk_src_id l, lk_link_type l, lk_dst_type l, lk_dst_id l)"

text \<open>\<open>MoneyFlowGraphBuilder.add_link\<close>: the first link of a key stays.\<close>

definition add_link :: "link_spec list \<Rightarrow> link_spec \<Rightarrow> link_spec list" where
  "add_link links l = (if \<exists>x\<in>set links. link_key x = link_key l then links else links @ [l])"

definition link_scope where
  "link_scope r = (ml_tenant_id r, link_key (ml_spec r))"

text \<open>
  New rows stay pending in the session until it is flushed, so the search does not see them; a scope that
  occurs twice among them violates the unique constraint at that flush.
\<close>

definition new_link :: "int \<Rightarrow> string \<Rightarrow> link_spec \<Rightarrow> money_flow_link" where
  "new_link tenant client l =
     \<lparr>ml_tenant_id = tenant, ml_client_id = client,
      ml_spec = l\<lparr>lk_meta := (if falsy_dict (lk_meta l) then None else lk_meta l)\<rparr>\<rparr>"

definition find_link :: "int \<Rightarrow> link_spec \<Rightarrow> money_flow_link list \<Rightarrow> money_flow_link option" where
  "find_link tenant l rows = List.find (\<lambda>r. link_scope r = (tenant, link_key l)) rows"

definition ensure_money_flow_links ::
    "int \<Rightarrow> string \<Rightarrow> link_spec list \<Rightarrow> ('a flow_db_scheme, money_flow_link list) act" where
  "ensure_money_flow_links tenant client links =
     and_then (reading money_flow_links) (\<lambda>rows.
     let missing = map (new_link tenant client) (filter (\<lambda>l. find_link tenant l rows = None) links);
         records = map (\<lambda>l. case find_link tenant l rows of Some r \<Rightarrow> r | None \<Rightarrow> new_link tenant client l) links
     in and_then (asserting (distinct (map link_scope missing)) IntegrityError) (\<lambda>_.
        and_then (update_state (\<lambda>s. s\<lparr>money_flow_links := money_flow_links s @ missing\<rparr>)) (\<lambda>_.
        ret records)))"

section \<open>Snapshots\<close>

text \<open>Without a \<open>default\<close>, \<open>json.dumps\<close> refuses identifiers and instants; members of a string enum are strings.\<close>

fun json_ready :: "pyval \<Rightarrow> bool" where
  "json_ready (PUuid _) = False"
| "json_ready (PDatetime _) = False"
| "json_ready (PList vs) = (\<forall>v\<in>set vs. json_ready v)"
| "json_ready (PDict kvs) = (\<forall>kv\<in>set kvs. json_ready (snd kv))"
| "json_ready _ = True"

definition snapshot_canonical_json :: "pyval \<Rightarrow> string result" where
  "snapshot_canonical_json v = (if json_ready v then Inr (dumps v) else Inl (TypeError ''not JSON serializable''))"

definition build_snapshot_hash :: "world \<Rightarrow> pyval \<Rightarrow> string result" where
  "build_snapshot_hash w v = map_sum id (sha256_hex w) (snapshot_canonical_json v)"

definition canonicalize_snapshot :: "pyval \<Rightarrow> pyval result" where
  "canonicalize_snapshot v =
     (case snapshot_canonical_json v of
        Inl e \<Rightarrow> Inl e
      | Inr t \<Rightarrow> (case loads t of None \<Rightarrow> Inl (ValueError ''JSONDecodeError'') | Some x \<Rightarrow> Inr x))"

definition invoice_snapshot_violations :: "pyval \<Rightarrow> string list result" where
  "invoice_snapshot_violations i =
     res_then (int_or_zero (dict_get ''total_with_tax'' i)) (\<lambda>total_with_tax.
     res_then (int_or_zero (dict_get ''amount_paid'' i)) (\<lambda>amount_paid.
     res_then (int_or_zero (dict_get ''amount_due'' i)) (\<lambda>amount_due.
     res_then (int_or_zero (dict_get ''amount_refunded'' i)) (\<lambda>amount_refunded.
     Inr ((if total_with_tax - amount_paid \<noteq> amount_due then [''invoice_balance_mismatch''] else []) @
          (if amount_refunded > amount_paid then [''refund_exceeds_paid''] else []))))))"

definition evaluate_snapshot_invariants :: "pyval \<Rightarrow> string list result" where
  "evaluate_snapshot_invariants v =
     res_then (if is_dict (dict_get ''invoice'' v) then invoice_snapshot_violations (the (dict_get ''invoice'' v)) else Inr [])
       (\<lambda>violations.
     Inr (violations @
       (if is_dict (dict_get ''ledger'' v) \<and> dict_get ''balanced'' (the (dict_get ''ledger'' v)) = Some (PBool False)
        then [''ledger_unbalanced''] else []) @
       (if is_dict (dict_get ''period'' v) \<and> dict_get ''status'' (the (dict_get ''period'' v)) = Some (PStr ''LOCKED'') \<and>
           dict_get ''action'' v = Some (PStr ''REVERSAL'') \<and> \<not> truthy (dict_get ''override'' v)
        then [''reversal_locked_period''] else [])))"

record snapshot_call =
  sc_tenant_id :: int
  sc_client_id :: string
  sc_flow_type :: money_flow_type
  sc_flow_ref_id :: string
  sc_event_id :: string
  sc_phase :: snapshot_phase
  sc_snapshot_json :: pyval

definition new_snapshot :: "snapshot_call \<Rightarrow> string \<Rightarrow> pyval \<Rightarrow> string list \<Rightarrow> money_invariant_snapshot" where
  "new_snapshot q h v violations =
     \<lparr>ms_tenant_id = sc_tenant_id q, ms_client_id = sc_client_id q, ms_flow_type = sc_flow_type q,
      ms_flow_ref_id = sc_flow_ref_id q, ms_event_id = sc_event_id q, ms_phase = sc_phase q,
      ms_snapshot_hash = h, ms_snapshot_json = v, ms_passed = (length violations = 0),
      ms_violations = (if violations = [] then None else Some violations)\<rparr>"

definition same_snapshot :: "snapshot_call \<Rightarrow> string \<Rightarrow> money_invariant_snapshot \<Rightarrow> bool" where
  "same_snapshot q h r \<longleftrightarrow> ms_event_id r = sc_event_id q \<and> ms_phase r = sc_phase q \<and> ms_snapshot_hash r = h"

text \<open>
  The row counts as flushed when the operation returns; the callers record at most one snapshot per event and
  phase between two flushes.
\<close>

definition record_snapshot :: "world \<Rightarrow> snapshot_call \<Rightarrow> ('a flow_db_scheme, money_invariant_snapshot) act" where
  "record_snapshot w q =
     and_then (lift_result (canonicalize_snapshot (sc_snapshot_json q))) (\<lambda>canonical.
     and_then (lift_result (build_snapshot_hash w canonical)) (\<lambda>h.
     and_then (lift_result (evaluate_snapshot_invariants canonical)) (\<lambda>violations.
     and_then (reading (\<lambda>s. List.find (same_snapshot q h) (money_snapshots s))) (\<lambda>existing.
     case existing of
       Some r \<Rightarrow> ret r
     | None \<Rightarrow>
         let r = new_snapshot q h canonical violations
         in and_then (update_state (\<lambda>s. s\<lparr>money_snapshots := money_snapshots s @ [r]\<rparr>)) (\<lambda>_. ret r)))))"

record snapshot_summary =
  ss_before_count :: nat
  ss_after_count :: nat
  ss_failed_count :: nat
  ss_passed :: bool

definition snapshot_status :: "money_invariant_snapshot list \<Rightarrow> snapshot_summary" where
  "snapshot_status rows =
     (let before = length (filter (\<lambda>r. ms_phase r = BEFORE) rows); after = length (filter (\<lambda>r. ms_phase r = AFTER) rows);
          failed = length (filter (\<lambda>r. \<not> ms_passed r) rows)
      in \<lparr>ss_before_count = before, ss_after_count = after, ss_failed_count = failed,
          ss_passed = (failed = 0 \<and> before > 0 \<and> after > 0)\<rparr>)"

section \<open>Comparison\<close>

record money_flow_diff =
  df_mismatched_totals :: "string list"
  df_missing_links :: "string list"
  df_broken_snapshots :: "string list"
  df_recommended_action :: string
  df_missing_links_count :: "nat option"
  df_missing_ledger_postings :: "nat option"
  df_mismatched_invoice_aggregation :: "string list option"

definition invoice_part :: "pyval \<Rightarrow> pyval" where
  "invoice_part v = (if is_dict (dict_get ''invoice'' v) then the (dict_get ''invoice'' v) else PDict [])"

text \<open>Python's \<open>==\<close>: booleans are numbers, members of a string enum are strings, dictionaries have no order.\<close>

fun as_compared :: "pyval \<Rightarrow> pyval" where
  "as_compared (PBool b) = PInt (if b then 1 else 0)"
| "as_compared (PEnum x) = PStr x"
| "as_compared (PList vs) = PList (map as_compared vs)"
| "as_compared (PDict kvs) = PDict (sort_key fst (map (\<lambda>(k, v). (k, as_compared v)) kvs))"
| "as_compared v = v"

definition get_compared :: "string \<Rightarrow> pyval \<Rightarrow> pyval" where
  "get_compared k v = as_compared (case dict_get k v of None \<Rightarrow> PNone | Some x \<Rightarrow> x)"

definition diff_snapshots :: "pyval \<Rightarrow> pyval \<Rightarrow> money_flow_diff" where
  "diff_snapshots expected actual =
     (let mismatched = filter (\<lambda>k. get_compared k (invoice_part expected) \<noteq> get_compared k (invoice_part actual))
            [''total_with_tax'', ''amount_paid'', ''amount_due''];
          links = (if truthy (dict_get ''links'' expected) \<and> \<not> truthy (dict_get ''links'' actual) then [''links''] else []);
          broken = (if truthy (dict_get ''snapshots'' expected) \<and> \<not> truthy (dict_get ''snapshots'' actual)
            then [''snapshots''] else [])
      in \<lparr>df_mismatched_totals = mismatched, df_missing_links = links, df_broken_snapshots = broken,
          df_recommended_action =
            (if links \<noteq> [] then ''REBUILD_LINKS'' else if broken \<noteq> [] then ''RECORD_SNAPSHOTS''
             else if mismatched \<noteq> [] then ''REVIEW_TOTALS'' else ''NONE''),
          df_missing_links_count = None, df_missing_ledger_postings = None, df_mismatched_invoice_aggregation = None\<rparr>)"

section \<open>Replay of the fuel links\<close>

definition in_period :: "billing_period \<Rightarrow> int \<Rightarrow> bool" where
  "in_period p t \<longleftrightarrow> bp_start_at p \<le> t \<and> t \<le> bp_end_at p"

definition fuel_of :: "fuel_status set \<Rightarrow> string \<Rightarrow> billing_period \<Rightarrow> fuel_transaction list \<Rightarrow> fuel_transaction list" where
  "fuel_of sts client p rows =
     filter (\<lambda>t. ft_client_id t = client \<and> ft_status t \<in> sts \<and> in_period p (ft_occurred_at t)) rows"

record fuel_totals =
  fu_tx_count :: int
  fu_volume_ml :: int
  fu_amount_minor :: int

definition fuel_totals_of :: "string \<Rightarrow> billing_period \<Rightarrow> 'a flow_db_scheme \<Rightarrow> fuel_totals" where
  "fuel_totals_of client p s =
     (let txs = fuel_of {FUEL_SETTLED} client p (fuel_transactions s)
      in \<lparr>fu_tx_count = int (length txs), fu_volume_ml = sum_list (map ft_volume_ml txs),
          fu_amount_minor = sum_list (map ft_amount_total_minor txs)\<rparr>)"

definition fuel_ledger_summary :: "string list \<Rightarrow> 'a flow_db_scheme \<Rightarrow> int \<times> int" where
  "fuel_ledger_summary ids s =
     (let txs = filter (\<lambda>t. tx_transaction_type t = FUEL_SETTLEMENT \<and> tx_external_ref_id t \<in> set ids) (il_transactions s);
          tids = map tx_id txs
      in (int (length txs), sum_list (map en_amount
           (filter (\<lambda>e. en_ledger_transaction_id e \<in> set tids \<and> en_direction e = DEBIT) (il_entries s)))))"

definition period_invoices :: "string \<Rightarrow> billing_period \<Rightarrow> 'a flow_db_scheme \<Rightarrow> invoice list" where
  "period_invoices client p s =
     filter (\<lambda>i. inv_client_id i = client \<and> inv_billing_period_id i = Some (bp_id p)) (invoices s)"

definition fuel_invoice_summary :: "string \<Rightarrow> billing_period \<Rightarrow> 'a flow_db_scheme \<Rightarrow> int \<times> int" where
  "fuel_invoice_summary client p s =
     (let ids = map inv_id (period_invoices client p s);
          lines = filter (\<lambda>l. il_invoice_id l \<in> set ids \<and> occurs_in ''fuel'' (map lower_char (il_product_id l)))
            (invoice_lines s)
      in (sum_list (map il_line_amount lines),
          sum_list (map (\<lambda>l. case il_volume_ml l of None \<Rightarrow> 0 | Some x \<Rightarrow> x) lines)))"

definition linked_ids :: "flow_link_type \<Rightarrow> link_node_type \<Rightarrow> string list \<Rightarrow> money_flow_link list \<Rightarrow> string list" where
  "linked_ids ty dst ids rows =
     map (\<lambda>r. lk_src_id (ml_spec r)) (filter (\<lambda>r. lk_src_type (ml_spec r) = LN_FUEL_TX \<and> lk_src_id (ml_spec r) \<in> set ids \<and>
       lk_link_type (ml_spec r) = ty \<and> lk_dst_type (ml_spec r) = dst) rows)"

definition missing_links :: "flow_link_type \<Rightarrow> link_node_type \<Rightarrow> string list \<Rightarrow> money_flow_link list \<Rightarrow> string list" where
  "missing_links ty dst ids rows = filter (\<lambda>i. i \<notin> set (linked_ids ty dst ids rows)) ids"

definition compare_fuel_replay :: "string \<Rightarrow> billing_period \<Rightarrow> 'a flow_db_scheme \<Rightarrow> money_flow_diff" where
  "compare_fuel_replay client p s =
     (let txs = fuel_of {FUEL_SETTLED} client p (fuel_transactions s); ids = map ft_id txs;
          totals = fuel_totals_of client p s;
          unposted = length (filter (\<lambda>t. \<not> str_truthy (ft_ledger_transaction_id t)) txs);
          no_ledger = missing_links POSTS LN_LEDGER_TX ids (money_flow_links s);
          no_period = missing_links RELATES LN_BILLING_PERIOD ids (money_flow_links s);
          no_invoice = (if period_invoices client p s = [] then [] else missing_links FEEDS LN_INVOICE ids (money_flow_links s));
          kinds = (if no_ledger \<noteq> [] then [''fuel_tx_ledger_link''] else []) @
            (if no_period \<noteq> [] then [''fuel_tx_billing_period_link''] else []) @
            (if no_invoice \<noteq> [] then [''fuel_tx_invoice_link''] else []);
          count = length no_ledger + length no_period + length no_invoice;
          (ledger_count, ledger_amount) = fuel_ledger_summary ids s;
          (invoice_amount, invoice_volume) = fuel_invoice_summary client p s;
          mismatched = (if ledger_count \<noteq> fu_tx_count totals then [''tx_count''] else []) @
            (if ledger_amount \<noteq> fu_amount_minor totals then [''amount_minor''] else []);
          aggregation = (if invoice_amount \<noteq> 0 \<and> invoice_amount \<noteq> fu_amount_minor totals then [''amount_minor''] else []) @
            (if invoice_volume \<noteq> 0 \<and> invoice_volume \<noteq> fu_volume_ml totals then [''volume_ml''] else [])
      in \<lparr>df_mismatched_totals = mismatched, df_missing_links = kinds, df_broken_snapshots = [],
          df_recommended_action =
            (if count \<noteq> 0 then ''REBUILD_LINKS'' else if unposted \<noteq> 0 then ''REBUILD_POSTINGS''
             else if mismatched \<noteq> [] \<or> aggregation \<noteq> [] then ''REVIEW_TOTALS'' else ''NONE''),
          df_missing_links_count = Some count, df_missing_ledger_postings = Some unposted,
          df_mismatched_invoice_aggregation = Some aggregation\<rparr>)"

text \<open>The dictionary of invoices by currency keeps the last invoice of a currency.\<close>

definition invoice_of_currency :: "string \<Rightarrow> invoice list \<Rightarrow> invoice option" where
  "invoice_of_currency c is = List.find (\<lambda>i. inv_currency i = c) (rev is)"

definition fuel_link :: "fuel_transaction \<Rightarrow> flow_link_type \<Rightarrow> link_node_type \<Rightarrow> string \<Rightarrow> payload option \<Rightarrow> link_spec" where
  "fuel_link t ty dst dst_id meta =
     \<lparr>lk_src_type = LN_FUEL_TX, lk_src_id = ft_id t, lk_link_type = ty, lk_dst_type = dst, lk_dst_id = dst_id, lk_meta = meta\<rparr>"

definition fuel_links :: "billing_period \<Rightarrow> invoice list \<Rightarrow> fuel_transaction \<Rightarrow> link_spec list" where
  "fuel_links p is t =
     [fuel_link t RELATES LN_BILLING_PERIOD (bp_id p) (Some [(''occurred_at'', PStr (isoformat (ft_occurred_at t)))])] @
     (if str_truthy (ft_ledger_transaction_id t)
      then [fuel_link t POSTS LN_LEDGER_TX (the (ft_ledger_transaction_id t)) None] else []) @
     (case invoice_of_currency (ft_currency t) is of
        None \<Rightarrow> [] | Some i \<Rightarrow> [fuel_link t FEEDS LN_INVOICE (inv_id i) None])"

text \<open>One builder per tenant, in the order of their first transaction.\<close>

definition tenant_links :: "billing_period \<Rightarrow> invoice list \<Rightarrow> fuel_transaction list \<Rightarrow> int \<Rightarrow> link_spec list" where
  "tenant_links p is txs tenant =
     fold (\<lambda>l links. add_link links l) (concat (map (fuel_links p is) (filter (\<lambda>t. ft_tenant_id t = tenant) txs))) []"

definition first_seen :: "int list \<Rightarrow> int list" where
  "first_seen xs = rev (remdups (rev xs))"

definition rebuild_fuel_links :: "string \<Rightarrow> billing_period \<Rightarrow> ('a flow_db_scheme, nat) act" where
  "rebuild_fuel_links client p =
     and_then (reading (\<lambda>s. fuel_of {FUEL_SETTLED, FUEL_REVERSED} client p (fuel_transactions s))) (\<lambda>txs.
     if txs = [] then ret 0
     else
       and_then (reading (period_invoices client p)) (\<lambda>is.
       and_then (for_each (first_seen (map ft_tenant_id txs)) (\<lambda>tenant.
         ensure_money_flow_links tenant client (tenant_links p is txs tenant))) (\<lambda>records.
       ret (length (concat records)))))"

section \<open>The replay\<close>

datatype money_replay_mode = DRY_RUN | COMPARE | REBUILD_LINKS

datatype money_replay_scope = SCOPE_SUBSCRIPTIONS | SCOPE_FUEL | SCOPE_ALL

fun replay_scope_value :: "money_replay_scope \<Rightarrow> string" where
  "replay_scope_value SCOPE_SUBSCRIPTIONS = ''SUBSCRIPTIONS''"
| "replay_scope_value SCOPE_FUEL = ''FUEL''"
| "replay_scope_value SCOPE_ALL = ''ALL''"

record money_replay_result =
  rr_mode :: money_replay_mode
  rr_scope :: money_replay_scope
  rr_recompute_hash :: "string option"
  rr_diff :: "money_flow_diff option"
  rr_links_rebuilt :: "nat option"
  rr_summary :: "fuel_totals option"

definition build_recompute_hash :: "world \<Rightarrow> payload \<Rightarrow> string" where
  "build_recompute_hash w p = sha256_hex w (dumps (PDict p))"

definition fuel_totals_payload :: "fuel_totals \<Rightarrow> pyval" where
  "fuel_totals_payload f = PDict [(''tx_count'', PInt (fu_tx_count f)), (''volume_ml'', PInt (fu_volume_ml f)),
     (''amount_minor'', PInt (fu_amount_minor f))]"

definition replay_key :: "string \<Rightarrow> string \<Rightarrow> money_replay_scope \<Rightarrow> payload" where
  "replay_key client pid sc =
     [(''client_id'', PStr client), (''billing_period_id'', PStr pid), (''scope'', PStr (replay_scope_value sc))]"

definition replay_result ::
    "money_replay_mode \<Rightarrow> money_replay_scope \<Rightarrow> fuel_totals option \<Rightarrow> string option \<Rightarrow> money_flow_diff option \<Rightarrow>
     nat option \<Rightarrow> money_replay_result" where
  "replay_result mode sc summary hash diff rebuilt =
     \<lparr>rr_mode = mode, rr_scope = sc, rr_recompute_hash = hash, rr_diff = diff, rr_links_rebuilt = rebuilt,
      rr_summary = summary\<rparr>"

definition replay_fuel ::
    "world \<Rightarrow> string \<Rightarrow> billing_period \<Rightarrow> money_replay_mode \<Rightarrow> ('a flow_db_scheme, money_replay_result) act" where
  "replay_fuel w client p mode =
     and_then (reading (fuel_totals_of client p)) (\<lambda>totals.
     let result = replay_result mode SCOPE_FUEL (Some totals) in
     case mode of
       DRY_RUN \<Rightarrow> ret (result (Some (build_recompute_hash w
         (replay_key client (bp_id p) SCOPE_FUEL @ [(''fuel_totals'', fuel_totals_payload totals)]))) None None)
     | COMPARE \<Rightarrow> and_then (reading (compare_fuel_replay client p)) (\<lambda>d. ret (result None (Some d) None))
     | REBUILD_LINKS \<Rightarrow> and_then (rebuild_fuel_links client p) (\<lambda>n. ret (result None None (Some n))))"

definition run_money_flow_replay ::
    "world \<Rightarrow> string \<Rightarrow> string \<Rightarrow> money_replay_mode \<Rightarrow> money_replay_scope \<Rightarrow> pyval option \<Rightarrow> pyval option \<Rightarrow>
     ('a flow_db_scheme, money_replay_result) act" where
  "run_money_flow_replay w client pid mode sc expected actual =
     (if sc = SCOPE_FUEL then
        and_then (reading (\<lambda>s. List.find (\<lambda>p. bp_id p = pid) (billing_periods s))) (\<lambda>period.
        case period of
          None \<Rightarrow> raise_exc (ValueError ''billing period not found'')
        | Some p \<Rightarrow> replay_fuel w client p mode)
      else
        let result = replay_result mode sc None; snapshot = (\<lambda>x. if truthy x then the x else PDict []) in
        case mode of
          DRY_RUN \<Rightarrow> ret (result (Some (build_recompute_hash w (replay_key client pid sc))) None None)
        | COMPARE \<Rightarrow> ret (result None (Some (diff_snapshots (snapshot expected) (snapshot actual))) None)
        | REBUILD_LINKS \<Rightarrow> ret (result None None (Some 0)))"

end
