(* ===== verification/Money_Flow_Properties.thy ===== *)
theory Money_Flow_Properties
  imports Money_Flow Invoice_Properties
begin

text \<open>
  What the money flow services guarantee: the lifecycle of a flow, the round trip of a snapshot through its
  canonical text, that links and snapshots are recorded once, and what a rebuild of the fuel links repairs.
\<close>

section \<open>The lifecycle of a flow\<close>

definition flow_step :: "money_flow_state \<Rightarrow> money_flow_event_type \<Rightarrow> money_flow_state result" where
  "flow_step s e = map_sum id trr_state (apply_transition (Some s) e)"

fun flow_successors :: "money_flow_state \<Rightarrow> money_flow_state list" where
  "flow_successors MF_DRAFT = [MF_AUTHORIZED, MF_CANCELLED]"
| "flow_successors MF_AUTHORIZED = [MF_SETTLED, MF_CANCELLED, MF_FAILED]"
| "flow_successors MF_PENDING_SETTLEMENT = [MF_SETTLED, MF_FAILED]"
| "flow_successors MF_SETTLED = [MF_REVERSED, MF_DISPUTED]"
| "flow_successors MF_DISPUTED = [MF_SETTLED]"
| "flow_successors _ = []"

interpretation flow_lc: lifecycle flow_step flow_successors
proof unfold_locales
  show "flow_step s e = Inr s' \<Longrightarrow> s' = s \<or> s' \<in> set (flow_successors s)" for s e s'
    by (cases s; cases e) (auto simp: flow_step_def apply_transition_def)
next
  fix s s'
  assume "s' \<in> set (flow_successors s)"
  then have "\<exists>e\<in>{EV_AUTHORIZE, EV_CANCEL, EV_SETTLE, EV_FAIL, EV_REVERSE, EV_DISPUTE_OPEN, EV_DISPUTE_RESOLVE}.
      flow_step s e = Inr s'"
    by (cases s) (auto simp: flow_step_def apply_transition_def)
  then show "\<exists>e. flow_step s e = Inr s'" by blast
qed

text \<open>The lifecycle of a money flow: the states that a sequence of events can reach are the ones on the paths
  of the table; a reversed, cancelled or failed flow stays what it is; no sequence of events leads into
  \<open>PENDING_SETTLEMENT\<close>; and repeating the event that settled, reversed or cancelled a flow changes nothing.\<close>

theorem money_flow_lifecycle:
  "((\<exists>es. run_steps flow_step a es = Inr b) \<longleftrightarrow> (a, b) \<in> {(x, y). y \<in> set (flow_successors x)}\<^sup>*) \<and>
   (a \<in> {MF_REVERSED, MF_CANCELLED, MF_FAILED} \<longrightarrow> run_steps flow_step a es = Inr b \<longrightarrow> b = a) \<and>
   (a \<noteq> MF_PENDING_SETTLEMENT \<longrightarrow> run_steps flow_step a es = Inr b \<longrightarrow> b \<noteq> MF_PENDING_SETTLEMENT) \<and>
   (e \<in> {EV_SETTLE, EV_REVERSE, EV_CANCEL} \<longrightarrow> flow_step a e = Inr b \<longrightarrow> flow_step b e = Inr b)"
proof (intro conjI impI)
  show "b = a" if "a \<in> {MF_REVERSED, MF_CANCELLED, MF_FAILED}" "run_steps flow_step a es = Inr b"
    by (rule flow_lc.run_absorbed [of _ es]) (use that in auto)
  have "\<forall>x. MF_PENDING_SETTLEMENT \<notin> set (flow_successors x)"
  proof
    show "MF_PENDING_SETTLEMENT \<notin> set (flow_successors x)" for x by (cases x) simp_all
  qed
  then show "b \<noteq> MF_PENDING_SETTLEMENT" if "a \<noteq> MF_PENDING_SETTLEMENT" "run_steps flow_step a es = Inr b"
    using that by (rule flow_lc.run_avoids)
  show "flow_step b e = Inr b" if "e \<in> {EV_SETTLE, EV_REVERSE, EV_CANCEL}" "flow_step a e = Inr b"
    using that by (cases a) (auto simp: flow_step_def apply_transition_def)
qed (rule flow_lc.run_iff_reachable)

theorem money_flow_lifecycle_witness:
  "run_steps flow_step MF_DRAFT [EV_AUTHORIZE, EV_SETTLE, EV_DISPUTE_OPEN, EV_DISPUTE_RESOLVE, EV_REVERSE] = Inr MF_REVERSED \<and>
   run_steps flow_step MF_REVERSED [EV_REVERSE] = Inr MF_REVERSED"
  using money_flow_lifecycle [of MF_REVERSED MF_REVERSED "[EV_REVERSE]" EV_REVERSE]
  by (simp add: flow_step_def apply_transition_def)

section \<open>Snapshots\<close>

lemma plain_json_ready: "plain_json v \<Longrightarrow> json_ready v"
  by (induction v rule: plain_json.induct) auto

lemma canonicalize_normalize:
  assumes "wf_pyval v" and "json_ready v"
  shows "canonicalize_snapshot v = Inr (normalize_value v)"
  using loads_dumps [OF normalize_plain [OF assms(1)]] assms(2)
  by (simp add: canonicalize_snapshot_def snapshot_canonical_json_def dumps_normalize)

lemma canonicalize_unready: "\<not> json_ready v \<Longrightarrow> \<exists>m. canonicalize_snapshot v = Inl (TypeError m)"
  by (simp add: canonicalize_snapshot_def snapshot_canonical_json_def)

text \<open>C37. A snapshot survives its canonical text: writing it with sorted keys and reading it back gives the same
  value with its dictionaries sorted at every depth, doing so again changes nothing, and the hash of
  the stored snapshot is the hash of the one that was handed in.\<close>

theorem snapshot_roundtrip:
  assumes "wf_pyval v" and "json_ready v"
  shows "canonicalize_snapshot v = Inr (normalize_value v) \<and>
    canonicalize_snapshot (normalize_value v) = Inr (normalize_value v) \<and>
    build_snapshot_hash w (normalize_value v) = build_snapshot_hash w v"
proof -
  have plain: "plain_json (normalize_value v)" by (rule normalize_plain [OF assms(1)])
  have "canonicalize_snapshot (normalize_value v) = Inr (normalize_value v)"
    using loads_dumps [OF plain] plain_json_ready [OF plain]
    by (simp add: canonicalize_snapshot_def snapshot_canonical_json_def)
  with canonicalize_normalize [OF assms] plain_json_ready [OF plain] assms(2) show ?thesis
    by (simp add: build_snapshot_hash_def snapshot_canonical_json_def dumps_normalize)
qed

theorem snapshot_roundtrip_witness:
  "canonicalize_snapshot (PDict [(''b'', PList [PInt (- 12), PNone]), (''a'', PEnum ''SETTLED'')]) =
     Inr (PDict [(''a'', PStr ''SETTLED''), (''b'', PList [PInt (- 12), PNone])])"
  using snapshot_roundtrip [of "PDict [(''b'', PList [PInt (- 12), PNone]), (''a'', PEnum ''SETTLED'')]"]
  by simp

lemma find_append: "List.find P (xs @ ys) = (case List.find P xs of None \<Rightarrow> List.find P ys | Some x \<Rightarrow> Some x)"
  by (induction xs) auto

text \<open>A successful call either finds the row of its scope or appends it.\<close>

lemma record_snapshotE:
  assumes "record_snapshot w q s = (Inr r, s')"
  obtains v h vs where "canonicalize_snapshot (sc_snapshot_json q) = Inr v" "build_snapshot_hash w v = Inr h"
    "evaluate_snapshot_invariants v = Inr vs" "List.find (same_snapshot q h) (money_snapshots s) = Some r" "s' = s"
  | v h vs where "canonicalize_snapshot (sc_snapshot_json q) = Inr v" "build_snapshot_hash w v = Inr h"
    "evaluate_snapshot_invariants v = Inr vs" "List.find (same_snapshot q h) (money_snapshots s) = None"
    "r = new_snapshot q h v vs" "s' = s\<lparr>money_snapshots := money_snapshots s @ [r]\<rparr>"
proof -
  from assms obtain v h vs where 1: "canonicalize_snapshot (sc_snapshot_json q) = Inr v"
      "build_snapshot_hash w v = Inr h" "evaluate_snapshot_invariants v = Inr vs"
    unfolding record_snapshot_def by (auto simp: and_then_Inr_iff)
  show thesis
  proof (cases "List.find (same_snapshot q h) (money_snapshots s)")
    case None
    with assms 1 show thesis by (intro that(2) [OF 1]) (auto simp: record_snapshot_def Let_def)
  next
    case (Some x)
    with assms 1 show thesis by (intro that(1) [OF 1]) (auto simp: record_snapshot_def Let_def)
  qed
qed

lemma record_snapshot_found:
  assumes "canonicalize_snapshot (sc_snapshot_json q) = Inr v" "build_snapshot_hash w v = Inr h"
    "evaluate_snapshot_invariants v = Inr vs" "List.find (same_snapshot q h) (money_snapshots s) = Some r"
  shows "record_snapshot w q s = (Inr r, s)"
  unfolding record_snapshot_def using assms by simp

lemma same_snapshot_new: "same_snapshot q h (new_snapshot q h v vs)"
  by (simp add: same_snapshot_def new_snapshot_def)

lemma record_snapshot_replays:
  assumes "record_snapshot w q s = (Inr r, s')"
  shows "record_snapshot w q s' = (Inr r, s')"
  using assms
proof (rule record_snapshotE)
  fix v h vs
  assume 1: "canonicalize_snapshot (sc_snapshot_json q) = Inr v" "build_snapshot_hash w v = Inr h"
    "evaluate_snapshot_invariants v = Inr vs"
  { assume "List.find (same_snapshot q h) (money_snapshots s) = Some r" "s' = s"
    with record_snapshot_found [OF 1] show ?thesis by simp }
  assume "List.find (same_snapshot q h) (money_snapshots s) = None"
    "r = new_snapshot q h v vs" "s' = s\<lparr>money_snapshots := money_snapshots s @ [r]\<rparr>"
  then have "List.find (same_snapshot q h) (money_snapshots s') = Some r"
    by (simp add: find_append same_snapshot_new)
  then show ?thesis by (rule record_snapshot_found [OF 1])
qed

definition snapshot_scope :: "money_invariant_snapshot \<Rightarrow> string \<times> snapshot_phase \<times> string" where
  "snapshot_scope r = (ms_event_id r, ms_phase r, ms_snapshot_hash r)"

definition snapshots_ok :: "world \<Rightarrow> 'a flow_db_scheme \<Rightarrow> bool" where
  "snapshots_ok w s \<longleftrightarrow> distinct (map snapshot_scope (money_snapshots s)) \<and>
     (\<forall>r\<in>set (money_snapshots s). build_snapshot_hash w (ms_snapshot_json r) = Inr (ms_snapshot_hash r))"

lemma record_snapshot_keeps:
  assumes "snapshots_ok w s"
  shows "snapshots_ok w (snd (record_snapshot w q s))"
proof (cases "fst (record_snapshot w q s)")
  case (Inl e)
  then have "snd (record_snapshot w q s) = s" unfolding record_snapshot_def
    by (auto simp: and_then_def Let_def split: sum.splits option.splits)
  with assms show ?thesis by simp
next
  case (Inr r)
  then obtain s' where run: "record_snapshot w q s = (Inr r, s')" by (cases "record_snapshot w q s") auto
  then show ?thesis
  proof (rule record_snapshotE)
    fix v h vs
    assume "build_snapshot_hash w v = Inr h" and "List.find (same_snapshot q h) (money_snapshots s) = None"
      and "r = new_snapshot q h v vs" and "s' = s\<lparr>money_snapshots := money_snapshots s @ [r]\<rparr>"
    with assms run show ?thesis
      by (fastforce simp: snapshots_ok_def snapshot_scope_def find_None_iff same_snapshot_def new_snapshot_def)
  qed (use assms run in simp)
qed

interpretation snapshot_retry: idempotent_operation "record_snapshot w" "snapshots_ok w" "\<lambda>r. r" for w
  by unfold_locales (auto intro: record_snapshot_keeps record_snapshot_replays)

text \<open>The part of an invoice in the snapshots of \<open>subscription_billing._build_invoice_snapshot_payload\<close>.\<close>

definition flow_invoice_snapshot :: "invoice \<Rightarrow> pyval" where
  "flow_invoice_snapshot i = PDict
     [(''id'', PStr (inv_id i)), (''status'', PStr (invoice_status_value (inv_status i))),
      (''total_with_tax'', PInt (inv_total_with_tax i)), (''amount_paid'', PInt (inv_amount_paid i)),
      (''amount_due'', PInt (inv_amount_due i)), (''amount_refunded'', PInt (inv_amount_refunded i))]"

text \<open>The snapshot rule knows payments only: it reports every invoice in order whose credits and refunds differ.\<close>

theorem snapshot_rule_ignores_credits:
  assumes "invoice_ok i" and "invoice_total i = inv_total_with_tax i" and "inv_amount_refunded i \<le> inv_amount_paid i"
  shows "evaluate_snapshot_invariants (PDict [(''invoice'', flow_invoice_snapshot i)]) =
    Inr (if inv_credited_amount i = inv_amount_refunded i then [] else [''invoice_balance_mismatch''])"
  using assms
  by (auto simp: evaluate_snapshot_invariants_def invoice_snapshot_violations_def flow_invoice_snapshot_def dict_get_def
    int_or_zero_def invoice_ok_def)

section \<open>Links\<close>

lemma link_scope_new [simp]: "link_scope (new_link tenant client l) = (tenant, link_key l)"
  by (simp add: link_scope_def new_link_def link_key_def)

definition new_links :: "int \<Rightarrow> string \<Rightarrow> link_spec list \<Rightarrow> money_flow_link list \<Rightarrow> money_flow_link list" where
  "new_links tenant client links rows = map (new_link tenant client) (filter (\<lambda>l. find_link tenant l rows = None) links)"

definition link_records :: "int \<Rightarrow> string \<Rightarrow> link_spec list \<Rightarrow> money_flow_link list \<Rightarrow> money_flow_link list" where
  "link_records tenant client links rows =
     map (\<lambda>l. case find_link tenant l rows of Some r \<Rightarrow> r | None \<Rightarrow> new_link tenant client l) links"

lemma ensure_links_apply:
  "ensure_money_flow_links tenant client links s =
     (let new = new_links tenant client links (money_flow_links s) in
      if distinct (map link_scope new)
      then (Inr (link_records tenant client links (money_flow_links s)), s\<lparr>money_flow_links := money_flow_links s @ new\<rparr>)
      else (Inl IntegrityError, s))"
  by (simp add: ensure_money_flow_links_def new_links_def link_records_def Let_def)

lemma find_link_grown:
  assumes "distinct (map link_scope new)" and "new = new_links tenant client links rows" and "l \<in> set links"
  shows "find_link tenant l (rows @ new) =
    Some (case find_link tenant l rows of Some r \<Rightarrow> r | None \<Rightarrow> new_link tenant client l)"
proof (cases "find_link tenant l rows")
  case None
  then have "new_link tenant client l \<in> set new" using assms(2,3) by (auto simp: new_links_def)
  from find_unique [OF assms(1) this] None show ?thesis by (simp add: find_link_def find_append)
qed (simp add: find_link_def find_append)

definition links_ok :: "'a flow_db_scheme \<Rightarrow> bool" where
  "links_ok s \<longleftrightarrow> distinct (map link_scope (money_flow_links s))"

lemma ensure_links_keeps: "links_ok s \<Longrightarrow> links_ok (snd (ensure_money_flow_links tenant client links s))"
  by (auto simp: ensure_links_apply links_ok_def Let_def new_links_def find_link_def find_None_iff)

lemma ensure_links_replays:
  assumes "ensure_money_flow_links tenant client links s = (Inr rs, s')"
  shows "ensure_money_flow_links tenant client links s' = (Inr rs, s')"
proof -
  let ?new = "new_links tenant client links (money_flow_links s)"
  have d: "distinct (map link_scope ?new)" and rs: "rs = link_records tenant client links (money_flow_links s)"
    and s': "s' = s\<lparr>money_flow_links := money_flow_links s @ ?new\<rparr>"
    using assms by (auto simp: ensure_links_apply Let_def split: if_splits)
  note found = find_link_grown [OF d refl]
  have "new_links tenant client links (money_flow_links s @ ?new) = []"
    unfolding new_links_def [of _ _ _ "money_flow_links s @ ?new"] using found by (simp add: filter_empty_conv)
  moreover have "link_records tenant client links (money_flow_links s @ ?new) = rs"
    unfolding rs link_records_def using found by (intro map_cong) simp_all
  ultimately show ?thesis unfolding s' by (simp add: ensure_links_apply Let_def)
qed

interpretation link_retry: idempotent_operation
    "\<lambda>(tenant, client, links). ensure_money_flow_links tenant client links" links_ok "\<lambda>rs. rs"
  by unfold_locales (auto intro: ensure_links_keeps ensure_links_replays)

text \<open>The links between documents are recorded once: after a successful call, repeating it any number of times
  returns the same rows and changes nothing, and no two rows of the table have the same scope.\<close>

theorem links_recorded_once:
  assumes "links_ok s" and "ensure_money_flow_links tenant client links s = (Inr rs, s')"
  shows "retried n (ensure_money_flow_links tenant client links) s = (Inr rs, s') \<and> links_ok s'"
  using link_retry.retried_same [of s "(tenant, client, links)" rs s' n] ensure_links_keeps [OF assms(1), of tenant client links] assms
  by simp

definition two_links :: "link_spec list" where
  "two_links =
     [\<lparr>lk_src_type = LN_INVOICE, lk_src_id = ''inv-1'', lk_link_type = GENERATES, lk_dst_type = LN_DOCUMENT,
       lk_dst_id = ''doc-1'', lk_meta = Some []\<rparr>,
      \<lparr>lk_src_type = LN_INVOICE, lk_src_id = ''inv-1'', lk_link_type = POSTS, lk_dst_type = LN_LEDGER_TX,
       lk_dst_id = ''tx-1'', lk_meta = None\<rparr>]"

definition empty_flow_db :: flow_db where
  "empty_flow_db = fin_db.extend empty_fin_db
     \<lparr>money_flow_links = [], money_snapshots = [], fuel_transactions = [], invoice_lines = []\<rparr>"

theorem links_recorded_once_witness:
  "\<exists>rs s'. length rs = 2 \<and> retried 3 (ensure_money_flow_links 1 ''client'' two_links) empty_flow_db = (Inr rs, s') \<and> links_ok s'"
proof -
  have ok: "links_ok empty_flow_db" by (simp add: links_ok_def empty_flow_db_def fin_db.defs)
  obtain rs s' where run: "ensure_money_flow_links 1 ''client'' two_links empty_flow_db = (Inr rs, s')" and "length rs = 2"
    by (simp add: ensure_links_apply Let_def new_links_def link_records_def two_links_def find_link_def link_key_def
      empty_flow_db_def fin_db.defs)
  with links_recorded_once [OF ok run, of 3] show ?thesis by blast
qed

end
