(* ===== verification/Fuel_Replay.thy ===== *)
theory Fuel_Replay
  imports Money_Flow_Properties
begin

text \<open>
  What rebuilding the links of the fuel transactions of a period repairs, and what a comparison of the
  period then reports.
\<close>

section \<open>The links of a rebuild\<close>

lemma add_links_keys:
  assumes "distinct (map link_key acc)"
  shows "distinct (map link_key (fold (\<lambda>l links. add_link links l) ls acc)) \<and>
    link_key ` set (fold (\<lambda>l links. add_link links l) ls acc) = link_key ` set acc \<union> link_key ` set ls \<and>
    set (fold (\<lambda>l links. add_link links l) ls acc) \<subseteq> set acc \<union> set ls"
  using assms
proof (induction ls arbitrary: acc)
  case (Cons l ls)
  have d: "distinct (map link_key (add_link acc l))" using Cons.prems by (auto simp: add_link_def)
  have k: "link_key ` set (add_link acc l) = insert (link_key l) (link_key ` set acc)"
    by (cases "\<exists>x\<in>set acc. link_key x = link_key l") (auto simp: add_link_def intro: rev_image_eqI)
  have "set (add_link acc l) \<subseteq> insert l (set acc)" by (auto simp: add_link_def)
  with Cons.IH [OF d] k show ?case by auto
qed simp

lemma tenant_links_keys:
  "distinct (map link_key (tenant_links p is txs tenant))"
  "t \<in> set txs \<Longrightarrow> ft_tenant_id t = tenant \<Longrightarrow> l \<in> set (fuel_links p is t) \<Longrightarrow>
     link_key l \<in> link_key ` set (tenant_links p is txs tenant)"
  "l \<in> set (tenant_links p is txs tenant) \<Longrightarrow> \<exists>t\<in>set txs. ft_tenant_id t = tenant \<and> l \<in> set (fuel_links p is t)"
  using add_links_keys [of "[]" "concat (map (fuel_links p is) (filter (\<lambda>t. ft_tenant_id t = tenant) txs))"]
  by (auto simp: tenant_links_def)

text \<open>Links with distinct keys are recorded: every one has its row then, and each new row is one of them.\<close>

lemma ensure_links_succeeds:
  assumes "distinct (map link_key links)"
  shows "\<exists>rs new. ensure_money_flow_links tenant client links s =
      (Inr rs, s\<lparr>money_flow_links := money_flow_links s @ new\<rparr>) \<and>
    (\<forall>l\<in>set links. (tenant, link_key l) \<in> link_scope ` set (money_flow_links s @ new)) \<and>
    (\<forall>r\<in>set new. \<exists>l\<in>set links. r = new_link tenant client l)"
proof -
  let ?new = "new_links tenant client links (money_flow_links s)"
  have "map link_scope ?new = map (\<lambda>l. (tenant, link_key l)) (filter (\<lambda>l. find_link tenant l (money_flow_links s) = None) links)"
    by (simp add: new_links_def)
  then have d: "distinct (map link_scope ?new)" using assms by (auto simp: distinct_map inj_on_def)
  have "(tenant, link_key l) \<in> link_scope ` set (money_flow_links s @ ?new)" if "l \<in> set links" for l
  proof (cases "find_link tenant l (money_flow_links s)")
    case None
    with that have "new_link tenant client l \<in> set ?new" by (simp add: new_links_def)
    then show ?thesis by (intro image_eqI [of _ _ "new_link tenant client l"]) simp_all
  next
    case (Some r)
    then show ?thesis by (auto simp: find_link_def find_Some_iff intro!: image_eqI [of _ _ r])
  qed
  then show ?thesis using d
    by (intro exI conjI ballI) (auto simp: ensure_links_apply Let_def new_links_def)
qed

lemma ensure_all_succeeds:
  assumes "\<forall>t\<in>set ts. distinct (map link_key (links t))"
  shows "\<exists>rs new. for_each ts (\<lambda>t. ensure_money_flow_links t client (links t)) s =
      (Inr rs, s\<lparr>money_flow_links := money_flow_links s @ new\<rparr>) \<and>
    (\<forall>t\<in>set ts. \<forall>l\<in>set (links t). (t, link_key l) \<in> link_scope ` set (money_flow_links s @ new)) \<and>
    (\<forall>r\<in>set new. \<exists>t\<in>set ts. \<exists>l\<in>set (links t). r = new_link t client l)"
  using assms
proof (induction ts arbitrary: s)
  case Nil
  show ?case by (intro exI [of _ "[]"]) simp
next
  case (Cons t ts)
  from Cons.prems have "distinct (map link_key (links t))" by simp
  from ensure_links_succeeds [OF this, of t client s] obtain rs new where
    1: "ensure_money_flow_links t client (links t) s = (Inr rs, s\<lparr>money_flow_links := money_flow_links s @ new\<rparr>)"
      "\<forall>l\<in>set (links t). (t, link_key l) \<in> link_scope ` set (money_flow_links s @ new)"
      "\<forall>r\<in>set new. \<exists>l\<in>set (links t). r = new_link t client l" by blast
  let ?s = "s\<lparr>money_flow_links := money_flow_links s @ new\<rparr>"
  from Cons.prems have "\<forall>t\<in>set ts. distinct (map link_key (links t))" by simp
  from Cons.IH [OF this, of ?s] obtain rs' new' where
    2: "for_each ts (\<lambda>t. ensure_money_flow_links t client (links t)) ?s =
         (Inr rs', ?s\<lparr>money_flow_links := money_flow_links ?s @ new'\<rparr>)"
      "\<forall>t\<in>set ts. \<forall>l\<in>set (links t). (t, link_key l) \<in> link_scope ` set (money_flow_links ?s @ new')"
      "\<forall>r\<in>set new'. \<exists>t\<in>set ts. \<exists>l\<in>set (links t). r = new_link t client l" by blast
  show ?case
  proof (intro exI conjI)
    show "for_each (t # ts) (\<lambda>t. ensure_money_flow_links t client (links t)) s =
        (Inr (rs # rs'), s\<lparr>money_flow_links := money_flow_links s @ new @ new'\<rparr>)"
      using for_each_ConsI [of "\<lambda>t. ensure_money_flow_links t client (links t)", OF 1(1) 2(1)] by simp
    show "\<forall>x\<in>set (t # ts). \<forall>l\<in>set (links x). (x, link_key l) \<in> link_scope ` set (money_flow_links s @ new @ new')"
    proof (intro ballI)
      fix x l
      assume "x \<in> set (t # ts)" and l: "l \<in> set (links x)"
      then consider "x = t" | "x \<in> set ts" by auto
      then show "(x, link_key l) \<in> link_scope ` set (money_flow_links s @ new @ new')"
      proof cases
        case 1
        with \<open>\<forall>l\<in>set (links t). _\<close> l have "(x, link_key l) \<in> link_scope ` set (money_flow_links s @ new)" by blast
        then show ?thesis by (simp only: set_append image_Un) blast
      next
        case 2
        with \<open>\<forall>t\<in>set ts. \<forall>l\<in>set (links t). (t, link_key l) \<in> _\<close> l show ?thesis by simp
      qed
    qed
    show "\<forall>r\<in>set (new @ new'). \<exists>x\<in>set (t # ts). \<exists>l\<in>set (links x). r = new_link x client l"
      using 1(3) 2(3) by (simp only: set_append list.set) blast
  qed
qed

lemma first_seen_set [simp]: "set (first_seen xs) = set xs"
  by (simp add: first_seen_def)

abbreviation fuel_linked :: "string \<Rightarrow> billing_period \<Rightarrow> 'a flow_db_scheme \<Rightarrow> fuel_transaction list" where
  "fuel_linked client p s \<equiv> fuel_of {FUEL_SETTLED, FUEL_REVERSED} client p (fuel_transactions s)"

lemma rebuild_succeeds:
  "\<exists>n new. rebuild_fuel_links client p s = (Inr n, s\<lparr>money_flow_links := money_flow_links s @ new\<rparr>) \<and>
    (\<forall>t\<in>set (fuel_linked client p s). \<forall>l\<in>set (fuel_links p (period_invoices client p s) t).
       (ft_tenant_id t, link_key l) \<in> link_scope ` set (money_flow_links s @ new)) \<and>
    (\<forall>r\<in>set new. \<exists>t\<in>set (fuel_linked client p s). \<exists>l\<in>set (fuel_links p (period_invoices client p s) t).
       r = new_link (ft_tenant_id t) client l)"
proof (cases "fuel_linked client p s = []")
  case True
  then show ?thesis by (intro exI [of _ 0] exI [of _ "[]"]) (simp add: rebuild_fuel_links_def)
next
  case False
  let ?txs = "fuel_linked client p s" and ?is = "period_invoices client p s"
  have "\<forall>t\<in>set (first_seen (map ft_tenant_id ?txs)). distinct (map link_key (tenant_links p ?is ?txs t))"
    by (simp add: tenant_links_keys(1))
  from ensure_all_succeeds [OF this, of client s] obtain rs new where
    run: "for_each (first_seen (map ft_tenant_id ?txs)) (\<lambda>t. ensure_money_flow_links t client (tenant_links p ?is ?txs t)) s =
        (Inr rs, s\<lparr>money_flow_links := money_flow_links s @ new\<rparr>)"
      and all: "\<forall>t\<in>ft_tenant_id ` set ?txs. \<forall>l\<in>set (tenant_links p ?is ?txs t).
        (t, link_key l) \<in> link_scope ` set (money_flow_links s @ new)"
      and only: "\<forall>r\<in>set new. \<exists>t\<in>ft_tenant_id ` set ?txs. \<exists>l\<in>set (tenant_links p ?is ?txs t). r = new_link t client l"
    by (auto simp only: first_seen_set set_map)
  show ?thesis
  proof (intro exI conjI ballI)
    show "rebuild_fuel_links client p s = (Inr (length (concat rs)), s\<lparr>money_flow_links := money_flow_links s @ new\<rparr>)"
      using False run by (simp add: rebuild_fuel_links_def)
  next
    fix t l
    assume "t \<in> set ?txs" and "l \<in> set (fuel_links p ?is t)"
    then obtain l' where "l' \<in> set (tenant_links p ?is ?txs (ft_tenant_id t))" and "link_key l' = link_key l"
      using tenant_links_keys(2) [of t ?txs "ft_tenant_id t" l p ?is] by force
    with all \<open>t \<in> set ?txs\<close> show "(ft_tenant_id t, link_key l) \<in> link_scope ` set (money_flow_links s @ new)" by force
  next
    fix r
    assume "r \<in> set new"
    with only obtain ten l where "r = new_link ten client l" and "l \<in> set (tenant_links p ?is ?txs ten)" by blast
    with tenant_links_keys(3) [of l p ?is ?txs ten] show "\<exists>t\<in>set ?txs. \<exists>l\<in>set (fuel_links p ?is t).
        r = new_link (ft_tenant_id t) client l" by blast
  qed
qed

section \<open>What a comparison then finds\<close>

definition fuel_linked_to :: "flow_link_type \<Rightarrow> link_node_type \<Rightarrow> money_flow_link list \<Rightarrow> string \<Rightarrow> bool" where
  "fuel_linked_to ty dst rows i \<longleftrightarrow> (\<exists>r\<in>set rows. lk_src_type (ml_spec r) = LN_FUEL_TX \<and> lk_src_id (ml_spec r) = i \<and>
     lk_link_type (ml_spec r) = ty \<and> lk_dst_type (ml_spec r) = dst)"

lemma missing_links_eq: "missing_links ty dst ids rows = filter (\<lambda>i. \<not> fuel_linked_to ty dst rows i) ids"
  unfolding missing_links_def linked_ids_def fuel_linked_to_def by (intro filter_cong refl) auto


abbreviation fuel_settled :: "string \<Rightarrow> billing_period \<Rightarrow> 'a flow_db_scheme \<Rightarrow> fuel_transaction list" where
  "fuel_settled client p s \<equiv> fuel_of {FUEL_SETTLED} client p (fuel_transactions s)"


lemma compare_links:
  fixes client p s
  defines "ids \<equiv> map ft_id (fuel_settled client p s)" and "d \<equiv> compare_fuel_replay client p s"
    and "no \<equiv> \<lambda>ty dst. missing_links ty dst (map ft_id (fuel_settled client p s)) (money_flow_links s)"
  shows "df_missing_links_count d = Some (length (no POSTS LN_LEDGER_TX) + length (no RELATES LN_BILLING_PERIOD) +
      (if period_invoices client p s = [] then 0 else length (no FEEDS LN_INVOICE)))"
    and "df_missing_ledger_postings d =
      Some (length (filter (\<lambda>t. \<not> str_truthy (ft_ledger_transaction_id t)) (fuel_settled client p s)))"
    and "df_missing_links_count d = Some 0 \<Longrightarrow> df_missing_links d = []"
    and "df_recommended_action d = ''REBUILD_LINKS'' \<longleftrightarrow> df_missing_links_count d \<noteq> Some 0"
  unfolding d_def no_def compare_fuel_replay_def Let_def by (auto split: prod.splits if_splits)


section \<open>Transactions without a posting\<close>

lemma unposted_recommends_rebuild:
  assumes "t \<in> set (fuel_settled client p s)" and "\<not> fuel_linked_to POSTS LN_LEDGER_TX (money_flow_links s) (ft_id t)"
  shows "df_recommended_action (compare_fuel_replay client p s) = ''REBUILD_LINKS''"
proof -
  have "ft_id t \<in> set (missing_links POSTS LN_LEDGER_TX (map ft_id (fuel_settled client p s)) (money_flow_links s))"
    using assms by (auto simp: missing_links_eq)
  then show ?thesis unfolding compare_links(4) compare_links(1) by auto
qed

lemma rebuild_never_posts:
  assumes "distinct (map ft_id (fuel_transactions s))" and "t \<in> set (fuel_transactions s)"
    and "\<not> str_truthy (ft_ledger_transaction_id t)"
    and "\<not> fuel_linked_to POSTS LN_LEDGER_TX (money_flow_links s) (ft_id t)"
  shows "\<exists>n links. rebuild_fuel_links client p s = (Inr n, s\<lparr>money_flow_links := links\<rparr>) \<and>
    \<not> fuel_linked_to POSTS LN_LEDGER_TX links (ft_id t)"
proof -
  obtain n new where run: "rebuild_fuel_links client p s = (Inr n, s\<lparr>money_flow_links := money_flow_links s @ new\<rparr>)"
    and only: "\<forall>r\<in>set new. \<exists>t\<in>set (fuel_linked client p s). \<exists>l\<in>set (fuel_links p (period_invoices client p s) t).
       r = new_link (ft_tenant_id t) client l"
    using rebuild_succeeds [of client p s] by (elim exE conjE) (rule that)
  have "\<not> fuel_linked_to POSTS LN_LEDGER_TX new (ft_id t)"
  proof
    assume "fuel_linked_to POSTS LN_LEDGER_TX new (ft_id t)"
    then obtain r where "r \<in> set new" and r: "lk_src_id (ml_spec r) = ft_id t" "lk_link_type (ml_spec r) = POSTS"
      by (auto simp: fuel_linked_to_def)
    with only obtain u l where u: "u \<in> set (fuel_linked client p s)" "l \<in> set (fuel_links p (period_invoices client p s) u)"
      "r = new_link (ft_tenant_id u) client l" by blast
    have l: "lk_src_id l = ft_id t" "lk_link_type l = POSTS" using r u(3) by (simp_all add: new_link_def)
    with u(2) have "ft_id u = ft_id t" and posted: "str_truthy (ft_ledger_transaction_id u)"
      by (auto simp: fuel_links_def fuel_link_def split: if_splits option.splits)
    moreover have "u \<in> set (fuel_transactions s)" using u(1) by (simp add: fuel_of_def)
    ultimately have "u = t" using assms(1,2) by (auto simp: distinct_map inj_on_def)
    with posted assms(3) show False by simp
  qed
  with assms(4) have "\<not> fuel_linked_to POSTS LN_LEDGER_TX (money_flow_links s @ new) (ft_id t)"
    by (auto simp: fuel_linked_to_def)
  with run show ?thesis by blast
qed

text \<open>A settled fuel transaction without a ledger posting keeps the comparison at the same recommendation:
  \<open>REBUILD_LINKS\<close> before and after any number of rebuilds, so \<open>REBUILD_POSTINGS\<close>, which is what the
  transaction needs, is not recommended.\<close>

theorem unposted_always_rebuild_links:
  assumes "distinct (map ft_id (fuel_transactions s))" and "t \<in> set (fuel_settled client p s)"
    and "\<not> str_truthy (ft_ledger_transaction_id t)"
    and "\<not> fuel_linked_to POSTS LN_LEDGER_TX (money_flow_links s) (ft_id t)"
  shows "df_recommended_action (compare_fuel_replay client p s) = ''REBUILD_LINKS'' \<and>
    df_recommended_action (compare_fuel_replay client p (snd (retried n (rebuild_fuel_links client p) s))) = ''REBUILD_LINKS''"
proof
  show "df_recommended_action (compare_fuel_replay client p s) = ''REBUILD_LINKS''"
    using assms(2,4) by (rule unposted_recommends_rebuild)
  have mem: "t \<in> set (fuel_transactions s)" using assms(2) by (simp add: fuel_of_def)
  show "df_recommended_action (compare_fuel_replay client p (snd (retried n (rebuild_fuel_links client p) s))) = ''REBUILD_LINKS''"
    using assms(1,2,4) mem
  proof (induction n arbitrary: s)
    case 0
    obtain k links where "rebuild_fuel_links client p s = (Inr k, s\<lparr>money_flow_links := links\<rparr>)"
      "\<not> fuel_linked_to POSTS LN_LEDGER_TX links (ft_id t)"
      using rebuild_never_posts [OF 0(1,4) assms(3) 0(3), of client p] by blast
    with 0 unposted_recommends_rebuild [of t client p "s\<lparr>money_flow_links := links\<rparr>"] show ?case by simp
  next
    case (Suc n)
    obtain k links where "rebuild_fuel_links client p s = (Inr k, s\<lparr>money_flow_links := links\<rparr>)"
      "\<not> fuel_linked_to POSTS LN_LEDGER_TX links (ft_id t)"
      using rebuild_never_posts [OF Suc.prems(1,4) assms(3) Suc.prems(3), of client p] by blast
    with Suc.prems Suc.IH [of "s\<lparr>money_flow_links := links\<rparr>"] show ?case by simp
  qed
qed

section \<open>A period with two transactions\<close>

definition ref_fuel :: "string \<Rightarrow> string option \<Rightarrow> fuel_transaction" where
  "ref_fuel i posting = \<lparr>ft_id = i, ft_tenant_id = 1, ft_client_id = ''client'', ft_occurred_at = 50, ft_volume_ml = 40000,
     ft_amount_total_minor = 2500, ft_currency = ''RUB'', ft_status = FUEL_SETTLED, ft_ledger_transaction_id = posting\<rparr>"

definition ref_fuel_period :: billing_period where
  "ref_fuel_period = \<lparr>bp_id = ''p-1'', bp_period_type = DAILY, bp_start_at = 0, bp_end_at = 100, bp_tz = ''UTC'',
     bp_status = OPEN, bp_finalized_at = None, bp_locked_at = None\<rparr>"

definition ref_fuel_db :: "string option \<Rightarrow> flow_db" where
  "ref_fuel_db posting = empty_flow_db\<lparr>fuel_transactions := [ref_fuel ''f-1'' (Some ''tx-1''), ref_fuel ''f-2'' posting]\<rparr>"

lemmas ref_fuel_simps = ref_fuel_db_def ref_fuel_def ref_fuel_period_def empty_flow_db_def empty_fin_db_def fin_db.defs
  fuel_of_def in_period_def period_invoices_def str_truthy_def


theorem unposted_always_rebuild_links_witness:
  "df_recommended_action (compare_fuel_replay ''client'' ref_fuel_period
     (snd (retried 3 (rebuild_fuel_links ''client'' ref_fuel_period) (ref_fuel_db None)))) = ''REBUILD_LINKS''"
  by (rule unposted_always_rebuild_links [of _ "ref_fuel ''f-2'' None", THEN conjunct2])
    (simp_all add: ref_fuel_simps fuel_linked_to_def)

end
