(* ===== verification/Query_Order.thy ===== *)
theory Query_Order
  imports Neft_Prelude
begin

text \<open>
  \<open>query.order_by(key).first()\<close>: the first row of a sorted result, and the single pass over the rows that it
  is equal to; and searches for the first row that matches.
\<close>

definition first_row :: "'r list \<Rightarrow> 'r option" where
  "first_row rows = (case rows of [] \<Rightarrow> None | r # _ \<Rightarrow> Some r)"

text \<open>The reference: one pass that keeps the earliest row with the smallest key.\<close>

fun least_row :: "('r \<Rightarrow> 'k::linorder) \<Rightarrow> 'r list \<Rightarrow> 'r option" where
  "least_row f [] = None"
| "least_row f (r # rs) = (case least_row f rs of None \<Rightarrow> Some r | Some x \<Rightarrow> if f r \<le> f x then Some r else Some x)"

lemma first_row_insort:
  "first_row (insort_key f r xs) = (case first_row xs of None \<Rightarrow> Some r | Some x \<Rightarrow> if f r \<le> f x then Some r else Some x)"
  by (cases xs) (simp_all add: first_row_def)

lemma first_row_sort: "first_row (sort_key f xs) = least_row f xs"
  by (induction xs) (simp_all add: first_row_insort, simp add: first_row_def)

lemma least_row_None [simp]: "least_row f xs = None \<longleftrightarrow> xs = []"
  by (cases xs) (auto split: option.split)

lemma least_row_Some: "least_row f xs = Some x \<Longrightarrow> x \<in> set xs \<and> (\<forall>y\<in>set xs. f x \<le> f y)"
proof (induction xs arbitrary: x)
  case (Cons r rs)
  show ?case
  proof (cases "least_row f rs")
    case None
    with Cons.prems show ?thesis by simp
  next
    case (Some y)
    with Cons.IH [OF Some] Cons.prems show ?thesis by (auto split: if_splits)
  qed
qed simp

lemma first_row_filter: "first_row (sort_key f (filter P xs)) = Some x \<Longrightarrow> x \<in> set xs \<and> P x"
  using least_row_Some [of f "filter P xs" x] by (simp add: first_row_sort)

section \<open>Searching\<close>

lemma find_SomeD: "find p xs = Some x \<Longrightarrow> x \<in> set xs \<and> p x"
  by (metis find_Some_iff nth_mem)

lemma find_snoc: "find p (xs @ [x]) = (case find p xs of Some y \<Rightarrow> Some y | None \<Rightarrow> if p x then Some x else None)"
  by (induction xs) auto

lemma le_fold_max: "x \<in> set xs \<Longrightarrow> (x :: 'a :: linorder) \<le> fold max xs a"
proof (induction xs arbitrary: a)
  case (Cons y ys)
  have "a \<le> fold max zs a" for zs and a :: 'a
    by (induction zs arbitrary: a) (auto intro: order_trans [OF max.cobounded2])
  then have "y \<le> fold max ys (max y a)" by (rule order_trans [OF max.cobounded1])
  with Cons show ?case by auto
qed simp

end
