(* ===== verification/Decision_Rules.thy ===== *)
theory Decision_Rules
  imports Py_Values Query_Order Invoice_Machine
begin

text \<open>
  The parts of the decision engine that only compute (\<open>services/decision\<close>): the context of a decision, the
  deterministic rules, the scoring rules, the default scorer, the thresholds, and the selection of a
  risk policy and its threshold set (\<open>services/risk/policy_resolver.py\<close>).
\<close>

section \<open>Vocabulary\<close>

datatype decision_action =
    PAYMENT_AUTHORIZE | PAYMENT_CAPTURE | INVOICE_ISSUE | INVOICE_ADJUST | CREDIT_NOTE_CREATE | PAYOUT_EXPORT
  | ACCOUNTING_EXPORT | DOCUMENT_FINALIZE | DOCUMENT_SEND_FOR_SIGNING | DOCUMENT_FINALIZE_WITH_SIGNATURE
  | DOCUMENT_VOID_AFTER_SIGNING

fun decision_action_value :: "decision_action \<Rightarrow> string" where
  "decision_action_value PAYMENT_AUTHORIZE = ''PAYMENT_AUTHORIZE''"
| "decision_action_value PAYMENT_CAPTURE = ''PAYMENT_CAPTURE''"
| "decision_action_value INVOICE_ISSUE = ''INVOICE_ISSUE''"
| "decision_action_value INVOICE_ADJUST = ''INVOICE_ADJUST''"
| "decision_action_value CREDIT_NOTE_CREATE = ''CREDIT_NOTE_CREATE''"
| "decision_action_value PAYOUT_EXPORT = ''PAYOUT_EXPORT''"
| "decision_action_value ACCOUNTING_EXPORT = ''ACCOUNTING_EXPORT''"
| "decision_action_value DOCUMENT_FINALIZE = ''DOCUMENT_FINALIZE''"
| "decision_action_value DOCUMENT_SEND_FOR_SIGNING = ''DOCUMENT_SEND_FOR_SIGNING''"
| "decision_action_value DOCUMENT_FINALIZE_WITH_SIGNATURE = ''DOCUMENT_FINALIZE_WITH_SIGNATURE''"
| "decision_action_value DOCUMENT_VOID_AFTER_SIGNING = ''DOCUMENT_VOID_AFTER_SIGNING''"

text \<open>An action is a member of \<open>DecisionAction\<close>, or a text or member of another enum.\<close>

datatype context_action = KnownAction decision_action | OtherAction string

fun action_value :: "context_action \<Rightarrow> string" where
  "action_value (KnownAction a) = decision_action_value a"
| "action_value (OtherAction t) = t"

datatype risk_level = RISK_LOW | RISK_MEDIUM | RISK_HIGH | RISK_VERY_HIGH

fun risk_level_value :: "risk_level \<Rightarrow> string" where
  "risk_level_value RISK_LOW = ''LOW''"
| "risk_level_value RISK_MEDIUM = ''MEDIUM''"
| "risk_level_value RISK_HIGH = ''HIGH''"
| "risk_level_value RISK_VERY_HIGH = ''VERY_HIGH''"

datatype risk_subject =
    SUBJECT_PAYMENT | SUBJECT_INVOICE | SUBJECT_PAYOUT | SUBJECT_DOCUMENT | SUBJECT_EXPORT | SUBJECT_FUEL_TRANSACTION

fun risk_subject_value :: "risk_subject \<Rightarrow> string" where
  "risk_subject_value SUBJECT_PAYMENT = ''PAYMENT''"
| "risk_subject_value SUBJECT_INVOICE = ''INVOICE''"
| "risk_subject_value SUBJECT_PAYOUT = ''PAYOUT''"
| "risk_subject_value SUBJECT_DOCUMENT = ''DOCUMENT''"
| "risk_subject_value SUBJECT_EXPORT = ''EXPORT''"
| "risk_subject_value SUBJECT_FUEL_TRANSACTION = ''FUEL_TRANSACTION''"

datatype risk_decision_type = RD_ALLOW | RD_ALLOW_WITH_REVIEW | RD_BLOCK | RD_ESCALATE

fun risk_decision_value :: "risk_decision_type \<Rightarrow> string" where
  "risk_decision_value RD_ALLOW = ''ALLOW''"
| "risk_decision_value RD_ALLOW_WITH_REVIEW = ''ALLOW_WITH_REVIEW''"
| "risk_decision_value RD_BLOCK = ''BLOCK''"
| "risk_decision_value RD_ESCALATE = ''ESCALATE''"

datatype risk_outcome = RO_ALLOW | RO_ALLOW_WITH_LOG | RO_REVIEW_REQUIRED | RO_BLOCK

fun risk_outcome_value :: "risk_outcome \<Rightarrow> string" where
  "risk_outcome_value RO_ALLOW = ''ALLOW''"
| "risk_outcome_value RO_ALLOW_WITH_LOG = ''ALLOW_WITH_LOG''"
| "risk_outcome_value RO_REVIEW_REQUIRED = ''REVIEW_REQUIRED''"
| "risk_outcome_value RO_BLOCK = ''BLOCK''"

datatype threshold_scope = SCOPE_GLOBAL | SCOPE_TENANT | SCOPE_CLIENT

section \<open>The context of a decision\<close>

record eval_context =
  ec_tenant_id :: int
  ec_client_id :: "string option"
  ec_action :: context_action
  ec_actor_type :: string
  ec_actor_id :: "string option"
  ec_amount :: "int option"
  ec_currency :: "string option"
  ec_payment_method :: "string option"
  ec_invoice_id :: "string option"
  ec_billing_period_id :: "string option"
  ec_age :: "int option"
  ec_history :: payload
  ec_metadata :: payload

definition to_payload :: "'a eval_context_scheme \<Rightarrow> payload" where
  "to_payload c =
     [(''tenant_id'', PInt (ec_tenant_id c)), (''client_id'', opt_str (ec_client_id c)),
      (''actor_type'', PStr (ec_actor_type c)), (''actor_id'', opt_str (ec_actor_id c)),
      (''action'', PStr (action_value (ec_action c))), (''amount'', opt_int (ec_amount c)),
      (''currency'', opt_str (ec_currency c)), (''payment_method'', opt_str (ec_payment_method c)),
      (''invoice_id'', opt_str (ec_invoice_id c)), (''billing_period_id'', opt_str (ec_billing_period_id c)),
      (''age'', opt_int (ec_age c)), (''history'', normalize_value (PDict (ec_history c))),
      (''metadata'', normalize_value (PDict (ec_metadata c)))]"

abbreviation meta :: "string \<Rightarrow> 'a eval_context_scheme \<Rightarrow> pyval option" where
  "meta k c \<equiv> map_of (ec_metadata c) k"

text \<open>A text in the metadata; an empty one counts as absent after \<open>or\<close>.\<close>

definition meta_text :: "string \<Rightarrow> 'a eval_context_scheme \<Rightarrow> string option" where
  "meta_text k c = (case meta k c of Some (PStr x) \<Rightarrow> Some x | _ \<Rightarrow> None)"

definition or_text :: "string option \<Rightarrow> string option \<Rightarrow> string option" where
  "or_text a b = (if str_truthy a then a else b)"

section \<open>Deterministic rules\<close>

definition DEFAULT_SINGLE_TX_LIMIT :: int where
  "DEFAULT_SINGLE_TX_LIMIT = 10000000"

definition single_transaction_limit :: "eval_context \<Rightarrow> bool result" where
  "single_transaction_limit c =
     (case ec_amount c of
        None \<Rightarrow> Inr False
      | Some amount \<Rightarrow>
          res_then (case meta ''single_transaction_limit'' c of None \<Rightarrow> Inr DEFAULT_SINGLE_TX_LIMIT | Some v \<Rightarrow> py_int v) (\<lambda>limit.
          Inr (amount > limit)))"

definition client_blocked :: "eval_context \<Rightarrow> bool result" where
  "client_blocked c =
     Inr (meta ''client_blocked'' c = Some (PBool True) \<or>
       truthy (meta ''client_status'' c) \<and>
       map upper_char (py_text (the (meta ''client_status'' c))) \<in> {''BLOCKED'', ''SUSPENDED'', ''INACTIVE''})"

definition period_not_finalized :: "eval_context \<Rightarrow> bool result" where
  "period_not_finalized c =
     Inr (ec_action c \<in> {KnownAction PAYOUT_EXPORT, KnownAction ACCOUNTING_EXPORT} \<and>
       (case meta ''billing_period_status'' c of
          None \<Rightarrow> False
        | Some v \<Rightarrow> v \<noteq> PNone \<and> map upper_char (py_text v) \<notin> {''FINALIZED'', ''LOCKED''}))"

definition document_not_finalized :: "eval_context \<Rightarrow> bool result" where
  "document_not_finalized c =
     Inr (ec_action c = KnownAction DOCUMENT_FINALIZE \<and> \<not> truthy (meta ''document_acknowledged'' c))"

definition role_based_guard :: "eval_context \<Rightarrow> bool result" where
  "role_based_guard c =
     (if \<not> truthy (meta ''required_roles'' c) then Inr False
      else
        res_then (py_iter (the (meta ''required_roles'' c))) (\<lambda>required.
        res_then (if truthy (meta ''actor_roles'' c) then py_iter (the (meta ''actor_roles'' c)) else Inr []) (\<lambda>actor.
        Inr (\<not> (\<exists>r\<in>set required. py_text r \<in> py_text ` set actor)))))"

record decision_rule =
  dr_id :: string
  dr_when :: "eval_context \<Rightarrow> bool result"
  dr_outcome :: decision_outcome
  dr_explain :: string

definition default_rules :: "decision_rule list" where
  "default_rules =
     [\<lparr>dr_id = ''MAX_SINGLE_PAYMENT'', dr_when = single_transaction_limit, dr_outcome = DECLINE,
       dr_explain = ''amount_exceeds_single_limit''\<rparr>,
      \<lparr>dr_id = ''CLIENT_BLOCKED'', dr_when = client_blocked, dr_outcome = DECLINE, dr_explain = ''client_blocked''\<rparr>,
      \<lparr>dr_id = ''PERIOD_NOT_FINALIZED'', dr_when = period_not_finalized, dr_outcome = DECLINE,
       dr_explain = ''billing_period_not_finalized''\<rparr>,
      \<lparr>dr_id = ''DOCUMENT_NOT_FINALIZED'', dr_when = document_not_finalized, dr_outcome = DECLINE,
       dr_explain = ''document_not_acknowledged''\<rparr>,
      \<lparr>dr_id = ''ROLE_BASED_GUARD'', dr_when = role_based_guard, dr_outcome = DECLINE,
       dr_explain = ''missing_required_role''\<rparr>]"

fun outcome_severity :: "decision_outcome \<Rightarrow> nat" where
  "outcome_severity DECLINE = 2"
| "outcome_severity MANUAL_REVIEW = 1"
| "outcome_severity ALLOW = 0"

definition max_outcome :: "decision_outcome option \<Rightarrow> decision_outcome \<Rightarrow> decision_outcome" where
  "max_outcome current new =
     (case current of
        None \<Rightarrow> new
      | Some c \<Rightarrow> if outcome_severity new > outcome_severity c then new else c)"

text \<open>The loop over the rules: the rules that fire, in order, or the first exception of a condition.\<close>

fun fired_rules :: "eval_context \<Rightarrow> decision_rule list \<Rightarrow> decision_rule list result" where
  "fired_rules c [] = Inr []"
| "fired_rules c (r # rs) =
     res_then (dr_when r c) (\<lambda>b. res_then (fired_rules c rs) (\<lambda>fs. Inr (if b then r # fs else fs)))"

definition rule_outcome :: "decision_rule list \<Rightarrow> decision_outcome option" where
  "rule_outcome fired = fold (\<lambda>r acc. Some (max_outcome acc (dr_outcome r))) fired None"

section \<open>Scoring rules and the default scorer\<close>

record scoring_rule =
  sr_id :: string
  sr_when :: "eval_context \<Rightarrow> bool"
  sr_then :: risk_level
  sr_explain :: string

record scored_context = eval_context +
  ec_scoring_rules :: "scoring_rule list"

definition default_scoring_rules :: "string set \<Rightarrow> scoring_rule list" where
  "default_scoring_rules blocked =
     [\<lparr>sr_id = ''MAX_SINGLE_PAYMENT_LIMIT'', sr_when = (\<lambda>c. case ec_amount c of None \<Rightarrow> False | Some a \<Rightarrow> a > 10000000),
       sr_then = RISK_HIGH, sr_explain = ''amount_exceeds_single_limit''\<rparr>,
      \<lparr>sr_id = ''CLIENT_BLOCKED'', sr_when = (\<lambda>c. case ec_client_id c of None \<Rightarrow> False | Some x \<Rightarrow> x \<in> blocked),
       sr_then = RISK_VERY_HIGH, sr_explain = ''client_is_blocked''\<rparr>,
      \<lparr>sr_id = ''CLIENT_AGE_LIMIT'', sr_when = (\<lambda>c. case ec_age c of None \<Rightarrow> False | Some a \<Rightarrow> a < 18),
       sr_then = RISK_HIGH, sr_explain = ''client_underage''\<rparr>]"

fun risk_severity :: "risk_level \<Rightarrow> nat" where
  "risk_severity RISK_LOW = 0"
| "risk_severity RISK_MEDIUM = 1"
| "risk_severity RISK_HIGH = 2"
| "risk_severity RISK_VERY_HIGH = 3"

text \<open>\<open>max(levels, key=_risk_severity)\<close>\<close>

fun highest_level :: "risk_level list \<Rightarrow> risk_level" where
  "highest_level [] = RISK_LOW"
| "highest_level [x] = x"
| "highest_level (x # y # zs) = highest_level ((if risk_severity y > risk_severity x then y else x) # zs)"

definition apply_scoring_rules :: "eval_context \<Rightarrow> scoring_rule list \<Rightarrow> risk_level \<times> string list \<times> string list" where
  "apply_scoring_rules c rules =
     (let fired = filter (\<lambda>r. sr_when r c) rules in
      if fired = [] then (RISK_LOW, [], [])
      else
        let fs = sort_key sr_id fired
        in (highest_level (map sr_then fs), map sr_explain fs, map sr_id fs))"

record risk_score =
  rs_score :: int
  rs_model_version :: "string option"
  rs_source :: string
  rs_assumptions :: "string list"
  rs_evidence :: "payload option"

definition metadata_assumptions :: "eval_context \<Rightarrow> string list" where
  "metadata_assumptions c =
     (case meta ''risk_score_assumptions'' c of
        Some (PList vs) \<Rightarrow> map py_text (filter (\<lambda>v. truthy (Some v)) vs)
      | _ \<Rightarrow> [])"

definition stub_score :: "int \<Rightarrow> eval_context \<Rightarrow> risk_score result" where
  "stub_score default_score c =
     (let keys = (''metadata_keys'', PList (map PStr (sort (map fst (ec_metadata c))))) in
      case meta ''risk_score'' c of
        Some v \<Rightarrow>
          res_then (py_int v) (\<lambda>score.
          Inr \<lparr>rs_score = score, rs_model_version = meta_text ''model_version'' c,
               rs_source = (if truthy (meta ''risk_score_source'' c) then py_text (the (meta ''risk_score_source'' c))
                            else ''context_metadata''),
               rs_assumptions = metadata_assumptions c,
               rs_evidence = Some [keys, (''score_input'', PStr ''context_metadata'')]\<rparr>)
      | None \<Rightarrow>
          Inr \<lparr>rs_score = default_score, rs_model_version = meta_text ''model_version'' c, rs_source = ''stub_default'',
               rs_assumptions = [''stub_score_default'', ''scorer_not_configured''],
               rs_evidence = Some [keys, (''compatibility_tail'', PStr ''decision_engine_default_scorer''),
                 (''default_score'', PInt default_score), (''not_ml'', PBool True)]\<rparr>)"

section \<open>Thresholds\<close>

record thresholds =
  th_block :: int
  th_review :: int
  th_allow :: int

record threshold_evaluation =
  te_outcome :: risk_outcome
  te_decision :: risk_decision_type
  te_thresholds :: thresholds

definition evaluate_against :: "int \<Rightarrow> thresholds \<Rightarrow> threshold_evaluation" where
  "evaluate_against score t =
     (let result = (\<lambda>out d. \<lparr>te_outcome = out, te_decision = d, te_thresholds = t\<rparr>) in
      if score \<ge> th_block t then result RO_BLOCK RD_BLOCK
      else if score \<ge> th_review t then result RO_REVIEW_REQUIRED RD_ALLOW_WITH_REVIEW
      else if score \<ge> th_allow t then result RO_ALLOW RD_ALLOW
      else result RO_ALLOW_WITH_LOG RD_ALLOW)"

record risk_threshold_set =
  ts_id :: string
  ts_subject_type :: risk_subject
  ts_version :: int
  ts_active :: bool
  ts_scope :: threshold_scope
  ts_block_threshold :: int
  ts_review_threshold :: int
  ts_allow_threshold :: int
  ts_currency :: "string option"
  ts_valid_from :: int
  ts_valid_to :: "int option"

definition evaluate_thresholds :: "int \<Rightarrow> risk_threshold_set \<Rightarrow> threshold_evaluation" where
  "evaluate_thresholds score ts = evaluate_against score
     \<lparr>th_block = ts_block_threshold ts, th_review = ts_review_threshold ts, th_allow = ts_allow_threshold ts\<rparr>"

definition int_default :: "string \<Rightarrow> int \<Rightarrow> payload \<Rightarrow> int result" where
  "int_default k d kvs = (case map_of kvs k of None \<Rightarrow> Inr d | Some v \<Rightarrow> py_int v)"

definition evaluate_threshold_override :: "int \<Rightarrow> pyval \<Rightarrow> threshold_evaluation result" where
  "evaluate_threshold_override score override =
     (case override of
        PDict kvs \<Rightarrow>
          res_then (int_default ''block'' 100 kvs) (\<lambda>b.
          res_then (int_default ''review'' 80 kvs) (\<lambda>r.
          res_then (int_default ''allow'' 0 kvs) (\<lambda>a.
          Inr (evaluate_against score \<lparr>th_block = b, th_review = r, th_allow = a\<rparr>))))
      | _ \<Rightarrow> Inl AttributeError)"

section \<open>Policies\<close>

record risk_policy =
  rp_id :: string
  rp_subject_type :: risk_subject
  rp_tenant_id :: "int option"
  rp_client_id :: "string option"
  rp_provider :: "string option"
  rp_currency :: "string option"
  rp_country :: "string option"
  rp_threshold_set_id :: string
  rp_model_selector :: string
  rp_priority :: int
  rp_active :: bool

record risk_threshold =
  rt_id :: string
  rt_threshold_set_id :: string
  rt_subject_type :: risk_subject
  rt_min_score :: int
  rt_max_score :: int
  rt_risk_level :: risk_level
  rt_outcome :: risk_decision_type
  rt_requires_manual_review :: bool
  rt_priority :: int
  rt_active :: bool
  rt_valid_from :: int
  rt_valid_to :: "int option"

record policy_selection =
  ps_policy :: "risk_policy option"
  ps_threshold_set :: risk_threshold_set
  ps_threshold :: "risk_threshold option"

record policy_query =
  pq_subject_type :: risk_subject
  pq_tenant_id :: "int option"
  pq_client_id :: "string option"
  pq_provider :: "string option"
  pq_currency :: "string option"
  pq_country :: "string option"

definition apply_match :: "'v option \<Rightarrow> 'v option \<Rightarrow> bool" where
  "apply_match column v \<longleftrightarrow> column = None \<or> v \<noteq> None \<and> column = v"

definition policy_matches :: "policy_query \<Rightarrow> risk_policy \<Rightarrow> bool" where
  "policy_matches q p \<longleftrightarrow> rp_active p \<and> rp_subject_type p = pq_subject_type q \<and>
     apply_match (rp_tenant_id p) (pq_tenant_id q) \<and> apply_match (rp_client_id p) (pq_client_id q) \<and>
     apply_match (rp_provider p) (pq_provider q) \<and> apply_match (rp_currency p) (pq_currency q) \<and>
     apply_match (rp_country p) (pq_country q)"

definition specificity :: "risk_policy \<Rightarrow> int" where
  "specificity p =
     of_bool (rp_tenant_id p \<noteq> None) + of_bool (str_truthy (rp_client_id p)) + of_bool (str_truthy (rp_provider p)) +
     of_bool (str_truthy (rp_currency p)) + of_bool (str_truthy (rp_country p))"

definition resolve_policy :: "policy_query \<Rightarrow> risk_policy list \<Rightarrow> risk_policy option" where
  "resolve_policy q rows = first_row (sort_key (\<lambda>p. (rp_priority p, - specificity p)) (filter (policy_matches q) rows))"

definition resolve_threshold_set :: "risk_subject \<Rightarrow> string option \<Rightarrow> risk_threshold_set list \<Rightarrow> risk_threshold_set option" where
  "resolve_threshold_set subject set_id rows =
     first_row (sort_key (\<lambda>t. - ts_version t) (filter (\<lambda>t. ts_active t \<and> ts_subject_type t = subject \<and>
       (case set_id of None \<Rightarrow> ts_scope t = SCOPE_GLOBAL | Some i \<Rightarrow> ts_id t = i)) rows))"

definition threshold_applies :: "string \<Rightarrow> risk_subject \<Rightarrow> int \<Rightarrow> int \<Rightarrow> risk_threshold \<Rightarrow> bool" where
  "threshold_applies set_id subject score now t \<longleftrightarrow>
     rt_active t \<and> rt_threshold_set_id t = set_id \<and> rt_subject_type t = subject \<and>
     rt_min_score t \<le> score \<and> score \<le> rt_max_score t \<and> rt_valid_from t \<le> now \<and>
     (case rt_valid_to t of None \<Rightarrow> True | Some e \<Rightarrow> now \<le> e)"

definition resolve_threshold ::
    "string \<Rightarrow> risk_subject \<Rightarrow> int \<Rightarrow> int \<Rightarrow> risk_threshold list \<Rightarrow> risk_threshold option" where
  "resolve_threshold set_id subject score now rows =
     first_row (sort_key rt_priority (filter (threshold_applies set_id subject score now) rows))"

end
