(* ===== verification/Decision_Engine.thy ===== *)
theory Decision_Engine
  imports Decision_Rules Legal_Graph Settlement "HOL-Library.AList"
begin

text \<open>
  The decision engine (\<open>services/decision/engine.py\<close>, \<open>explain.py\<close>, \<open>result.py\<close>, \<open>risk/training_snapshot.py\<close>): rules and
  score give a draft, a risk policy and its thresholds conclude it, and the decision is stored with
  its explanation, audit records, legal graph and training snapshot. The database is there: without
  one the engine stores nothing and finds no policy.
\<close>

section \<open>State\<close>

record decision_record =
  do_id :: string
  do_decision_id :: string
  do_decision_version :: string
  do_action :: string
  do_outcome :: decision_outcome
  do_risk_score :: int
  do_rule_hits :: "string list"
  do_model_version :: "string option"
  do_context_hash :: string
  do_explain :: payload
  do_created_at :: int

record risk_decision =
  rd_id :: string
  rd_decision_id :: string
  rd_subject_type :: risk_subject
  rd_subject_id :: string
  rd_score :: int
  rd_risk_level :: risk_level
  rd_threshold_set_id :: string
  rd_policy_id :: "string option"
  rd_outcome :: risk_decision_type
  rd_model_version :: "string option"
  rd_reasons :: "string list"
  rd_features_snapshot :: payload
  rd_decided_at :: int
  rd_decided_by_admin :: bool
  rd_audit_id :: string

record training_snapshot =
  tn_id :: string
  tn_decision_id :: string
  tn_action :: string
  tn_score :: int
  tn_outcome :: risk_outcome
  tn_model_version :: "string option"
  tn_features_hash :: string
  tn_context :: payload
  tn_policy :: "payload option"
  tn_thresholds :: payload
  tn_created_at :: int

record decision_db = fin_db +
  risk_policies :: "risk_policy list"
  risk_threshold_sets :: "risk_threshold_set list"
  risk_thresholds :: "risk_threshold list"
  decision_results :: "decision_record list"
  risk_decisions :: "risk_decision list"
  training_snapshots :: "training_snapshot list"

record engine =
  eg_rules :: "decision_rule list"
  eg_scorer :: "eval_context \<Rightarrow> risk_score result"
  eg_threshold :: int
  eg_version :: string

definition default_engine :: engine where
  "default_engine = \<lparr>eg_rules = default_rules, eg_scorer = stub_score 10, eg_threshold = 70, eg_version = ''v1''\<rparr>"

section \<open>Selecting a policy\<close>

definition resolve_policy_threshold ::
    "policy_query \<Rightarrow> int \<Rightarrow> int \<Rightarrow> 'a decision_db_scheme \<Rightarrow> policy_selection option" where
  "resolve_policy_threshold q score now s =
     (let policy = resolve_policy q (risk_policies s); subject = pq_subject_type q;
          named = resolve_threshold_set subject (map_option rp_threshold_set_id policy) (risk_threshold_sets s);
          chosen = (case named of None \<Rightarrow> resolve_threshold_set subject None (risk_threshold_sets s) | Some t \<Rightarrow> Some t)
      in map_option (\<lambda>t. \<lparr>ps_policy = policy, ps_threshold_set = t,
           ps_threshold = resolve_threshold (ts_id t) subject score now (risk_thresholds s)\<rparr>) chosen)"

definition resolve_policy_threshold_override ::
    "string \<Rightarrow> risk_subject \<Rightarrow> int \<Rightarrow> int \<Rightarrow> 'a decision_db_scheme \<Rightarrow> policy_selection option" where
  "resolve_policy_threshold_override policy_id subject score now s =
     (case List.find (\<lambda>p. rp_id p = policy_id) (risk_policies s) of
        None \<Rightarrow> None
      | Some p \<Rightarrow>
          map_option (\<lambda>t. \<lparr>ps_policy = Some p, ps_threshold_set = t,
            ps_threshold = resolve_threshold (ts_id t) subject score now (risk_thresholds s)\<rparr>)
            (resolve_threshold_set subject (Some (rp_threshold_set_id p)) (risk_threshold_sets s)))"

definition policy_query_of :: "risk_subject \<Rightarrow> 'c eval_context_scheme \<Rightarrow> policy_query" where
  "policy_query_of subject c =
     \<lparr>pq_subject_type = subject, pq_tenant_id = Some (ec_tenant_id c), pq_client_id = ec_client_id c,
      pq_provider = meta_text ''provider'' c, pq_currency = or_text (ec_currency c) (meta_text ''currency'' c),
      pq_country = meta_text ''country'' c\<rparr>"

definition select_policy ::
    "risk_subject \<Rightarrow> 'c eval_context_scheme \<Rightarrow> int \<Rightarrow> int \<Rightarrow> 'a decision_db_scheme \<Rightarrow> policy_selection option" where
  "select_policy subject c score now s =
     (if truthy (meta ''policy_override_id'' c)
      then resolve_policy_threshold_override (py_text (the (meta ''policy_override_id'' c))) subject score now s
      else resolve_policy_threshold (policy_query_of subject c) score now s)"

section \<open>Conversions\<close>

fun score_from_risk_level :: "risk_level \<Rightarrow> int" where
  "score_from_risk_level RISK_LOW = 10"
| "score_from_risk_level RISK_MEDIUM = 40"
| "score_from_risk_level RISK_HIGH = 80"
| "score_from_risk_level RISK_VERY_HIGH = 95"

definition risk_level_from_score :: "int \<Rightarrow> risk_level" where
  "risk_level_from_score score =
     (if score \<le> 30 then RISK_LOW else if score \<le> 60 then RISK_MEDIUM else if score \<le> 80 then RISK_HIGH else RISK_VERY_HIGH)"

definition decision_from_threshold :: "risk_threshold \<Rightarrow> risk_decision_type" where
  "decision_from_threshold t =
     (if rt_outcome t = RD_ALLOW \<and> rt_requires_manual_review t then RD_ALLOW_WITH_REVIEW else rt_outcome t)"

fun outcome_from_decision :: "risk_decision_type \<Rightarrow> decision_outcome" where
  "outcome_from_decision RD_BLOCK = DECLINE"
| "outcome_from_decision RD_ESCALATE = MANUAL_REVIEW"
| "outcome_from_decision _ = ALLOW"

fun outcome_from_risk_outcome :: "risk_outcome \<Rightarrow> decision_outcome" where
  "outcome_from_risk_outcome RO_BLOCK = DECLINE"
| "outcome_from_risk_outcome RO_REVIEW_REQUIRED = MANUAL_REVIEW"
| "outcome_from_risk_outcome _ = ALLOW"

definition risk_outcome_from_decision :: "risk_decision_type \<Rightarrow> decision_outcome \<Rightarrow> risk_outcome" where
  "risk_outcome_from_decision d oc =
     (if d = RD_BLOCK then RO_BLOCK
      else if d \<in> {RD_ALLOW_WITH_REVIEW, RD_ESCALATE} then RO_REVIEW_REQUIRED
      else if oc = MANUAL_REVIEW then RO_REVIEW_REQUIRED else RO_ALLOW)"

definition top_reasons_of :: "string list \<Rightarrow> string list \<Rightarrow> string list" where
  "top_reasons_of reason_codes matched = (if reason_codes \<noteq> [] then take 3 reason_codes else take 3 matched)"

definition explain_factors :: "string list \<Rightarrow> string list \<Rightarrow> (string \<times> string) list \<Rightarrow> string list" where
  "explain_factors reason_codes matched explanations =
     (if reason_codes \<noteq> [] then take 3 reason_codes
      else if explanations \<noteq> [] then
        let ordered = List.map_filter (\<lambda>r. map_of explanations r) matched
        in (if take 3 ordered \<noteq> [] then take 3 ordered else take 3 matched)
      else take 3 matched)"

definition subject_from_action :: "context_action \<Rightarrow> risk_subject option" where
  "subject_from_action a =
     (let n = map upper_char (action_value a) in
      if occurs_in ''PAYMENT'' n then Some SUBJECT_PAYMENT
      else if occurs_in ''INVOICE'' n \<or> occurs_in ''CREDIT_NOTE'' n then Some SUBJECT_INVOICE
      else if occurs_in ''PAYOUT'' n then Some SUBJECT_PAYOUT
      else if occurs_in ''DOCUMENT'' n then Some SUBJECT_DOCUMENT
      else if occurs_in ''EXPORT'' n then Some SUBJECT_EXPORT
      else None)"

definition subject_id_from_context :: "'c eval_context_scheme \<Rightarrow> string" where
  "subject_id_from_context c =
     (let id = foldr or_text [meta_text ''subject_id'' c, meta_text ''operation_id'' c, meta_text ''invoice_id'' c,
        ec_invoice_id c, ec_billing_period_id c, ec_client_id c] None
      in if str_truthy id then the id else ''unknown'')"

section \<open>The draft\<close>

record draft =
  dt_outcome :: decision_outcome
  dt_score :: "int option"
  dt_level :: "risk_level option"
  dt_reasons :: "string list"
  dt_matched :: "string list"
  dt_explanations :: "(string \<times> string) list"
  dt_scoring_rule_ids :: "string list"
  dt_model_version :: "string option"
  dt_source :: string
  dt_assumptions :: "string list"
  dt_evidence :: "payload option"
  dt_hard_decline :: bool
  dt_context_blocked :: bool

definition missing_reasons :: "'c eval_context_scheme \<Rightarrow> string list" where
  "missing_reasons c =
     (if ec_amount c = None then [''missing_amount''] else []) @
     (if ec_client_id c = None then [''missing_client_id''] else []) @
     (if subject_from_action (ec_action c) = None then [''unknown_action''] else [])"

definition blocked_draft :: "'c eval_context_scheme \<Rightarrow> draft" where
  "blocked_draft c =
     \<lparr>dt_outcome = DECLINE, dt_score = Some 100, dt_level = Some RISK_VERY_HIGH, dt_reasons = missing_reasons c,
      dt_matched = [], dt_explanations = [], dt_scoring_rule_ids = [], dt_model_version = None,
      dt_source = ''context_validation'', dt_assumptions = missing_reasons c, dt_evidence = None,
      dt_hard_decline = False, dt_context_blocked = True\<rparr>"

definition dict_from :: "(string \<times> string) list \<Rightarrow> (string \<times> string) list \<Rightarrow> (string \<times> string) list" where
  "dict_from kvs d = fold (\<lambda>(k, v) acc. AList.update k v acc) kvs d"

definition rules_draft :: "decision_rule list \<Rightarrow> decision_outcome \<Rightarrow> draft" where
  "rules_draft fired oc =
     \<lparr>dt_outcome = oc, dt_score = None, dt_level = None, dt_reasons = [], dt_matched = map dr_id fired,
      dt_explanations = dict_from (map (\<lambda>r. (dr_id r, dr_explain r)) fired) [], dt_scoring_rule_ids = [],
      dt_model_version = None, dt_source = ''not_scored'', dt_assumptions = [], dt_evidence = None,
      dt_hard_decline = (oc = DECLINE), dt_context_blocked = False\<rparr>"

definition scoring_rules_draft :: "scored_context \<Rightarrow> draft \<Rightarrow> draft" where
  "scoring_rules_draft c d =
     (let (level, codes, ids) = apply_scoring_rules (eval_context.truncate c) (ec_scoring_rules c);
          severe = level \<in> {RISK_HIGH, RISK_VERY_HIGH}
      in d\<lparr>dt_outcome := (if severe then DECLINE else ALLOW), dt_level := Some level, dt_reasons := codes,
           dt_matched := dt_matched d @ ids, dt_explanations := dict_from (zip ids codes) (dt_explanations d),
           dt_scoring_rule_ids := ids, dt_source := ''scoring_rules'',
           dt_evidence := Some [(''rule_ids'', PList (map PStr ids))], dt_hard_decline := severe\<rparr>)"

definition scorer_draft :: "engine \<Rightarrow> risk_score \<Rightarrow> draft \<Rightarrow> draft" where
  "scorer_draft eg r d =
     d\<lparr>dt_outcome := (if rs_score r > eg_threshold eg then MANUAL_REVIEW else ALLOW), dt_score := Some (rs_score r),
       dt_model_version := rs_model_version r, dt_source := rs_source r, dt_assumptions := rs_assumptions r,
       dt_evidence := rs_evidence r\<rparr>"

definition make_draft :: "engine \<Rightarrow> scored_context \<Rightarrow> draft result" where
  "make_draft eg c =
     (if missing_reasons c \<noteq> [] then Inr (blocked_draft c)
      else
        res_then (fired_rules (eval_context.truncate c) (eg_rules eg)) (\<lambda>fired.
        case rule_outcome fired of
          Some DECLINE \<Rightarrow> Inr (rules_draft fired DECLINE)
        | Some MANUAL_REVIEW \<Rightarrow> Inr (rules_draft fired MANUAL_REVIEW)
        | _ \<Rightarrow>
            if ec_scoring_rules c \<noteq> [] then Inr (scoring_rules_draft c (rules_draft fired ALLOW))
            else res_then (eg_scorer eg (eval_context.truncate c)) (\<lambda>r. Inr (scorer_draft eg r (rules_draft fired ALLOW)))))"

definition draft_score :: "draft \<Rightarrow> int" where
  "draft_score d =
     (case dt_level d of
        Some l \<Rightarrow> score_from_risk_level l
      | None \<Rightarrow> (case dt_score d of Some x \<Rightarrow> x | None \<Rightarrow> if dt_hard_decline d then 100 else 0))"

section \<open>The conclusion\<close>

record conclusion =
  cc_outcome :: decision_outcome
  cc_level :: risk_level
  cc_decision :: risk_decision_type
  cc_risk_outcome :: risk_outcome
  cc_threshold_set_id :: string
  cc_policy_id :: "string option"
  cc_thresholds :: "thresholds option"
  cc_reasons :: "string list"
  cc_top_reasons :: "string list option"
  cc_policy_payload :: "payload option"
  cc_decision_payload :: payload

definition reasons_payload :: "string list option \<Rightarrow> pyval" where
  "reasons_payload rs =
     (case rs of
        None \<Rightarrow> PNone
      | Some xs \<Rightarrow> PList (map (\<lambda>x. PDict [(''feature'', PStr x), (''impact'', PNone)]) xs))"

definition decision_payload ::
    "risk_decision_type \<Rightarrow> risk_level option \<Rightarrow> int \<Rightarrow> string option \<Rightarrow> string option \<Rightarrow> payload" where
  "decision_payload d level score policy_id model =
     [(''decision'', PStr (risk_decision_value d)),
      (''risk_level'', opt_str (map_option risk_level_value level)), (''score'', PInt score),
      (''policy'', opt_str policy_id), (''model'', opt_str model)]"

definition zero_thresholds :: thresholds where
  "zero_thresholds = \<lparr>th_block = 0, th_review = 0, th_allow = 0\<rparr>"

definition blocking_conclusion ::
    "draft \<Rightarrow> int \<Rightarrow> risk_level \<Rightarrow> string \<Rightarrow> string list \<Rightarrow> string list option \<Rightarrow> payload \<Rightarrow> conclusion" where
  "blocking_conclusion d score level set_id reasons tops extra =
     \<lparr>cc_outcome = DECLINE, cc_level = level, cc_decision = RD_BLOCK, cc_risk_outcome = RO_BLOCK,
      cc_threshold_set_id = set_id, cc_policy_id = None, cc_thresholds = Some zero_thresholds, cc_reasons = reasons,
      cc_top_reasons = tops, cc_policy_payload = None,
      cc_decision_payload = decision_payload RD_BLOCK (Some level) score None (dt_model_version d) @
        [(''top_reasons'', reasons_payload tops)] @ extra\<rparr>"

text \<open>What a selected policy says: the thresholds of its set, or the row of its table that covers the score.\<close>

definition judge :: "scored_context \<Rightarrow> draft \<Rightarrow> int \<Rightarrow> policy_selection \<Rightarrow>
    (decision_outcome \<times> risk_level \<times> risk_decision_type \<times> risk_outcome \<times> thresholds option) result" where
  "judge c d score sel =
     (case ps_threshold sel of
        None \<Rightarrow>
          res_then (if truthy (meta ''thresholds_override'' c)
            then evaluate_threshold_override score (the (meta ''thresholds_override'' c))
            else Inr (evaluate_thresholds score (ps_threshold_set sel))) (\<lambda>e.
          Inr (max_outcome (Some (dt_outcome d)) (outcome_from_risk_outcome (te_outcome e)), risk_level_from_score score,
               te_decision e, te_outcome e, Some (te_thresholds e)))
      | Some t \<Rightarrow>
          let dec = decision_from_threshold t; oc = max_outcome (Some (dt_outcome d)) (outcome_from_decision dec)
          in Inr (oc, rt_risk_level t, dec, risk_outcome_from_decision dec oc, None))"

definition policy_conclusion :: "scored_context \<Rightarrow> draft \<Rightarrow> int \<Rightarrow> policy_selection \<Rightarrow> conclusion result" where
  "policy_conclusion c d score sel =
     res_then (judge c d score sel) (\<lambda>(oc, level, dec, ro, thr).
     let policy_id = map_option rp_id (ps_policy sel); set_id = ts_id (ps_threshold_set sel);
         tops = (if dec \<in> {RD_BLOCK, RD_ESCALATE} then Some (top_reasons_of (dt_reasons d) (dt_matched d)) else None)
     in Inr \<lparr>cc_outcome = oc, cc_level = level, cc_decision = dec, cc_risk_outcome = ro, cc_threshold_set_id = set_id,
             cc_policy_id = policy_id, cc_thresholds = thr, cc_reasons = dt_reasons d, cc_top_reasons = tops,
             cc_policy_payload = Some [(''policy_id'', opt_str policy_id),
               (''threshold_id'', opt_str (map_option rt_id (ps_threshold sel))), (''threshold_set_id'', PStr set_id)],
             cc_decision_payload = decision_payload dec (Some level) score policy_id (dt_model_version d) @
               (case tops of None \<Rightarrow> [] | Some _ \<Rightarrow> [(''top_reasons'', reasons_payload tops)])\<rparr>)"

text \<open>
  The reasons of an incomplete context are lost on the way: the variable is reset before the payload is
  built. A context without subject is incomplete, so the branch for older callers is never taken.
\<close>

definition conclude :: "scored_context \<Rightarrow> draft \<Rightarrow> int \<Rightarrow> policy_selection option \<Rightarrow> conclusion result" where
  "conclude c d score sel =
     (if dt_context_blocked d then
        Inr (blocking_conclusion d score RISK_VERY_HIGH ''context_validation'' (dt_reasons d) None [])
      else if dt_hard_decline d then
        Inr (blocking_conclusion d score (case dt_level d of None \<Rightarrow> RISK_VERY_HIGH | Some l \<Rightarrow> l) ''hard_rules'' (dt_reasons d)
          (Some (top_reasons_of (dt_reasons d) (dt_matched d))) [])
      else case sel of
        None \<Rightarrow>
          Inr (blocking_conclusion d score (case dt_level d of None \<Rightarrow> RISK_VERY_HIGH | Some l \<Rightarrow> l) ''missing_thresholds''
            [''missing_threshold_set''] (Some [''missing_threshold_set'']) [(''reason'', PStr ''missing_threshold_set'')])
      | Some p \<Rightarrow> policy_conclusion c d score p)"

section \<open>The explanation\<close>

definition thresholds_payload :: "thresholds \<Rightarrow> pyval" where
  "thresholds_payload t = PDict [(''block'', PInt (th_block t)), (''review'', PInt (th_review t)), (''allow'', PInt (th_allow t))]"

definition hash_dict :: "world \<Rightarrow> payload \<Rightarrow> string" where
  "hash_dict w p = sha256_hex w (dumps (PDict p))"

definition strs :: "string list \<Rightarrow> pyval" where
  "strs xs = PList (map PStr xs)"

record explain_call =
  xp_thresholds :: thresholds
  xp_score :: int
  xp_decision :: string
  xp_model_name :: "string option"
  xp_factors :: "string list"
  xp_evaluated_at :: int
  xp_context_hash :: string

definition scoring_trace :: "explain_call \<Rightarrow> draft \<Rightarrow> conclusion \<Rightarrow> payload" where
  "scoring_trace x d k =
     [(''source'', PStr (dt_source d)), (''score'', PInt (xp_score x)), (''context_hash'', PStr (xp_context_hash x)),
      (''thresholds'', thresholds_payload (xp_thresholds x)), (''decision'', PStr (xp_decision x)),
      (''model'', PDict [(''name'', opt_str (xp_model_name x)), (''version'', opt_str (dt_model_version d))]),
      (''assumptions'', strs (dt_assumptions d)), (''evidence'', PDict (case dt_evidence d of None \<Rightarrow> [] | Some e \<Rightarrow> e)),
      (''policy'', opt_dict (cc_policy_payload k)), (''decision_details'', PDict (cc_decision_payload k))]"

definition decision_hash :: "world \<Rightarrow> explain_call \<Rightarrow> draft \<Rightarrow> conclusion \<Rightarrow> string" where
  "decision_hash w x d k = hash_dict w
     [(''decision'', PStr (xp_decision x)), (''score'', PInt (xp_score x)), (''context_hash'', PStr (xp_context_hash x)),
      (''thresholds'', thresholds_payload (xp_thresholds x)), (''policy'', opt_str (cc_policy_id k)),
      (''factors'', strs (if xp_factors x = [] then [''no_factors''] else xp_factors x)),
      (''assumptions'', strs (dt_assumptions d)),
      (''model'', PDict [(''name'', opt_str (xp_model_name x)), (''version'', opt_str (dt_model_version d))]),
      (''scoring'', PDict [(''source'', PStr (dt_source d)),
        (''evidence'', PDict (case dt_evidence d of None \<Rightarrow> [] | Some e \<Rightarrow> e))]),
      (''policy_details'', opt_dict (cc_policy_payload k)), (''decision_details'', PDict (cc_decision_payload k))]"

definition build_explain :: "world \<Rightarrow> payload \<Rightarrow> explain_call \<Rightarrow> draft \<Rightarrow> conclusion \<Rightarrow> payload" where
  "build_explain w inputs x d k =
     (let trace = scoring_trace x d k; trace_hash = hash_dict w trace;
          model = PDict [(''name'', opt_str (xp_model_name x)), (''version'', opt_str (dt_model_version d))];
          evidence = PDict (case dt_evidence d of None \<Rightarrow> [] | Some e \<Rightarrow> e)
      in [(''decision'', PStr (xp_decision x)), (''score'', PInt (xp_score x)), (''context_hash'', PStr (xp_context_hash x)),
          (''scoring_trace_hash'', PStr trace_hash), (''thresholds'', thresholds_payload (xp_thresholds x)),
          (''policy'', opt_str (cc_policy_id k)), (''policy_id'', opt_str (cc_policy_id k)),
          (''factors'', strs (if xp_factors x = [] then [''no_factors''] else xp_factors x)),
          (''assumptions'', strs (dt_assumptions d)), (''model'', model),
          (''pipeline'', PDict [(''input'', PStr ''decision_context''), (''rules'', PStr ''deterministic_rules''),
             (''score_source'', PStr (dt_source d)), (''scoring_trace_hash'', PStr trace_hash),
             (''explain'', PStr ''decision_explain_v1''), (''audit'', PStr ''risk_decision_audit'')]),
          (''matched_rules'', strs (dt_matched d)),
          (''rule_explanations'', PDict (map (\<lambda>(i, e). (i, PStr e)) (dt_explanations d))), (''inputs'', PDict inputs),
          (''scoring'', PDict [(''score'', PInt (xp_score x)), (''model_version'', opt_str (dt_model_version d)),
             (''source'', PStr (dt_source d)), (''assumptions'', strs (dt_assumptions d)), (''evidence'', evidence),
             (''trace'', PDict trace), (''trace_hash'', PStr trace_hash)]),
          (''policy_details'', opt_dict (cc_policy_payload k)), (''decision_details'', PDict (cc_decision_payload k)),
          (''top_reasons'', case cc_top_reasons k of None \<Rightarrow> PList [] | Some _ \<Rightarrow> reasons_payload (cc_top_reasons k)),
          (''record_refs'', PDict []), (''audit'', PDict []), (''graph'', PDict []),
          (''timestamps'', PDict [(''evaluated_at'', PStr (isoformat (xp_evaluated_at x)))]),
          (''decision_hash'', PStr (decision_hash w x d k))] @
         (if cc_reasons k = [] then []
          else [(''reason_codes'', strs (cc_reasons k)), (''rules_fired'', strs (dt_scoring_rule_ids d))]))"

definition attach_persistence_linkage :: "payload \<Rightarrow> payload \<Rightarrow> payload \<Rightarrow> payload \<Rightarrow> payload" where
  "attach_persistence_linkage explain record_refs audit_refs graph =
     AList.update ''graph'' (PDict graph) (AList.update ''audit'' (PDict audit_refs)
       (AList.update ''record_refs'' (PDict record_refs) explain))"

section \<open>Audit, graph and training snapshot\<close>

definition normalize_actor_roles :: "pyval option \<Rightarrow> string list option" where
  "normalize_actor_roles v =
     (let listed = (\<lambda>xs. let rs = sort (filter (\<lambda>x. strip x \<noteq> []) xs) in if rs = [] then None else Some rs) in
      case v of
        None \<Rightarrow> None
      | Some PNone \<Rightarrow> None
      | Some (PStr x) \<Rightarrow> (if strip x = [] then None else Some [strip x])
      | Some (PEnum x) \<Rightarrow> (if strip x = [] then None else Some [strip x])
      | Some x \<Rightarrow> (case py_iter x of Inl _ \<Rightarrow> Some [py_text x] | Inr vs \<Rightarrow> listed (map py_text vs)))"

definition decision_request_ctx :: "'c eval_context_scheme \<Rightarrow> request_context" where
  "decision_request_ctx c =
     \<lparr>rc_actor_type = (if ec_actor_type c \<in> {''CLIENT'', ''ADMIN''} then USER else SYSTEM),
      rc_actor_id = or_text (meta_text ''actor_id'' c) (ec_client_id c), rc_actor_email = meta_text ''actor_email'' c,
      rc_actor_roles = normalize_actor_roles (meta ''actor_roles'' c), rc_ip = None, rc_user_agent = None,
      rc_request_id = None, rc_trace_id = None, rc_tenant_id = Some (ec_tenant_id c)\<rparr>"

definition audit_evaluation ::
    "world \<Rightarrow> request_context \<Rightarrow> string \<Rightarrow> string \<Rightarrow> string \<Rightarrow> payload \<Rightarrow> ('a audit_db_scheme, audit_record) act" where
  "audit_evaluation w rc event_type entity_type entity_id after =
     audit w
       \<lparr>ev_event_type = event_type, ev_entity_type = entity_type, ev_entity_id = entity_id, ev_action = ''EVALUATE'',
        ev_visibility = INTERNAL, ev_before = None, ev_after = Some after, ev_diff = None, ev_external_refs = None,
        ev_reason = None, ev_attachment_key = None\<rparr> (Some rc)"

fun decision_event :: "decision_outcome \<Rightarrow> string" where
  "decision_event ALLOW = ''DECISION_MADE''"
| "decision_event DECLINE = ''DECISION_DECLINED''"
| "decision_event MANUAL_REVIEW = ''DECISION_MANUAL_REVIEW''"

definition audit_decision ::
    "world \<Rightarrow> 'c eval_context_scheme \<Rightarrow> string \<Rightarrow> decision_outcome \<Rightarrow> int \<Rightarrow> string list \<Rightarrow> string option \<Rightarrow> string \<Rightarrow> string \<Rightarrow>
     ('a audit_db_scheme, audit_record) act" where
  "audit_decision w c decision_id oc score hits model dhash thash =
     audit_evaluation w (decision_request_ctx c) (decision_event oc) ''decision'' decision_id
       [(''decision_id'', PStr decision_id), (''action'', PStr (action_value (ec_action c))),
        (''outcome'', PStr (decision_outcome_value oc)), (''score'', PInt score), (''rules'', strs hits),
        (''model_version'', opt_str model), (''decision_hash'', PStr dhash), (''scoring_trace_hash'', PStr thash)]"

definition risk_decision_event :: "risk_decision_type \<Rightarrow> string" where
  "risk_decision_event d =
     (if d = RD_BLOCK then ''RISK_DECISION_BLOCKED'' else if d = RD_ESCALATE then ''RISK_DECISION_ESCALATED''
      else ''RISK_DECISION_MADE'')"

definition audit_risk_decision ::
    "world \<Rightarrow> 'c eval_context_scheme \<Rightarrow> string \<Rightarrow> risk_decision \<Rightarrow> string \<Rightarrow> string \<Rightarrow> ('a audit_db_scheme, audit_record) act" where
  "audit_risk_decision w c decision_id r dhash thash =
     audit_evaluation w (decision_request_ctx c) (risk_decision_event (rd_outcome r)) ''risk_decision'' (rd_id r)
       [(''decision_id'', PStr decision_id), (''subject_type'', PStr (risk_subject_value (rd_subject_type r))),
        (''subject_id'', PStr (rd_subject_id r)), (''score'', PInt (rd_score r)),
        (''risk_level'', PStr (risk_level_value (rd_risk_level r))), (''outcome'', PStr (risk_decision_value (rd_outcome r))),
        (''threshold_set_id'', PStr (rd_threshold_set_id r)), (''policy_id'', opt_str (rd_policy_id r)),
        (''model_version'', opt_str (rd_model_version r)), (''decision_hash'', PStr dhash), (''scoring_trace_hash'', PStr thash)]"

fun graph_target :: "risk_subject \<Rightarrow> legal_node_type option" where
  "graph_target SUBJECT_DOCUMENT = Some NODE_DOCUMENT"
| "graph_target SUBJECT_INVOICE = Some NODE_INVOICE"
| "graph_target SUBJECT_PAYMENT = Some NODE_PAYMENT"
| "graph_target SUBJECT_EXPORT = Some NODE_ACCOUNTING_EXPORT_BATCH"
| "graph_target _ = None"

definition ensure_risk_decision_graph ::
    "world \<Rightarrow> int \<Rightarrow> request_context option \<Rightarrow> risk_decision \<Rightarrow> ('a fin_db_scheme, payload) act" where
  "ensure_risk_decision_graph w tenant rc r =
     and_then (get_or_create_node w rc tenant NODE_RISK_DECISION (rd_id r) (Some ''risk_decisions'') None) (\<lambda>dn.
     case graph_target (rd_subject_type r) of
       None \<Rightarrow>
         ret [(''status'', PStr ''unsupported_subject''), (''risk_decision_node_id'', PStr (nd_id dn)),
              (''subject_type'', PStr (risk_subject_value (rd_subject_type r))), (''subject_id'', PStr (rd_subject_id r))]
     | Some target \<Rightarrow>
         and_then (get_or_create_node w rc tenant target (rd_subject_id r) None None) (\<lambda>tn.
         and_then (link_edge w rc tenant (nd_id tn) (nd_id dn) EDGE_GATED_BY_RISK
           (Some [(''outcome'', PStr (risk_decision_value (rd_outcome r))), (''score'', PInt (rd_score r)),
                  (''policy_id'', opt_str (rd_policy_id r)), (''threshold_set_id'', PStr (rd_threshold_set_id r))])) (\<lambda>e.
         ret [(''status'', PStr ''written''), (''risk_decision_node_id'', PStr (nd_id dn)), (''target_node_id'', PStr (nd_id tn)),
              (''edge_id'', PStr (ed_id e)), (''edge_type'', PStr (legal_edge_type_value EDGE_GATED_BY_RISK)),
              (''target_type'', PStr (legal_node_type_value target)), (''target_ref_id'', PStr (rd_subject_id r))])))"

text \<open>\<open>str(exc)\<close> is a parameter.\<close>

definition risk_graph ::
    "world \<Rightarrow> (py_exc \<Rightarrow> string) \<Rightarrow> 'c eval_context_scheme \<Rightarrow> risk_decision \<Rightarrow> ('a fin_db_scheme, payload) act" where
  "risk_graph w error_text c r =
     (let rc = Some (system_context\<lparr>rc_actor_id := ec_actor_id c\<rparr>) in
      catching (\<lambda>_. True) (ensure_risk_decision_graph w (ec_tenant_id c) rc r) (\<lambda>e.
        and_then (audit_graph_write_failure w rc ''risk_decision'' (rd_id r) (error_text e)) (\<lambda>_.
        ret [(''status'', PStr ''failed''), (''error'', PStr (error_text e))])))"

definition policy_payload :: "risk_policy \<Rightarrow> payload" where
  "policy_payload p = [(''id'', PStr (rp_id p)), (''model_selector'', PStr (rp_model_selector p)),
     (''threshold_set_id'', PStr (rp_threshold_set_id p))]"

definition threshold_set_payload :: "risk_threshold_set option \<Rightarrow> payload" where
  "threshold_set_payload ts =
     (case ts of
        None \<Rightarrow> [(''block'', PNone), (''review'', PNone), (''allow'', PNone)]
      | Some t \<Rightarrow>
          [(''id'', PStr (ts_id t)), (''block'', PInt (ts_block_threshold t)), (''review'', PInt (ts_review_threshold t)),
           (''allow'', PInt (ts_allow_threshold t)), (''currency'', opt_str (ts_currency t)),
           (''valid_from'', PStr (isoformat (ts_valid_from t))),
           (''valid_to'', opt_str (map_option isoformat (ts_valid_to t)))])"

definition capture_training_snapshot ::
    "world \<Rightarrow> 'c eval_context_scheme \<Rightarrow> string \<Rightarrow> int \<Rightarrow> risk_outcome \<Rightarrow> string option \<Rightarrow> policy_selection option \<Rightarrow> int \<Rightarrow>
     ('a decision_db_scheme, unit) act" where
  "capture_training_snapshot w c decision_id score oc model sel now =
     and_then (new_uuid_str w) (\<lambda>i.
     let p = to_payload c; action = action_value (ec_action c);
         r = \<lparr>tn_id = i, tn_decision_id = decision_id, tn_action = (if action = [] then ''UNKNOWN'' else action),
              tn_score = score, tn_outcome = oc, tn_model_version = model, tn_features_hash = hash_dict w p, tn_context = p,
              tn_policy = map_option policy_payload (Option.bind sel ps_policy),
              tn_thresholds = threshold_set_payload (map_option ps_threshold_set sel), tn_created_at = now\<rparr>
     in update_state (\<lambda>s. s\<lparr>training_snapshots := training_snapshots s @ [r]\<rparr>))"

section \<open>Evaluation\<close>

record decision_result =
  dx_decision_id :: string
  dx_decision_version :: string
  dx_outcome :: decision_outcome
  dx_risk_score :: int
  dx_risk_level :: risk_level
  dx_rule_hits :: "string list"
  dx_model_version :: "string option"
  dx_explain :: payload
  dx_risk_decision :: risk_decision_type
  dx_threshold_set_id :: string
  dx_policy_id :: "string option"

definition model_name_of :: "'c eval_context_scheme \<Rightarrow> policy_selection option \<Rightarrow> string option" where
  "model_name_of c sel = or_text (map_option rp_model_selector (Option.bind sel ps_policy)) (meta_text ''model_name'' c)"

definition explain_of :: "world \<Rightarrow> engine \<Rightarrow> scored_context \<Rightarrow> draft \<Rightarrow> policy_selection option \<Rightarrow> conclusion \<Rightarrow> int \<Rightarrow> explain_call" where
  "explain_of w eg c d sel k now =
     \<lparr>xp_thresholds = (case cc_thresholds k of
        Some t \<Rightarrow> t | None \<Rightarrow> \<lparr>th_block = eg_threshold eg, th_review = eg_threshold eg, th_allow = 0\<rparr>),
      xp_score = draft_score d, xp_decision = risk_outcome_value (cc_risk_outcome k), xp_model_name = model_name_of c sel,
      xp_factors = explain_factors (cc_reasons k) (dt_matched d) (dt_explanations d), xp_evaluated_at = now,
      xp_context_hash = hash_dict w (to_payload c)\<rparr>"

definition new_risk_decision ::
    "world \<Rightarrow> scored_context \<Rightarrow> draft \<Rightarrow> conclusion \<Rightarrow> explain_call \<Rightarrow> risk_subject \<Rightarrow> string \<Rightarrow> string \<Rightarrow> string \<Rightarrow> audit_record \<Rightarrow>
     payload \<Rightarrow> payload \<Rightarrow> risk_decision" where
  "new_risk_decision w c d k x subject decision_id result_id i ar audit_refs graph =
     \<lparr>rd_id = i, rd_decision_id = decision_id, rd_subject_type = subject, rd_subject_id = subject_id_from_context c,
      rd_score = draft_score d, rd_risk_level = cc_level k, rd_threshold_set_id = cc_threshold_set_id k,
      rd_policy_id = cc_policy_id k, rd_outcome = cc_decision k, rd_model_version = dt_model_version d,
      rd_reasons = (case cc_top_reasons k of
          Some (r # rs) \<Rightarrow> r # rs | _ \<Rightarrow> top_reasons_of (cc_reasons k) (dt_matched d)),
      rd_features_snapshot = to_payload c @
        [(''decision_id'', PStr decision_id), (''context_hash'', PStr (xp_context_hash x)),
         (''decision_hash'', PStr (decision_hash w x d k)), (''scoring_trace_hash'', PStr (hash_dict w (scoring_trace x d k))),
         (''scoring_source'', PStr (dt_source d)), (''scoring_assumptions'', strs (dt_assumptions d)),
         (''record_refs'', PDict [(''decision_result_id'', PStr result_id), (''risk_decision_id'', PStr i)]),
         (''audit'', PDict audit_refs), (''graph'', PDict graph)],
      rd_decided_at = xp_evaluated_at x, rd_decided_by_admin = (ec_actor_type c = ''ADMIN''), rd_audit_id = al_id ar\<rparr>"

definition store_risk_decision ::
    "world \<Rightarrow> (py_exc \<Rightarrow> string) \<Rightarrow> scored_context \<Rightarrow> draft \<Rightarrow> policy_selection option \<Rightarrow> conclusion \<Rightarrow> explain_call \<Rightarrow>
     risk_subject \<Rightarrow> decision_record \<Rightarrow> audit_record \<Rightarrow> ('a decision_db_scheme, unit) act" where
  "store_risk_decision w error_text c d sel k x subject row ar =
     and_then (new_uuid_str w) (\<lambda>i.
     let new = new_risk_decision w c d k x subject (do_decision_id row) (do_id row) i ar;
         refs = [(''decision_audit_id'', PStr (al_id ar)), (''decision_audit_hash'', PStr (al_hash ar))];
         dhash = decision_hash w x d k; thash = hash_dict w (scoring_trace x d k)
     in and_then (risk_graph w error_text c (new refs [(''status'', PStr ''not_attempted'')])) (\<lambda>graph.
        and_then (audit_risk_decision w c (do_decision_id row) (new refs graph) dhash thash) (\<lambda>rar.
        let all_refs = refs @ [(''risk_decision_audit_id'', PStr (al_id rar)), (''risk_decision_audit_hash'', PStr (al_hash rar))];
            record_refs = [(''decision_result_id'', PStr (do_id row)), (''risk_decision_id'', PStr i)]
        in and_then (update_state (\<lambda>s. s\<lparr>risk_decisions := risk_decisions s @ [new all_refs graph]\<rparr>)) (\<lambda>_.
           and_then (update_state (\<lambda>s. s\<lparr>decision_results := store_row do_id
             (row\<lparr>do_explain := attach_persistence_linkage (do_explain row) record_refs all_refs graph\<rparr>) (decision_results s)\<rparr>)) (\<lambda>_.
           capture_training_snapshot w c (do_decision_id row) (draft_score d) (cc_risk_outcome k) (dt_model_version d) sel
             (xp_evaluated_at x))))))"

definition new_decision_record ::
    "engine \<Rightarrow> scored_context \<Rightarrow> draft \<Rightarrow> conclusion \<Rightarrow> explain_call \<Rightarrow> payload \<Rightarrow> string \<Rightarrow> string \<Rightarrow> decision_record" where
  "new_decision_record eg c d k x explain decision_id i =
     \<lparr>do_id = i, do_decision_id = decision_id, do_decision_version = eg_version eg, do_action = action_value (ec_action c),
      do_outcome = cc_outcome k, do_risk_score = draft_score d, do_rule_hits = dt_matched d,
      do_model_version = dt_model_version d, do_context_hash = xp_context_hash x, do_explain = explain,
      do_created_at = xp_evaluated_at x\<rparr>"

definition store_decision ::
    "world \<Rightarrow> (py_exc \<Rightarrow> string) \<Rightarrow> engine \<Rightarrow> scored_context \<Rightarrow> draft \<Rightarrow> policy_selection option \<Rightarrow> conclusion \<Rightarrow> explain_call \<Rightarrow>
     payload \<Rightarrow> string \<Rightarrow> ('a decision_db_scheme, unit) act" where
  "store_decision w error_text eg c d sel k x explain decision_id =
     and_then (new_uuid_str w) (\<lambda>i.
     let row = new_decision_record eg c d k x explain decision_id i
     in and_then (update_state (\<lambda>s. s\<lparr>decision_results := decision_results s @ [row]\<rparr>)) (\<lambda>_.
        and_then (audit_decision w c decision_id (cc_outcome k) (draft_score d) (dt_matched d) (dt_model_version d)
          (decision_hash w x d k) (hash_dict w (scoring_trace x d k))) (\<lambda>ar.
        case subject_from_action (ec_action c) of
          None \<Rightarrow> ret ()
        | Some subject \<Rightarrow> store_risk_decision w error_text c d sel k x subject row ar)))"

definition policy_for :: "scored_context \<Rightarrow> draft \<Rightarrow> int \<Rightarrow> 'a decision_db_scheme \<Rightarrow> policy_selection option" where
  "policy_for c d now s =
     (if dt_hard_decline d \<or> dt_context_blocked d then None
      else case subject_from_action (ec_action c) of
        None \<Rightarrow> None
      | Some subject \<Rightarrow> select_policy subject c (draft_score d) now s)"

definition decision_result_of ::
    "engine \<Rightarrow> draft \<Rightarrow> conclusion \<Rightarrow> payload \<Rightarrow> string \<Rightarrow> decision_result" where
  "decision_result_of eg d k explain decision_id =
     \<lparr>dx_decision_id = decision_id, dx_decision_version = eg_version eg, dx_outcome = cc_outcome k,
      dx_risk_score = draft_score d, dx_risk_level = cc_level k, dx_rule_hits = dt_matched d,
      dx_model_version = dt_model_version d, dx_explain = explain, dx_risk_decision = cc_decision k,
      dx_threshold_set_id = cc_threshold_set_id k, dx_policy_id = cc_policy_id k\<rparr>"

definition evaluate ::
    "world \<Rightarrow> (py_exc \<Rightarrow> string) \<Rightarrow> engine \<Rightarrow> scored_context \<Rightarrow> ('a decision_db_scheme, decision_result) act" where
  "evaluate w error_text eg c =
     and_then (lift_result (make_draft eg c)) (\<lambda>d.
     and_then (now_utc w) (\<lambda>now.
     and_then (reading (policy_for c d now)) (\<lambda>sel.
     and_then (lift_result (conclude c d (draft_score d) sel)) (\<lambda>k.
     let x = explain_of w eg c d sel k now; explain = build_explain w (to_payload c) x d k
     in and_then (new_uuid_str w) (\<lambda>decision_id.
        and_then (store_decision w error_text eg c d sel k x explain decision_id) (\<lambda>_.
        ret (decision_result_of eg d k explain decision_id)))))))"

end
