(* ===== verification/Decision_Properties.thy ===== *)
theory Decision_Properties
  imports Decision_Engine
begin

text \<open>
  What the decision engine guarantees: it fails closed, it selects the policy that a plain search for the best
  one selects, it records every decision it makes, and it leaves the books alone.
\<close>

section \<open>The risk policy of a decision\<close>

text \<open>The policy of a decision is the best one: sorting all matching policies by priority and specificity and
  taking the first is the same as one pass that keeps the earliest best row; the result matches the query, no
  matching policy has a smaller priority, none of the same priority is more specific, and there is no
  result exactly when nothing matches.\<close>

theorem resolve_policy_is_best:
  "resolve_policy q rows = least_row (\<lambda>p. (rp_priority p, - specificity p)) (filter (policy_matches q) rows) \<and>
   (resolve_policy q rows = None \<longleftrightarrow> (\<forall>p\<in>set rows. \<not> policy_matches q p)) \<and>
   (\<forall>p. resolve_policy q rows = Some p \<longrightarrow> p \<in> set rows \<and> policy_matches q p \<and>
      (\<forall>p'\<in>set rows. policy_matches q p' \<longrightarrow>
         rp_priority p < rp_priority p' \<or> rp_priority p = rp_priority p' \<and> specificity p' \<le> specificity p))"
proof (intro conjI allI impI)
  show scan: "resolve_policy q rows = least_row (\<lambda>p. (rp_priority p, - specificity p)) (filter (policy_matches q) rows)"
    by (simp add: resolve_policy_def first_row_sort)
  show "resolve_policy q rows = None \<longleftrightarrow> (\<forall>p\<in>set rows. \<not> policy_matches q p)"
    unfolding scan by (auto simp: filter_empty_conv)
  fix p
  assume "resolve_policy q rows = Some p"
  note best = least_row_Some [OF this [unfolded scan]]
  from best show "p \<in> set rows" "policy_matches q p" by simp_all
  from best show "\<forall>p'\<in>set rows. policy_matches q p' \<longrightarrow>
      rp_priority p < rp_priority p' \<or> rp_priority p = rp_priority p' \<and> specificity p' \<le> specificity p"
    by (auto simp: less_eq_prod_def)
qed

definition ref_policy :: "string \<Rightarrow> int \<Rightarrow> string option \<Rightarrow> risk_policy" where
  "ref_policy i priority client =
     \<lparr>rp_id = i, rp_subject_type = SUBJECT_PAYMENT, rp_tenant_id = None, rp_client_id = client, rp_provider = None,
      rp_currency = None, rp_country = None, rp_threshold_set_id = ''set-1'', rp_model_selector = ''risk_v4'',
      rp_priority = priority, rp_active = True\<rparr>"

definition ref_policy_query :: policy_query where
  "ref_policy_query = \<lparr>pq_subject_type = SUBJECT_PAYMENT, pq_tenant_id = Some 1, pq_client_id = Some ''client'',
     pq_provider = None, pq_currency = Some ''RUB'', pq_country = None\<rparr>"

lemmas ref_policy_simps = ref_policy_def ref_policy_query_def policy_matches_def apply_match_def specificity_def str_truthy_def

theorem resolve_policy_is_best_witness:
  "resolve_policy ref_policy_query [ref_policy ''general'' 10 None, ref_policy ''own'' 10 (Some ''client''), ref_policy ''late'' 20 None] =
     Some (ref_policy ''own'' 10 (Some ''client'')) \<and>
   specificity (ref_policy ''general'' 10 None) \<le> specificity (ref_policy ''own'' 10 (Some ''client''))"
  using resolve_policy_is_best [of ref_policy_query
      "[ref_policy ''general'' 10 None, ref_policy ''own'' 10 (Some ''client''), ref_policy ''late'' 20 None]"]
  by (simp add: ref_policy_simps less_eq_prod_def)

section \<open>Failing closed\<close>

lemma max_outcome_ALLOW [simp]: "max_outcome (Some a) b = ALLOW \<longleftrightarrow> a = ALLOW \<and> b = ALLOW"
  by (cases a; cases b) (simp_all add: max_outcome_def)

lemma rule_outcome_snoc: "rule_outcome (fs @ [r]) = Some (max_outcome (rule_outcome fs) (dr_outcome r))"
  by (simp add: rule_outcome_def)

lemma rule_outcome_ALLOW: "rule_outcome fs \<in> {None, Some ALLOW} \<longleftrightarrow> (\<forall>r\<in>set fs. dr_outcome r = ALLOW)"
proof (induction fs rule: rev_induct)
  case (snoc r fs)
  show ?case
  proof (cases "rule_outcome fs")
    case None
    with snoc show ?thesis by (auto simp: rule_outcome_snoc max_outcome_def)
  next
    case (Some a)
    with snoc show ?thesis by (auto simp: rule_outcome_snoc)
  qed
qed (simp add: rule_outcome_def)

lemma scoring_rules_draft_sel:
  "dt_outcome (scoring_rules_draft c d) = ALLOW \<Longrightarrow> \<not> dt_hard_decline (scoring_rules_draft c d)"
  "dt_context_blocked (scoring_rules_draft c d) = dt_context_blocked d"
  by (auto simp: scoring_rules_draft_def Let_def split: prod.splits if_splits)

lemma draft_allows:
  assumes "make_draft eg c = Inr d" and "dt_outcome d = ALLOW"
  shows "missing_reasons c = []" and "\<not> dt_hard_decline d" and "\<not> dt_context_blocked d"
    and "\<exists>fired. fired_rules (eval_context.truncate c) (eg_rules eg) = Inr fired \<and> (\<forall>r\<in>set fired. dr_outcome r = ALLOW)"
    and "ec_scoring_rules c = [] \<Longrightarrow> draft_score d \<le> eg_threshold eg"
proof -
  show complete: "missing_reasons c = []" using assms by (auto simp: make_draft_def blocked_draft_def split: if_splits)
  obtain fired where fired: "fired_rules (eval_context.truncate c) (eg_rules eg) = Inr fired"
    using assms(1) complete by (auto simp: make_draft_def res_then_Inr_iff)
  have ok: "rule_outcome fired \<in> {None, Some ALLOW}"
    using assms complete fired
    by (auto simp: make_draft_def rules_draft_def split: option.splits decision_outcome.splits)
  then show "\<exists>fired. fired_rules (eval_context.truncate c) (eg_rules eg) = Inr fired \<and> (\<forall>r\<in>set fired. dr_outcome r = ALLOW)"
    using fired rule_outcome_ALLOW by blast
  have d: "if ec_scoring_rules c \<noteq> [] then d = scoring_rules_draft c (rules_draft fired ALLOW)
      else \<exists>r. d = scorer_draft eg r (rules_draft fired ALLOW)"
    using assms(1) complete fired ok
    by (auto simp: make_draft_def res_then_Inr_iff split: option.splits if_splits)
  show "\<not> dt_hard_decline d" "\<not> dt_context_blocked d"
    using d assms(2) by (auto simp: scoring_rules_draft_sel scorer_draft_def rules_draft_def split: if_splits)
  show "draft_score d \<le> eg_threshold eg" if "ec_scoring_rules c = []"
    using d that assms(2) by (auto simp: scorer_draft_def rules_draft_def draft_score_def split: if_splits)
qed

lemma conclude_allows:
  assumes "conclude c d score sel = Inr k" and "cc_outcome k = ALLOW"
  shows "\<exists>p. sel = Some p \<and> cc_threshold_set_id k = ts_id (ps_threshold_set p)" and "dt_outcome d = ALLOW"
    and "cc_decision k \<in> {RD_ALLOW, RD_ALLOW_WITH_REVIEW}"
proof -
  from assms obtain p where p: "sel = Some p" "policy_conclusion c d score p = Inr k"
    by (auto simp: conclude_def blocking_conclusion_def split: if_splits option.splits)
  then obtain oc level dec ro thr where j: "judge c d score p = Inr (oc, level, dec, ro, thr)"
    and k: "cc_outcome k = oc" "cc_decision k = dec" "cc_threshold_set_id k = ts_id (ps_threshold_set p)"
    by (auto simp: policy_conclusion_def res_then_Inr_iff Let_def)
  have "oc = ALLOW" using assms(2) k by simp
  with j have "dt_outcome d = ALLOW \<and> dec \<in> {RD_ALLOW, RD_ALLOW_WITH_REVIEW}"
    by (auto simp: judge_def res_then_Inr_iff Let_def evaluate_threshold_override_def evaluate_thresholds_def
        evaluate_against_def decision_from_threshold_def elim!: outcome_from_decision.elims
        split: option.splits if_splits pyval.splits)
  with k p show "dt_outcome d = ALLOW" "cc_decision k \<in> {RD_ALLOW, RD_ALLOW_WITH_REVIEW}"
    "\<exists>p. sel = Some p \<and> cc_threshold_set_id k = ts_id (ps_threshold_set p)" by simp_all
qed

lemma resolve_threshold_set_Some:
  "resolve_threshold_set subject i rows = Some t \<Longrightarrow> t \<in> set rows \<and> ts_active t \<and> ts_subject_type t = subject"
  using first_row_filter unfolding resolve_threshold_set_def by fastforce

lemma select_policy_set:
  assumes "select_policy subject c score now s = Some p"
  shows "ps_threshold_set p \<in> set (risk_threshold_sets s) \<and> ts_active (ps_threshold_set p) \<and>
    ts_subject_type (ps_threshold_set p) = subject"
  using assms resolve_threshold_set_Some [of _ _ "risk_threshold_sets s"]
  by (fastforce simp: select_policy_def resolve_policy_threshold_def resolve_policy_threshold_override_def policy_query_of_def
      Let_def split: if_splits option.splits)

lemma select_policy_tick [simp]: "select_policy subject c score now (s\<lparr>tick := n\<rparr>) = select_policy subject c score now s"
  by (simp add: select_policy_def resolve_policy_threshold_def resolve_policy_threshold_override_def Let_def cong: option.case_cong)

lemma policy_for_tick [simp]: "policy_for c d now (s\<lparr>tick := n\<rparr>) = policy_for c d now s"
  by (simp add: policy_for_def cong: option.case_cong)

lemma evaluateE:
  assumes "evaluate w et eg c s = (Inr r, s')"
  obtains d k explain x where "make_draft eg c = Inr d"
    and "conclude c d (draft_score d) (policy_for c d (time_at w (tick s)) s) = Inr k"
    and "r = decision_result_of eg d k explain (uuid_at w (Suc (tick s)))"
    and "store_decision w et eg c d (policy_for c d (time_at w (tick s)) s) k x explain (uuid_at w (Suc (tick s)))
      (s\<lparr>tick := Suc (Suc (tick s))\<rparr>) = (Inr (), s')"
  using assms unfolding evaluate_def
  by (auto simp: and_then_Inr_iff Let_def)

text \<open>C10. The engine fails closed. It answers \<open>ALLOW\<close> only when amount, client and subject of the action are known,
  every rule that fired allows, an active threshold set of that subject was found and is the one it
  names, the risk decision is \<open>ALLOW\<close> or \<open>ALLOW_WITH_REVIEW\<close>, and a score that came from the scorer is at most the
  threshold of the engine.\<close>

theorem decision_fails_closed:
  assumes "evaluate w et eg c s = (Inr r, s')" and "dx_outcome r = ALLOW"
  shows "ec_amount c \<noteq> None \<and> ec_client_id c \<noteq> None \<and>
    (\<exists>fired. fired_rules (eval_context.truncate c) (eg_rules eg) = Inr fired \<and> (\<forall>q\<in>set fired. dr_outcome q = ALLOW)) \<and>
    (\<exists>t\<in>set (risk_threshold_sets s). ts_active t \<and> subject_from_action (ec_action c) = Some (ts_subject_type t) \<and>
       dx_threshold_set_id r = ts_id t) \<and>
    dx_risk_decision r \<in> {RD_ALLOW, RD_ALLOW_WITH_REVIEW} \<and>
    (ec_scoring_rules c = [] \<longrightarrow> dx_risk_score r \<le> eg_threshold eg)"
proof -
  let ?p = "\<lambda>d. policy_for c d (time_at w (tick s)) s"
  obtain d k explain where draft: "make_draft eg c = Inr d" and conc: "conclude c d (draft_score d) (?p d) = Inr k"
    and r: "r = decision_result_of eg d k explain (uuid_at w (Suc (tick s)))"
    using assms(1) by (rule evaluateE)
  have "cc_outcome k = ALLOW" using assms(2) r by (simp add: decision_result_of_def)
  note k = conclude_allows [OF conc this]
  note d = draft_allows [OF draft k(2)]
  obtain p where p: "?p d = Some p" "cc_threshold_set_id k = ts_id (ps_threshold_set p)" using k(1) by blast
  then obtain subject where subject: "subject_from_action (ec_action c) = Some subject"
      "select_policy subject c (draft_score d) (time_at w (tick s)) s = Some p"
    by (auto simp: policy_for_def split: if_splits option.splits)
  from select_policy_set [OF subject(2)] subject(1) p(2) have "\<exists>t\<in>set (risk_threshold_sets s). ts_active t \<and>
      subject_from_action (ec_action c) = Some (ts_subject_type t) \<and> cc_threshold_set_id k = ts_id t" by auto
  moreover have "ec_amount c \<noteq> None" "ec_client_id c \<noteq> None"
    using d(1) by (auto simp: missing_reasons_def split: if_splits)
  ultimately show ?thesis using d(4,5) k(3) r by (simp add: decision_result_of_def)
qed

section \<open>What an evaluation leaves behind\<close>

lemma graph_act_catching [intro]:
  assumes "graph_act m" and "\<And>e. graph_act (h e)"
  shows "graph_act (catching p m h)"
proof (rule graph_actI)
  fix s
  obtain x t where m: "m s = (x, t)" by (cases "m s")
  have "graph_only s t" using graph_actD [OF assms(1), of s] m by simp
  then show "graph_only s (snd (catching p m h s))"
    using m graph_only_trans [OF _ graph_actD [OF assms(2)]] by (auto simp: catching_def split: sum.splits)
qed

lemma risk_graph_succeeds: "\<exists>g t. risk_graph w et c r s = (Inr g, t) \<and> graph_only s t"
proof -
  have "graph_act (risk_graph w et c r)"
    unfolding risk_graph_def ensure_risk_decision_graph_def audit_graph_write_failure_def Let_def
    by (intro graph_act_catching) (auto split: option.split)
  then have "graph_only s (snd (risk_graph w et c r s))" by (rule graph_actD)
  moreover have "\<exists>g. fst (risk_graph w et c r s) = Inr g"
    by (auto simp: risk_graph_def Let_def catching_def audit_graph_write_failure_def and_then_def audit_apply split: sum.splits prod.splits)
  ultimately show ?thesis by (cases "risk_graph w et c r s") auto
qed

text \<open>The tables that hold money and contracts.\<close>

definition same_books :: "'a fin_db_scheme \<Rightarrow> 'b fin_db_scheme \<Rightarrow> bool" where
  "same_books s s' \<longleftrightarrow> il_accounts s' = il_accounts s \<and> il_transactions s' = il_transactions s \<and> il_entries s' = il_entries s \<and>
     invoices s' = invoices s \<and> invoice_payments s' = invoice_payments s \<and> credit_notes s' = credit_notes s \<and>
     allocations s' = allocations s \<and> billing_periods s' = billing_periods s \<and> money_flow_events s' = money_flow_events s"

lemma graph_onlyE:
  assumes "graph_only s t"
  obtains n log nodes edges where
    "t = s\<lparr>tick := n, audit_log := audit_log s @ log, legal_nodes := nodes, legal_edges := edges\<rparr>"
  using assms unfolding graph_only_def by blast

lemma store_row_replaced:
  "do_id row \<notin> do_id ` set rows \<Longrightarrow> do_id row' = do_id row \<Longrightarrow> store_row do_id row' (rows @ [row]) = rows @ [row']"
  by (simp add: store_row_append store_row_absent) (simp add: store_row_def)

lemma store_risk_decision_run:
  fixes s :: "'a decision_db_scheme"
  assumes "decision_results s = rows @ [row]" and "do_id row \<notin> do_id ` set rows"
  shows "\<exists>s' rd ex log. store_risk_decision w et c d sel k x subject row ar s = (Inr (), s') \<and>
    decision_results s' = rows @ [row\<lparr>do_explain := ex\<rparr>] \<and> risk_decisions s' = risk_decisions s @ [rd] \<and>
    rd_decision_id rd = do_decision_id row \<and> rd_subject_type rd = subject \<and> rd_outcome rd = cc_decision k \<and>
    rd_score rd = draft_score d \<and> rd_audit_id rd = al_id ar \<and>
    audit_log s' = audit_log s @ log \<and> log \<noteq> [] \<and> same_books s s'"
proof -
  let ?i = "uuid_at w (tick s)" and ?s0 = "s\<lparr>tick := Suc (tick s)\<rparr>"
  let ?new = "new_risk_decision w c d k x subject (do_decision_id row) (do_id row) ?i ar"
  let ?refs = "[(''decision_audit_id'', PStr (al_id ar)), (''decision_audit_hash'', PStr (al_hash ar))]"
  obtain g t where g: "risk_graph w et c (?new ?refs [(''status'', PStr ''not_attempted'')]) ?s0 = (Inr g, t)" "graph_only ?s0 t"
    using risk_graph_succeeds by blast
  from g(2) obtain n log nodes edges where
    t: "t = ?s0\<lparr>tick := n, audit_log := audit_log ?s0 @ log, legal_nodes := nodes, legal_edges := edges\<rparr>"
    by (rule graph_onlyE)
  show ?thesis
    using g(1) assms
    by (simp add: store_risk_decision_def Let_def audit_risk_decision_def audit_evaluation_def audit_apply
        capture_training_snapshot_def t store_row_replaced same_books_def new_risk_decision_def del: append_assoc) auto
qed

lemma store_decision_run:
  fixes s :: "'a decision_db_scheme"
  assumes "uuid_at w (tick s) \<notin> do_id ` set (decision_results s)"
  shows "\<exists>s' row log. store_decision w et eg c d sel k x explain decision_id s = (Inr (), s') \<and>
    decision_results s' = decision_results s @ [row] \<and> do_decision_id row = decision_id \<and> do_outcome row = cc_outcome k \<and>
    do_risk_score row = draft_score d \<and> do_context_hash row = xp_context_hash x \<and>
    (case subject_from_action (ec_action c) of
       None \<Rightarrow> risk_decisions s' = risk_decisions s
     | Some subject \<Rightarrow> \<exists>rd. risk_decisions s' = risk_decisions s @ [rd] \<and> rd_decision_id rd = decision_id \<and>
         rd_subject_type rd = subject \<and> rd_outcome rd = cc_decision k \<and> rd_score rd = draft_score d) \<and>
    audit_log s' = audit_log s @ log \<and> log \<noteq> [] \<and> same_books s s'"
proof -
  let ?row = "new_decision_record eg c d k x explain decision_id (uuid_at w (tick s))"
  let ?s1 = "s\<lparr>tick := Suc (tick s), decision_results := decision_results s @ [?row]\<rparr>"
  obtain ar where ar: "audit_decision w c decision_id (cc_outcome k) (draft_score d) (dt_matched d) (dt_model_version d)
      (decision_hash w x d k) (hash_dict w (scoring_trace x d k)) ?s1 =
      (Inr ar, ?s1\<lparr>tick := Suc (Suc (tick ?s1)), audit_log := audit_log ?s1 @ [ar]\<rparr>)"
    unfolding audit_decision_def audit_evaluation_def by (rule audit_effect)
  let ?s2 = "?s1\<lparr>tick := Suc (Suc (tick ?s1)), audit_log := audit_log ?s1 @ [ar]\<rparr>"
  have row: "do_decision_id ?row = decision_id" "do_outcome ?row = cc_outcome k" "do_risk_score ?row = draft_score d"
    "do_context_hash ?row = xp_context_hash x" "do_id ?row = uuid_at w (tick s)" by (simp_all add: new_decision_record_def)
  show ?thesis
  proof (cases "subject_from_action (ec_action c)")
    case None
    with ar row show ?thesis
      by (intro exI [of _ ?s2] exI [of _ ?row] exI [of _ "[ar]"]) (simp add: store_decision_def Let_def same_books_def)
  next
    case (Some subject)
    have "decision_results ?s2 = decision_results s @ [?row]" "do_id ?row \<notin> do_id ` set (decision_results s)"
      using assms row by simp_all
    from store_risk_decision_run [OF this, of w et c d sel k x subject ar] obtain s' rd ex log where
      run: "store_risk_decision w et c d sel k x subject ?row ar ?s2 = (Inr (), s')" and
      s': "decision_results s' = decision_results s @ [?row\<lparr>do_explain := ex\<rparr>]" "risk_decisions s' = risk_decisions ?s2 @ [rd]"
        "rd_decision_id rd = do_decision_id ?row" "rd_subject_type rd = subject" "rd_outcome rd = cc_decision k"
        "rd_score rd = draft_score d" "audit_log s' = audit_log ?s2 @ log" "same_books ?s2 s'" by blast
    show ?thesis
    proof (intro exI [of _ s'] exI [of _ "?row\<lparr>do_explain := ex\<rparr>"] exI [of _ "ar # log"] conjI)
      show "store_decision w et eg c d sel k x explain decision_id s = (Inr (), s')"
        using ar run Some by (simp add: store_decision_def Let_def)
      show "audit_log s' = audit_log s @ (ar # log)" using s' by simp
      show "same_books s s'" using s'(8) by (simp add: same_books_def)
    qed (use s' row Some in auto)
  qed
qed

lemma evaluation_run:
  fixes s :: "'a decision_db_scheme"
  assumes "make_draft eg c = Inr d"
    and "conclude c d (draft_score d) (policy_for c d (time_at w (tick s)) s) = Inr k"
    and "\<forall>n. uuid_at w n \<notin> do_id ` set (decision_results s)"
  shows "\<exists>r s' row log. evaluate w et eg c s = (Inr r, s') \<and> dx_outcome r = cc_outcome k \<and> dx_risk_decision r = cc_decision k \<and>
    decision_results s' = decision_results s @ [row] \<and> do_decision_id row = dx_decision_id r \<and> do_outcome row = dx_outcome r \<and>
    do_risk_score row = dx_risk_score r \<and>
    (case subject_from_action (ec_action c) of
       None \<Rightarrow> risk_decisions s' = risk_decisions s
     | Some subject \<Rightarrow> \<exists>rd. risk_decisions s' = risk_decisions s @ [rd] \<and> rd_decision_id rd = dx_decision_id r \<and>
         rd_subject_type rd = subject \<and> rd_outcome rd = dx_risk_decision r \<and> rd_score rd = dx_risk_score r) \<and>
    audit_log s' = audit_log s @ log \<and> log \<noteq> [] \<and> same_books s s'"
proof -
  let ?now = "time_at w (tick s)" and ?s1 = "s\<lparr>tick := Suc (Suc (tick s))\<rparr>" and ?id = "uuid_at w (Suc (tick s))"
  let ?x = "explain_of w eg c d (policy_for c d ?now s) k ?now"
  let ?e = "build_explain w (to_payload c) ?x d k"
  have fresh: "uuid_at w (tick ?s1) \<notin> do_id ` set (decision_results ?s1)" using assms(3) by simp
  obtain s' row log where run: "store_decision w et eg c d (policy_for c d ?now s) k ?x ?e ?id ?s1 = (Inr (), s')" and
    s': "decision_results s' = decision_results ?s1 @ [row]" "do_decision_id row = ?id" "do_outcome row = cc_outcome k"
      "do_risk_score row = draft_score d"
      "case subject_from_action (ec_action c) of
         None \<Rightarrow> risk_decisions s' = risk_decisions ?s1
       | Some subject \<Rightarrow> \<exists>rd. risk_decisions s' = risk_decisions ?s1 @ [rd] \<and> rd_decision_id rd = ?id \<and>
           rd_subject_type rd = subject \<and> rd_outcome rd = cc_decision k \<and> rd_score rd = draft_score d"
      "audit_log s' = audit_log ?s1 @ log" "log \<noteq> []" "same_books ?s1 s'"
    using store_decision_run [OF fresh, of et eg c d "policy_for c d ?now s" k ?x ?e ?id] by (elim exE conjE) (rule that)
  show ?thesis
  proof (intro exI conjI)
    show "evaluate w et eg c s = (Inr (decision_result_of eg d k ?e ?id), s')"
      using assms(1,2) run by (simp add: evaluate_def Let_def)
    show "same_books s s'" using s'(8) by (simp add: same_books_def)
  qed (use s' in \<open>simp_all add: decision_result_of_def cong: option.case_cong\<close>)
qed

text \<open>C32. Every decision is on record. Whenever rules, scorer and thresholds give an answer, the evaluation returns
  it; exactly one decision row is added, with the outcome and score that were returned, and exactly one
  risk decision when the action has a subject; the audit log is extended; and no invoice, payment,
  note, allocation, ledger entry or billing period is touched.\<close>

theorem evaluation_recorded:
  fixes s :: "'a decision_db_scheme"
  assumes "make_draft eg c = Inr d"
    and "conclude c d (draft_score d) (policy_for c d (time_at w (tick s)) s) = Inr k"
    and "\<forall>n. uuid_at w n \<notin> do_id ` set (decision_results s)"
  shows "\<exists>r s' row log. evaluate w et eg c s = (Inr r, s') \<and> dx_outcome r = cc_outcome k \<and> dx_risk_decision r = cc_decision k \<and>
    decision_results s' = decision_results s @ [row] \<and> do_decision_id row = dx_decision_id r \<and> do_outcome row = dx_outcome r \<and>
    do_risk_score row = dx_risk_score r \<and>
    (case subject_from_action (ec_action c) of
       None \<Rightarrow> risk_decisions s' = risk_decisions s
     | Some subject \<Rightarrow> \<exists>rd. risk_decisions s' = risk_decisions s @ [rd] \<and> rd_decision_id rd = dx_decision_id r \<and>
         rd_subject_type rd = subject \<and> rd_outcome rd = dx_risk_decision r \<and> rd_score rd = dx_risk_score r) \<and>
    audit_log s' = audit_log s @ log \<and> log \<noteq> [] \<and> same_books s s'"
  using assms by (rule evaluation_run)

section \<open>Corner cases\<close>

text \<open>An incomplete context is declined, but its score is the one of its risk level and its reasons are lost.\<close>

theorem incomplete_context_declined:
  assumes "missing_reasons c \<noteq> []"
  shows "\<exists>k. make_draft eg c = Inr (blocked_draft c) \<and> conclude c (blocked_draft c) (draft_score (blocked_draft c)) sel = Inr k \<and>
    cc_outcome k = DECLINE \<and> cc_decision k = RD_BLOCK \<and> draft_score (blocked_draft c) = 95 \<and> cc_top_reasons k = None"
  using assms by (simp add: make_draft_def conclude_def blocked_draft_def blocking_conclusion_def draft_score_def)

text \<open>The validity of a threshold set does not matter for its selection.\<close>

theorem threshold_set_validity_ignored:
  fixes a :: int and b :: "int option"
  defines "f \<equiv> \<lambda>t. t\<lparr>ts_valid_from := a, ts_valid_to := b\<rparr>"
  shows "resolve_threshold_set subject i (map f rows) = map_option f (resolve_threshold_set subject i rows)"
proof -
  have key: "(\<lambda>t. - ts_version t) \<circ> f = (\<lambda>t. - ts_version t)" by (auto simp: f_def)
  have "filter (\<lambda>t. ts_active t \<and> ts_subject_type t = subject \<and>
       (case i of None \<Rightarrow> ts_scope t = SCOPE_GLOBAL | Some x \<Rightarrow> ts_id t = x)) (map f rows) =
    map f (filter (\<lambda>t. ts_active t \<and> ts_subject_type t = subject \<and>
       (case i of None \<Rightarrow> ts_scope t = SCOPE_GLOBAL | Some x \<Rightarrow> ts_id t = x)) rows)"
    by (auto simp: f_def filter_map comp_def intro!: arg_cong [where f = "map f"] filter_cong split: option.splits)
  then show ?thesis unfolding resolve_threshold_set_def
    by (simp add: sort_key_map key first_row_def split: list.split)
qed

section \<open>A payment of a known client\<close>

definition ref_set :: risk_threshold_set where
  "ref_set = \<lparr>ts_id = ''set-1'', ts_subject_type = SUBJECT_PAYMENT, ts_version = 1, ts_active = True, ts_scope = SCOPE_GLOBAL,
     ts_block_threshold = 80, ts_review_threshold = 60, ts_allow_threshold = 10, ts_currency = None, ts_valid_from = 0,
     ts_valid_to = Some 1\<rparr>"

definition ref_decision_db :: decision_db where
  "ref_decision_db = fin_db.extend
     \<lparr>tick = 5, audit_log = [], il_accounts = [], il_transactions = [], il_entries = [], invoices = [],
      invoice_transition_logs = [], invoice_payments = [], credit_notes = [], allocations = [], billing_periods = [],
      money_flow_events = [], billing_job_runs = [], legal_nodes = [], legal_edges = [], refund_request_ids = []\<rparr>
     \<lparr>risk_policies = [], risk_threshold_sets = [ref_set], risk_thresholds = [], decision_results = [], risk_decisions = [],
      training_snapshots = []\<rparr>"

definition ref_decision_ctx :: scored_context where
  "ref_decision_ctx = \<lparr>ec_tenant_id = 1, ec_client_id = Some ''client'', ec_action = KnownAction PAYMENT_AUTHORIZE,
     ec_actor_type = ''SYSTEM'', ec_actor_id = None, ec_amount = Some 500, ec_currency = Some ''RUB'', ec_payment_method = None,
     ec_invoice_id = None, ec_billing_period_id = None, ec_age = None, ec_history = [], ec_metadata = [],
     ec_scoring_rules = []\<rparr>"

definition ref_decision_world :: world where
  "ref_decision_world = \<lparr>sha256_hex = (\<lambda>x. x), uuid_at = (\<lambda>n. show_nat n), time_at = (\<lambda>n. int n)\<rparr>"

definition ref_draft :: draft where
  "ref_draft = scorer_draft default_engine
     \<lparr>rs_score = 10, rs_model_version = None, rs_source = ''stub_default'',
      rs_assumptions = [''stub_score_default'', ''scorer_not_configured''],
      rs_evidence = Some [(''metadata_keys'', PList []), (''compatibility_tail'', PStr ''decision_engine_default_scorer''),
        (''default_score'', PInt 10), (''not_ml'', PBool True)]\<rparr> (rules_draft [] ALLOW)"

lemma ref_subject: "subject_from_action (KnownAction PAYMENT_AUTHORIZE) = Some SUBJECT_PAYMENT"
  by code_simp

lemma ref_draft_made: "make_draft default_engine ref_decision_ctx = Inr ref_draft"
  by (simp add: make_draft_def missing_reasons_def ref_decision_ctx_def ref_subject default_engine_def default_rules_def
      eval_context.defs single_transaction_limit_def DEFAULT_SINGLE_TX_LIMIT_def client_blocked_def period_not_finalized_def
      document_not_finalized_def role_based_guard_def rule_outcome_def ref_draft_def stub_score_def meta_text_def)

lemma ref_draft_sel [simp]:
  "dt_outcome ref_draft = ALLOW" "draft_score ref_draft = 10" "dt_hard_decline ref_draft = False" "dt_context_blocked ref_draft = False"
  by (simp_all add: ref_draft_def scorer_draft_def rules_draft_def draft_score_def default_engine_def)

lemma ref_policy_found:
  "policy_for ref_decision_ctx ref_draft now ref_decision_db =
     Some \<lparr>ps_policy = None, ps_threshold_set = ref_set, ps_threshold = None\<rparr>"
  by (simp add: policy_for_def ref_decision_ctx_def ref_subject select_policy_def resolve_policy_threshold_def
      resolve_policy_def resolve_threshold_set_def resolve_threshold_def policy_query_of_def first_row_def ref_decision_db_def
      fin_db.defs ref_set_def Let_def)

lemma ref_concluded:
  "\<exists>k. conclude ref_decision_ctx ref_draft 10 (Some \<lparr>ps_policy = None, ps_threshold_set = ref_set, ps_threshold = None\<rparr>) = Inr k \<and>
     cc_outcome k = ALLOW"
  by (simp add: conclude_def policy_conclusion_def judge_def ref_decision_ctx_def evaluate_thresholds_def evaluate_against_def
      ref_set_def Let_def)

theorem evaluation_recorded_witness:
  "\<exists>r s' row. evaluate ref_decision_world (\<lambda>_. []) default_engine ref_decision_ctx ref_decision_db = (Inr r, s') \<and>
     dx_outcome r = ALLOW \<and> decision_results s' = [row] \<and> do_outcome row = ALLOW \<and> same_books ref_decision_db s'"
proof -
  obtain k where k: "conclude ref_decision_ctx ref_draft 10 (Some \<lparr>ps_policy = None, ps_threshold_set = ref_set, ps_threshold = None\<rparr>) = Inr k"
    "cc_outcome k = ALLOW" using ref_concluded by blast
  have "decision_results ref_decision_db = []" by (simp add: ref_decision_db_def fin_db.defs)
  with evaluation_recorded [OF ref_draft_made, of ref_decision_world ref_decision_db k "\<lambda>_. []"] k
  show ?thesis by (auto simp: ref_policy_found)
qed

lemma ref_evaluated:
  "\<exists>r s'. evaluate ref_decision_world (\<lambda>_. []) default_engine ref_decision_ctx ref_decision_db = (Inr r, s') \<and> dx_outcome r = ALLOW"
proof -
  obtain k where k: "conclude ref_decision_ctx ref_draft 10 (Some \<lparr>ps_policy = None, ps_threshold_set = ref_set, ps_threshold = None\<rparr>) = Inr k"
    "cc_outcome k = ALLOW" using ref_concluded by blast
  have "decision_results ref_decision_db = []" by (simp add: ref_decision_db_def fin_db.defs)
  with evaluation_run [OF ref_draft_made, of ref_decision_world ref_decision_db k "\<lambda>_. []"] k
  show ?thesis by (auto simp: ref_policy_found)
qed

theorem decision_fails_closed_witness:
  "\<exists>r s' t. evaluate ref_decision_world (\<lambda>_. []) default_engine ref_decision_ctx ref_decision_db = (Inr r, s') \<and>
     t \<in> set (risk_threshold_sets ref_decision_db) \<and> ts_active t \<and> dx_threshold_set_id r = ts_id t \<and> dx_risk_score r \<le> 70"
proof -
  obtain r s' where run: "evaluate ref_decision_world (\<lambda>_. []) default_engine ref_decision_ctx ref_decision_db = (Inr r, s')"
    and allow: "dx_outcome r = ALLOW" using ref_evaluated by blast
  from decision_fails_closed [OF run allow] run show ?thesis
    by (auto simp: ref_decision_ctx_def default_engine_def)
qed

end
