(* ===== verification/Py_Compare.thy ===== *)
theory Py_Compare
  imports Py_Values Query_Order
begin

text \<open>
  Python's comparisons on the values of JSON documents: \<open>==\<close> (a truth value is a number, a dictionary has no order),
  the orderings with the pairs they refuse, membership, and \<open>str()\<close>. A number is an integer.
\<close>

section \<open>Equality\<close>

fun num_of :: "pyval \<Rightarrow> int option" where
  "num_of (PBool b) = Some (if b then 1 else 0)"
| "num_of (PInt i) = Some i"
| "num_of _ = None"

fun text_of :: "pyval \<Rightarrow> string option" where
  "text_of (PStr x) = Some x"
| "text_of (PEnum x) = Some x"
| "text_of _ = None"

definition scalar_eq :: "pyval \<Rightarrow> pyval \<Rightarrow> bool" where
  "scalar_eq x y =
     (case (num_of x, num_of y) of
        (Some i, Some j) \<Rightarrow> i = j
      | _ \<Rightarrow> (case (text_of x, text_of y) of (Some a, Some b) \<Rightarrow> a = b | _ \<Rightarrow> x = y))"

lemma list_all_fundef_cong [fundef_cong]:
  "xs = ys \<Longrightarrow> (\<And>x. x \<in> set ys \<Longrightarrow> p x = q x) \<Longrightarrow> list_all p xs = list_all q ys"
  by (rule list.pred_cong)

function py_eq :: "pyval \<Rightarrow> pyval \<Rightarrow> bool" where
  "py_eq x y =
     (case x of
        PList xs \<Rightarrow> (case y of PList ys \<Rightarrow> length xs = length ys \<and> list_all (\<lambda>(a, b). py_eq a b) (zip xs ys) | _ \<Rightarrow> False)
      | PDict xs \<Rightarrow>
          (case y of
             PDict ys \<Rightarrow> length xs = length ys \<and>
               list_all (\<lambda>(k, a). case map_of ys k of None \<Rightarrow> False | Some b \<Rightarrow> py_eq a b) xs
           | _ \<Rightarrow> False)
      | _ \<Rightarrow> scalar_eq x y)"
  by auto

lemma size_zip_fst: "(a, b) \<in> set (zip xs ys) \<Longrightarrow> size a < Suc (size_list size (xs :: pyval list))"
  by (drule set_zip_leftD) (simp add: less_Suc_eq_le size_list_estimation')

lemma size_dict_value:
  "(k, a) \<in> set xs \<Longrightarrow> size a < Suc (size_list (size_prod (\<lambda>_. 0) size) (xs :: (string \<times> pyval) list))"
  by (induction xs) auto

termination py_eq
  by (relation "measure (size \<circ> fst)") (auto dest: size_zip_fst size_dict_value)

declare py_eq.simps [simp del]

lemma py_eq_list [simp]:
  "py_eq (PList xs) (PList ys) \<longleftrightarrow> length xs = length ys \<and> list_all (\<lambda>(a, b). py_eq a b) (zip xs ys)"
  by (subst py_eq.simps) simp

lemma py_eq_dict [simp]:
  "py_eq (PDict xs) (PDict ys) \<longleftrightarrow>
     length xs = length ys \<and> list_all (\<lambda>(k, a). case map_of ys k of None \<Rightarrow> False | Some b \<Rightarrow> py_eq a b) xs"
  by (subst py_eq.simps) simp

lemma py_eq_simps [simp]:
  "py_eq (PStr x) (PStr y) \<longleftrightarrow> x = y"
  "py_eq (PInt i) (PInt j) \<longleftrightarrow> i = j"
  "py_eq PNone PNone"
  "\<not> py_eq PNone (PStr y)" "\<not> py_eq (PStr x) PNone" "\<not> py_eq PNone (PList ys)" "\<not> py_eq (PStr x) (PList ys)"
  "\<not> py_eq (PStr x) (PInt i)" "\<not> py_eq (PInt i) (PStr x)" "\<not> py_eq PNone (PInt i)" "\<not> py_eq (PInt i) PNone"
  by (simp_all add: py_eq.simps scalar_eq_def)

lemma py_eq_refl: "wf_pyval v \<Longrightarrow> py_eq v v"
proof (induction v)
  case (PList vs)
  then show ?case by (auto simp: list_all_iff zip_same_conv_map)
next
  case (PDict kvs)
  have "case map_of kvs k of None \<Rightarrow> False | Some b \<Rightarrow> py_eq a b" if "(k, a) \<in> set kvs" for k a
  proof -
    from PDict.prems that have "map_of kvs k = Some a" by simp
    moreover from PDict.prems that have "wf_pyval a" by force
    with PDict.IH [OF that, of a] have "py_eq a a" by simp
    ultimately show ?thesis by simp
  qed
  then show ?case by (auto simp: list_all_iff)
qed (simp_all add: py_eq.simps scalar_eq_def)

section \<open>Ordering\<close>

datatype cmp_op = LT | LE | GT | GE

fun cmp_with :: "cmp_op \<Rightarrow> 'a::linorder \<Rightarrow> 'a \<Rightarrow> bool" where
  "cmp_with LT a b = (a < b)"
| "cmp_with LE a b = (a \<le> b)"
| "cmp_with GT a b = (a > b)"
| "cmp_with GE a b = (a \<ge> b)"

text \<open>
  Numbers, texts, instants and identifiers compare among themselves; lists compare at the first position where they
  differ, and by length when there is none. Every other pair raises.
\<close>

function py_compare :: "cmp_op \<Rightarrow> pyval \<Rightarrow> pyval \<Rightarrow> bool result" where
  "py_compare f x y =
     (case (x, y) of
        (PList xs, PList ys) \<Rightarrow>
          (case find (\<lambda>(a, b). \<not> py_eq a b) (zip xs ys) of
             None \<Rightarrow> Inr (cmp_with f (length xs) (length ys))
           | Some p \<Rightarrow> py_compare f (fst p) (snd p))
      | (PDatetime s, PDatetime t) \<Rightarrow> Inr (cmp_with f s t)
      | (PUuid a, PUuid b) \<Rightarrow> Inr (cmp_with f a b)
      | _ \<Rightarrow>
          (case (num_of x, num_of y) of
             (Some i, Some j) \<Rightarrow> Inr (cmp_with f i j)
           | _ \<Rightarrow>
               (case (text_of x, text_of y) of
                  (Some a, Some b) \<Rightarrow> Inr (cmp_with f a b)
                | _ \<Rightarrow> Inl (TypeError ''not supported between instances''))))"
  by auto

termination py_compare
  by (relation "measure (\<lambda>(f, x, y). size x)") (auto dest!: find_SomeD dest: size_zip_fst)

declare py_compare.simps [simp del]

lemma py_compare_num: "num_of x = Some i \<Longrightarrow> num_of y = Some j \<Longrightarrow> py_compare f x y = Inr (cmp_with f i j)"
  by (cases x; cases y) (simp_all add: py_compare.simps)

lemma py_compare_text: "text_of x = Some a \<Longrightarrow> text_of y = Some b \<Longrightarrow> py_compare f x y = Inr (cmp_with f a b)"
  by (cases x; cases y) (simp_all add: py_compare.simps)

section \<open>Membership\<close>

fun hashable :: "pyval \<Rightarrow> bool" where
  "hashable (PList _) = False"
| "hashable (PDict _) = False"
| "hashable _ = True"

text \<open>\<open>x in v\<close>: an element of a list, a key of a dictionary, a part of a text.\<close>

fun py_in :: "pyval \<Rightarrow> pyval \<Rightarrow> bool result" where
  "py_in x (PList vs) = Inr (list_ex (py_eq x) vs)"
| "py_in x (PDict kvs) =
     (if hashable x then Inr (case text_of x of None \<Rightarrow> False | Some k \<Rightarrow> k \<in> set (map fst kvs))
      else Inl (TypeError ''unhashable type''))"
| "py_in x (PStr t) =
     (case text_of x of None \<Rightarrow> Inl (TypeError ''requires string as left operand'') | Some k \<Rightarrow> Inr (occurs_in k t))"
| "py_in x (PEnum t) =
     (case text_of x of None \<Rightarrow> Inl (TypeError ''requires string as left operand'') | Some k \<Rightarrow> Inr (occurs_in k t))"
| "py_in x _ = Inl (TypeError ''argument is not iterable'')"

section \<open>Texts\<close>

text \<open>
  \<open>repr\<close> of a text: single quotes unless only those occur in it, with the escapes of the control characters. The
  values have no enum members, and characters beyond ASCII are printable.
\<close>

definition repr_char :: "char \<Rightarrow> char \<Rightarrow> string" where
  "repr_char q c =
     (if c = q \<or> c = CHR 0x5C then [CHR 0x5C, c]
      else if c = CHR 0x0A then [CHR 0x5C, CHR ''n'']
      else if c = CHR 0x0D then [CHR 0x5C, CHR ''r'']
      else if c = CHR 0x09 then [CHR 0x5C, CHR ''t'']
      else if (of_char c :: nat) < 32 \<or> c = CHR 0x7F
        then [CHR 0x5C, CHR ''x'', hex_char ((of_char c :: nat) div 16), hex_char ((of_char c :: nat) mod 16)]
      else [c])"

definition repr_text :: "string \<Rightarrow> string" where
  "repr_text x =
     (let q = (if CHR 0x27 \<in> set x \<and> CHR 0x22 \<notin> set x then CHR 0x22 else CHR 0x27)
      in q # concat (map (repr_char q) x) @ [q])"

fun py_repr :: "pyval \<Rightarrow> string" where
  "py_repr PNone = ''None''"
| "py_repr (PBool b) = (if b then ''True'' else ''False'')"
| "py_repr (PInt i) = show_int i"
| "py_repr (PStr x) = repr_text x"
| "py_repr (PEnum x) = repr_text x"
| "py_repr (PUuid x) = ''UUID('' @ repr_text x @ '')''"
| "py_repr (PDatetime t) = repr_text (isoformat t)"
| "py_repr (PList vs) = ''['' @ join '', '' (map py_repr vs) @ '']''"
| "py_repr (PDict kvs) = ''{'' @ join '', '' (map (\<lambda>(k, v). repr_text k @ '': '' @ py_repr v) kvs) @ ''}''"

fun py_str :: "pyval \<Rightarrow> string" where
  "py_str (PStr x) = x"
| "py_str (PUuid x) = x"
| "py_str (PDatetime t) = map (\<lambda>c. if c = CHR ''T'' then CHR '' '' else c) (isoformat t)"
| "py_str v = py_repr v"

text \<open>\<open>len\<close> of a text counts characters, not the bytes that continue one.\<close>

definition py_len :: "string \<Rightarrow> nat" where
  "py_len x = length (filter (\<lambda>c. \<not> (128 \<le> (of_char c :: nat) \<and> (of_char c :: nat) < 192)) x)"

section \<open>Sequences of computations that may raise\<close>

fun res_map :: "('a \<Rightarrow> 'b result) \<Rightarrow> 'a list \<Rightarrow> 'b list result" where
  "res_map f [] = Inr []"
| "res_map f (x # xs) = res_then (f x) (\<lambda>y. res_then (res_map f xs) (\<lambda>ys. Inr (y # ys)))"

lemma res_map_cong [fundef_cong]:
  "xs = ys \<Longrightarrow> (\<And>x. x \<in> set ys \<Longrightarrow> f x = g x) \<Longrightarrow> res_map f xs = res_map g ys"
  by (induction ys arbitrary: xs) simp_all

lemma res_then_cong [fundef_cong]:
  "r = r' \<Longrightarrow> (\<And>x. r' = Inr x \<Longrightarrow> k x = k' x) \<Longrightarrow> res_then r k = res_then r' k'"
  by (cases r') simp_all

lemma res_map_Inr_iff:
  "res_map f xs = Inr ys \<longleftrightarrow> length ys = length xs \<and> (\<forall>i<length xs. f (xs ! i) = Inr (ys ! i))"
proof (induction xs arbitrary: ys)
  case (Cons x xs)
  then show ?case by (cases ys) (auto simp: res_then_Inr_iff nth_Cons' All_less_Suc2)
qed auto

lemma res_map_total: "(\<And>x. x \<in> set xs \<Longrightarrow> f x = Inr (g x)) \<Longrightarrow> res_map f xs = Inr (map g xs)"
  by (induction xs) simp_all

end
