(* ===== verification/Abac_Engine.thy ===== *)
theory Abac_Engine
  imports Py_Compare Query_Order
begin

text \<open>
  Attribute-based access control (\<open>services/abac/engine.py\<close>, \<open>models/abac.py\<close> and the principal of
  \<open>services/abac/dependency.py\<close>): a language of conditions over a document of attributes, policies with a priority and
  an effect, and the decision. Conditions are JSON documents of any shape, so evaluation can raise. Columns that the
  engine does not read are left out of the rows.
  Regular expressions belong to another library: \<open>re_search pattern text\<close> is \<open>re.search(...) is not None\<close>, or
  the error of a bad pattern.
\<close>

section \<open>Policies and decisions\<close>

datatype abac_version_status = VERSION_DRAFT | VERSION_PUBLISHED | VERSION_ACTIVE | VERSION_ARCHIVED

datatype abac_effect = EFFECT_ALLOW | EFFECT_DENY

fun abac_effect_value :: "abac_effect \<Rightarrow> string" where
  "abac_effect_value EFFECT_ALLOW = ''ALLOW''"
| "abac_effect_value EFFECT_DENY = ''DENY''"

record abac_policy_version =
  av_id :: string
  av_status :: abac_version_status
  av_created_at :: int
  av_activated_at :: "int option"

record abac_policy =
  ap_version_id :: string
  ap_code :: string
  ap_effect :: abac_effect
  ap_priority :: int
  ap_actions :: pyval
  ap_resource_type :: string
  ap_condition :: pyval
  ap_reason_code :: "string option"

record abac_db =
  abac_policy_versions :: "abac_policy_version list"
  abac_policies :: "abac_policy list"

record abac_principal =
  pr_type :: string
  pr_user_id :: pyval
  pr_client_id :: pyval
  pr_partner_id :: pyval
  pr_service_name :: "string option"
  pr_roles :: "string set"
  pr_scopes :: "string set"
  pr_region :: pyval

record abac_resource =
  rs_type :: string
  rs_attributes :: pyval

record abac_context =
  cx_ip :: "string option"
  cx_region :: "string option"
  cx_timestamp :: int
  cx_risk :: "pyval option"

record abac_decision =
  ad_allowed :: bool
  ad_reason_code :: "string option"
  ad_matched_policies :: "pyval list"
  ad_explain :: pyval

section \<open>Operands\<close>

fun split_dot :: "string \<Rightarrow> string list" where
  "split_dot [] = [[]]"
| "split_dot (c # s) =
     (if c = CHR ''.'' then [] # split_dot s
      else (case split_dot s of [] \<Rightarrow> [[c]] | w # ws \<Rightarrow> (c # w) # ws))"

fun get_parts :: "pyval \<Rightarrow> string list \<Rightarrow> pyval" where
  "get_parts v [] = v"
| "get_parts v (k # ks) = (case dict_get k v of None \<Rightarrow> PNone | Some x \<Rightarrow> get_parts x ks)"

definition get_value :: "pyval \<Rightarrow> string \<Rightarrow> pyval" where
  "get_value payload path = get_parts payload (split_dot path)"

text \<open>A text with a full stop in it names an attribute, whatever it was meant to be.\<close>

definition resolve_operand :: "pyval \<Rightarrow> pyval \<Rightarrow> pyval" where
  "resolve_operand ctx v =
     (case text_of v of
        Some path \<Rightarrow> if CHR ''.'' \<in> set path then get_value ctx path else v
      | None \<Rightarrow> v)"

definition or_empty :: "pyval \<Rightarrow> pyval" where
  "or_empty v = (if truthy (Some v) then v else PList [])"

definition compare_present :: "cmp_op \<Rightarrow> pyval \<Rightarrow> pyval \<Rightarrow> bool result" where
  "compare_present f l r = (if l \<noteq> PNone \<and> r \<noteq> PNone then py_compare f l r else Inr False)"

definition operators :: "string list" where
  "operators = [''eq'', ''neq'', ''in'', ''nin'', ''lt'', ''lte'', ''gt'', ''gte'', ''exists'', ''starts_with'', ''matches'', ''contains'']"

definition matches_pattern :: "(string \<Rightarrow> string \<Rightarrow> bool result) \<Rightarrow> pyval \<Rightarrow> pyval \<Rightarrow> bool result" where
  "matches_pattern re_search l r =
     (if l \<noteq> PNone \<and> r \<noteq> PNone
      then if py_len (py_str r) > 256 then Inr False else re_search (py_str r) (py_str l)
      else Inr False)"

definition contains_value :: "pyval \<Rightarrow> pyval \<Rightarrow> bool result" where
  "contains_value l r = (case l of PList _ \<Rightarrow> py_in r l | PDict _ \<Rightarrow> py_in r l | _ \<Rightarrow> Inr False)"

definition apply_operator :: "(string \<Rightarrow> string \<Rightarrow> bool result) \<Rightarrow> string \<Rightarrow> pyval \<Rightarrow> pyval \<Rightarrow> bool result" where
  "apply_operator re_search name l r =
     (if name = ''eq'' then Inr (py_eq l r)
      else if name = ''neq'' then Inr (\<not> py_eq l r)
      else if name = ''in'' then py_in l (or_empty r)
      else if name = ''nin'' then res_then (py_in l (or_empty r)) (\<lambda>b. Inr (\<not> b))
      else if name = ''lt'' then compare_present LT l r
      else if name = ''lte'' then compare_present LE l r
      else if name = ''gt'' then compare_present GT l r
      else if name = ''gte'' then compare_present GE l r
      else if name = ''exists'' then Inr (l \<noteq> PNone)
      else if name = ''starts_with''
        then Inr (l \<noteq> PNone \<and> r \<noteq> PNone \<and> take (length (py_str r)) (py_str l) = py_str r)
      else if name = ''matches'' then matches_pattern re_search l r
      else if name = ''contains'' then contains_value l r
      else Inr False)"

definition operand :: "nat \<Rightarrow> pyval list \<Rightarrow> pyval" where
  "operand n vs = (if n < length vs then vs ! n else PNone)"

definition evaluate_operator ::
    "(string \<Rightarrow> string \<Rightarrow> bool result) \<Rightarrow> string \<Rightarrow> pyval list \<Rightarrow> pyval \<Rightarrow> (bool \<times> pyval) result" where
  "evaluate_operator re_search name operands ctx =
     (let l = operand 0 operands; r = operand 1 operands;
          lv = resolve_operand ctx l; rv = resolve_operand ctx r
      in res_then (apply_operator re_search name lv rv) (\<lambda>b.
         Inr (b, PDict [(''op'', PStr name), (''left'', l), (''right'', r), (''left_value'', lv), (''right_value'', rv),
                        (''result'', PBool b)])))"

section \<open>Conditions\<close>

definition index_key :: "pyval \<Rightarrow> string \<Rightarrow> pyval result" where
  "index_key v k =
     (case v of
        PDict kvs \<Rightarrow> (case map_of kvs k of Some x \<Rightarrow> Inr x | None \<Rightarrow> Inl KeyError)
      | _ \<Rightarrow> Inl (TypeError ''indices must be integers''))"

fun first_operator :: "string list \<Rightarrow> pyval \<Rightarrow> string option result" where
  "first_operator [] c = Inr None"
| "first_operator (k # ks) c = res_then (py_in (PStr k) c) (\<lambda>b. if b then Inr (Some k) else first_operator ks c)"

definition operand_list :: "pyval \<Rightarrow> pyval list" where
  "operand_list v = (case v of PList vs \<Rightarrow> vs | _ \<Rightarrow> [v])"

text \<open>How deep a document is nested: what the recursion over a condition descends on.\<close>

fun depth :: "pyval \<Rightarrow> nat" where
  "depth (PList vs) = Suc (fold max (map depth vs) 0)"
| "depth (PDict kvs) = Suc (fold max (map (\<lambda>(k, v). depth v) kvs) 0)"
| "depth _ = 0"

lemma depth_index: "index_key c k = Inr v \<Longrightarrow> depth v < depth c"
  by (auto simp: index_key_def less_Suc_eq_le split: pyval.splits option.splits dest!: map_of_SomeD intro!: le_fold_max)

lemma depth_iter: "py_iter v = Inr vs \<Longrightarrow> x \<in> set vs \<Longrightarrow> depth x \<le> depth v"
  using le_fold_max [of "depth x" "map depth vs" 0] by (cases v) auto

function evaluate_condition ::
    "(string \<Rightarrow> string \<Rightarrow> bool result) \<Rightarrow> pyval \<Rightarrow> pyval \<Rightarrow> (bool \<times> pyval) result" where
  "evaluate_condition re_search c ctx =
     (if \<not> truthy (Some c) then Inr (True, PDict [(''result'', PBool True), (''empty'', PBool True)])
      else
        res_then (py_in (PStr ''all'') c) (\<lambda>has_all.
        if has_all then
          res_then (index_key c ''all'') (\<lambda>v. res_then (py_iter v) (\<lambda>items.
          res_then (res_map (\<lambda>i. evaluate_condition re_search i ctx) items) (\<lambda>results.
          let result = list_all fst results
          in Inr (result, PDict [(''op'', PStr ''all''), (''result'', PBool result), (''children'', PList (map snd results))]))))
        else
        res_then (py_in (PStr ''any'') c) (\<lambda>has_any.
        if has_any then
          res_then (index_key c ''any'') (\<lambda>v. res_then (py_iter v) (\<lambda>items.
          res_then (res_map (\<lambda>i. evaluate_condition re_search i ctx) items) (\<lambda>results.
          let result = list_ex fst results
          in Inr (result, PDict [(''op'', PStr ''any''), (''result'', PBool result), (''children'', PList (map snd results))]))))
        else
        res_then (py_in (PStr ''not'') c) (\<lambda>has_not.
        if has_not then
          res_then (index_key c ''not'') (\<lambda>v.
          res_then (evaluate_condition re_search v ctx) (\<lambda>inner.
          let result = \<not> fst inner
          in Inr (result, PDict [(''op'', PStr ''not''), (''result'', PBool result), (''child'', snd inner)])))
        else
        res_then (first_operator operators c) (\<lambda>found.
        case found of
          None \<Rightarrow> Inr (False, PDict [(''result'', PBool False), (''error'', PStr ''unsupported_condition'')])
        | Some name \<Rightarrow>
            res_then (index_key c name) (\<lambda>v. evaluate_operator re_search name (operand_list v) ctx))))))"
  by pat_completeness auto

termination evaluate_condition
  by (relation "measure (\<lambda>(re_search, c, ctx). depth c)") (auto dest!: depth_index dest: depth_iter)

declare evaluate_condition.simps [simp del]

section \<open>The engine\<close>

text \<open>PostgreSQL puts rows without an activation time first in a descending order.\<close>

definition active_version :: "abac_db \<Rightarrow> abac_policy_version option" where
  "active_version db =
     first_row (sort_key
       (\<lambda>v. (case av_activated_at v of None \<Rightarrow> (0 :: int, 0) | Some t \<Rightarrow> (1, - t), - av_created_at v))
       (filter (\<lambda>v. av_status v = VERSION_ACTIVE) (abac_policy_versions db)))"

fun res_filter :: "('a \<Rightarrow> bool result) \<Rightarrow> 'a list \<Rightarrow> 'a list result" where
  "res_filter p [] = Inr []"
| "res_filter p (x # xs) = res_then (p x) (\<lambda>b. res_then (res_filter p xs) (\<lambda>ys. Inr (if b then x # ys else ys)))"

definition policies_for_action :: "abac_db \<Rightarrow> string \<Rightarrow> string \<Rightarrow> string \<Rightarrow> abac_policy list result" where
  "policies_for_action db version_id action resource_type =
     res_filter (\<lambda>p. py_in (PStr action) (or_empty (ap_actions p)))
       (sort_key (\<lambda>p. - ap_priority p)
         (filter (\<lambda>p. ap_version_id p = version_id \<and> ap_resource_type p = resource_type) (abac_policies db)))"

definition eval_context_of :: "abac_principal \<Rightarrow> abac_resource \<Rightarrow> pyval \<Rightarrow> abac_context \<Rightarrow> pyval" where
  "eval_context_of who resource entitlements cx =
     PDict
       [(''principal'', PDict
           [(''type'', PStr (pr_type who)), (''user_id'', pr_user_id who),
            (''client_id'', pr_client_id who), (''partner_id'', pr_partner_id who),
            (''service_name'', opt_str (pr_service_name who)),
            (''roles'', PList (map PStr (sorted_list_of_set (pr_roles who)))),
            (''scopes'', PList (map PStr (sorted_list_of_set (pr_scopes who)))),
            (''region'', pr_region who)]),
        (''resource'', rs_attributes resource),
        (''entitlements'', entitlements),
        (''context'', PDict
           [(''ip'', opt_str (cx_ip cx)), (''region'', opt_str (cx_region cx)),
            (''ts'', PStr (isoformat (cx_timestamp cx))),
            (''risk'', if truthy (cx_risk cx) then the (cx_risk cx) else PDict [])])]"

definition matched_entry :: "abac_policy \<Rightarrow> pyval" where
  "matched_entry p =
     PDict [(''code'', PStr (ap_code p)), (''effect'', PStr (abac_effect_value (ap_effect p))),
            (''priority'', PInt (ap_priority p)), (''reason_code'', opt_str (ap_reason_code p))]"

type_synonym best_policy = "(abac_policy \<times> pyval \<times> bool) option"

definition better_policy :: "abac_policy \<Rightarrow> pyval \<Rightarrow> best_policy \<Rightarrow> best_policy" where
  "better_policy p explain best =
     (case best of
        None \<Rightarrow> Some (p, explain, ap_effect p = EFFECT_ALLOW)
      | Some (b, _, _) \<Rightarrow>
          if ap_priority p > ap_priority b then Some (p, explain, ap_effect p = EFFECT_ALLOW)
          else if ap_priority p = ap_priority b \<and> ap_effect p = EFFECT_DENY then Some (p, explain, False)
          else best)"

definition policy_condition :: "abac_policy \<Rightarrow> pyval" where
  "policy_condition p = (if truthy (Some (ap_condition p)) then ap_condition p else PDict [])"

fun consider_policies ::
    "(string \<Rightarrow> string \<Rightarrow> bool result) \<Rightarrow> pyval \<Rightarrow> abac_policy list \<Rightarrow> pyval list \<times> best_policy \<Rightarrow>
     (pyval list \<times> best_policy) result" where
  "consider_policies re_search ctx [] (matched, best) = Inr (matched, best)"
| "consider_policies re_search ctx (p # ps) (matched, best) =
     res_then (evaluate_condition re_search (policy_condition p) ctx) (\<lambda>(result, explain).
       if \<not> result then consider_policies re_search ctx ps (matched, best)
       else consider_policies re_search ctx ps (matched @ [matched_entry p], better_policy p explain best))"

definition denied :: "string \<Rightarrow> string \<Rightarrow> pyval list \<Rightarrow> abac_decision" where
  "denied code reason matched =
     \<lparr>ad_allowed = False, ad_reason_code = Some code, ad_matched_policies = matched,
      ad_explain = PDict [(''result'', PBool False), (''reason'', PStr reason)]\<rparr>"

definition decision_of :: "pyval list \<times> best_policy \<Rightarrow> abac_decision" where
  "decision_of mb =
     (case snd mb of
        None \<Rightarrow> denied ''abac_default_deny'' ''no_match'' (fst mb)
      | Some (p, explain, allowed) \<Rightarrow>
          \<lparr>ad_allowed = allowed, ad_reason_code = ap_reason_code p, ad_matched_policies = fst mb,
           ad_explain = PDict
             [(''result'', PBool allowed), (''policy'', PStr (ap_code p)),
              (''effect'', PStr (abac_effect_value (ap_effect p))), (''priority'', PInt (ap_priority p)),
              (''condition'', explain)]\<rparr>)"

definition abac_evaluate ::
    "(string \<Rightarrow> string \<Rightarrow> bool result) \<Rightarrow> abac_db \<Rightarrow> abac_principal \<Rightarrow> string \<Rightarrow> abac_resource \<Rightarrow> pyval \<Rightarrow> abac_context \<Rightarrow>
     abac_decision result" where
  "abac_evaluate re_search db who action resource entitlements cx =
     (case active_version db of
        None \<Rightarrow> Inr (denied ''abac_no_active_version'' ''no_active'' [])
      | Some v \<Rightarrow>
          res_then (policies_for_action db (av_id v) action (rs_type resource)) (\<lambda>policies.
          res_then (consider_policies re_search (eval_context_of who resource entitlements cx) policies ([], None)) (\<lambda>mb.
          Inr (decision_of mb))))"

section \<open>The principal of a token\<close>

definition text_words :: "string \<Rightarrow> string set" where
  "text_words x = {w \<in> set (fold (\<lambda>c ws. if is_space c then [] # ws else (c # hd ws) # tl ws) (rev x) [[]]). w \<noteq> []}"

definition claim :: "pyval \<Rightarrow> string \<Rightarrow> pyval" where
  "claim claims k = (case dict_get k claims of None \<Rightarrow> PNone | Some v \<Rightarrow> v)"

definition claim_or :: "pyval \<Rightarrow> pyval \<Rightarrow> pyval" where
  "claim_or a b = (if truthy (Some a) then a else b)"

definition parse_scopes :: "pyval \<Rightarrow> string set" where
  "parse_scopes claims =
     (case claim_or (claim_or (claim claims ''scopes'') (claim claims ''scope'')) (PList []) of
        PStr x \<Rightarrow> text_words x
      | PList vs \<Rightarrow> {w \<in> py_str ` set vs. w \<noteq> []}
      | _ \<Rightarrow> {})"

definition claimed_roles :: "pyval \<Rightarrow> pyval list result" where
  "claimed_roles claims =
     (let roles = claim_or (claim claims ''roles'') (PList []);
          roles' = (case roles of PStr x \<Rightarrow> PList [roles] | _ \<Rightarrow> roles);
          role = claim claims ''role''
      in if truthy (Some role)
         then res_then (py_in role roles') (\<lambda>b.
              if b then py_iter roles'
              else (case roles' of PList vs \<Rightarrow> Inr (vs @ [role]) | _ \<Rightarrow> Inl AttributeError))
         else py_iter roles')"

definition principal_from_claims :: "pyval \<Rightarrow> abac_principal result" where
  "principal_from_claims claims =
     res_then (claimed_roles claims) (\<lambda>roles.
     let client_id = claim claims ''client_id''; partner_id = claim claims ''partner_id''
     in Inr \<lparr>pr_type = (if truthy (Some partner_id) then ''PARTNER'' else if truthy (Some client_id) then ''CLIENT'' else ''USER''),
             pr_user_id = claim_or (claim claims ''user_id'') (claim claims ''sub''),
             pr_client_id = client_id, pr_partner_id = partner_id, pr_service_name = None,
             pr_roles = py_str ` set (filter (\<lambda>v. truthy (Some v)) roles),
             pr_scopes = parse_scopes claims, pr_region = claim claims ''region''\<rparr>)"

end
