(* ===== verification/Abac_Properties.thy ===== *)
theory Abac_Properties
  imports Abac_Engine
begin

text \<open>
  Two facts about access decisions: conditions that respect a typing of the attributes never raise, and the decision
  is "the highest priority that applies, and a denial wins there", independent of the order of the rows.
\<close>

section \<open>Typing conditions\<close>

text \<open>A typing says what an attribute holds when it is there; an absent one reads as \<open>None\<close> and fits every type.\<close>

datatype attr_type = NUMBER | TEXT | LISTING | ANYTHING

fun fits :: "attr_type \<Rightarrow> pyval \<Rightarrow> bool" where
  "fits NUMBER v = (v = PNone \<or> num_of v \<noteq> None)"
| "fits TEXT v = (v = PNone \<or> text_of v \<noteq> None)"
| "fits LISTING v = (v = PNone \<or> (\<exists>vs. v = PList vs))"
| "fits ANYTHING v = True"

definition operand_type :: "(string \<Rightarrow> attr_type) \<Rightarrow> pyval \<Rightarrow> attr_type" where
  "operand_type \<Gamma> v =
     (case v of
        PStr x \<Rightarrow> if CHR ''.'' \<in> set x then \<Gamma> x else TEXT
      | PInt i \<Rightarrow> NUMBER
      | PBool b \<Rightarrow> NUMBER
      | PList vs \<Rightarrow> LISTING
      | _ \<Rightarrow> ANYTHING)"

definition literal_pattern :: "(string \<Rightarrow> bool) \<Rightarrow> pyval \<Rightarrow> bool" where
  "literal_pattern good v = (case v of PStr x \<Rightarrow> CHR ''.'' \<notin> set x \<and> good x | _ \<Rightarrow> False)"

definition operator_ok :: "(string \<Rightarrow> attr_type) \<Rightarrow> (string \<Rightarrow> bool) \<Rightarrow> string \<Rightarrow> pyval list \<Rightarrow> bool" where
  "operator_ok \<Gamma> good name vs =
     (let l = operand_type \<Gamma> (operand 0 vs); r = operand_type \<Gamma> (operand 1 vs)
      in if name \<in> {''in'', ''nin''} then r = LISTING
         else if name \<in> {''lt'', ''lte'', ''gt'', ''gte''} then l = r \<and> l \<in> {NUMBER, TEXT}
         else if name = ''matches'' then literal_pattern good (operand 1 vs)
         else if name = ''contains'' then l = LISTING
         else True)"

inductive condition_ok :: "(string \<Rightarrow> attr_type) \<Rightarrow> (string \<Rightarrow> bool) \<Rightarrow> pyval \<Rightarrow> bool" for \<Gamma> good where
  ok_empty: "condition_ok \<Gamma> good (PDict [])"
| ok_all: "map_of kvs ''all'' = Some (PList cs) \<Longrightarrow> (\<And>c. c \<in> set cs \<Longrightarrow> condition_ok \<Gamma> good c) \<Longrightarrow>
    condition_ok \<Gamma> good (PDict kvs)"
| ok_any: "map_of kvs ''all'' = None \<Longrightarrow> map_of kvs ''any'' = Some (PList cs) \<Longrightarrow>
    (\<And>c. c \<in> set cs \<Longrightarrow> condition_ok \<Gamma> good c) \<Longrightarrow> condition_ok \<Gamma> good (PDict kvs)"
| ok_not: "map_of kvs ''all'' = None \<Longrightarrow> map_of kvs ''any'' = None \<Longrightarrow> map_of kvs ''not'' = Some c \<Longrightarrow>
    condition_ok \<Gamma> good c \<Longrightarrow> condition_ok \<Gamma> good (PDict kvs)"
| ok_operator: "map_of kvs ''all'' = None \<Longrightarrow> map_of kvs ''any'' = None \<Longrightarrow> map_of kvs ''not'' = None \<Longrightarrow>
    find (\<lambda>k. k \<in> fst ` set kvs) operators = Some name \<Longrightarrow> map_of kvs name = Some v \<Longrightarrow>
    operator_ok \<Gamma> good name (operand_list v) \<Longrightarrow> condition_ok \<Gamma> good (PDict kvs)"
| ok_other: "map_of kvs ''all'' = None \<Longrightarrow> map_of kvs ''any'' = None \<Longrightarrow> map_of kvs ''not'' = None \<Longrightarrow>
    find (\<lambda>k. k \<in> fst ` set kvs) operators = None \<Longrightarrow> condition_ok \<Gamma> good (PDict kvs)"

lemma operand_fits:
  assumes "\<And>path. fits (\<Gamma> path) (get_value ctx path)"
  shows "fits (operand_type \<Gamma> v) (resolve_operand ctx v)"
  using assms by (cases v) (simp_all add: operand_type_def resolve_operand_def)

lemma compare_fits:
  assumes "fits t l" and "fits t r" and "t \<in> {NUMBER, TEXT}"
  shows "\<exists>b. compare_present f l r = Inr b"
  using assms by (auto simp: compare_present_def py_compare_num py_compare_text)

lemma py_in_listing: "fits LISTING r \<Longrightarrow> \<exists>b. py_in l (or_empty r) = Inr b"
  by (auto simp: or_empty_def)

lemma operator_total:
  assumes ctx: "\<And>path. fits (\<Gamma> path) (get_value ctx path)"
    and re: "\<And>p t. good p \<Longrightarrow> \<exists>b. re_search p t = Inr b"
    and ok: "operator_ok \<Gamma> good name vs"
  shows "\<exists>b. apply_operator re_search name (resolve_operand ctx (operand 0 vs)) (resolve_operand ctx (operand 1 vs)) = Inr b"
proof -
  let ?l = "resolve_operand ctx (operand 0 vs)" and ?r = "resolve_operand ctx (operand 1 vs)"
  have l: "fits (operand_type \<Gamma> (operand 0 vs)) ?l" and r: "fits (operand_type \<Gamma> (operand 1 vs)) ?r"
    using operand_fits [OF ctx] by blast+
  consider (mem) "name \<in> {''in'', ''nin''}" | (order) "name \<in> {''lt'', ''lte'', ''gt'', ''gte''}" | (pattern) "name = ''matches''"
    | (contains) "name = ''contains''"
    | (other) "name \<notin> {''in'', ''nin''}" "name \<notin> {''lt'', ''lte'', ''gt'', ''gte''}" "name \<noteq> ''matches''" "name \<noteq> ''contains''"
    by metis
  then show ?thesis
  proof cases
    case mem
    with ok have "operand_type \<Gamma> (operand 1 vs) = LISTING" by (simp add: operator_ok_def Let_def)
    with r obtain b where "py_in ?l (or_empty ?r) = Inr b" using py_in_listing [of ?r ?l] by auto
    with mem show ?thesis by (elim insertE emptyE) (simp_all add: apply_operator_def)
  next
    case order
    with ok have t: "operand_type \<Gamma> (operand 0 vs) = operand_type \<Gamma> (operand 1 vs)"
        "operand_type \<Gamma> (operand 1 vs) \<in> {NUMBER, TEXT}"
      by (auto simp: operator_ok_def Let_def split: if_splits)
    have "\<exists>b. compare_present f ?l ?r = Inr b" for f
      using compare_fits [OF l [unfolded t(1)] r t(2)] .
    with order show ?thesis by (elim insertE emptyE) (simp_all add: apply_operator_def)
  next
    case pattern
    with ok obtain x where x: "operand 1 vs = PStr x" "CHR ''.'' \<notin> set x" "good x"
      by (auto simp: operator_ok_def Let_def literal_pattern_def split: pyval.splits)
    then have "?r = PStr x" by (simp add: resolve_operand_def)
    with pattern re [OF x(3)] show ?thesis by (auto simp: apply_operator_def matches_pattern_def)
  next
    case contains
    with ok have "operand_type \<Gamma> (operand 0 vs) = LISTING" by (simp add: operator_ok_def Let_def)
    with l have "?l = PNone \<or> (\<exists>ws. ?l = PList ws)" by simp
    with contains show ?thesis by (auto simp: apply_operator_def contains_value_def)
  next
    case other
    then show ?thesis by (auto simp: apply_operator_def)
  qed
qed

lemma first_operator_find: "first_operator ks (PDict kvs) = Inr (find (\<lambda>k. k \<in> fst ` set kvs) ks)"
  by (induction ks) simp_all

text \<open>What one node of a condition answers, whatever its kind: the answer is also the \<open>result\<close> of the explanation.\<close>

definition answers :: "(bool \<times> pyval) result \<Rightarrow> bool" where
  "answers r \<longleftrightarrow> (\<exists>b ex. r = Inr (b, ex) \<and> dict_get ''result'' ex = Some (PBool b))"

lemma res_map_answers: "(\<And>x. x \<in> set xs \<Longrightarrow> answers (f x)) \<Longrightarrow> \<exists>rs. res_map f xs = Inr rs"
proof (induction xs)
  case (Cons x xs)
  then obtain rs where "res_map f xs = Inr rs" by auto
  moreover obtain b ex where "f x = Inr (b, ex)" using Cons.prems [of x] by (auto simp: answers_def)
  ultimately show ?case by simp
qed simp

lemma py_in_dict: "py_in (PStr k) (PDict kvs) = Inr (map_of kvs k \<noteq> None)"
  by (simp add: map_of_eq_None_iff)

lemma truthy_dict: "map_of kvs k = Some v \<Longrightarrow> kvs \<noteq> []"
  by auto

lemmas condition_dict_simps = py_in_dict truthy_dict index_key_def

lemma evaluate_all:
  assumes "map_of kvs ''all'' = Some (PList cs)"
  shows "evaluate_condition re_search (PDict kvs) ctx =
    res_then (res_map (\<lambda>i. evaluate_condition re_search i ctx) cs) (\<lambda>results. Inr (list_all fst results,
      PDict [(''op'', PStr ''all''), (''result'', PBool (list_all fst results)), (''children'', PList (map snd results))]))"
  using assms by (subst evaluate_condition.simps) (simp add: condition_dict_simps Let_def del: py_in.simps)

lemma evaluate_any:
  assumes "map_of kvs ''all'' = None" and "map_of kvs ''any'' = Some (PList cs)"
  shows "evaluate_condition re_search (PDict kvs) ctx =
    res_then (res_map (\<lambda>i. evaluate_condition re_search i ctx) cs) (\<lambda>results. Inr (list_ex fst results,
      PDict [(''op'', PStr ''any''), (''result'', PBool (list_ex fst results)), (''children'', PList (map snd results))]))"
  using assms by (subst evaluate_condition.simps) (simp add: condition_dict_simps Let_def del: py_in.simps)

lemma evaluate_not:
  assumes "map_of kvs ''all'' = None" and "map_of kvs ''any'' = None" and "map_of kvs ''not'' = Some c"
  shows "evaluate_condition re_search (PDict kvs) ctx =
    res_then (evaluate_condition re_search c ctx) (\<lambda>inner. Inr (\<not> fst inner,
      PDict [(''op'', PStr ''not''), (''result'', PBool (\<not> fst inner)), (''child'', snd inner)]))"
  using assms by (subst evaluate_condition.simps) (simp add: condition_dict_simps Let_def del: py_in.simps)

lemma evaluate_leaf:
  assumes "map_of kvs ''all'' = None" and "map_of kvs ''any'' = None" and "map_of kvs ''not'' = None" and "kvs \<noteq> []"
  shows "evaluate_condition re_search (PDict kvs) ctx =
    (case find (\<lambda>k. k \<in> fst ` set kvs) operators of
       None \<Rightarrow> Inr (False, PDict [(''result'', PBool False), (''error'', PStr ''unsupported_condition'')])
     | Some name \<Rightarrow> evaluate_operator re_search name (operand_list (the (map_of kvs name))) ctx)"
proof -
  have "map_of kvs name \<noteq> None" if "find (\<lambda>k. k \<in> fst ` set kvs) operators = Some name" for name
    using find_SomeD [OF that] by (simp add: map_of_eq_None_iff)
  with assms show ?thesis
    by (subst evaluate_condition.simps)
      (auto simp: condition_dict_simps first_operator_find simp del: py_in.simps split: option.splits)
qed

lemma evaluate_empty:
  "evaluate_condition re_search (PDict []) ctx = Inr (True, PDict [(''result'', PBool True), (''empty'', PBool True)])"
  by (subst evaluate_condition.simps) simp

lemma result_answers: "dict_get ''result'' ex = Some (PBool b) \<Longrightarrow> answers (Inr (b, ex))"
  by (simp add: answers_def)

lemma typed_answers:
  assumes ok: "condition_ok \<Gamma> good c"
    and ctx: "\<And>path. fits (\<Gamma> path) (get_value ctx path)"
    and re: "\<And>p t. good p \<Longrightarrow> \<exists>b. re_search p t = Inr b"
  shows "answers (evaluate_condition re_search c ctx)"
  using ok
proof induction
  case ok_empty
  show ?case unfolding evaluate_empty by (rule result_answers) (simp add: dict_get_def)
next
  case (ok_all kvs cs)
  then obtain rs where "res_map (\<lambda>i. evaluate_condition re_search i ctx) cs = Inr rs"
    using res_map_answers [of cs "\<lambda>i. evaluate_condition re_search i ctx"] by blast
  then show ?case unfolding evaluate_all [OF ok_all.hyps(1)] by (simp add: result_answers dict_get_def)
next
  case (ok_any kvs cs)
  then obtain rs where "res_map (\<lambda>i. evaluate_condition re_search i ctx) cs = Inr rs"
    using res_map_answers [of cs "\<lambda>i. evaluate_condition re_search i ctx"] by blast
  then show ?case unfolding evaluate_any [OF ok_any.hyps(1,2)] by (simp add: result_answers dict_get_def)
next
  case (ok_not kvs d)
  then obtain b ex where "evaluate_condition re_search d ctx = Inr (b, ex)" by (auto simp: answers_def)
  then show ?case unfolding evaluate_not [OF ok_not.hyps(1-3)] by (simp add: result_answers dict_get_def)
next
  case (ok_operator kvs name v)
  obtain b where "apply_operator re_search name (resolve_operand ctx (operand 0 (operand_list v)))
      (resolve_operand ctx (operand 1 (operand_list v))) = Inr b"
    using operator_total [where re_search = re_search, OF ctx re ok_operator.hyps(6)] by blast
  then show ?case
    using evaluate_leaf [OF ok_operator.hyps(1-3) truthy_dict [OF ok_operator.hyps(5)]] ok_operator.hyps(4,5)
    by (simp add: evaluate_operator_def Let_def result_answers dict_get_def)
next
  case (ok_other kvs)
  show ?case
  proof (cases "kvs = []")
    case True
    then show ?thesis unfolding True evaluate_empty by (simp add: result_answers dict_get_def)
  next
    case False
    with ok_other show ?thesis using evaluate_leaf [OF ok_other(1-3) False]
      by (simp add: result_answers dict_get_def)
  qed
qed

text \<open>C33. A condition that respects a typing of the attributes always gets an answer: evaluation terminates without
  raising, for every document that has the typed attributes or lacks them, and the explanation reports the same
  answer. Ordering a text against a number, membership in something other than a list and a malformed pattern are
  the ways to raise that the typing excludes.\<close>

theorem typed_condition_answers:
  assumes ok: "condition_ok \<Gamma> good c"
    and ctx: "\<And>path. fits (\<Gamma> path) (get_value ctx path)"
    and re: "\<And>p t. good p \<Longrightarrow> \<exists>b. re_search p t = Inr b"
  shows "\<exists>b explain. evaluate_condition re_search c ctx = Inr (b, explain) \<and> dict_get ''result'' explain = Some (PBool b)"
  using typed_answers [OF assms] by (simp add: answers_def)

text \<open>The typing at work: an owner or a role gives access to amounts below a limit.\<close>

definition amount_condition :: pyval where
  "amount_condition = PDict [(''all'', PList
     [PDict [(''lt'', PList [PStr ''resource.amount'', PInt 5000])],
      PDict [(''any'', PList
        [PDict [(''in'', PList [PStr ''CFO'', PStr ''principal.roles''])],
         PDict [(''not'', PDict [(''matches'', PList [PStr ''principal.region'', PStr ''^RU''])])]])]])]"

definition amount_typing :: "string \<Rightarrow> attr_type" where
  "amount_typing path = (if path = ''resource.amount'' then NUMBER else if path = ''principal.roles'' then LISTING else ANYTHING)"

definition amount_attributes :: pyval where
  "amount_attributes = PDict [(''principal'', PDict [(''roles'', PList [PStr ''CFO''])]), (''resource'', PDict [(''amount'', PInt 70)])]"

lemma amount_condition_ok: "condition_ok amount_typing (\<lambda>p. p = ''^RU'') amount_condition"
proof -
  have "condition_ok amount_typing (\<lambda>p. p = ''^RU'') (PDict [(name, v)])"
    if "name \<in> set operators" "operator_ok amount_typing (\<lambda>p. p = ''^RU'') name (operand_list v)" for name v
    by (rule ok_operator [where name = name and v = v]) (use that in \<open>auto simp: operators_def\<close>)
  note leaf = this
  have "condition_ok amount_typing (\<lambda>p. p = ''^RU'') (PDict [(''lt'', PList [PStr ''resource.amount'', PInt 5000])])"
    "condition_ok amount_typing (\<lambda>p. p = ''^RU'') (PDict [(''in'', PList [PStr ''CFO'', PStr ''principal.roles''])])"
    "condition_ok amount_typing (\<lambda>p. p = ''^RU'') (PDict [(''matches'', PList [PStr ''principal.region'', PStr ''^RU''])])"
    by (rule leaf; simp add: operators_def operator_ok_def operand_list_def operand_def operand_type_def amount_typing_def
        literal_pattern_def)+
  note leaves = this
  have "condition_ok amount_typing (\<lambda>p. p = ''^RU'')
      (PDict [(''not'', PDict [(''matches'', PList [PStr ''principal.region'', PStr ''^RU''])])])"
    by (rule ok_not [OF _ _ _ leaves(3)]) simp_all
  then have "condition_ok amount_typing (\<lambda>p. p = ''^RU'') (PDict [(''any'', PList
        [PDict [(''in'', PList [PStr ''CFO'', PStr ''principal.roles''])],
         PDict [(''not'', PDict [(''matches'', PList [PStr ''principal.region'', PStr ''^RU''])])]])])"
    using leaves(2) by (intro ok_any) (simp, simp, auto)
  with leaves(1) show ?thesis unfolding amount_condition_def by (intro ok_all) (simp, auto)
qed

lemma typed_condition_answers_witness:
  "\<exists>b explain. evaluate_condition (\<lambda>p t. if p = ''^RU'' then Inr (take 2 t = ''RU'') else Inl (ValueError ''bad pattern''))
     amount_condition amount_attributes = Inr (b, explain) \<and> dict_get ''result'' explain = Some (PBool b)"
proof (rule typed_condition_answers [OF amount_condition_ok])
  show "fits (amount_typing path) (get_value amount_attributes path)" for path
    by (simp add: amount_typing_def amount_attributes_def get_value_def dict_get_def)
qed simp

section \<open>Denial overrides\<close>

text \<open>
  The reference: a policy applies when it belongs to the active version and to the type of the resource, lists the
  action and its condition holds.
\<close>

definition in_scope :: "abac_db \<Rightarrow> string \<Rightarrow> abac_resource \<Rightarrow> abac_policy \<Rightarrow> bool" where
  "in_scope db action resource p \<longleftrightarrow>
     (\<exists>v. active_version db = Some v \<and> ap_version_id p = av_id v) \<and> ap_resource_type p = rs_type resource \<and>
     py_in (PStr action) (or_empty (ap_actions p)) = Inr True"

definition condition_holds :: "(string \<Rightarrow> string \<Rightarrow> bool result) \<Rightarrow> pyval \<Rightarrow> abac_policy \<Rightarrow> bool" where
  "condition_holds re_search ctx p \<longleftrightarrow> (\<exists>ex. evaluate_condition re_search (policy_condition p) ctx = Inr (True, ex))"

definition applicable ::
    "(string \<Rightarrow> string \<Rightarrow> bool result) \<Rightarrow> abac_db \<Rightarrow> string \<Rightarrow> abac_resource \<Rightarrow> pyval \<Rightarrow> abac_policy set" where
  "applicable re_search db action resource ctx =
     {p \<in> set (abac_policies db). in_scope db action resource p \<and> condition_holds re_search ctx p}"

definition permitted :: "abac_policy set \<Rightarrow> bool" where
  "permitted M \<longleftrightarrow>
     (\<exists>p\<in>M. ap_effect p = EFFECT_ALLOW \<and> (\<forall>q\<in>M. ap_priority q \<le> ap_priority p)) \<and>
     (\<forall>p\<in>M. (\<forall>q\<in>M. ap_priority q \<le> ap_priority p) \<longrightarrow> ap_effect p = EFFECT_ALLOW)"

lemma permitted_empty [simp]: "\<not> permitted {}"
  by (simp add: permitted_def)

text \<open>What the loop has kept after the policies \<open>M\<close>: one of the highest priority, a denial if there is one among those.\<close>

fun keeps_best :: "abac_policy set \<Rightarrow> best_policy \<Rightarrow> bool" where
  "keeps_best M None = (M = {})"
| "keeps_best M (Some (b, _, allowed)) =
     (b \<in> M \<and> (\<forall>q\<in>M. ap_priority q \<le> ap_priority b) \<and> (allowed \<longleftrightarrow> ap_effect b = EFFECT_ALLOW) \<and>
      (allowed \<longrightarrow> (\<forall>q\<in>M. ap_priority q = ap_priority b \<longrightarrow> ap_effect q = EFFECT_ALLOW)))"

lemma not_DENY [simp]: "x \<noteq> EFFECT_DENY \<longleftrightarrow> x = EFFECT_ALLOW" "x \<noteq> EFFECT_ALLOW \<longleftrightarrow> x = EFFECT_DENY"
  by (cases x; simp)+

lemma keeps_best_step: "keeps_best M best \<Longrightarrow> keeps_best (insert p M) (better_policy p ex best)"
proof (cases best)
  case (Some t)
  obtain b e allowed where t: "t = (b, e, allowed)" by (cases t)
  assume best: "keeps_best M best"
  have "q \<in> M \<Longrightarrow> ap_priority q \<le> ap_priority b" for q using best Some t by simp
  then have "q \<in> M \<Longrightarrow> ap_priority b < ap_priority p \<Longrightarrow> ap_priority q < ap_priority p" for q by fastforce
  with best Some t show ?thesis by (auto simp: better_policy_def le_less)
qed (simp add: better_policy_def)

lemma keeps_best_permitted: "keeps_best M best \<Longrightarrow> ad_allowed (decision_of (matched, best)) \<longleftrightarrow> permitted M"
proof (cases best)
  case (Some t)
  obtain b e allowed where t: "t = (b, e, allowed)" by (cases t)
  assume "keeps_best M best"
  with Some t have b: "b \<in> M" "\<forall>q\<in>M. ap_priority q \<le> ap_priority b" "allowed \<longleftrightarrow> ap_effect b = EFFECT_ALLOW"
      "allowed \<longrightarrow> (\<forall>q\<in>M. ap_priority q = ap_priority b \<longrightarrow> ap_effect q = EFFECT_ALLOW)"
    by simp_all
  have "ap_priority p = ap_priority b" if "p \<in> M" "\<forall>q\<in>M. ap_priority q \<le> ap_priority p" for p
    using that b(1,2) by (simp add: antisym)
  with b have "permitted M \<longleftrightarrow> allowed" unfolding permitted_def by metis
  with Some t show ?thesis by (simp add: decision_of_def)
qed (simp add: decision_of_def denied_def)

lemma consider_policies_spec:
  assumes "\<And>p. p \<in> set ps \<Longrightarrow> \<exists>b ex. evaluate_condition re_search (policy_condition p) ctx = Inr (b, ex)"
    and "keeps_best M best"
  shows "\<exists>best'. consider_policies re_search ctx ps (matched, best) =
      Inr (matched @ map matched_entry (filter (condition_holds re_search ctx) ps), best') \<and>
    keeps_best (M \<union> {p \<in> set ps. condition_holds re_search ctx p}) best'"
  using assms
proof (induction ps arbitrary: M matched best)
  case (Cons p ps)
  obtain b ex where ev: "evaluate_condition re_search (policy_condition p) ctx = Inr (b, ex)"
    using Cons.prems(1) by fastforce
  then have b: "condition_holds re_search ctx p = b" by (auto simp: condition_holds_def)
  show ?case
  proof (cases b)
    case True
    have "insert p M \<union> {q \<in> set ps. condition_holds re_search ctx q} =
        M \<union> {q \<in> set (p # ps). condition_holds re_search ctx q}"
      using b True by auto
    with Cons.IH [OF _ keeps_best_step [OF Cons.prems(2), of p ex], of "matched @ [matched_entry p]"] Cons.prems(1) ev b True
    show ?thesis by simp
  next
    case False
    then have "{q \<in> set (p # ps). condition_holds re_search ctx q} = {q \<in> set ps. condition_holds re_search ctx q}"
      using b by auto
    with Cons.IH [OF _ Cons.prems(2), of matched] Cons.prems(1) ev b False show ?thesis by simp
  qed
qed simp

lemma res_filter_total:
  "(\<And>x. x \<in> set xs \<Longrightarrow> \<exists>b. p x = Inr b) \<Longrightarrow> res_filter p xs = Inr (filter (\<lambda>x. p x = Inr True) xs)"
proof (induction xs)
  case (Cons x xs)
  from Cons.prems obtain b where "p x = Inr b" by fastforce
  with Cons show ?case by simp
qed simp

text \<open>
  A database is well typed when the actions of every policy are a list and every condition respects the typing.
\<close>

definition typed_policy :: "(string \<Rightarrow> attr_type) \<Rightarrow> (string \<Rightarrow> bool) \<Rightarrow> abac_policy \<Rightarrow> bool" where
  "typed_policy \<Gamma> good p \<longleftrightarrow> fits LISTING (ap_actions p) \<and> condition_ok \<Gamma> good (policy_condition p)"

text \<open>C11. Access is decided as the policies say: on a well typed database the engine always returns, it allows exactly when
  some applicable policy of the highest applicable priority allows and none of that priority denies, so nothing is
  allowed by default, a denial wins among equals and the order of the rows is irrelevant; the applicable
  policies are the ones it reports.\<close>

theorem abac_deny_overrides:
  assumes typed: "\<forall>p\<in>set (abac_policies db). typed_policy \<Gamma> good p"
    and ctx: "\<And>path. fits (\<Gamma> path) (get_value (eval_context_of who resource entitlements cx) path)"
    and re: "\<And>p t. good p \<Longrightarrow> \<exists>b. re_search p t = Inr b"
  shows "\<exists>d. abac_evaluate re_search db who action resource entitlements cx = Inr d \<and>
    (ad_allowed d \<longleftrightarrow> permitted (applicable re_search db action resource (eval_context_of who resource entitlements cx))) \<and>
    set (ad_matched_policies d) =
      matched_entry ` applicable re_search db action resource (eval_context_of who resource entitlements cx)"
    (is "\<exists>d. ?run = Inr d \<and> (_ \<longleftrightarrow> permitted ?M) \<and> _")
proof (cases "active_version db")
  case None
  then have "?M = {}" by (simp add: applicable_def in_scope_def)
  then show ?thesis using None by (simp add: abac_evaluate_def denied_def)
next
  case (Some v)
  let ?ctx = "eval_context_of who resource entitlements cx"
  define rows where "rows = sort_key (\<lambda>p. - ap_priority p)
    (filter (\<lambda>p. ap_version_id p = av_id v \<and> ap_resource_type p = rs_type resource) (abac_policies db))"
  define ps where "ps = filter (\<lambda>p. py_in (PStr action) (or_empty (ap_actions p)) = Inr True) rows"
  have rows: "p \<in> set (abac_policies db)" if "p \<in> set rows" for p using that by (simp add: rows_def)
  have "policies_for_action db (av_id v) action (rs_type resource) = Inr ps"
    unfolding policies_for_action_def ps_def rows_def [symmetric]
    by (rule res_filter_total) (use rows typed py_in_listing in \<open>auto simp: typed_policy_def simp del: fits.simps\<close>)
  moreover have "\<exists>b ex. evaluate_condition re_search (policy_condition p) ?ctx = Inr (b, ex)" if "p \<in> set ps" for p
  proof -
    from that typed rows have "condition_ok \<Gamma> good (policy_condition p)" by (simp add: ps_def typed_policy_def)
    from typed_answers [where re_search = re_search, OF this ctx re] show ?thesis by (auto simp: answers_def)
  qed
  then obtain best where "consider_policies re_search ?ctx ps ([], None) =
      Inr (map matched_entry (filter (condition_holds re_search ?ctx) ps), best)"
    and best: "keeps_best {p \<in> set ps. condition_holds re_search ?ctx p} best"
    using consider_policies_spec [of ps re_search ?ctx "{}" None "[]"] by auto
  moreover have "{p \<in> set ps. condition_holds re_search ?ctx p} = ?M"
    using Some by (auto simp: applicable_def ps_def rows_def in_scope_def)
  moreover have "ad_matched_policies (decision_of mb) = fst mb" for mb :: "pyval list \<times> best_policy"
    by (simp add: decision_of_def denied_def split: option.split)
  ultimately show ?thesis
    using Some keeps_best_permitted [OF best] by (auto simp: abac_evaluate_def)
qed

text \<open>An export that one policy allows and another of the same priority denies.\<close>

definition export_policy :: "string \<Rightarrow> abac_effect \<Rightarrow> abac_policy" where
  "export_policy code effect =
     \<lparr>ap_version_id = ''v1'', ap_code = code, ap_effect = effect, ap_priority = 100, ap_actions = PList [PStr ''payouts:export''],
      ap_resource_type = ''PAYOUT_BATCH'', ap_condition = PDict [(''exists'', PList [PStr ''principal.type''])],
      ap_reason_code = Some code\<rparr>"

definition export_db :: abac_db where
  "export_db =
     \<lparr>abac_policy_versions = [\<lparr>av_id = ''v1'', av_status = VERSION_ACTIVE, av_created_at = 0, av_activated_at = Some 5\<rparr>],
      abac_policies = [export_policy ''OVERRIDE_ALLOW'' EFFECT_ALLOW, export_policy ''OVERRIDE_DENY'' EFFECT_DENY]\<rparr>"

definition export_principal :: abac_principal where
  "export_principal =
     \<lparr>pr_type = ''USER'', pr_user_id = PStr ''u1'', pr_client_id = PNone, pr_partner_id = PNone, pr_service_name = None,
      pr_roles = {''ADMIN''}, pr_scopes = {}, pr_region = PNone\<rparr>"

lemma export_policies_typed: "\<forall>p\<in>set (abac_policies export_db). typed_policy (\<lambda>_. ANYTHING) (\<lambda>_. True) p"
proof -
  have "condition_ok (\<lambda>_. ANYTHING) (\<lambda>_. True) (PDict [(''exists'', PList [PStr ''principal.type''])])"
    by (rule ok_operator [where name = "''exists''"]) (simp_all add: operators_def operator_ok_def)
  then show ?thesis by (simp add: export_db_def export_policy_def typed_policy_def policy_condition_def)
qed

lemma abac_deny_overrides_witness:
  "\<exists>d. abac_evaluate (\<lambda>p t. Inr False) export_db export_principal ''payouts:export''
        \<lparr>rs_type = ''PAYOUT_BATCH'', rs_attributes = PDict []\<rparr> (PDict [])
        \<lparr>cx_ip = None, cx_region = None, cx_timestamp = 0, cx_risk = None\<rparr> = Inr d \<and>
     (ad_allowed d \<longleftrightarrow> permitted (applicable (\<lambda>p t. Inr False) export_db ''payouts:export''
        \<lparr>rs_type = ''PAYOUT_BATCH'', rs_attributes = PDict []\<rparr>
        (eval_context_of export_principal \<lparr>rs_type = ''PAYOUT_BATCH'', rs_attributes = PDict []\<rparr> (PDict [])
          \<lparr>cx_ip = None, cx_region = None, cx_timestamp = 0, cx_risk = None\<rparr>)))"
  using abac_deny_overrides [OF export_policies_typed, of export_principal
      "\<lparr>rs_type = ''PAYOUT_BATCH'', rs_attributes = PDict []\<rparr>" "PDict []"
      "\<lparr>cx_ip = None, cx_region = None, cx_timestamp = 0, cx_risk = None\<rparr>" "\<lambda>p t. Inr False" "''payouts:export''"]
  by auto

section \<open>Literals with a full stop\<close>

text \<open>
  A text with a full stop is read as the path of an attribute, so an address, a host name or a pattern that contains one is
  looked up and comes back as \<open>None\<close>. It then equals every absent attribute: a condition that compares an
  absent attribute with such a literal holds, and a pattern with a full stop never matches.
\<close>

lemma dotted_literal_equals_missing:
  assumes "CHR ''.'' \<in> set path" and "CHR ''.'' \<in> set literal"
    and "get_value ctx path = PNone" and "get_value ctx literal = PNone"
  shows "\<exists>ex. evaluate_condition re_search (PDict [(''eq'', PList [PStr path, PStr literal])]) ctx = Inr (True, ex)"
proof -
  have "find (\<lambda>k. k \<in> fst ` set [(''eq'', PList [PStr path, PStr literal])]) operators = Some ''eq''"
    by (simp add: operators_def)
  with assms show ?thesis
    by (simp add: evaluate_leaf evaluate_operator_def apply_operator_def operand_list_def operand_def resolve_operand_def Let_def)
qed

lemma dotted_pattern_never_matches:
  assumes "CHR ''.'' \<in> set pat" and "get_value ctx pat = PNone"
  shows "\<exists>ex. evaluate_condition re_search (PDict [(''matches'', PList [v, PStr pat])]) ctx = Inr (False, ex)"
proof -
  have "find (\<lambda>k. k \<in> fst ` set [(''matches'', PList [v, PStr pat])]) operators = Some ''matches''"
    by (simp add: operators_def)
  with assms show ?thesis
    by (simp add: evaluate_leaf evaluate_operator_def apply_operator_def matches_pattern_def operand_list_def operand_def
        resolve_operand_def Let_def)
qed

end
