(* ===== verification/Edo_Service.thy ===== *)
theory Edo_Service
  imports Py_Compare Lifecycle Settlement
begin

text \<open>
  Electronic documents (\<open>services/edo\<close>, \<open>integrations/edo\<close>, \<open>tasks/edo.py\<close>): the status table, the recorded
  transitions, the outbox with its retries, the exchange with the provider SBIS, inbound events and signed artifacts. The
  provider's HTTP endpoint, the secret store and the object storage are outside: they are functions of the
  environment \<open>edo_env\<close>, and what is asked of the provider is kept in \<open>provider_requests\<close>. The \<open>n\<close>-th request may be
  answered differently from the ones before. Rows that a handler adds are written at once; the identifiers in
  payloads are texts; columns that no operation reads or writes are left out of the rows.
\<close>

section \<open>Statuses\<close>

datatype edo_status =
    EDO_DRAFT | EDO_QUEUED | EDO_SENDING | EDO_SENT | EDO_DELIVERED | EDO_SIGNED | EDO_REJECTED | EDO_REVOKED | EDO_FAILED
  | EDO_UNKNOWN

fun edo_status_value :: "edo_status \<Rightarrow> string" where
  "edo_status_value EDO_DRAFT = ''DRAFT''"
| "edo_status_value EDO_QUEUED = ''QUEUED''"
| "edo_status_value EDO_SENDING = ''SENDING''"
| "edo_status_value EDO_SENT = ''SENT''"
| "edo_status_value EDO_DELIVERED = ''DELIVERED''"
| "edo_status_value EDO_SIGNED = ''SIGNED''"
| "edo_status_value EDO_REJECTED = ''REJECTED''"
| "edo_status_value EDO_REVOKED = ''REVOKED''"
| "edo_status_value EDO_FAILED = ''FAILED''"
| "edo_status_value EDO_UNKNOWN = ''UNKNOWN''"

fun edo_allowed :: "edo_status \<Rightarrow> edo_status list" where
  "edo_allowed EDO_DRAFT = [EDO_QUEUED]"
| "edo_allowed EDO_QUEUED = [EDO_SENDING]"
| "edo_allowed EDO_SENDING = [EDO_SENT, EDO_FAILED]"
| "edo_allowed EDO_SENT = [EDO_DELIVERED, EDO_REJECTED, EDO_REVOKED, EDO_FAILED]"
| "edo_allowed EDO_DELIVERED = [EDO_SIGNED, EDO_REJECTED, EDO_REVOKED, EDO_FAILED]"
| "edo_allowed EDO_FAILED = [EDO_QUEUED]"
| "edo_allowed _ = []"

definition can_transition :: "edo_status \<Rightarrow> edo_status \<Rightarrow> bool" where
  "can_transition a b \<longleftrightarrow> b \<in> set (edo_allowed a)"

definition assert_transition :: "edo_status \<Rightarrow> edo_status \<Rightarrow> unit result" where
  "assert_transition a b =
     (if can_transition a b then Inr ()
      else Inl (EdoTransitionError (''invalid_transition:'' @ edo_status_value a @ ''->'' @ edo_status_value b)))"

text \<open>What \<open>_apply_transition\<close> makes of the table: staying is allowed, and so is \<open>UNKNOWN\<close>, from anywhere.\<close>

definition edo_guard :: "edo_status \<Rightarrow> edo_status \<Rightarrow> unit result" where
  "edo_guard a b =
     (if a = b then Inr ()
      else (case assert_transition a b of
              Inl e \<Rightarrow> if b = EDO_UNKNOWN then Inr () else Inl e
            | Inr u \<Rightarrow> Inr u))"

section \<open>Rows\<close>

datatype edo_outbox_status = OUTBOX_PENDING | OUTBOX_SENT | OUTBOX_FAILED | OUTBOX_DEAD

datatype edo_inbound_status = INBOUND_RECEIVED | INBOUND_PROCESSED | INBOUND_FAILED

datatype edo_actor = ACTOR_SYSTEM | ACTOR_USER | ACTOR_PROVIDER

datatype edo_artifact_type = SIGNED_PACKAGE | SIGNATURE | RECEIPT | PROTOCOL | OTHER_ARTIFACT

datatype document_file_type = FILE_PDF | FILE_XLSX | FILE_SIG | FILE_P7S | FILE_CERT | FILE_EDI_XML

record edo_account =
  ea_id :: string
  ea_box_id :: string
  ea_credentials_ref :: string

record edo_document =
  ed_id :: string
  ed_account_id :: string
  ed_document_registry_id :: string
  ed_provider_doc_id :: "string option"
  ed_status :: edo_status
  ed_attempts_send :: int
  ed_attempts_status :: int
  ed_last_error :: "string option"
  ed_last_status_payload :: "pyval option"
  ed_requires_manual_intervention :: bool

record edo_transition =
  et_id :: string
  et_document_id :: string
  et_from_status :: edo_status
  et_to_status :: edo_status
  et_reason_code :: string
  et_payload :: pyval
  et_actor_type :: edo_actor

record edo_inbound_event =
  ie_id :: string
  ie_provider_event_id :: string
  ie_headers :: payload
  ie_payload :: payload
  ie_received_at :: int
  ie_processed_at :: "int option"
  ie_status :: edo_inbound_status

record edo_outbox =
  ob_id :: string
  ob_payload :: payload
  ob_dedupe_key :: string
  ob_status :: edo_outbox_status
  ob_attempts :: int
  ob_next_attempt_at :: "int option"
  ob_last_error :: "string option"

record registry_document =
  rd_id :: string
  rd_client_id :: string
  rd_document_type :: string
  rd_period_from :: int
  rd_period_to :: int
  rd_version :: int

record document_file =
  df_document_id :: string
  df_file_type :: document_file_type
  df_object_key :: string
  df_sha256 :: string
  df_size_bytes :: nat
  df_content_type :: string

record edo_artifact =
  ar_document_id :: string
  ar_artifact_type :: edo_artifact_type
  ar_registry_id :: string
  ar_content_hash :: string
  ar_provider_ref :: pyval

record provider_request =
  pq_url :: string
  pq_json :: pyval

record edo_db = audit_db +
  edo_accounts :: "edo_account list"
  edo_documents :: "edo_document list"
  edo_transitions :: "edo_transition list"
  edo_outboxes :: "edo_outbox list"
  edo_inbound_events :: "edo_inbound_event list"
  edo_artifacts :: "edo_artifact list"
  registry_documents :: "registry_document list"
  document_files :: "document_file list"
  provider_requests :: "provider_request list"

record sbis_credentials =
  sc_base_url :: string
  sc_meta :: pyval

record edo_env =
  ee_world :: world
  ee_error_text :: "py_exc \<Rightarrow> string"
  ee_credentials :: "string \<Rightarrow> sbis_credentials result"
  ee_post :: "nat \<Rightarrow> provider_request \<Rightarrow> pyval result"
  ee_get :: "string \<Rightarrow> string result"
  ee_fetch_bytes :: "string \<Rightarrow> string option result"
  ee_put_bytes :: "string \<Rightarrow> string \<Rightarrow> string \<Rightarrow> unit result"

definition MAX_ATTEMPTS :: int where
  "MAX_ATTEMPTS = 5"

text \<open>\<open>db.get(Model, id)\<close> on a primary key.\<close>

definition by_id :: "('r \<Rightarrow> string) \<Rightarrow> pyval \<Rightarrow> 'r list \<Rightarrow> 'r option" where
  "by_id key v rows = (case text_of v of None \<Rightarrow> None | Some i \<Rightarrow> find (\<lambda>r. key r = i) rows)"

definition save_document :: "edo_document \<Rightarrow> ('a edo_db_scheme, unit) act" where
  "save_document d = update_state (\<lambda>s. s\<lparr>edo_documents := store_row ed_id d (edo_documents s)\<rparr>)"

definition or_raise :: "'a option \<Rightarrow> string \<Rightarrow> ('s, 'a) act" where
  "or_raise x msg = (case x of None \<Rightarrow> raise_exc (RuntimeError msg) | Some a \<Rightarrow> ret a)"

section \<open>\<open>json.dumps(payload, sort_keys=True)\<close>\<close>

text \<open>Characters beyond ASCII are written as escapes of their UTF-16 units.\<close>

definition hex4 :: "nat \<Rightarrow> string" where
  "hex4 n = [CHR 0x5C, CHR ''u'', hex_char (n div 4096 mod 16), hex_char (n div 256 mod 16), hex_char (n div 16 mod 16),
             hex_char (n mod 16)]"

definition utf16_escape :: "nat \<Rightarrow> string" where
  "utf16_escape n =
     (if n < 65536 then hex4 n
      else hex4 (55296 + (n - 65536) div 1024) @ hex4 (56320 + (n - 65536) mod 1024))"

fun ascii_escapes :: "nat \<Rightarrow> nat \<Rightarrow> string \<Rightarrow> string" where
  "ascii_escapes acc left [] = []"
| "ascii_escapes acc left (c # s) =
     (let b = (of_char c :: nat)
      in if b < 127 then escape_char c @ ascii_escapes 0 0 s
         else if b = 127 then hex4 b @ ascii_escapes 0 0 s
         else if b < 192 then
           (let n = acc * 64 + (b - 128)
            in if left \<le> 1 then utf16_escape n @ ascii_escapes 0 0 s else ascii_escapes n (left - 1) s)
         else if b < 224 then ascii_escapes (b - 192) 1 s
         else if b < 240 then ascii_escapes (b - 224) 2 s
         else ascii_escapes (b - 240) 3 s)"

definition quote_ascii :: "string \<Rightarrow> string" where
  "quote_ascii s = CHR 0x22 # ascii_escapes 0 0 s @ [CHR 0x22]"

fun dumps_sorted :: "pyval \<Rightarrow> string" where
  "dumps_sorted PNone = ''null''"
| "dumps_sorted (PBool b) = (if b then ''true'' else ''false'')"
| "dumps_sorted (PInt i) = show_int i"
| "dumps_sorted (PStr s) = quote_ascii s"
| "dumps_sorted (PEnum s) = quote_ascii s"
| "dumps_sorted (PUuid s) = quote_ascii s"
| "dumps_sorted (PDatetime t) = quote_ascii (isoformat t)"
| "dumps_sorted (PList vs) = ''['' @ join '', '' (map dumps_sorted vs) @ '']''"
| "dumps_sorted (PDict kvs) =
     ''{'' @ join '', '' (map snd (sort_key fst
        (map (\<lambda>(k, v). (k, quote_ascii k @ '': '' @ dumps_sorted v)) kvs))) @ ''}''"

section \<open>Transitions\<close>

definition edo_audit_event ::
    "edo_env \<Rightarrow> edo_document \<Rightarrow> edo_status \<Rightarrow> string \<Rightarrow> pyval \<Rightarrow> ('a edo_db_scheme, audit_record) act" where
  "edo_audit_event env d status reason p =
     audit (ee_world env)
       \<lparr>ev_event_type = ''EDO_'' @ edo_status_value status, ev_entity_type = ''EDO_DOCUMENT'', ev_entity_id = ed_id d,
        ev_action = reason, ev_visibility = INTERNAL, ev_before = None,
        ev_after = Some
          [(''status'', PStr (edo_status_value status)), (''provider_doc_id'', opt_str (ed_provider_doc_id d)),
           (''document_registry_id'', PStr (ed_document_registry_id d))],
        ev_diff = None,
        ev_external_refs = Some [(''payload_hash'', PStr (sha256_hex (ee_world env) (dumps_sorted p)))],
        ev_reason = None, ev_attachment_key = None\<rparr> (Some system_context)"

definition edo_apply_transition ::
    "edo_env \<Rightarrow> edo_document \<Rightarrow> edo_status \<Rightarrow> string \<Rightarrow> pyval \<Rightarrow> edo_actor \<Rightarrow> ('a edo_db_scheme, edo_document) act" where
  "edo_apply_transition env d to reason p actor =
     and_then (lift_result (edo_guard (ed_status d) to)) (\<lambda>_.
     and_then (save_document (d\<lparr>ed_status := to\<rparr>)) (\<lambda>_.
     and_then (new_uuid_str (ee_world env)) (\<lambda>i.
     and_then (update_state (\<lambda>s. s\<lparr>edo_transitions := edo_transitions s @
       [\<lparr>et_id = i, et_document_id = ed_id d, et_from_status = ed_status d, et_to_status = to, et_reason_code = reason,
         et_payload = p, et_actor_type = actor\<rparr>]\<rparr>)) (\<lambda>_.
     and_then (edo_audit_event env (d\<lparr>ed_status := to\<rparr>) to reason p) (\<lambda>_.
     ret (d\<lparr>ed_status := to\<rparr>))))))"

section \<open>The provider\<close>

record sbis_status =
  ss_status :: edo_status
  ss_provider_status :: string
  ss_last_status_payload :: pyval

definition get_or_none :: "pyval \<Rightarrow> string \<Rightarrow> pyval" where
  "get_or_none p k = (case dict_get k p of None \<Rightarrow> PNone | Some v \<Rightarrow> v)"

definition value_or :: "pyval \<Rightarrow> pyval \<Rightarrow> pyval" where
  "value_or a b = (if truthy (Some a) then a else b)"

definition sbis_statuses :: "(string \<times> edo_status) list" where
  "sbis_statuses = map (\<lambda>x. (edo_status_value x, x))
     [EDO_DRAFT, EDO_QUEUED, EDO_SENDING, EDO_SENT, EDO_DELIVERED, EDO_SIGNED, EDO_REJECTED, EDO_REVOKED, EDO_FAILED]"

text \<open>The text of a status is ASCII.\<close>

definition map_sbis_status :: "pyval \<Rightarrow> sbis_status" where
  "map_sbis_status p =
     (let name = map upper_char (py_str (value_or (value_or (get_or_none p ''status'') (get_or_none p ''state'')) (PStr ''UNKNOWN'')))
      in \<lparr>ss_status = (case map_of sbis_statuses name of None \<Rightarrow> EDO_UNKNOWN | Some x \<Rightarrow> x),
          ss_provider_status = name, ss_last_status_payload = p\<rparr>)"

record send_request =
  sr_edo_document_id :: pyval
  sr_account_id :: pyval
  sr_document_registry_id :: pyval
  sr_counterparty_id :: pyval
  sr_doc_type :: pyval
  sr_meta :: pyval

record send_result =
  sn_provider_doc_id :: string
  sn_status :: edo_status
  sn_raw :: pyval

record status_result =
  st_status :: edo_status
  st_raw :: pyval
  st_signed_artifacts :: pyval

definition endpoint :: "sbis_credentials \<Rightarrow> string \<Rightarrow> string \<Rightarrow> string" where
  "endpoint c key fallback =
     (if truthy (Some (sc_meta c)) \<and> truthy (Some (get_or_none (sc_meta c) key)) then py_str (get_or_none (sc_meta c) key) else fallback)"

definition rstrip_slash :: "string \<Rightarrow> string" where
  "rstrip_slash x = rev (dropWhile (\<lambda>c. c = CHR ''/'') (rev x))"

text \<open>\<open>_request\<close> with what its callers do to the answer first: every one of them calls \<open>.get\<close> on it.\<close>

definition post_json :: "edo_env \<Rightarrow> sbis_credentials \<Rightarrow> string \<Rightarrow> pyval \<Rightarrow> ('a edo_db_scheme, pyval) act" where
  "post_json env c path p =
     (let q = \<lparr>pq_url = rstrip_slash (sc_base_url c) @ path, pq_json = p\<rparr>
      in and_then (reading (\<lambda>s. length (provider_requests s))) (\<lambda>n.
         and_then (update_state (\<lambda>s. s\<lparr>provider_requests := provider_requests s @ [q]\<rparr>)) (\<lambda>_.
         and_then (lift_result (ee_post env n q)) (\<lambda>r.
         if is_dict (Some r) then ret r else raise_exc AttributeError))))"

definition credentials_for_account :: "edo_env \<Rightarrow> pyval \<Rightarrow> ('a edo_db_scheme, sbis_credentials) act" where
  "credentials_for_account env account_id =
     and_then (reading (\<lambda>s. by_id ea_id account_id (edo_accounts s))) (\<lambda>a.
     and_then (or_raise a ''edo_account_not_found'') (\<lambda>account.
     lift_result (ee_credentials env (ea_credentials_ref account))))"

definition b64_char :: "nat \<Rightarrow> char" where
  "b64_char n =
     (if n < 26 then char_of (65 + n) else if n < 52 then char_of (71 + n) else if n < 62 then char_of (n - 4)
      else if n = 62 then CHR ''+'' else CHR ''/'')"

fun b64encode :: "string \<Rightarrow> string" where
  "b64encode [] = []"
| "b64encode [a] = (let n = (of_char a :: nat) * 16 in [b64_char (n div 64), b64_char (n mod 64), CHR ''='', CHR ''=''])"
| "b64encode [a, b] =
     (let n = ((of_char a :: nat) * 256 + of_char b) * 4
      in [b64_char (n div 4096), b64_char (n div 64 mod 64), b64_char (n mod 64), CHR ''=''])"
| "b64encode (a # b # c # s) =
     (let n = ((of_char a :: nat) * 256 + of_char b) * 256 + of_char c
      in [b64_char (n div 262144), b64_char (n div 4096 mod 64), b64_char (n div 64 mod 64), b64_char (n mod 64)] @ b64encode s)"

text \<open>What a send needs: the account with its credentials, and the bytes of the document's one PDF file.\<close>

definition sbis_material ::
    "edo_env \<Rightarrow> send_request \<Rightarrow> ('a edo_db_scheme, edo_account \<times> sbis_credentials \<times> string) act" where
  "sbis_material env q =
     and_then (reading (\<lambda>s. by_id ea_id (sr_account_id q) (edo_accounts s))) (\<lambda>a.
     and_then (or_raise a ''edo_account_not_found'') (\<lambda>account.
     and_then (lift_result (ee_credentials env (ea_credentials_ref account))) (\<lambda>c.
     and_then (reading (\<lambda>s. by_id rd_id (sr_document_registry_id q) (registry_documents s))) (\<lambda>d.
     and_then (or_raise d ''document_not_found'') (\<lambda>doc.
     and_then (query_one (\<lambda>f. df_document_id f = rd_id doc \<and> df_file_type f = FILE_PDF) document_files) (\<lambda>f.
     and_then (or_raise f ''document_file_not_found'') (\<lambda>file.
     and_then (lift_result (ee_fetch_bytes env (df_object_key file))) (\<lambda>bytes.
     and_then (or_raise bytes ''document_payload_not_found'') (\<lambda>content.
     ret (account, c, content))))))))))"

definition response_doc_id :: "pyval \<Rightarrow> pyval" where
  "response_doc_id r = value_or (value_or (get_or_none r ''provider_doc_id'') (get_or_none r ''doc_id'')) (get_or_none r ''id'')"

definition sbis_send :: "edo_env \<Rightarrow> send_request \<Rightarrow> ('a edo_db_scheme, send_result) act" where
  "sbis_send env q =
     and_then (sbis_material env q) (\<lambda>(account, c, content).
     and_then (post_json env c (endpoint c ''send_path'' ''/edo/send'')
       (PDict [(''account_box_id'', PStr (ea_box_id account)), (''counterparty_id'', sr_counterparty_id q),
               (''doc_type'', sr_doc_type q), (''meta'', sr_meta q), (''document_registry_id'', sr_document_registry_id q),
               (''content_b64'', PStr (b64encode content))])) (\<lambda>response.
     let mapped = ss_status (map_sbis_status response)
     in if \<not> truthy (Some (response_doc_id response)) then raise_exc (RuntimeError ''provider_doc_id_missing'')
        else ret \<lparr>sn_provider_doc_id = py_str (response_doc_id response),
                  sn_status = (if mapped = EDO_UNKNOWN then EDO_SENT else mapped), sn_raw = response\<rparr>))"

definition sbis_get_status :: "edo_env \<Rightarrow> string \<Rightarrow> pyval \<Rightarrow> ('a edo_db_scheme, status_result) act" where
  "sbis_get_status env provider_doc_id account_id =
     and_then (credentials_for_account env account_id) (\<lambda>c.
     and_then (post_json env c (endpoint c ''status_path'' ''/edo/status'')
       (PDict [(''provider_doc_id'', PStr provider_doc_id)])) (\<lambda>response.
     ret \<lparr>st_status = ss_status (map_sbis_status response), st_raw = response,
          st_signed_artifacts = get_or_none response ''artifacts''\<rparr>))"

definition sbis_revoke :: "edo_env \<Rightarrow> string \<Rightarrow> pyval \<Rightarrow> string option \<Rightarrow> ('a edo_db_scheme, edo_status \<times> pyval) act" where
  "sbis_revoke env provider_doc_id account_id reason =
     and_then (credentials_for_account env account_id) (\<lambda>c.
     and_then (post_json env c (endpoint c ''revoke_path'' ''/edo/revoke'')
       (PDict [(''provider_doc_id'', PStr provider_doc_id), (''reason'', opt_str reason)])) (\<lambda>response.
     ret (ss_status (map_sbis_status response), response)))"

section \<open>Sending\<close>

definition enqueue_send :: "edo_env \<Rightarrow> string \<Rightarrow> payload \<Rightarrow> ('a edo_db_scheme, edo_outbox) act" where
  "enqueue_send env dedupe_key p =
     and_then (query_one (\<lambda>x. ob_dedupe_key x = dedupe_key) edo_outboxes) (\<lambda>existing.
     case existing of
       Some x \<Rightarrow> ret x
     | None \<Rightarrow>
         and_then (new_uuid_str (ee_world env)) (\<lambda>i.
         let x = \<lparr>ob_id = i, ob_payload = p, ob_dedupe_key = dedupe_key, ob_status = OUTBOX_PENDING, ob_attempts = 0,
                  ob_next_attempt_at = None, ob_last_error = None\<rparr>
         in and_then (update_state (\<lambda>s. s\<lparr>edo_outboxes := edo_outboxes s @ [x]\<rparr>)) (\<lambda>_. ret x)))"

definition request_fields :: "string list" where
  "request_fields = [''edo_document_id'', ''account_id'', ''document_registry_id'', ''counterparty_id'', ''doc_type'']"

text \<open>\<open>EdoSendRequest(**payload)\<close>: every field but \<open>meta\<close> is required, and no other is accepted.\<close>

definition send_request_of :: "payload \<Rightarrow> send_request result" where
  "send_request_of p =
     (if set request_fields \<subseteq> set (map fst p) \<and> set (map fst p) \<subseteq> insert ''meta'' (set request_fields)
      then Inr \<lparr>sr_edo_document_id = get_or_none (PDict p) ''edo_document_id'', sr_account_id = get_or_none (PDict p) ''account_id'',
                sr_document_registry_id = get_or_none (PDict p) ''document_registry_id'',
                sr_counterparty_id = get_or_none (PDict p) ''counterparty_id'', sr_doc_type = get_or_none (PDict p) ''doc_type'',
                sr_meta = get_or_none (PDict p) ''meta''\<rparr>
      else Inl (TypeError ''__init__() arguments''))"

definition start_sending :: "edo_env \<Rightarrow> edo_document \<Rightarrow> pyval \<Rightarrow> ('a edo_db_scheme, edo_document) act" where
  "start_sending env d meta_payload =
     and_then (edo_apply_transition env d EDO_QUEUED ''EDO_SEND_REQUESTED'' meta_payload ACTOR_SYSTEM) (\<lambda>d1.
     and_then (edo_apply_transition env d1 EDO_SENDING ''EDO_SENDING'' meta_payload ACTOR_SYSTEM) (\<lambda>d2.
     let d3 = d2\<lparr>ed_attempts_send := ed_attempts_send d2 + 1\<rparr> in
     and_then (save_document d3) (\<lambda>_. ret d3)))"

definition record_sent :: "edo_env \<Rightarrow> edo_document \<Rightarrow> send_result \<Rightarrow> ('a edo_db_scheme, send_result) act" where
  "record_sent env d r =
     (let d' = d\<lparr>ed_provider_doc_id := Some (sn_provider_doc_id r)\<rparr> in
      and_then (save_document d') (\<lambda>_.
      and_then (edo_apply_transition env d' (sn_status r) ''EDO_SENT'' (sn_raw r) ACTOR_PROVIDER) (\<lambda>_.
      ret r)))"

definition send :: "edo_env \<Rightarrow> send_request \<Rightarrow> ('a edo_db_scheme, send_result) act" where
  "send env q =
     and_then (reading (\<lambda>s. by_id ed_id (sr_edo_document_id q) (edo_documents s))) (\<lambda>x.
     and_then (or_raise x ''edo_document_not_found'') (\<lambda>d.
     if str_truthy (ed_provider_doc_id d)
     then ret \<lparr>sn_provider_doc_id = the (ed_provider_doc_id d), sn_status = ed_status d, sn_raw = PDict [(''idempotent'', PBool True)]\<rparr>
     else
       and_then (start_sending env d (value_or (sr_meta q) (PDict []))) (\<lambda>d'.
       and_then (sbis_send env q) (\<lambda>r.
       record_sent env d' r))))"

definition save_outbox :: "edo_outbox \<Rightarrow> ('a edo_db_scheme, unit) act" where
  "save_outbox x = update_state (\<lambda>s. s\<lparr>edo_outboxes := store_row ob_id x (edo_outboxes s)\<rparr>)"

text \<open>The handler for any exception of a send: the document is the row as the failed send left it.\<close>

definition send_failed :: "edo_env \<Rightarrow> edo_outbox \<Rightarrow> pyval \<Rightarrow> py_exc \<Rightarrow> ('a edo_db_scheme, edo_outbox) act" where
  "send_failed env x doc_id e =
     (let attempts = ob_attempts x + 1; msg = Some (ee_error_text env e) in
      and_then (if attempts \<ge> MAX_ATTEMPTS
                then ret (x\<lparr>ob_attempts := attempts, ob_last_error := msg, ob_status := OUTBOX_DEAD\<rparr>)
                else and_then (now_utc (ee_world env)) (\<lambda>now.
                     ret (x\<lparr>ob_attempts := attempts, ob_last_error := msg, ob_status := OUTBOX_FAILED,
                            ob_next_attempt_at := Some (now + 30 * 1000000 * attempts)\<rparr>))) (\<lambda>x'.
      and_then (save_outbox x') (\<lambda>_.
      and_then (update_state (\<lambda>s. s\<lparr>edo_documents := map (\<lambda>d. if text_of doc_id = Some (ed_id d)
          then d\<lparr>ed_requires_manual_intervention := (ed_requires_manual_intervention d \<or> attempts \<ge> MAX_ATTEMPTS),
                 ed_status := EDO_FAILED, ed_last_error := msg\<rparr> else d) (edo_documents s)\<rparr>)) (\<lambda>_.
      ret x'))))"

definition dispatch_outbox_item :: "edo_env \<Rightarrow> edo_outbox \<Rightarrow> ('a edo_db_scheme, edo_outbox) act" where
  "dispatch_outbox_item env x =
     (if ob_status x \<notin> {OUTBOX_PENDING, OUTBOX_FAILED} then ret x
      else
        let doc_id = get_or_none (PDict (ob_payload x)) ''edo_document_id'' in
        and_then (reading (\<lambda>s. if truthy (Some doc_id) then by_id ed_id doc_id (edo_documents s) else None)) (\<lambda>d.
        case d of
          None \<Rightarrow>
            let x' = x\<lparr>ob_status := OUTBOX_FAILED, ob_last_error := Some ''edo_document_not_found''\<rparr>
            in and_then (save_outbox x') (\<lambda>_. ret x')
        | Some _ \<Rightarrow>
            catching (\<lambda>_. True)
              (and_then (lift_result (send_request_of (ob_payload x))) (\<lambda>q.
               and_then (send env q) (\<lambda>_.
               let x' = x\<lparr>ob_status := OUTBOX_SENT, ob_last_error := None\<rparr>
               in and_then (save_outbox x') (\<lambda>_. ret x'))))
              (send_failed env x doc_id)))"

section \<open>Statuses, inbound events, revocation\<close>

fun artifact_type_of :: "pyval option \<Rightarrow> edo_artifact_type result" where
  "artifact_type_of None = Inr OTHER_ARTIFACT"
| "artifact_type_of (Some v) =
     (case text_of v of
        None \<Rightarrow> Inl (ValueError ''not a valid EdoArtifactType'')
      | Some t \<Rightarrow>
          if t = ''SIGNED_PACKAGE'' then Inr SIGNED_PACKAGE
          else if t = ''SIGNATURE'' then Inr SIGNATURE
          else if t = ''RECEIPT'' then Inr RECEIPT
          else if t = ''PROTOCOL'' then Inr PROTOCOL
          else if t = ''OTHER'' then Inr OTHER_ARTIFACT
          else Inl (ValueError ''not a valid EdoArtifactType''))"

fun artifact_file_type :: "edo_artifact_type \<Rightarrow> document_file_type" where
  "artifact_file_type SIGNED_PACKAGE = FILE_PDF"
| "artifact_file_type SIGNATURE = FILE_P7S"
| "artifact_file_type RECEIPT = FILE_EDI_XML"
| "artifact_file_type PROTOCOL = FILE_PDF"
| "artifact_file_type OTHER_ARTIFACT = FILE_PDF"

fun signature_ext :: "document_file_type \<Rightarrow> string" where
  "signature_ext FILE_SIG = ''sig''"
| "signature_ext FILE_P7S = ''p7s''"
| "signature_ext FILE_CERT = ''cer''"
| "signature_ext FILE_EDI_XML = ''xml''"
| "signature_ext _ = ''bin''"

definition day_text :: "int \<Rightarrow> string" where
  "day_text n = (let (y, m, d) = civil_from_days n in pad_left 4 (show_nat (nat y)) @ ''-'' @ two_digits m @ ''-'' @ two_digits d)"

definition build_signature_object_key :: "registry_document \<Rightarrow> document_file_type \<Rightarrow> string" where
  "build_signature_object_key d ft =
     ''documents/'' @ rd_client_id d @ ''/'' @ day_text (rd_period_from d) @ ''_'' @ day_text (rd_period_to d) @ ''/v'' @
     show_int (rd_version d) @ ''/'' @ rd_document_type d @ ''/signatures/SBIS.'' @ signature_ext ft"

text \<open>The table of files admits one file of a type for a document.\<close>

definition store_artifact :: "edo_env \<Rightarrow> edo_document \<Rightarrow> pyval \<Rightarrow> ('a edo_db_scheme, unit) act" where
  "store_artifact env ed artifact =
     (if \<not> is_dict (Some artifact) then raise_exc AttributeError else
      and_then (lift_result (artifact_type_of (dict_get ''artifact_type'' artifact))) (\<lambda>kind.
      let content = get_or_none artifact ''content''; url = get_or_none artifact ''url'';
          content_type = (case dict_get ''content_type'' artifact of None \<Rightarrow> ''application/octet-stream'' | Some v \<Rightarrow> py_str v)
      in
      and_then (if truthy (Some content) then ret (Some (py_str content))
                else if truthy (Some url) then and_then (lift_result (ee_get env (py_str url))) (\<lambda>b. ret (Some b))
                else ret None) (\<lambda>bytes.
      case bytes of None \<Rightarrow> ret () | Some b \<Rightarrow>
      and_then (reading (\<lambda>s. find (\<lambda>r. rd_id r = ed_document_registry_id ed) (registry_documents s))) (\<lambda>doc.
      case doc of None \<Rightarrow> ret () | Some d \<Rightarrow>
      let ft = artifact_file_type kind; key = build_signature_object_key d ft in
      and_then (lift_result (ee_put_bytes env key b content_type)) (\<lambda>_.
      and_then (reading (\<lambda>s. \<exists>f\<in>set (document_files s). df_document_id f = rd_id d \<and> df_file_type f = ft)) (\<lambda>taken.
      if taken then raise_exc IntegrityError
      else update_state (\<lambda>s. s\<lparr>
        document_files := document_files s @
          [\<lparr>df_document_id = rd_id d, df_file_type = ft, df_object_key = key, df_sha256 = sha256_hex (ee_world env) b,
            df_size_bytes = length b, df_content_type = content_type\<rparr>],
        edo_artifacts := edo_artifacts s @
          [\<lparr>ar_document_id = ed_id ed, ar_artifact_type = kind, ar_registry_id = rd_id d,
            ar_content_hash = sha256_hex (ee_world env) b, ar_provider_ref = artifact\<rparr>]\<rparr>)))))))"

definition store_artifacts :: "edo_env \<Rightarrow> edo_document \<Rightarrow> pyval \<Rightarrow> ('a edo_db_scheme, unit) act" where
  "store_artifacts env ed artifacts =
     (if truthy (Some artifacts)
      then and_then (lift_result (py_iter artifacts)) (\<lambda>vs. and_then (for_each vs (store_artifact env ed)) (\<lambda>_. ret ()))
      else ret ())"

definition document_of_provider :: "pyval \<Rightarrow> ('a edo_db_scheme, edo_document option) act" where
  "document_of_provider v =
     query_one (\<lambda>d. ed_provider_doc_id d \<noteq> None \<and> ed_provider_doc_id d = text_of v) edo_documents"

definition refresh_status :: "edo_env \<Rightarrow> string \<Rightarrow> string \<Rightarrow> ('a edo_db_scheme, status_result) act" where
  "refresh_status env provider_doc_id account_id =
     and_then (document_of_provider (PStr provider_doc_id)) (\<lambda>x.
     and_then (or_raise x ''edo_document_not_found'') (\<lambda>d.
     let d1 = d\<lparr>ed_attempts_status := ed_attempts_status d + 1\<rparr> in
     and_then (save_document d1) (\<lambda>_.
     and_then (sbis_get_status env provider_doc_id (PStr account_id)) (\<lambda>r.
     let m = map_sbis_status (st_raw r); d2 = d1\<lparr>ed_last_status_payload := Some (ss_last_status_payload m)\<rparr> in
     and_then (save_document d2) (\<lambda>_.
     and_then (if ed_status d2 \<noteq> ss_status m
               then edo_apply_transition env d2 (ss_status m) (''SBIS_'' @ ss_provider_status m) (ss_last_status_payload m) ACTOR_PROVIDER
               else ret d2) (\<lambda>d3.
     and_then (store_artifacts env d3 (st_signed_artifacts r)) (\<lambda>_.
     ret r)))))))"

definition receive :: "edo_env \<Rightarrow> string \<Rightarrow> payload \<Rightarrow> payload \<Rightarrow> int \<Rightarrow> ('a edo_db_scheme, string list) act" where
  "receive env event_id headers p received_at =
     and_then (query_one (\<lambda>x. ie_provider_event_id x = event_id) edo_inbound_events) (\<lambda>existing.
     case existing of
       Some _ \<Rightarrow> ret []
     | None \<Rightarrow>
         and_then (new_uuid_str (ee_world env)) (\<lambda>i.
         let x = \<lparr>ie_id = i, ie_provider_event_id = event_id, ie_headers = headers, ie_payload = p, ie_received_at = received_at,
                  ie_processed_at = None, ie_status = INBOUND_RECEIVED\<rparr> in
         and_then (update_state (\<lambda>s. s\<lparr>edo_inbound_events := edo_inbound_events s @ [x]\<rparr>)) (\<lambda>_.
         let doc_id = get_or_none (PDict p) ''provider_doc_id'' in
         and_then (if truthy (Some doc_id) then document_of_provider doc_id else ret None) (\<lambda>d.
         and_then (case d of
                     None \<Rightarrow> ret []
                   | Some ed \<Rightarrow>
                       let m = map_sbis_status (PDict p) in
                       and_then (edo_apply_transition env ed (ss_status m) (''SBIS_'' @ ss_provider_status m)
                         (ss_last_status_payload m) ACTOR_PROVIDER) (\<lambda>_. ret [ed_id ed])) (\<lambda>updated.
         and_then (now_utc (ee_world env)) (\<lambda>now.
         and_then (update_state (\<lambda>s. s\<lparr>edo_inbound_events := store_row ie_id
           (x\<lparr>ie_status := INBOUND_PROCESSED, ie_processed_at := Some now\<rparr>) (edo_inbound_events s)\<rparr>)) (\<lambda>_.
         ret updated)))))))"

definition revoke :: "edo_env \<Rightarrow> string \<Rightarrow> string \<Rightarrow> string option \<Rightarrow> ('a edo_db_scheme, edo_status) act" where
  "revoke env provider_doc_id account_id reason =
     and_then (document_of_provider (PStr provider_doc_id)) (\<lambda>x.
     and_then (or_raise x ''edo_document_not_found'') (\<lambda>d.
     if ed_status d = EDO_SIGNED then raise_exc (RuntimeError ''revoke_not_allowed'')
     else
       and_then (sbis_revoke env provider_doc_id (PStr account_id) reason) (\<lambda>r.
       and_then (edo_apply_transition env d (fst r) ''EDO_REVOKED'' (snd r) ACTOR_PROVIDER) (\<lambda>_.
       ret (fst r)))))"

section \<open>The periodic tasks\<close>

definition dispatch_pending_outbox :: "edo_env \<Rightarrow> ('a edo_db_scheme, edo_outbox list) act" where
  "dispatch_pending_outbox env =
     and_then (now_utc (ee_world env)) (\<lambda>now.
     and_then (reading (\<lambda>s. filter (\<lambda>x. ob_status x \<in> {OUTBOX_PENDING, OUTBOX_FAILED} \<and>
       (case ob_next_attempt_at x of None \<Rightarrow> True | Some t \<Rightarrow> t \<le> now)) (edo_outboxes s))) (\<lambda>items.
     for_each items (dispatch_outbox_item env)))"

definition poll_statuses :: "edo_env \<Rightarrow> ('a edo_db_scheme, edo_document list) act" where
  "poll_statuses env =
     and_then (reading (\<lambda>s. filter (\<lambda>d. ed_status d \<in> {EDO_SENT, EDO_DELIVERED, EDO_SENDING}) (edo_documents s))) (\<lambda>docs.
     and_then (for_each (filter (\<lambda>d. str_truthy (ed_provider_doc_id d)) docs)
       (\<lambda>d. refresh_status env (the (ed_provider_doc_id d)) (ed_account_id d))) (\<lambda>_.
     ret docs))"

end
