(* ===== verification/Act_Frames.thy ===== *)
theory Act_Frames
  imports Settlement
begin

text \<open>
  Invariants of computations: the rules by which a state property that holds before a service method holds after it, for
  each way in which methods are composed.
\<close>

lemma keeps_lift_result [intro]: "keeps P (lift_result r)"
  by (simp add: keeps_def)

lemma keeps_reading [intro]: "keeps P (reading f)"
  by (simp add: keeps_def)

lemma keeps_query_one [intro]: "keeps P (query_one p t)"
  by (simp add: keeps_def)

lemma keeps_raise [intro]: "keeps P (raise_exc e)"
  by (simp add: keeps_def)

lemma keeps_catching [intro]: "keeps P m \<Longrightarrow> (\<And>e. keeps P (h e)) \<Longrightarrow> keeps P (catching c m h)"
  unfolding keeps_def catching_def by (fastforce split: prod.splits sum.splits)

lemma keeps_if [intro]: "(b \<Longrightarrow> keeps P m) \<Longrightarrow> (\<not> b \<Longrightarrow> keeps P n) \<Longrightarrow> keeps P (if b then m else n)"
  by simp

lemma keeps_case_option [intro]:
  "keeps P m \<Longrightarrow> (\<And>x. keeps P (k x)) \<Longrightarrow> keeps P (case y of None \<Rightarrow> m | Some x \<Rightarrow> k x)"
  by (cases y) simp_all

lemma keeps_update: "(\<And>s. P s \<Longrightarrow> P (f s)) \<Longrightarrow> keeps P (update_state f)"
  by (simp add: keeps_def)

lemmas keeps_parts = keeps_and_then keeps_ret keeps_raise keeps_reading keeps_lift_result keeps_query_one keeps_if
  keeps_case_option keeps_for_each keeps_catching

lemma keeps_audit: "(\<And>s x l. P s \<Longrightarrow> P (s\<lparr>tick := x, audit_log := l\<rparr>)) \<Longrightarrow> keeps P (audit w ev rc)"
  by (simp add: keeps_def audit_apply Let_def)

end
