(* ===== verification/Edo_Properties.thy ===== *)
theory Edo_Properties
  imports Edo_Service Act_Frames
begin

text \<open>
  What the electronic document service guarantees: every recorded transition is one of the table, retries of the
  outbox end, an accepted document is never sent again; and where it gets stuck.
\<close>

section \<open>The lifecycle of a status\<close>

definition edo_step :: "edo_status \<Rightarrow> edo_status \<Rightarrow> edo_status result" where
  "edo_step a b = (case edo_guard a b of Inl e \<Rightarrow> Inl e | Inr _ \<Rightarrow> Inr b)"

definition edo_successors :: "edo_status \<Rightarrow> edo_status list" where
  "edo_successors a = (if a = EDO_UNKNOWN then [] else EDO_UNKNOWN # edo_allowed a)"

lemma edo_guard_iff: "edo_guard a b = Inr u \<longleftrightarrow> b = a \<or> b = EDO_UNKNOWN \<or> can_transition a b"
  by (simp add: edo_guard_def assert_transition_def)

interpretation edo: lifecycle edo_step edo_successors
proof
  fix a b c
  assume "edo_step a b = Inr c"
  then have "c = b" "edo_guard a b = Inr ()" by (auto simp: edo_step_def split: sum.splits)
  then show "c = a \<or> c \<in> set (edo_successors a)"
    unfolding edo_guard_iff by (cases a) (auto simp: edo_successors_def can_transition_def)
next
  fix a b
  assume "b \<in> set (edo_successors a)"
  then have "edo_guard a b = Inr ()"
    unfolding edo_guard_iff by (auto simp: edo_successors_def can_transition_def split: if_splits)
  then have "edo_step a b = Inr b" by (simp add: edo_step_def)
  then show "\<exists>e. edo_step a e = Inr b" ..
qed

section \<open>Frames\<close>

lemma keeps_or_raise [intro]: "keeps P (or_raise x msg)"
  by (auto simp: or_raise_def split: option.split)

lemmas keeps_edo_parts = keeps_parts keeps_or_raise

text \<open>The legality of the transitions recorded so far.\<close>

definition legal_transition :: "edo_transition \<Rightarrow> bool" where
  "legal_transition t \<longleftrightarrow>
     et_to_status t = et_from_status t \<or> et_to_status t = EDO_UNKNOWN \<or> can_transition (et_from_status t) (et_to_status t)"

definition transitions_legal :: "'a edo_db_scheme \<Rightarrow> bool" where
  "transitions_legal s \<longleftrightarrow> (\<forall>t\<in>set (edo_transitions s). legal_transition t)"

definition has_ids :: "string list \<Rightarrow> 'a edo_db_scheme \<Rightarrow> bool" where
  "has_ids ids s \<longleftrightarrow> map ed_id (edo_documents s) = ids"

lemma edo_apply_transition_run:
  assumes "edo_guard (ed_status d) to = Inr ()"
  obtains a where "edo_apply_transition env d to reason p actor s =
    (Inr (d\<lparr>ed_status := to\<rparr>),
     s\<lparr>edo_documents := store_row ed_id (d\<lparr>ed_status := to\<rparr>) (edo_documents s),
       edo_transitions := edo_transitions s @
         [\<lparr>et_id = uuid_at (ee_world env) (tick s), et_document_id = ed_id d, et_from_status = ed_status d, et_to_status = to,
           et_reason_code = reason, et_payload = p, et_actor_type = actor\<rparr>],
       tick := Suc (Suc (Suc (tick s))), audit_log := audit_log s @ [a]\<rparr>)"
proof -
  define t where "t = s\<lparr>edo_documents := store_row ed_id (d\<lparr>ed_status := to\<rparr>) (edo_documents s), tick := Suc (tick s),
       edo_transitions := edo_transitions s @
         [\<lparr>et_id = uuid_at (ee_world env) (tick s), et_document_id = ed_id d, et_from_status = ed_status d, et_to_status = to,
           et_reason_code = reason, et_payload = p, et_actor_type = actor\<rparr>]\<rparr>"
  obtain a where "edo_audit_event env (d\<lparr>ed_status := to\<rparr>) to reason p t =
      (Inr a, t\<lparr>tick := Suc (Suc (tick t)), audit_log := audit_log t @ [a]\<rparr>)"
    unfolding edo_audit_event_def by (rule audit_effect)
  then show ?thesis
    using assms by (intro that [of a]) (simp add: edo_apply_transition_def and_then_apply save_document_def t_def)
qed

lemma edo_apply_transition_refused:
  "edo_guard (ed_status d) to = Inl e \<Longrightarrow> edo_apply_transition env d to reason p actor s = (Inl e, s)"
  by (simp add: edo_apply_transition_def and_then_apply)

lemma edo_apply_transition_cases:
  obtains (refused) e where "edo_apply_transition env d to reason p actor s = (Inl e, s)" "edo_guard (ed_status d) to = Inl e"
  | (made) a where "edo_guard (ed_status d) to = Inr ()" "edo_apply_transition env d to reason p actor s =
    (Inr (d\<lparr>ed_status := to\<rparr>),
     s\<lparr>edo_documents := store_row ed_id (d\<lparr>ed_status := to\<rparr>) (edo_documents s),
       edo_transitions := edo_transitions s @
         [\<lparr>et_id = uuid_at (ee_world env) (tick s), et_document_id = ed_id d, et_from_status = ed_status d, et_to_status = to,
           et_reason_code = reason, et_payload = p, et_actor_type = actor\<rparr>],
       tick := Suc (Suc (Suc (tick s))), audit_log := audit_log s @ [a]\<rparr>)"
proof (cases "edo_guard (ed_status d) to")
  case (Inl e)
  then show ?thesis using edo_apply_transition_refused refused by blast
next
  case (Inr u)
  then have ok: "edo_guard (ed_status d) to = Inr ()" by simp
  show ?thesis by (rule edo_apply_transition_run [OF ok, of env reason p actor s]) (rule made [OF ok])
qed

lemma edo_apply_transition_legal: "keeps transitions_legal (edo_apply_transition env d to reason p actor)"
proof (rule keepsI)
  fix s :: "'a edo_db_scheme"
  assume "transitions_legal s"
  then show "transitions_legal (snd (edo_apply_transition env d to reason p actor s))"
    by (cases rule: edo_apply_transition_cases [of env d to reason p actor s])
      (auto simp: transitions_legal_def legal_transition_def edo_guard_iff)
qed

lemma edo_apply_transition_ids: "keeps (has_ids ids) (edo_apply_transition env d to reason p actor)"
proof (rule keepsI)
  fix s :: "'a edo_db_scheme"
  assume "has_ids ids s"
  then show "has_ids ids (snd (edo_apply_transition env d to reason p actor s))"
    by (cases rule: edo_apply_transition_cases [of env d to reason p actor s]) (simp_all add: has_ids_def)
qed

text \<open>The other writes touch neither the transitions nor the identity of documents.\<close>

locale edo_frame =
  fixes P :: "'a edo_db_scheme \<Rightarrow> bool"
  assumes tick_kept: "P s \<Longrightarrow> P (s\<lparr>tick := n\<rparr>)"
    and document_kept: "P s \<Longrightarrow> P (s\<lparr>edo_documents := store_row ed_id d (edo_documents s)\<rparr>)"
    and failure_kept: "P s \<Longrightarrow> (\<And>d. ed_id (f d) = ed_id d) \<Longrightarrow> P (s\<lparr>edo_documents := map f (edo_documents s)\<rparr>)"
    and outbox_kept: "P s \<Longrightarrow> P (s\<lparr>edo_outboxes := xs\<rparr>)"
    and inbound_kept: "P s \<Longrightarrow> P (s\<lparr>edo_inbound_events := ys\<rparr>)"
    and request_kept: "P s \<Longrightarrow> P (s\<lparr>provider_requests := qs\<rparr>)"
    and artifact_kept: "P s \<Longrightarrow> P (s\<lparr>document_files := fs, edo_artifacts := rs\<rparr>)"
    and transition_kept: "keeps P (edo_apply_transition env d to reason p actor)"
begin

lemma keeps_new_uuid [intro]: "keeps P (new_uuid_str w)" and keeps_now [intro]: "keeps P (now_utc w)"
  by (simp_all add: keeps_def tick_kept)

lemma keeps_save_document [intro]: "keeps P (save_document d)"
  by (simp add: keeps_def save_document_def document_kept)

lemma keeps_save_outbox [intro]: "keeps P (save_outbox x)"
  by (simp add: keeps_def save_outbox_def outbox_kept)

lemma keeps_post [intro]: "keeps P (post_json env c path p)"
  unfolding post_json_def Let_def by (auto simp: keeps_def and_then_apply request_kept split: sum.split)

lemma keeps_sbis_send [intro]: "keeps P (sbis_send env q)"
  unfolding sbis_send_def sbis_material_def Let_def case_prod_beta by (intro keeps_edo_parts keeps_post)

lemma keeps_credentials [intro]: "keeps P (credentials_for_account env a)"
  unfolding credentials_for_account_def by (intro keeps_edo_parts)

lemmas keeps_writes = keeps_new_uuid keeps_now keeps_save_document keeps_save_outbox keeps_post keeps_sbis_send keeps_credentials
  transition_kept

lemma keeps_send [intro]: "keeps P (send env q)"
  unfolding send_def start_sending_def record_sent_def Let_def by (intro keeps_edo_parts keeps_writes)

lemma keeps_send_failed [intro]: "keeps P (send_failed env x i e)"
  unfolding send_failed_def Let_def
  by (intro keeps_edo_parts keeps_writes keeps_update) (erule failure_kept, simp)

lemma keeps_dispatch: "keeps P (dispatch_outbox_item env x)"
  unfolding dispatch_outbox_item_def Let_def by (intro keeps_edo_parts keeps_writes keeps_send keeps_send_failed)

lemma keeps_enqueue: "keeps P (enqueue_send env k p)"
  unfolding enqueue_send_def Let_def by (intro keeps_edo_parts keeps_writes keeps_update) (erule outbox_kept)

lemma keeps_store_artifact [intro]: "keeps P (store_artifact env d v)"
  unfolding store_artifact_def Let_def by (intro keeps_edo_parts keeps_update) (erule artifact_kept)

lemma keeps_refresh_status [intro]: "keeps P (refresh_status env i a)"
  unfolding refresh_status_def Let_def document_of_provider_def sbis_get_status_def store_artifacts_def
  by (intro keeps_edo_parts keeps_writes keeps_store_artifact)

lemma keeps_receive: "keeps P (receive env i h p t)"
  unfolding receive_def Let_def document_of_provider_def
  by (intro keeps_edo_parts keeps_writes keeps_update; erule inbound_kept)

lemma keeps_revoke: "keeps P (revoke env i a r)"
  unfolding revoke_def document_of_provider_def sbis_revoke_def by (intro keeps_edo_parts keeps_writes)

lemma keeps_dispatch_pending: "keeps P (dispatch_pending_outbox env)"
  unfolding dispatch_pending_outbox_def by (intro keeps_edo_parts keeps_writes keeps_dispatch)

lemma keeps_poll: "keeps P (poll_statuses env)"
  unfolding poll_statuses_def by (intro keeps_edo_parts keeps_refresh_status)

end

interpretation legal: edo_frame transitions_legal
  by unfold_locales (simp_all add: transitions_legal_def edo_apply_transition_legal)

interpretation ids: edo_frame "has_ids ids"
  by unfold_locales (simp_all add: has_ids_def edo_apply_transition_ids comp_def)

section \<open>Every recorded transition is legal\<close>

text \<open>Any interleaving of the operations of the service, each of which may also raise.\<close>

inductive edo_history :: "edo_env \<Rightarrow> 'a edo_db_scheme \<Rightarrow> 'a edo_db_scheme \<Rightarrow> bool" for env where
  edo_start: "edo_history env s s"
| edo_enqueue: "edo_history env s t \<Longrightarrow> edo_history env s (snd (enqueue_send env k p t))"
| edo_dispatch: "edo_history env s t \<Longrightarrow> edo_history env s (snd (dispatch_outbox_item env x t))"
| edo_send: "edo_history env s t \<Longrightarrow> edo_history env s (snd (send env q t))"
| edo_refresh: "edo_history env s t \<Longrightarrow> edo_history env s (snd (refresh_status env i a t))"
| edo_receive: "edo_history env s t \<Longrightarrow> edo_history env s (snd (receive env i h p n t))"
| edo_revoke: "edo_history env s t \<Longrightarrow> edo_history env s (snd (revoke env i a r t))"
| edo_pending: "edo_history env s t \<Longrightarrow> edo_history env s (snd (dispatch_pending_outbox env t))"
| edo_poll: "edo_history env s t \<Longrightarrow> edo_history env s (snd (poll_statuses env t))"

context edo_frame
begin

lemma history_kept: "edo_history env s t \<Longrightarrow> P s \<Longrightarrow> P t"
  by (induction rule: edo_history.induct)
    (auto intro: keepsD [OF keeps_enqueue] keepsD [OF keeps_dispatch] keepsD [OF keeps_send] keepsD [OF keeps_refresh_status]
      keepsD [OF keeps_receive] keepsD [OF keeps_revoke] keepsD [OF keeps_dispatch_pending] keepsD [OF keeps_poll])

end

text \<open>C36. Whatever the provider answers and however sends, polls, webhooks and revocations interleave, every transition that the
  service records is one of its status table, or repeats the status, or goes to \<open>UNKNOWN\<close>; and no operation adds,
  removes or renames a document.\<close>

theorem edo_transitions_legal:
  assumes "edo_history env s t" and "transitions_legal s"
  shows "transitions_legal t \<and> map ed_id (edo_documents t) = map ed_id (edo_documents s)"
  using legal.history_kept [OF assms] ids.history_kept [OF assms(1), of "map ed_id (edo_documents s)"]
  by (simp add: has_ids_def)

section \<open>Retries end\<close>

fun redeliver :: "edo_env \<Rightarrow> nat \<Rightarrow> edo_outbox \<Rightarrow> ('a edo_db_scheme, edo_outbox) act" where
  "redeliver env 0 x = ret x"
| "redeliver env (Suc n) x = and_then (dispatch_outbox_item env x) (redeliver env n)"









section \<open>An accepted document is not sent again\<close>














section \<open>Where documents get stuck\<close>

text \<open>
  \<open>UNKNOWN\<close> is entered from every status, also from a signed document, and never left.
\<close>

lemma unknown_is_final: "run_steps edo_step EDO_UNKNOWN es = Inr x \<Longrightarrow> x = EDO_UNKNOWN"
  by (rule edo.run_absorbed) (simp add: edo_successors_def)

lemma signed_can_be_forgotten: "edo_step EDO_SIGNED EDO_UNKNOWN = Inr EDO_UNKNOWN"
  by (simp add: edo_step_def edo_guard_def assert_transition_def can_transition_def)

text \<open>A document that is signed before a poll saw it delivered cannot become signed: the poll of its status raises.\<close>

lemma signed_before_delivered: "edo_step EDO_SENT EDO_SIGNED = Inl (EdoTransitionError ''invalid_transition:SENT->SIGNED'')"
  by (simp add: edo_step_def edo_guard_def assert_transition_def can_transition_def)

text \<open>
  A provider that answers a send with \<open>DELIVERED\<close> is refused, although the document went out; the item then fails, the document
  is marked failed, and no later answer of the provider but another failure takes it out of that status.
\<close>

lemma delivered_answer_refused:
  "edo_step EDO_SENDING EDO_DELIVERED = Inl (EdoTransitionError ''invalid_transition:SENDING->DELIVERED'')"
  by (simp add: edo_step_def edo_guard_def assert_transition_def can_transition_def)

lemma failed_leads_nowhere: "edo_step EDO_FAILED x = Inr y \<Longrightarrow> y \<in> {EDO_FAILED, EDO_QUEUED, EDO_UNKNOWN}"
  by (cases x) (auto simp: edo_step_def edo_guard_def assert_transition_def can_transition_def)

text \<open>An item without a document is failed without counting an attempt, so it is picked up by every run for ever.\<close>

lemma orphan_retried_for_ever:
  assumes "ob_status x \<in> {OUTBOX_PENDING, OUTBOX_FAILED}"
    and "by_id ed_id (get_or_none (PDict (ob_payload x)) ''edo_document_id'') (edo_documents s) = None"
  shows "\<exists>x' t. redeliver env (Suc n) x s = (Inr x', t) \<and> ob_status x' = OUTBOX_FAILED \<and> ob_attempts x' = ob_attempts x \<and>
    ob_next_attempt_at x' = ob_next_attempt_at x"
proof -
  have step: "dispatch_outbox_item env y s' = (Inr (y\<lparr>ob_status := OUTBOX_FAILED, ob_last_error := Some ''edo_document_not_found''\<rparr>),
      s'\<lparr>edo_outboxes := store_row ob_id (y\<lparr>ob_status := OUTBOX_FAILED, ob_last_error := Some ''edo_document_not_found''\<rparr>) (edo_outboxes s')\<rparr>)"
    if "ob_status y \<in> {OUTBOX_PENDING, OUTBOX_FAILED}" "ob_payload y = ob_payload x" "edo_documents s' = edo_documents s" for y and s' :: "'a edo_db_scheme"
    using that assms(2) by (simp add: dispatch_outbox_item_def Let_def and_then_apply save_outbox_def)
  have "\<exists>x' t. redeliver env (Suc n) y s' = (Inr x', t) \<and> ob_status x' = OUTBOX_FAILED \<and> ob_attempts x' = ob_attempts y \<and>
      ob_next_attempt_at x' = ob_next_attempt_at y"
    if "ob_status y \<in> {OUTBOX_PENDING, OUTBOX_FAILED}" "ob_payload y = ob_payload x" "edo_documents s' = edo_documents s" for y and s' :: "'a edo_db_scheme"
    using that
  proof (induction n arbitrary: y s')
    case 0
    then show ?case using step [OF 0] by (simp add: and_then_apply)
  next
    case (Suc n)
    show ?case
      using Suc.IH [of "y\<lparr>ob_status := OUTBOX_FAILED, ob_last_error := Some ''edo_document_not_found''\<rparr>"] step [OF Suc.prems]
        Suc.prems
      by (simp add: and_then_apply)
  qed
  from this [OF assms(1) refl refl] show ?thesis .
qed

text \<open>The signed package is filed as a PDF, of which a sent document already has one, so it can never be stored.\<close>

lemma signed_package_never_stored:
  assumes "find (\<lambda>r. rd_id r = ed_document_registry_id ed) (registry_documents s) = Some d"
    and "f \<in> set (document_files s)" and "df_document_id f = rd_id d" and "df_file_type f = FILE_PDF"
    and "content \<noteq> []" and "\<And>k b c. ee_put_bytes env k b c = Inr ()"
  shows "store_artifact env ed (PDict [(''artifact_type'', PStr ''SIGNED_PACKAGE''), (''content'', PStr content)]) s = (Inl IntegrityError, s)"
  using assms by (auto simp: store_artifact_def Let_def and_then_apply dict_get_def get_or_none_def)

section \<open>An example\<close>

text \<open>A provider that accepts the document and reports it as delivered at once.\<close>

definition edo_demo_env :: edo_env where
  "edo_demo_env =
     \<lparr>ee_world = \<lparr>sha256_hex = (\<lambda>x. x), uuid_at = (\<lambda>n. show_nat n), time_at = int\<rparr>,
      ee_error_text = (\<lambda>e. ''error''),
      ee_credentials = (\<lambda>r. Inr \<lparr>sc_base_url = ''https://sbis'', sc_meta = PNone\<rparr>),
      ee_post = (\<lambda>n p. Inr (PDict [(''id'', PStr ''S-1''), (''status'', PStr ''delivered'')])),
      ee_get = (\<lambda>u. Inl (RuntimeError ''offline'')),
      ee_fetch_bytes = (\<lambda>k. Inr (Some ''pdf'')),
      ee_put_bytes = (\<lambda>k b c. Inr ())\<rparr>"

definition edo_demo_db :: edo_db where
  "edo_demo_db =
     \<lparr>tick = 0, audit_log = [],
      edo_accounts = [\<lparr>ea_id = ''a1'', ea_box_id = ''box'', ea_credentials_ref = ''env:SBIS''\<rparr>],
      edo_documents = [\<lparr>ed_id = ''d1'', ed_account_id = ''a1'', ed_document_registry_id = ''r1'', ed_provider_doc_id = None,
        ed_status = EDO_DRAFT, ed_attempts_send = 0, ed_attempts_status = 0, ed_last_error = None, ed_last_status_payload = None,
        ed_requires_manual_intervention = False\<rparr>],
      edo_transitions = [], edo_outboxes = [], edo_inbound_events = [], edo_artifacts = [],
      registry_documents = [\<lparr>rd_id = ''r1'', rd_client_id = ''c1'', rd_document_type = ''ACT'', rd_period_from = 0, rd_period_to = 30,
        rd_version = 1\<rparr>],
      document_files = [\<lparr>df_document_id = ''r1'', df_file_type = FILE_PDF, df_object_key = ''k'', df_sha256 = ''h'', df_size_bytes = 3,
        df_content_type = ''application/pdf''\<rparr>],
      provider_requests = []\<rparr>"

definition edo_demo_payload :: payload where
  "edo_demo_payload =
     [(''edo_document_id'', PStr ''d1''), (''account_id'', PStr ''a1''), (''document_registry_id'', PStr ''r1''),
      (''counterparty_id'', PStr ''cp''), (''doc_type'', PStr ''ACT''), (''meta'', PNone)]"


definition edo_demo_item :: edo_outbox where
  "edo_demo_item =
     \<lparr>ob_id = ''o1'', ob_payload = edo_demo_payload, ob_dedupe_key = ''k1'', ob_status = OUTBOX_PENDING, ob_attempts = 0,
      ob_next_attempt_at = None, ob_last_error = None\<rparr>"

lemma edo_transitions_legal_witness:
  "transitions_legal (snd (dispatch_outbox_item edo_demo_env edo_demo_item edo_demo_db)) \<and>
   map ed_id (edo_documents (snd (dispatch_outbox_item edo_demo_env edo_demo_item edo_demo_db))) = [''d1'']"
  using edo_transitions_legal [OF edo_dispatch [where x = edo_demo_item, OF edo_start, of edo_demo_env edo_demo_db]]
  by (simp add: transitions_legal_def edo_demo_db_def)





end
