(* ===== verification/Op_Ledger.thy ===== *)
theory Op_Ledger
  imports Finance_Invariants Settlement Query_Order
begin

text \<open>
  The ledger of card operations: accounts and their balances (\<open>models/account.py\<close>, \<open>repositories/accounts_repository.py\<close>,
  \<open>services/ledger/balance_service.py\<close>), entries (\<open>repositories/ledger_repository.py\<close>), the checks of
  \<open>finance_invariants\<close> on the lines of a posting, and \<open>PostingEngine.apply_posting\<close>
  (\<open>services/ledger/posting_engine.py\<close>). These services commit and roll back in the middle of a request, so the
  session keeps the tables of the last commit beside the current ones. Every caller passes whole balance_amounts, so
  decimals are integers. Columns that no operation reads are left out of the rows; entries are numbered in
  the order of the list.
\<close>

section \<open>Rows\<close>

datatype account_owner_type = OWNER_CLIENT | OWNER_PARTNER | OWNER_PLATFORM

datatype account_type = CLIENT_MAIN | CLIENT_CREDIT | CARD_LIMIT | TECHNICAL

datatype account_status = ACCOUNT_ACTIVE | ACCOUNT_FROZEN | ACCOUNT_CLOSED

datatype ledger_direction = LEDGER_DEBIT | LEDGER_CREDIT

datatype posting_type =
    POST_AUTH | POST_HOLD | POST_COMMIT | POST_CAPTURE | POST_REFUND | POST_REVERSAL | POST_DISPUTE_HOLD | POST_DISPUTE_RELEASE
  | POST_ADJUSTMENT

datatype posting_status = BATCH_APPLIED | BATCH_REVERSED

record op_account =
  ac_id :: int
  ac_client_id :: string
  ac_owner_type :: account_owner_type
  ac_owner_id :: string
  ac_card_id :: "string option"
  ac_tariff_id :: "string option"
  ac_currency :: string
  ac_type :: account_type
  ac_status :: account_status

record account_balance =
  ab_account_id :: int
  ab_current_balance :: int
  ab_available_balance :: int
  ab_hold_balance :: int
  ab_updated_at :: "int option"

record op_entry =
  oe_entry_id :: string
  oe_posting_id :: string
  oe_account_id :: int
  oe_operation_id :: "string option"
  oe_direction :: ledger_direction
  oe_amount :: int
  oe_currency :: string
  oe_balance_before :: int
  oe_balance_after :: int
  oe_posted_at :: int
  oe_value_date :: "int option"

record posting_batch =
  pb_id :: string
  pb_operation_id :: "string option"
  pb_posting_type :: posting_type
  pb_status :: posting_status
  pb_idempotency_key :: string

record card_operation =
  op_id :: string
  op_business_id :: string
  op_merchant_id :: string
  op_client_id :: string
  op_currency :: string
  op_captured_amount :: int
  op_refunded_amount :: int

datatype refund_status = REFUND_REQUESTED | REFUND_POSTED | REFUND_FAILED | REFUND_CANCELLED

datatype settlement_policy = SAME_PERIOD | ADJUSTMENT_REQUIRED

record refund_request_row =
  rf_id :: string
  rf_operation_id :: string
  rf_amount :: int
  rf_currency :: string
  rf_reason :: "string option"
  rf_initiator :: "string option"
  rf_idempotency_key :: string
  rf_status :: refund_status
  rf_posted_posting_id :: "string option"
  rf_settlement_policy :: settlement_policy

datatype reversal_status = REVERSAL_REQUESTED | REVERSAL_POSTED | REVERSAL_FAILED | REVERSAL_CANCELLED

record reversal_row =
  rv_id :: string
  rv_operation_id :: string
  rv_reason :: "string option"
  rv_initiator :: "string option"
  rv_idempotency_key :: string
  rv_status :: reversal_status
  rv_posted_posting_id :: "string option"
  rv_settlement_policy :: settlement_policy

datatype adjustment_kind = REFUND_ADJUSTMENT | REVERSAL_ADJUSTMENT | DISPUTE_ADJUSTMENT | FEE_ADJUSTMENT | ADJ_CREDIT | ADJ_DEBIT

datatype related_entity = RELATED_REFUND | RELATED_REVERSAL | RELATED_DISPUTE | RELATED_BILLING_PERIOD

record financial_adjustment =
  fa_id :: string
  fa_kind :: adjustment_kind
  fa_related_entity_type :: related_entity
  fa_related_entity_id :: string
  fa_operation_id :: string
  fa_amount :: int
  fa_currency :: string
  fa_effective_date :: int
  fa_idempotency_key :: string

datatype dispute_status = DISPUTE_OPEN | DISPUTE_UNDER_REVIEW | DISPUTE_ACCEPTED | DISPUTE_REJECTED | DISPUTE_CLOSED

datatype dispute_event_type =
    EVENT_OPENED | EVENT_MOVED_TO_REVIEW | EVENT_ACCEPTED | EVENT_REJECTED | EVENT_CLOSED | EVENT_HOLD_PLACED | EVENT_HOLD_RELEASED
  | EVENT_REFUND_POSTED | EVENT_FEE_POSTED

record dispute =
  dp_id :: string
  dp_operation_id :: string
  dp_disputed_amount :: int
  dp_currency :: string
  dp_fee_amount :: int
  dp_status :: dispute_status
  dp_hold_placed :: bool
  dp_hold_posting_id :: "string option"
  dp_resolution_posting_id :: "string option"
  dp_initiator :: "string option"

record dispute_event =
  de_dispute_id :: string
  de_event_type :: dispute_event_type
  de_payload :: payload
  de_actor :: "string option"

record op_tables =
  op_accounts :: "op_account list"
  account_balances :: "account_balance list"
  op_entries :: "op_entry list"
  posting_batches :: "posting_batch list"
  card_operations :: "card_operation list"
  refund_requests :: "refund_request_row list"
  reversals :: "reversal_row list"
  adjustments :: "financial_adjustment list"
  disputes :: "dispute list"
  dispute_events :: "dispute_event list"

record op_db = audit_db +
  tables :: op_tables
  saved :: "audit_record list \<times> op_tables"

section \<open>The session\<close>

definition on_tables :: "(op_tables \<Rightarrow> op_tables) \<Rightarrow> ('a op_db_scheme, unit) act" where
  "on_tables f = update_state (\<lambda>s. s\<lparr>tables := f (tables s)\<rparr>)"

definition commit :: "('a op_db_scheme, unit) act" where
  "commit = update_state (\<lambda>s. s\<lparr>saved := (audit_log s, tables s)\<rparr>)"

definition rollback :: "('a op_db_scheme, unit) act" where
  "rollback = update_state (\<lambda>s. s\<lparr>audit_log := fst (saved s), tables := snd (saved s)\<rparr>)"

lemma on_tables_apply [simp]: "on_tables f s = (Inr (), s\<lparr>tables := f (tables s)\<rparr>)"
  by (simp add: on_tables_def)

lemma commit_apply [simp]: "commit s = (Inr (), s\<lparr>saved := (audit_log s, tables s)\<rparr>)"
  by (simp add: commit_def)

lemma rollback_apply [simp]: "rollback s = (Inr (), s\<lparr>audit_log := fst (saved s), tables := snd (saved s)\<rparr>)"
  by (simp add: rollback_def)

section \<open>Accounts\<close>

record account_query =
  as_client_id :: string
  as_owner_type :: account_owner_type
  as_owner_id :: "string option"
  as_currency :: string
  as_account_type :: account_type
  as_card_id :: "string option"
  as_tariff_id :: "string option"

definition resolved_owner :: "account_query \<Rightarrow> string" where
  "resolved_owner q = (if str_truthy (as_owner_id q) then the (as_owner_id q) else as_client_id q)"

definition in_account_query :: "account_query \<Rightarrow> op_account \<Rightarrow> bool" where
  "in_account_query q a \<longleftrightarrow>
     ac_client_id a = as_client_id q \<and> ac_owner_type a = as_owner_type q \<and> ac_owner_id a = resolved_owner q \<and>
     ac_currency a = as_currency q \<and> ac_type a = as_account_type q \<and> ac_card_id a = as_card_id q \<and> ac_tariff_id a = as_tariff_id q"

definition next_account_id :: "op_account list \<Rightarrow> int" where
  "next_account_id as = fold max (map ac_id as) 0 + 1"

definition new_account :: "account_query \<Rightarrow> int \<Rightarrow> op_account" where
  "new_account q i =
     \<lparr>ac_id = i, ac_client_id = as_client_id q, ac_owner_type = as_owner_type q, ac_owner_id = resolved_owner q,
      ac_card_id = as_card_id q, ac_tariff_id = as_tariff_id q, ac_currency = as_currency q, ac_type = as_account_type q,
      ac_status = ACCOUNT_ACTIVE\<rparr>"

definition get_or_create_account :: "account_query \<Rightarrow> ('a op_db_scheme, op_account) act" where
  "get_or_create_account q =
     and_then (reading (\<lambda>s. find (in_account_query q) (op_accounts (tables s)))) (\<lambda>existing.
     case existing of
       Some a \<Rightarrow> ret a
     | None \<Rightarrow>
         and_then (reading (\<lambda>s. new_account q (next_account_id (op_accounts (tables s))))) (\<lambda>a.
         and_then (on_tables (\<lambda>t. t\<lparr>op_accounts := op_accounts t @ [a]\<rparr>)) (\<lambda>_.
         and_then commit (\<lambda>_.
         ret a))))"

definition set_account_status :: "int \<Rightarrow> account_status \<Rightarrow> ('a op_db_scheme, op_account) act" where
  "set_account_status account_id status =
     and_then (query_one (\<lambda>a. ac_id a = account_id) (op_accounts \<circ> tables)) (\<lambda>x.
     case x of
       None \<Rightarrow> raise_exc NoResultFound
     | Some a \<Rightarrow>
         and_then (on_tables (\<lambda>t. t\<lparr>op_accounts := store_row ac_id (a\<lparr>ac_status := status\<rparr>) (op_accounts t)\<rparr>)) (\<lambda>_.
         and_then commit (\<lambda>_. ret (a\<lparr>ac_status := status\<rparr>))))"

definition freeze_account :: "int \<Rightarrow> ('a op_db_scheme, op_account) act" where
  "freeze_account i = set_account_status i ACCOUNT_FROZEN"

definition close_account :: "int \<Rightarrow> ('a op_db_scheme, op_account) act" where
  "close_account i = set_account_status i ACCOUNT_CLOSED"

section \<open>Balances\<close>

definition new_balance :: "int \<Rightarrow> account_balance" where
  "new_balance i =
     \<lparr>ab_account_id = i, ab_current_balance = 0, ab_available_balance = 0, ab_hold_balance = 0, ab_updated_at = None\<rparr>"

definition balance_row :: "int \<Rightarrow> ('a op_db_scheme, account_balance) act" where
  "balance_row account_id =
     and_then (query_one (\<lambda>b. ab_account_id b = account_id) (account_balances \<circ> tables)) (\<lambda>x.
     case x of
       Some b \<Rightarrow> ret b
     | None \<Rightarrow>
         and_then (on_tables (\<lambda>t. t\<lparr>account_balances := account_balances t @ [new_balance account_id]\<rparr>)) (\<lambda>_.
         ret (new_balance account_id)))"

definition get_balance :: "int \<Rightarrow> ('a op_db_scheme, account_balance) act" where
  "get_balance account_id =
     and_then (query_one (\<lambda>b. ab_account_id b = account_id) (account_balances \<circ> tables)) (\<lambda>x.
     case x of
       Some b \<Rightarrow> ret b
     | None \<Rightarrow>
         and_then (on_tables (\<lambda>t. t\<lparr>account_balances := account_balances t @ [new_balance account_id]\<rparr>)) (\<lambda>_.
         and_then commit (\<lambda>_. ret (new_balance account_id))))"

definition current_balance :: "int \<Rightarrow> ('a op_db_scheme, int) act" where
  "current_balance account_id = and_then (balance_row account_id) (\<lambda>b. ret (ab_current_balance b))"

definition is_hold_type :: "posting_type \<Rightarrow> bool" where
  "is_hold_type ty \<longleftrightarrow> ty \<in> {POST_AUTH, POST_HOLD, POST_DISPUTE_HOLD, POST_DISPUTE_RELEASE}"

definition save_balance :: "account_balance \<Rightarrow> ('a op_db_scheme, unit) act" where
  "save_balance b = on_tables (\<lambda>t. t\<lparr>account_balances := store_row ab_account_id b (account_balances t)\<rparr>)"

definition moved_balance :: "posting_type \<Rightarrow> op_entry \<Rightarrow> account_balance \<Rightarrow> account_balance" where
  "moved_balance ty e b =
     (let amount = oe_amount e in
      if is_hold_type ty
      then b\<lparr>ab_hold_balance := ab_hold_balance b + (if oe_direction e = LEDGER_DEBIT then amount else - amount),
             ab_available_balance := ab_available_balance b - (if oe_direction e = LEDGER_DEBIT then amount else - amount),
             ab_updated_at := Some (oe_posted_at e)\<rparr>
      else
        let current = (if oe_direction e = LEDGER_CREDIT then ab_current_balance b + amount else ab_current_balance b - amount)
        in b\<lparr>ab_current_balance := current, ab_available_balance := current - ab_hold_balance b, ab_updated_at := Some (oe_posted_at e)\<rparr>)"

definition apply_entry :: "op_entry \<Rightarrow> posting_type \<Rightarrow> ('a op_db_scheme, unit) act" where
  "apply_entry e ty =
     and_then (query_one (\<lambda>b. ab_account_id b = oe_account_id e) (account_balances \<circ> tables)) (\<lambda>x.
     case x of
       None \<Rightarrow> raise_exc NoResultFound
     | Some b \<Rightarrow> save_balance (moved_balance ty e b))"

record balance_view =
  bv_account_id :: int
  bv_current :: int
  bv_available :: int
  bv_hold :: int

definition snapshot_balances :: "int list \<Rightarrow> op_tables \<Rightarrow> balance_view list" where
  "snapshot_balances ids t =
     map (\<lambda>b. \<lparr>bv_account_id = ab_account_id b, bv_current = ab_current_balance b, bv_available = ab_available_balance b,
               bv_hold = ab_hold_balance b\<rparr>)
       (filter (\<lambda>b. ab_account_id b \<in> set (if ids = [] then [0] else ids)) (account_balances t))"

section \<open>Entries\<close>

record entry_args =
  ea_account_id :: int
  ea_operation_id :: "string option"
  ea_posting_id :: "string option"
  ea_direction :: ledger_direction
  ea_amount :: int
  ea_currency :: string
  ea_posted_at :: "int option"
  ea_value_date :: "int option"
  ea_entry_id :: "string option"
  ea_balance_before :: "int option"
  ea_balance_after_override :: "int option"
  ea_require_operation :: bool
  ea_sync_balance :: bool
  ea_auto_commit :: bool

definition or_fresh :: "world \<Rightarrow> string option \<Rightarrow> ('a op_db_scheme, string) act" where
  "or_fresh w x = (case x of Some i \<Rightarrow> ret i | None \<Rightarrow> new_uuid_str w)"

definition post_entry :: "world \<Rightarrow> entry_args \<Rightarrow> ('a op_db_scheme, op_entry) act" where
  "post_entry w q =
     and_then (reading (\<lambda>s. map op_id (card_operations (tables s)))) (\<lambda>ids.
     and_then (asserting (\<not> (ea_operation_id q \<noteq> None \<and> ea_require_operation q \<and> the (ea_operation_id q) \<notin> set ids)) OperationNotFound) (\<lambda>_.
     and_then (balance_row (ea_account_id q)) (\<lambda>b.
     let current = ab_current_balance b;
         after = (case ea_balance_after_override q of
                    Some x \<Rightarrow> x
                  | None \<Rightarrow> if ea_direction q = LEDGER_CREDIT then current + ea_amount q else current - ea_amount q)
     in
     and_then (case ea_posted_at q of Some t \<Rightarrow> ret t | None \<Rightarrow> now_utc w) (\<lambda>now.
     and_then (or_fresh w (ea_posting_id q)) (\<lambda>posting_id.
     and_then (or_fresh w (ea_entry_id q)) (\<lambda>entry_id.
     let e = \<lparr>oe_entry_id = entry_id, oe_posting_id = posting_id, oe_account_id = ea_account_id q,
              oe_operation_id = ea_operation_id q, oe_direction = ea_direction q, oe_amount = ea_amount q,
              oe_currency = ea_currency q,
              oe_balance_before = (case ea_balance_before q of Some x \<Rightarrow> x | None \<Rightarrow> current), oe_balance_after = after,
              oe_posted_at = now, oe_value_date = ea_value_date q\<rparr>
     in
     and_then (on_tables (\<lambda>t. t\<lparr>op_entries := op_entries t @ [e]\<rparr>)) (\<lambda>_.
     and_then (if ea_sync_balance q
               then save_balance (b\<lparr>ab_current_balance := after, ab_available_balance := after, ab_updated_at := Some now\<rparr>)
               else ret ()) (\<lambda>_.
     and_then (if ea_auto_commit q then commit else ret ()) (\<lambda>_.
     ret e)))))))))"

section \<open>Checking the lines of a posting\<close>

record posting_line =
  pl_account_id :: int
  pl_direction :: ledger_direction
  pl_amount :: int
  pl_currency :: string
  pl_metadata :: "payload option"

definition line_delta :: "posting_line \<Rightarrow> int" where
  "line_delta l = (if pl_direction l = LEDGER_CREDIT then pl_amount l else - pl_amount l)"

text \<open>\<open>_sum_by_currency\<close>: a dictionary in the order in which the currencies first occur.\<close>

fun add_total :: "string \<Rightarrow> int \<Rightarrow> (string \<times> int) list \<Rightarrow> (string \<times> int) list" where
  "add_total c d [] = [(c, d)]"
| "add_total c d ((k, v) # ts) = (if k = c then (k, v + d) # ts else (k, v) # add_total c d ts)"

definition sum_by_currency :: "posting_line list \<Rightarrow> (string \<times> int) list" where
  "sum_by_currency lines = fold (\<lambda>l ts. add_total (pl_currency l) (line_delta l) ts) lines []"

definition validate_ledger_lines :: "posting_line list \<Rightarrow> invariant_violation list" where
  "validate_ledger_lines lines =
     map (\<lambda>(c, d). \<lparr>iv_name = ''ledger.double_entry'', iv_expected = PStr ''debit == credit'',
                     iv_actual = PDict [(''currency'', PStr c), (''delta'', PStr (show_int d))]\<rparr>)
       (filter (\<lambda>(c, d). d \<noteq> 0) (sum_by_currency lines))"

definition currency_violations :: "op_account list \<Rightarrow> posting_line list \<Rightarrow> invariant_violation list" where
  "currency_violations as lines =
     concat (map (\<lambda>l.
       case find (\<lambda>a. ac_id a = pl_account_id l) as of
         None \<Rightarrow> [\<lparr>iv_name = ''ledger.account_missing'', iv_expected = PStr ''account_exists'', iv_actual = PInt (pl_account_id l)\<rparr>]
       | Some a \<Rightarrow>
           if pl_currency l \<noteq> ac_currency a
           then [\<lparr>iv_name = ''ledger.currency_match'', iv_expected = PStr (ac_currency a),
                  iv_actual = PDict [(''account_id'', PInt (pl_account_id l)), (''currency'', PStr (pl_currency l))]\<rparr>]
           else []) lines)"

definition ledger_violation :: "string \<Rightarrow> invariant_violation list \<Rightarrow> fin_violation" where
  "ledger_violation posting_id vs =
     \<lparr>fv_entity_type = ''ledger_transaction'', fv_entity_id = posting_id, fv_ledger_transaction_id = Some posting_id,
      fv_violations = vs, fv_context = None\<rparr>"

definition check_ledger_lines :: "world \<Rightarrow> posting_line list \<Rightarrow> string \<Rightarrow> ('a op_db_scheme, unit) act" where
  "check_ledger_lines w lines posting_id =
     and_then (raise_violations w True None [] (ledger_violation posting_id (validate_ledger_lines lines))) (\<lambda>_.
     and_then (reading (\<lambda>s. currency_violations (op_accounts (tables s)) lines)) (\<lambda>vs.
     raise_violations w True None [] (ledger_violation posting_id vs)))"

section \<open>Postings\<close>

record posting_request =
  pr_operation_id :: "string option"
  pr_posting_type :: posting_type
  pr_idempotency_key :: string
  pr_lines :: "posting_line list"

record posting_result =
  po_posting_id :: string
  po_entries :: "op_entry list"
  po_balances :: "balance_view list"

definition entry_args_of :: "posting_request \<Rightarrow> string \<Rightarrow> posting_line \<Rightarrow> string \<Rightarrow> int \<Rightarrow> entry_args" where
  "entry_args_of q posting_id l entry_id before =
     \<lparr>ea_account_id = pl_account_id l, ea_operation_id = pr_operation_id q, ea_posting_id = Some posting_id,
      ea_direction = pl_direction l, ea_amount = pl_amount l, ea_currency = pl_currency l, ea_posted_at = None,
      ea_value_date = None, ea_entry_id = Some entry_id, ea_balance_before = Some before,
      ea_balance_after_override = Some (if is_hold_type (pr_posting_type q) then before
                                        else if pl_direction l = LEDGER_CREDIT then before + pl_amount l
                                        else before - pl_amount l),
      ea_require_operation = False, ea_sync_balance = False, ea_auto_commit = False\<rparr>"

text \<open>
  An entry is written when it is posted; giving it the metadata of its line afterwards is an update, which the
  listener of the append-only table refuses at the next flush.
\<close>

definition post_line :: "world \<Rightarrow> posting_request \<Rightarrow> string \<Rightarrow> posting_line \<Rightarrow> ('a op_db_scheme, op_entry) act" where
  "post_line w q posting_id l =
     and_then (current_balance (pl_account_id l)) (\<lambda>before.
     and_then (new_uuid_str w) (\<lambda>entry_id.
     and_then (post_entry w (entry_args_of q posting_id l entry_id before)) (\<lambda>e.
     and_then (asserting (pl_metadata l = None \<or> pl_metadata l = Some []) (ValueError ''ledger_entries_are_append_only'')) (\<lambda>_.
     and_then (apply_entry e (pr_posting_type q)) (\<lambda>_.
     ret e)))))"

definition write_posting :: "world \<Rightarrow> posting_request \<Rightarrow> string \<Rightarrow> ('a op_db_scheme, op_entry list) act" where
  "write_posting w q posting_id =
     and_then (for_each (pr_lines q) (post_line w q posting_id)) (\<lambda>es.
     and_then (on_tables (\<lambda>t. t\<lparr>posting_batches := posting_batches t @
       [\<lparr>pb_id = posting_id, pb_operation_id = pr_operation_id q, pb_posting_type = pr_posting_type q, pb_status = BATCH_APPLIED,
         pb_idempotency_key = pr_idempotency_key q\<rparr>]\<rparr>)) (\<lambda>_.
     and_then commit (\<lambda>_.
     ret es)))"

text \<open>The error that a violation becomes keeps the name, the expectation and the value of the first violation only.\<close>

definition posting_error :: "fin_violation \<Rightarrow> py_exc" where
  "posting_error fv = PostingInvariantError (fv\<lparr>fv_violations := take 1 (fv_violations fv), fv_context := None\<rparr>)"

fun violation_of :: "py_exc \<Rightarrow> fin_violation option" where
  "violation_of (FinancialInvariantViolation fv) = Some fv"
| "violation_of _ = None"

definition apply_posting :: "world \<Rightarrow> posting_request \<Rightarrow> ('a op_db_scheme, posting_result) act" where
  "apply_posting w q =
     and_then (query_one (\<lambda>b. pb_idempotency_key b = pr_idempotency_key q) (posting_batches \<circ> tables)) (\<lambda>existing.
     case existing of
       Some b \<Rightarrow>
         reading (\<lambda>s. let es = filter (\<lambda>e. oe_posting_id e = pb_id b) (op_entries (tables s))
           in \<lparr>po_posting_id = pb_id b, po_entries = es, po_balances = snapshot_balances (map oe_account_id es) (tables s)\<rparr>)
     | None \<Rightarrow>
         and_then (new_uuid_str w) (\<lambda>posting_id.
         and_then (catching (\<lambda>e. violation_of e \<noteq> None) (check_ledger_lines w (pr_lines q) posting_id)
           (\<lambda>e. raise_exc (posting_error (the (violation_of e))))) (\<lambda>_.
         and_then (catching (\<lambda>_. True) (write_posting w q posting_id) (\<lambda>e. and_then rollback (\<lambda>_. raise_exc e))) (\<lambda>es.
         reading (\<lambda>s. \<lparr>po_posting_id = posting_id, po_entries = es,
                       po_balances = snapshot_balances (map oe_account_id es) (tables s)\<rparr>)))))"

end
