(* ===== verification/Op_Books.thy ===== *)
theory Op_Books
  imports Op_Ledger Double_Entry Idempotency
begin

text \<open>
  The invariant of the operation ledger and what a posting does to it. Every entry records the balance before and after;
  their difference is what the entry moved. The books are sound when every balance is the sum of what its entries
  moved, less its holds it is what is available, and what the entries of a posting move in a currency cancels.
\<close>

section \<open>The invariant\<close>

definition entry_moved :: "op_entry \<Rightarrow> int" where
  "entry_moved e = oe_balance_after e - oe_balance_before e"

definition account_entries :: "int \<Rightarrow> op_tables \<Rightarrow> op_entry list" where
  "account_entries a t = filter (\<lambda>e. oe_account_id e = a) (op_entries t)"

definition has_currency :: "op_tables \<Rightarrow> int \<Rightarrow> string \<Rightarrow> bool" where
  "has_currency t i c \<longleftrightarrow> (\<exists>a. find (\<lambda>a. ac_id a = i) (op_accounts t) = Some a \<and> ac_currency a = c)"

definition book_ok :: "op_tables \<Rightarrow> bool" where
  "book_ok t \<longleftrightarrow>
     distinct (map ab_account_id (account_balances t)) \<and>
     (\<forall>b\<in>set (account_balances t).
        ab_available_balance b = ab_current_balance b - ab_hold_balance b \<and>
        ab_current_balance b = signed_sum entry_moved (account_entries (ab_account_id b) t)) \<and>
     (\<forall>e\<in>set (op_entries t). oe_account_id e \<in> ab_account_id ` set (account_balances t) \<and>
        has_currency t (oe_account_id e) (oe_currency e)) \<and>
     (\<forall>p c. signed_sum entry_moved (filter (\<lambda>e. oe_posting_id e = p \<and> oe_currency e = c) (op_entries t)) = 0)"

lemma book_okD:
  assumes "book_ok t"
  shows "distinct (map ab_account_id (account_balances t))"
    and "b \<in> set (account_balances t) \<Longrightarrow> ab_available_balance b = ab_current_balance b - ab_hold_balance b"
    and "b \<in> set (account_balances t) \<Longrightarrow> ab_current_balance b = signed_sum entry_moved (account_entries (ab_account_id b) t)"
    and "e \<in> set (op_entries t) \<Longrightarrow> oe_account_id e \<in> ab_account_id ` set (account_balances t)"
    and "e \<in> set (op_entries t) \<Longrightarrow> has_currency t (oe_account_id e) (oe_currency e)"
    and "signed_sum entry_moved (filter (\<lambda>e. oe_posting_id e = p \<and> oe_currency e = c) (op_entries t)) = 0"
  using assms by (auto simp: book_ok_def)

interpretation op_books: double_entry book_ok op_entries "\<lambda>e. (oe_posting_id e, oe_currency e)" oe_currency oe_account_id entry_moved
proof
  fix t e
  assume "book_ok t"
  then show "signed_sum entry_moved (filter (\<lambda>x. (oe_posting_id x, oe_currency x) = (oe_posting_id e, oe_currency e)) (op_entries t)) = 0"
    using book_okD(6) [of t "oe_posting_id e" "oe_currency e"] by simp
qed simp

section \<open>One entry\<close>

definition with_balance :: "int \<Rightarrow> op_tables \<Rightarrow> op_tables" where
  "with_balance i t =
     (if i \<in> ab_account_id ` set (account_balances t) then t
      else t\<lparr>account_balances := account_balances t @ [new_balance i]\<rparr>)"

definition booked :: "posting_type \<Rightarrow> op_entry \<Rightarrow> op_tables \<Rightarrow> op_tables" where
  "booked ty e t =
     (let u = with_balance (oe_account_id e) t
      in u\<lparr>op_entries := op_entries u @ [e],
           account_balances := map (\<lambda>b. if ab_account_id b = oe_account_id e then moved_balance ty e b else b) (account_balances u)\<rparr>)"

definition balance_of :: "int \<Rightarrow> op_tables \<Rightarrow> account_balance" where
  "balance_of i t = (case find (\<lambda>b. ab_account_id b = i) (account_balances t) of None \<Rightarrow> new_balance i | Some b \<Rightarrow> b)"

definition moves :: "posting_type \<Rightarrow> posting_line \<Rightarrow> int" where
  "moves ty l = (if is_hold_type ty then 0 else line_delta l)"

definition op_entry_for :: "posting_request \<Rightarrow> string \<Rightarrow> posting_line \<Rightarrow> op_entry \<Rightarrow> bool" where
  "op_entry_for q p l e \<longleftrightarrow>
     oe_account_id e = pl_account_id l \<and> oe_direction e = pl_direction l \<and> oe_amount e = pl_amount l \<and> oe_currency e = pl_currency l \<and>
     oe_posting_id e = p \<and> oe_operation_id e = pr_operation_id q \<and> entry_moved e = moves (pr_posting_type q) l"

lemma one_or_none_find:
  assumes "distinct (map ab_account_id bs)"
  shows "one_or_none (\<lambda>b. ab_account_id b = i) bs = Inr (find (\<lambda>b. ab_account_id b = i) bs)"
proof (cases "find (\<lambda>b. ab_account_id b = i) bs")
  case None
  then have "one_or_none (\<lambda>b. ab_account_id b = i) bs = Inr None" by (auto simp: find_None_iff)
  with None show ?thesis by simp
next
  case (Some b)
  from find_SomeD [OF Some] one_or_none_unique_key [OF assms, of b] Some show ?thesis by auto
qed

lemma with_balance_sel [simp]:
  "op_entries (with_balance i t) = op_entries t" "op_accounts (with_balance i t) = op_accounts t"
  "posting_batches (with_balance i t) = posting_batches t"
  by (simp_all add: with_balance_def)

lemma with_balance_twice [simp]: "with_balance i (with_balance i t) = with_balance i t"
  by (simp add: with_balance_def new_balance_def)

lemma distinct_with_balance [simp]:
  "distinct (map ab_account_id (account_balances t)) \<Longrightarrow> distinct (map ab_account_id (account_balances (with_balance i t)))"
  by (simp add: with_balance_def new_balance_def)

lemma find_with_balance: "find (\<lambda>b. ab_account_id b = i) (account_balances (with_balance i t)) = Some (balance_of i t)"
proof (cases "find (\<lambda>b. ab_account_id b = i) (account_balances t)")
  case None
  then have "i \<notin> ab_account_id ` set (account_balances t)" by (auto simp: find_None_iff)
  moreover from this have "find (\<lambda>b. ab_account_id b = i) (account_balances t @ [new_balance i]) = Some (new_balance i)"
    using None by (simp add: find_snoc new_balance_def)
  ultimately show ?thesis using None by (simp add: with_balance_def balance_of_def)
next
  case (Some b)
  then have "i \<in> ab_account_id ` set (account_balances t)" using find_SomeD by fastforce
  with Some show ?thesis by (simp add: with_balance_def balance_of_def)
qed

lemma balance_row_run:
  assumes "distinct (map ab_account_id (account_balances (tables s)))"
  shows "balance_row i s = (Inr (balance_of i (tables s)), s\<lparr>tables := with_balance i (tables s)\<rparr>)"
proof (cases "find (\<lambda>b. ab_account_id b = i) (account_balances (tables s))")
  case None
  then have "i \<notin> ab_account_id ` set (account_balances (tables s))" by (auto simp: find_None_iff)
  with None show ?thesis
    by (simp add: balance_row_def and_then_apply one_or_none_find [OF assms] with_balance_def balance_of_def)
next
  case (Some b)
  then have "i \<in> ab_account_id ` set (account_balances (tables s))" using find_SomeD by fastforce
  with Some show ?thesis
    by (simp add: balance_row_def and_then_apply one_or_none_find [OF assms] with_balance_def balance_of_def)
qed

lemma moved_balance_id [simp]: "ab_account_id (moved_balance ty e b) = ab_account_id b"
  by (simp add: moved_balance_def Let_def)

lemma store_moved:
  assumes "find (\<lambda>b. ab_account_id b = i) bs = Some b" and "distinct (map ab_account_id bs)"
  shows "store_row ab_account_id (moved_balance ty e b) bs = map (\<lambda>x. if ab_account_id x = i then moved_balance ty e x else x) bs"
proof -
  from find_SomeD [OF assms(1)] have b: "b \<in> set bs" "ab_account_id b = i" by simp_all
  have "x = b" if "x \<in> set bs" "ab_account_id x = i" for x
    using that b assms(2) by (auto simp: distinct_map dest: inj_onD)
  with b(2) show ?thesis by (auto simp: store_row_def)
qed

lemma post_line_run:
  assumes dist: "distinct (map ab_account_id (account_balances (tables s)))"
    and meta: "pl_metadata l = None \<or> pl_metadata l = Some []"
  shows "\<exists>e n. post_line w q p l s = (Inr e, s\<lparr>tick := n, tables := booked (pr_posting_type q) e (tables s)\<rparr>) \<and> op_entry_for q p l e \<and>
    tick s \<le> n"
proof -
  let ?i = "pl_account_id l" and ?t = "tables s" and ?ty = "pr_posting_type q"
  let ?b = "ab_current_balance (balance_of ?i ?t)"
  define e where "e =
    \<lparr>oe_entry_id = uuid_at w (tick s), oe_posting_id = p, oe_account_id = ?i, oe_operation_id = pr_operation_id q,
     oe_direction = pl_direction l, oe_amount = pl_amount l, oe_currency = pl_currency l, oe_balance_before = ?b,
     oe_balance_after = (if is_hold_type ?ty then ?b else if pl_direction l = LEDGER_CREDIT then ?b + pl_amount l else ?b - pl_amount l),
     oe_posted_at = time_at w (Suc (tick s)), oe_value_date = None\<rparr>"
  have find: "find (\<lambda>b. ab_account_id b = ?i) (account_balances (with_balance ?i ?t)) = Some (balance_of ?i ?t)"
    by (rule find_with_balance)
  have b2: "balance_of ?i (with_balance ?i ?t) = balance_of ?i ?t" by (simp add: balance_of_def find)
  have e: "oe_account_id e = ?i" by (simp add: e_def)
  have "post_line w q p l s = (Inr e, s\<lparr>tick := Suc (Suc (tick s)), tables := booked ?ty e ?t\<rparr>)"
    using meta dist
    by (simp add: e post_line_def current_balance_def and_then_apply balance_row_run post_entry_def entry_args_of_def or_fresh_def Let_def
        b2 apply_entry_def one_or_none_find find save_balance_def booked_def e_def [symmetric] store_moved [OF find])
  moreover have "op_entry_for q p l e"
    by (cases "pl_direction l") (simp_all add: op_entry_for_def e_def entry_moved_def moves_def line_delta_def)
  ultimately show ?thesis by (intro exI [of _ e] exI [of _ "Suc (Suc (tick s))"]) simp
qed

section \<open>The lines of a posting\<close>

lemma booked_sel [simp]:
  "op_entries (booked ty e t) = op_entries t @ [e]" "op_accounts (booked ty e t) = op_accounts t"
  "posting_batches (booked ty e t) = posting_batches t"
  "map ab_account_id (account_balances (booked ty e t)) = map ab_account_id (account_balances (with_balance (oe_account_id e) t))"
  by (simp_all add: booked_def Let_def)

lemma distinct_booked [simp]:
  "distinct (map ab_account_id (account_balances t)) \<Longrightarrow> distinct (map ab_account_id (account_balances (booked ty e t)))"
  by simp

lemma fold_booked_sel [simp]:
  "op_entries (fold (booked ty) es t) = op_entries t @ es" "op_accounts (fold (booked ty) es t) = op_accounts t"
  "posting_batches (fold (booked ty) es t) = posting_batches t"
  by (induction es arbitrary: t) simp_all

definition plain_line :: "posting_line \<Rightarrow> bool" where
  "plain_line l \<longleftrightarrow> pl_metadata l = None \<or> pl_metadata l = Some []"

lemma post_lines_run:
  assumes "distinct (map ab_account_id (account_balances (tables s)))" and "\<forall>l\<in>set lines. plain_line l"
  shows "\<exists>es n. for_each lines (post_line w q p) s = (Inr es, s\<lparr>tick := n, tables := fold (booked (pr_posting_type q)) es (tables s)\<rparr>) \<and>
    list_all2 (op_entry_for q p) lines es \<and> tick s \<le> n"
  using assms
proof (induction lines arbitrary: s)
  case Nil
  show ?case by (rule exI [of _ "[]"], rule exI [of _ "tick s"]) simp
next
  case (Cons l ls)
  obtain e n where e: "post_line w q p l s = (Inr e, s\<lparr>tick := n, tables := booked (pr_posting_type q) e (tables s)\<rparr>)" "op_entry_for q p l e"
      "tick s \<le> n"
    using post_line_run [OF Cons.prems(1), of l w q p] Cons.prems(2) by (auto simp: plain_line_def)
  let ?s = "s\<lparr>tick := n, tables := booked (pr_posting_type q) e (tables s)\<rparr>"
  obtain es m where es: "for_each ls (post_line w q p) ?s =
      (Inr es, ?s\<lparr>tick := m, tables := fold (booked (pr_posting_type q)) es (tables ?s)\<rparr>)" "list_all2 (op_entry_for q p) ls es"
      "n \<le> m"
    using Cons.IH [of ?s] Cons.prems by auto
  show ?case
    by (rule exI [of _ "e # es"], rule exI [of _ m]) (use e es in \<open>simp add: and_then_apply\<close>)
qed

lemma post_lines_refused:
  assumes "distinct (map ab_account_id (account_balances (tables s)))" and "\<exists>l\<in>set lines. \<not> plain_line l"
  shows "\<exists>n t. for_each lines (post_line w q p) s = (Inl (ValueError ''ledger_entries_are_append_only''), s\<lparr>tick := n, tables := t\<rparr>) \<and>
    tick s \<le> n"
  using assms
proof (induction lines arbitrary: s)
  case (Cons l ls)
  show ?case
  proof (cases "plain_line l")
    case True
    obtain e n where e: "post_line w q p l s = (Inr e, s\<lparr>tick := n, tables := booked (pr_posting_type q) e (tables s)\<rparr>)" "tick s \<le> n"
      using post_line_run [OF Cons.prems(1), of l w q p] True by (auto simp: plain_line_def)
    let ?s = "s\<lparr>tick := n, tables := booked (pr_posting_type q) e (tables s)\<rparr>"
    have "\<exists>n t. for_each ls (post_line w q p) ?s = (Inl (ValueError ''ledger_entries_are_append_only''), ?s\<lparr>tick := n, tables := t\<rparr>) \<and>
        tick ?s \<le> n"
      by (rule Cons.IH) (use Cons.prems True in auto)
    then obtain m u where "for_each ls (post_line w q p) ?s = (Inl (ValueError ''ledger_entries_are_append_only''), s\<lparr>tick := m, tables := u\<rparr>)"
        "n \<le> m"
      by auto
    with e show ?thesis by (intro exI [of _ m] exI [of _ u]) (simp add: and_then_apply)
  next
    case False
    let ?i = "pl_account_id l"
    have b2: "balance_of ?i (with_balance ?i (tables s)) = balance_of ?i (tables s)"
      by (simp add: balance_of_def find_with_balance)
    from False Cons.prems(1)
    have "\<exists>t. post_line w q p l s = (Inl (ValueError ''ledger_entries_are_append_only''), s\<lparr>tick := Suc (Suc (tick s)), tables := t\<rparr>)"
      by (auto simp: plain_line_def post_line_def current_balance_def and_then_apply balance_row_run post_entry_def entry_args_of_def
          or_fresh_def Let_def b2)
    then obtain u where "post_line w q p l s = (Inl (ValueError ''ledger_entries_are_append_only''), s\<lparr>tick := Suc (Suc (tick s)), tables := u\<rparr>)"
      by auto
    then show ?thesis by (intro exI [of _ "Suc (Suc (tick s))"] exI [of _ u]) (simp add: and_then_apply)
  qed
qed simp

section \<open>Postings keep the books\<close>

definition entry_ok :: "posting_type \<Rightarrow> op_entry \<Rightarrow> bool" where
  "entry_ok ty e \<longleftrightarrow>
     entry_moved e = (if is_hold_type ty then 0 else if oe_direction e = LEDGER_CREDIT then oe_amount e else - oe_amount e)"

text \<open>The invariant without the last clause, which holds again only when a posting is complete.\<close>

definition balances_ok :: "op_tables \<Rightarrow> bool" where
  "balances_ok t \<longleftrightarrow>
     distinct (map ab_account_id (account_balances t)) \<and>
     (\<forall>b\<in>set (account_balances t).
        ab_available_balance b = ab_current_balance b - ab_hold_balance b \<and>
        ab_current_balance b = signed_sum entry_moved (account_entries (ab_account_id b) t)) \<and>
     (\<forall>e\<in>set (op_entries t). oe_account_id e \<in> ab_account_id ` set (account_balances t) \<and>
        has_currency t (oe_account_id e) (oe_currency e))"

lemma book_ok_split:
  "book_ok t \<longleftrightarrow> balances_ok t \<and>
     (\<forall>p c. signed_sum entry_moved (filter (\<lambda>e. oe_posting_id e = p \<and> oe_currency e = c) (op_entries t)) = 0)"
  by (simp add: book_ok_def balances_ok_def conj_assoc)

lemma with_balance_ok: "balances_ok t \<Longrightarrow> balances_ok (with_balance i t)"
proof -
  assume ok: "balances_ok t"
  show ?thesis
  proof (cases "i \<in> ab_account_id ` set (account_balances t)")
    case False
    with ok have "account_entries i t = []" by (auto simp: balances_ok_def account_entries_def filter_empty_conv)
    with ok False show ?thesis
      by (auto simp: balances_ok_def with_balance_def new_balance_def account_entries_def has_currency_def)
  qed (use ok in \<open>simp add: with_balance_def\<close>)
qed

lemma moved_balance_ok:
  assumes "entry_ok ty e" and "ab_available_balance b = ab_current_balance b - ab_hold_balance b"
  shows "ab_current_balance (moved_balance ty e b) = ab_current_balance b + entry_moved e"
    and "ab_available_balance (moved_balance ty e b) = ab_current_balance (moved_balance ty e b) - ab_hold_balance (moved_balance ty e b)"
  using assms by (cases "oe_direction e"; auto simp: moved_balance_def Let_def entry_ok_def)+

lemma booked_ok:
  assumes ok: "balances_ok t" and e: "entry_ok ty e" and cur: "has_currency t (oe_account_id e) (oe_currency e)"
  shows "balances_ok (booked ty e t)"
proof -
  let ?u = "with_balance (oe_account_id e) t"
  have u: "balances_ok ?u" by (rule with_balance_ok [OF ok])
  have es: "account_entries i (booked ty e t) = account_entries i ?u @ (if oe_account_id e = i then [e] else [])" for i
    by (simp add: account_entries_def)
  have hc: "has_currency (booked ty e t) i c = has_currency t i c" "has_currency ?u i c = has_currency t i c" for i c
    by (simp_all add: has_currency_def)
  have bal: "account_balances (booked ty e t) =
      map (\<lambda>b. if ab_account_id b = oe_account_id e then moved_balance ty e b else b) (account_balances ?u)"
    by (simp add: booked_def Let_def)
  have acc: "oe_account_id e \<in> ab_account_id ` set (account_balances ?u)"
    by (auto simp: with_balance_def new_balance_def)
  have ids: "ab_account_id ` set (account_balances (booked ty e t)) = ab_account_id ` set (account_balances ?u)"
    by (simp only: set_map [symmetric] booked_sel)
  have "ab_available_balance b = ab_current_balance b - ab_hold_balance b \<and>
      ab_current_balance b = signed_sum entry_moved (account_entries (ab_account_id b) (booked ty e t))"
    if b: "b \<in> set (account_balances (booked ty e t))" for b
  proof -
    from b obtain x where x: "x \<in> set (account_balances ?u)"
        "b = (if ab_account_id x = oe_account_id e then moved_balance ty e x else x)"
      unfolding bal by auto
    have "ab_available_balance x = ab_current_balance x - ab_hold_balance x"
        "ab_current_balance x = signed_sum entry_moved (account_entries (ab_account_id x) ?u)"
      using u x(1) by (auto simp: balances_ok_def)
    with x(2) moved_balance_ok [OF e, of x] show ?thesis by (auto simp: es)
  qed
  moreover have "oe_account_id x \<in> ab_account_id ` set (account_balances (booked ty e t)) \<and>
      has_currency (booked ty e t) (oe_account_id x) (oe_currency x)" if "x \<in> set (op_entries (booked ty e t))" for x
    using that u acc cur unfolding ids hc by (auto simp: balances_ok_def hc)
  moreover have "distinct (map ab_account_id (account_balances (booked ty e t)))"
    using u by (simp add: balances_ok_def)
  ultimately show ?thesis by (simp add: balances_ok_def)
qed

lemma fold_booked_ok:
  assumes "balances_ok t" and "\<forall>e\<in>set es. entry_ok ty e \<and> has_currency t (oe_account_id e) (oe_currency e)"
  shows "balances_ok (fold (booked ty) es t)"
  using assms
proof (induction es arbitrary: t)
  case (Cons e es)
  have "has_currency (booked ty e t) i c = has_currency t i c" for i c by (simp add: has_currency_def)
  with Cons show ?case by (simp add: booked_ok)
qed simp

text \<open>The totals by currency, as a sum over the lines.\<close>

lemma add_total_map_of:
  "map_of (add_total c d ts) k = (if k = c then Some ((case map_of ts c of None \<Rightarrow> 0 | Some v \<Rightarrow> v) + d) else map_of ts k)"
  by (induction ts) auto

lemma keys_add_total: "set (map fst (add_total c d ts)) = insert c (set (map fst ts))"
proof (induction ts)
  case (Cons x ts)
  then show ?case by (cases x) (auto simp: insert_commute)
qed simp

lemma distinct_add_total: "distinct (map fst ts) \<Longrightarrow> distinct (map fst (add_total c d ts))"
  using keys_add_total by (induction ts) (auto simp del: set_map)

lemma fold_totals:
  assumes "distinct (map fst ts)"
  shows "distinct (map fst (fold (\<lambda>l ts. add_total (pl_currency l) (line_delta l) ts) lines ts)) \<and>
    (case map_of (fold (\<lambda>l ts. add_total (pl_currency l) (line_delta l) ts) lines ts) c of None \<Rightarrow> 0 | Some v \<Rightarrow> v) =
      (case map_of ts c of None \<Rightarrow> 0 | Some v \<Rightarrow> v) + signed_sum line_delta (filter (\<lambda>l. pl_currency l = c) lines)"
  using assms
proof (induction lines arbitrary: ts)
  case (Cons l ls)
  from Cons.IH [OF distinct_add_total [OF Cons.prems, of "pl_currency l" "line_delta l"]]
  show ?case by (auto simp: add_total_map_of)
qed simp

lemma balanced_lines:
  assumes "validate_ledger_lines lines = []"
  shows "signed_sum line_delta (filter (\<lambda>l. pl_currency l = c) lines) = 0"
proof -
  let ?ts = "sum_by_currency lines"
  from fold_totals [of "[]" lines c] have d: "distinct (map fst ?ts)"
    and v: "(case map_of ?ts c of None \<Rightarrow> 0 | Some v \<Rightarrow> v) = signed_sum line_delta (filter (\<lambda>l. pl_currency l = c) lines)"
    by (simp_all add: sum_by_currency_def)
  from assms have "\<forall>(k, x)\<in>set ?ts. x = 0" by (auto simp: validate_ledger_lines_def filter_empty_conv)
  then have "(case map_of ?ts c of None \<Rightarrow> 0 | Some v \<Rightarrow> v) = 0" by (auto split: option.split dest!: map_of_SomeD)
  with v show ?thesis by simp
qed

lemma accounts_match:
  assumes "currency_violations (op_accounts t) lines = []" and "l \<in> set lines"
  shows "has_currency t (pl_account_id l) (pl_currency l)"
proof -
  from assms obtain a where "find (\<lambda>a. ac_id a = pl_account_id l) (op_accounts t) = Some a" "pl_currency l = ac_currency a"
    by (fastforce simp: currency_violations_def split: option.splits if_splits)
  then show ?thesis by (simp add: has_currency_def)
qed

lemma entries_balanced:
  assumes "list_all2 (op_entry_for q p) lines es" and "validate_ledger_lines lines = []"
  shows "signed_sum entry_moved (filter (\<lambda>e. oe_posting_id e = p' \<and> oe_currency e = c) es) = 0"
proof (cases "p' = p")
  case True
  have "signed_sum entry_moved (filter (\<lambda>e. oe_posting_id e = p \<and> oe_currency e = c) es) =
      (if is_hold_type (pr_posting_type q) then 0 else signed_sum line_delta (filter (\<lambda>l. pl_currency l = c) lines))"
    using assms(1)
    by (induction rule: list_all2_induct) (auto simp: op_entry_for_def moves_def)
  with True balanced_lines [OF assms(2)] show ?thesis by simp
next
  case False
  with assms(1) have "filter (\<lambda>e. oe_posting_id e = p' \<and> oe_currency e = c) es = []"
    by (induction rule: list_all2_induct) (auto simp: op_entry_for_def)
  then show ?thesis by (simp only: signed_sum_Nil)
qed

lemma posting_keeps_book:
  assumes ok: "book_ok t" and es: "list_all2 (op_entry_for q p) lines es"
    and lines: "validate_ledger_lines lines = []" "currency_violations (op_accounts t) lines = []"
  shows "book_ok (fold (booked (pr_posting_type q)) es t)"
proof -
  have "entry_ok (pr_posting_type q) e \<and> has_currency t (oe_account_id e) (oe_currency e)" if "e \<in> set es" for e
  proof -
    from es that obtain l where "l \<in> set lines" "op_entry_for q p l e"
      by (metis in_set_conv_nth list_all2_conv_all_nth)
    with accounts_match [OF lines(2)] show ?thesis
      by (auto simp: op_entry_for_def entry_ok_def moves_def line_delta_def)
  qed
  with ok have "balances_ok (fold (booked (pr_posting_type q)) es t)"
    by (intro fold_booked_ok) (auto simp: book_ok_split)
  with ok entries_balanced [OF es lines(1)] show ?thesis by (simp add: book_ok_split)
qed

section \<open>A posting as a whole\<close>

text \<open>
  Sound tables: the books are in order, no two accounts share an identifier and no two batches a key (the tables are unique
  in them), and the identifiers of
  postings were drawn before.
\<close>

definition sound :: "world \<Rightarrow> nat \<Rightarrow> op_tables \<Rightarrow> bool" where
  "sound w n t \<longleftrightarrow> book_ok t \<and> distinct (map ac_id (op_accounts t)) \<and> distinct (map pb_idempotency_key (posting_batches t)) \<and>
     (\<forall>e\<in>set (op_entries t). \<exists>k<n. oe_posting_id e = uuid_at w k)"

definition op_ok :: "world \<Rightarrow> 'a op_db_scheme \<Rightarrow> bool" where
  "op_ok w s \<longleftrightarrow> sound w (tick s) (tables s) \<and> sound w (tick s) (snd (saved s))"

lemma sound_mono: "sound w n t \<Longrightarrow> n \<le> m \<Longrightarrow> sound w m t"
  unfolding sound_def by (meson order_less_le_trans)

lemma op_ok_tick: "op_ok w s \<Longrightarrow> tick s \<le> n \<Longrightarrow> op_ok w (s\<lparr>tick := n, audit_log := l\<rparr>)"
  by (auto simp: op_ok_def intro: sound_mono)

definition posted_tables :: "posting_request \<Rightarrow> string \<Rightarrow> op_entry list \<Rightarrow> op_tables \<Rightarrow> op_tables" where
  "posted_tables q p es t =
     (fold (booked (pr_posting_type q)) es t)\<lparr>posting_batches := posting_batches t @
       [\<lparr>pb_id = p, pb_operation_id = pr_operation_id q, pb_posting_type = pr_posting_type q, pb_status = BATCH_APPLIED,
         pb_idempotency_key = pr_idempotency_key q\<rparr>]\<rparr>"

definition posting_valid :: "posting_request \<Rightarrow> op_tables \<Rightarrow> bool" where
  "posting_valid q t \<longleftrightarrow> validate_ledger_lines (pr_lines q) = [] \<and> currency_violations (op_accounts t) (pr_lines q) = []"

definition key_new :: "posting_request \<Rightarrow> op_tables \<Rightarrow> bool" where
  "key_new q t \<longleftrightarrow> pr_idempotency_key q \<notin> pb_idempotency_key ` set (posting_batches t)"

lemma raise_violations_audited:
  assumes "fv_violations fv \<noteq> []"
  obtains a where "raise_violations w True rc extra fv s =
    (Inl (FinancialInvariantViolation fv), s\<lparr>tick := Suc (Suc (tick s)), audit_log := audit_log s @ [a]\<rparr>)"
proof -
  obtain a where "audit_violation w fv rc extra s = (Inr a, s\<lparr>tick := Suc (Suc (tick s)), audit_log := audit_log s @ [a]\<rparr>)"
    unfolding audit_violation_def by (rule audit_effect)
  then show ?thesis using assms by (intro that [of a]) (simp add: raise_violations_def and_then_apply)
qed

lemma check_lines_valid: "posting_valid q (tables s) \<Longrightarrow> check_ledger_lines w (pr_lines q) p s = (Inr (), s)"
  by (simp add: check_ledger_lines_def posting_valid_def and_then_apply ledger_violation_def)

lemma check_lines_invalid:
  assumes "\<not> posting_valid q (tables s)"
  obtains fv a where "check_ledger_lines w (pr_lines q) p s =
    (Inl (FinancialInvariantViolation fv), s\<lparr>tick := Suc (Suc (tick s)), audit_log := audit_log s @ [a]\<rparr>)"
proof (cases "validate_ledger_lines (pr_lines q) = []")
  case True
  let ?fv = "ledger_violation p (currency_violations (op_accounts (tables s)) (pr_lines q))"
  have "fv_violations ?fv \<noteq> []" using assms True by (simp add: posting_valid_def ledger_violation_def)
  then obtain a where "raise_violations w True None [] ?fv s =
      (Inl (FinancialInvariantViolation ?fv), s\<lparr>tick := Suc (Suc (tick s)), audit_log := audit_log s @ [a]\<rparr>)"
    by (rule raise_violations_audited)
  with True show ?thesis
    by (intro that [of ?fv a]) (simp add: check_ledger_lines_def and_then_apply ledger_violation_def)
next
  case False
  let ?fv = "ledger_violation p (validate_ledger_lines (pr_lines q))"
  have "fv_violations ?fv \<noteq> []" using False by (simp add: ledger_violation_def)
  then obtain a where "raise_violations w True None [] ?fv s =
      (Inl (FinancialInvariantViolation ?fv), s\<lparr>tick := Suc (Suc (tick s)), audit_log := audit_log s @ [a]\<rparr>)"
    by (rule raise_violations_audited)
  then show ?thesis by (intro that [of ?fv a]) (simp add: check_ledger_lines_def and_then_apply)
qed

lemma no_batch: "key_new q t \<Longrightarrow> one_or_none (\<lambda>b. pb_idempotency_key b = pr_idempotency_key q) (posting_batches t) = Inr None"
  unfolding key_new_def one_or_none_None by (metis imageI)

lemma apply_posting_posted:
  assumes ok: "op_ok w s" and new: "key_new q (tables s)" and valid: "posting_valid q (tables s)"
    and plain: "\<forall>l\<in>set (pr_lines q). plain_line l"
  shows "\<exists>es n. apply_posting w q s =
      (Inr \<lparr>po_posting_id = uuid_at w (tick s), po_entries = es,
            po_balances = snapshot_balances (map oe_account_id es) (posted_tables q (uuid_at w (tick s)) es (tables s))\<rparr>,
       s\<lparr>tick := n, tables := posted_tables q (uuid_at w (tick s)) es (tables s),
         saved := (audit_log s, posted_tables q (uuid_at w (tick s)) es (tables s))\<rparr>) \<and>
    list_all2 (op_entry_for q (uuid_at w (tick s))) (pr_lines q) es \<and> Suc (tick s) \<le> n"
proof -
  let ?p = "uuid_at w (tick s)" and ?s = "s\<lparr>tick := Suc (tick s)\<rparr>"
  have dist: "distinct (map ab_account_id (account_balances (tables ?s)))"
    using ok by (simp add: op_ok_def sound_def book_okD(1))
  obtain es n where es: "for_each (pr_lines q) (post_line w q ?p) ?s =
      (Inr es, ?s\<lparr>tick := n, tables := fold (booked (pr_posting_type q)) es (tables ?s)\<rparr>)"
      "list_all2 (op_entry_for q ?p) (pr_lines q) es" "tick ?s \<le> n"
    using post_lines_run [OF dist plain, of w q ?p] by (elim exE conjE) (rule that)
  have "check_ledger_lines w (pr_lines q) ?p ?s = (Inr (), ?s)" by (rule check_lines_valid) (use valid in simp)
  with es show ?thesis
    by (intro exI [of _ es] exI [of _ n])
      (simp add: no_batch [OF new] apply_posting_def and_then_apply catching_def write_posting_def posted_tables_def)
qed

lemma apply_posting_invalid:
  assumes "key_new q (tables s)" and "\<not> posting_valid q (tables s)"
  shows "\<exists>fv a n. apply_posting w q s = (Inl (PostingInvariantError fv), s\<lparr>tick := n, audit_log := audit_log s @ [a]\<rparr>) \<and> tick s \<le> n"
proof -
  let ?s = "s\<lparr>tick := Suc (tick s)\<rparr>"
  have "\<not> posting_valid q (tables ?s)" using assms(2) by simp
  then obtain fv a where "check_ledger_lines w (pr_lines q) (uuid_at w (tick s)) ?s =
      (Inl (FinancialInvariantViolation fv), ?s\<lparr>tick := Suc (Suc (tick ?s)), audit_log := audit_log ?s @ [a]\<rparr>)"
    by (rule check_lines_invalid)
  then show ?thesis
    by (intro exI [of _ "fv\<lparr>fv_violations := take 1 (fv_violations fv), fv_context := None\<rparr>"] exI [of _ a] exI [of _ "Suc (Suc (Suc (tick s)))"])
      (simp add: no_batch [OF assms(1)] apply_posting_def and_then_apply catching_def posting_error_def)
qed

lemma apply_posting_rolled_back:
  assumes ok: "op_ok w s" and new: "key_new q (tables s)" and valid: "posting_valid q (tables s)"
    and meta: "\<exists>l\<in>set (pr_lines q). \<not> plain_line l"
  shows "\<exists>n. apply_posting w q s = (Inl (ValueError ''ledger_entries_are_append_only''),
      s\<lparr>tick := n, tables := snd (saved s), audit_log := fst (saved s)\<rparr>) \<and> tick s \<le> n"
proof -
  let ?p = "uuid_at w (tick s)" and ?s = "s\<lparr>tick := Suc (tick s)\<rparr>"
  have dist: "distinct (map ab_account_id (account_balances (tables ?s)))"
    using ok by (simp add: op_ok_def sound_def book_okD(1))
  obtain n t where es: "for_each (pr_lines q) (post_line w q ?p) ?s =
      (Inl (ValueError ''ledger_entries_are_append_only''), ?s\<lparr>tick := n, tables := t\<rparr>)" "tick ?s \<le> n"
    using post_lines_refused [OF dist meta, of w q ?p] by (elim exE conjE) (rule that)
  have "check_ledger_lines w (pr_lines q) ?p ?s = (Inr (), ?s)" by (rule check_lines_valid) (use valid in simp)
  with es show ?thesis
    by (intro exI [of _ n]) (simp add: no_batch [OF new] apply_posting_def and_then_apply catching_def write_posting_def)
qed

lemma apply_posting_replay:
  assumes "op_ok w s" and "b \<in> set (posting_batches (tables s))" and "pb_idempotency_key b = pr_idempotency_key q"
  shows "apply_posting w q s =
    (Inr (let es = filter (\<lambda>e. oe_posting_id e = pb_id b) (op_entries (tables s))
          in \<lparr>po_posting_id = pb_id b, po_entries = es, po_balances = snapshot_balances (map oe_account_id es) (tables s)\<rparr>), s)"
proof -
  have "distinct (map pb_idempotency_key (posting_batches (tables s)))" using assms(1) by (simp add: op_ok_def sound_def)
  from one_or_none_unique_key [OF this assms(2)] assms(3) show ?thesis
    by (simp add: apply_posting_def and_then_apply)
qed

lemma posted_sel [simp]:
  "op_entries (posted_tables q p es t) = op_entries t @ es" "op_accounts (posted_tables q p es t) = op_accounts t"
  "account_balances (posted_tables q p es t) = account_balances (fold (booked (pr_posting_type q)) es t)"
  by (simp_all add: posted_tables_def)

lemma book_ok_batches [simp]: "book_ok (t\<lparr>posting_batches := bs\<rparr>) = book_ok t"
  by (simp add: book_ok_def account_entries_def has_currency_def)

lemma posted_sound:
  assumes "sound w n t" and "key_new q t" and "posting_valid q t" and "k < m" and "n \<le> m"
    and es: "list_all2 (op_entry_for q (uuid_at w k)) (pr_lines q) es"
  shows "sound w m (posted_tables q (uuid_at w k) es t)"
proof -
  have "book_ok (posted_tables q (uuid_at w k) es t)"
    using posting_keeps_book [OF _ es] assms(1,3) by (simp add: posted_tables_def sound_def posting_valid_def)
  moreover have "oe_posting_id e = uuid_at w k" if "e \<in> set es" for e
    using es that by (metis in_set_conv_nth list_all2_conv_all_nth op_entry_for_def)
  then have "\<forall>e\<in>set (op_entries t @ es). \<exists>j<m. oe_posting_id e = uuid_at w j"
    using assms(1,4,5) unfolding sound_def by (metis Un_iff order_less_le_trans set_append)
  moreover have "distinct (map pb_idempotency_key (posting_batches (posted_tables q (uuid_at w k) es t)))"
    using assms(1,2) by (auto simp: posted_tables_def sound_def key_new_def)
  ultimately show ?thesis using assms(1) by (simp add: sound_def)
qed

lemma apply_posting_keeps: "op_ok w s \<Longrightarrow> op_ok w (snd (apply_posting w q s))"
proof -
  assume ok: "op_ok w s"
  consider (replay) b where "b \<in> set (posting_batches (tables s))" "pb_idempotency_key b = pr_idempotency_key q"
    | (invalid) "key_new q (tables s)" "\<not> posting_valid q (tables s)"
    | (meta) "key_new q (tables s)" "posting_valid q (tables s)" "\<exists>l\<in>set (pr_lines q). \<not> plain_line l"
    | (posted) "key_new q (tables s)" "posting_valid q (tables s)" "\<forall>l\<in>set (pr_lines q). plain_line l"
    unfolding key_new_def by (metis imageE)
  then show ?thesis
  proof cases
    case replay
    with ok show ?thesis by (simp add: apply_posting_replay)
  next
    case invalid
    with apply_posting_invalid [OF this, of w] ok show ?thesis by (auto simp: op_ok_tick)
  next
    case meta
    with apply_posting_rolled_back [OF ok this] ok show ?thesis by (auto simp: op_ok_def intro: sound_mono)
  next
    case posted
    from apply_posting_posted [OF ok this]
    obtain es n where run: "snd (apply_posting w q s) = s\<lparr>tick := n, tables := posted_tables q (uuid_at w (tick s)) es (tables s),
        saved := (audit_log s, posted_tables q (uuid_at w (tick s)) es (tables s))\<rparr>"
      and es: "list_all2 (op_entry_for q (uuid_at w (tick s))) (pr_lines q) es" "Suc (tick s) \<le> n"
      by (elim exE conjE) simp
    have "sound w n (posted_tables q (uuid_at w (tick s)) es (tables s))"
      by (rule posted_sound [where n = "tick s", OF _ posted(1,2) _ _ es(1)]) (use ok es(2) in \<open>auto simp: op_ok_def\<close>)
    then show ?thesis by (simp add: run op_ok_def)
  qed
qed

text \<open>Repeating a posting answers with the same result and changes nothing.\<close>

lemma apply_posting_replays:
  assumes inj: "inj (uuid_at w)" and ok: "op_ok w s" and run: "apply_posting w q s = (Inr r, s')"
  shows "apply_posting w q s' = (Inr r, s')"
proof (cases "key_new q (tables s)")
  case False
  then obtain b where b: "b \<in> set (posting_batches (tables s))" "pb_idempotency_key b = pr_idempotency_key q"
    by (auto simp: key_new_def)
  from apply_posting_replay [OF ok b] run have "s' = s" by simp
  with run show ?thesis by simp
next
  case new: True
  have valid: "posting_valid q (tables s)" using apply_posting_invalid [OF new, of w] run by auto
  have plain: "\<forall>l\<in>set (pr_lines q). plain_line l" using apply_posting_rolled_back [OF ok new valid] run by auto
  let ?p = "uuid_at w (tick s)"
  obtain es n where post: "apply_posting w q s =
      (Inr \<lparr>po_posting_id = ?p, po_entries = es, po_balances = snapshot_balances (map oe_account_id es) (posted_tables q ?p es (tables s))\<rparr>,
       s\<lparr>tick := n, tables := posted_tables q ?p es (tables s), saved := (audit_log s, posted_tables q ?p es (tables s))\<rparr>)"
    and es: "list_all2 (op_entry_for q ?p) (pr_lines q) es" "Suc (tick s) \<le> n"
    using apply_posting_posted [OF ok new valid plain] by (elim exE conjE) (rule that)
  from post run have r: "r = \<lparr>po_posting_id = ?p, po_entries = es, po_balances = snapshot_balances (map oe_account_id es) (posted_tables q ?p es (tables s))\<rparr>"
    and s': "s' = s\<lparr>tick := n, tables := posted_tables q ?p es (tables s), saved := (audit_log s, posted_tables q ?p es (tables s))\<rparr>"
    by simp_all
  have ok': "op_ok w s'" using apply_posting_keeps [OF ok, of q] run by simp
  let ?b = "\<lparr>pb_id = ?p, pb_operation_id = pr_operation_id q, pb_posting_type = pr_posting_type q, pb_status = BATCH_APPLIED,
    pb_idempotency_key = pr_idempotency_key q\<rparr>"
  have "?b \<in> set (posting_batches (tables s'))" by (simp add: s' posted_tables_def)
  from apply_posting_replay [OF ok' this, of q]
  have again: "apply_posting w q s' = (Inr (let es = filter (\<lambda>e. oe_posting_id e = ?p) (op_entries (tables s'))
      in \<lparr>po_posting_id = ?p, po_entries = es, po_balances = snapshot_balances (map oe_account_id es) (tables s')\<rparr>), s')" by simp
  have "oe_posting_id e \<noteq> ?p" if "e \<in> set (op_entries (tables s))" for e
    using ok that inj unfolding op_ok_def sound_def by (metis injD less_irrefl)
  moreover have "oe_posting_id e = ?p" if "e \<in> set es" for e
    using es(1) that by (metis in_set_conv_nth list_all2_conv_all_nth op_entry_for_def)
  ultimately have fl: "filter (\<lambda>e. oe_posting_id e = ?p) (op_entries (tables s')) = es"
    by (simp add: s' filter_empty_conv)
  have t: "tables s' = posted_tables q ?p es (tables s)" by (simp add: s')
  from again [unfolded Let_def fl, unfolded t] r show ?thesis by (simp only:)
qed

interpretation posting_retry: idempotent_operation "apply_posting w" "\<lambda>s. inj (uuid_at w) \<and> op_ok w s" "\<lambda>r. r" for w
  by unfold_locales (auto intro: apply_posting_keeps apply_posting_replays)

end
