(* ===== verification/Op_Scenarios.thy ===== *)
theory Op_Scenarios
  imports Op_Ledger
begin

text \<open>
  What can happen to a captured operation (\<open>services/operations_scenarios\<close> with its repositories): refunds, the reversal of the
  capture, disputes with their holds, and the adjustments that record what belongs to a closed period. Each service posts
  through \<open>apply_posting\<close>, which commits, and commits again at its end.
\<close>

section \<open>Accounts of an operation\<close>

definition PLATFORM_OWNER_ID :: string where
  "PLATFORM_OWNER_ID = ''00000000-0000-0000-0000-000000000001''"

definition client_main :: "card_operation \<Rightarrow> ('a op_db_scheme, int) act" where
  "client_main opn =
     and_then (get_or_create_account
       \<lparr>as_client_id = op_client_id opn, as_owner_type = OWNER_CLIENT, as_owner_id = Some (op_client_id opn),
        as_currency = op_currency opn, as_account_type = CLIENT_MAIN, as_card_id = None, as_tariff_id = None\<rparr>) (\<lambda>a. ret (ac_id a))"

definition partner_payable :: "card_operation \<Rightarrow> ('a op_db_scheme, int) act" where
  "partner_payable opn =
     and_then (get_or_create_account
       \<lparr>as_client_id = op_merchant_id opn, as_owner_type = OWNER_PARTNER, as_owner_id = Some (op_merchant_id opn),
        as_currency = op_currency opn, as_account_type = TECHNICAL, as_card_id = None, as_tariff_id = Some ''PARTNER_PAYABLE''\<rparr>)
       (\<lambda>a. ret (ac_id a))"

definition platform_account :: "string \<Rightarrow> string \<Rightarrow> ('a op_db_scheme, int) act" where
  "platform_account tariff currency =
     and_then (get_or_create_account
       \<lparr>as_client_id = PLATFORM_OWNER_ID, as_owner_type = OWNER_PLATFORM, as_owner_id = Some PLATFORM_OWNER_ID,
        as_currency = currency, as_account_type = TECHNICAL, as_card_id = None, as_tariff_id = Some tariff\<rparr>) (\<lambda>a. ret (ac_id a))"

definition platform_adjustment :: "string \<Rightarrow> ('a op_db_scheme, int) act" where
  "platform_adjustment currency = platform_account ''PLATFORM_ADJUSTMENT'' currency"

definition dispute_reserve :: "string \<Rightarrow> ('a op_db_scheme, int) act" where
  "dispute_reserve currency = platform_account ''DISPUTE_RESERVE'' currency"

definition dispute_fee_revenue :: "string \<Rightarrow> ('a op_db_scheme, int) act" where
  "dispute_fee_revenue currency = platform_account ''DISPUTE_FEE_REVENUE'' currency"

definition transfer_lines :: "int \<Rightarrow> int \<Rightarrow> int \<Rightarrow> string \<Rightarrow> posting_line list" where
  "transfer_lines from to amount currency =
     [\<lparr>pl_account_id = from, pl_direction = LEDGER_DEBIT, pl_amount = amount, pl_currency = currency, pl_metadata = None\<rparr>,
      \<lparr>pl_account_id = to, pl_direction = LEDGER_CREDIT, pl_amount = amount, pl_currency = currency, pl_metadata = None\<rparr>]"

definition refund_transfer :: "card_operation \<Rightarrow> int \<Rightarrow> ('a op_db_scheme, posting_line list) act" where
  "refund_transfer opn amount =
     and_then (partner_payable opn) (\<lambda>payable. and_then (client_main opn) (\<lambda>client.
     ret (transfer_lines payable client amount (op_currency opn))))"

definition adjustment_transfer :: "card_operation \<Rightarrow> int \<Rightarrow> ('a op_db_scheme, posting_line list) act" where
  "adjustment_transfer opn amount =
     and_then (platform_adjustment (op_currency opn)) (\<lambda>platform. and_then (client_main opn) (\<lambda>client.
     ret (transfer_lines platform client amount (op_currency opn))))"

section \<open>Adjustments\<close>

definition find_adjustment :: "string \<Rightarrow> ('a op_db_scheme, financial_adjustment option) act" where
  "find_adjustment key = query_one (\<lambda>a. fa_idempotency_key a = key) (adjustments \<circ> tables)"

definition create_adjustment ::
    "world \<Rightarrow> adjustment_kind \<Rightarrow> related_entity \<Rightarrow> string \<Rightarrow> string \<Rightarrow> int \<Rightarrow> string \<Rightarrow> int \<Rightarrow> string \<Rightarrow>
     ('a op_db_scheme, financial_adjustment) act" where
  "create_adjustment w kind rel rel_id operation_id amount currency effective_date key =
     and_then (new_uuid_str w) (\<lambda>i.
     let a = \<lparr>fa_id = i, fa_kind = kind, fa_related_entity_type = rel, fa_related_entity_id = rel_id, fa_operation_id = operation_id,
              fa_amount = amount, fa_currency = currency, fa_effective_date = effective_date, fa_idempotency_key = key\<rparr>
     in and_then (on_tables (\<lambda>t. t\<lparr>adjustments := adjustments t @ [a]\<rparr>)) (\<lambda>_. ret a))"

definition ensure_adjustment ::
    "world \<Rightarrow> adjustment_kind \<Rightarrow> related_entity \<Rightarrow> string \<Rightarrow> string \<Rightarrow> int \<Rightarrow> string \<Rightarrow> int \<Rightarrow> string \<Rightarrow>
     ('a op_db_scheme, financial_adjustment) act" where
  "ensure_adjustment w kind rel rel_id operation_id amount currency effective_date key =
     and_then (find_adjustment key) (\<lambda>existing.
     case existing of
       Some a \<Rightarrow> ret a
     | None \<Rightarrow>
         and_then (create_adjustment w kind rel rel_id operation_id amount currency effective_date key) (\<lambda>a.
         and_then commit (\<lambda>_. ret a)))"

text \<open>\<open>adjustment_date or date.today()\<close>, as a day number, and the adjustment of a closed period.\<close>

definition day_or_today :: "world \<Rightarrow> int option \<Rightarrow> ('a op_db_scheme, int) act" where
  "day_or_today w d = (case d of Some x \<Rightarrow> ret x | None \<Rightarrow> and_then (now_utc w) (\<lambda>now. ret (now div 86400000000)))"

definition period_adjustment ::
    "world \<Rightarrow> adjustment_kind \<Rightarrow> related_entity \<Rightarrow> string \<Rightarrow> card_operation \<Rightarrow> int \<Rightarrow> int option \<Rightarrow> string \<Rightarrow>
     ('a op_db_scheme, string) act" where
  "period_adjustment w kind rel rel_id opn amount adjustment_date key =
     and_then (day_or_today w adjustment_date) (\<lambda>effective_date.
     and_then (find_adjustment key) (\<lambda>existing.
     case existing of
       Some a \<Rightarrow> ret (fa_id a)
     | None \<Rightarrow>
         and_then (create_adjustment w kind rel rel_id (op_id opn) amount (op_currency opn) effective_date key) (\<lambda>a.
         ret (fa_id a))))"

section \<open>Refunds\<close>

record scenario_result =
  sx_entity_id :: string
  sx_posting_id :: "string option"
  sx_settlement_policy :: settlement_policy
  sx_adjustment_id :: "string option"

record refund_args =
  ra_amount :: int
  ra_reason :: "string option"
  ra_initiator :: "string option"
  ra_idempotency_key :: string
  ra_settlement_closed :: bool
  ra_adjustment_date :: "int option"

definition policy_of :: "bool \<Rightarrow> settlement_policy" where
  "policy_of closed = (if closed then ADJUSTMENT_REQUIRED else SAME_PERIOD)"

definition create_refund_request :: "world \<Rightarrow> card_operation \<Rightarrow> refund_args \<Rightarrow> ('a op_db_scheme, refund_request_row) act" where
  "create_refund_request w opn q =
     and_then (new_uuid_str w) (\<lambda>i.
     let r = \<lparr>rf_id = i, rf_operation_id = op_id opn, rf_amount = ra_amount q, rf_currency = op_currency opn, rf_reason = ra_reason q,
              rf_initiator = ra_initiator q, rf_idempotency_key = ra_idempotency_key q, rf_status = REFUND_REQUESTED,
              rf_posted_posting_id = None, rf_settlement_policy = policy_of (ra_settlement_closed q)\<rparr>
     in and_then (on_tables (\<lambda>t. t\<lparr>refund_requests := refund_requests t @ [r]\<rparr>)) (\<lambda>_. ret r))"

definition mark_refund_posted :: "refund_request_row \<Rightarrow> string \<Rightarrow> ('a op_db_scheme, unit) act" where
  "mark_refund_posted r posting_id =
     on_tables (\<lambda>t. t\<lparr>refund_requests := store_row rf_id
       (r\<lparr>rf_status := REFUND_POSTED, rf_posted_posting_id := Some posting_id\<rparr>) (refund_requests t)\<rparr>)"

definition add_refunded :: "card_operation \<Rightarrow> int \<Rightarrow> ('a op_db_scheme, unit) act" where
  "add_refunded opn amount =
     on_tables (\<lambda>t. t\<lparr>card_operations := store_row op_id
       (opn\<lparr>op_refunded_amount := op_refunded_amount opn + amount\<rparr>) (card_operations t)\<rparr>)"

definition request_refund :: "world \<Rightarrow> card_operation \<Rightarrow> refund_args \<Rightarrow> ('a op_db_scheme, scenario_result) act" where
  "request_refund w opn q =
     and_then (query_one (\<lambda>r. rf_idempotency_key r = ra_idempotency_key q) (refund_requests \<circ> tables)) (\<lambda>existing.
     case existing of
       Some r \<Rightarrow> ret \<lparr>sx_entity_id = rf_id r, sx_posting_id = rf_posted_posting_id r,
                     sx_settlement_policy = rf_settlement_policy r, sx_adjustment_id = None\<rparr>
     | None \<Rightarrow>
         let amount = ra_amount q; closed = ra_settlement_closed q in
         and_then (asserting (\<not> amount \<le> 0) RefundAmountInvalid) (\<lambda>_.
         and_then (asserting (\<not> amount > op_captured_amount opn - op_refunded_amount opn) RefundCapExceeded) (\<lambda>_.
         and_then (create_refund_request w opn q) (\<lambda>r.
         and_then (if closed then adjustment_transfer opn amount else refund_transfer opn amount) (\<lambda>lines.
         and_then (apply_posting w \<lparr>pr_operation_id = Some (op_id opn), pr_posting_type = (if closed then POST_ADJUSTMENT else POST_REFUND),
           pr_idempotency_key = ra_idempotency_key q, pr_lines = lines\<rparr>) (\<lambda>posting.
         and_then (mark_refund_posted r (po_posting_id posting)) (\<lambda>_.
         and_then (add_refunded opn amount) (\<lambda>_.
         and_then (if closed
                   then and_then (period_adjustment w REFUND_ADJUSTMENT RELATED_REFUND (rf_id r) opn amount (ra_adjustment_date q)
                          (''adjustment:'' @ ra_idempotency_key q)) (\<lambda>i. ret (Some i))
                   else ret None) (\<lambda>adjustment_id.
         and_then commit (\<lambda>_.
         ret \<lparr>sx_entity_id = rf_id r, sx_posting_id = Some (po_posting_id posting), sx_settlement_policy = policy_of closed,
              sx_adjustment_id = adjustment_id\<rparr>))))))))))"

section \<open>Reversals\<close>

record reversal_args =
  va_reason :: "string option"
  va_initiator :: "string option"
  va_idempotency_key :: string
  va_settlement_closed :: bool
  va_adjustment_date :: "int option"

definition create_reversal :: "world \<Rightarrow> card_operation \<Rightarrow> reversal_args \<Rightarrow> ('a op_db_scheme, reversal_row) act" where
  "create_reversal w opn q =
     and_then (new_uuid_str w) (\<lambda>i.
     let r = \<lparr>rv_id = i, rv_operation_id = op_id opn, rv_reason = va_reason q, rv_initiator = va_initiator q,
              rv_idempotency_key = va_idempotency_key q, rv_status = REVERSAL_REQUESTED, rv_posted_posting_id = None,
              rv_settlement_policy = policy_of (va_settlement_closed q)\<rparr>
     in and_then (on_tables (\<lambda>t. t\<lparr>reversals := reversals t @ [r]\<rparr>)) (\<lambda>_. ret r))"

definition mark_reversal_posted :: "reversal_row \<Rightarrow> string \<Rightarrow> ('a op_db_scheme, unit) act" where
  "mark_reversal_posted r posting_id =
     on_tables (\<lambda>t. t\<lparr>reversals := store_row rv_id
       (r\<lparr>rv_status := REVERSAL_POSTED, rv_posted_posting_id := Some posting_id\<rparr>) (reversals t)\<rparr>)"

definition reverse_capture :: "world \<Rightarrow> card_operation \<Rightarrow> reversal_args \<Rightarrow> ('a op_db_scheme, scenario_result) act" where
  "reverse_capture w opn q =
     and_then (query_one (\<lambda>r. rv_idempotency_key r = va_idempotency_key q) (reversals \<circ> tables)) (\<lambda>existing.
     case existing of
       Some r \<Rightarrow> ret \<lparr>sx_entity_id = rv_id r, sx_posting_id = rv_posted_posting_id r,
                     sx_settlement_policy = rv_settlement_policy r, sx_adjustment_id = None\<rparr>
     | None \<Rightarrow>
         and_then (query_one (\<lambda>r. rv_operation_id r = op_id opn \<and> rv_status r = REVERSAL_POSTED) (reversals \<circ> tables)) (\<lambda>done_before.
         and_then (asserting (done_before = None) ReversalAlreadyExists) (\<lambda>_.
         let amount = op_captured_amount opn; closed = va_settlement_closed q in
         and_then (create_reversal w opn q) (\<lambda>r.
         and_then (if closed then adjustment_transfer opn amount else refund_transfer opn amount) (\<lambda>lines.
         and_then (apply_posting w \<lparr>pr_operation_id = Some (op_id opn), pr_posting_type = (if closed then POST_ADJUSTMENT else POST_REVERSAL),
           pr_idempotency_key = va_idempotency_key q, pr_lines = lines\<rparr>) (\<lambda>posting.
         and_then (mark_reversal_posted r (po_posting_id posting)) (\<lambda>_.
         and_then (if closed
                   then and_then (period_adjustment w REVERSAL_ADJUSTMENT RELATED_REVERSAL (rv_id r) opn amount (va_adjustment_date q)
                          (''adjustment:'' @ va_idempotency_key q)) (\<lambda>i. ret (Some i))
                   else ret None) (\<lambda>adjustment_id.
         and_then commit (\<lambda>_.
         ret \<lparr>sx_entity_id = rv_id r, sx_posting_id = Some (po_posting_id posting), sx_settlement_policy = policy_of closed,
              sx_adjustment_id = adjustment_id\<rparr>)))))))))"

section \<open>Disputes\<close>

definition save_dispute :: "dispute \<Rightarrow> ('a op_db_scheme, unit) act" where
  "save_dispute d = on_tables (\<lambda>t. t\<lparr>disputes := store_row dp_id d (disputes t)\<rparr>)"

definition add_dispute_event ::
    "string \<Rightarrow> dispute_event_type \<Rightarrow> string option \<Rightarrow> payload \<Rightarrow> ('a op_db_scheme, unit) act" where
  "add_dispute_event i ty actor p =
     on_tables (\<lambda>t. t\<lparr>dispute_events := dispute_events t @ [\<lparr>de_dispute_id = i, de_event_type = ty, de_payload = p, de_actor = actor\<rparr>]\<rparr>)"

definition create_dispute ::
    "world \<Rightarrow> card_operation \<Rightarrow> int \<Rightarrow> string option \<Rightarrow> int \<Rightarrow> ('a op_db_scheme, dispute) act" where
  "create_dispute w opn amount initiator fee_amount =
     and_then (new_uuid_str w) (\<lambda>i.
     let d = \<lparr>dp_id = i, dp_operation_id = op_id opn, dp_disputed_amount = amount, dp_currency = op_currency opn, dp_fee_amount = fee_amount,
              dp_status = DISPUTE_OPEN, dp_hold_placed = False, dp_hold_posting_id = None, dp_resolution_posting_id = None,
              dp_initiator = str_or_none initiator\<rparr>
     in and_then (on_tables (\<lambda>t. t\<lparr>disputes := disputes t @ [d]\<rparr>)) (\<lambda>_.
        and_then (add_dispute_event i EVENT_OPENED initiator []) (\<lambda>_. ret d)))"

definition place_hold :: "world \<Rightarrow> card_operation \<Rightarrow> int \<Rightarrow> string \<Rightarrow> ('a op_db_scheme, string) act" where
  "place_hold w opn amount key =
     and_then (partner_payable opn) (\<lambda>payable. and_then (dispute_reserve (op_currency opn)) (\<lambda>reserve.
     and_then (apply_posting w \<lparr>pr_operation_id = Some (op_id opn), pr_posting_type = POST_DISPUTE_HOLD, pr_idempotency_key = key,
       pr_lines = transfer_lines payable reserve amount (op_currency opn)\<rparr>) (\<lambda>posting.
     ret (po_posting_id posting))))"

definition open_dispute ::
    "world \<Rightarrow> card_operation \<Rightarrow> int \<Rightarrow> string option \<Rightarrow> string \<Rightarrow> int \<Rightarrow> bool \<Rightarrow> ('a op_db_scheme, dispute) act" where
  "open_dispute w opn amount initiator key fee_amount hold =
     and_then (create_dispute w opn amount initiator fee_amount) (\<lambda>d.
     and_then (if hold
               then and_then (place_hold w opn amount (key @ '':hold'')) (\<lambda>posting_id.
                    let d' = d\<lparr>dp_hold_placed := True, dp_hold_posting_id := Some posting_id\<rparr>
                    in and_then (save_dispute d') (\<lambda>_.
                       and_then (add_dispute_event (dp_id d) EVENT_HOLD_PLACED initiator [(''amount'', PInt amount)]) (\<lambda>_. ret d')))
               else ret d) (\<lambda>d'.
     and_then commit (\<lambda>_. ret d')))"

definition move_to_review :: "dispute \<Rightarrow> string option \<Rightarrow> ('a op_db_scheme, dispute) act" where
  "move_to_review d actor =
     and_then (asserting (dp_status d = DISPUTE_OPEN) (DisputeStateError ''UNDER_REVIEW'')) (\<lambda>_.
     let d' = d\<lparr>dp_status := DISPUTE_UNDER_REVIEW\<rparr> in
     and_then (save_dispute d') (\<lambda>_.
     and_then (add_dispute_event (dp_id d) EVENT_MOVED_TO_REVIEW actor []) (\<lambda>_.
     and_then commit (\<lambda>_. ret d'))))"

text \<open>Whatever holds there are on these accounts, they are set to zero.\<close>

definition clear_hold :: "int \<Rightarrow> ('a op_db_scheme, unit) act" where
  "clear_hold i =
     and_then (query_one (\<lambda>b. ab_account_id b = i) (account_balances \<circ> tables)) (\<lambda>x.
     case x of
       None \<Rightarrow> ret ()
     | Some b \<Rightarrow> save_balance (b\<lparr>ab_hold_balance := 0, ab_available_balance := ab_current_balance b\<rparr>))"

definition source_account :: "card_operation \<Rightarrow> bool \<Rightarrow> ('a op_db_scheme, int) act" where
  "source_account opn use_reserve = (if use_reserve then dispute_reserve (op_currency opn) else partner_payable opn)"

definition refund_from_reserve_lines :: "card_operation \<Rightarrow> int \<Rightarrow> bool \<Rightarrow> ('a op_db_scheme, posting_line list) act" where
  "refund_from_reserve_lines opn amount use_reserve =
     and_then (source_account opn use_reserve) (\<lambda>source. and_then (client_main opn) (\<lambda>client.
     ret (transfer_lines source client amount (op_currency opn))))"

definition fee_lines :: "card_operation \<Rightarrow> int \<Rightarrow> bool \<Rightarrow> ('a op_db_scheme, posting_line list) act" where
  "fee_lines opn amount use_reserve =
     and_then (source_account opn use_reserve) (\<lambda>source. and_then (dispute_fee_revenue (op_currency opn)) (\<lambda>revenue.
     ret (transfer_lines source revenue amount (op_currency opn))))"

definition post_fee :: "world \<Rightarrow> card_operation \<Rightarrow> dispute \<Rightarrow> bool \<Rightarrow> string option \<Rightarrow> string \<Rightarrow> ('a op_db_scheme, unit) act" where
  "post_fee w opn d use_reserve initiator key =
     (if dp_fee_amount d > 0
      then and_then (fee_lines opn (dp_fee_amount d) use_reserve) (\<lambda>lines.
           and_then (apply_posting w \<lparr>pr_operation_id = Some (op_id opn), pr_posting_type = POST_ADJUSTMENT,
             pr_idempotency_key = key @ '':fee'', pr_lines = lines\<rparr>) (\<lambda>fee.
           add_dispute_event (dp_id d) EVENT_FEE_POSTED initiator
             [(''posting_id'', PStr (po_posting_id fee)), (''amount'', PInt (dp_fee_amount d))]))
      else ret ())"

definition undecided :: "dispute \<Rightarrow> bool" where
  "undecided d \<longleftrightarrow> dp_status d \<in> {DISPUTE_OPEN, DISPUTE_UNDER_REVIEW}"

definition accept_dispute ::
    "world \<Rightarrow> dispute \<Rightarrow> card_operation \<Rightarrow> string option \<Rightarrow> string \<Rightarrow> bool \<Rightarrow> int option \<Rightarrow>
     ('a op_db_scheme, dispute \<times> string option) act" where
  "accept_dispute w d opn initiator key closed adjustment_date =
     and_then (asserting (undecided d) (DisputeStateError ''ACCEPTED'')) (\<lambda>_.
     let amount = dp_disputed_amount d; use_reserve = dp_hold_placed d in
     and_then (if closed then adjustment_transfer opn amount else refund_from_reserve_lines opn amount use_reserve) (\<lambda>lines.
     and_then (apply_posting w \<lparr>pr_operation_id = Some (op_id opn), pr_posting_type = (if closed then POST_ADJUSTMENT else POST_REFUND),
       pr_idempotency_key = key @ '':refund'', pr_lines = lines\<rparr>) (\<lambda>posting.
     and_then (save_dispute (d\<lparr>dp_resolution_posting_id := Some (po_posting_id posting), dp_hold_placed := False\<rparr>)) (\<lambda>_.
     and_then (if use_reserve
               then and_then (dispute_reserve (op_currency opn)) (\<lambda>reserve. and_then (partner_payable opn) (\<lambda>payable.
                    and_then (clear_hold reserve) (\<lambda>_. clear_hold payable)))
               else ret ()) (\<lambda>_.
     let d' = d\<lparr>dp_resolution_posting_id := Some (po_posting_id posting), dp_hold_placed := False, dp_status := DISPUTE_ACCEPTED\<rparr> in
     and_then (save_dispute d') (\<lambda>_.
     and_then (add_dispute_event (dp_id d) EVENT_ACCEPTED initiator [(''amount'', PInt amount)]) (\<lambda>_.
     and_then (add_dispute_event (dp_id d) EVENT_REFUND_POSTED initiator [(''posting_id'', PStr (po_posting_id posting))]) (\<lambda>_.
     and_then (post_fee w opn d use_reserve initiator key) (\<lambda>_.
     and_then (if closed
               then and_then (period_adjustment w DISPUTE_ADJUSTMENT RELATED_DISPUTE (dp_id d) opn amount adjustment_date
                      (key @ '':adjustment'')) (\<lambda>i. ret (Some i))
               else ret None) (\<lambda>adjustment_id.
     and_then commit (\<lambda>_.
     ret (d', adjustment_id))))))))))))"

definition release_hold :: "world \<Rightarrow> dispute \<Rightarrow> string \<Rightarrow> ('a op_db_scheme, dispute) act" where
  "release_hold w d key =
     and_then (query_one (\<lambda>o'. op_id o' = dp_operation_id d) (card_operations \<circ> tables)) (\<lambda>x.
     case x of
       None \<Rightarrow> raise_exc NoResultFound
     | Some opn \<Rightarrow>
         and_then (partner_payable opn) (\<lambda>payable. and_then (dispute_reserve (op_currency opn)) (\<lambda>reserve.
         and_then (apply_posting w \<lparr>pr_operation_id = Some (op_id opn), pr_posting_type = POST_DISPUTE_RELEASE, pr_idempotency_key = key,
           pr_lines = transfer_lines reserve payable (dp_disputed_amount d) (op_currency opn)\<rparr>) (\<lambda>posting.
         let d' = d\<lparr>dp_hold_placed := False, dp_hold_posting_id := Some (po_posting_id posting)\<rparr>
         in and_then (save_dispute d') (\<lambda>_. ret d')))))"

definition reject_dispute :: "world \<Rightarrow> dispute \<Rightarrow> string option \<Rightarrow> string \<Rightarrow> ('a op_db_scheme, dispute) act" where
  "reject_dispute w d actor key =
     and_then (asserting (undecided d) (DisputeStateError ''REJECTED'')) (\<lambda>_.
     and_then (if dp_hold_placed d
               then and_then (release_hold w d (key @ '':release'')) (\<lambda>d'.
                    and_then (add_dispute_event (dp_id d) EVENT_HOLD_RELEASED actor []) (\<lambda>_. ret d'))
               else ret d) (\<lambda>d1.
     let d2 = d1\<lparr>dp_status := DISPUTE_REJECTED\<rparr> in
     and_then (save_dispute d2) (\<lambda>_.
     and_then (add_dispute_event (dp_id d) EVENT_REJECTED actor []) (\<lambda>_.
     and_then commit (\<lambda>_. ret d2)))))"

definition close_dispute :: "dispute \<Rightarrow> string option \<Rightarrow> ('a op_db_scheme, dispute) act" where
  "close_dispute d actor =
     and_then (asserting (dp_status d \<in> {DISPUTE_ACCEPTED, DISPUTE_REJECTED}) (DisputeStateError ''CLOSED'')) (\<lambda>_.
     let d' = d\<lparr>dp_status := DISPUTE_CLOSED\<rparr> in
     and_then (save_dispute d') (\<lambda>_.
     and_then (add_dispute_event (dp_id d) EVENT_CLOSED actor []) (\<lambda>_.
     and_then commit (\<lambda>_. ret d'))))"

end
