(* ===== verification/Op_Transfers.thy ===== *)
theory Op_Transfers
  imports Op_Books Op_Scenarios Act_Frames
begin

text \<open>
  The steps that the scenarios of an operation are made of: finding or opening accounts, and a posting that moves an
  amount from one account to another.
\<close>

section \<open>Accounts\<close>

definition account_at :: "op_tables \<Rightarrow> int \<Rightarrow> op_account \<Rightarrow> bool" where
  "account_at t i a \<longleftrightarrow> find (\<lambda>x. ac_id x = i) (op_accounts t) = Some a"

text \<open>\<open>s'\<close> differs from \<open>s\<close> in added accounts and in what is committed.\<close>

definition accounts_only :: "'a op_db_scheme \<Rightarrow> 'a op_db_scheme \<Rightarrow> bool" where
  "accounts_only s s' \<longleftrightarrow> (\<exists>as. tables s' = (tables s)\<lparr>op_accounts := op_accounts (tables s) @ as\<rparr>) \<and> tick s' = tick s \<and>
     audit_log s' = audit_log s"

lemma accounts_only_refl [simp]: "accounts_only s s"
  unfolding accounts_only_def by (intro conjI exI [of _ "[]"]) simp_all

lemma accounts_only_trans: "accounts_only s t \<Longrightarrow> accounts_only t u \<Longrightarrow> accounts_only s u"
  by (auto simp: accounts_only_def)

lemma find_grows: "find p xs = Some x \<Longrightarrow> find p (xs @ ys) = Some x"
  by (induction xs) (auto split: if_splits)

lemma account_at_grows: "account_at (tables s) i a \<Longrightarrow> accounts_only s s' \<Longrightarrow> account_at (tables s') i a"
  by (auto simp: account_at_def accounts_only_def intro: find_grows)

lemma accounts_only_sel:
  assumes "accounts_only s s'"
  shows "account_balances (tables s') = account_balances (tables s)" "op_entries (tables s') = op_entries (tables s)"
    "posting_batches (tables s') = posting_batches (tables s)" "card_operations (tables s') = card_operations (tables s)"
    "refund_requests (tables s') = refund_requests (tables s)" "reversals (tables s') = reversals (tables s)"
    "adjustments (tables s') = adjustments (tables s)" "disputes (tables s') = disputes (tables s)" "tick s' = tick s"
  using assms by (auto simp: accounts_only_def)

lemma account_at_id: "account_at t i a \<Longrightarrow> ac_id a = i"
  unfolding account_at_def using find_SomeD by fastforce

lemma account_at_currency: "account_at t i a \<Longrightarrow> has_currency t i (ac_currency a)"
  by (simp add: account_at_def has_currency_def)

lemma book_ok_accounts:
  assumes "book_ok t"
  shows "book_ok (t\<lparr>op_accounts := op_accounts t @ as\<rparr>)"
proof -
  have "has_currency (t\<lparr>op_accounts := op_accounts t @ as\<rparr>) i c" if "has_currency t i c" for i c
    using that by (auto simp: has_currency_def intro: find_grows)
  with assms show ?thesis by (simp add: book_ok_def account_entries_def)
qed

lemma next_account_id_new: "next_account_id as \<notin> ac_id ` set as"
  using le_fold_max [of _ "map ac_id as" 0] by (fastforce simp: next_account_id_def)

lemma find_unique_id: "distinct (map ac_id as) \<Longrightarrow> a \<in> set as \<Longrightarrow> find (\<lambda>x. ac_id x = ac_id a) as = Some a"
  by (induction as) (auto simp: image_iff)

lemma get_or_create_run:
  assumes "op_ok w s"
  shows "\<exists>a s'. get_or_create_account q s = (Inr a, s') \<and> op_ok w s' \<and> accounts_only s s' \<and> account_at (tables s') (ac_id a) a \<and>
    find (in_account_query q) (op_accounts (tables s')) = Some a"
proof (cases "find (in_account_query q) (op_accounts (tables s))")
  case None
  let ?a = "new_account q (next_account_id (op_accounts (tables s)))"
  let ?t = "(tables s)\<lparr>op_accounts := op_accounts (tables s) @ [?a]\<rparr>"
  let ?s = "s\<lparr>tables := ?t, saved := (audit_log s, ?t)\<rparr>"
  have a: "ac_id ?a \<notin> ac_id ` set (op_accounts (tables s))" "in_account_query q ?a"
    using next_account_id_new by (auto simp: new_account_def in_account_query_def)
  have t: "sound w (tick s) ?t"
    using assms a(1) book_ok_accounts [of "tables s" "[?a]"] by (auto simp: op_ok_def sound_def)
  have "find (\<lambda>x. ac_id x = ac_id ?a) (op_accounts ?t) = Some ?a"
    by (rule find_unique_id) (use t in \<open>auto simp: sound_def\<close>)
  with None a(2) t show ?thesis
    by (intro exI [of _ ?a] exI [of _ ?s])
      (auto simp: get_or_create_account_def and_then_apply op_ok_def accounts_only_def account_at_def find_snoc)
next
  case (Some a)
  from find_SomeD [OF Some] assms have "account_at (tables s) (ac_id a) a"
    by (auto simp: account_at_def op_ok_def sound_def intro: find_unique_id)
  with Some assms show ?thesis
    by (intro exI [of _ a] exI [of _ s]) (simp add: get_or_create_account_def and_then_apply)
qed

text \<open>The account that a scope names.\<close>

definition account_for :: "account_query \<Rightarrow> op_tables \<Rightarrow> int option" where
  "account_for q t = map_option ac_id (find (in_account_query q) (op_accounts t))"

definition account_id :: "account_query \<Rightarrow> ('a op_db_scheme, int) act" where
  "account_id q = and_then (get_or_create_account q) (\<lambda>a. ret (ac_id a))"

lemma account_for_grows: "account_for q (tables s) = Some i \<Longrightarrow> accounts_only s s' \<Longrightarrow> account_for q (tables s') = Some i"
  using find_grows by (fastforce simp: account_for_def accounts_only_def)

definition pay_scope_ok :: "op_tables \<Rightarrow> account_query \<Rightarrow> int \<Rightarrow> bool" where
  "pay_scope_ok t q i \<longleftrightarrow> account_for q t = Some i \<and> has_currency t i (as_currency q) \<and>
     (\<exists>a. account_at t i a \<and> ac_tariff_id a = as_tariff_id q)"

lemma pay_scope_ok_grows: "pay_scope_ok (tables s) q i \<Longrightarrow> accounts_only s s' \<Longrightarrow> pay_scope_ok (tables s') q i"
  unfolding pay_scope_ok_def
  by (metis account_at_currency account_at_def account_at_grows account_for_grows has_currency_def option.inject)

lemma account_id_run:
  assumes "op_ok w s"
  obtains i s' where "account_id q s = (Inr i, s')" "op_ok w s'" "accounts_only s s'" "pay_scope_ok (tables s') q i"
proof -
  from get_or_create_run [OF assms, of q]
  obtain a s' where a: "get_or_create_account q s = (Inr a, s')" "op_ok w s'" "accounts_only s s'" "account_at (tables s') (ac_id a) a"
      "find (in_account_query q) (op_accounts (tables s')) = Some a"
    by blast
  from find_SomeD [OF a(5)] have "in_account_query q a" by simp
  with a account_at_currency [OF a(4)] show ?thesis
    by (intro that [of "ac_id a" s']) (auto simp: account_id_def and_then_apply pay_scope_ok_def account_for_def in_account_query_def)
qed

text \<open>Two accounts with different tariffs are different accounts.\<close>

lemma pay_scope_distinct: "pay_scope_ok t q i \<Longrightarrow> pay_scope_ok t q' j \<Longrightarrow> as_tariff_id q \<noteq> as_tariff_id q' \<Longrightarrow> i \<noteq> j"
  by (auto simp: pay_scope_ok_def account_at_def)

lemma two_accounts_run:
  assumes "op_ok w s"
  obtains i s1 j s2 where "account_id q s = (Inr i, s1)" "account_id q' s1 = (Inr j, s2)" "op_ok w s2" "accounts_only s s2"
    "pay_scope_ok (tables s2) q i" "pay_scope_ok (tables s2) q' j"
proof -
  obtain i s1 where 1: "account_id q s = (Inr i, s1)" "op_ok w s1" "accounts_only s s1" "pay_scope_ok (tables s1) q i"
    by (rule account_id_run [OF assms(1)])
  obtain j s2 where 2: "account_id q' s1 = (Inr j, s2)" "op_ok w s2" "accounts_only s1 s2" "pay_scope_ok (tables s2) q' j"
    by (rule account_id_run [OF 1(2)])
  show ?thesis
    by (rule that [OF 1(1) 2(1,2)]) (use 1 2 accounts_only_trans [OF 1(3) 2(3)] pay_scope_ok_grows [OF 1(4) 2(3)] in simp_all)
qed

section \<open>Transfers\<close>

definition balance_amounts :: "account_balance \<Rightarrow> int \<times> int \<times> int" where
  "balance_amounts b = (ab_current_balance b, ab_available_balance b, ab_hold_balance b)"

definition balance_at :: "op_tables \<Rightarrow> int \<Rightarrow> int \<times> int \<times> int" where
  "balance_at t i = balance_amounts (balance_of i t)"

text \<open>What a transfer does to the current, the available and the held amount of an account.\<close>

fun debited :: "bool \<Rightarrow> int \<Rightarrow> int \<times> int \<times> int \<Rightarrow> int \<times> int \<times> int" where
  "debited hold x (c, a, h) = (if hold then (c, a - x, h + x) else (c - x, c - x - h, h))"

definition transferred :: "bool \<Rightarrow> int \<Rightarrow> int \<Rightarrow> int \<Rightarrow> (int \<Rightarrow> int \<times> int \<times> int) \<Rightarrow> int \<Rightarrow> int \<times> int \<times> int" where
  "transferred hold i j x f = f(i := debited hold x (f i), j := debited hold (- x) (f j))"

lemma balance_of_booked:
  "balance_of k (booked ty e t) = (if oe_account_id e = k then moved_balance ty e (balance_of k t) else balance_of k t)"
proof -
  let ?i = "oe_account_id e" and ?u = "with_balance (oe_account_id e) t"
  have map_find: "find (\<lambda>b. ab_account_id b = k) (map (\<lambda>b. if ab_account_id b = ?i then moved_balance ty e b else b) bs) =
      map_option (\<lambda>b. if ab_account_id b = ?i then moved_balance ty e b else b) (find (\<lambda>b. ab_account_id b = k) bs)" for bs
    by (induction bs) auto
  have bal: "account_balances (booked ty e t) = map (\<lambda>b. if ab_account_id b = ?i then moved_balance ty e b else b) (account_balances ?u)"
    by (simp add: booked_def Let_def)
  have id: "ab_account_id (balance_of k t) = k"
    using find_SomeD by (fastforce simp: balance_of_def new_balance_def split: option.split)
  show ?thesis
  proof (cases "?i = k")
    case True
    have "find (\<lambda>b. ab_account_id b = k) (account_balances (booked ty e t)) = Some (moved_balance ty e (balance_of k t))"
      unfolding bal map_find using True find_with_balance [of k t] id by simp
    with True show ?thesis by (simp add: balance_of_def [of k "booked ty e t"])
  next
    case False
    then have "find (\<lambda>b. ab_account_id b = k) (account_balances ?u) = find (\<lambda>b. ab_account_id b = k) (account_balances t)"
      by (simp add: with_balance_def find_snoc new_balance_def split: option.split)
    with False show ?thesis
      by (auto simp: balance_of_def bal map_find split: option.split dest: find_SomeD)
  qed
qed

lemma balance_at_accounts_only: "accounts_only s s' \<Longrightarrow> balance_at (tables s') = balance_at (tables s)"
  by (auto simp: accounts_only_def balance_at_def balance_of_def)

text \<open>The tables beside the ledger, which a posting leaves alone.\<close>

definition cases_of :: "op_tables \<Rightarrow>
    card_operation list \<times> refund_request_row list \<times> reversal_row list \<times> financial_adjustment list \<times> dispute list \<times> dispute_event list" where
  "cases_of t = (card_operations t, refund_requests t, reversals t, adjustments t, disputes t, dispute_events t)"

lemma cases_of_accounts_only: "accounts_only s s' \<Longrightarrow> cases_of (tables s') = cases_of (tables s)"
  by (auto simp: accounts_only_def cases_of_def)

lemma cases_of_booked [simp]: "cases_of (booked ty e t) = cases_of t"
  by (simp add: booked_def with_balance_def cases_of_def Let_def)

lemma cases_of_fold_booked [simp]: "cases_of (fold (booked ty) es t) = cases_of t"
  by (induction es arbitrary: t) simp_all

lemma cases_of_posted [simp]: "cases_of (posted_tables q p es t) = cases_of t"
  using cases_of_fold_booked [of "pr_posting_type q" es t] by (simp add: posted_tables_def cases_of_def)

lemma transfer_valid:
  assumes "pr_lines q = transfer_lines i j x c" and "has_currency t i c" and "has_currency t j c"
  shows "posting_valid q t"
  using assms
  by (auto simp: posting_valid_def transfer_lines_def validate_ledger_lines_def sum_by_currency_def line_delta_def currency_violations_def
      has_currency_def)

lemma balance_amounts_moved:
  "balance_amounts (moved_balance ty e b) = debited (is_hold_type ty) (if oe_direction e = LEDGER_DEBIT then oe_amount e else - oe_amount e) (balance_amounts b)"
  by (cases "oe_direction e") (simp_all add: moved_balance_def balance_amounts_def Let_def)

lemma transfer_posted:
  assumes ok: "op_ok w s" and lines: "pr_lines q = transfer_lines i j x c" and "i \<noteq> j"
    and cur: "has_currency (tables s) i c" "has_currency (tables s) j c" and new: "key_new q (tables s)"
  obtains r s' where "apply_posting w q s = (Inr r, s')"
    "balance_at (tables s') = transferred (is_hold_type (pr_posting_type q)) i j x (balance_at (tables s))"
    "pb_idempotency_key ` set (posting_batches (tables s')) = insert (pr_idempotency_key q) (pb_idempotency_key ` set (posting_batches (tables s)))"
    "cases_of (tables s') = cases_of (tables s)" "op_accounts (tables s') = op_accounts (tables s)" "tick s < tick s'"
proof -
  have plain: "\<forall>l\<in>set (pr_lines q). plain_line l" by (simp add: lines transfer_lines_def plain_line_def)
  let ?p = "uuid_at w (tick s)"
  obtain es n where run: "apply_posting w q s =
      (Inr \<lparr>po_posting_id = ?p, po_entries = es, po_balances = snapshot_balances (map oe_account_id es) (posted_tables q ?p es (tables s))\<rparr>,
       s\<lparr>tick := n, tables := posted_tables q ?p es (tables s), saved := (audit_log s, posted_tables q ?p es (tables s))\<rparr>)"
    and es: "list_all2 (op_entry_for q ?p) (transfer_lines i j x c) es" "Suc (tick s) \<le> n"
    using apply_posting_posted [OF ok new transfer_valid [OF lines cur] plain] unfolding lines by (elim exE conjE) (rule that)
  from es(1) obtain d e where de: "es = [d, e]" "oe_account_id d = i" "oe_direction d = LEDGER_DEBIT" "oe_amount d = x"
      "oe_account_id e = j" "oe_direction e = LEDGER_CREDIT" "oe_amount e = x"
    by (auto simp: transfer_lines_def op_entry_for_def list_all2_Cons1)
  have bal: "balance_of k (posted_tables q ?p us (tables s)) = balance_of k (fold (booked (pr_posting_type q)) us (tables s))" for k us
    by (simp add: posted_tables_def balance_of_def)
  have "balance_at (posted_tables q ?p es (tables s)) = transferred (is_hold_type (pr_posting_type q)) i j x (balance_at (tables s))"
    using de \<open>i \<noteq> j\<close> by (auto simp: fun_eq_iff balance_at_def bal balance_of_booked balance_amounts_moved transferred_def)
  moreover have "pb_idempotency_key ` set (posting_batches (posted_tables q ?p es (tables s))) =
      insert (pr_idempotency_key q) (pb_idempotency_key ` set (posting_batches (tables s)))"
    by (simp add: posted_tables_def)
  ultimately show ?thesis by (intro that [OF run]) (use es(2) in simp_all)
qed

section \<open>The postings of the scenarios\<close>

definition client_scope :: "card_operation \<Rightarrow> account_query" where
  "client_scope opn =
     \<lparr>as_client_id = op_client_id opn, as_owner_type = OWNER_CLIENT, as_owner_id = Some (op_client_id opn),
      as_currency = op_currency opn, as_account_type = CLIENT_MAIN, as_card_id = None, as_tariff_id = None\<rparr>"

definition payable_scope :: "card_operation \<Rightarrow> account_query" where
  "payable_scope opn =
     \<lparr>as_client_id = op_merchant_id opn, as_owner_type = OWNER_PARTNER, as_owner_id = Some (op_merchant_id opn),
      as_currency = op_currency opn, as_account_type = TECHNICAL, as_card_id = None, as_tariff_id = Some ''PARTNER_PAYABLE''\<rparr>"

definition platform_scope :: "string \<Rightarrow> string \<Rightarrow> account_query" where
  "platform_scope tariff currency =
     \<lparr>as_client_id = PLATFORM_OWNER_ID, as_owner_type = OWNER_PLATFORM, as_owner_id = Some PLATFORM_OWNER_ID,
      as_currency = currency, as_account_type = TECHNICAL, as_card_id = None, as_tariff_id = Some tariff\<rparr>"

lemma scope_sel [simp]:
  "as_currency (client_scope opn) = op_currency opn" "as_tariff_id (client_scope opn) = None"
  "as_currency (payable_scope opn) = op_currency opn" "as_tariff_id (payable_scope opn) = Some ''PARTNER_PAYABLE''"
  "as_currency (platform_scope tariff c) = c" "as_tariff_id (platform_scope tariff c) = Some tariff"
  by (simp_all add: client_scope_def payable_scope_def platform_scope_def)

lemma scenario_accounts:
  "client_main opn = account_id (client_scope opn)" "partner_payable opn = account_id (payable_scope opn)"
  "platform_adjustment c = account_id (platform_scope ''PLATFORM_ADJUSTMENT'' c)"
  "dispute_reserve c = account_id (platform_scope ''DISPUTE_RESERVE'' c)"
  "dispute_fee_revenue c = account_id (platform_scope ''DISPUTE_FEE_REVENUE'' c)"
  by (simp_all add: client_main_def partner_payable_def platform_adjustment_def dispute_reserve_def dispute_fee_revenue_def
      platform_account_def account_id_def client_scope_def payable_scope_def platform_scope_def)

definition lines_between :: "account_query \<Rightarrow> account_query \<Rightarrow> int \<Rightarrow> string \<Rightarrow> ('a op_db_scheme, posting_line list) act" where
  "lines_between q q' x c = and_then (account_id q) (\<lambda>i. and_then (account_id q') (\<lambda>j. ret (transfer_lines i j x c)))"

lemma scenario_lines:
  "refund_transfer opn x = lines_between (payable_scope opn) (client_scope opn) x (op_currency opn)"
  "adjustment_transfer opn x = lines_between (platform_scope ''PLATFORM_ADJUSTMENT'' (op_currency opn)) (client_scope opn) x (op_currency opn)"
  by (simp_all add: refund_transfer_def adjustment_transfer_def lines_between_def scenario_accounts)

definition used_keys :: "op_tables \<Rightarrow> string set" where
  "used_keys t = pb_idempotency_key ` set (posting_batches t)"

text \<open>
  A transfer between the accounts of two scopes always succeeds. It moves the amount when its key is new; with a key
  that was used before it finds that batch and moves nothing.
\<close>

definition transfer_done :: "account_query \<Rightarrow> account_query \<Rightarrow> posting_type \<Rightarrow> string \<Rightarrow> int \<Rightarrow> op_tables \<Rightarrow> op_tables \<Rightarrow> bool" where
  "transfer_done q q' ty key x t t' \<longleftrightarrow>
     (\<exists>i j. account_for q t' = Some i \<and> account_for q' t' = Some j \<and> i \<noteq> j \<and>
       balance_at t' = (if key \<in> used_keys t then balance_at t else transferred (is_hold_type ty) i j x (balance_at t))) \<and>
     used_keys t' = insert key (used_keys t) \<and> cases_of t' = cases_of t \<and>
     (\<forall>p k. account_for p t = Some k \<longrightarrow> account_for p t' = Some k)"

lemma transfer_run:
  assumes ok: "op_ok w s" and acc: "pay_scope_ok (tables s) q i" "pay_scope_ok (tables s) q' j"
    and scopes: "as_tariff_id q \<noteq> as_tariff_id q'" "as_currency q = c" "as_currency q' = c"
  obtains r s' where "apply_posting w \<lparr>pr_operation_id = oi, pr_posting_type = ty, pr_idempotency_key = key, pr_lines = transfer_lines i j x c\<rparr> s =
      (Inr r, s')"
    "op_ok w s'" "tick s \<le> tick s'" "transfer_done q q' ty key x (tables s) (tables s')"
proof -
  let ?q = "\<lparr>pr_operation_id = oi, pr_posting_type = ty, pr_idempotency_key = key, pr_lines = transfer_lines i j x c\<rparr>"
  have ij: "i \<noteq> j" by (rule pay_scope_distinct [OF acc scopes(1)])
  have acc': "account_for q (tables s) = Some i" "account_for q' (tables s) = Some j" "has_currency (tables s) i c" "has_currency (tables s) j c"
    using acc scopes by (auto simp: pay_scope_ok_def)
  have keeps: "op_ok w (snd (apply_posting w ?q s))" by (rule apply_posting_keeps [OF ok])
  show ?thesis
  proof (cases "key_new ?q (tables s)")
    case True
    obtain r s' where r: "apply_posting w ?q s = (Inr r, s')"
        "balance_at (tables s') = transferred (is_hold_type ty) i j x (balance_at (tables s))"
        "used_keys (tables s') = insert key (used_keys (tables s))"
        "cases_of (tables s') = cases_of (tables s)" "op_accounts (tables s') = op_accounts (tables s)" "tick s < tick s'"
      by (rule transfer_posted [OF ok _ ij acc'(3,4) True]) (simp_all add: used_keys_def)
    moreover from True have "key \<notin> used_keys (tables s)" by (simp add: key_new_def used_keys_def)
    ultimately show ?thesis
      using keeps acc' ij by (intro that [OF r(1)]) (auto simp: transfer_done_def account_for_def)
  next
    case False
    then obtain b where b: "b \<in> set (posting_batches (tables s))" "pb_idempotency_key b = pr_idempotency_key ?q"
      by (auto simp: key_new_def)
    then have "key \<in> used_keys (tables s)" by (auto simp: used_keys_def)
    with apply_posting_replay [OF ok b] acc' ij ok show ?thesis
      by (intro that) (auto simp: transfer_done_def insert_absorb)
  qed
qed

lemma transfer_done_accounts_only:
  assumes "accounts_only s s'" and "transfer_done q q' ty key x (tables s') t"
  shows "transfer_done q q' ty key x (tables s) t"
proof -
  have "used_keys (tables s') = used_keys (tables s)" by (simp add: used_keys_def accounts_only_sel(3) [OF assms(1)])
  with assms(2) account_for_grows [OF _ assms(1)] show ?thesis
    unfolding transfer_done_def balance_at_accounts_only [OF assms(1)] cases_of_accounts_only [OF assms(1)] by simp
qed

lemma posting_between:
  assumes ok: "op_ok w s" and scopes: "as_tariff_id q \<noteq> as_tariff_id q'" "as_currency q = c" "as_currency q' = c"
  obtains i j s1 r s2 where "lines_between q q' x c s = (Inr (transfer_lines i j x c), s1)"
    "apply_posting w \<lparr>pr_operation_id = oi, pr_posting_type = ty, pr_idempotency_key = key, pr_lines = transfer_lines i j x c\<rparr> s1 = (Inr r, s2)"
    "op_ok w s2" "tick s \<le> tick s2" "transfer_done q q' ty key x (tables s) (tables s2)"
proof -
  obtain i s0 j s1 where 1: "account_id q s = (Inr i, s0)" "account_id q' s0 = (Inr j, s1)" "op_ok w s1" "accounts_only s s1"
      "pay_scope_ok (tables s1) q i" "pay_scope_ok (tables s1) q' j"
    by (rule two_accounts_run [OF ok])
  then have lines: "lines_between q q' x c s = (Inr (transfer_lines i j x c), s1)" by (simp add: lines_between_def and_then_apply)
  obtain r s2 where 2: "apply_posting w \<lparr>pr_operation_id = oi, pr_posting_type = ty, pr_idempotency_key = key, pr_lines = transfer_lines i j x c\<rparr> s1 = (Inr r, s2)"
      "op_ok w s2" "tick s1 \<le> tick s2" "transfer_done q q' ty key x (tables s1) (tables s2)"
    by (rule transfer_run [OF 1(3,5,6) scopes])
  show ?thesis
    by (rule that [OF lines 2(1,2) _ transfer_done_accounts_only [OF 1(4) 2(4)]]) (use 2 accounts_only_sel(9) [OF 1(4)] in simp)
qed

end
