(* ===== verification/Op_Frames.thy ===== *)
theory Op_Frames
  imports Op_Transfers
begin

text \<open>
  What the scenarios of an operation keep. A property of the database that the steps of the ledger keep, and that does not look at
  reversals, adjustments and disputes, is kept by every scenario but the refund; two properties are: the books are in order, and
  what was refunded of every operation is the sum of its posted refunds and at most what was captured.
\<close>

section \<open>Frames\<close>

lemma keeps_asserting: "keeps P (asserting b e)"
  by (simp add: keeps_def)

locale op_frame =
  fixes w :: world and P :: "'a op_db_scheme \<Rightarrow> bool"
  assumes tick_kept: "P s \<Longrightarrow> tick s \<le> n \<Longrightarrow> P (s\<lparr>tick := n\<rparr>)"
    and commit_kept: "P s \<Longrightarrow> P (s\<lparr>saved := (audit_log s, tables s)\<rparr>)"
    and account_kept: "keeps P (get_or_create_account q)"
    and posting_kept: "keeps P (apply_posting w r)"
    and clear_hold_kept: "keeps P (clear_hold i)"
    and reversals_kept: "P s \<Longrightarrow> P (s\<lparr>tables := (tables s)\<lparr>reversals := xs\<rparr>\<rparr>)"
    and adjustments_kept: "P s \<Longrightarrow> P (s\<lparr>tables := (tables s)\<lparr>adjustments := ys\<rparr>\<rparr>)"
    and disputes_kept: "P s \<Longrightarrow> P (s\<lparr>tables := (tables s)\<lparr>disputes := ds\<rparr>\<rparr>)"
    and events_kept: "P s \<Longrightarrow> P (s\<lparr>tables := (tables s)\<lparr>dispute_events := es\<rparr>\<rparr>)"
begin

lemma keeps_new_uuid: "keeps P (new_uuid_str w')" and keeps_now: "keeps P (now_utc w')" and keeps_commit: "keeps P commit"
  by (simp_all add: keeps_def tick_kept commit_kept)

lemma keeps_save_dispute: "keeps P (save_dispute d)" and keeps_event: "keeps P (add_dispute_event i ty actor p)"
  by (simp_all add: keeps_def save_dispute_def add_dispute_event_def disputes_kept events_kept)

lemmas steps = keeps_parts keeps_asserting keeps_new_uuid keeps_now keeps_commit keeps_save_dispute keeps_event account_kept posting_kept
  clear_hold_kept

lemma keeps_accounts:
  "keeps P (client_main opn)" "keeps P (partner_payable opn)" "keeps P (platform_adjustment c)" "keeps P (dispute_reserve c)"
  "keeps P (dispute_fee_revenue c)" "keeps P (source_account opn b)"
  unfolding source_account_def client_main_def partner_payable_def platform_adjustment_def dispute_reserve_def dispute_fee_revenue_def
    platform_account_def
  by (intro steps)+

lemma keeps_lines:
  "keeps P (refund_transfer opn x)" "keeps P (adjustment_transfer opn x)" "keeps P (refund_from_reserve_lines opn x b)" "keeps P (fee_lines opn x b)"
  unfolding refund_transfer_def adjustment_transfer_def refund_from_reserve_lines_def fee_lines_def
  by (intro steps keeps_accounts)+

lemma keeps_create_adjustment: "keeps P (create_adjustment w' k rel i opn x c d key)"
  unfolding create_adjustment_def Let_def
  by (intro steps) (simp add: keeps_def adjustments_kept)

lemma keeps_adjustment: "keeps P (period_adjustment w' k rel i opn x d key)" "keeps P (ensure_adjustment w' k rel i opi x c dt key)"
  unfolding period_adjustment_def ensure_adjustment_def find_adjustment_def day_or_today_def
  by (intro steps keeps_create_adjustment)+

lemma keeps_reverse_capture: "keeps P (reverse_capture w opn q)"
proof -
  have "keeps P (create_reversal w opn q)" unfolding create_reversal_def Let_def
    by (intro steps) (simp add: keeps_def reversals_kept)
  moreover have "keeps P (mark_reversal_posted r i)" for r i by (simp add: keeps_def mark_reversal_posted_def reversals_kept)
  ultimately show ?thesis unfolding reverse_capture_def Let_def
    by (intro steps keeps_lines keeps_adjustment)
qed

lemma keeps_open_dispute: "keeps P (open_dispute w opn x actor key fee hold)"
proof -
  have "keeps P (create_dispute w opn x actor fee)" unfolding create_dispute_def Let_def
    by (intro steps) (simp add: keeps_def disputes_kept)
  then show ?thesis unfolding open_dispute_def place_hold_def Let_def by (intro steps keeps_accounts)
qed

lemma keeps_decisions:
  "keeps P (move_to_review d actor)" "keeps P (accept_dispute w d opn actor key closed dt)" "keeps P (reject_dispute w d actor key)"
  "keeps P (close_dispute d actor)"
  unfolding move_to_review_def accept_dispute_def post_fee_def reject_dispute_def release_hold_def close_dispute_def Let_def
  by (intro steps keeps_accounts keeps_lines keeps_adjustment)+

end

section \<open>The books\<close>

lemma sound_tables [simp]:
  "sound w n (t\<lparr>card_operations := cs\<rparr>) = sound w n t" "sound w n (t\<lparr>refund_requests := rs\<rparr>) = sound w n t"
  "sound w n (t\<lparr>reversals := vs\<rparr>) = sound w n t" "sound w n (t\<lparr>adjustments := fs\<rparr>) = sound w n t"
  "sound w n (t\<lparr>disputes := ds\<rparr>) = sound w n t" "sound w n (t\<lparr>dispute_events := es\<rparr>) = sound w n t"
  by (simp_all add: sound_def book_ok_def account_entries_def has_currency_def)

lemma clear_hold_run:
  assumes "op_ok w s"
  shows "clear_hold i s = (Inr (), s\<lparr>tables := (tables s)\<lparr>account_balances :=
    map (\<lambda>b. if ab_account_id b = i then b\<lparr>ab_hold_balance := 0, ab_available_balance := ab_current_balance b\<rparr> else b)
      (account_balances (tables s))\<rparr>\<rparr>)"
proof -
  have dist: "distinct (map ab_account_id (account_balances (tables s)))" using assms by (simp add: op_ok_def sound_def book_okD(1))
  show ?thesis
  proof (cases "find (\<lambda>b. ab_account_id b = i) (account_balances (tables s))")
    case None
    then have "map (\<lambda>b. if ab_account_id b = i then b\<lparr>ab_hold_balance := 0, ab_available_balance := ab_current_balance b\<rparr> else b)
        (account_balances (tables s)) = account_balances (tables s)"
      by (intro map_idI) (auto simp: find_None_iff)
    then show ?thesis by (simp add: clear_hold_def and_then_apply one_or_none_find [OF dist] None)
  next
    case (Some b)
    have "x = b" if "x \<in> set (account_balances (tables s))" "ab_account_id x = i" for x
      using that find_SomeD [OF Some] dist by (auto simp: distinct_map dest: inj_onD)
    with find_SomeD [OF Some]
    have "store_row ab_account_id (b\<lparr>ab_hold_balance := 0, ab_available_balance := ab_current_balance b\<rparr>) (account_balances (tables s)) =
        map (\<lambda>b. if ab_account_id b = i then b\<lparr>ab_hold_balance := 0, ab_available_balance := ab_current_balance b\<rparr> else b)
          (account_balances (tables s))"
      by (auto simp: store_row_def)
    then show ?thesis by (simp add: clear_hold_def and_then_apply one_or_none_find [OF dist] Some save_balance_def)
  qed
qed

lemma cleared_sound:
  assumes "sound w n t"
  shows "sound w n (t\<lparr>account_balances :=
    map (\<lambda>b. if ab_account_id b = i then b\<lparr>ab_hold_balance := 0, ab_available_balance := ab_current_balance b\<rparr> else b)
      (account_balances t)\<rparr>)"
proof -
  define f where "f = (\<lambda>b :: account_balance. if ab_account_id b = i then b\<lparr>ab_hold_balance := 0, ab_available_balance := ab_current_balance b\<rparr> else b)"
  have f: "ab_account_id (f b) = ab_account_id b" "ab_current_balance (f b) = ab_current_balance b"
      "ab_available_balance b = ab_current_balance b - ab_hold_balance b \<Longrightarrow> ab_available_balance (f b) = ab_current_balance b - ab_hold_balance (f b)"
    for b
    by (simp_all add: f_def)
  have "ab_account_id \<circ> f = ab_account_id" by (simp add: fun_eq_iff f)
  with assms show ?thesis unfolding f_def [symmetric]
    by (simp add: sound_def book_ok_def account_entries_def has_currency_def f image_image)
qed

interpretation books: op_frame w "op_ok w" for w
proof
  fix s :: "'a op_db_scheme" and n
  assume "op_ok w s" and "tick s \<le> n"
  then show "op_ok w (s\<lparr>tick := n\<rparr>)" by (auto simp: op_ok_def intro: sound_mono)
next
  fix q
  show "keeps (op_ok w :: 'a op_db_scheme \<Rightarrow> bool) (get_or_create_account q)"
  proof (rule keepsI)
    fix s :: "'a op_db_scheme"
    assume "op_ok w s"
    from get_or_create_run [OF this, of q] show "op_ok w (snd (get_or_create_account q s))" by auto
  qed
next
  fix r
  show "keeps (op_ok w :: 'a op_db_scheme \<Rightarrow> bool) (apply_posting w r)" by (rule keepsI) (rule apply_posting_keeps)
next
  fix i
  show "keeps (op_ok w :: 'a op_db_scheme \<Rightarrow> bool) (clear_hold i)"
    by (rule keepsI) (simp add: clear_hold_run, simp add: op_ok_def cleared_sound)
qed (simp_all add: op_ok_def)

section \<open>What was refunded\<close>

definition posted_refunds :: "string \<Rightarrow> op_tables \<Rightarrow> int" where
  "posted_refunds i t =
     sum_list (map rf_amount (filter (\<lambda>r. rf_operation_id r = i \<and> rf_status r = REFUND_POSTED) (refund_requests t)))"

definition refunds_ok :: "world \<Rightarrow> nat \<Rightarrow> op_tables \<Rightarrow> bool" where
  "refunds_ok w n t \<longleftrightarrow>
     distinct (map op_id (card_operations t)) \<and>
     (\<forall>r\<in>set (refund_requests t). rf_operation_id r \<in> op_id ` set (card_operations t) \<and> (\<exists>k<n. rf_id r = uuid_at w k)) \<and>
     (\<forall>c\<in>set (card_operations t). op_refunded_amount c = posted_refunds (op_id c) t \<and> op_refunded_amount c \<le> op_captured_amount c)"

definition refund_state :: "world \<Rightarrow> 'a op_db_scheme \<Rightarrow> bool" where
  "refund_state w s \<longleftrightarrow> op_ok w s \<and> refunds_ok w (tick s) (tables s) \<and> refunds_ok w (tick s) (snd (saved s))"

lemma refunds_ok_mono: "refunds_ok w n t \<Longrightarrow> n \<le> m \<Longrightarrow> refunds_ok w m t"
  unfolding refunds_ok_def by (meson order_less_le_trans)

lemma refunds_ok_cong: "cases_of t = cases_of t' \<Longrightarrow> refunds_ok w n t = refunds_ok w n t'"
  by (simp add: cases_of_def refunds_ok_def posted_refunds_def)

lemma refunds_ok_tables [simp]:
  "refunds_ok w n (t\<lparr>reversals := vs\<rparr>) = refunds_ok w n t" "refunds_ok w n (t\<lparr>adjustments := fs\<rparr>) = refunds_ok w n t"
  "refunds_ok w n (t\<lparr>disputes := ds\<rparr>) = refunds_ok w n t" "refunds_ok w n (t\<lparr>dispute_events := es\<rparr>) = refunds_ok w n t"
  "refunds_ok w n (t\<lparr>account_balances := bs\<rparr>) = refunds_ok w n t" "refunds_ok w n (t\<lparr>op_accounts := as\<rparr>) = refunds_ok w n t"
  by (simp_all add: refunds_ok_def posted_refunds_def)

lemma apply_posting_cases:
  assumes ok: "op_ok w s" and run: "snd (apply_posting w q s) = s'"
  shows "tick s \<le> tick s' \<and> cases_of (tables s') \<in> {cases_of (tables s), cases_of (snd (saved s))} \<and>
    cases_of (snd (saved s')) \<in> {cases_of (tables s), cases_of (snd (saved s))}"
proof (cases "key_new q (tables s)")
  case new: True
  consider "\<not> posting_valid q (tables s)" | "posting_valid q (tables s)" "\<exists>l\<in>set (pr_lines q). \<not> plain_line l"
    | "posting_valid q (tables s)" "\<forall>l\<in>set (pr_lines q). plain_line l" by blast
  then show ?thesis
  proof cases
    case 1
    with apply_posting_invalid [OF new, of w] run show ?thesis by auto
  next
    case 2
    with apply_posting_rolled_back [OF ok new] run show ?thesis by auto
  next
    case 3
    with apply_posting_posted [OF ok new] run show ?thesis by auto
  qed
next
  case False
  then obtain b where "b \<in> set (posting_batches (tables s))" "pb_idempotency_key b = pr_idempotency_key q"
    by (auto simp: key_new_def)
  with apply_posting_replay [OF ok this] run show ?thesis by simp
qed

lemma refunds_ok_posting:
  assumes "refund_state w s"
  shows "refund_state w (snd (apply_posting w q s))"
proof -
  from assms have ok: "op_ok w s" by (simp add: refund_state_def)
  have keep: "refunds_ok w (tick s) t \<and> refunds_ok w (tick s) t' \<Longrightarrow> cases_of u \<in> {cases_of t, cases_of t'} \<Longrightarrow> tick s \<le> m \<Longrightarrow>
      refunds_ok w m u" for t t' u m
    by (elim insertE) (auto dest: refunds_ok_cong [where w = w and n = "tick s"] intro: refunds_ok_mono)
  from assms have both: "refunds_ok w (tick s) (tables s) \<and> refunds_ok w (tick s) (snd (saved s))" by (simp add: refund_state_def)
  from apply_posting_cases [OF ok refl, of q] show ?thesis
    unfolding refund_state_def using keep [OF both] apply_posting_keeps [OF ok, of q] by blast
qed

interpretation refunds: op_frame w "refund_state w" for w
proof
  fix s :: "'a op_db_scheme" and n
  assume "refund_state w s" and "tick s \<le> n"
  then show "refund_state w (s\<lparr>tick := n\<rparr>)" by (auto simp: refund_state_def books.tick_kept intro: refunds_ok_mono)
next
  fix q
  show "keeps (refund_state w :: 'a op_db_scheme \<Rightarrow> bool) (get_or_create_account q)"
  proof (rule keepsI)
    fix s :: "'a op_db_scheme"
    assume *: "refund_state w s"
    then have "op_ok w (snd (get_or_create_account q s))"
      by (intro keepsD [OF books.account_kept]) (simp add: refund_state_def)
    with * show "refund_state w (snd (get_or_create_account q s))"
      by (auto simp: refund_state_def get_or_create_account_def and_then_apply split: option.splits)
  qed
next
  fix r
  show "keeps (refund_state w :: 'a op_db_scheme \<Rightarrow> bool) (apply_posting w r)" by (rule keepsI) (rule refunds_ok_posting)
next
  fix i
  show "keeps (refund_state w :: 'a op_db_scheme \<Rightarrow> bool) (clear_hold i)"
  proof (rule keepsI)
    fix s :: "'a op_db_scheme"
    assume *: "refund_state w s"
    then have "op_ok w (snd (clear_hold i s))"
      by (intro keepsD [OF books.clear_hold_kept]) (simp add: refund_state_def)
    with * show "refund_state w (snd (clear_hold i s))" by (simp add: refund_state_def clear_hold_run [of w])
  qed
qed (simp_all add: refund_state_def op_ok_def)

end
