(* ===== verification/Op_Refunds.thy ===== *)
theory Op_Refunds
  imports Op_Frames
begin

text \<open>
  The refund of an operation: what it moves, and that what was refunded is the sum of the posted refunds and never more than what was
  captured.
\<close>

section \<open>The course of a refund\<close>

definition refund_row :: "string \<Rightarrow> card_operation \<Rightarrow> refund_args \<Rightarrow> refund_request_row" where
  "refund_row i opn q =
     \<lparr>rf_id = i, rf_operation_id = op_id opn, rf_amount = ra_amount q, rf_currency = op_currency opn, rf_reason = ra_reason q,
      rf_initiator = ra_initiator q, rf_idempotency_key = ra_idempotency_key q, rf_status = REFUND_REQUESTED,
      rf_posted_posting_id = None, rf_settlement_policy = policy_of (ra_settlement_closed q)\<rparr>"

definition refund_source :: "bool \<Rightarrow> card_operation \<Rightarrow> account_query" where
  "refund_source closed opn = (if closed then platform_scope ''PLATFORM_ADJUSTMENT'' (op_currency opn) else payable_scope opn)"

definition refund_finish :: "world \<Rightarrow> card_operation \<Rightarrow> refund_args \<Rightarrow> refund_request_row \<Rightarrow> string \<Rightarrow> ('a op_db_scheme, scenario_result) act" where
  "refund_finish w opn q r p =
     and_then (if ra_settlement_closed q
               then and_then (period_adjustment w REFUND_ADJUSTMENT RELATED_REFUND (rf_id r) opn (ra_amount q) (ra_adjustment_date q)
                      (''adjustment:'' @ ra_idempotency_key q)) (\<lambda>i. ret (Some i))
               else ret None) (\<lambda>adjustment_id.
     and_then commit (\<lambda>_.
     ret \<lparr>sx_entity_id = rf_id r, sx_posting_id = Some p, sx_settlement_policy = policy_of (ra_settlement_closed q),
          sx_adjustment_id = adjustment_id\<rparr>))"

definition with_refund :: "refund_request_row \<Rightarrow> op_tables \<Rightarrow> op_tables" where
  "with_refund r t = t\<lparr>refund_requests := refund_requests t @ [r]\<rparr>"

definition refund_marked :: "card_operation \<Rightarrow> refund_request_row \<Rightarrow> string \<Rightarrow> int \<Rightarrow> op_tables \<Rightarrow> op_tables" where
  "refund_marked opn r p x t =
     t\<lparr>refund_requests := store_row rf_id (r\<lparr>rf_status := REFUND_POSTED, rf_posted_posting_id := Some p\<rparr>) (refund_requests t),
       card_operations := store_row op_id (opn\<lparr>op_refunded_amount := op_refunded_amount opn + x\<rparr>) (card_operations t)\<rparr>"

definition refund_allowed :: "card_operation \<Rightarrow> int \<Rightarrow> bool" where
  "refund_allowed opn x \<longleftrightarrow> 0 < x \<and> x \<le> op_captured_amount opn - op_refunded_amount opn"

lemma refund_source_lines:
  "(if closed then adjustment_transfer opn x else refund_transfer opn x) = lines_between (refund_source closed opn) (client_scope opn) x (op_currency opn)"
  by (simp add: refund_source_def scenario_lines)

lemma refund_source_sel [simp]:
  "as_tariff_id (refund_source closed opn) \<noteq> None" "as_currency (refund_source closed opn) = op_currency opn"
  by (simp_all add: refund_source_def)

lemma refund_begun:
  fixes s :: "'a op_db_scheme" and w opn q
  defines "r \<equiv> refund_row (uuid_at w (tick s)) opn q"
  defines "s1 \<equiv> s\<lparr>tick := Suc (tick s), tables := with_refund r (tables s)\<rparr>"
  assumes ok: "op_ok w s" and allowed: "refund_allowed opn (ra_amount q)"
    and none: "one_or_none (\<lambda>r. rf_idempotency_key r = ra_idempotency_key q) (refund_requests (tables s)) = Inr None"
  obtains p s2 where "request_refund w opn q s = refund_finish w opn q r p (s2\<lparr>tables := refund_marked opn r p (ra_amount q) (tables s2)\<rparr>)"
    "op_ok w s2" "Suc (tick s) \<le> tick s2" "refund_state w s1 \<Longrightarrow> refund_state w s2"
    "transfer_done (refund_source (ra_settlement_closed q) opn) (client_scope opn)
      (if ra_settlement_closed q then POST_ADJUSTMENT else POST_REFUND) (ra_idempotency_key q) (ra_amount q) (tables s1) (tables s2)"
proof -
  let ?ty = "if ra_settlement_closed q then POST_ADJUSTMENT else POST_REFUND"
  let ?src = "refund_source (ra_settlement_closed q) opn"
  have ok1: "op_ok w s1" using ok by (auto simp: s1_def with_refund_def op_ok_def intro: sound_mono)
  have sc: "as_tariff_id ?src \<noteq> as_tariff_id (client_scope opn)" "as_currency ?src = op_currency opn"
      "as_currency (client_scope opn) = op_currency opn"
    by simp_all
  obtain i j s' posting s2 where 1: "lines_between ?src (client_scope opn) (ra_amount q) (op_currency opn) s1 =
      (Inr (transfer_lines i j (ra_amount q) (op_currency opn)), s')"
    and 2: "apply_posting w \<lparr>pr_operation_id = Some (op_id opn), pr_posting_type = ?ty, pr_idempotency_key = ra_idempotency_key q,
      pr_lines = transfer_lines i j (ra_amount q) (op_currency opn)\<rparr> s' = (Inr posting, s2)"
    and 3: "op_ok w s2" "tick s1 \<le> tick s2" "transfer_done ?src (client_scope opn) ?ty (ra_idempotency_key q) (ra_amount q) (tables s1) (tables s2)"
    by (rule posting_between [OF ok1 sc])
  have create: "create_refund_request w opn q s = (Inr r, s1)"
    by (simp add: create_refund_request_def Let_def and_then_apply r_def refund_row_def s1_def with_refund_def)
  have run: "request_refund w opn q s = refund_finish w opn q r (po_posting_id posting)
      (s2\<lparr>tables := refund_marked opn r (po_posting_id posting) (ra_amount q) (tables s2)\<rparr>)"
    using allowed unfolding request_refund_def Let_def refund_source_lines
    by (simp add: none and_then_apply create 1 2 refund_allowed_def mark_refund_posted_def add_refunded_def refund_marked_def
        refund_finish_def)
  have "refund_state w s2" if "refund_state w s1"
  proof -
    have "refund_state w s'" using keepsD [OF refunds.keeps_lines(1) that, of opn "ra_amount q"]
        keepsD [OF refunds.keeps_lines(2) that, of opn "ra_amount q"] 1
      by (auto simp: refund_source_lines [symmetric] split: if_splits)
    from keepsD [OF refunds.posting_kept this] 2 show ?thesis by (metis snd_conv)
  qed
  with run 3 show ?thesis by (intro that [OF run]) (simp_all add: s1_def)
qed

section \<open>Refunds add up\<close>

lemma with_refund_ok:
  assumes "refunds_ok w n t" and "opn \<in> set (card_operations t)" and "n < m"
  shows "refunds_ok w m (with_refund (refund_row (uuid_at w n) opn q) t)"
proof -
  have "posted_refunds i (with_refund (refund_row (uuid_at w n) opn q) t) = posted_refunds i t" for i
    by (simp add: posted_refunds_def with_refund_def refund_row_def)
  with assms(2,3) refunds_ok_mono [OF assms(1), of m] show ?thesis
    by (auto simp: refunds_ok_def with_refund_def refund_row_def)
qed

lemma refund_marked_ok:
  fixes w n opn q
  defines "r \<equiv> refund_row (uuid_at w n) opn q"
  assumes inj: "inj (uuid_at w)" and t: "refunds_ok w n t" "opn \<in> set (card_operations t)" and u: "cases_of u = cases_of (with_refund r t)"
    and x: "ra_amount q \<le> op_captured_amount opn - op_refunded_amount opn" and "n < m"
  shows "refunds_ok w m (refund_marked opn r p (ra_amount q) u)" (is "refunds_ok w m ?v")
proof -
  let ?r = "r\<lparr>rf_status := REFUND_POSTED, rf_posted_posting_id := Some p\<rparr>"
  let ?c = "opn\<lparr>op_refunded_amount := op_refunded_amount opn + ra_amount q\<rparr>"
  have "rf_id ?r \<notin> rf_id ` set (refund_requests t)"
  proof
    assume "rf_id ?r \<in> rf_id ` set (refund_requests t)"
    then obtain k where "k < n" "uuid_at w n = uuid_at w k" using t(1) by (auto simp: refunds_ok_def r_def refund_row_def)
    with inj show False by (auto dest: injD)
  qed
  then have "store_row rf_id ?r (refund_requests t) = refund_requests t" by (rule store_row_absent)
  then have rs: "refund_requests ?v = refund_requests t @ [?r]"
    using u by (simp add: refund_marked_def cases_of_def with_refund_def store_row_append store_row_def [of _ _ "[r]"])
  have cs: "card_operations ?v = store_row op_id ?c (card_operations t)"
    using u by (simp add: refund_marked_def cases_of_def with_refund_def)
  have ids: "map op_id (card_operations ?v) = map op_id (card_operations t)"
    unfolding cs by simp
  have ids': "op_id ` set (card_operations ?v) = op_id ` set (card_operations t)" using ids by (metis set_map)
  have sums: "posted_refunds i ?v = posted_refunds i t + (if i = op_id opn then ra_amount q else 0)" for i
    unfolding posted_refunds_def rs by (simp add: r_def refund_row_def)
  have "op_refunded_amount c = posted_refunds (op_id c) ?v \<and> op_refunded_amount c \<le> op_captured_amount c"
    if c: "c \<in> set (card_operations ?v)" for c
  proof -
    from set_store_rowD [OF c [unfolded cs]] consider "c = ?c" | "c \<in> set (card_operations t)" "op_id c \<noteq> op_id opn" by auto
    then show ?thesis by cases (use t x in \<open>auto simp: sums refunds_ok_def\<close>)
  qed
  moreover have "rf_operation_id y \<in> op_id ` set (card_operations ?v) \<and> (\<exists>k<m. rf_id y = uuid_at w k)" if "y \<in> set (refund_requests ?v)" for y
  proof -
    from that consider "y \<in> set (refund_requests t)" | "y = ?r" by (auto simp: rs)
    then show ?thesis unfolding ids'
    proof cases
      case 1
      with t(1) \<open>n < m\<close> show "rf_operation_id y \<in> op_id ` set (card_operations t) \<and> (\<exists>k<m. rf_id y = uuid_at w k)"
        unfolding refunds_ok_def by (meson order_less_trans)
    next
      case 2
      with t(2) \<open>n < m\<close> show "rf_operation_id y \<in> op_id ` set (card_operations t) \<and> (\<exists>k<m. rf_id y = uuid_at w k)"
        by (auto simp: r_def refund_row_def)
    qed
  qed
  moreover have "distinct (map op_id (card_operations ?v))" using t(1) unfolding ids refunds_ok_def by simp
  ultimately show ?thesis unfolding refunds_ok_def by blast
qed

lemma refund_finish_keeps: "keeps (refund_state w) (refund_finish w opn q r p)"
  unfolding refund_finish_def by (intro refunds.steps refunds.keeps_adjustment)

lemma request_refund_keeps:
  assumes inj: "inj (uuid_at w)" and st: "refund_state w s" and opn: "opn \<in> set (card_operations (tables s))"
  shows "refund_state w (snd (request_refund w opn q s))"
proof (cases "one_or_none (\<lambda>r. rf_idempotency_key r = ra_idempotency_key q) (refund_requests (tables s)) = Inr None \<and>
    refund_allowed opn (ra_amount q)")
  case False
  then have "snd (request_refund w opn q s) = s"
    by (auto simp: request_refund_def and_then_apply Let_def refund_allowed_def split: sum.split option.split)
  with st show ?thesis by simp
next
  case True
  let ?r = "refund_row (uuid_at w (tick s)) opn q"
  let ?s1 = "s\<lparr>tick := Suc (tick s), tables := with_refund ?r (tables s)\<rparr>"
  from st have ok: "op_ok w s" and t: "refunds_ok w (tick s) (tables s)" by (simp_all add: refund_state_def)
  obtain p s2 where run: "request_refund w opn q s = refund_finish w opn q ?r p (s2\<lparr>tables := refund_marked opn ?r p (ra_amount q) (tables s2)\<rparr>)"
    and s2: "op_ok w s2" "Suc (tick s) \<le> tick s2" "refund_state w ?s1 \<Longrightarrow> refund_state w s2" "cases_of (tables s2) = cases_of (tables ?s1)"
    by (rule refund_begun [OF ok, of opn q]) (use True in \<open>auto simp: transfer_done_def\<close>)
  have "refund_state w ?s1"
    using st with_refund_ok [OF t opn, of "Suc (tick s)"]
    by (auto simp: refund_state_def op_ok_def with_refund_def intro: sound_mono refunds_ok_mono)
  then have "refund_state w s2" by (rule s2(3))
  moreover have "refunds_ok w (tick s2) (refund_marked opn ?r p (ra_amount q) (tables s2))"
    by (rule refund_marked_ok [OF inj t opn]) (use s2 True in \<open>auto simp: refund_allowed_def\<close>)
  ultimately have "refund_state w (s2\<lparr>tables := refund_marked opn ?r p (ra_amount q) (tables s2)\<rparr>)"
    by (simp add: refund_state_def op_ok_def refund_marked_def)
  from keepsD [OF refund_finish_keeps this] run show ?thesis by simp
qed

lemma request_refund_books: "op_ok w s \<Longrightarrow> op_ok w (snd (request_refund w opn q s))"
proof -
  have "keeps (op_ok w) (create_refund_request w opn q)" for w :: world and opn q unfolding create_refund_request_def Let_def
    by (intro books.steps) (simp add: keeps_def op_ok_def)
  moreover have "keeps (op_ok w) (mark_refund_posted r p)" "keeps (op_ok w) (add_refunded opn x)" for w :: world and r p opn x
    by (simp_all add: keeps_def op_ok_def mark_refund_posted_def add_refunded_def)
  ultimately have "keeps (op_ok w) (request_refund w opn q)" unfolding request_refund_def Let_def
    by (intro books.steps books.keeps_lines books.keeps_adjustment)
  then show "op_ok w s \<Longrightarrow> op_ok w (snd (request_refund w opn q s))" by (rule keepsD)
qed

end
