(* ===== verification/Op_Histories.thy ===== *)
theory Op_Histories
  imports Op_Refunds
begin

text \<open>
  The histories of the operation ledger, the invariants that hold in all of them, and what refunds and reversals move.
\<close>

section \<open>Histories\<close>

definition no_tables :: op_tables where
  "no_tables =
     \<lparr>op_accounts = [], account_balances = [], op_entries = [], posting_batches = [], card_operations = [], refund_requests = [],
      reversals = [], adjustments = [], disputes = [], dispute_events = []\<rparr>"

definition op_start :: op_db where
  "op_start = \<lparr>tick = 0, audit_log = [], tables = no_tables, saved = ([], no_tables)\<rparr>"

text \<open>
  The histories: operations are captured elsewhere, with nothing refunded; the other steps are the calls of the services, on
  rows of the database and with any arguments, whether they return or raise.
\<close>

inductive op_history :: "world \<Rightarrow> op_db \<Rightarrow> bool" for w where
  start: "op_history w op_start"
| captured: "op_history w s \<Longrightarrow> op_id c \<notin> op_id ` set (card_operations (tables s)) \<Longrightarrow> op_refunded_amount c = 0 \<Longrightarrow>
    0 \<le> op_captured_amount c \<Longrightarrow>
    op_history w (snd (and_then (on_tables (\<lambda>t. t\<lparr>card_operations := card_operations t @ [c]\<rparr>)) (\<lambda>_. commit) s))"
| account: "op_history w s \<Longrightarrow> op_history w (snd (get_or_create_account q s))"
| balance: "op_history w s \<Longrightarrow> op_history w (snd (get_balance i s))"
| status: "op_history w s \<Longrightarrow> op_history w (snd (set_account_status i st s))"
| posting: "op_history w s \<Longrightarrow> op_history w (snd (apply_posting w r s))"
| refund: "op_history w s \<Longrightarrow> c \<in> set (card_operations (tables s)) \<Longrightarrow> op_history w (snd (request_refund w c ra s))"
| reversal: "op_history w s \<Longrightarrow> c \<in> set (card_operations (tables s)) \<Longrightarrow> op_history w (snd (reverse_capture w c va s))"
| adjustment: "op_history w s \<Longrightarrow> op_history w (snd (ensure_adjustment w k rel ri oi x cur dt key s))"
| opened: "op_history w s \<Longrightarrow> c \<in> set (card_operations (tables s)) \<Longrightarrow> op_history w (snd (open_dispute w c x who key fee hold s))"
| reviewed: "op_history w s \<Longrightarrow> d \<in> set (disputes (tables s)) \<Longrightarrow> op_history w (snd (move_to_review d who s))"
| accepted: "op_history w s \<Longrightarrow> d \<in> set (disputes (tables s)) \<Longrightarrow> c \<in> set (card_operations (tables s)) \<Longrightarrow>
    op_history w (snd (accept_dispute w d c who key closed day s))"
| rejected: "op_history w s \<Longrightarrow> d \<in> set (disputes (tables s)) \<Longrightarrow> op_history w (snd (reject_dispute w d who key s))"
| closed: "op_history w s \<Longrightarrow> d \<in> set (disputes (tables s)) \<Longrightarrow> op_history w (snd (close_dispute d who s))"

section \<open>Accounts\<close>

lemma get_balance_tables:
  assumes "op_ok w s"
  shows "\<exists>b s'. get_balance i s = (Inr b, s') \<and> tables s' = with_balance i (tables s) \<and> tick s' = tick s \<and>
    snd (saved s') \<in> {with_balance i (tables s), snd (saved s)}"
proof -
  have dist: "distinct (map ab_account_id (account_balances (tables s)))" using assms by (simp add: op_ok_def sound_def book_okD(1))
  show ?thesis
  proof (cases "find (\<lambda>b. ab_account_id b = i) (account_balances (tables s))")
    case None
    then have "i \<notin> ab_account_id ` set (account_balances (tables s))" by (auto simp: find_None_iff)
    with None show ?thesis by (simp add: get_balance_def and_then_apply one_or_none_find [OF dist] with_balance_def)
  next
    case (Some b)
    then have "i \<in> ab_account_id ` set (account_balances (tables s))" using find_SomeD by fastforce
    with Some show ?thesis by (simp add: get_balance_def and_then_apply one_or_none_find [OF dist] with_balance_def)
  qed
qed

lemma with_balance_sound: "sound w n t \<Longrightarrow> sound w n (with_balance i t)"
  using with_balance_ok [of t i] by (simp add: sound_def book_ok_split)

lemma refunds_ok_with_balance [simp]: "refunds_ok w n (with_balance i t) = refunds_ok w n t"
  by (rule refunds_ok_cong) (simp add: cases_of_def with_balance_def)

lemma get_balance_keeps: "op_ok w s \<Longrightarrow> op_ok w (snd (get_balance i s))"
  and get_balance_refunds: "refund_state w s \<Longrightarrow> refund_state w (snd (get_balance i s))"
  using get_balance_tables [of w s i] by (auto simp: refund_state_def op_ok_def with_balance_sound)

lemma has_currency_status:
  assumes "distinct (map ac_id (op_accounts t))" and "a \<in> set (op_accounts t)"
  shows "has_currency (t\<lparr>op_accounts := store_row ac_id (a\<lparr>ac_status := st\<rparr>) (op_accounts t)\<rparr>) i c = has_currency t i c"
proof -
  have cur: "has_currency t i c \<longleftrightarrow> map_option ac_currency (find (\<lambda>x. ac_id x = i) (op_accounts t)) = Some c" for t
    by (auto simp: has_currency_def)
  have "map_option ac_currency (find (\<lambda>x. ac_id x = i) (store_row ac_id (a\<lparr>ac_status := st\<rparr>) as)) =
      map_option ac_currency (find (\<lambda>x. ac_id x = i) as)" if "distinct (map ac_id as)" "\<forall>x\<in>set as. ac_id x = ac_id a \<longrightarrow> x = a" for as
    using that by (induction as) (auto simp: store_row_def)
  moreover have "\<forall>x\<in>set (op_accounts t). ac_id x = ac_id a \<longrightarrow> x = a" using assms by (auto simp: distinct_map dest: inj_onD)
  ultimately have "map_option ac_currency (find (\<lambda>x. ac_id x = i) (store_row ac_id (a\<lparr>ac_status := st\<rparr>) (op_accounts t))) =
      map_option ac_currency (find (\<lambda>x. ac_id x = i) (op_accounts t))"
    using assms(1) by blast
  moreover have "op_accounts (t\<lparr>op_accounts := as\<rparr>) = as" for as by simp
  ultimately show ?thesis unfolding cur by (simp only:)
qed

lemma status_sound:
  assumes "sound w n t" and "a \<in> set (op_accounts t)"
  shows "sound w n (t\<lparr>op_accounts := store_row ac_id (a\<lparr>ac_status := st\<rparr>) (op_accounts t)\<rparr>)"
proof -
  have d: "distinct (map ac_id (op_accounts t))" using assms(1) by (simp add: sound_def)
  from assms(1) show ?thesis
    by (simp add: sound_def book_ok_def account_entries_def has_currency_status [OF d assms(2)])
qed

lemma set_status_run:
  "snd (set_account_status i st s) = s \<or> (\<exists>a\<in>set (op_accounts (tables s)).
     let t = (tables s)\<lparr>op_accounts := store_row ac_id (a\<lparr>ac_status := st\<rparr>) (op_accounts (tables s))\<rparr>
     in snd (set_account_status i st s) = s\<lparr>tables := t, saved := (audit_log s, t)\<rparr>)"
  by (auto simp: set_account_status_def and_then_apply Let_def split: sum.split option.split dest: one_or_none_SomeD)

lemma status_keeps: "op_ok w s \<Longrightarrow> op_ok w (snd (set_account_status i st s))"
  and status_refunds: "refund_state w s \<Longrightarrow> refund_state w (snd (set_account_status i st s))"
  using set_status_run [of i st s] by (auto simp: Let_def refund_state_def op_ok_def status_sound)

section \<open>Histories keep the books\<close>

lemma captured_refunds_ok:
  assumes "refunds_ok w n t" and "op_id c \<notin> op_id ` set (card_operations t)" and "op_refunded_amount c = 0" and "0 \<le> op_captured_amount c"
  shows "refunds_ok w n (t\<lparr>card_operations := card_operations t @ [c]\<rparr>)"
proof -
  have p: "posted_refunds i (t\<lparr>card_operations := cs\<rparr>) = posted_refunds i t" for i cs by (simp add: posted_refunds_def)
  have "filter (\<lambda>r. rf_operation_id r = op_id c \<and> rf_status r = REFUND_POSTED) (refund_requests t) = []"
    using assms(1,2) unfolding refunds_ok_def filter_empty_conv by metis
  then have "posted_refunds (op_id c) t = 0" unfolding posted_refunds_def by (simp only: list.map sum_list.Nil)
  with assms show ?thesis by (auto simp: refunds_ok_def p)
qed

lemma op_history_ok: "op_history w s \<Longrightarrow> op_ok w s"
proof (induction rule: op_history.induct)
  case start
  show ?case by (simp add: op_ok_def op_start_def no_tables_def sound_def book_ok_def)
next
  case (captured s c)
  then show ?case by (simp add: and_then_apply op_ok_def)
qed (simp_all add: get_balance_keeps status_keeps request_refund_books keepsD [OF books.account_kept] keepsD [OF books.posting_kept]
    keepsD [OF books.keeps_reverse_capture] keepsD [OF books.keeps_adjustment(2)] keepsD [OF books.keeps_open_dispute]
    keepsD [OF books.keeps_decisions(1)] keepsD [OF books.keeps_decisions(2)] keepsD [OF books.keeps_decisions(3)]
    keepsD [OF books.keeps_decisions(4)])

lemma op_history_refunds: "op_history w s \<Longrightarrow> inj (uuid_at w) \<Longrightarrow> refund_state w s"
proof (induction rule: op_history.induct)
  case start
  show ?case by (simp add: refund_state_def op_ok_def op_start_def no_tables_def sound_def book_ok_def refunds_ok_def)
next
  case (captured s c)
  then show ?case using captured_refunds_ok [of w "tick s" "tables s" c] by (simp add: and_then_apply refund_state_def op_ok_def)
qed (simp_all add: get_balance_refunds status_refunds request_refund_keeps keepsD [OF refunds.account_kept] keepsD [OF refunds.posting_kept]
    keepsD [OF refunds.keeps_reverse_capture] keepsD [OF refunds.keeps_adjustment(2)] keepsD [OF refunds.keeps_open_dispute]
    keepsD [OF refunds.keeps_decisions(1)] keepsD [OF refunds.keeps_decisions(2)] keepsD [OF refunds.keeps_decisions(3)]
    keepsD [OF refunds.keeps_decisions(4)])

text \<open>The balances of a currency cancel.\<close>

lemma has_currency_unique: "has_currency t i c \<Longrightarrow> has_currency t i c' \<Longrightarrow> c = c'"
  by (auto simp: has_currency_def)

lemma balances_cancel:
  assumes ok: "book_ok t"
  shows "(\<Sum>b\<leftarrow>filter (\<lambda>b. has_currency t (ab_account_id b) c) (account_balances t). ab_current_balance b) = 0"
proof -
  let ?A = "set (map ab_account_id (account_balances t))"
  let ?in = "\<lambda>k. signed_sum entry_moved (filter (\<lambda>x. oe_account_id x = k) (filter (\<lambda>x. oe_currency x = c) (op_entries t)))"
  have entry: "oe_account_id e \<in> ?A \<and> has_currency t (oe_account_id e) (oe_currency e)" if "e \<in> set (op_entries t)" for e
    using book_okD(4,5) [OF ok that] by simp
  have "oe_account_id ` set (op_entries t) \<subseteq> ?A" using entry by blast
  then have zero: "(\<Sum>k\<in>?A. ?in k) = 0" by (intro op_books.account_balances_cancel [OF ok]) simp_all
  have cur: "?in (ab_account_id b) = (if has_currency t (ab_account_id b) c then ab_current_balance b else 0)"
    if "b \<in> set (account_balances t)" for b
  proof (cases "has_currency t (ab_account_id b) c")
    case True
    then have "filter (\<lambda>x. oe_account_id x = ab_account_id b) (filter (\<lambda>x. oe_currency x = c) (op_entries t)) =
        account_entries (ab_account_id b) t"
      unfolding filter_filter account_entries_def by (intro filter_cong) (use entry has_currency_unique in fastforce)+
    with True book_okD(3) [OF ok that] show ?thesis by simp
  next
    case False
    then have "filter (\<lambda>x. oe_account_id x = ab_account_id b) (filter (\<lambda>x. oe_currency x = c) (op_entries t)) = []"
      using entry by (fastforce simp: filter_empty_conv)
    with False show ?thesis by (simp only: signed_sum_Nil if_False)
  qed
  have "(\<Sum>k\<in>?A. ?in k) = sum_list (map ?in (map ab_account_id (account_balances t)))"
    by (rule sum_list_distinct_conv_sum_set [symmetric]) (rule book_okD(1) [OF ok])
  also have "\<dots> = (\<Sum>b\<leftarrow>account_balances t. if has_currency t (ab_account_id b) c then ab_current_balance b else 0)"
    unfolding map_map by (intro arg_cong [of _ _ sum_list] map_cong refl) (simp only: comp_def cur)
  also have "\<dots> = (\<Sum>b\<leftarrow>filter (\<lambda>b. has_currency t (ab_account_id b) c) (account_balances t). ab_current_balance b)"
    by (simp add: sum_list_map_filter')
  finally show ?thesis using zero by simp
qed

section \<open>What the scenarios move\<close>

lemma ledger_frame [simp]:
  "balance_at (t\<lparr>reversals := vs\<rparr>) = balance_at t" "used_keys (t\<lparr>reversals := vs\<rparr>) = used_keys t"
  "account_for q (t\<lparr>reversals := vs\<rparr>) = account_for q t"
  "balance_at (t\<lparr>disputes := ds\<rparr>) = balance_at t" "used_keys (t\<lparr>disputes := ds\<rparr>) = used_keys t"
  "account_for q (t\<lparr>disputes := ds\<rparr>) = account_for q t"
  "balance_at (t\<lparr>dispute_events := es\<rparr>) = balance_at t" "used_keys (t\<lparr>dispute_events := es\<rparr>) = used_keys t"
  "account_for q (t\<lparr>dispute_events := es\<rparr>) = account_for q t"
  by (simp_all add: balance_at_def balance_of_def used_keys_def account_for_def fun_eq_iff)

lemma with_refund_frame [simp]:
  "balance_at (with_refund r t) = balance_at t" "used_keys (with_refund r t) = used_keys t"
  "card_operations (with_refund r t) = card_operations t" "account_for q (with_refund r t) = account_for q t"
  by (simp_all add: with_refund_def balance_at_def balance_of_def used_keys_def account_for_def fun_eq_iff)

lemma refund_marked_frame [simp]:
  "balance_at (refund_marked opn r p x t) = balance_at t" "used_keys (refund_marked opn r p x t) = used_keys t"
  "account_for q (refund_marked opn r p x t) = account_for q t"
  "card_operations (refund_marked opn r p x t) =
    store_row op_id (opn\<lparr>op_refunded_amount := op_refunded_amount opn + x\<rparr>) (card_operations t)"
  by (simp_all add: refund_marked_def balance_at_def balance_of_def used_keys_def account_for_def fun_eq_iff)

lemma is_hold_refund [simp]: "\<not> is_hold_type POST_REFUND" "\<not> is_hold_type POST_REVERSAL" "\<not> is_hold_type POST_ADJUSTMENT"
    "is_hold_type POST_DISPUTE_HOLD" "is_hold_type POST_DISPUTE_RELEASE"
  by (simp_all add: is_hold_type_def)

lemma refund_open_run:
  assumes ok: "op_ok w s" and allowed: "refund_allowed opn (ra_amount q)" and period: "\<not> ra_settlement_closed q"
    and none: "ra_idempotency_key q \<notin> rf_idempotency_key ` set (refund_requests (tables s))"
  obtains p i j s' where "request_refund w opn q s =
      (Inr \<lparr>sx_entity_id = uuid_at w (tick s), sx_posting_id = Some p, sx_settlement_policy = SAME_PERIOD, sx_adjustment_id = None\<rparr>, s')"
    "account_for (payable_scope opn) (tables s') = Some i" "account_for (client_scope opn) (tables s') = Some j" "i \<noteq> j"
    "balance_at (tables s') = (if ra_idempotency_key q \<in> used_keys (tables s) then balance_at (tables s)
      else transferred False i j (ra_amount q) (balance_at (tables s)))"
    "card_operations (tables s') =
      store_row op_id (opn\<lparr>op_refunded_amount := op_refunded_amount opn + ra_amount q\<rparr>) (card_operations (tables s))"
    "saved s' = (audit_log s', tables s')"
proof -
  let ?r = "refund_row (uuid_at w (tick s)) opn q"
  have "one_or_none (\<lambda>r. rf_idempotency_key r = ra_idempotency_key q) (refund_requests (tables s)) = Inr None"
    unfolding one_or_none_None using none by (metis imageI)
  then obtain p s2 where run: "request_refund w opn q s = refund_finish w opn q ?r p (s2\<lparr>tables := refund_marked opn ?r p (ra_amount q) (tables s2)\<rparr>)"
    and s2: "transfer_done (refund_source (ra_settlement_closed q) opn) (client_scope opn)
      (if ra_settlement_closed q then POST_ADJUSTMENT else POST_REFUND) (ra_idempotency_key q) (ra_amount q)
      (with_refund ?r (tables s)) (tables s2)"
    by (rule refund_begun [OF ok allowed]) simp
  let ?t = "refund_marked opn ?r p (ra_amount q) (tables s2)"
  have fin: "request_refund w opn q s =
      (Inr \<lparr>sx_entity_id = uuid_at w (tick s), sx_posting_id = Some p, sx_settlement_policy = SAME_PERIOD, sx_adjustment_id = None\<rparr>,
       s2\<lparr>tables := ?t, saved := (audit_log s2, ?t)\<rparr>)"
    using period by (simp add: run refund_finish_def and_then_apply policy_of_def refund_row_def)
  from s2 period obtain i j where ij: "account_for (payable_scope opn) (tables s2) = Some i" "account_for (client_scope opn) (tables s2) = Some j"
      "i \<noteq> j" "balance_at (tables s2) = (if ra_idempotency_key q \<in> used_keys (tables s) then balance_at (tables s)
        else transferred False i j (ra_amount q) (balance_at (tables s)))"
    by (auto simp: transfer_done_def refund_source_def)
  have "card_operations (tables s2) = card_operations (tables s)" using s2 by (simp add: transfer_done_def cases_of_def)
  with ij show ?thesis by (intro that [OF fin]) simp_all
qed

text \<open>
  A reversal returns the whole captured amount to the client, whatever was refunded before, and does not count as
  refunded.
\<close>

lemma reversal_open_run:
  assumes ok: "op_ok w s" and period: "\<not> va_settlement_closed q" and key: "va_idempotency_key q \<notin> used_keys (tables s)"
    and none: "va_idempotency_key q \<notin> rv_idempotency_key ` set (reversals (tables s))" "op_id opn \<notin> rv_operation_id ` set (reversals (tables s))"
  obtains r i j s' where "reverse_capture w opn q s = (Inr r, s')"
    "account_for (payable_scope opn) (tables s') = Some i" "account_for (client_scope opn) (tables s') = Some j" "i \<noteq> j"
    "balance_at (tables s') = transferred False i j (op_captured_amount opn) (balance_at (tables s))"
    "card_operations (tables s') = card_operations (tables s)"
proof -
  define v where "v = \<lparr>rv_id = uuid_at w (tick s), rv_operation_id = op_id opn, rv_reason = va_reason q, rv_initiator = va_initiator q,
    rv_idempotency_key = va_idempotency_key q, rv_status = REVERSAL_REQUESTED, rv_posted_posting_id = None,
    rv_settlement_policy = policy_of (va_settlement_closed q)\<rparr>"
  define s1 where "s1 = s\<lparr>tick := Suc (tick s), tables := (tables s)\<lparr>reversals := reversals (tables s) @ [v]\<rparr>\<rparr>"
  have q1: "one_or_none (\<lambda>r. rv_idempotency_key r = va_idempotency_key q) (reversals (tables s)) = Inr None"
      "one_or_none (\<lambda>r. rv_operation_id r = op_id opn \<and> rv_status r = REVERSAL_POSTED) (reversals (tables s)) = Inr None"
    unfolding one_or_none_None using none by (metis imageI)+
  have create: "create_reversal w opn q s = (Inr v, s1)"
    by (simp add: create_reversal_def and_then_apply Let_def v_def s1_def)
  have ok1: "op_ok w s1" using ok by (auto simp: s1_def op_ok_def intro: sound_mono)
  have frame: "balance_at (tables s1) = balance_at (tables s)" "used_keys (tables s1) = used_keys (tables s)"
      "card_operations (tables s1) = card_operations (tables s)"
    by (simp_all add: s1_def)
  have sc: "as_tariff_id (payable_scope opn) \<noteq> as_tariff_id (client_scope opn)" "as_currency (payable_scope opn) = op_currency opn"
      "as_currency (client_scope opn) = op_currency opn"
    by simp_all
  obtain a b s' posting s2 where 1: "lines_between (payable_scope opn) (client_scope opn) (op_captured_amount opn) (op_currency opn) s1 =
      (Inr (transfer_lines a b (op_captured_amount opn) (op_currency opn)), s')"
    and 2: "apply_posting w \<lparr>pr_operation_id = Some (op_id opn), pr_posting_type = POST_REVERSAL, pr_idempotency_key = va_idempotency_key q,
      pr_lines = transfer_lines a b (op_captured_amount opn) (op_currency opn)\<rparr> s' = (Inr posting, s2)"
    and 3: "op_ok w s2" "tick s1 \<le> tick s2" "transfer_done (payable_scope opn) (client_scope opn) POST_REVERSAL (va_idempotency_key q)
      (op_captured_amount opn) (tables s1) (tables s2)"
    by (rule posting_between [OF ok1 sc])
  from 3(3) key obtain i j where ij: "account_for (payable_scope opn) (tables s2) = Some i" "account_for (client_scope opn) (tables s2) = Some j"
      "i \<noteq> j" "balance_at (tables s2) = transferred False i j (op_captured_amount opn) (balance_at (tables s))"
    by (auto simp: transfer_done_def frame)
  have cards: "card_operations (tables s2) = card_operations (tables s)" using 3(3) by (simp add: transfer_done_def cases_of_def frame)
  let ?t = "(tables s2)\<lparr>reversals := store_row rv_id (v\<lparr>rv_status := REVERSAL_POSTED, rv_posted_posting_id := Some (po_posting_id posting)\<rparr>)
    (reversals (tables s2))\<rparr>"
  have run: "reverse_capture w opn q s = (Inr \<lparr>sx_entity_id = rv_id v, sx_posting_id = Some (po_posting_id posting),
      sx_settlement_policy = policy_of False, sx_adjustment_id = None\<rparr>, s2\<lparr>tables := ?t, saved := (audit_log s2, ?t)\<rparr>)"
    using period by (simp add: reverse_capture_def and_then_apply q1 create Let_def scenario_lines 1 2 mark_reversal_posted_def)
  show ?thesis by (rule that [OF run]) (use ij cards in simp_all)
qed

end
