(* ===== verification/Op_Disputes.thy ===== *)
theory Op_Disputes
  imports Op_Histories
begin

text \<open>
  Disputes: what opening one with a hold, rejecting it and accepting it do to the accounts of the partner and of the platform's reserve.
\<close>

abbreviation reserve_scope :: "card_operation \<Rightarrow> account_query" where
  "reserve_scope opn \<equiv> platform_scope ''DISPUTE_RESERVE'' (op_currency opn)"

text \<open>The ledger of two databases is the same: accounts, balances and used keys.\<close>

definition same_accounts :: "op_tables \<Rightarrow> op_tables \<Rightarrow> bool" where
  "same_accounts t t' \<longleftrightarrow> balance_at t' = balance_at t \<and> used_keys t' = used_keys t \<and> (\<forall>q. account_for q t' = account_for q t) \<and>
     card_operations t' = card_operations t"

lemma same_accounts_frame [simp]:
  "same_accounts t (t'\<lparr>disputes := ds\<rparr>) = same_accounts t t'" "same_accounts t (t'\<lparr>dispute_events := es\<rparr>) = same_accounts t t'"
  "same_accounts (t\<lparr>disputes := ds\<rparr>) t' = same_accounts t t'" "same_accounts (t\<lparr>dispute_events := es\<rparr>) t' = same_accounts t t'" "same_accounts t t"
  by (simp_all add: same_accounts_def)

lemma op_ok_disputes [simp]:
  "op_ok w (s\<lparr>tables := (tables s)\<lparr>disputes := ds, dispute_events := es\<rparr>, saved := (audit_log s, (tables s)\<lparr>disputes := ds, dispute_events := es\<rparr>)\<rparr>) =
    sound w (tick s) (tables s)"
  by (simp add: op_ok_def)

section \<open>Opening\<close>

lemma open_dispute_run:
  assumes ok: "op_ok w s"
  obtains d p s' t where "open_dispute w opn x who key fee True s = (Inr d, s')"
    "d = \<lparr>dp_id = uuid_at w (tick s), dp_operation_id = op_id opn, dp_disputed_amount = x, dp_currency = op_currency opn, dp_fee_amount = fee,
      dp_status = DISPUTE_OPEN, dp_hold_placed = True, dp_hold_posting_id = Some p, dp_resolution_posting_id = None,
      dp_initiator = str_or_none who\<rparr>"
    "op_ok w s'" "same_accounts t (tables s')"
    "transfer_done (payable_scope opn) (reserve_scope opn) POST_DISPUTE_HOLD (key @ '':hold'') x (tables s) t"
proof -
  let ?d = "\<lparr>dp_id = uuid_at w (tick s), dp_operation_id = op_id opn, dp_disputed_amount = x, dp_currency = op_currency opn, dp_fee_amount = fee,
    dp_status = DISPUTE_OPEN, dp_hold_placed = False, dp_hold_posting_id = None, dp_resolution_posting_id = None,
    dp_initiator = str_or_none who\<rparr>"
  obtain ds es where create: "create_dispute w opn x who fee s =
      (Inr ?d, s\<lparr>tick := Suc (tick s), tables := (tables s)\<lparr>disputes := ds, dispute_events := es\<rparr>\<rparr>)"
    by (simp add: create_dispute_def and_then_apply Let_def add_dispute_event_def)
  let ?s1 = "s\<lparr>tick := Suc (tick s), tables := (tables s)\<lparr>disputes := ds, dispute_events := es\<rparr>\<rparr>"
  have ok1: "op_ok w ?s1" using ok by (auto simp: op_ok_def intro: sound_mono)
  have sc: "as_tariff_id (payable_scope opn) \<noteq> as_tariff_id (reserve_scope opn)" "as_currency (payable_scope opn) = op_currency opn"
      "as_currency (reserve_scope opn) = op_currency opn"
    by simp_all
  obtain i s1 j s2 where acc: "account_id (payable_scope opn) ?s1 = (Inr i, s1)" "account_id (reserve_scope opn) s1 = (Inr j, s2)" "op_ok w s2"
      "accounts_only ?s1 s2" "pay_scope_ok (tables s2) (payable_scope opn) i" "pay_scope_ok (tables s2) (reserve_scope opn) j"
    by (rule two_accounts_run [OF ok1])
  obtain r s3 where post: "apply_posting w \<lparr>pr_operation_id = Some (op_id opn), pr_posting_type = POST_DISPUTE_HOLD,
      pr_idempotency_key = key @ '':hold'', pr_lines = transfer_lines i j x (op_currency opn)\<rparr> s2 = (Inr r, s3)"
      "op_ok w s3" "tick s2 \<le> tick s3"
      "transfer_done (payable_scope opn) (reserve_scope opn) POST_DISPUTE_HOLD (key @ '':hold'') x (tables s2) (tables s3)"
    by (rule transfer_run [OF acc(3,5,6) sc])
  let ?d' = "?d\<lparr>dp_hold_placed := True, dp_hold_posting_id := Some (po_posting_id r)\<rparr>"
  obtain ds' es' where run: "open_dispute w opn x who key fee True s = (Inr ?d',
      s3\<lparr>tables := (tables s3)\<lparr>disputes := ds', dispute_events := es'\<rparr>,
         saved := (audit_log s3, (tables s3)\<lparr>disputes := ds', dispute_events := es'\<rparr>)\<rparr>)"
    by (simp add: open_dispute_def create and_then_apply place_hold_def scenario_accounts acc(1,2) post(1) Let_def save_dispute_def
        add_dispute_event_def)
  have hold: "transfer_done (payable_scope opn) (reserve_scope opn) POST_DISPUTE_HOLD (key @ '':hold'') x (tables s)
      ((tables s3)\<lparr>disputes := disputes (tables s), dispute_events := dispute_events (tables s)\<rparr>)"
    using transfer_done_accounts_only [OF acc(4) post(4)] by (auto simp: transfer_done_def cases_of_def)
  show ?thesis by (rule that [OF run _ _ _ hold]) (use post(2) in \<open>simp_all add: op_ok_def\<close>)
qed

section \<open>Rejecting\<close>

lemma reject_dispute_run:
  assumes ok: "op_ok w s" and d: "undecided d" "dp_hold_placed d"
    and opn: "one_or_none (\<lambda>c. op_id c = dp_operation_id d) (card_operations (tables s)) = Inr (Some opn)"
  obtains d' s' t where "reject_dispute w d who key s = (Inr d', s')" "dp_status d' = DISPUTE_REJECTED" "\<not> dp_hold_placed d'"
    "op_ok w s'" "same_accounts t (tables s')"
    "transfer_done (reserve_scope opn) (payable_scope opn) POST_DISPUTE_RELEASE (key @ '':release'') (dp_disputed_amount d) (tables s) t"
proof -
  have sc: "as_tariff_id (reserve_scope opn) \<noteq> as_tariff_id (payable_scope opn)" "as_currency (reserve_scope opn) = op_currency opn"
      "as_currency (payable_scope opn) = op_currency opn"
    by simp_all
  obtain i s1 j s2 where acc: "account_id (payable_scope opn) s = (Inr i, s1)" "account_id (reserve_scope opn) s1 = (Inr j, s2)" "op_ok w s2"
      "accounts_only s s2" "pay_scope_ok (tables s2) (payable_scope opn) i" "pay_scope_ok (tables s2) (reserve_scope opn) j"
    by (rule two_accounts_run [OF ok])
  obtain r s3 where post: "apply_posting w \<lparr>pr_operation_id = Some (op_id opn), pr_posting_type = POST_DISPUTE_RELEASE,
      pr_idempotency_key = key @ '':release'', pr_lines = transfer_lines j i (dp_disputed_amount d) (op_currency opn)\<rparr> s2 = (Inr r, s3)"
      "op_ok w s3" "tick s2 \<le> tick s3"
      "transfer_done (reserve_scope opn) (payable_scope opn) POST_DISPUTE_RELEASE (key @ '':release'') (dp_disputed_amount d) (tables s2) (tables s3)"
    by (rule transfer_run [OF acc(3,6,5) sc])
  let ?d' = "d\<lparr>dp_hold_placed := False, dp_hold_posting_id := Some (po_posting_id r), dp_status := DISPUTE_REJECTED\<rparr>"
  obtain ds es where run: "reject_dispute w d who key s = (Inr ?d',
      s3\<lparr>tables := (tables s3)\<lparr>disputes := ds, dispute_events := es\<rparr>,
         saved := (audit_log s3, (tables s3)\<lparr>disputes := ds, dispute_events := es\<rparr>)\<rparr>)"
    using d
    by (simp add: reject_dispute_def release_hold_def opn and_then_apply scenario_accounts acc(1,2) post(1) Let_def save_dispute_def
        add_dispute_event_def)
  show ?thesis
    by (rule that [OF run _ _ _ _ transfer_done_accounts_only [OF acc(4) post(4)]]) (use post(2) in \<open>simp_all add: op_ok_def\<close>)
qed

text \<open>A transfer back undoes a transfer.\<close>

lemma debited_back: "debited hold x (debited hold (- x) b) = b" "debited hold (- x) (debited hold x b) = b" if "fst (snd b) = fst b - snd (snd b)"
  using that by (cases b; simp)+

lemma balance_at_available: "book_ok t \<Longrightarrow> fst (snd (balance_at t i)) = fst (balance_at t i) - snd (snd (balance_at t i))"
  using find_SomeD by (fastforce simp: balance_at_def balance_amounts_def balance_of_def new_balance_def book_ok_def split: option.split)

lemma hold_back:
  assumes "book_ok t" and "i \<noteq> j"
  shows "transferred True j i x (transferred True i j x (balance_at t)) = balance_at t"
  using assms(2) debited_back [OF balance_at_available [OF assms(1)]] by (auto simp: transferred_def fun_eq_iff)

lemma hold_roundtrip:
  assumes ok: "book_ok t"
    and a: "transfer_done q q' POST_DISPUTE_HOLD k x t t1" and b: "same_accounts t1 t2"
    and c: "transfer_done q' q POST_DISPUTE_RELEASE k' x t2 t3" and keys: "k \<notin> used_keys t" "k' \<notin> insert k (used_keys t)"
  shows "balance_at t3 = balance_at t"
proof -
  from a keys(1) obtain i j where ij: "account_for q t1 = Some i" "account_for q' t1 = Some j" "i \<noteq> j"
      "balance_at t1 = transferred True i j x (balance_at t)" "used_keys t1 = insert k (used_keys t)"
    by (auto simp: transfer_done_def)
  with b have 2: "account_for q t2 = Some i" "account_for q' t2 = Some j" "balance_at t2 = balance_at t1" "used_keys t2 = insert k (used_keys t)"
    by (auto simp: same_accounts_def)
  with c keys(2) have "balance_at t3 = transferred True j i x (balance_at t2)" by (auto simp: transfer_done_def)
  with 2 ij hold_back [OF ok ij(3)] show ?thesis by simp
qed

section \<open>Accepting\<close>

lemma cleared_hold:
  "snd (snd (balance_at (t\<lparr>account_balances :=
     map (\<lambda>b. if ab_account_id b = i then b\<lparr>ab_hold_balance := 0, ab_available_balance := ab_current_balance b\<rparr> else b) bs\<rparr>) i)) = 0"
proof -
  have "find (\<lambda>b. ab_account_id b = i) (map (\<lambda>b. if ab_account_id b = i then b\<lparr>ab_hold_balance := 0, ab_available_balance := ab_current_balance b\<rparr> else b) bs) =
      map_option (\<lambda>b. b\<lparr>ab_hold_balance := 0, ab_available_balance := ab_current_balance b\<rparr>) (find (\<lambda>b. ab_account_id b = i) bs)"
    for bs :: "account_balance list"
    by (induction bs) auto
  then show ?thesis
    by (cases "find (\<lambda>b. ab_account_id b = i) bs") (simp_all add: balance_at_def balance_of_def balance_amounts_def new_balance_def)
qed

lemma accept_dispute_run:
  assumes ok: "op_ok w s" and d: "undecided d" "dp_hold_placed d" "dp_fee_amount d \<le> 0"
  obtains r s' i where "accept_dispute w d opn who key False day s = (Inr r, s')" "account_for (payable_scope opn) (tables s') = Some i"
    "snd (snd (balance_at (tables s') i)) = 0"
proof -
  have sc: "as_tariff_id (reserve_scope opn) \<noteq> as_tariff_id (client_scope opn)" "as_currency (reserve_scope opn) = op_currency opn"
      "as_currency (client_scope opn) = op_currency opn"
    by simp_all
  obtain a b s1 p s2 where 1: "lines_between (reserve_scope opn) (client_scope opn) (dp_disputed_amount d) (op_currency opn) s =
      (Inr (transfer_lines a b (dp_disputed_amount d) (op_currency opn)), s1)"
    and 2: "apply_posting w \<lparr>pr_operation_id = Some (op_id opn), pr_posting_type = POST_REFUND, pr_idempotency_key = key @ '':refund'',
      pr_lines = transfer_lines a b (dp_disputed_amount d) (op_currency opn)\<rparr> s1 = (Inr p, s2)" "op_ok w s2"
    by (rule posting_between [OF ok sc])
  let ?d = "d\<lparr>dp_resolution_posting_id := Some (po_posting_id p), dp_hold_placed := False\<rparr>"
  let ?s3 = "s2\<lparr>tables := (tables s2)\<lparr>disputes := store_row dp_id ?d (disputes (tables s2))\<rparr>\<rparr>"
  have ok3: "op_ok w ?s3" using 2(2) by (simp add: op_ok_def)
  obtain j s4 i s5 where acc: "account_id (reserve_scope opn) ?s3 = (Inr j, s4)" "account_id (payable_scope opn) s4 = (Inr i, s5)" "op_ok w s5"
      "accounts_only ?s3 s5" "pay_scope_ok (tables s5) (reserve_scope opn) j" "pay_scope_ok (tables s5) (payable_scope opn) i"
    by (rule two_accounts_run [OF ok3])
  define s6 where "s6 = snd (clear_hold j s5)"
  have ok6: "op_ok w s6" unfolding s6_def by (rule keepsD [OF books.clear_hold_kept acc(3)])
  have c5: "clear_hold j s5 = (Inr (), s6)" by (simp add: s6_def clear_hold_run [OF acc(3)])
  have acc6: "op_accounts (tables s6) = op_accounts (tables s5)" by (simp add: s6_def clear_hold_run [OF acc(3)])
  let ?t = "(tables s6)\<lparr>account_balances :=
     map (\<lambda>b. if ab_account_id b = i then b\<lparr>ab_hold_balance := 0, ab_available_balance := ab_current_balance b\<rparr> else b)
       (account_balances (tables s6))\<rparr>"
  let ?r = "d\<lparr>dp_resolution_posting_id := Some (po_posting_id p), dp_hold_placed := False, dp_status := DISPUTE_ACCEPTED\<rparr>"
  obtain ds es where run: "accept_dispute w d opn who key False day s = (Inr (?r, None),
      s6\<lparr>tables := ?t\<lparr>disputes := ds, dispute_events := es\<rparr>, saved := (audit_log s6, ?t\<lparr>disputes := ds, dispute_events := es\<rparr>)\<rparr>)"
    using d
    by (simp add: accept_dispute_def refund_from_reserve_lines_def source_account_def scenario_accounts lines_between_def [symmetric] 1 2(1)
        and_then_apply Let_def save_dispute_def acc(1,2) c5 clear_hold_run [OF ok6] add_dispute_event_def post_fee_def)
  have "account_for (payable_scope opn) (tables s5) = Some i" using acc(6) by (simp add: pay_scope_ok_def)
  with acc6 show ?thesis
    by (intro that [OF run, of i]) (simp_all add: cleared_hold, simp add: account_for_def)
qed

end
