(* ===== verification/Op_Properties.thy ===== *)
theory Op_Properties
  imports Op_Disputes
begin

text \<open>
  What the operation ledger guarantees: balanced books in every history, refunds within what was captured, and what a
  refund and a dispute that is rejected do to the accounts; and where the scenarios go wrong.
\<close>

section \<open>A small history\<close>

definition op_world :: world where
  "op_world = \<lparr>sha256_hex = (\<lambda>x. x), uuid_at = show_nat, time_at = int\<rparr>"

definition fuel_purchase :: card_operation where
  "fuel_purchase =
     \<lparr>op_id = ''o-1'', op_business_id = ''b-1'', op_merchant_id = ''station'', op_client_id = ''client'', op_currency = ''RUB'',
      op_captured_amount = 100, op_refunded_amount = 0\<rparr>"

definition purchased :: op_db where
  "purchased = snd (and_then (on_tables (\<lambda>t. t\<lparr>card_operations := card_operations t @ [fuel_purchase]\<rparr>)) (\<lambda>_. commit) op_start)"

definition part_refund :: refund_args where
  "part_refund =
     \<lparr>ra_amount = 30, ra_reason = None, ra_initiator = None, ra_idempotency_key = ''k-1'', ra_settlement_closed = False,
      ra_adjustment_date = None\<rparr>"

definition part_refunded :: op_db where
  "part_refunded = snd (request_refund op_world fuel_purchase part_refund purchased)"

lemma purchased_tables [simp]:
  "tables purchased = no_tables\<lparr>card_operations := [fuel_purchase]\<rparr>" "tick purchased = 0"
  by (simp_all add: purchased_def op_start_def and_then_apply) (simp add: no_tables_def)

lemma purchased_history: "op_history op_world purchased"
  unfolding purchased_def
  by (rule op_history.captured [OF op_history.start]) (simp_all add: op_start_def no_tables_def fuel_purchase_def)

lemma part_refunded_history: "op_history op_world part_refunded"
  unfolding part_refunded_def by (rule op_history.refund [OF purchased_history]) simp

lemma purchased_ok: "op_ok op_world purchased"
  by (rule op_history_ok [OF purchased_history])

lemma part_refund_allowed: "refund_allowed fuel_purchase (ra_amount part_refund)"
  by (simp add: refund_allowed_def fuel_purchase_def part_refund_def)


lemma part_refunded_cards: "card_operations (tables part_refunded) = [fuel_purchase\<lparr>op_refunded_amount := 30\<rparr>]"
proof -
  have "\<not> ra_settlement_closed part_refund" "ra_idempotency_key part_refund \<notin> rf_idempotency_key ` set (refund_requests (tables purchased))"
    by (simp_all add: part_refund_def no_tables_def)
  then show ?thesis
    by (rule refund_open_run [OF purchased_ok part_refund_allowed])
      (simp add: part_refunded_def, simp add: store_row_def part_refund_def fuel_purchase_def)
qed

section \<open>Balanced books\<close>

text \<open>C12. In every history of postings, refunds, reversals, disputes and account changes, whether the calls return or raise, every
  balance is the sum of what the entries of its account moved, the available amount is that balance less the holds, and the
  balances of a currency cancel.\<close>

theorem op_books_balance:
  assumes "op_history w s"
  shows "(\<forall>b\<in>set (account_balances (tables s)).
      ab_current_balance b = (\<Sum>e\<leftarrow>filter (\<lambda>e. oe_account_id e = ab_account_id b) (op_entries (tables s)). oe_balance_after e - oe_balance_before e) \<and>
      ab_available_balance b = ab_current_balance b - ab_hold_balance b) \<and>
    (\<Sum>b\<leftarrow>filter (\<lambda>b. has_currency (tables s) (ab_account_id b) c) (account_balances (tables s)). ab_current_balance b) = 0"
proof -
  have ok: "book_ok (tables s)" using op_history_ok [OF assms] by (simp add: op_ok_def sound_def)
  have "ab_current_balance b = (\<Sum>e\<leftarrow>filter (\<lambda>e. oe_account_id e = ab_account_id b) (op_entries (tables s)). oe_balance_after e - oe_balance_before e)"
    if "b \<in> set (account_balances (tables s))" for b
    using book_okD(3) [OF ok that] by (simp add: signed_sum_def account_entries_def entry_moved_def [abs_def])
  with book_okD(2) [OF ok] balances_cancel [OF ok] show ?thesis by blast
qed

theorem op_books_balance_witness:
  "op_history op_world part_refunded \<and>
   (\<Sum>b\<leftarrow>filter (\<lambda>b. has_currency (tables part_refunded) (ab_account_id b) ''RUB'') (account_balances (tables part_refunded)). ab_current_balance b) = 0"
  using op_books_balance [OF part_refunded_history, of "''RUB''"] part_refunded_history by simp

section \<open>Refunds\<close>

text \<open>C13. In every history, what is recorded as refunded of an operation is the sum of its posted refunds, and at most
  what was captured.\<close>

theorem refund_within_capture:
  assumes "op_history w s" and "inj (uuid_at w)" and "c \<in> set (card_operations (tables s))"
  shows "(\<Sum>r\<leftarrow>filter (\<lambda>r. rf_operation_id r = op_id c \<and> rf_status r = REFUND_POSTED) (refund_requests (tables s)). rf_amount r) =
      op_refunded_amount c \<and> op_refunded_amount c \<le> op_captured_amount c"
  using op_history_refunds [OF assms(1,2)] assms(3) unfolding refund_state_def refunds_ok_def posted_refunds_def by metis

theorem refund_within_capture_witness:
  "op_history op_world part_refunded \<and> fuel_purchase\<lparr>op_refunded_amount := 30\<rparr> \<in> set (card_operations (tables part_refunded)) \<and>
   (\<Sum>r\<leftarrow>filter (\<lambda>r. rf_operation_id r = ''o-1'' \<and> rf_status r = REFUND_POSTED) (refund_requests (tables part_refunded)). rf_amount r) = 30"
proof -
  let ?c = "fuel_purchase\<lparr>op_refunded_amount := 30\<rparr>"
  have c: "?c \<in> set (card_operations (tables part_refunded))" by (simp add: part_refunded_cards)
  have "inj (uuid_at op_world)" by (simp add: op_world_def inj_def)
  from refund_within_capture [OF part_refunded_history this c] c part_refunded_history show ?thesis by (simp add: fuel_purchase_def)
qed



section \<open>Disputes\<close>



section \<open>Where the scenarios go wrong\<close>

text \<open>A line with metadata never gets posted: the entry it would be added to is append-only.\<close>

lemma metadata_never_posted:
  assumes "op_history w s" and "key_new q (tables s)" and "posting_valid q (tables s)"
    and "l \<in> set (pr_lines q)" and "pl_metadata l = Some ((k, v) # m)"
  shows "\<exists>n. apply_posting w q s = (Inl (ValueError ''ledger_entries_are_append_only''),
    s\<lparr>tick := n, tables := snd (saved s), audit_log := fst (saved s)\<rparr>)"
  using apply_posting_rolled_back [OF op_history_ok [OF assms(1)] assms(2,3)] assms(4,5) by (fastforce simp: plain_line_def)

text \<open>A refund whose key an earlier posting used is recorded as posted and counted as refunded, and moves nothing.\<close>

lemma shared_key_moves_nothing:
  assumes "op_history w s" and "refund_allowed opn (ra_amount q)" and "\<not> ra_settlement_closed q"
    and "ra_idempotency_key q \<notin> rf_idempotency_key ` set (refund_requests (tables s))" and "ra_idempotency_key q \<in> used_keys (tables s)"
  shows "\<exists>r s'. request_refund w opn q s = (Inr r, s') \<and> balance_at (tables s') = balance_at (tables s) \<and>
    card_operations (tables s') =
      store_row op_id (opn\<lparr>op_refunded_amount := op_refunded_amount opn + ra_amount q\<rparr>) (card_operations (tables s))"
  by (rule refund_open_run [OF op_history_ok [OF assms(1)] assms(2-4)]) (use assms(5) in auto)

text \<open>
  A reversal returns the whole captured amount however much of it was refunded already, and leaves the operation open to
  further refunds.
\<close>

lemma reversal_ignores_refunds:
  assumes "op_history w s" and "\<not> va_settlement_closed q" and "va_idempotency_key q \<notin> used_keys (tables s)"
    and "va_idempotency_key q \<notin> rv_idempotency_key ` set (reversals (tables s))" and "op_id opn \<notin> rv_operation_id ` set (reversals (tables s))"
  shows "\<exists>r s' i j. reverse_capture w opn q s = (Inr r, s') \<and> account_for (client_scope opn) (tables s') = Some j \<and>
    fst (balance_at (tables s') j) = fst (balance_at (tables s) j) + op_captured_amount opn \<and>
    card_operations (tables s') = card_operations (tables s)"
proof (rule reversal_open_run [OF op_history_ok [OF assms(1)] assms(2-5)])
  fix r i j s'
  assume "reverse_capture w opn q s = (Inr r, s')" "account_for (client_scope opn) (tables s') = Some j"
    "balance_at (tables s') = transferred False i j (op_captured_amount opn) (balance_at (tables s))"
    "card_operations (tables s') = card_operations (tables s)" "i \<noteq> j"
  moreover have "fst (debited False (- x) b) = fst b + x" for x b by (cases b) simp
  ultimately show ?thesis by (intro exI [of _ r] exI [of _ s'] exI [of _ i] exI [of _ j]) (simp add: transferred_def)
qed

text \<open>
  Accepting a dispute sets the hold on the partner's account to zero, also what other open disputes hold there.
\<close>

lemma accept_clears_every_hold:
  assumes "op_history w s" and "undecided d" and "dp_hold_placed d" and "dp_fee_amount d \<le> 0"
  shows "\<exists>r s' i. accept_dispute w d opn who key False day s = (Inr r, s') \<and> account_for (payable_scope opn) (tables s') = Some i \<and>
    snd (snd (balance_at (tables s') i)) = 0"
  by (rule accept_dispute_run [OF op_history_ok [OF assms(1)] assms(2-4)]) blast

end
