(* ===== verification/Graph_Queries.thy ===== *)
theory Graph_Queries
  imports Legal_Graph "HOL-Library.AList"
begin

text \<open>
  Reading the legal graph (\<open>services/legal_graph/queries.py\<close>): the trace of a node up to a depth and the
  connected part of a scope; and its snapshots (\<open>snapshot.py\<close>, \<open>hash_snapshot\<close> of \<open>canonical.py\<close>). Nodes and edges
  are named by their identifiers; a Python dictionary is an association list in the order of insertion.
\<close>

section \<open>Results\<close>

datatype direction = UPSTREAM | DOWNSTREAM | BOTH

text \<open>The dictionary \<open>{"node_type": ..., "ref_id": ...}\<close>, which is its own sort key.\<close>

type_synonym node_ref = "string \<times> string"

record node_item =
  ni_node_type :: string
  ni_ref_id :: string
  ni_ref_table :: "string option"
  ni_hash :: "string option"

record edge_item =
  ei_edge_type :: string
  ei_src :: node_ref
  ei_dst :: node_ref
  ei_meta :: "payload option"

record trace_result =
  tr_nodes :: "node_item list"
  tr_edges :: "edge_item list"
  tr_layers :: "node_ref list list"

type_synonym edge_dict = "(string \<times> legal_edge) list"

section \<open>Queries\<close>

definition get_node :: "int \<Rightarrow> legal_node_type \<Rightarrow> string \<Rightarrow> ('a fin_db_scheme, legal_node option) act" where
  "get_node tenant ty ref = query_one (node_scope tenant ty ref) legal_nodes"

definition edges_for_nodes :: "int \<Rightarrow> string set \<Rightarrow> 'a fin_db_scheme \<Rightarrow> legal_edge list" where
  "edges_for_nodes tenant ids s =
     (if ids = {} then []
      else filter (\<lambda>e. ed_tenant_id e = tenant \<and> (ed_src_node_id e \<in> ids \<or> ed_dst_node_id e \<in> ids)) (legal_edges s))"

definition nodes_by_ids :: "int \<Rightarrow> string set \<Rightarrow> 'a fin_db_scheme \<Rightarrow> legal_node list" where
  "nodes_by_ids tenant ids s =
     (if ids = {} then [] else filter (\<lambda>n. nd_tenant_id n = tenant \<and> nd_id n \<in> ids) (legal_nodes s))"

definition node_ref_of :: "legal_node \<Rightarrow> node_ref" where
  "node_ref_of n = (legal_node_type_value (nd_node_type n), nd_ref_id n)"

definition node_item_of :: "legal_node \<Rightarrow> node_item" where
  "node_item_of n =
     \<lparr>ni_node_type = legal_node_type_value (nd_node_type n), ni_ref_id = nd_ref_id n,
      ni_ref_table = nd_ref_table n, ni_hash = nd_hash n\<rparr>"

definition serialize_nodes :: "legal_node list \<Rightarrow> node_item list" where
  "serialize_nodes nodes = sort_key (\<lambda>i. (ni_node_type i, ni_ref_id i)) (map node_item_of nodes)"

text \<open>A dictionary comprehension over rows: of rows with the same key the last one counts.\<close>

definition dict_by :: "('r \<Rightarrow> 'k) \<Rightarrow> ('r \<Rightarrow> 'v) \<Rightarrow> 'r list \<Rightarrow> 'k \<Rightarrow> 'v option" where
  "dict_by key val rows = map_of (rev (map (\<lambda>r. (key r, val r)) rows))"

fun serialize_edge_list :: "(string \<Rightarrow> legal_node option) \<Rightarrow> legal_edge list \<Rightarrow> edge_item list" where
  "serialize_edge_list node_map [] = []"
| "serialize_edge_list node_map (e # es) =
     (case (node_map (ed_src_node_id e), node_map (ed_dst_node_id e)) of
        (Some a, Some b) \<Rightarrow>
          \<lparr>ei_edge_type = legal_edge_type_value (ed_edge_type e), ei_src = node_ref_of a, ei_dst = node_ref_of b,
           ei_meta = ed_meta e\<rparr> # serialize_edge_list node_map es
      | _ \<Rightarrow> serialize_edge_list node_map es)"

definition edge_key :: "edge_item \<Rightarrow> string \<times> string \<times> string \<times> string \<times> string" where
  "edge_key i = (ei_edge_type i, fst (ei_src i), snd (ei_src i), fst (ei_dst i), snd (ei_dst i))"

definition serialize_edges :: "legal_node list \<Rightarrow> legal_edge list \<Rightarrow> edge_item list" where
  "serialize_edges nodes edges = sort_key edge_key (serialize_edge_list (dict_by nd_id (\<lambda>n. n) nodes) edges)"

section \<open>Tracing a node\<close>

text \<open>
  \<open>iter\<close> is the order in which Python lists the members of a set, which the language leaves open.
\<close>

record trace_state =
  ts_current :: "string set"
  ts_seen :: "string set"
  ts_edges :: edge_dict
  ts_layers :: "string list list"

definition trace_edge ::
    "direction \<Rightarrow> string set \<Rightarrow> string set \<Rightarrow> legal_edge \<Rightarrow> edge_dict \<times> string set \<Rightarrow> edge_dict \<times> string set" where
  "trace_edge dir current seen e = (\<lambda>(edges, next_ids).
     let edges' = AList.update (ed_id e) e edges;
         down = (if (dir = DOWNSTREAM \<or> dir = BOTH) \<and> ed_src_node_id e \<in> current \<and> ed_dst_node_id e \<notin> seen
                 then insert (ed_dst_node_id e) next_ids else next_ids);
         up = (if (dir = UPSTREAM \<or> dir = BOTH) \<and> ed_dst_node_id e \<in> current \<and> ed_src_node_id e \<notin> seen
               then insert (ed_src_node_id e) down else down)
     in (edges', up))"

definition trace_step ::
    "(string set \<Rightarrow> string list) \<Rightarrow> int \<Rightarrow> direction \<Rightarrow> 'a fin_db_scheme \<Rightarrow> trace_state \<Rightarrow> trace_state" where
  "trace_step iter tenant dir s st =
     (case fold (trace_edge dir (ts_current st) (ts_seen st)) (edges_for_nodes tenant (ts_current st) s) (ts_edges st, {}) of
        (edges, next_ids) \<Rightarrow>
          \<lparr>ts_current = next_ids, ts_seen = ts_seen st \<union> next_ids, ts_edges = edges,
           ts_layers = (if next_ids \<noteq> {} then ts_layers st @ [iter next_ids] else ts_layers st)\<rparr>)"

fun trace_loop ::
    "(string set \<Rightarrow> string list) \<Rightarrow> int \<Rightarrow> direction \<Rightarrow> 'a fin_db_scheme \<Rightarrow> nat \<Rightarrow> trace_state \<Rightarrow> trace_state" where
  "trace_loop iter tenant dir s 0 st = st"
| "trace_loop iter tenant dir s (Suc n) st =
     (if ts_current st = {} then st else trace_loop iter tenant dir s n (trace_step iter tenant dir s st))"

definition serialize_layer :: "(string \<Rightarrow> node_ref option) \<Rightarrow> string list \<Rightarrow> node_ref list" where
  "serialize_layer node_by_id ids = sort_key (\<lambda>i. i) (List.map_filter node_by_id ids)"

definition trace ::
    "(string set \<Rightarrow> string list) \<Rightarrow> int \<Rightarrow> legal_node_type \<Rightarrow> string \<Rightarrow> int \<Rightarrow> direction \<Rightarrow>
     ('a fin_db_scheme, trace_result) act" where
  "trace iter tenant ty ref depth dir =
     and_then (get_node tenant ty ref) (\<lambda>start.
     case start of
       None \<Rightarrow> ret \<lparr>tr_nodes = [], tr_edges = [], tr_layers = []\<rparr>
     | Some n \<Rightarrow> reading (\<lambda>s.
         let st = trace_loop iter tenant dir s (nat depth)
                    \<lparr>ts_current = {nd_id n}, ts_seen = {nd_id n}, ts_edges = [], ts_layers = [[nd_id n]]\<rparr>;
             nodes = nodes_by_ids tenant (ts_seen st) s
         in \<lparr>tr_nodes = serialize_nodes nodes, tr_edges = serialize_edges nodes (map snd (ts_edges st)),
             tr_layers = map (serialize_layer (dict_by nd_id node_ref_of nodes)) (ts_layers st)\<rparr>))"

section \<open>The connected part of a scope\<close>

datatype snapshot_scope_type = SCOPE_DOCUMENT | SCOPE_CLOSING_PACKAGE | SCOPE_BILLING_PERIOD

fun scope_node_type :: "snapshot_scope_type \<Rightarrow> legal_node_type" where
  "scope_node_type SCOPE_DOCUMENT = NODE_DOCUMENT"
| "scope_node_type SCOPE_CLOSING_PACKAGE = NODE_CLOSING_PACKAGE"
| "scope_node_type SCOPE_BILLING_PERIOD = NODE_BILLING_PERIOD"

type_synonym collect_state = "edge_dict \<times> string set \<times> string set"

definition collect_id :: "string \<Rightarrow> string set \<times> string set \<Rightarrow> string set \<times> string set" where
  "collect_id i = (\<lambda>(seen, pending). if i \<notin> seen then (insert i seen, insert i pending) else (seen, pending))"

definition collect_edge :: "legal_edge \<Rightarrow> collect_state \<Rightarrow> collect_state" where
  "collect_edge e = (\<lambda>(edges, ids).
     (AList.update (ed_id e) e edges, collect_id (ed_dst_node_id e) (collect_id (ed_src_node_id e) ids)))"

definition collect_step :: "int \<Rightarrow> 'a fin_db_scheme \<Rightarrow> collect_state \<Rightarrow> collect_state" where
  "collect_step tenant s = (\<lambda>(edges, seen, pending).
     fold collect_edge (edges_for_nodes tenant pending s) (edges, seen, {}))"

text \<open>The identifiers that edges mention; the search ends because each round but the last sees a new one.\<close>

definition edge_ends :: "'a fin_db_scheme \<Rightarrow> string set" where
  "edge_ends s = ed_src_node_id ` set (legal_edges s) \<union> ed_dst_node_id ` set (legal_edges s)"

lemma collect_ids_effect:
  "collect_id b (collect_id a (seen, pending)) = (seen \<union> {a, b}, pending \<union> ({a, b} - seen))"
  by (auto simp: collect_id_def)

lemma collect_edge_apply:
  "collect_edge e (d, ids) =
     (AList.update (ed_id e) e d, collect_id (ed_dst_node_id e) (collect_id (ed_src_node_id e) ids))"
  by (simp add: collect_edge_def)

lemma collect_fold_ids:
  "snd (fold collect_edge es (d, seen, pending)) =
     (seen \<union> (ed_src_node_id ` set es \<union> ed_dst_node_id ` set es),
      pending \<union> ((ed_src_node_id ` set es \<union> ed_dst_node_id ` set es) - seen))"
proof (induction es arbitrary: d seen pending)
  case (Cons e es)
  show ?case
    by (simp add: collect_edge_apply collect_ids_effect Cons.IH) auto
qed simp

lemma collect_fold_dict:
  "fst (fold collect_edge es (d, ids)) = fold (\<lambda>e. AList.update (ed_id e) e) es d"
  by (induction es arbitrary: d ids) (simp_all add: collect_edge_apply)

lemma collect_step_ids:
  "snd (collect_step tenant s (d, seen, pending)) =
     (let new = ed_src_node_id ` set (edges_for_nodes tenant pending s) \<union>
                ed_dst_node_id ` set (edges_for_nodes tenant pending s)
      in (seen \<union> new, new - seen))"
  by (simp add: collect_step_def collect_fold_ids Let_def)

lemma edges_for_nodes_ends:
  "ed_src_node_id ` set (edges_for_nodes tenant ids s) \<union> ed_dst_node_id ` set (edges_for_nodes tenant ids s) \<subseteq> edge_ends s"
  by (auto simp: edges_for_nodes_def edge_ends_def)

lemma finite_edge_ends [simp]: "finite (edge_ends s)"
  by (simp add: edge_ends_def)

function collect_loop :: "int \<Rightarrow> 'a fin_db_scheme \<Rightarrow> int option \<Rightarrow> collect_state \<Rightarrow> collect_state" where
  "collect_loop tenant s remaining st =
     (if snd (snd st) = {} then st
      else let st' = collect_step tenant s st
           in case remaining of
                None \<Rightarrow> collect_loop tenant s None st'
              | Some r \<Rightarrow> if r - 1 \<le> 0 then st' else collect_loop tenant s (Some (r - 1)) st')"
  by pat_completeness auto

definition unseen_ends :: "'a fin_db_scheme \<Rightarrow> collect_state \<Rightarrow> nat" where
  "unseen_ends s st = card (edge_ends s - fst (snd st))"

lemma collect_step_decreases:
  assumes "snd (snd st) \<noteq> {}"
  shows "unseen_ends s (collect_step tenant s st) < unseen_ends s st \<or>
    unseen_ends s (collect_step tenant s st) = unseen_ends s st \<and> snd (snd (collect_step tenant s st)) = {}"
proof -
  obtain d seen pending where st: "st = (d, seen, pending)" by (cases st)
  define new where "new = ed_src_node_id ` set (edges_for_nodes tenant pending s) \<union>
    ed_dst_node_id ` set (edges_for_nodes tenant pending s)"
  have ids: "snd (collect_step tenant s st) = (seen \<union> new, new - seen)"
    by (simp add: st collect_step_ids new_def Let_def)
  show ?thesis
  proof (cases "new \<subseteq> seen")
    case True
    then have "seen \<union> new = seen" by auto
    with True ids show ?thesis by (simp add: unseen_ends_def st)
  next
    case False
    with edges_for_nodes_ends [of tenant pending s] have "edge_ends s - (seen \<union> new) \<subset> edge_ends s - seen"
      unfolding new_def [symmetric] by auto
    then have "card (edge_ends s - (seen \<union> new)) < card (edge_ends s - seen)"
      by (simp add: psubset_card_mono)
    with ids show ?thesis by (simp add: unseen_ends_def st)
  qed
qed

lemma collect_step_measure:
  assumes "snd (snd st) \<noteq> {}"
  shows "((tenant, s, r', collect_step tenant s st), (tenant, s, r, st)) \<in>
    measures [\<lambda>(_, s, _, st). unseen_ends s st, \<lambda>(_, _, _, st). if snd (snd st) = {} then 0 else 1]"
  using collect_step_decreases [OF assms, of s tenant] assms by auto

termination collect_loop
  by (relation "measures [\<lambda>(_, s, _, st). unseen_ends s st, \<lambda>(_, _, _, st). if snd (snd st) = {} then 0 else 1]")
    (simp, (hypsubst, rule collect_step_measure, assumption)+)

declare collect_loop.simps [simp del]

definition collect_connected_subgraph ::
    "int \<Rightarrow> snapshot_scope_type \<Rightarrow> string \<Rightarrow> int option \<Rightarrow> ('a fin_db_scheme, node_item list \<times> edge_item list) act" where
  "collect_connected_subgraph tenant scope ref depth =
     and_then (get_node tenant (scope_node_type scope) ref) (\<lambda>scope_node.
     case scope_node of
       None \<Rightarrow> ret ([], [])
     | Some n \<Rightarrow> reading (\<lambda>s.
         case collect_loop tenant s depth ([], {nd_id n}, {nd_id n}) of
           (edges, seen, _) \<Rightarrow>
             let nodes = nodes_by_ids tenant seen s
             in (serialize_nodes nodes, serialize_edges nodes (map snd edges))))"

section \<open>Snapshots\<close>

definition scope_value :: "snapshot_scope_type \<Rightarrow> string" where
  "scope_value scope = legal_node_type_value (scope_node_type scope)"

definition ref_json :: "node_ref \<Rightarrow> pyval" where
  "ref_json r = PDict [(''node_type'', PStr (fst r)), (''ref_id'', PStr (snd r))]"

definition node_json :: "node_item \<Rightarrow> pyval" where
  "node_json i = PDict
     [(''node_type'', PStr (ni_node_type i)), (''ref_id'', PStr (ni_ref_id i)),
      (''ref_table'', opt_str (ni_ref_table i)), (''hash'', opt_str (ni_hash i))]"

definition edge_json :: "edge_item \<Rightarrow> pyval" where
  "edge_json i = PDict
     [(''edge_type'', PStr (ei_edge_type i)), (''src'', ref_json (ei_src i)), (''dst'', ref_json (ei_dst i)),
      (''meta'', opt_dict (ei_meta i))]"

definition hash_snapshot :: "world \<Rightarrow> pyval \<Rightarrow> string" where
  "hash_snapshot w v = sha256_hex w (canonical_json v)"

record snapshot_payload =
  sp_snapshot_hash :: string
  sp_snapshot_json :: pyval
  sp_nodes_count :: nat
  sp_edges_count :: nat

record legal_graph_snapshot =
  gs_id :: string
  gs_tenant_id :: int
  gs_scope_type :: snapshot_scope_type
  gs_scope_ref_id :: string
  gs_snapshot_hash :: string
  gs_nodes_count :: nat
  gs_edges_count :: nat
  gs_snapshot_json :: pyval
  gs_created_by_actor_type :: "string option"
  gs_created_by_actor_id :: "string option"

record graph_db = fin_db +
  legal_graph_snapshots :: "legal_graph_snapshot list"

definition snapshot_json :: "snapshot_scope_type \<Rightarrow> string \<Rightarrow> node_item list \<Rightarrow> edge_item list \<Rightarrow> pyval" where
  "snapshot_json scope ref nodes edges = PDict
     [(''scope'', PDict [(''type'', PStr (scope_value scope)), (''ref_id'', PStr ref)]),
      (''nodes'', PList (map node_json nodes)), (''edges'', PList (map edge_json edges))]"

definition build_snapshot_payload ::
    "world \<Rightarrow> int \<Rightarrow> snapshot_scope_type \<Rightarrow> string \<Rightarrow> int option \<Rightarrow> ('a fin_db_scheme, snapshot_payload) act" where
  "build_snapshot_payload w tenant scope ref depth =
     and_then (collect_connected_subgraph tenant scope ref depth) (\<lambda>(nodes, edges).
     and_then (asserting (nodes \<noteq> []) (ValueError ''snapshot_scope_node_missing'')) (\<lambda>_.
     let v = snapshot_json scope ref nodes edges
     in ret \<lparr>sp_snapshot_hash = hash_snapshot w v, sp_snapshot_json = v,
             sp_nodes_count = length nodes, sp_edges_count = length edges\<rparr>))"

record graph_snapshot_call =
  gc_tenant_id :: int
  gc_scope_type :: snapshot_scope_type
  gc_scope_ref_id :: string
  gc_depth :: int
  gc_request_ctx :: "request_context option"

definition same_graph_snapshot :: "graph_snapshot_call \<Rightarrow> string \<Rightarrow> legal_graph_snapshot \<Rightarrow> bool" where
  "same_graph_snapshot q h r \<longleftrightarrow>
     gs_tenant_id r = gc_tenant_id q \<and> gs_scope_type r = gc_scope_type q \<and>
     gs_scope_ref_id r = gc_scope_ref_id q \<and> gs_snapshot_hash r = h"

definition new_graph_snapshot :: "graph_snapshot_call \<Rightarrow> snapshot_payload \<Rightarrow> string \<Rightarrow> legal_graph_snapshot" where
  "new_graph_snapshot q p i =
     \<lparr>gs_id = i, gs_tenant_id = gc_tenant_id q, gs_scope_type = gc_scope_type q, gs_scope_ref_id = gc_scope_ref_id q,
      gs_snapshot_hash = sp_snapshot_hash p, gs_nodes_count = sp_nodes_count p, gs_edges_count = sp_edges_count p,
      gs_snapshot_json = sp_snapshot_json p,
      gs_created_by_actor_type = map_option (\<lambda>c. actor_type_value (rc_actor_type c)) (gc_request_ctx q),
      gs_created_by_actor_id = Option.bind (gc_request_ctx q) rc_actor_id\<rparr>"

text \<open>The unique key of the table is what the lookup before the insert tests, so the insert is not refused.\<close>

definition create_snapshot :: "world \<Rightarrow> graph_snapshot_call \<Rightarrow> ('a graph_db_scheme, legal_graph_snapshot) act" where
  "create_snapshot w q =
     and_then (build_snapshot_payload w (gc_tenant_id q) (gc_scope_type q) (gc_scope_ref_id q) (Some (gc_depth q))) (\<lambda>p.
     and_then (query_one (same_graph_snapshot q (sp_snapshot_hash p)) legal_graph_snapshots) (\<lambda>existing.
     case existing of
       Some r \<Rightarrow> ret r
     | None \<Rightarrow>
         and_then (new_uuid_str w) (\<lambda>i.
         let r = new_graph_snapshot q p i
         in and_then (update_state (\<lambda>s. s\<lparr>legal_graph_snapshots := legal_graph_snapshots s @ [r]\<rparr>)) (\<lambda>_.
            and_then (audit_created w (gc_request_ctx q) ''LEGAL_GRAPH_SNAPSHOT_CREATED'' ''legal_graph_snapshot'' i
              [(''scope_type'', PStr (scope_value (gc_scope_type q))), (''scope_ref_id'', PStr (gc_scope_ref_id q)),
               (''snapshot_hash'', PStr (gs_snapshot_hash r)), (''nodes_count'', PInt (int (gs_nodes_count r))),
               (''edges_count'', PInt (int (gs_edges_count r)))]) (\<lambda>_.
            ret r)))))"

end
