(* ===== verification/Graph_Builder.thy ===== *)
theory Graph_Builder
  imports Graph_Queries Decision_Engine Billing_Periods
begin

text \<open>
  The graphs of documents, acknowledgements, closing packages, accounting exports and invoices
  (\<open>services/legal_graph/builder.py\<close>) and the completeness check of a billing period (\<open>completeness.py\<close>).
  The graphs of allocations and of risk decisions are in \<open>Legal_Graph\<close> and \<open>Decision_Engine\<close>. A date is the
  number of its day.
\<close>

section \<open>Tables\<close>

datatype document_type =
  DOC_INVOICE | DOC_SUBSCRIPTION_INVOICE | DOC_SUBSCRIPTION_ACT | DOC_ACT | DOC_RECONCILIATION_ACT | DOC_CLOSING_PACKAGE | DOC_OFFER

fun document_type_value :: "document_type \<Rightarrow> string" where
  "document_type_value DOC_INVOICE = ''INVOICE''"
| "document_type_value DOC_SUBSCRIPTION_INVOICE = ''SUBSCRIPTION_INVOICE''"
| "document_type_value DOC_SUBSCRIPTION_ACT = ''SUBSCRIPTION_ACT''"
| "document_type_value DOC_ACT = ''ACT''"
| "document_type_value DOC_RECONCILIATION_ACT = ''RECONCILIATION_ACT''"
| "document_type_value DOC_CLOSING_PACKAGE = ''CLOSING_PACKAGE''"
| "document_type_value DOC_OFFER = ''OFFER''"

text \<open>Documents and closing packages have the same five statuses.\<close>

datatype document_status = DOC_DRAFT | DOC_ISSUED | DOC_ACKNOWLEDGED | DOC_FINALIZED | DOC_VOID

record legal_document =
  gd_id :: string
  gd_tenant_id :: int
  gd_client_id :: string
  gd_document_type :: document_type
  gd_period_from :: int
  gd_period_to :: int
  gd_status :: document_status
  gd_version :: int
  gd_source_entity_type :: "string option"
  gd_source_entity_id :: "string option"
  gd_document_hash :: "string option"

record legal_document_file =
  gf_id :: string
  gf_document_id :: string
  gf_sha256 :: string

record closing_package =
  cp_id :: string
  cp_tenant_id :: int
  cp_client_id :: string
  cp_period_from :: int
  cp_period_to :: int
  cp_status :: document_status
  cp_version :: int
  cp_invoice_document_id :: "string option"
  cp_act_document_id :: "string option"
  cp_recon_document_id :: "string option"

datatype accounting_export_type = EXPORT_CHARGES | EXPORT_SETTLEMENT

datatype accounting_export_state =
  EXPORT_CREATED | EXPORT_GENERATED | EXPORT_UPLOADED | EXPORT_DOWNLOADED | EXPORT_CONFIRMED | EXPORT_FAILED

record accounting_export_batch =
  ab_id :: string
  ab_tenant_id :: int
  ab_billing_period_id :: string
  ab_export_type :: accounting_export_type
  ab_state :: accounting_export_state

text \<open>\<open>invoice_periods\<close> holds the columns \<open>period_from\<close> and \<open>period_to\<close> of the invoices, which only this code reads.\<close>

record docs_db = graph_db +
  legal_documents :: "legal_document list"
  legal_document_files :: "legal_document_file list"
  closing_packages :: "closing_package list"
  accounting_export_batches :: "accounting_export_batch list"
  stored_risk_decisions :: "risk_decision list"
  invoice_periods :: "(string \<times> int \<times> int) list"

section \<open>The builder\<close>

record graph_context =
  gx_tenant_id :: int
  gx_request_ctx :: "request_context option"

definition builder_node ::
    "world \<Rightarrow> graph_context \<Rightarrow> legal_node_type \<Rightarrow> string \<Rightarrow> string \<Rightarrow> string option \<Rightarrow> ('a fin_db_scheme, legal_node) act" where
  "builder_node w c ty ref table hash_value =
     get_or_create_node w (gx_request_ctx c) (gx_tenant_id c) ty ref (Some table) hash_value"

definition builder_link ::
    "world \<Rightarrow> graph_context \<Rightarrow> string \<Rightarrow> string \<Rightarrow> legal_edge_type \<Rightarrow> ('a fin_db_scheme, unit) act" where
  "builder_link w c src dst ty =
     and_then (link_edge w (gx_request_ctx c) (gx_tenant_id c) src dst ty None) (\<lambda>_. ret ())"

text \<open>\<open>order_by(issued_at.desc())\<close>: PostgreSQL puts the rows without a value first.\<close>

definition newest_invoice :: "invoice list \<Rightarrow> invoice option" where
  "newest_invoice rows =
     first_row (sort_key (\<lambda>i. case inv_issued_at i of None \<Rightarrow> (0 :: int, 0) | Some t \<Rightarrow> (1, - t)) rows)"

definition invoice_of_period :: "string \<Rightarrow> int \<Rightarrow> int \<Rightarrow> 'a docs_db_scheme \<Rightarrow> invoice option" where
  "invoice_of_period client date_from date_to s =
     newest_invoice (filter (\<lambda>i. inv_client_id i = client \<and>
       map_of (invoice_periods s) (inv_id i) = Some (date_from, date_to)) (invoices s))"

definition period_id_of :: "invoice option \<Rightarrow> string option" where
  "period_id_of i = Option.bind i (\<lambda>x. case inv_billing_period_id x of None \<Rightarrow> None | Some p \<Rightarrow> if p = [] then None else Some p)"

text \<open>\<open>sql_date\<close> is the cast of an instant to a date, which depends on the time zone of the database session.\<close>

definition resolve_billing_period_for_document ::
    "(int \<Rightarrow> int) \<Rightarrow> legal_document \<Rightarrow> ('a docs_db_scheme, string option) act" where
  "resolve_billing_period_for_document sql_date d = reading (\<lambda>s.
     case period_id_of (invoice_of_period (gd_client_id d) (gd_period_from d) (gd_period_to d) s) of
       Some p \<Rightarrow> Some p
     | None \<Rightarrow>
         map_option bp_id (first_row (sort_key (\<lambda>p. - bp_start_at p)
           (filter (\<lambda>p. sql_date (bp_start_at p) = gd_period_from d \<and> sql_date (bp_end_at p) = gd_period_to d)
              (billing_periods s)))))"

definition invoice_by_id :: "string \<Rightarrow> ('a fin_db_scheme, invoice option) act" where
  "invoice_by_id i = query_one (\<lambda>x. inv_id x = i) invoices"

definition nonempty_id :: "string option \<Rightarrow> string option" where
  "nonempty_id x = (case x of None \<Rightarrow> None | Some i \<Rightarrow> if i = [] then None else Some i)"

definition resolve_billing_period_for_package ::
    "closing_package \<Rightarrow> legal_document list \<Rightarrow> ('a docs_db_scheme, string option) act" where
  "resolve_billing_period_for_package p docs =
     and_then
       (case Option.bind (List.find (\<lambda>d. gd_document_type d = DOC_INVOICE) docs) (\<lambda>d. nonempty_id (gd_source_entity_id d)) of
          None \<Rightarrow> ret None
        | Some i \<Rightarrow> and_then (invoice_by_id i) (\<lambda>x. ret (period_id_of x))) (\<lambda>direct.
     case direct of
       Some period \<Rightarrow> ret (Some period)
     | None \<Rightarrow> reading (\<lambda>s. period_id_of (invoice_of_period (cp_client_id p) (cp_period_from p) (cp_period_to p) s)))"

definition link_document_to_period :: "world \<Rightarrow> graph_context \<Rightarrow> string \<Rightarrow> string \<Rightarrow> ('a fin_db_scheme, unit) act" where
  "link_document_to_period w c document_node period =
     and_then (builder_node w c NODE_BILLING_PERIOD period ''billing_periods'' None) (\<lambda>n.
     builder_link w c document_node (nd_id n) EDGE_GENERATED_FROM)"

definition link_period_if :: "world \<Rightarrow> graph_context \<Rightarrow> string \<Rightarrow> string option \<Rightarrow> ('a fin_db_scheme, unit) act" where
  "link_period_if w c document_node period =
     (case period of None \<Rightarrow> ret () | Some p \<Rightarrow> link_document_to_period w c document_node p)"

definition previous_version :: "legal_document \<Rightarrow> legal_document \<Rightarrow> bool" where
  "previous_version d x \<longleftrightarrow> gd_tenant_id x = gd_tenant_id d \<and> gd_client_id x = gd_client_id d \<and>
     gd_document_type x = gd_document_type d \<and> gd_period_from x = gd_period_from d \<and>
     gd_period_to x = gd_period_to d \<and> gd_version x = gd_version d - 1"

definition link_document_replacement :: "world \<Rightarrow> graph_context \<Rightarrow> legal_document \<Rightarrow> string \<Rightarrow> ('a docs_db_scheme, unit) act" where
  "link_document_replacement w c d node_id =
     (if gd_version d \<le> 1 then ret ()
      else and_then (query_one (previous_version d) legal_documents) (\<lambda>x.
        case x of
          None \<Rightarrow> ret ()
        | Some previous \<Rightarrow>
            and_then (builder_node w c NODE_DOCUMENT (gd_id previous) ''documents'' (gd_document_hash previous)) (\<lambda>n.
            builder_link w c node_id (nd_id n) EDGE_REPLACES)))"

definition link_document_files :: "world \<Rightarrow> graph_context \<Rightarrow> legal_document \<Rightarrow> string \<Rightarrow> ('a docs_db_scheme, unit) act" where
  "link_document_files w c d node_id =
     and_then (reading (\<lambda>s. filter (\<lambda>f. gf_document_id f = gd_id d) (legal_document_files s))) (\<lambda>files.
     and_then (for_each files (\<lambda>f.
       and_then (builder_node w c NODE_DOCUMENT_FILE (gf_id f) ''document_files'' (Some (gf_sha256 f))) (\<lambda>n.
       builder_link w c node_id (nd_id n) EDGE_INCLUDES))) (\<lambda>_. ret ()))"

definition latest_risk_decision :: "risk_subject \<Rightarrow> string \<Rightarrow> ('a docs_db_scheme, risk_decision option) act" where
  "latest_risk_decision ty i = reading (\<lambda>s.
     first_row (sort_key (\<lambda>r. - rd_decided_at r)
       (filter (\<lambda>r. rd_subject_type r = ty \<and> rd_subject_id r = i) (stored_risk_decisions s))))"

text \<open>The invoice that a document was made from: its node, and the link to the period of the invoice.\<close>

definition link_document_invoice :: "world \<Rightarrow> graph_context \<Rightarrow> legal_document \<Rightarrow> string \<Rightarrow> ('a docs_db_scheme, legal_node option) act" where
  "link_document_invoice w c d node_id =
     (case (gd_source_entity_type d, nonempty_id (gd_source_entity_id d)) of
        (Some ty, Some i) \<Rightarrow>
          if ty = ''invoice''
          then and_then (builder_node w c NODE_INVOICE i ''invoices'' None) (\<lambda>n.
               and_then (builder_link w c node_id (nd_id n) EDGE_GENERATED_FROM) (\<lambda>_.
               and_then (invoice_by_id i) (\<lambda>x.
               and_then (link_period_if w c node_id (period_id_of x)) (\<lambda>_.
               ret (Some n)))))
          else ret None
      | _ \<Rightarrow> ret None)"

definition ensure_document_graph :: "world \<Rightarrow> (int \<Rightarrow> int) \<Rightarrow> graph_context \<Rightarrow> legal_document \<Rightarrow> ('a docs_db_scheme, unit) act" where
  "ensure_document_graph w sql_date c d =
     and_then (builder_node w c NODE_DOCUMENT (gd_id d) ''documents'' (gd_document_hash d)) (\<lambda>n.
     and_then (link_document_invoice w c d (nd_id n)) (\<lambda>invoice_node.
     and_then (resolve_billing_period_for_document sql_date d) (\<lambda>period.
     and_then (link_period_if w c (nd_id n) period) (\<lambda>_.
     and_then (link_document_replacement w c d (nd_id n)) (\<lambda>_.
     and_then (link_document_files w c d (nd_id n)) (\<lambda>_.
     and_then (latest_risk_decision SUBJECT_DOCUMENT (gd_id d)) (\<lambda>decision.
     and_then (case decision of
         None \<Rightarrow> ret ()
       | Some r \<Rightarrow>
           and_then (builder_node w c NODE_RISK_DECISION (rd_id r) ''risk_decisions'' None) (\<lambda>rn.
           builder_link w c (nd_id n) (nd_id rn) EDGE_SIGNED_BY)) (\<lambda>_.
     case invoice_node of
       None \<Rightarrow> ret ()
     | Some inode \<Rightarrow> builder_link w c (nd_id n) (nd_id inode) EDGE_CONFIRMS))))))))"

definition ensure_document_ack_graph ::
    "world \<Rightarrow> graph_context \<Rightarrow> legal_document \<Rightarrow> string \<Rightarrow> payload option \<Rightarrow> ('a fin_db_scheme, unit) act" where
  "ensure_document_ack_graph w c d acknowledgement_id ack_meta =
     and_then (builder_node w c NODE_DOCUMENT (gd_id d) ''documents'' (gd_document_hash d)) (\<lambda>dn.
     and_then (get_or_create_node_meta w (gx_request_ctx c) (gx_tenant_id c) NODE_DOCUMENT_ACK acknowledgement_id
       (Some ''document_acknowledgements'') None ack_meta) (\<lambda>an.
     and_then (link_edge w (gx_request_ctx c) (gx_tenant_id c) (nd_id dn) (nd_id an) EDGE_SIGNED_BY ack_meta) (\<lambda>_.
     ret ())))"

text \<open>\<open>documents\<close> are the values of the dictionary that the caller passes; an empty one counts as none.\<close>

definition load_documents :: "string option list \<Rightarrow> ('a docs_db_scheme, legal_document list) act" where
  "load_documents ids = reading (\<lambda>s.
     let wanted = List.map_filter nonempty_id ids
     in if wanted = [] then [] else filter (\<lambda>d. gd_id d \<in> set wanted) (legal_documents s))"

definition ensure_closing_package_graph ::
    "world \<Rightarrow> graph_context \<Rightarrow> closing_package \<Rightarrow> legal_document list \<Rightarrow> ('a docs_db_scheme, unit) act" where
  "ensure_closing_package_graph w c p documents =
     and_then (builder_node w c NODE_CLOSING_PACKAGE (cp_id p) ''closing_packages'' None) (\<lambda>pn.
     and_then (if documents \<noteq> [] then ret documents
       else load_documents [cp_invoice_document_id p, cp_act_document_id p, cp_recon_document_id p]) (\<lambda>docs.
     and_then (for_each docs (\<lambda>d.
       and_then (builder_node w c NODE_DOCUMENT (gd_id d) ''documents'' (gd_document_hash d)) (\<lambda>dn.
       builder_link w c (nd_id pn) (nd_id dn) EDGE_INCLUDES))) (\<lambda>_.
     and_then (resolve_billing_period_for_package p docs) (\<lambda>period.
     case period of
       None \<Rightarrow> ret ()
     | Some i \<Rightarrow>
         and_then (builder_node w c NODE_BILLING_PERIOD i ''billing_periods'' None) (\<lambda>bn.
         builder_link w c (nd_id pn) (nd_id bn) EDGE_CLOSES)))))"

definition ensure_accounting_export_graph :: "world \<Rightarrow> graph_context \<Rightarrow> accounting_export_batch \<Rightarrow> ('a fin_db_scheme, unit) act" where
  "ensure_accounting_export_graph w c b =
     and_then (builder_node w c NODE_ACCOUNTING_EXPORT_BATCH (ab_id b) ''accounting_export_batches'' None) (\<lambda>en.
     and_then (if ab_billing_period_id b = [] then ret ()
       else and_then (builder_node w c NODE_BILLING_PERIOD (ab_billing_period_id b) ''billing_periods'' None) (\<lambda>pn.
            builder_link w c (nd_id en) (nd_id pn) EDGE_EXPORTS)) (\<lambda>_.
     case ab_export_type b of
       EXPORT_CHARGES \<Rightarrow>
         and_then (reading (\<lambda>s. filter (\<lambda>i. inv_billing_period_id i = Some (ab_billing_period_id b)) (invoices s))) (\<lambda>rows.
         and_then (for_each rows (\<lambda>i.
           and_then (builder_node w c NODE_INVOICE (inv_id i) ''invoices'' None) (\<lambda>n.
           builder_link w c (nd_id en) (nd_id n) EDGE_EXPORTS))) (\<lambda>_. ret ()))
     | EXPORT_SETTLEMENT \<Rightarrow>
         and_then (reading (\<lambda>s. filter (\<lambda>a. sa_settlement_period_id a = ab_billing_period_id b) (allocations s))) (\<lambda>rows.
         and_then (for_each rows (\<lambda>a.
           and_then (builder_node w c NODE_SETTLEMENT_ALLOCATION (sa_id a) ''invoice_settlement_allocations'' None) (\<lambda>n.
           builder_link w c (nd_id en) (nd_id n) EDGE_EXPORTS))) (\<lambda>_. ret ()))))"

definition ensure_invoice_graph :: "world \<Rightarrow> graph_context \<Rightarrow> invoice \<Rightarrow> ('a fin_db_scheme, unit) act" where
  "ensure_invoice_graph w c i =
     and_then (builder_node w c NODE_INVOICE (inv_id i) ''invoices'' None) (\<lambda>n.
     case nonempty_id (inv_billing_period_id i) of
       None \<Rightarrow> ret ()
     | Some p \<Rightarrow>
         and_then (builder_node w c NODE_BILLING_PERIOD p ''billing_periods'' None) (\<lambda>pn.
         builder_link w c (nd_id n) (nd_id pn) EDGE_RELATES_TO))"

section \<open>Completeness of a billing period\<close>

record completeness_result =
  cr_ok :: bool
  cr_missing_nodes :: "payload list"
  cr_missing_edges :: "payload list"
  cr_blocking_reasons :: "string list"

definition missing_node :: "legal_node_type \<Rightarrow> string \<Rightarrow> payload" where
  "missing_node ty ref = [(''node_type'', PStr (legal_node_type_value ty)), (''ref_id'', PStr ref)]"

definition missing_edge :: "legal_edge_type \<Rightarrow> legal_node \<Rightarrow> legal_node \<Rightarrow> payload" where
  "missing_edge ty src dst =
     [(''edge_type'', PStr (legal_edge_type_value ty)), (''src'', PStr (nd_ref_id src)), (''dst'', PStr (nd_ref_id dst))]"

definition period_dates :: "tz_rules \<Rightarrow> billing_period \<Rightarrow> int \<times> int" where
  "period_dates tzr p =
     (tz_to_local tzr (bp_tz p) (bp_start_at p) div day_us, tz_to_local tzr (bp_tz p) (bp_end_at p) div day_us)"

text \<open>\<open>{doc.document_type: doc for doc in documents}\<close>: of several documents of a type the last row counts.\<close>

definition documents_by_type :: "legal_document list \<Rightarrow> (document_type \<times> legal_document) list" where
  "documents_by_type docs = fold (\<lambda>d. AList.update (gd_document_type d) d) docs []"

definition required_types :: "document_type list" where
  "required_types = [DOC_INVOICE, DOC_ACT, DOC_RECONCILIATION_ACT]"

definition settled_status :: "document_status \<Rightarrow> bool" where
  "settled_status st \<longleftrightarrow> st = DOC_ACKNOWLEDGED \<or> st = DOC_FINALIZED"

text \<open>The findings about one required document: missing nodes and blocking reasons.\<close>

definition check_document ::
    "int \<Rightarrow> (document_type \<times> legal_document) list \<Rightarrow> document_type \<Rightarrow> ('a fin_db_scheme, payload list \<times> string list) act" where
  "check_document tenant by_type ty =
     (case map_of by_type ty of
        None \<Rightarrow> ret ([[(''node_type'', PStr (legal_node_type_value NODE_DOCUMENT)), (''document_type'', PStr (document_type_value ty))]], [])
      | Some d \<Rightarrow>
          and_then (get_node tenant NODE_DOCUMENT (gd_id d)) (\<lambda>n.
          ret (if n = None then [missing_node NODE_DOCUMENT (gd_id d)] else [],
               if settled_status (gd_status d) then [] else [''document_not_finalized:'' @ document_type_value ty])))"

definition edge_missing ::
    "int \<Rightarrow> legal_edge_type \<Rightarrow> legal_node \<Rightarrow> legal_node \<Rightarrow> ('a fin_db_scheme, payload list) act" where
  "edge_missing tenant ty src dst =
     and_then (query_one (edge_scope tenant ty (nd_id src) (nd_id dst)) legal_edges) (\<lambda>e.
     ret (if e = None then [missing_edge ty src dst] else []))"

definition check_closing_package_edges ::
    "int \<Rightarrow> legal_node \<Rightarrow> (document_type \<times> legal_document) list \<Rightarrow> legal_node option \<Rightarrow> ('a fin_db_scheme, payload list) act" where
  "check_closing_package_edges tenant pn by_type period_node =
     and_then (for_each (map snd (filter (\<lambda>x. fst x \<in> set required_types) by_type)) (\<lambda>d.
       and_then (get_node tenant NODE_DOCUMENT (gd_id d)) (\<lambda>n.
       case n of None \<Rightarrow> ret [] | Some dn \<Rightarrow> edge_missing tenant EDGE_INCLUDES pn dn))) (\<lambda>includes.
     and_then (case period_node of None \<Rightarrow> ret [] | Some bn \<Rightarrow> edge_missing tenant EDGE_CLOSES pn bn) (\<lambda>closes.
     ret (concat includes @ closes)))"

definition check_package ::
    "int \<Rightarrow> (document_type \<times> legal_document) list \<Rightarrow> legal_node option \<Rightarrow> closing_package option \<Rightarrow>
     ('a fin_db_scheme, payload list \<times> payload list \<times> string list) act" where
  "check_package tenant by_type period_node package =
     (case package of
        None \<Rightarrow> ret ([[(''node_type'', PStr (legal_node_type_value NODE_CLOSING_PACKAGE))]], [], [])
      | Some p \<Rightarrow>
          let reasons = (if settled_status (cp_status p) then [] else [''closing_package_not_finalized''])
          in and_then (get_node tenant NODE_CLOSING_PACKAGE (cp_id p)) (\<lambda>n.
             case n of
               None \<Rightarrow> ret ([missing_node NODE_CLOSING_PACKAGE (cp_id p)], [], reasons)
             | Some pn \<Rightarrow>
                 and_then (check_closing_package_edges tenant pn by_type period_node) (\<lambda>edges.
                 ret ([], edges, reasons))))"

definition check_export_batch ::
    "int \<Rightarrow> legal_node \<Rightarrow> accounting_export_batch \<Rightarrow> ('a fin_db_scheme, payload list \<times> payload list) act" where
  "check_export_batch tenant period_node b =
     and_then (get_node tenant NODE_ACCOUNTING_EXPORT_BATCH (ab_id b)) (\<lambda>n.
     case n of
       None \<Rightarrow> ret ([missing_node NODE_ACCOUNTING_EXPORT_BATCH (ab_id b)], [])
     | Some en \<Rightarrow> and_then (edge_missing tenant EDGE_CONFIRMS en period_node) (\<lambda>edges. ret ([], edges)))"

definition check_exports ::
    "int \<Rightarrow> legal_node option \<Rightarrow> accounting_export_batch list \<Rightarrow> ('a fin_db_scheme, payload list \<times> payload list) act" where
  "check_exports tenant period_node batches =
     (let confirmed = filter (\<lambda>b. ab_state b = EXPORT_CONFIRMED) batches
      in if batches = [] then ret ([], [])
         else if confirmed = []
         then ret ([[(''node_type'', PStr (legal_node_type_value NODE_ACCOUNTING_EXPORT_BATCH)), (''status'', PStr ''CONFIRMED'')]], [])
         else case period_node of
                None \<Rightarrow> ret ([], [])
              | Some bn \<Rightarrow> and_then (for_each confirmed (check_export_batch tenant bn)) (\<lambda>rs.
                  ret (concat (map fst rs), concat (map snd rs))))"

definition check_billing_period_completeness ::
    "tz_rules \<Rightarrow> int \<Rightarrow> string \<Rightarrow> ('a docs_db_scheme, completeness_result) act" where
  "check_billing_period_completeness tzr tenant period_id =
     and_then (query_one (\<lambda>p. bp_id p = period_id) billing_periods) (\<lambda>found.
     case found of
       None \<Rightarrow> ret \<lparr>cr_ok = False, cr_missing_nodes = [missing_node NODE_BILLING_PERIOD period_id], cr_missing_edges = [],
                   cr_blocking_reasons = [''billing_period_missing'']\<rparr>
     | Some period \<Rightarrow>
         and_then (get_node tenant NODE_BILLING_PERIOD (bp_id period)) (\<lambda>period_node.
         and_then (reading (\<lambda>s. documents_by_type (filter (\<lambda>d. (gd_period_from d, gd_period_to d) = period_dates tzr period)
           (legal_documents s)))) (\<lambda>by_type.
         and_then (for_each required_types (check_document tenant by_type)) (\<lambda>docs.
         and_then (reading (\<lambda>s. first_row (sort_key (\<lambda>p. - cp_version p)
           (filter (\<lambda>p. (cp_period_from p, cp_period_to p) = period_dates tzr period) (closing_packages s))))) (\<lambda>package.
         and_then (check_package tenant by_type period_node package) (\<lambda>(package_nodes, package_edges, package_reasons).
         and_then (reading (\<lambda>s. filter (\<lambda>b. ab_billing_period_id b = bp_id period) (accounting_export_batches s))) (\<lambda>batches.
         and_then (check_exports tenant period_node batches) (\<lambda>(export_nodes, export_edges).
         let nodes = (if period_node = None then [missing_node NODE_BILLING_PERIOD (bp_id period)] else []) @
               concat (map fst docs) @ package_nodes @ export_nodes;
             edges = package_edges @ export_edges;
             reasons = concat (map snd docs) @ package_reasons
         in ret \<lparr>cr_ok = (nodes = [] \<and> edges = [] \<and> reasons = []), cr_missing_nodes = nodes, cr_missing_edges = edges,
                 cr_blocking_reasons = reasons\<rparr>))))))))"

end
