(* ===== verification/Graph_Properties.thy ===== *)
theory Graph_Properties
  imports Graph_Queries Ledger_Properties
begin

text \<open>
  What the queries of the legal graph return: the rounds of the search are the balls of the graph, so a trace
  is the part of the tenant's graph within the depth, and the search without depth is the connected component.
  Snapshots depend on the rows of the graph and not on their order.
\<close>

section \<open>Balls of a relation\<close>

fun within :: "('n \<times> 'n) set \<Rightarrow> 'n \<Rightarrow> nat \<Rightarrow> 'n set" where
  "within R x 0 = {x}"
| "within R x (Suc n) = within R x n \<union> R `` within R x n"

fun within_before :: "('n \<times> 'n) set \<Rightarrow> 'n \<Rightarrow> nat \<Rightarrow> 'n set" where
  "within_before R x 0 = {}"
| "within_before R x (Suc n) = within R x n"

definition at_distance :: "('n \<times> 'n) set \<Rightarrow> 'n \<Rightarrow> nat \<Rightarrow> 'n set" where
  "at_distance R x n = within R x n - within_before R x n"

lemma within_iff: "y \<in> within R x n \<longleftrightarrow> (\<exists>k\<le>n. (x, y) \<in> R ^^ k)"
proof (induction n arbitrary: y)
  case (Suc n)
  have "(\<exists>k\<le>Suc n. (x, y) \<in> R ^^ k) \<longleftrightarrow> (\<exists>k\<le>n. (x, y) \<in> R ^^ k) \<or> (\<exists>k\<le>n. (x, y) \<in> R ^^ Suc k)"
    by (metis Suc_le_mono le_Suc_eq)
  also have "(\<exists>k\<le>n. (x, y) \<in> R ^^ Suc k) \<longleftrightarrow> (\<exists>z. (\<exists>k\<le>n. (x, z) \<in> R ^^ k) \<and> (z, y) \<in> R)" by auto
  finally show ?case unfolding within.simps Un_iff Image_iff Suc.IH by (auto simp: Suc.IH [symmetric] Bex_def)
qed auto

lemma within_eq: "within R x n = {y. \<exists>k\<le>n. (x, y) \<in> R ^^ k}"
  by (rule set_eqI) (simp add: within_iff)

lemma within_before_eq: "within_before R x n = {y. \<exists>k<n. (x, y) \<in> R ^^ k}"
  by (cases n) (simp_all add: within_eq less_Suc_eq_le)

lemma within_mono: "i \<le> j \<Longrightarrow> within R x i \<subseteq> within R x j"
  unfolding within_iff subset_iff by (meson order_trans)

lemma start_within: "x \<in> within R x n"
  by (induction n) auto

lemma within_before_subset: "within_before R x n \<subseteq> within R x n"
  by (cases n) auto

lemma step_from_before: "R `` within_before R x n \<subseteq> within R x n"
  by (cases n) auto

lemma within_Suc_frontier: "within R x (Suc n) = within R x n \<union> (R `` at_distance R x n - within R x n)"
  using step_from_before [of R x n] by (auto simp: at_distance_def)

lemma at_distance_Suc: "at_distance R x (Suc n) = R `` at_distance R x n - within R x n"
  unfolding at_distance_def [of R x "Suc n"] within_Suc_frontier by auto

lemma within_split: "within R x n = within_before R x n \<union> at_distance R x n"
  using within_before_subset [of R x n] by (auto simp: at_distance_def)

text \<open>Once a round finds nothing new the search is finished.\<close>

lemma at_distance_empty:
  assumes "at_distance R x n = {}"
  shows "at_distance R x (n + m) = {} \<and> within R x (n + m) = within R x n \<and> within_before R x (n + m) = within R x n"
proof (induction m)
  case 0
  then show ?case using assms within_split [of R x n] by simp
next
  case (Suc m)
  then show ?case by (simp add: at_distance_Suc within_Suc_frontier del: within.simps(2))
qed

lemma within_rtrancl: "at_distance R x n = {} \<Longrightarrow> within R x n = R\<^sup>* `` {x}"
proof -
  assume empty: "at_distance R x n = {}"
  show ?thesis
  proof
    show "within R x n \<subseteq> R\<^sup>* `` {x}" by (auto simp: within_iff intro: relpow_imp_rtrancl)
    show "R\<^sup>* `` {x} \<subseteq> within R x n"
    proof
      fix y assume "y \<in> R\<^sup>* `` {x}"
      then obtain k where "(x, y) \<in> R ^^ k" by (auto dest: rtrancl_imp_relpow)
      then have "y \<in> within R x (n + k)" unfolding within_iff by (intro exI [of _ k]) simp
      then show "y \<in> within R x n" using at_distance_empty [OF empty, of k] by simp
    qed
  qed
qed

lemma distances_disjoint: "i < j \<Longrightarrow> at_distance R x j \<inter> within R x i = {}"
proof (induction j)
  case (Suc j)
  show ?case
  proof (cases "i = j")
    case False
    have "within R x i \<subseteq> within R x j" using Suc.prems by (simp add: within_mono)
    then show ?thesis by (auto simp: at_distance_Suc)
  qed (auto simp: at_distance_Suc)
qed simp

section \<open>The graph of a tenant\<close>

text \<open>The primary keys and unique constraints of the two tables.\<close>

definition graph_ok :: "'a fin_db_scheme \<Rightarrow> bool" where
  "graph_ok s \<longleftrightarrow> distinct (map nd_id (legal_nodes s)) \<and> distinct (map ed_id (legal_edges s)) \<and>
     distinct (map (\<lambda>n. (nd_tenant_id n, nd_node_type n, nd_ref_id n)) (legal_nodes s)) \<and>
     distinct (map (\<lambda>e. (ed_tenant_id e, ed_edge_type e, ed_src_node_id e, ed_dst_node_id e)) (legal_edges s))"

definition graph_steps :: "direction \<Rightarrow> int \<Rightarrow> 'a fin_db_scheme \<Rightarrow> (string \<times> string) set" where
  "graph_steps dir tenant s = {(a, b). \<exists>e\<in>set (legal_edges s). ed_tenant_id e = tenant \<and>
     (dir \<noteq> UPSTREAM \<and> a = ed_src_node_id e \<and> b = ed_dst_node_id e \<or>
      dir \<noteq> DOWNSTREAM \<and> a = ed_dst_node_id e \<and> b = ed_src_node_id e)}"

text \<open>The tenant's edges at a set of nodes.\<close>

definition edges_at :: "int \<Rightarrow> 'a fin_db_scheme \<Rightarrow> string set \<Rightarrow> legal_edge list" where
  "edges_at tenant s ids =
     filter (\<lambda>e. ed_tenant_id e = tenant \<and> (ed_src_node_id e \<in> ids \<or> ed_dst_node_id e \<in> ids)) (legal_edges s)"

definition nodes_at :: "int \<Rightarrow> 'a fin_db_scheme \<Rightarrow> string set \<Rightarrow> legal_node list" where
  "nodes_at tenant s ids = filter (\<lambda>n. nd_tenant_id n = tenant \<and> nd_id n \<in> ids) (legal_nodes s)"

lemma edges_for_nodes_at [simp]: "edges_for_nodes tenant ids s = edges_at tenant s ids"
  by (auto simp: edges_for_nodes_def edges_at_def)

lemma nodes_by_ids_at [simp]: "nodes_by_ids tenant ids s = nodes_at tenant s ids"
  by (auto simp: nodes_by_ids_def nodes_at_def)

lemma edges_at_Un: "set (edges_at tenant s (A \<union> B)) = set (edges_at tenant s A) \<union> set (edges_at tenant s B)"
  by (auto simp: edges_at_def)

text \<open>A dictionary of edges by identifier.\<close>

definition holds_edges :: "edge_dict \<Rightarrow> legal_edge set \<Rightarrow> bool" where
  "holds_edges d E \<longleftrightarrow> distinct (map fst d) \<and> set d = (\<lambda>e. (ed_id e, e)) ` E"

lemma holds_edges_update:
  assumes "holds_edges d E" and "inj_on ed_id (insert e E)"
  shows "holds_edges (AList.update (ed_id e) e d) (insert e E)"
proof -
  have dist: "distinct (map fst (AList.update (ed_id e) e d))"
    using assms(1) by (simp add: holds_edges_def distinct_update)
  have "(k, v) \<in> set (AList.update (ed_id e) e d) \<longleftrightarrow> k = ed_id v \<and> v \<in> insert e E" for k v
  proof -
    have d: "map_of d k = Some v \<longleftrightarrow> k = ed_id v \<and> v \<in> E"
      using assms(1) by (auto simp: holds_edges_def)
    have "(k, v) \<in> set (AList.update (ed_id e) e d) \<longleftrightarrow> map_of (AList.update (ed_id e) e d) k = Some v"
      using dist by simp
    also have "\<dots> \<longleftrightarrow> k = ed_id v \<and> v \<in> insert e E"
      using d assms(2) by (auto simp: update_conv' inj_on_def)
    finally show ?thesis .
  qed
  with dist show ?thesis unfolding holds_edges_def by auto
qed

lemma holds_edges_fold:
  assumes "holds_edges d E" and "inj_on ed_id (E \<union> set es)"
  shows "holds_edges (fold (\<lambda>e. AList.update (ed_id e) e) es d) (E \<union> set es)"
  using assms
proof (induction es arbitrary: d E)
  case (Cons e es)
  have "holds_edges (AList.update (ed_id e) e d) (insert e E)"
    using Cons.prems by (intro holds_edges_update) (auto intro: inj_on_subset)
  from Cons.IH [OF this] Cons.prems(2) show ?case by simp
qed simp

lemma holds_edges_values:
  assumes "holds_edges d (set es)" and "distinct es"
  shows "mset (map snd d) = mset es"
proof -
  have "distinct d" using assms(1) by (simp add: holds_edges_def distinct_map)
  moreover have d: "set d = (\<lambda>e. (ed_id e, e)) ` set es" using assms(1) by (simp add: holds_edges_def)
  moreover have "inj_on snd ((\<lambda>e. (ed_id e, e)) ` set es)" by (rule inj_on_imageI) (simp add: comp_def)
  ultimately have "distinct (map snd d)" by (simp add: distinct_map)
  moreover have "set (map snd d) = set es" by (simp add: d image_image)
  ultimately show ?thesis using assms(2) set_eq_iff_mset_eq_distinct by blast
qed

lemma edge_ids_inj: "graph_ok s \<Longrightarrow> inj_on ed_id (set (legal_edges s))"
  by (simp add: graph_ok_def distinct_map)

lemma edges_at_step:
  assumes "graph_ok s" and "holds_edges d (set (edges_at tenant s A))"
  shows "holds_edges (fold (\<lambda>e. AList.update (ed_id e) e) (edges_at tenant s B) d) (set (edges_at tenant s (A \<union> B)))"
  unfolding edges_at_Un
  by (rule holds_edges_fold [OF assms(2)]) (rule inj_on_subset [OF edge_ids_inj [OF assms(1)]], auto simp: edges_at_def)

lemma distinct_edges_at: "graph_ok s \<Longrightarrow> distinct (edges_at tenant s A)"
  by (simp add: graph_ok_def edges_at_def distinct_map)

section \<open>The search of a trace\<close>

lemma trace_edge_apply:
  "trace_edge dir current seen e (d, ids) =
     (AList.update (ed_id e) e d,
      ids \<union> {b. (dir \<noteq> UPSTREAM \<and> ed_src_node_id e \<in> current \<and> b = ed_dst_node_id e \<or>
                  dir \<noteq> DOWNSTREAM \<and> ed_dst_node_id e \<in> current \<and> b = ed_src_node_id e) \<and> b \<notin> seen})"
  by (cases dir) (auto simp: trace_edge_def Let_def)

lemma trace_fold:
  "fold (trace_edge dir current seen) es (d, ids) =
     (fold (\<lambda>e. AList.update (ed_id e) e) es d,
      ids \<union> {b. (\<exists>e\<in>set es. dir \<noteq> UPSTREAM \<and> ed_src_node_id e \<in> current \<and> b = ed_dst_node_id e \<or>
                  dir \<noteq> DOWNSTREAM \<and> ed_dst_node_id e \<in> current \<and> b = ed_src_node_id e) \<and> b \<notin> seen})"
proof (induction es arbitrary: d ids)
  case (Cons e es)
  show ?case unfolding fold_Cons comp_apply trace_edge_apply Cons.IH by auto
qed simp

lemma trace_next:
  "{b. (\<exists>e\<in>set (edges_at tenant s A). dir \<noteq> UPSTREAM \<and> ed_src_node_id e \<in> A \<and> b = ed_dst_node_id e \<or>
          dir \<noteq> DOWNSTREAM \<and> ed_dst_node_id e \<in> A \<and> b = ed_src_node_id e) \<and> b \<notin> seen} =
   graph_steps dir tenant s `` A - seen"
  by (auto simp: edges_at_def graph_steps_def)

lemma trace_step_effect:
  "trace_step iter tenant dir s st =
     (let next_ids = graph_steps dir tenant s `` ts_current st - ts_seen st
      in \<lparr>ts_current = next_ids, ts_seen = ts_seen st \<union> next_ids,
          ts_edges = fold (\<lambda>e. AList.update (ed_id e) e) (edges_at tenant s (ts_current st)) (ts_edges st),
          ts_layers = (if next_ids \<noteq> {} then ts_layers st @ [iter next_ids] else ts_layers st)\<rparr>)"
  unfolding trace_step_def trace_fold edges_for_nodes_at trace_next by (simp add: Let_def)

text \<open>The state of the search after \<open>k\<close> rounds from the node \<open>x\<close>.\<close>

definition trace_at ::
    "(string set \<Rightarrow> string list) \<Rightarrow> int \<Rightarrow> direction \<Rightarrow> 'a fin_db_scheme \<Rightarrow> string \<Rightarrow> nat \<Rightarrow> trace_state \<Rightarrow> bool" where
  "trace_at iter tenant dir s x k st \<longleftrightarrow>
     (let R = graph_steps dir tenant s
      in ts_current st = at_distance R x k \<and> ts_seen st = within R x k \<and>
         holds_edges (ts_edges st) (set (edges_at tenant s (within_before R x k))) \<and>
         ts_layers st = map (\<lambda>i. iter (at_distance R x i)) (filter (\<lambda>i. at_distance R x i \<noteq> {}) [0..<Suc k]))"

lemma trace_at_step:
  assumes "graph_ok s" and "trace_at iter tenant dir s x k st"
  shows "trace_at iter tenant dir s x (Suc k) (trace_step iter tenant dir s st)"
proof -
  define R where "R = graph_steps dir tenant s"
  have st: "ts_current st = at_distance R x k" "ts_seen st = within R x k"
      "holds_edges (ts_edges st) (set (edges_at tenant s (within_before R x k)))"
      "ts_layers st = map (\<lambda>i. iter (at_distance R x i)) (filter (\<lambda>i. at_distance R x i \<noteq> {}) [0..<Suc k])"
    using assms(2) by (simp_all add: trace_at_def R_def Let_def)
  have fresh: "R `` at_distance R x k - within R x k = at_distance R x (Suc k)" by (simp add: at_distance_Suc)
  have seen: "within R x k \<union> at_distance R x (Suc k) = within R x (Suc k)"
    unfolding within_Suc_frontier by (simp add: at_distance_Suc)
  have edges: "holds_edges (fold (\<lambda>e. AList.update (ed_id e) e) (edges_at tenant s (at_distance R x k)) (ts_edges st))
      (set (edges_at tenant s (within_before R x (Suc k))))"
    using edges_at_step [OF assms(1) st(3), of "at_distance R x k"] by (simp add: within_split [of R x k, symmetric])
  show ?thesis
    unfolding trace_at_def trace_step_effect Let_def R_def [symmetric] st(1,2) fresh seen
    using edges st(4) by simp
qed

lemma trace_at_finished:
  assumes "trace_at iter tenant dir s x k st" and "ts_current st = {}"
  shows "trace_at iter tenant dir s x (k + m) st"
proof -
  define R where "R = graph_steps dir tenant s"
  have empty: "at_distance R x k = {}" using assms by (simp add: trace_at_def R_def Let_def)
  have "filter (\<lambda>i. at_distance R x i \<noteq> {}) [0..<Suc (k + m)] = filter (\<lambda>i. at_distance R x i \<noteq> {}) [0..<Suc k]"
  proof (induction m)
    case (Suc m)
    with at_distance_empty [OF empty, of m] at_distance_empty [OF empty, of "Suc m"] empty show ?case by simp
  qed simp
  with assms(1) at_distance_empty [OF empty, of 0] at_distance_empty [OF empty, of m] show ?thesis
    unfolding trace_at_def Let_def R_def [symmetric] by simp
qed

lemma trace_loop_at:
  assumes "graph_ok s" and "trace_at iter tenant dir s x k st"
  shows "trace_at iter tenant dir s x (k + n) (trace_loop iter tenant dir s n st)"
  using assms(2)
proof (induction n arbitrary: k st)
  case (Suc n)
  show ?case
  proof (cases "ts_current st = {}")
    case True
    then show ?thesis using trace_at_finished [OF Suc.prems True, of "Suc n"] by simp
  next
    case False
    then show ?thesis using Suc.IH [OF trace_at_step [OF assms(1) Suc.prems]] by simp
  qed
qed simp

section \<open>The search of the connected part\<close>

definition collect_at :: "int \<Rightarrow> 'a fin_db_scheme \<Rightarrow> string \<Rightarrow> nat \<Rightarrow> collect_state \<Rightarrow> bool" where
  "collect_at tenant s x k st \<longleftrightarrow>
     (let R = graph_steps BOTH tenant s
      in snd st = (within R x k, at_distance R x k) \<and> holds_edges (fst st) (set (edges_at tenant s (within_before R x k))))"

lemma both_ends:
  "A \<subseteq> seen \<Longrightarrow>
   seen \<union> (ed_src_node_id ` set (edges_at tenant s A) \<union> ed_dst_node_id ` set (edges_at tenant s A)) =
     seen \<union> (graph_steps BOTH tenant s `` A - seen) \<and>
   ed_src_node_id ` set (edges_at tenant s A) \<union> ed_dst_node_id ` set (edges_at tenant s A) - seen =
     graph_steps BOTH tenant s `` A - seen"
  by (auto simp: edges_at_def graph_steps_def)

lemma collect_at_step:
  assumes "graph_ok s" and "collect_at tenant s x k st"
  shows "collect_at tenant s x (Suc k) (collect_step tenant s st)"
proof -
  define R where "R = graph_steps BOTH tenant s"
  obtain d where st: "st = (d, within R x k, at_distance R x k)"
      and d: "holds_edges d (set (edges_at tenant s (within_before R x k)))"
    using assms(2) by (cases st) (simp add: collect_at_def R_def Let_def)
  have "at_distance R x k \<subseteq> within R x k" by (auto simp: at_distance_def)
  from both_ends [OF this, of tenant s]
  have "snd (collect_step tenant s st) = (within R x (Suc k), at_distance R x (Suc k))"
    unfolding st collect_step_ids Let_def edges_for_nodes_at R_def [symmetric] within_Suc_frontier at_distance_Suc by simp
  moreover have "fst (collect_step tenant s st) =
      fold (\<lambda>e. AList.update (ed_id e) e) (edges_at tenant s (at_distance R x k)) d"
    by (simp add: st collect_step_def collect_fold_dict)
  ultimately show ?thesis
    using edges_at_step [OF assms(1) d, of "at_distance R x k"]
    by (simp add: collect_at_def R_def [symmetric] Let_def within_split [of R x k, symmetric])
qed

text \<open>With a depth the search makes that many rounds, but at least one; without it runs to the end.\<close>

lemma collect_at_finished:
  assumes "collect_at tenant s x k st" and "snd (snd st) = {}"
  shows "collect_at tenant s x (k + m) st"
proof -
  define R where "R = graph_steps BOTH tenant s"
  have empty: "at_distance R x k = {}" using assms by (simp add: collect_at_def R_def Let_def)
  with assms(1) at_distance_empty [OF empty, of 0] at_distance_empty [OF empty, of m] show ?thesis
    unfolding collect_at_def Let_def R_def [symmetric] by simp
qed

lemma collect_loop_depth:
  assumes "graph_ok s" and "collect_at tenant s x k st"
  shows "collect_at tenant s x (k + max 1 (nat r)) (collect_loop tenant s (Some r) st)"
  using assms(2)
proof (induction "nat r" arbitrary: r k st rule: less_induct)
  case less
  show ?case
  proof (cases "snd (snd st) = {}")
    case True
    then show ?thesis using collect_at_finished [OF less.prems True] by (simp add: collect_loop.simps)
  next
    case False
    have step: "collect_at tenant s x (Suc k) (collect_step tenant s st)" by (rule collect_at_step [OF assms(1) less.prems])
    show ?thesis
    proof (cases "r \<le> 1")
      case True
      then have "max 1 (nat r) = 1" by simp
      with False True step show ?thesis by (simp add: collect_loop.simps)
    next
      case r: False
      then have "nat r = Suc (nat (r - 1))" and "1 \<le> nat (r - 1)" by linarith+
      then have depth: "Suc k + max 1 (nat (r - 1)) = k + max 1 (nat r)" by simp
      have "collect_at tenant s x (Suc k + max 1 (nat (r - 1))) (collect_loop tenant s (Some (r - 1)) (collect_step tenant s st))"
        using r by (intro less.hyps step) simp
      then show ?thesis unfolding depth using False r by (subst collect_loop.simps) (simp add: Let_def)
    qed
  qed
qed

lemma collect_loop_all:
  assumes "graph_ok s" and "collect_at tenant s x k st"
  shows "\<exists>m. collect_at tenant s x m (collect_loop tenant s None st) \<and> snd (snd (collect_loop tenant s None st)) = {}"
  using assms(2)
proof (induction "(tenant, s, None :: int option, st)" arbitrary: k st rule: wf_induct_rule [OF wf_measures
    [of "[\<lambda>(_, s, _, st). unseen_ends s st, \<lambda>(_, _, _, st). if snd (snd st) = {} then 0 else 1]"]])
  case less: 1
  show ?case
  proof (cases "snd (snd st) = {}")
    case True
    with less.prems show ?thesis by (auto simp: collect_loop.simps)
  next
    case False
    have "collect_at tenant s x (Suc k) (collect_step tenant s st)" by (rule collect_at_step [OF assms(1) less.prems])
    from less.hyps [OF collect_step_measure [OF False] this] False show ?thesis
      by (subst (1 2) collect_loop.simps) (simp add: Let_def)
  qed
qed

section \<open>Serialisation\<close>

lemma legal_node_type_value_inject: "legal_node_type_value a = legal_node_type_value b \<Longrightarrow> a = b"
  by (cases a; cases b; simp)

lemma legal_edge_type_value_inject: "legal_edge_type_value a = legal_edge_type_value b \<Longrightarrow> a = b"
  by (cases a; cases b; simp)

lemma dict_by_Some:
  assumes "distinct (map key rows)"
  shows "dict_by key val rows k = Some v \<longleftrightarrow> (\<exists>r\<in>set rows. key r = k \<and> v = val r)"
proof -
  have "distinct (map fst (rev (map (\<lambda>r. (key r, val r)) rows)))"
    using assms by (simp add: rev_map [symmetric] comp_def)
  then show ?thesis unfolding dict_by_def by (subst map_of_eq_Some_iff) auto
qed

lemma dict_by_perm:
  assumes "distinct (map key rows)" and "mset rows = mset rows'"
  shows "dict_by key val rows = dict_by key val rows'"
proof
  fix k
  have "mset (map key rows) = mset (map key rows')" and rows: "set rows = set rows'"
    using assms(2) by (simp, rule mset_eq_setD)
  then have "distinct (map key rows')" using assms(1) by (metis mset_eq_imp_distinct_iff)
  with assms(1) rows have "dict_by key val rows k = Some v \<longleftrightarrow> dict_by key val rows' k = Some v" for v
    by (simp add: dict_by_Some)
  then show "dict_by key val rows k = dict_by key val rows' k" by (metis option.exhaust)
qed

lemma mset_filter_disjoint:
  "(\<And>r. r \<in> set rows \<Longrightarrow> \<not> (P r \<and> Q r)) \<Longrightarrow>
   mset (filter (\<lambda>r. P r \<or> Q r) rows) = mset (filter P rows) + mset (filter Q rows)"
  by (induction rows) auto

lemma map_filter_dict_by:
  assumes "distinct (map key rows)" and "distinct ids"
  shows "mset (List.map_filter (dict_by key val rows) ids) = mset (map val (filter (\<lambda>r. key r \<in> set ids) rows))"
  using assms(2)
proof (induction ids)
  case (Cons i ids)
  have split: "mset (map val (filter (\<lambda>r. key r \<in> set (i # ids)) rows)) =
      mset (map val (filter (\<lambda>r. key r = i) rows)) + mset (map val (filter (\<lambda>r. key r \<in> set ids) rows))"
    unfolding mset_map set_simps insert_iff
    by (subst mset_filter_disjoint) (use Cons.prems in auto)
  from filter_unique_key [OF assms(1), of i] consider
    "filter (\<lambda>r. key r = i) rows = []" | r where "filter (\<lambda>r. key r = i) rows = [r]" by auto
  then show ?case
  proof cases
    case 1
    then have "\<forall>r\<in>set rows. key r \<noteq> i" by (simp add: filter_empty_conv)
    then have "dict_by key val rows i = None" using dict_by_Some [OF assms(1), of val i] by (cases "dict_by key val rows i") auto
    with 1 Cons split show ?thesis by (simp add: map_filter_simps)
  next
    case 2
    then have "r \<in> set (filter (\<lambda>r. key r = i) rows)" by simp
    then have "dict_by key val rows i = Some (val r)" using dict_by_Some [OF assms(1), of val i] by auto
    with 2 Cons split show ?thesis by (simp add: map_filter_simps)
  qed
qed (simp add: List.map_filter_def)

definition edge_item_in :: "(string \<Rightarrow> legal_node option) \<Rightarrow> legal_edge \<Rightarrow> edge_item option" where
  "edge_item_in node_map e =
     (case (node_map (ed_src_node_id e), node_map (ed_dst_node_id e)) of
        (Some a, Some b) \<Rightarrow> Some
          \<lparr>ei_edge_type = legal_edge_type_value (ed_edge_type e), ei_src = node_ref_of a, ei_dst = node_ref_of b,
           ei_meta = ed_meta e\<rparr>
      | _ \<Rightarrow> None)"

lemma serialize_edge_list_map_filter: "serialize_edge_list m es = List.map_filter (edge_item_in m) es"
  by (induction es) (auto simp: edge_item_in_def map_filter_simps split: option.splits)

text \<open>The nodes and the edges of one tenant are determined by what identifies them in a result.\<close>

lemma node_ref_inj:
  assumes "graph_ok s" and "a \<in> set (nodes_at tenant s A)" and "b \<in> set (nodes_at tenant s A)"
    and "node_ref_of a = node_ref_of b"
  shows "a = b"
proof -
  have "inj_on (\<lambda>n. (nd_tenant_id n, nd_node_type n, nd_ref_id n)) (set (legal_nodes s))"
    using assms(1) by (simp add: graph_ok_def distinct_map)
  moreover have "a \<in> set (legal_nodes s)" "b \<in> set (legal_nodes s)" "nd_tenant_id a = nd_tenant_id b"
    using assms(2,3) by (auto simp: nodes_at_def)
  moreover have "nd_node_type a = nd_node_type b" "nd_ref_id a = nd_ref_id b"
    using assms(4) by (auto simp: node_ref_of_def dest: legal_node_type_value_inject)
  ultimately show ?thesis by (simp add: inj_on_def)
qed

lemma distinct_nodes_at: "graph_ok s \<Longrightarrow> distinct (map nd_id (nodes_at tenant s A))"
  unfolding graph_ok_def nodes_at_def using distinct_map_filter by blast

lemma edge_item_node:
  assumes "graph_ok s" and "dict_by nd_id (\<lambda>n. n) (nodes_at tenant s A) i = Some a"
  shows "nd_id a = i \<and> a \<in> set (nodes_at tenant s A)"
  using assms dict_by_Some [OF distinct_nodes_at, of s "\<lambda>n. n" tenant A i a] by auto

lemma edge_item_inj:
  assumes ok: "graph_ok s" and e: "e \<in> set (edges_at tenant s B)" and f: "f \<in> set (edges_at tenant s B)"
    and i: "edge_item_in (dict_by nd_id (\<lambda>n. n) (nodes_at tenant s A)) e = Some i"
    and j: "edge_item_in (dict_by nd_id (\<lambda>n. n) (nodes_at tenant s A)) f = Some j"
    and key: "edge_key i = edge_key j"
  shows "e = f"
proof -
  obtain a b where ab: "dict_by nd_id (\<lambda>n. n) (nodes_at tenant s A) (ed_src_node_id e) = Some a"
      "dict_by nd_id (\<lambda>n. n) (nodes_at tenant s A) (ed_dst_node_id e) = Some b"
      "ei_edge_type i = legal_edge_type_value (ed_edge_type e)" "ei_src i = node_ref_of a" "ei_dst i = node_ref_of b"
    using i by (auto simp: edge_item_in_def split: option.splits)
  obtain c d where cd: "dict_by nd_id (\<lambda>n. n) (nodes_at tenant s A) (ed_src_node_id f) = Some c"
      "dict_by nd_id (\<lambda>n. n) (nodes_at tenant s A) (ed_dst_node_id f) = Some d"
      "ei_edge_type j = legal_edge_type_value (ed_edge_type f)" "ei_src j = node_ref_of c" "ei_dst j = node_ref_of d"
    using j by (auto simp: edge_item_in_def split: option.splits)
  note nodes = edge_item_node [OF ok ab(1)] edge_item_node [OF ok ab(2)] edge_item_node [OF ok cd(1)] edge_item_node [OF ok cd(2)]
  have "node_ref_of a = node_ref_of c" "node_ref_of b = node_ref_of d" and ty: "ed_edge_type e = ed_edge_type f"
    using key ab cd by (auto simp: edge_key_def prod_eq_iff dest: legal_edge_type_value_inject)
  then have "a = c" "b = d" using nodes node_ref_inj [OF ok] by blast+
  then have "ed_src_node_id e = ed_src_node_id f" "ed_dst_node_id e = ed_dst_node_id f" using nodes by auto
  moreover have "inj_on (\<lambda>e. (ed_tenant_id e, ed_edge_type e, ed_src_node_id e, ed_dst_node_id e)) (set (legal_edges s))"
    using ok by (simp add: graph_ok_def distinct_map)
  moreover have "e \<in> set (legal_edges s)" "f \<in> set (legal_edges s)" "ed_tenant_id e = ed_tenant_id f"
    using e f by (auto simp: edges_at_def)
  ultimately show ?thesis using ty by (simp add: inj_on_def)
qed

lemma serialize_nodes_perm:
  assumes "graph_ok s" and "mset (nodes_at tenant s A) = mset ns"
  shows "serialize_nodes (nodes_at tenant s A) = serialize_nodes ns"
  unfolding serialize_nodes_def
proof (rule sort_key_inj_key_eq)
  show "mset (map node_item_of (nodes_at tenant s A)) = mset (sort_key (\<lambda>i. (ni_node_type i, ni_ref_id i)) (map node_item_of ns))"
    using assms(2) by simp
  show "inj_on (\<lambda>i. (ni_node_type i, ni_ref_id i)) (set (map node_item_of (nodes_at tenant s A)))"
    unfolding set_map
    by (rule inj_on_imageI, rule inj_onI) (use node_ref_inj [OF assms(1)] in \<open>auto simp: node_item_of_def node_ref_of_def\<close>)
qed simp

lemma serialize_edges_perm:
  assumes ok: "graph_ok s" and ns: "mset (nodes_at tenant s A) = mset ns" and es: "mset (edges_at tenant s B) = mset es"
  shows "serialize_edges (nodes_at tenant s A) (edges_at tenant s B) = serialize_edges ns es"
proof -
  let ?m = "dict_by nd_id (\<lambda>n. n) (nodes_at tenant s A)"
  have m: "dict_by nd_id (\<lambda>n. n) ns = ?m" by (rule dict_by_perm [symmetric, OF distinct_nodes_at [OF ok] ns])
  show ?thesis
    unfolding serialize_edges_def serialize_edge_list_map_filter m
  proof (rule sort_key_inj_key_eq)
    show "mset (List.map_filter (edge_item_in ?m) (edges_at tenant s B)) =
        mset (sort_key edge_key (List.map_filter (edge_item_in ?m) es))"
      using es by (simp add: List.map_filter_def)
    show "inj_on edge_key (set (List.map_filter (edge_item_in ?m) (edges_at tenant s B)))"
    proof (rule inj_onI)
      fix i j
      assume "i \<in> set (List.map_filter (edge_item_in ?m) (edges_at tenant s B))"
        and "j \<in> set (List.map_filter (edge_item_in ?m) (edges_at tenant s B))" and key: "edge_key i = edge_key j"
      then obtain e f where "e \<in> set (edges_at tenant s B)" "edge_item_in ?m e = Some i"
          "f \<in> set (edges_at tenant s B)" "edge_item_in ?m f = Some j"
        by (auto simp: List.map_filter_def)
      with edge_item_inj [OF ok _ _ _ _ key] show "i = j" by fastforce
    qed
  qed simp
qed

section \<open>Results of the queries\<close>

text \<open>
  The part of the tenant's graph on the nodes \<open>ids\<close> with the edges at the nodes \<open>inner\<close>, as the queries report it,
  and the references of the tenant's nodes among \<open>ids\<close>.
\<close>

definition subgraph :: "int \<Rightarrow> 'a fin_db_scheme \<Rightarrow> string set \<Rightarrow> string set \<Rightarrow> node_item list \<times> edge_item list" where
  "subgraph tenant s ids inner =
     (serialize_nodes (nodes_at tenant s ids), serialize_edges (nodes_at tenant s ids) (edges_at tenant s inner))"

definition layer_refs :: "int \<Rightarrow> 'a fin_db_scheme \<Rightarrow> string set \<Rightarrow> node_ref list" where
  "layer_refs tenant s ids = sort (map node_ref_of (nodes_at tenant s ids))"

definition lists_sets :: "(string set \<Rightarrow> string list) \<Rightarrow> bool" where
  "lists_sets iter \<longleftrightarrow> (\<forall>A. finite A \<longrightarrow> distinct (iter A) \<and> set (iter A) = A)"

lemma get_node_finds:
  assumes "graph_ok s" and "n \<in> set (legal_nodes s)"
  shows "get_node (nd_tenant_id n) (nd_node_type n) (nd_ref_id n) s = (Inr (Some n), s)"
proof -
  let ?key = "\<lambda>n. (nd_tenant_id n, nd_node_type n, nd_ref_id n)"
  have "node_scope (nd_tenant_id n) (nd_node_type n) (nd_ref_id n) = (\<lambda>x. ?key x = ?key n)"
    by (auto simp: node_scope_def fun_eq_iff)
  moreover have "distinct (map ?key (legal_nodes s))" using assms(1) by (simp add: graph_ok_def)
  ultimately show ?thesis
    using one_or_none_unique_key [of ?key "legal_nodes s" n] assms(2) by (simp add: get_node_def)
qed

lemma finite_within: "finite (within (graph_steps dir tenant s) x k)"
proof (induction k)
  case (Suc k)
  have "graph_steps dir tenant s `` within (graph_steps dir tenant s) x k \<subseteq> edge_ends s"
    by (auto simp: graph_steps_def edge_ends_def)
  with Suc show ?case using finite_subset [OF _ finite_edge_ends] by simp
qed simp

lemma layer_serialized:
  assumes "graph_ok s" and "lists_sets iter" and "finite A" and "A \<subseteq> V"
  shows "serialize_layer (dict_by nd_id node_ref_of (nodes_at tenant s V)) (iter A) = layer_refs tenant s A"
proof -
  have iter: "distinct (iter A)" "set (iter A) = A" using assms(2,3) by (auto simp: lists_sets_def)
  have "filter (\<lambda>n. nd_id n \<in> A) (nodes_at tenant s V) = nodes_at tenant s A"
    using assms(4) by (auto simp: nodes_at_def intro!: filter_cong)
  with map_filter_dict_by [OF distinct_nodes_at [OF assms(1)] iter(1), of node_ref_of tenant V] iter(2)
  show ?thesis unfolding serialize_layer_def layer_refs_def by (intro properties_for_sort) simp_all
qed

lemma subgraph_edges:
  assumes "graph_ok s" and "holds_edges d (set (edges_at tenant s B))"
  shows "serialize_edges (nodes_at tenant s A) (map snd d) = serialize_edges (nodes_at tenant s A) (edges_at tenant s B)"
  by (rule serialize_edges_perm [OF assms(1) refl, symmetric])
    (rule holds_edges_values [OF assms(2) distinct_edges_at [OF assms(1)], symmetric])

lemma distance_within: "i \<le> k \<Longrightarrow> at_distance R x i \<subseteq> within R x k"
  using within_mono [of i k R x] by (auto simp: at_distance_def)

lemma trace_start:
  assumes "lists_sets iter"
  shows "trace_at iter tenant dir s x 0 \<lparr>ts_current = {x}, ts_seen = {x}, ts_edges = [], ts_layers = [[x]]\<rparr>"
proof -
  have "distinct (iter {x})" "set (iter {x}) = {x}" using assms by (auto simp: lists_sets_def)
  then have "length (iter {x}) = 1" using distinct_card [of "iter {x}"] by simp
  with \<open>set (iter {x}) = {x}\<close> have "iter {x} = [x]" by (cases "iter {x}") auto
  then show ?thesis by (simp add: trace_at_def at_distance_def holds_edges_def edges_at_def)
qed

lemma trace_reports:
  assumes "graph_ok s" and "lists_sets iter" and "n \<in> set (legal_nodes s)" and "nd_tenant_id n = tenant"
  shows "\<exists>r. trace iter tenant (nd_node_type n) (nd_ref_id n) depth dir s = (Inr r, s) \<and>
    (tr_nodes r, tr_edges r) =
      subgraph tenant s (within (graph_steps dir tenant s) (nd_id n) (nat depth))
        (within_before (graph_steps dir tenant s) (nd_id n) (nat depth)) \<and>
    tr_layers r = map (\<lambda>k. layer_refs tenant s (at_distance (graph_steps dir tenant s) (nd_id n) k))
      (filter (\<lambda>k. at_distance (graph_steps dir tenant s) (nd_id n) k \<noteq> {}) [0..<Suc (nat depth)])"
proof -
  define R where "R = graph_steps dir tenant s"
  define st where "st = trace_loop iter tenant dir s (nat depth)
    \<lparr>ts_current = {nd_id n}, ts_seen = {nd_id n}, ts_edges = [], ts_layers = [[nd_id n]]\<rparr>"
  have "trace_at iter tenant dir s (nd_id n) (nat depth) st"
    using trace_loop_at [OF assms(1) trace_start [OF assms(2)], of tenant dir "nd_id n" "nat depth"] by (simp add: st_def)
  then have st: "ts_seen st = within R (nd_id n) (nat depth)"
      "holds_edges (ts_edges st) (set (edges_at tenant s (within_before R (nd_id n) (nat depth))))"
      "ts_layers st = map (\<lambda>i. iter (at_distance R (nd_id n) i)) (filter (\<lambda>i. at_distance R (nd_id n) i \<noteq> {}) [0..<Suc (nat depth)])"
    by (simp_all add: trace_at_def R_def Let_def)
  have layers: "map (serialize_layer (dict_by nd_id node_ref_of (nodes_at tenant s (within R (nd_id n) (nat depth))))) (ts_layers st) =
    map (\<lambda>k. layer_refs tenant s (at_distance R (nd_id n) k)) (filter (\<lambda>k. at_distance R (nd_id n) k \<noteq> {}) [0..<Suc (nat depth)])"
  proof -
    have "serialize_layer (dict_by nd_id node_ref_of (nodes_at tenant s (within R (nd_id n) (nat depth)))) (iter (at_distance R (nd_id n) k)) =
        layer_refs tenant s (at_distance R (nd_id n) k)" if "k \<le> nat depth" for k
      using distance_within [OF that, of R "nd_id n"] finite_within [of dir tenant s "nd_id n" "nat depth"]
      by (intro layer_serialized assms) (auto simp: R_def intro: finite_subset)
    then show ?thesis unfolding st(3) map_map by (intro map_cong refl) (auto split: if_splits)
  qed
  show ?thesis
    unfolding R_def [symmetric]
    using get_node_finds [OF assms(1,3)] layers subgraph_edges [OF assms(1) st(2)]
    by (simp add: trace_def assms(4) st_def [symmetric] st(1) subgraph_def Let_def)
qed

text \<open>C28. A trace of a node of the tenant, in any direction and to any depth, reports exactly the tenant's nodes that
  are at most \<open>depth\<close> steps away, in the order of type and reference; the edges at the nodes fewer steps away that join
  reported nodes; and one layer per distance. It depends neither on the order in which Python lists a set nor
  on that of the rows, and it never reports a node or an edge of another tenant.\<close>

theorem trace_within_depth:
  assumes "graph_ok s" and "lists_sets iter" and "n \<in> set (legal_nodes s)" and "nd_tenant_id n = tenant"
  shows "\<exists>r. trace iter tenant (nd_node_type n) (nd_ref_id n) depth dir s = (Inr r, s) \<and>
    (tr_nodes r, tr_edges r) =
      subgraph tenant s {y. \<exists>k\<le>nat depth. (nd_id n, y) \<in> graph_steps dir tenant s ^^ k}
        {y. \<exists>k<nat depth. (nd_id n, y) \<in> graph_steps dir tenant s ^^ k} \<and>
    tr_layers r = map (\<lambda>k. layer_refs tenant s (at_distance (graph_steps dir tenant s) (nd_id n) k))
      (filter (\<lambda>k. at_distance (graph_steps dir tenant s) (nd_id n) k \<noteq> {}) [0..<Suc (nat depth)])"
  unfolding within_eq [symmetric] within_before_eq [symmetric] by (rule trace_reports [OF assms])

text \<open>A closing package with its document and period, and a document of another tenant that was linked by mistake.\<close>

definition ref_node :: "string \<Rightarrow> int \<Rightarrow> legal_node_type \<Rightarrow> legal_node" where
  "ref_node i tenant ty = \<lparr>nd_id = i, nd_tenant_id = tenant, nd_node_type = ty, nd_ref_id = i, nd_ref_table = None, nd_hash = None\<rparr>"

definition ref_edge :: "string \<Rightarrow> legal_edge_type \<Rightarrow> string \<Rightarrow> string \<Rightarrow> legal_edge" where
  "ref_edge i ty a b = \<lparr>ed_id = i, ed_tenant_id = 1, ed_edge_type = ty, ed_src_node_id = a, ed_dst_node_id = b, ed_meta = None\<rparr>"

definition ref_graph_db :: graph_db where
  "ref_graph_db = fin_db.extend
     (empty_fin_db
        \<lparr>legal_nodes := [ref_node ''package'' 1 NODE_CLOSING_PACKAGE, ref_node ''act'' 1 NODE_DOCUMENT,
           ref_node ''july'' 1 NODE_BILLING_PERIOD, ref_node ''other'' 2 NODE_DOCUMENT],
         legal_edges := [ref_edge ''e1'' EDGE_INCLUDES ''package'' ''act'', ref_edge ''e2'' EDGE_CLOSES ''package'' ''july'',
           ref_edge ''e3'' EDGE_INCLUDES ''package'' ''other'']\<rparr>)
     (graph_db.fields [])"

lemma ref_graph_tables:
  "legal_nodes ref_graph_db = [ref_node ''package'' 1 NODE_CLOSING_PACKAGE, ref_node ''act'' 1 NODE_DOCUMENT,
     ref_node ''july'' 1 NODE_BILLING_PERIOD, ref_node ''other'' 2 NODE_DOCUMENT]"
  "legal_edges ref_graph_db = [ref_edge ''e1'' EDGE_INCLUDES ''package'' ''act'', ref_edge ''e2'' EDGE_CLOSES ''package'' ''july'',
     ref_edge ''e3'' EDGE_INCLUDES ''package'' ''other'']"
  "legal_graph_snapshots ref_graph_db = []"
  by (simp_all add: ref_graph_db_def fin_db.extend_def graph_db.fields_def empty_fin_db_def)

lemma ref_graph_ok: "graph_ok ref_graph_db"
  by (simp add: graph_ok_def ref_graph_tables ref_node_def ref_edge_def)

lemma sorted_lists_sets: "lists_sets sorted_list_of_set"
  by (simp add: lists_sets_def)

theorem trace_within_depth_witness:
  "\<exists>r. trace sorted_list_of_set 1 NODE_DOCUMENT ''act'' 2 UPSTREAM ref_graph_db = (Inr r, ref_graph_db) \<and>
    (tr_nodes r, tr_edges r) =
      subgraph 1 ref_graph_db {y. \<exists>k\<le>nat 2. (''act'', y) \<in> graph_steps UPSTREAM 1 ref_graph_db ^^ k}
        {y. \<exists>k<nat 2. (''act'', y) \<in> graph_steps UPSTREAM 1 ref_graph_db ^^ k}"
  using trace_within_depth [OF ref_graph_ok sorted_lists_sets, of "ref_node ''act'' 1 NODE_DOCUMENT" 1 2 UPSTREAM]
  by (auto simp: ref_graph_tables(1) ref_node_def)

section \<open>The connected part\<close>

lemma collect_start: "collect_at tenant s x 0 ([], {x}, {x})"
  by (simp add: collect_at_def at_distance_def holds_edges_def edges_at_def)

lemma collect_subgraph:
  assumes "graph_ok s" and "n \<in> set (legal_nodes s)" and "nd_tenant_id n = tenant" and "nd_node_type n = scope_node_type scope"
    and "collect_at tenant s (nd_id n) k (collect_loop tenant s depth ([], {nd_id n}, {nd_id n}))"
  shows "collect_connected_subgraph tenant scope (nd_ref_id n) depth s =
    (Inr (subgraph tenant s (within (graph_steps BOTH tenant s) (nd_id n) k) (within_before (graph_steps BOTH tenant s) (nd_id n) k)), s)"
proof -
  let ?R = "graph_steps BOTH tenant s"
  obtain d where d: "collect_loop tenant s depth ([], {nd_id n}, {nd_id n}) = (d, within ?R (nd_id n) k, at_distance ?R (nd_id n) k)"
      "holds_edges d (set (edges_at tenant s (within_before ?R (nd_id n) k)))"
    using assms(5) by (cases "collect_loop tenant s depth ([], {nd_id n}, {nd_id n})") (simp add: collect_at_def Let_def)
  show ?thesis
    using get_node_finds [OF assms(1,2)] subgraph_edges [OF assms(1) d(2)]
    by (simp add: collect_connected_subgraph_def assms(3) assms(4) [symmetric] d(1) subgraph_def Let_def)
qed

lemma collect_with_depth:
  assumes "graph_ok s" and "n \<in> set (legal_nodes s)" and "nd_tenant_id n = tenant" and "nd_node_type n = scope_node_type scope"
  shows "collect_connected_subgraph tenant scope (nd_ref_id n) (Some depth) s =
    (Inr (subgraph tenant s (within (graph_steps BOTH tenant s) (nd_id n) (nat (max 1 depth)))
      (within_before (graph_steps BOTH tenant s) (nd_id n) (nat (max 1 depth)))), s)"
proof (rule collect_subgraph [OF assms])
  have depth: "nat (max 1 depth) = max 1 (nat depth)" by simp
  show "collect_at tenant s (nd_id n) (nat (max 1 depth)) (collect_loop tenant s (Some depth) ([], {nd_id n}, {nd_id n}))"
    unfolding depth using collect_loop_depth [OF assms(1) collect_start, of tenant "nd_id n" depth] by simp
qed

text \<open>C29. Without a depth the search of a scope ends and returns the whole connected component of the scope's node in
  the tenant's graph, with all its edges. With a depth it returns what lies within that many steps, but never stops
  before the first: depth zero and negative depths count as one. For positive depths the result is that of a trace
  in both directions.\<close>

theorem collect_connected_component:
  assumes "graph_ok s" and "n \<in> set (legal_nodes s)" and "nd_tenant_id n = tenant" and "nd_node_type n = scope_node_type scope"
    and "lists_sets iter"
  shows "collect_connected_subgraph tenant scope (nd_ref_id n) None s =
      (Inr (subgraph tenant s ((graph_steps BOTH tenant s)\<^sup>* `` {nd_id n}) ((graph_steps BOTH tenant s)\<^sup>* `` {nd_id n})), s) \<and>
    collect_connected_subgraph tenant scope (nd_ref_id n) (Some depth) s =
      map_prod (map_sum id (\<lambda>r. (tr_nodes r, tr_edges r))) id
        (trace iter tenant (nd_node_type n) (nd_ref_id n) (max 1 depth) BOTH s)"
proof -
  let ?R = "graph_steps BOTH tenant s"
  obtain k where k: "collect_at tenant s (nd_id n) k (collect_loop tenant s None ([], {nd_id n}, {nd_id n}))"
      "snd (snd (collect_loop tenant s None ([], {nd_id n}, {nd_id n}))) = {}"
    using collect_loop_all [OF assms(1) collect_start] by blast
  then have empty: "at_distance ?R (nd_id n) k = {}" by (simp add: collect_at_def Let_def)
  from collect_subgraph [OF assms(1-4) k(1)] at_distance_empty [OF empty, of 0] within_rtrancl [OF empty]
  have all: "collect_connected_subgraph tenant scope (nd_ref_id n) None s =
      (Inr (subgraph tenant s (?R\<^sup>* `` {nd_id n}) (?R\<^sup>* `` {nd_id n})), s)" by simp
  obtain r where "trace iter tenant (nd_node_type n) (nd_ref_id n) (max 1 depth) BOTH s = (Inr r, s)"
      "collect_connected_subgraph tenant scope (nd_ref_id n) (Some depth) s = (Inr (tr_nodes r, tr_edges r), s)"
    using trace_reports [OF assms(1,5,2,3), of "max 1 depth" BOTH] collect_with_depth [OF assms(1-4), of depth] by auto
  with all show ?thesis by simp
qed

theorem collect_connected_component_witness:
  "collect_connected_subgraph 1 SCOPE_CLOSING_PACKAGE ''package'' None ref_graph_db =
      (Inr (subgraph 1 ref_graph_db ((graph_steps BOTH 1 ref_graph_db)\<^sup>* `` {''package''})
        ((graph_steps BOTH 1 ref_graph_db)\<^sup>* `` {''package''})), ref_graph_db) \<and>
    collect_connected_subgraph 1 SCOPE_CLOSING_PACKAGE ''package'' (Some 0) ref_graph_db =
      map_prod (map_sum id (\<lambda>r. (tr_nodes r, tr_edges r))) id
        (trace sorted_list_of_set 1 NODE_CLOSING_PACKAGE ''package'' (max 1 0) BOTH ref_graph_db)"
  using collect_connected_component [OF ref_graph_ok _ _ _ sorted_lists_sets,
    of "ref_node ''package'' 1 NODE_CLOSING_PACKAGE" 1 SCOPE_CLOSING_PACKAGE 0]
  by (simp add: ref_graph_tables(1) ref_node_def)

end
