(* ===== verification/Graph_Snapshots.thy ===== *)
theory Graph_Snapshots
  imports Graph_Properties
begin

text \<open>
  Snapshots of the legal graph as evidence: a snapshot is stored once per content, whatever the order of the rows,
  and its hash binds the nodes and edges that it reports.
\<close>

section \<open>The order of the rows\<close>

definition same_graph :: "'a fin_db_scheme \<Rightarrow> 'a fin_db_scheme \<Rightarrow> bool" where
  "same_graph s t \<longleftrightarrow> mset (legal_nodes s) = mset (legal_nodes t) \<and> mset (legal_edges s) = mset (legal_edges t)"

lemma same_graph_ok:
  assumes "same_graph s t" and "graph_ok s"
  shows "graph_ok t"
proof -
  have nodes: "distinct (map f (legal_nodes s)) \<longleftrightarrow> distinct (map f (legal_nodes t))" for f :: "legal_node \<Rightarrow> 'b"
    by (rule mset_eq_imp_distinct_iff) (use assms(1) in \<open>simp add: same_graph_def\<close>)
  have edges: "distinct (map f (legal_edges s)) \<longleftrightarrow> distinct (map f (legal_edges t))" for f :: "legal_edge \<Rightarrow> 'b"
    by (rule mset_eq_imp_distinct_iff) (use assms(1) in \<open>simp add: same_graph_def\<close>)
  show ?thesis using assms(2) unfolding graph_ok_def nodes edges .
qed

lemma same_graph_steps: "same_graph s t \<Longrightarrow> graph_steps dir tenant s = graph_steps dir tenant t"
  by (auto simp: graph_steps_def same_graph_def dest: mset_eq_setD)

lemma same_graph_subgraph:
  assumes "same_graph s t" and "graph_ok s"
  shows "subgraph tenant s A B = subgraph tenant t A B"
proof -
  have nodes: "mset (nodes_at tenant s A) = mset (nodes_at tenant t A)"
    using assms(1) by (simp add: nodes_at_def same_graph_def)
  moreover have "mset (edges_at tenant s B) = mset (edges_at tenant t B)"
    using assms(1) by (simp add: edges_at_def same_graph_def)
  ultimately show ?thesis
    unfolding subgraph_def using serialize_nodes_perm [OF assms(2) nodes] serialize_edges_perm [OF assms(2) nodes] by simp
qed

text \<open>With the constraints of the table a lookup finds the node of the scope or reports that there is none.\<close>

lemma get_node_cases:
  assumes "graph_ok s"
  obtains n where "n \<in> set (legal_nodes s)" "nd_tenant_id n = tenant" "nd_node_type n = ty" "nd_ref_id n = ref"
  | "get_node tenant ty ref s = (Inr None, s)" "\<forall>n\<in>set (legal_nodes s). \<not> node_scope tenant ty ref n"
  by (cases "\<exists>n\<in>set (legal_nodes s). node_scope tenant ty ref n") (auto simp: node_scope_def get_node_def)

lemma collect_same_graph:
  assumes "same_graph s t" and "graph_ok s"
  obtains r where "collect_connected_subgraph tenant scope ref (Some depth) s = (Inr r, s)"
    and "collect_connected_subgraph tenant scope ref (Some depth) t = (Inr r, t)"
proof -
  have ok: "graph_ok t" by (rule same_graph_ok [OF assms])
  have nodes: "set (legal_nodes t) = set (legal_nodes s)" using assms(1) by (auto simp: same_graph_def dest: mset_eq_setD)
  from get_node_cases [OF assms(2), of tenant "scope_node_type scope" ref] show thesis
  proof cases
    case (1 n)
    from collect_with_depth [OF assms(2) 1(1-3), of depth] collect_with_depth [OF ok _ 1(2,3), of depth] 1 nodes
      same_graph_subgraph [OF assms] same_graph_steps [OF assms(1), of BOTH tenant]
    show thesis by (intro that) simp_all
  next
    case 2
    with nodes have "get_node tenant (scope_node_type scope) ref t = (Inr None, t)" by (simp add: get_node_def)
    with 2 show thesis by (intro that [of "([], [])"]) (simp_all add: collect_connected_subgraph_def)
  qed
qed

lemma build_payload_same_graph:
  assumes "same_graph s t" and "graph_ok s" and "build_snapshot_payload w tenant scope ref (Some depth) s = (Inr p, s')"
  shows "build_snapshot_payload w tenant scope ref (Some depth) t = (Inr p, t)" and "s' = s"
proof -
  obtain r where r: "collect_connected_subgraph tenant scope ref (Some depth) s = (Inr r, s)"
      "collect_connected_subgraph tenant scope ref (Some depth) t = (Inr r, t)"
    by (rule collect_same_graph [OF assms(1,2)])
  with assms(3) show "build_snapshot_payload w tenant scope ref (Some depth) t = (Inr p, t)" "s' = s"
    by (auto simp: build_snapshot_payload_def Let_def and_then_def split: if_splits prod.splits)
qed

section \<open>A snapshot is stored once\<close>

definition graph_snapshot_scope :: "legal_graph_snapshot \<Rightarrow> int \<times> snapshot_scope_type \<times> string \<times> string" where
  "graph_snapshot_scope r = (gs_tenant_id r, gs_scope_type r, gs_scope_ref_id r, gs_snapshot_hash r)"

definition graph_snapshots_ok :: "'a graph_db_scheme \<Rightarrow> bool" where
  "graph_snapshots_ok s \<longleftrightarrow> graph_ok s \<and> distinct (map graph_snapshot_scope (legal_graph_snapshots s))"

lemma same_graph_snapshot_scope:
  "same_graph_snapshot q h = (\<lambda>r. graph_snapshot_scope r = (gc_tenant_id q, gc_scope_type q, gc_scope_ref_id q, h))"
  by (auto simp: same_graph_snapshot_def graph_snapshot_scope_def fun_eq_iff)

lemma create_snapshotE:
  assumes "create_snapshot w q s = (Inr r, s')" and "graph_snapshots_ok s"
  obtains p where "build_snapshot_payload w (gc_tenant_id q) (gc_scope_type q) (gc_scope_ref_id q) (Some (gc_depth q)) s = (Inr p, s)"
    and "one_or_none (same_graph_snapshot q (sp_snapshot_hash p)) (legal_graph_snapshots s') = Inr (Some r)"
    and "graph_snapshots_ok s'" and "same_graph s s'"
proof -
  let ?build = "build_snapshot_payload w (gc_tenant_id q) (gc_scope_type q) (gc_scope_ref_id q) (Some (gc_depth q))"
  from assms(1) obtain p t where t: "?build s = (Inr p, t)"
    by (auto simp: create_snapshot_def and_then_Inr_iff)
  have "t = s"
    using build_payload_same_graph(2) [OF _ _ t, of s] assms(2) by (simp add: same_graph_def graph_snapshots_ok_def)
  with t have p: "?build s = (Inr p, s)" by simp
  from one_or_none_unique_total [of graph_snapshot_scope "legal_graph_snapshots s"] assms(2)
  obtain x where x: "one_or_none (same_graph_snapshot q (sp_snapshot_hash p)) (legal_graph_snapshots s) = Inr x"
    unfolding same_graph_snapshot_scope graph_snapshots_ok_def by blast
  show thesis
  proof (cases x)
    case (Some y)
    with assms(1) p x have "r = y" "s' = s" by (auto simp: create_snapshot_def)
    with Some x p assms(2) show thesis by (intro that [of p]) (simp_all add: same_graph_def)
  next
    case None
    with x have fresh: "\<forall>y\<in>set (legal_graph_snapshots s). \<not> same_graph_snapshot q (sp_snapshot_hash p) y" by simp
    have "create_snapshot w q s = (Inr (new_graph_snapshot q p (uuid_at w (tick s))), snd (create_snapshot w q s))"
        "legal_graph_snapshots (snd (create_snapshot w q s)) =
           legal_graph_snapshots s @ [new_graph_snapshot q p (uuid_at w (tick s))]"
        "legal_nodes (snd (create_snapshot w q s)) = legal_nodes s" "legal_edges (snd (create_snapshot w q s)) = legal_edges s"
      by (simp_all add: create_snapshot_def p x None audit_created_def audit_apply Let_def)
    with assms(1) have r: "r = new_graph_snapshot q p (uuid_at w (tick s))"
      and s': "legal_graph_snapshots s' = legal_graph_snapshots s @ [r]" "legal_nodes s' = legal_nodes s" "legal_edges s' = legal_edges s"
      by simp_all
    have key: "graph_snapshot_scope r = (gc_tenant_id q, gc_scope_type q, gc_scope_ref_id q, sp_snapshot_hash p)"
      by (simp add: r graph_snapshot_scope_def new_graph_snapshot_def)
    have ok: "graph_snapshots_ok s'"
      using assms(2) fresh key unfolding same_graph_snapshot_scope by (auto simp: graph_snapshots_ok_def graph_ok_def s')
    have "one_or_none (same_graph_snapshot q (sp_snapshot_hash p)) (legal_graph_snapshots s') = Inr (Some r)"
      unfolding same_graph_snapshot_scope key [symmetric]
      using ok by (intro one_or_none_unique_key) (simp_all add: graph_snapshots_ok_def s')
    then show thesis by (rule that [OF p _ ok]) (simp add: same_graph_def s')
  qed
qed

lemma create_snapshot_again:
  assumes "graph_snapshots_ok s" and "create_snapshot w q s = (Inr r, s')"
    and "same_graph s' t" and "legal_graph_snapshots t = legal_graph_snapshots s'"
  shows "create_snapshot w q t = (Inr r, t)"
  using assms(2,1)
proof (rule create_snapshotE)
  fix p
  assume "build_snapshot_payload w (gc_tenant_id q) (gc_scope_type q) (gc_scope_ref_id q) (Some (gc_depth q)) s = (Inr p, s)"
    and r: "one_or_none (same_graph_snapshot q (sp_snapshot_hash p)) (legal_graph_snapshots s') = Inr (Some r)"
    and "same_graph s s'"
  moreover have "same_graph s t" using \<open>same_graph s s'\<close> assms(3) by (simp add: same_graph_def)
  ultimately have "build_snapshot_payload w (gc_tenant_id q) (gc_scope_type q) (gc_scope_ref_id q) (Some (gc_depth q)) t = (Inr p, t)"
    using build_payload_same_graph(1) assms(1) by (auto simp: graph_snapshots_ok_def)
  with r assms(4) show ?thesis by (simp add: create_snapshot_def)
qed

lemma create_snapshot_total:
  assumes "graph_snapshots_ok s"
    and p: "build_snapshot_payload w (gc_tenant_id q) (gc_scope_type q) (gc_scope_ref_id q) (Some (gc_depth q)) s = (Inr p, s)"
  shows "\<exists>r. fst (create_snapshot w q s) = Inr r"
proof -
  from one_or_none_unique_total [of graph_snapshot_scope "legal_graph_snapshots s"] assms(1)
  obtain x where x: "one_or_none (same_graph_snapshot q (sp_snapshot_hash p)) (legal_graph_snapshots s) = Inr x"
    unfolding same_graph_snapshot_scope graph_snapshots_ok_def by blast
  show ?thesis
    by (cases x) (simp_all add: create_snapshot_def p x audit_created_def audit_apply Let_def del: one_or_none_None)
qed

lemma build_payload_reads:
  assumes "graph_ok s"
  shows "snd (build_snapshot_payload w tenant scope ref (Some depth) s) = s"
proof -
  have "same_graph s s" by (simp add: same_graph_def)
  then obtain ns es where "collect_connected_subgraph tenant scope ref (Some depth) s = (Inr (ns, es), s)"
    using collect_same_graph assms by (metis surj_pair)
  then show ?thesis by (cases "ns = []") (simp_all add: build_snapshot_payload_def Let_def)
qed

lemma create_snapshot_keeps:
  assumes "graph_snapshots_ok s"
  shows "graph_snapshots_ok (snd (create_snapshot w q s))"
proof -
  let ?build = "build_snapshot_payload w (gc_tenant_id q) (gc_scope_type q) (gc_scope_ref_id q) (Some (gc_depth q)) s"
  have "snd ?build = s" using assms by (simp add: graph_snapshots_ok_def build_payload_reads)
  then consider p where "?build = (Inr p, s)" | e where "?build = (Inl e, s)" by (metis prod.collapse sum.exhaust)
  then show ?thesis
  proof cases
    case (1 p)
    obtain r where "create_snapshot w q s = (Inr r, snd (create_snapshot w q s))"
      using create_snapshot_total [OF assms 1] by (metis prod.collapse)
    from create_snapshotE [OF this assms] show ?thesis by blast
  next
    case (2 e)
    then have "snd (create_snapshot w q s) = s" by (simp add: create_snapshot_def)
    with assms show ?thesis by simp
  qed
qed

interpretation graph_snapshot_retry: idempotent_operation "create_snapshot w" graph_snapshots_ok "\<lambda>r. r" for w
  by unfold_locales (auto intro: create_snapshot_keeps elim: create_snapshot_again simp: same_graph_def)

text \<open>A snapshot of an unchanged graph is not stored again: after a snapshot was created, the same request returns
  it and changes nothing, any number of times; also when the rows of the graph come in another order and whatever
  happened to the other tables in the meantime.\<close>

theorem snapshot_reproducible:
  assumes "graph_snapshots_ok s" and "create_snapshot w q s = (Inr r, s')"
    and "same_graph s' t" and "legal_graph_snapshots t = legal_graph_snapshots s'"
  shows "retried k (create_snapshot w q) s = (Inr r, s') \<and> create_snapshot w q t = (Inr r, t)"
  using graph_snapshot_retry.retried_same [OF assms(1,2), of k] create_snapshot_again [OF assms] by simp

definition ref_snapshot_call :: graph_snapshot_call where
  "ref_snapshot_call = \<lparr>gc_tenant_id = 1, gc_scope_type = SCOPE_CLOSING_PACKAGE, gc_scope_ref_id = ''package'',
     gc_depth = 3, gc_request_ctx = None\<rparr>"

lemma ref_snapshots_ok: "graph_snapshots_ok ref_graph_db"
  by (simp add: graph_snapshots_ok_def ref_graph_ok ref_graph_tables)

lemma ref_snapshot_created: "\<exists>r. create_snapshot w ref_snapshot_call ref_graph_db = (Inr r, snd (create_snapshot w ref_snapshot_call ref_graph_db))"
proof -
  have n: "ref_node ''package'' 1 NODE_CLOSING_PACKAGE \<in> set (legal_nodes ref_graph_db)" by (simp add: ref_graph_tables)
  obtain es where es: "collect_connected_subgraph 1 SCOPE_CLOSING_PACKAGE ''package'' (Some 3) ref_graph_db =
      (Inr (serialize_nodes (nodes_at 1 ref_graph_db (within (graph_steps BOTH 1 ref_graph_db) ''package'' 3)), es), ref_graph_db)"
    using collect_with_depth [OF ref_graph_ok n, of 1 SCOPE_CLOSING_PACKAGE 3] by (simp add: ref_node_def subgraph_def)
  have "ref_node ''package'' 1 NODE_CLOSING_PACKAGE \<in>
      set (nodes_at 1 ref_graph_db (within (graph_steps BOTH 1 ref_graph_db) ''package'' 3))"
    using n start_within [of "''package''"] by (auto simp: nodes_at_def ref_node_def)
  then have "serialize_nodes (nodes_at 1 ref_graph_db (within (graph_steps BOTH 1 ref_graph_db) ''package'' 3)) \<noteq> []"
    by (auto simp: serialize_nodes_def simp flip: set_empty)
  with es have "\<exists>p. build_snapshot_payload w 1 SCOPE_CLOSING_PACKAGE ''package'' (Some 3) ref_graph_db = (Inr p, ref_graph_db)"
    by (simp add: build_snapshot_payload_def Let_def)
  then have "\<exists>r. fst (create_snapshot w ref_snapshot_call ref_graph_db) = Inr r"
    using create_snapshot_total [OF ref_snapshots_ok, of w ref_snapshot_call] by (auto simp: ref_snapshot_call_def)
  then show ?thesis by (metis prod.collapse)
qed

theorem snapshot_reproducible_witness:
  "\<exists>r s'. create_snapshot ref_world ref_snapshot_call ref_graph_db = (Inr r, s') \<and>
     retried 3 (create_snapshot ref_world ref_snapshot_call) ref_graph_db = (Inr r, s') \<and>
     create_snapshot ref_world ref_snapshot_call (s'\<lparr>legal_nodes := rev (legal_nodes s')\<rparr>) = (Inr r, s'\<lparr>legal_nodes := rev (legal_nodes s')\<rparr>)"
proof -
  obtain r s' where run: "create_snapshot ref_world ref_snapshot_call ref_graph_db = (Inr r, s')"
    using ref_snapshot_created by blast
  from snapshot_reproducible [OF ref_snapshots_ok run, of "s'\<lparr>legal_nodes := rev (legal_nodes s')\<rparr>" 3] run
  show ?thesis by (auto simp: same_graph_def)
qed

section \<open>What the hash of a snapshot binds\<close>

text \<open>An edge as the hash sees it: the metadata up to the order of its keys.\<close>

definition edge_evidence :: "edge_item \<Rightarrow> string \<times> node_ref \<times> node_ref \<times> pyval" where
  "edge_evidence i = (ei_edge_type i, ei_src i, ei_dst i, normalize_value (opt_dict (ei_meta i)))"

lemma normalize_opt_str: "normalize_value (opt_str x) = opt_str x"
  by (cases x) (simp_all add: opt_str_def)

lemma normalize_node_json:
  "normalize_value (node_json i) = PDict
     [(''hash'', opt_str (ni_hash i)), (''node_type'', PStr (ni_node_type i)), (''ref_id'', PStr (ni_ref_id i)),
      (''ref_table'', opt_str (ni_ref_table i))]"
  by (simp add: node_json_def normalize_opt_str)

lemma normalize_edge_json:
  "normalize_value (edge_json i) = PDict
     [(''dst'', ref_json (ei_dst i)), (''edge_type'', PStr (ei_edge_type i)),
      (''meta'', normalize_value (opt_dict (ei_meta i))), (''src'', ref_json (ei_src i))]"
  by (simp add: edge_json_def ref_json_def)

lemma opt_str_inject: "opt_str x = opt_str y \<Longrightarrow> x = y"
  by (cases x; cases y) (simp_all add: opt_str_def)

lemma node_json_inject: "normalize_value (node_json i) = normalize_value (node_json j) \<Longrightarrow> i = j"
  unfolding normalize_node_json by (rule node_item.equality) (simp_all add: opt_str_inject)

lemma edge_json_inject: "normalize_value (edge_json i) = normalize_value (edge_json j) \<Longrightarrow> edge_evidence i = edge_evidence j"
  by (auto simp: normalize_edge_json edge_evidence_def ref_json_def prod_eq_iff)

lemma map_eq_inject:
  assumes "\<And>x y. f x = f y \<Longrightarrow> g x = g y" and "map f xs = map f ys"
  shows "map g xs = map g ys"
  using assms(2)
proof (induction xs arbitrary: ys)
  case (Cons x xs)
  from Cons.prems obtain y zs where ys: "ys = y # zs" and eq: "f x = f y" "map f xs = map f zs"
    by (cases ys) simp_all
  from assms(1) [OF eq(1)] Cons.IH [OF eq(2)] show ?case by (simp add: ys)
qed simp

lemma scope_value_inject: "scope_value a = scope_value b \<Longrightarrow> a = b"
  by (cases a; cases b) (simp_all add: scope_value_def)

lemma snapshot_json_inject:
  assumes "normalize_value (snapshot_json scope ref ns es) = normalize_value (snapshot_json scope' ref' ns' es')"
  shows "scope = scope' \<and> ref = ref' \<and> ns = ns' \<and> map edge_evidence es = map edge_evidence es'"
proof -
  from assms have "scope_value scope = scope_value scope'" "ref = ref'"
    and nodes: "map (\<lambda>i. normalize_value (node_json i)) ns = map (\<lambda>i. normalize_value (node_json i)) ns'"
    and edges: "map (\<lambda>i. normalize_value (edge_json i)) es = map (\<lambda>i. normalize_value (edge_json i)) es'"
    by (simp_all add: snapshot_json_def comp_def)
  moreover have "map (\<lambda>i. i) ns = map (\<lambda>i. i) ns'" by (rule map_eq_inject [OF _ nodes]) (rule node_json_inject)
  moreover have "map edge_evidence es = map edge_evidence es'" by (rule map_eq_inject [OF _ edges]) (rule edge_json_inject)
  ultimately show ?thesis by (auto dest: scope_value_inject)
qed

lemma wf_opt_str: "wf_pyval (opt_str x)"
  by (cases x) (simp_all add: opt_str_def)

lemma snapshot_json_wf:
  assumes "\<forall>e\<in>set es. wf_pyval (opt_dict (ei_meta e))"
  shows "wf_pyval (snapshot_json scope ref ns es)"
  using assms by (auto simp: snapshot_json_def node_json_def edge_json_def ref_json_def wf_opt_str)

text \<open>The keys of metadata are distinct, as in every Python dictionary.\<close>

definition metas_wf :: "'a fin_db_scheme \<Rightarrow> bool" where
  "metas_wf s \<longleftrightarrow> (\<forall>e\<in>set (legal_edges s). wf_pyval (opt_dict (ed_meta e)))"

lemma serialized_meta:
  assumes "i \<in> set (serialize_edges ns es)"
  shows "\<exists>e\<in>set es. ei_meta i = ed_meta e"
proof -
  from assms obtain e where "e \<in> set es" "edge_item_in (dict_by nd_id (\<lambda>n. n) ns) e = Some i"
    by (auto simp: serialize_edges_def serialize_edge_list_map_filter List.map_filter_def)
  then show ?thesis by (intro bexI [of _ e]) (auto simp: edge_item_in_def split: option.splits)
qed

lemma collected_metas_wf:
  assumes "metas_wf s" and "graph_ok s" and "collect_connected_subgraph tenant scope ref (Some depth) s = (Inr (ns, es), t)"
  shows "\<forall>e\<in>set es. wf_pyval (opt_dict (ei_meta e))"
proof (cases rule: get_node_cases [OF assms(2), of tenant "scope_node_type scope" ref])
  case (1 n)
  with collect_with_depth [OF assms(2) 1(1-3), of depth] assms(3)
  obtain A B where "es = serialize_edges (nodes_at tenant s A) (edges_at tenant s B)" by (auto simp: subgraph_def)
  with assms(1) show ?thesis by (fastforce simp: metas_wf_def edges_at_def dest: serialized_meta)
next
  case 2
  with assms(3) show ?thesis by (simp add: collect_connected_subgraph_def)
qed

text \<open>The content that a snapshot request reads.\<close>

definition snapshot_content :: "graph_snapshot_call \<Rightarrow> 'a fin_db_scheme \<Rightarrow> (node_item list \<times> edge_item list) result" where
  "snapshot_content q s = fst (collect_connected_subgraph (gc_tenant_id q) (gc_scope_type q) (gc_scope_ref_id q) (Some (gc_depth q)) s)"

lemma created_snapshot_hash:
  assumes "graph_snapshots_ok s" and "create_snapshot w q s = (Inr r, s')"
  obtains ns es where "snapshot_content q s = Inr (ns, es)"
    and "gs_snapshot_hash r = hash_snapshot w (snapshot_json (gc_scope_type q) (gc_scope_ref_id q) ns es)"
    and "metas_wf s \<Longrightarrow> wf_pyval (snapshot_json (gc_scope_type q) (gc_scope_ref_id q) ns es)"
  using assms(2,1)
proof (rule create_snapshotE)
  fix p
  assume p: "build_snapshot_payload w (gc_tenant_id q) (gc_scope_type q) (gc_scope_ref_id q) (Some (gc_depth q)) s = (Inr p, s)"
    and r: "one_or_none (same_graph_snapshot q (sp_snapshot_hash p)) (legal_graph_snapshots s') = Inr (Some r)"
  have h: "gs_snapshot_hash r = sp_snapshot_hash p" using one_or_none_SomeD [OF r] by (simp add: same_graph_snapshot_def)
  from p obtain ns es t where c: "collect_connected_subgraph (gc_tenant_id q) (gc_scope_type q) (gc_scope_ref_id q) (Some (gc_depth q)) s = (Inr (ns, es), t)"
      and "p = \<lparr>sp_snapshot_hash = hash_snapshot w (snapshot_json (gc_scope_type q) (gc_scope_ref_id q) ns es),
             sp_snapshot_json = snapshot_json (gc_scope_type q) (gc_scope_ref_id q) ns es,
             sp_nodes_count = length ns, sp_edges_count = length es\<rparr>"
    unfolding build_snapshot_payload_def Let_def by (auto simp: and_then_Inr_iff split: prod.splits if_splits)
  moreover have "wf_pyval (snapshot_json (gc_scope_type q) (gc_scope_ref_id q) ns es)" if "metas_wf s"
    using collected_metas_wf [OF that _ c] assms(1) by (intro snapshot_json_wf) (simp add: graph_snapshots_ok_def)
  ultimately show thesis using h by (intro that) (simp_all add: snapshot_content_def)
qed

text \<open>C30. The hash of a snapshot binds its content: when two snapshots, taken of any two databases, have the same hash,
  they are of the same scope and report the same nodes with their hashes and the same edges with their metadata (up to
  the order of its keys), or SHA-256 has a collision.\<close>

theorem snapshot_binds_graph:
  assumes "graph_snapshots_ok s" and "metas_wf s" and "create_snapshot w q s = (Inr r, s')"
    and "graph_snapshots_ok t" and "metas_wf t" and "create_snapshot w q' t = (Inr r', t')"
    and "gs_snapshot_hash r = gs_snapshot_hash r'"
  shows "gc_scope_type q = gc_scope_type q' \<and> gc_scope_ref_id q = gc_scope_ref_id q' \<and>
      (\<exists>ns es es'. snapshot_content q s = Inr (ns, es) \<and> snapshot_content q' t = Inr (ns, es') \<and>
         map edge_evidence es = map edge_evidence es') \<or>
    (\<exists>x y. x \<noteq> y \<and> sha256_hex w x = sha256_hex w y)"
proof -
  obtain ns es where s: "snapshot_content q s = Inr (ns, es)"
      "gs_snapshot_hash r = hash_snapshot w (snapshot_json (gc_scope_type q) (gc_scope_ref_id q) ns es)"
      "wf_pyval (snapshot_json (gc_scope_type q) (gc_scope_ref_id q) ns es)"
    using created_snapshot_hash [OF assms(1,3)] assms(2) by metis
  obtain ns' es' where t: "snapshot_content q' t = Inr (ns', es')"
      "gs_snapshot_hash r' = hash_snapshot w (snapshot_json (gc_scope_type q') (gc_scope_ref_id q') ns' es')"
      "wf_pyval (snapshot_json (gc_scope_type q') (gc_scope_ref_id q') ns' es')"
    using created_snapshot_hash [OF assms(4,6)] assms(5) by metis
  show ?thesis
  proof (cases "canonical_json (snapshot_json (gc_scope_type q) (gc_scope_ref_id q) ns es) =
      canonical_json (snapshot_json (gc_scope_type q') (gc_scope_ref_id q') ns' es')")
    case True
    from snapshot_json_inject [OF canonical_json_inject [OF s(3) t(3) True]] s(1) t(1) show ?thesis by auto
  next
    case False
    moreover have "sha256_hex w (canonical_json (snapshot_json (gc_scope_type q) (gc_scope_ref_id q) ns es)) =
        sha256_hex w (canonical_json (snapshot_json (gc_scope_type q') (gc_scope_ref_id q') ns' es'))"
      using s(2) t(2) assms(7) by (simp add: hash_snapshot_def)
    ultimately show ?thesis by blast
  qed
qed

theorem snapshot_binds_graph_witness:
  "\<exists>r s'. create_snapshot ref_world ref_snapshot_call ref_graph_db = (Inr r, s') \<and>
     ((\<exists>ns es es'. snapshot_content ref_snapshot_call ref_graph_db = Inr (ns, es) \<and>
         snapshot_content ref_snapshot_call ref_graph_db = Inr (ns, es') \<and> map edge_evidence es = map edge_evidence es') \<or>
      (\<exists>x y. x \<noteq> y \<and> sha256_hex ref_world x = sha256_hex ref_world y))"
proof -
  obtain r s' where run: "create_snapshot ref_world ref_snapshot_call ref_graph_db = (Inr r, s')"
    using ref_snapshot_created by blast
  have "metas_wf ref_graph_db" by (simp add: metas_wf_def ref_graph_tables ref_edge_def opt_dict_def)
  from snapshot_binds_graph [OF ref_snapshots_ok this run ref_snapshots_ok this run refl] run show ?thesis by blast
qed

end
