(* ===== verification/Graph_Integrity.thy ===== *)
theory Graph_Integrity
  imports Graph_Builder Graph_Snapshots
begin

text \<open>
  The integrity of the legal graph: whatever graphs are written, for whichever tenants, nodes and edges stay unique
  and every edge joins nodes of its own tenant. The proof follows which nodes a computation has already obtained.
\<close>

section \<open>The nodes that a computation knows\<close>

definition known_nodes :: "'a fin_db_scheme \<Rightarrow> (int \<times> string) set" where
  "known_nodes s = (\<lambda>n. (nd_tenant_id n, nd_id n)) ` set (legal_nodes s)"

definition edges_in_tenant :: "'a fin_db_scheme \<Rightarrow> bool" where
  "edges_in_tenant s \<longleftrightarrow> (\<forall>e\<in>set (legal_edges s).
     (ed_tenant_id e, ed_src_node_id e) \<in> known_nodes s \<and> (ed_tenant_id e, ed_dst_node_id e) \<in> known_nodes s)"

definition graph_knows :: "world \<Rightarrow> (int \<times> string) set \<Rightarrow> 'a fin_db_scheme \<Rightarrow> bool" where
  "graph_knows w K s \<longleftrightarrow> graph_ok s \<and> edges_in_tenant s \<and> K \<subseteq> known_nodes s \<and>
     nd_id ` set (legal_nodes s) \<union> ed_id ` set (legal_edges s) \<subseteq> uuid_at w ` {..<tick s}"

text \<open>A computation that keeps the graph in order and whose result names further nodes.\<close>

definition gains ::
    "world \<Rightarrow> (int \<times> string) set \<Rightarrow> ('a fin_db_scheme, 'b) act \<Rightarrow> ('b \<Rightarrow> (int \<times> string) set) \<Rightarrow> bool" where
  "gains w K m f \<longleftrightarrow> (\<forall>s. graph_knows w K s \<longrightarrow>
     (case m s of (Inl e, t) \<Rightarrow> graph_knows w K t | (Inr a, t) \<Rightarrow> graph_knows w (f a \<union> K) t))"

lemma gainsI:
  fixes m :: "('a fin_db_scheme, 'b) act"
  assumes "\<And>s e t. graph_knows w K s \<Longrightarrow> m s = (Inl e, t) \<Longrightarrow> graph_knows w K t"
    and "\<And>s a t. graph_knows w K s \<Longrightarrow> m s = (Inr a, t) \<Longrightarrow> graph_knows w (f a \<union> K) t"
  shows "gains w K m f"
  unfolding gains_def
proof (intro allI impI)
  fix s :: "'a fin_db_scheme" assume "graph_knows w K s"
  with assms show "case m s of (Inl e, t) \<Rightarrow> graph_knows w K t | (Inr a, t) \<Rightarrow> graph_knows w (f a \<union> K) t"
    by (cases "m s"; cases "fst (m s)") auto
qed

lemma gains_InlD: "gains w K m f \<Longrightarrow> graph_knows w K s \<Longrightarrow> m s = (Inl e, t) \<Longrightarrow> graph_knows w K t"
  by (fastforce simp: gains_def)

lemma gains_InrD: "gains w K m f \<Longrightarrow> graph_knows w K s \<Longrightarrow> m s = (Inr a, t) \<Longrightarrow> graph_knows w (f a \<union> K) t"
  by (fastforce simp: gains_def)

lemma graph_knows_less: "graph_knows w K s \<Longrightarrow> L \<subseteq> K \<Longrightarrow> graph_knows w L s"
  by (auto simp: graph_knows_def)

lemma gains_keeps: "gains w K m f \<Longrightarrow> graph_knows w K s \<Longrightarrow> graph_knows w K (snd (m s))"
  by (cases "m s"; cases "fst (m s)") (auto dest: gains_InlD gains_InrD intro: graph_knows_less)

lemma gains_ret: "f a \<subseteq> K \<Longrightarrow> gains w K (ret a) f"
  by (rule gainsI) (auto simp: Un_absorb1)

lemma gains_reading: "gains w K (reading g) (\<lambda>_. {})"
  by (rule gainsI) auto

lemma gains_query: "gains w K (query_one p table) (\<lambda>_. {})"
  by (rule gainsI) auto

lemma gains_then:
  assumes "gains w K m f" and "\<And>a. gains w (f a \<union> K) (k a) g"
  shows "gains w K (and_then m k) g"
proof (rule gainsI)
  fix s e t assume s: "graph_knows w K s" and "and_then m k s = (Inl e, t)"
  then consider "m s = (Inl e, t)" | a u where "m s = (Inr a, u)" "k a u = (Inl e, t)" by (auto simp: and_then_Inl_iff)
  then show "graph_knows w K t"
  proof cases
    case 1
    then show ?thesis using gains_InlD [OF assms(1) s] by simp
  next
    case (2 a u)
    from gains_InlD [OF assms(2) gains_InrD [OF assms(1) s 2(1)] 2(2)] show ?thesis by (rule graph_knows_less) simp
  qed
next
  fix s b t assume s: "graph_knows w K s" and "and_then m k s = (Inr b, t)"
  then obtain a u where 1: "m s = (Inr a, u)" "k a u = (Inr b, t)" by (auto simp: and_then_Inr_iff)
  from gains_InrD [OF assms(2) gains_InrD [OF assms(1) s 1(1)] 1(2)] show "graph_knows w (g b \<union> K) t"
    by (rule graph_knows_less) auto
qed

lemma gains_forget: "gains w K m f \<Longrightarrow> gains w K m (\<lambda>_. {})"
  by (rule gainsI) (auto dest: gains_InlD gains_InrD intro: graph_knows_less)

lemma gains_for_each: "(\<And>x. gains w K (f x) (\<lambda>_. {})) \<Longrightarrow> gains w K (for_each xs f) (\<lambda>_. {})"
proof (induction xs)
  case Nil
  show ?case unfolding for_each.simps by (rule gains_ret) simp
next
  case (Cons x xs)
  have "gains w K (f x) (\<lambda>_. {})" by (rule Cons.prems)
  moreover have "gains w K (for_each xs f) (\<lambda>_. {})" by (rule Cons.IH [OF Cons.prems])
  ultimately show ?case
    unfolding for_each.simps by (intro gains_then [where f = "\<lambda>_. {}"] gains_ret) simp_all
qed

section \<open>Nodes and edges\<close>

lemma one_or_none_found: "one_or_none p rows = Inr (Some r) \<Longrightarrow> r \<in> set rows \<and> p r"
  by (rule one_or_none_SomeD)

lemma fresh_uuid: "inj (uuid_at w) \<Longrightarrow> A \<subseteq> uuid_at w ` {..<n} \<Longrightarrow> uuid_at w n \<notin> A"
  by (auto dest: injD)

lemma lookup_total:
  assumes "graph_ok s"
  shows "\<exists>x. one_or_none (node_scope tenant ty ref) (legal_nodes s) = Inr x"
    and "\<exists>x. one_or_none (edge_scope tenant ety src dst) (legal_edges s) = Inr x"
proof -
  have n: "node_scope tenant ty ref = (\<lambda>n. (nd_tenant_id n, nd_node_type n, nd_ref_id n) = (tenant, ty, ref))"
    by (auto simp: node_scope_def fun_eq_iff)
  have e: "edge_scope tenant ety src dst = (\<lambda>e. (ed_tenant_id e, ed_edge_type e, ed_src_node_id e, ed_dst_node_id e) = (tenant, ety, src, dst))"
    by (auto simp: edge_scope_def fun_eq_iff)
  show "\<exists>x. one_or_none (node_scope tenant ty ref) (legal_nodes s) = Inr x"
    unfolding n by (rule one_or_none_unique_total) (use assms in \<open>simp add: graph_ok_def\<close>)
  show "\<exists>x. one_or_none (edge_scope tenant ety src dst) (legal_edges s) = Inr x"
    unfolding e by (rule one_or_none_unique_total) (use assms in \<open>simp add: graph_ok_def\<close>)
qed

lemma ids_later:
  assumes "graph_knows w K s" and "tick s < tick t"
  shows "nd_id ` set (legal_nodes s) \<union> ed_id ` set (legal_edges s) \<subseteq> uuid_at w ` {..<tick t}"
proof -
  have "uuid_at w ` {..<tick s} \<subseteq> uuid_at w ` {..<tick t}" using assms(2) by auto
  with assms(1) show ?thesis unfolding graph_knows_def by (meson order_trans)
qed

lemma graph_knows_new_node:
  assumes "inj (uuid_at w)" and "graph_knows w K s" and "\<forall>x\<in>set (legal_nodes s). \<not> node_scope tenant ty ref x"
    and n: "nd_id n = uuid_at w (tick s)" "nd_tenant_id n = tenant" "nd_node_type n = ty" "nd_ref_id n = ref"
    and t: "legal_nodes t = legal_nodes s @ [n]" "legal_edges t = legal_edges s" "tick s < tick t"
  shows "graph_knows w (insert (tenant, nd_id n) K) t"
proof -
  have "nd_id n \<notin> nd_id ` set (legal_nodes s)"
    unfolding n(1) using assms(2) by (intro fresh_uuid [OF assms(1)]) (auto simp: graph_knows_def)
  moreover have "(tenant, ty, ref) \<notin> (\<lambda>n. (nd_tenant_id n, nd_node_type n, nd_ref_id n)) ` set (legal_nodes s)"
    using assms(3) by (auto simp: node_scope_def)
  ultimately have "graph_ok t" using assms(2) n by (simp add: graph_knows_def graph_ok_def t)
  moreover have "known_nodes t = insert (tenant, nd_id n) (known_nodes s)" by (simp add: known_nodes_def t n)
  moreover have "nd_id ` set (legal_nodes s) \<union> ed_id ` set (legal_edges s) \<subseteq> uuid_at w ` {..<tick t}"
    by (rule ids_later [OF assms(2) t(3)])
  moreover have "nd_id n \<in> uuid_at w ` {..<tick t}" using t(3) n(1) by auto
  ultimately show ?thesis using assms(2) unfolding graph_knows_def edges_in_tenant_def t by auto
qed

lemma graph_knows_new_edge:
  assumes "inj (uuid_at w)" and "graph_knows w K s" and "\<forall>x\<in>set (legal_edges s). \<not> edge_scope tenant ty src dst x"
    and "(tenant, src) \<in> K" and "(tenant, dst) \<in> K"
    and e: "ed_id e = uuid_at w (tick s)" "ed_tenant_id e = tenant" "ed_edge_type e = ty" "ed_src_node_id e = src" "ed_dst_node_id e = dst"
    and t: "legal_nodes t = legal_nodes s" "legal_edges t = legal_edges s @ [e]" "tick s < tick t"
  shows "graph_knows w K t"
proof -
  have "ed_id e \<notin> ed_id ` set (legal_edges s)"
    unfolding e(1) using assms(2) by (intro fresh_uuid [OF assms(1)]) (auto simp: graph_knows_def)
  moreover have "(tenant, ty, src, dst) \<notin> (\<lambda>e. (ed_tenant_id e, ed_edge_type e, ed_src_node_id e, ed_dst_node_id e)) ` set (legal_edges s)"
    using assms(3) by (auto simp: edge_scope_def)
  ultimately have "graph_ok t" using assms(2) e by (simp add: graph_knows_def graph_ok_def t)
  moreover have "known_nodes t = known_nodes s" by (simp add: known_nodes_def t)
  moreover have "nd_id ` set (legal_nodes s) \<union> ed_id ` set (legal_edges s) \<subseteq> uuid_at w ` {..<tick t}"
    by (rule ids_later [OF assms(2) t(3)])
  moreover have "ed_id e \<in> uuid_at w ` {..<tick t}" using t(3) e(1) by auto
  ultimately show ?thesis using assms(2,4,5) unfolding graph_knows_def edges_in_tenant_def t by (auto simp: e(2,4,5))
qed

lemma gains_node_meta:
  assumes "inj (uuid_at w)"
  shows "gains w K (get_or_create_node_meta w rc tenant ty ref tab h md) (\<lambda>n. {(tenant, nd_id n)})"
proof -
  have "\<exists>n t. get_or_create_node_meta w rc tenant ty ref tab h md s = (Inr n, t) \<and> graph_knows w (insert (tenant, nd_id n) K) t"
    if s: "graph_knows w K s" for s :: "'a fin_db_scheme"
  proof -
    have "graph_ok s" using s by (simp add: graph_knows_def)
    then obtain x where x: "one_or_none (node_scope tenant ty ref) (legal_nodes s) = Inr x" using lookup_total(1) by blast
    show ?thesis
    proof (cases x)
      case (Some n)
      with x have "n \<in> set (legal_nodes s)" "nd_tenant_id n = tenant" by (auto dest!: one_or_none_found simp: node_scope_def)
      then have "(tenant, nd_id n) \<in> known_nodes s" by (auto simp: known_nodes_def)
      with Some x s show ?thesis by (auto simp: get_or_create_node_meta_def graph_knows_def)
    next
      case None
      let ?n = "\<lparr>nd_id = uuid_at w (tick s), nd_tenant_id = tenant, nd_node_type = ty, nd_ref_id = ref, nd_ref_table = tab, nd_hash = h\<rparr>"
      let ?run = "get_or_create_node_meta w rc tenant ty ref tab h md s"
      from None x have new: "\<forall>y\<in>set (legal_nodes s). \<not> node_scope tenant ty ref y" by simp
      then have none: "one_or_none (node_scope tenant ty ref) (legal_nodes s) = Inr None" by simp
      from new have "fst ?run = Inr ?n" "legal_nodes (snd ?run) = legal_nodes s @ [?n]" "legal_edges (snd ?run) = legal_edges s"
          "tick s < tick (snd ?run)"
        by (simp_all add: none get_or_create_node_meta_def audit_created_def audit_apply Let_def)
      with graph_knows_new_node [OF assms s new, of ?n "snd ?run"] show ?thesis
        by (intro exI [of _ ?n] exI [of _ "snd ?run"]) (simp add: prod_eq_iff)
    qed
  qed
  then show ?thesis by (intro gainsI) fastforce+
qed

lemma gains_link_edge:
  assumes "inj (uuid_at w)" and "(tenant, src) \<in> K" and "(tenant, dst) \<in> K"
  shows "gains w K (link_edge w rc tenant src dst ty md) (\<lambda>_. {})"
proof -
  have "graph_knows w K (snd (link_edge w rc tenant src dst ty md s))" if s: "graph_knows w K s" for s :: "'a fin_db_scheme"
  proof -
    have "graph_ok s" using s by (simp add: graph_knows_def)
    then obtain x where x: "one_or_none (edge_scope tenant ty src dst) (legal_edges s) = Inr x" using lookup_total(2) by blast
    show ?thesis
    proof (cases x)
      case (Some e)
      with x s show ?thesis by (simp add: link_edge_def)
    next
      case None
      let ?e = "\<lparr>ed_id = uuid_at w (tick s), ed_tenant_id = tenant, ed_edge_type = ty, ed_src_node_id = src, ed_dst_node_id = dst, ed_meta = md\<rparr>"
      let ?run = "link_edge w rc tenant src dst ty md s"
      from None x have new: "\<forall>y\<in>set (legal_edges s). \<not> edge_scope tenant ty src dst y" by simp
      then have none: "one_or_none (edge_scope tenant ty src dst) (legal_edges s) = Inr None" by simp
      from new have "legal_edges (snd ?run) = legal_edges s @ [?e]" "legal_nodes (snd ?run) = legal_nodes s" "tick s < tick (snd ?run)"
        by (simp_all add: none link_edge_def audit_created_def audit_apply Let_def)
      with graph_knows_new_edge [OF assms(1) s new assms(2,3), of ?e "snd ?run"] show ?thesis by simp
    qed
  qed
  then show ?thesis by (intro gainsI) (metis snd_conv, metis snd_conv Un_empty_left)
qed

section \<open>The graphs\<close>

lemma gains_registry_node:
  assumes "inj (uuid_at w)"
  shows "gains w K (get_or_create_node w rc tenant ty ref tab h) (\<lambda>n. {(tenant, nd_id n)})"
  unfolding get_or_create_node_def by (rule gains_node_meta [OF assms])

lemma gains_node:
  assumes "inj (uuid_at w)"
  shows "gains w K (builder_node w c ty ref tab h) (\<lambda>n. {(gx_tenant_id c, nd_id n)})"
  unfolding builder_node_def by (rule gains_registry_node [OF assms])

lemma gains_edge:
  assumes "inj (uuid_at w)" and "(tenant, src) \<in> K" and "(tenant, dst) \<in> K"
  shows "gains w K (and_then (link_edge w rc tenant src dst ty md) (\<lambda>_. ret ())) (\<lambda>_. {})"
  by (rule gains_then [OF gains_link_edge [OF assms]]) (simp add: gains_ret)

lemma gains_link:
  assumes "inj (uuid_at w)" and "(gx_tenant_id c, src) \<in> K" and "(gx_tenant_id c, dst) \<in> K"
  shows "gains w K (builder_link w c src dst ty) (\<lambda>_. {})"
  unfolding builder_link_def by (rule gains_edge [OF assms])

text \<open>The pattern of most links: a node is looked up or created and joined to a node that is known.\<close>

lemma gains_link_to:
  assumes "inj (uuid_at w)" and "(gx_tenant_id c, src) \<in> K"
  shows "gains w K (and_then (builder_node w c ty ref tab h) (\<lambda>n. builder_link w c src (nd_id n) ety)) (\<lambda>_. {})"
  by (rule gains_then [OF gains_node [OF assms(1)]], rule gains_link [OF assms(1)]) (use assms(2) in simp_all)

lemma gains_link_each:
  assumes "inj (uuid_at w)" and "(gx_tenant_id c, src) \<in> K"
  shows "gains w K (and_then (for_each xs (\<lambda>x. and_then (builder_node w c (ty x) (ref x) (tab x) (h x))
     (\<lambda>n. builder_link w c src (nd_id n) ety))) (\<lambda>_. ret ())) (\<lambda>_. {})"
  by (rule gains_then [OF gains_for_each], rule gains_link_to [OF assms]) (simp add: gains_ret)

lemma gains_period:
  assumes "inj (uuid_at w)" and "(gx_tenant_id c, src) \<in> K"
  shows "gains w K (link_period_if w c src period) (\<lambda>_. {})"
  unfolding link_period_if_def link_document_to_period_def by (cases period) (auto intro: gains_ret gains_link_to [OF assms])

lemma gains_replacement:
  assumes "inj (uuid_at w)" and "(gx_tenant_id c, src) \<in> K"
  shows "gains w K (link_document_replacement w c d src) (\<lambda>_. {})"
proof -
  have "gains w K (case x of None \<Rightarrow> ret () | Some previous \<Rightarrow>
      and_then (builder_node w c NODE_DOCUMENT (gd_id previous) ''documents'' (gd_document_hash previous)) (\<lambda>n.
      builder_link w c src (nd_id n) EDGE_REPLACES)) (\<lambda>_. {})" for x
    by (cases x) (auto intro: gains_ret gains_link_to [OF assms])
  then have "gains w K (and_then (query_one (previous_version d) legal_documents) (\<lambda>x. case x of None \<Rightarrow> ret () | Some previous \<Rightarrow>
      and_then (builder_node w c NODE_DOCUMENT (gd_id previous) ''documents'' (gd_document_hash previous)) (\<lambda>n.
      builder_link w c src (nd_id n) EDGE_REPLACES))) (\<lambda>_. {})"
    by (intro gains_then [OF gains_query]) simp
  then show ?thesis unfolding link_document_replacement_def by (auto intro: gains_ret)
qed

lemma gains_files:
  assumes "inj (uuid_at w)" and "(gx_tenant_id c, src) \<in> K"
  shows "gains w K (link_document_files w c d src) (\<lambda>_. {})"
  unfolding link_document_files_def
  by (rule gains_then [OF gains_reading], rule gains_link_each [OF assms(1)]) (use assms(2) in simp)

lemma gains_invoice:
  assumes "inj (uuid_at w)" and "(gx_tenant_id c, src) \<in> K"
  shows "gains w K (link_document_invoice w c d src)
    (\<lambda>x. case x of None \<Rightarrow> {} | Some n \<Rightarrow> {(gx_tenant_id c, nd_id n)})"
proof -
  have "gains w K (and_then (builder_node w c NODE_INVOICE i ''invoices'' None) (\<lambda>n.
      and_then (builder_link w c src (nd_id n) EDGE_GENERATED_FROM) (\<lambda>_.
      and_then (invoice_by_id i) (\<lambda>x. and_then (link_period_if w c src (period_id_of x)) (\<lambda>_. ret (Some n))))))
    (\<lambda>x. case x of None \<Rightarrow> {} | Some n \<Rightarrow> {(gx_tenant_id c, nd_id n)})" for i
    unfolding invoice_by_id_def
    by (rule gains_then [OF gains_node [OF assms(1)]], rule gains_then [OF gains_link [OF assms(1)]],
        use assms(2) in simp, simp, rule gains_then [OF gains_query], rule gains_then [OF gains_period [OF assms(1)]],
        use assms(2) in simp, rule gains_ret) simp
  then show ?thesis
    unfolding link_document_invoice_def by (auto intro: gains_ret split: option.split)
qed

lemma gains_risk_link:
  assumes "inj (uuid_at w)" and "(gx_tenant_id c, src) \<in> K"
  shows "gains w K (case decision of None \<Rightarrow> ret () | Some r \<Rightarrow>
      and_then (builder_node w c NODE_RISK_DECISION (rd_id r) ''risk_decisions'' None) (\<lambda>rn.
      builder_link w c src (nd_id rn) EDGE_SIGNED_BY)) (\<lambda>_. {})"
  by (cases decision) (auto intro: gains_ret gains_link_to [OF assms])

lemma gains_document_graph:
  assumes "inj (uuid_at w)"
  shows "gains w K (ensure_document_graph w sql_date c d) (\<lambda>_. {})"
  unfolding ensure_document_graph_def resolve_billing_period_for_document_def latest_risk_decision_def
proof (rule gains_then [OF gains_node [OF assms]], rule gains_then [OF gains_invoice [OF assms]], simp,
    rule gains_then [OF gains_reading], rule gains_then [OF gains_period [OF assms]], simp,
    rule gains_then [OF gains_replacement [OF assms]], simp, rule gains_then [OF gains_files [OF assms]], simp,
    rule gains_then [OF gains_reading], rule gains_then [OF gains_risk_link [OF assms]], simp)
  fix n inode
  show "gains w ({} \<union> ({} \<union> ({} \<union> ({} \<union> ({} \<union> ({} \<union> ((case inode of None \<Rightarrow> {} | Some n \<Rightarrow> {(gx_tenant_id c, nd_id n)}) \<union>
      ({(gx_tenant_id c, nd_id n)} \<union> K))))))))
    (case inode of None \<Rightarrow> ret () | Some m \<Rightarrow> builder_link w c (nd_id n) (nd_id m) EDGE_CONFIRMS) (\<lambda>_. {})"
    by (cases inode) (simp_all add: gains_ret gains_link [OF assms])
qed

lemma gains_ack_graph:
  assumes "inj (uuid_at w)"
  shows "gains w K (ensure_document_ack_graph w c d i md) (\<lambda>_. {})"
  unfolding ensure_document_ack_graph_def
  by (rule gains_then [OF gains_node [OF assms]], rule gains_then [OF gains_node_meta [OF assms]], rule gains_edge [OF assms]) simp_all

lemma gains_package_graph:
  assumes "inj (uuid_at w)"
  shows "gains w K (ensure_closing_package_graph w c p docs) (\<lambda>_. {})"
proof -
  have load: "gains w L (if docs \<noteq> [] then ret docs else load_documents ids) (\<lambda>_. {})" for L ids
    by (simp add: load_documents_def gains_ret gains_reading)
  have resolve: "gains w L (resolve_billing_period_for_package p ds) (\<lambda>_. {})" for L ds
    unfolding resolve_billing_period_for_package_def invoice_by_id_def
    by (rule gains_then [where f = "\<lambda>_. {}"])
      (auto intro!: gains_ret gains_reading gains_then [OF gains_query] split: option.split)
  have closes: "gains w L (case period of None \<Rightarrow> ret () | Some i \<Rightarrow>
      and_then (builder_node w c NODE_BILLING_PERIOD i ''billing_periods'' None) (\<lambda>bn. builder_link w c src (nd_id bn) EDGE_CLOSES)) (\<lambda>_. {})"
    if "(gx_tenant_id c, src) \<in> L" for L src period
    by (cases period) (auto intro: gains_ret gains_link_to [OF assms that])
  show ?thesis
    unfolding ensure_closing_package_graph_def
    by (rule gains_then [OF gains_node [OF assms]], rule gains_then [OF load],
        rule gains_then [OF gains_for_each], rule gains_link_to [OF assms], simp, rule gains_then [OF resolve], rule closes) simp
qed

lemma gains_export_graph:
  assumes "inj (uuid_at w)"
  shows "gains w K (ensure_accounting_export_graph w c b) (\<lambda>_. {})"
proof -
  have period: "gains w L (if ab_billing_period_id b = [] then ret () else
      and_then (builder_node w c NODE_BILLING_PERIOD (ab_billing_period_id b) ''billing_periods'' None) (\<lambda>pn.
      builder_link w c src (nd_id pn) EDGE_EXPORTS)) (\<lambda>_. {})" if "(gx_tenant_id c, src) \<in> L" for L src
    by (auto intro: gains_ret gains_link_to [OF assms that])
  show ?thesis
    unfolding ensure_accounting_export_graph_def
    by (rule gains_then [OF gains_node [OF assms]], rule gains_then [OF period], simp,
        cases "ab_export_type b"; simp only: accounting_export_type.case)
      (rule gains_then [OF gains_reading], rule gains_link_each [OF assms], simp)+
qed

lemma gains_invoice_graph:
  assumes "inj (uuid_at w)"
  shows "gains w K (ensure_invoice_graph w c i) (\<lambda>_. {})"
  unfolding ensure_invoice_graph_def
proof (rule gains_then [OF gains_node [OF assms]])
  fix n
  show "gains w ({(gx_tenant_id c, nd_id n)} \<union> K) (case nonempty_id (inv_billing_period_id i) of None \<Rightarrow> ret () | Some p \<Rightarrow>
      and_then (builder_node w c NODE_BILLING_PERIOD p ''billing_periods'' None) (\<lambda>pn. builder_link w c (nd_id n) (nd_id pn) EDGE_RELATES_TO)) (\<lambda>_. {})"
    by (cases "nonempty_id (inv_billing_period_id i)") (auto intro: gains_ret gains_link_to [OF assms])
qed

lemma gains_source:
  assumes "inj (uuid_at w)" and "(sa_tenant_id a, an) \<in> K" and "(sa_tenant_id a, inode) \<in> K"
  shows "gains w K (link_source w rc a an inode source) (\<lambda>_. {})"
proof (cases source)
  case None
  then show ?thesis by (simp add: link_source_def gains_ret)
next
  case (Some x)
  obtain i tab where x: "x = (i, tab)" by (cases x)
  have settles: "gains w L (if sa_source_type a = SRC_PAYMENT
      then and_then (link_edge w rc (sa_tenant_id a) n inode EDGE_SETTLES None) (\<lambda>_. ret ()) else ret ()) (\<lambda>_. {})"
    if "(sa_tenant_id a, n) \<in> L" "(sa_tenant_id a, inode) \<in> L" for L n
    by (auto intro: gains_ret gains_edge [OF assms(1) that])
  show ?thesis
    unfolding link_source_def Some x option.case prod.case
    by (rule gains_then [OF gains_registry_node [OF assms(1)]], rule gains_then [OF gains_link_edge [OF assms(1)]])
      (use assms(2,3) in \<open>simp_all add: settles\<close>)
qed

lemma gains_allocation_graph:
  assumes "inj (uuid_at w)"
  shows "gains w K (ensure_settlement_allocation_graph w rc a i source) (\<lambda>_. {})"
proof -
  have period: "gains w L (if sa_settlement_period_id a = [] then ret ()
      else and_then (get_or_create_node w rc (sa_tenant_id a) NODE_BILLING_PERIOD (sa_settlement_period_id a) (Some ''billing_periods'') None) (\<lambda>pn.
           and_then (link_edge w rc (sa_tenant_id a) an (nd_id pn) EDGE_RELATES_TO None) (\<lambda>_. ret ()))) (\<lambda>_. {})"
    if "(sa_tenant_id a, an) \<in> L" for L an
    using that by (auto intro!: gains_ret gains_then [OF gains_registry_node [OF assms]] gains_edge [OF assms])
  show ?thesis
    unfolding ensure_settlement_allocation_graph_def
    by (rule gains_then [OF gains_registry_node [OF assms]], rule gains_then [OF gains_registry_node [OF assms]],
        rule gains_then [OF gains_link_edge [OF assms]], simp, simp, rule gains_then [OF period], simp,
        rule gains_source [OF assms]) simp_all
qed

lemma gains_risk_graph:
  assumes "inj (uuid_at w)"
  shows "gains w K (ensure_risk_decision_graph w tenant rc r) (\<lambda>_. {})"
proof (cases "graph_target (rd_subject_type r)")
  case None
  show ?thesis
    unfolding ensure_risk_decision_graph_def None option.case
    by (rule gains_then [OF gains_registry_node [OF assms]], rule gains_ret) simp
next
  case (Some target)
  show ?thesis
    unfolding ensure_risk_decision_graph_def Some option.case
    by (rule gains_then [OF gains_registry_node [OF assms]], rule gains_then [OF gains_registry_node [OF assms]],
        rule gains_then [OF gains_link_edge [OF assms]], simp, simp, rule gains_ret) simp
qed

section \<open>Any sequence of graphs\<close>

datatype graph_write =
    DocumentGraph legal_document
  | AcknowledgementGraph legal_document string "payload option"
  | PackageGraph closing_package "legal_document list"
  | ExportGraph accounting_export_batch
  | InvoiceGraph invoice
  | AllocationGraph settlement_allocation invoice graph_source
  | RiskGraph risk_decision

fun write_graph_of :: "world \<Rightarrow> (int \<Rightarrow> int) \<Rightarrow> graph_context \<Rightarrow> graph_write \<Rightarrow> ('a docs_db_scheme, unit) act" where
  "write_graph_of w sql_date c (DocumentGraph d) = ensure_document_graph w sql_date c d"
| "write_graph_of w sql_date c (AcknowledgementGraph d i md) = ensure_document_ack_graph w c d i md"
| "write_graph_of w sql_date c (PackageGraph p docs) = ensure_closing_package_graph w c p docs"
| "write_graph_of w sql_date c (ExportGraph b) = ensure_accounting_export_graph w c b"
| "write_graph_of w sql_date c (InvoiceGraph i) = ensure_invoice_graph w c i"
| "write_graph_of w sql_date c (AllocationGraph a i source) =
     ensure_settlement_allocation_graph w (gx_request_ctx c) a i source"
| "write_graph_of w sql_date c (RiskGraph r) =
     and_then (ensure_risk_decision_graph w (gx_tenant_id c) (gx_request_ctx c) r) (\<lambda>_. ret ())"

lemma gains_write_graph:
  assumes "inj (uuid_at w)"
  shows "gains w K (write_graph_of w sql_date c x) (\<lambda>_. {})"
proof (cases x)
  case (RiskGraph r)
  then show ?thesis
    unfolding RiskGraph write_graph_of.simps by (intro gains_then [OF gains_risk_graph [OF assms]] gains_ret) simp
qed (simp_all add: gains_document_graph gains_ack_graph gains_package_graph gains_export_graph gains_invoice_graph
    gains_allocation_graph assms)

text \<open>The callers catch what a graph write raises and go on.\<close>

definition write_graphs :: "world \<Rightarrow> (int \<Rightarrow> int) \<Rightarrow> (graph_context \<times> graph_write) list \<Rightarrow> 'a docs_db_scheme \<Rightarrow> 'a docs_db_scheme" where
  "write_graphs w sql_date xs s = fold (\<lambda>(c, x) u. snd (write_graph_of w sql_date c x u)) xs s"

lemma write_graphs_knows:
  assumes "inj (uuid_at w)" and "graph_knows w {} s"
  shows "graph_knows w {} (write_graphs w sql_date xs s)"
  unfolding write_graphs_def using assms(2)
proof (induction xs arbitrary: s)
  case (Cons x xs)
  obtain c y where x: "x = (c, y)" by (cases x)
  from Cons.IH [OF gains_keeps [OF gains_write_graph [OF assms(1)] Cons.prems]] show ?case by (simp add: x)
qed simp

text \<open>C27. Whatever graphs are written, in any order and for any tenants, failures included: identifiers stay unique, there is
  at most one node per tenant, type and reference and one edge per tenant, type and ends, and every edge joins
  two nodes of its own tenant. The identifiers are drawn without repetition.\<close>

theorem graph_integrity:
  assumes "inj (uuid_at w)" and "graph_knows w {} s"
  shows "graph_ok (write_graphs w sql_date xs s) \<and> edges_in_tenant (write_graphs w sql_date xs s)"
  using write_graphs_knows [OF assms] by (simp add: graph_knows_def)

definition empty_docs_db :: docs_db where
  "empty_docs_db = \<lparr>tick = 0, audit_log = [], il_accounts = [], il_transactions = [], il_entries = [],
     invoices = [], invoice_transition_logs = [], invoice_payments = [], credit_notes = [], allocations = [],
     billing_periods = [], money_flow_events = [], billing_job_runs = [], legal_nodes = [], legal_edges = [],
     refund_request_ids = [], legal_graph_snapshots = [], legal_documents = [], legal_document_files = [],
     closing_packages = [], accounting_export_batches = [], stored_risk_decisions = [], invoice_periods = []\<rparr>"

definition demo_document :: "string \<Rightarrow> int \<Rightarrow> document_type \<Rightarrow> legal_document" where
  "demo_document i tenant ty = \<lparr>gd_id = i, gd_tenant_id = tenant, gd_client_id = ''client'', gd_document_type = ty,
     gd_period_from = 0, gd_period_to = 30, gd_status = DOC_FINALIZED, gd_version = 1, gd_source_entity_type = None,
     gd_source_entity_id = None, gd_document_hash = Some ''abc''\<rparr>"

definition demo_package :: closing_package where
  "demo_package = \<lparr>cp_id = ''package'', cp_tenant_id = 1, cp_client_id = ''client'', cp_period_from = 0, cp_period_to = 30,
     cp_status = DOC_FINALIZED, cp_version = 1, cp_invoice_document_id = Some ''invoice'', cp_act_document_id = Some ''act'',
     cp_recon_document_id = Some ''recon''\<rparr>"

theorem graph_integrity_witness:
  "inj (uuid_at ref_world) \<and> graph_knows ref_world {} empty_docs_db \<and>
   edges_in_tenant (write_graphs ref_world (\<lambda>t. t) [(\<lparr>gx_tenant_id = 1, gx_request_ctx = None\<rparr>,
     PackageGraph demo_package [demo_document ''act'' 1 DOC_ACT])] empty_docs_db)"
proof -
  have inj: "inj (uuid_at ref_world)" using ref_world_sane by (simp add: sane_world_def)
  have knows: "graph_knows ref_world {} empty_docs_db"
    by (simp add: graph_knows_def graph_ok_def edges_in_tenant_def empty_docs_db_def)
  from graph_integrity [OF inj knows] inj knows show ?thesis by blast
qed

text \<open>
  A node keeps the hash with which it was first created: when a risk decision about a document is recorded before the
  graph of the document is written, the document's node has no hash and never gets one.
\<close>

theorem node_hash_never_filled:
  assumes "graph_ok s" and "n \<in> set (legal_nodes s)"
  shows "get_or_create_node w rc (nd_tenant_id n) (nd_node_type n) (nd_ref_id n) tab h s = (Inr n, s)"
  using get_node_finds [OF assms] by (simp add: get_or_create_node_def get_or_create_node_meta_def get_node_def)

end
