(* ===== verification/Graph_Completeness.thy ===== *)
theory Graph_Completeness
  imports Graph_Integrity
begin

text \<open>
  What the completeness check of a billing period decides: it never raises on a graph in order, and it accepts
  exactly the periods whose documents, closing package and confirmed exports are in the tenant's graph. The documents
  it looks at are those of every tenant.
\<close>

section \<open>The specification\<close>

definition node_at :: "int \<Rightarrow> legal_node_type \<Rightarrow> string \<Rightarrow> 'a fin_db_scheme \<Rightarrow> legal_node option" where
  "node_at tenant ty ref s = List.find (node_scope tenant ty ref) (legal_nodes s)"

definition joined :: "int \<Rightarrow> legal_edge_type \<Rightarrow> legal_node \<Rightarrow> legal_node \<Rightarrow> 'a fin_db_scheme \<Rightarrow> bool" where
  "joined tenant ty a b s \<longleftrightarrow> (\<exists>e\<in>set (legal_edges s). edge_scope tenant ty (nd_id a) (nd_id b) e)"

definition documents_of_period :: "int \<times> int \<Rightarrow> 'a docs_db_scheme \<Rightarrow> legal_document list" where
  "documents_of_period dates s = filter (\<lambda>d. (gd_period_from d, gd_period_to d) = dates) (legal_documents s)"

definition last_document :: "int \<times> int \<Rightarrow> document_type \<Rightarrow> 'a docs_db_scheme \<Rightarrow> legal_document option" where
  "last_document dates ty s = List.find (\<lambda>d. gd_document_type d = ty) (rev (documents_of_period dates s))"

definition latest_package :: "int \<times> int \<Rightarrow> 'a docs_db_scheme \<Rightarrow> closing_package option" where
  "latest_package dates s =
     least_row (\<lambda>p. - cp_version p) (filter (\<lambda>p. (cp_period_from p, cp_period_to p) = dates) (closing_packages s))"

definition exports_confirmed :: "int \<Rightarrow> legal_node \<Rightarrow> string \<Rightarrow> 'a docs_db_scheme \<Rightarrow> bool" where
  "exports_confirmed tenant bn period s \<longleftrightarrow>
     (let batches = filter (\<lambda>b. ab_billing_period_id b = period) (accounting_export_batches s)
      in batches = [] \<or>
         (\<exists>b\<in>set batches. ab_state b = EXPORT_CONFIRMED) \<and>
         (\<forall>b\<in>set batches. ab_state b = EXPORT_CONFIRMED \<longrightarrow>
            (\<exists>en. node_at tenant NODE_ACCOUNTING_EXPORT_BATCH (ab_id b) s = Some en \<and> joined tenant EDGE_CONFIRMS en bn s)))"

definition period_complete :: "tz_rules \<Rightarrow> int \<Rightarrow> billing_period \<Rightarrow> 'a docs_db_scheme \<Rightarrow> bool" where
  "period_complete tzr tenant p s \<longleftrightarrow>
     (\<exists>bn pk pn. node_at tenant NODE_BILLING_PERIOD (bp_id p) s = Some bn \<and>
        latest_package (period_dates tzr p) s = Some pk \<and> settled_status (cp_status pk) \<and>
        node_at tenant NODE_CLOSING_PACKAGE (cp_id pk) s = Some pn \<and> joined tenant EDGE_CLOSES pn bn s \<and>
        (\<forall>ty\<in>set required_types. \<exists>d dn. last_document (period_dates tzr p) ty s = Some d \<and> settled_status (gd_status d) \<and>
           node_at tenant NODE_DOCUMENT (gd_id d) s = Some dn \<and> joined tenant EDGE_INCLUDES pn dn s) \<and>
        exports_confirmed tenant bn (bp_id p) s)"

section \<open>The parts of the check\<close>

lemma lookup_by_key:
  assumes "distinct (map key rows)"
  shows "one_or_none (\<lambda>r. key r = k) rows = Inr (List.find (\<lambda>r. key r = k) rows)"
proof (cases "\<exists>r\<in>set rows. key r = k")
  case True
  then obtain r where r: "r \<in> set rows" "key r = k" by blast
  with one_or_none_unique_key [OF assms r(1)] have run: "one_or_none (\<lambda>r. key r = k) rows = Inr (Some r)" by simp
  from True have "List.find (\<lambda>r. key r = k) rows \<noteq> None" by (auto simp: find_None_iff)
  then obtain x where x: "List.find (\<lambda>r. key r = k) rows = Some x" by blast
  then have "x \<in> set rows" "key x = k" by (auto dest: find_SomeD)
  with r assms have "x = r" by (auto simp: distinct_map inj_on_def)
  with run x show ?thesis by simp
next
  case False
  then have "List.find (\<lambda>r. key r = k) rows = None" by (auto simp: find_None_iff)
  with False show ?thesis by auto
qed

lemma get_node_run:
  assumes "graph_ok s"
  shows "get_node tenant ty ref s = (Inr (node_at tenant ty ref s), s)"
proof -
  have "node_scope tenant ty ref = (\<lambda>n. (nd_tenant_id n, nd_node_type n, nd_ref_id n) = (tenant, ty, ref))"
    by (auto simp: node_scope_def fun_eq_iff)
  with assms show ?thesis
    by (simp only: get_node_def query_one_apply node_at_def) (subst lookup_by_key; simp add: graph_ok_def)
qed

lemma edge_missing_run:
  assumes "graph_ok s"
  shows "\<exists>es. edge_missing tenant ty a b s = (Inr es, s) \<and> (es = [] \<longleftrightarrow> joined tenant ty a b s)"
proof -
  obtain x where x: "one_or_none (edge_scope tenant ty (nd_id a) (nd_id b)) (legal_edges s) = Inr x"
    using lookup_total(2) [OF assms] by blast
  then have "x = None \<longleftrightarrow> \<not> joined tenant ty a b s"
    by (cases x) (auto simp: joined_def dest!: one_or_none_SomeD)
  moreover have "edge_missing tenant ty a b s = (Inr (if x = None then [missing_edge ty a b] else []), s)"
    using x by (cases x) (simp_all add: edge_missing_def del: one_or_none_None)
  ultimately show ?thesis by auto
qed

text \<open>A loop of checks finds nothing exactly when each of them finds nothing.\<close>

lemma for_each_reads:
  assumes "\<And>x. \<exists>y. f x s = (Inr y, s) \<and> (Q y \<longleftrightarrow> P x)"
  shows "\<exists>ys. for_each xs f s = (Inr ys, s) \<and> ((\<forall>y\<in>set ys. Q y) \<longleftrightarrow> (\<forall>x\<in>set xs. P x))"
proof (induction xs)
  case (Cons x xs)
  obtain y where y: "f x s = (Inr y, s)" "Q y \<longleftrightarrow> P x" using assms by blast
  from Cons.IH obtain ys where ys: "for_each xs f s = (Inr ys, s)" "(\<forall>y\<in>set ys. Q y) \<longleftrightarrow> (\<forall>x\<in>set xs. P x)" by blast
  from for_each_ConsI [OF y(1) ys(1)] y(2) ys(2) show ?case by (intro exI [of _ "y # ys"]) simp
qed simp

lemma check_document_run:
  assumes "graph_ok s"
  shows "\<exists>r. check_document tenant by_type ty s = (Inr r, s) \<and>
    (r = ([], []) \<longleftrightarrow> (\<exists>d dn. map_of by_type ty = Some d \<and> settled_status (gd_status d) \<and> node_at tenant NODE_DOCUMENT (gd_id d) s = Some dn))"
  by (cases "map_of by_type ty") (auto simp: check_document_def get_node_run [OF assms])

lemma check_closing_package_edges_run:
  assumes "graph_ok s"
  shows "\<exists>es. check_closing_package_edges tenant pn by_type period_node s = (Inr es, s) \<and>
    (es = [] \<longleftrightarrow> (\<forall>d\<in>set (map snd (filter (\<lambda>x. fst x \<in> set required_types) by_type)). \<forall>dn.
        node_at tenant NODE_DOCUMENT (gd_id d) s = Some dn \<longrightarrow> joined tenant EDGE_INCLUDES pn dn s) \<and>
      (\<forall>bn. period_node = Some bn \<longrightarrow> joined tenant EDGE_CLOSES pn bn s))"
proof -
  let ?f = "\<lambda>d. and_then (get_node tenant NODE_DOCUMENT (gd_id d)) (\<lambda>n.
    case n of None \<Rightarrow> ret [] | Some dn \<Rightarrow> edge_missing tenant EDGE_INCLUDES pn dn)"
  have "\<exists>es. ?f d s = (Inr es, s) \<and> (es = [] \<longleftrightarrow> (\<forall>dn. node_at tenant NODE_DOCUMENT (gd_id d) s = Some dn \<longrightarrow> joined tenant EDGE_INCLUDES pn dn s))" for d
    using edge_missing_run [OF assms, of tenant EDGE_INCLUDES pn]
    by (cases "node_at tenant NODE_DOCUMENT (gd_id d) s") (auto simp: get_node_run [OF assms])
  from for_each_reads [of ?f s "\<lambda>es. es = []", OF this] obtain ie where i:
    "for_each (map snd (filter (\<lambda>x. fst x \<in> set required_types) by_type)) ?f s = (Inr ie, s)"
    "(\<forall>es\<in>set ie. es = []) \<longleftrightarrow> (\<forall>d\<in>set (map snd (filter (\<lambda>x. fst x \<in> set required_types) by_type)). \<forall>dn.
        node_at tenant NODE_DOCUMENT (gd_id d) s = Some dn \<longrightarrow> joined tenant EDGE_INCLUDES pn dn s)" by blast
  obtain closes where c: "(case period_node of None \<Rightarrow> ret [] | Some bn \<Rightarrow> edge_missing tenant EDGE_CLOSES pn bn) s = (Inr closes, s)"
    "closes = [] \<longleftrightarrow> (\<forall>bn. period_node = Some bn \<longrightarrow> joined tenant EDGE_CLOSES pn bn s)"
    using edge_missing_run [OF assms, of tenant EDGE_CLOSES pn] by (cases period_node) auto
  have "check_closing_package_edges tenant pn by_type period_node s = (Inr (concat ie @ closes), s)"
    unfolding check_closing_package_edges_def using i(1) c(1) by simp
  moreover have "concat ie @ closes = [] \<longleftrightarrow> (\<forall>es\<in>set ie. es = []) \<and> closes = []" by auto
  ultimately show ?thesis using i(2) c(2) by (intro exI [of _ "concat ie @ closes"]) (simp only: simp_thms)
qed

lemma check_exports_run:
  assumes "graph_ok s"
  shows "\<exists>ns es. check_exports tenant (Some bn) batches s = (Inr (ns, es), s) \<and>
    (ns = [] \<and> es = [] \<longleftrightarrow> batches = [] \<or>
       (\<exists>b\<in>set batches. ab_state b = EXPORT_CONFIRMED) \<and>
       (\<forall>b\<in>set batches. ab_state b = EXPORT_CONFIRMED \<longrightarrow>
          (\<exists>en. node_at tenant NODE_ACCOUNTING_EXPORT_BATCH (ab_id b) s = Some en \<and> joined tenant EDGE_CONFIRMS en bn s)))"
proof -
  let ?confirmed = "filter (\<lambda>b. ab_state b = EXPORT_CONFIRMED) batches"
  have batch: "\<exists>r. check_export_batch tenant bn b s = (Inr r, s) \<and>
      (r = ([], []) \<longleftrightarrow> (\<exists>en. node_at tenant NODE_ACCOUNTING_EXPORT_BATCH (ab_id b) s = Some en \<and> joined tenant EDGE_CONFIRMS en bn s))" for b
  proof (cases "node_at tenant NODE_ACCOUNTING_EXPORT_BATCH (ab_id b) s")
    case (Some en)
    with edge_missing_run [OF assms, of tenant EDGE_CONFIRMS en bn] show ?thesis
      by (auto simp: check_export_batch_def get_node_run [OF assms])
  qed (simp add: check_export_batch_def get_node_run [OF assms])
  obtain rs where rs: "for_each ?confirmed (check_export_batch tenant bn) s = (Inr rs, s)"
    "(\<forall>r\<in>set rs. r = ([], [])) \<longleftrightarrow> (\<forall>b\<in>set ?confirmed. \<exists>en.
       node_at tenant NODE_ACCOUNTING_EXPORT_BATCH (ab_id b) s = Some en \<and> joined tenant EDGE_CONFIRMS en bn s)"
    using for_each_reads [of "check_export_batch tenant bn" s "\<lambda>r. r = ([], [])", OF batch] by blast
  have nothing: "concat (map fst rs) = [] \<and> concat (map snd rs) = [] \<longleftrightarrow> (\<forall>r\<in>set rs. r = ([], []))"
    by (auto simp: prod_eq_iff)
  show ?thesis
  proof (cases "batches = [] \<or> ?confirmed = []")
    case True
    then show ?thesis by (auto simp: check_exports_def Let_def filter_empty_conv)
  next
    case False
    then have "check_exports tenant (Some bn) batches s = (Inr (concat (map fst rs), concat (map snd rs)), s)"
      using rs(1) by (simp add: check_exports_def Let_def)
    moreover have "\<exists>b\<in>set batches. ab_state b = EXPORT_CONFIRMED" using False by (auto simp: filter_empty_conv)
    ultimately show ?thesis using nothing rs(2) False
      by (intro exI [of _ "concat (map fst rs)"] exI [of _ "concat (map snd rs)"]) auto
  qed
qed

lemma check_package_run:
  assumes "graph_ok s"
  shows "\<exists>ns es rs. check_package tenant by_type period_node package s = (Inr (ns, es, rs), s) \<and>
    (ns = [] \<and> es = [] \<and> rs = [] \<longleftrightarrow> (\<exists>pk pn. package = Some pk \<and> settled_status (cp_status pk) \<and>
       node_at tenant NODE_CLOSING_PACKAGE (cp_id pk) s = Some pn \<and>
       (\<forall>d\<in>set (map snd (filter (\<lambda>x. fst x \<in> set required_types) by_type)). \<forall>dn.
          node_at tenant NODE_DOCUMENT (gd_id d) s = Some dn \<longrightarrow> joined tenant EDGE_INCLUDES pn dn s) \<and>
       (\<forall>bn. period_node = Some bn \<longrightarrow> joined tenant EDGE_CLOSES pn bn s)))"
proof (cases package)
  case None
  then show ?thesis by (simp add: check_package_def)
next
  case (Some pk)
  show ?thesis
  proof (cases "node_at tenant NODE_CLOSING_PACKAGE (cp_id pk) s")
    case None
    with Some show ?thesis by (simp add: check_package_def Let_def get_node_run [OF assms])
  next
    case pn: (Some pn)
    obtain es where es: "check_closing_package_edges tenant pn by_type period_node s = (Inr es, s)"
      "es = [] \<longleftrightarrow> (\<forall>d\<in>set (map snd (filter (\<lambda>x. fst x \<in> set required_types) by_type)). \<forall>dn.
          node_at tenant NODE_DOCUMENT (gd_id d) s = Some dn \<longrightarrow> joined tenant EDGE_INCLUDES pn dn s) \<and>
        (\<forall>bn. period_node = Some bn \<longrightarrow> joined tenant EDGE_CLOSES pn bn s)"
      using check_closing_package_edges_run [OF assms, of tenant pn by_type period_node] by (elim exE conjE) (rule that)
    have "check_package tenant by_type period_node package s =
        (Inr ([], es, if settled_status (cp_status pk) then [] else [''closing_package_not_finalized'']), s)"
      unfolding Some by (simp add: check_package_def Let_def get_node_run [OF assms] pn es(1))
    then show ?thesis
      by (intro exI conjI, assumption) (simp add: Some pn es(2) conj_commute)
  qed
qed

lemma check_exports_no_node: "\<exists>ns es. check_exports tenant None batches s = (Inr (ns, es), s)"
  by (simp add: check_exports_def Let_def)

lemma documents_by_type_last:
  "map_of (documents_by_type docs) ty = List.find (\<lambda>d. gd_document_type d = ty) (rev docs)"
  by (induction docs rule: rev_induct) (simp_all add: documents_by_type_def update_conv')

lemma documents_by_type_distinct: "distinct (map fst (documents_by_type docs))"
  by (induction docs rule: rev_induct) (simp_all add: documents_by_type_def distinct_update)

lemma required_documents:
  "d \<in> set (map snd (filter (\<lambda>x. fst x \<in> set required_types) (documents_by_type docs))) \<longleftrightarrow>
     (\<exists>ty\<in>set required_types. List.find (\<lambda>d. gd_document_type d = ty) (rev docs) = Some d)"
proof -
  have "(ty, d) \<in> set (documents_by_type docs) \<longleftrightarrow> List.find (\<lambda>d. gd_document_type d = ty) (rev docs) = Some d" for ty
    using map_of_eq_Some_iff [OF documents_by_type_distinct, of docs ty d] by (simp add: documents_by_type_last)
  then show ?thesis by force
qed

lemma merge_requirements:
  "(\<forall>ty\<in>T. \<exists>d dn. f ty = Some d \<and> S d \<and> N d = Some dn) \<and>
   (\<exists>pk pn. L = Some pk \<and> C pk \<and> M pk = Some pn \<and> (\<forall>ty\<in>T. \<forall>d. f ty = Some d \<longrightarrow> (\<forall>dn. N d = Some dn \<longrightarrow> J pn dn)) \<and>
      (\<forall>x. Some b = Some x \<longrightarrow> K pn x)) \<and> X \<longleftrightarrow>
   (\<exists>pk pn. L = Some pk \<and> C pk \<and> M pk = Some pn \<and> K pn b \<and>
      (\<forall>ty\<in>T. \<exists>d dn. f ty = Some d \<and> S d \<and> N d = Some dn \<and> J pn dn) \<and> X)" (is "?l \<longleftrightarrow> ?r")
proof
  assume ?l
  then obtain pk pn where 1: "L = Some pk" "C pk" "M pk = Some pn" "K pn b" X
      "\<forall>ty\<in>T. \<forall>d. f ty = Some d \<longrightarrow> (\<forall>dn. N d = Some dn \<longrightarrow> J pn dn)" by blast
  moreover have "\<forall>ty\<in>T. \<exists>d dn. f ty = Some d \<and> S d \<and> N d = Some dn \<and> J pn dn" using \<open>?l\<close> 1(6) by blast
  ultimately show ?r by blast
next
  assume ?r
  then obtain pk pn where 1: "L = Some pk" "C pk" "M pk = Some pn" "K pn b" X
      "\<forall>ty\<in>T. \<exists>d dn. f ty = Some d \<and> S d \<and> N d = Some dn \<and> J pn dn" by blast
  moreover have "\<forall>ty\<in>T. \<forall>d. f ty = Some d \<longrightarrow> (\<forall>dn. N d = Some dn \<longrightarrow> J pn dn)" using 1(6) by force
  ultimately show ?l by blast
qed

lemma required_all:
  "(\<forall>d\<in>set (map snd (filter (\<lambda>x. fst x \<in> set required_types) (documents_by_type docs))). Q d) \<longleftrightarrow>
     (\<forall>ty\<in>set required_types. \<forall>d. List.find (\<lambda>d. gd_document_type d = ty) (rev docs) = Some d \<longrightarrow> Q d)"
  using required_documents [of _ docs] by blast

lemma completeness_run:
  assumes "graph_ok s" and "distinct (map bp_id (billing_periods s))" and "p \<in> set (billing_periods s)"
  shows "\<exists>r. check_billing_period_completeness tzr tenant (bp_id p) s = (Inr r, s) \<and>
    (cr_ok r \<longleftrightarrow> period_complete tzr tenant p s)"
proof -
  let ?dates = "period_dates tzr p" and ?bn = "node_at tenant NODE_BILLING_PERIOD (bp_id p) s"
  let ?bt = "documents_by_type (documents_of_period (period_dates tzr p) s)"
  let ?batches = "filter (\<lambda>b. ab_billing_period_id b = bp_id p) (accounting_export_batches s)"
  have found: "one_or_none (\<lambda>x. bp_id x = bp_id p) (billing_periods s) = Inr (Some p)"
    by (rule one_or_none_unique_key [OF assms(2,3)])
  obtain docs where docs: "for_each required_types (check_document tenant ?bt) s = (Inr docs, s)"
      "(\<forall>r\<in>set docs. r = ([], [])) \<longleftrightarrow> (\<forall>ty\<in>set required_types. \<exists>d dn. map_of ?bt ty = Some d \<and>
         settled_status (gd_status d) \<and> node_at tenant NODE_DOCUMENT (gd_id d) s = Some dn)"
    using for_each_reads [of "check_document tenant ?bt" s "\<lambda>r. r = ([], [])", OF check_document_run [OF assms(1)]] by blast
  obtain pns pes prs where package: "check_package tenant ?bt ?bn (latest_package ?dates s) s = (Inr (pns, pes, prs), s)"
      "pns = [] \<and> pes = [] \<and> prs = [] \<longleftrightarrow> (\<exists>pk pn. latest_package ?dates s = Some pk \<and> settled_status (cp_status pk) \<and>
         node_at tenant NODE_CLOSING_PACKAGE (cp_id pk) s = Some pn \<and>
         (\<forall>d\<in>set (map snd (filter (\<lambda>x. fst x \<in> set required_types) ?bt)). \<forall>dn.
            node_at tenant NODE_DOCUMENT (gd_id d) s = Some dn \<longrightarrow> joined tenant EDGE_INCLUDES pn dn s) \<and>
         (\<forall>bn. ?bn = Some bn \<longrightarrow> joined tenant EDGE_CLOSES pn bn s))"
    using check_package_run [OF assms(1), of tenant ?bt ?bn "latest_package ?dates s"] by blast
  obtain ens ees where exports: "check_exports tenant ?bn ?batches s = (Inr (ens, ees), s)"
      "\<And>bn. ?bn = Some bn \<Longrightarrow> ens = [] \<and> ees = [] \<longleftrightarrow> exports_confirmed tenant bn (bp_id p) s"
  proof (cases ?bn)
    case None
    then show thesis using that check_exports_no_node [of tenant ?batches s] by auto
  next
    case (Some bn)
    from check_exports_run [OF assms(1), of tenant bn ?batches] obtain ns es where
      "check_exports tenant (Some bn) ?batches s = (Inr (ns, es), s)" "ns = [] \<and> es = [] \<longleftrightarrow> exports_confirmed tenant bn (bp_id p) s"
      unfolding exports_confirmed_def Let_def by blast
    then show thesis using that [of ns es] Some by simp
  qed
  let ?nodes = "(if ?bn = None then [missing_node NODE_BILLING_PERIOD (bp_id p)] else []) @ concat (map fst docs) @ pns @ ens"
  let ?r = "\<lparr>cr_ok = (?nodes = [] \<and> pes @ ees = [] \<and> concat (map snd docs) @ prs = []), cr_missing_nodes = ?nodes,
    cr_missing_edges = pes @ ees, cr_blocking_reasons = concat (map snd docs) @ prs\<rparr>"
  have run: "check_billing_period_completeness tzr tenant (bp_id p) s = (Inr ?r, s)"
    using docs(1) package(1) exports(1)
    by (simp add: check_billing_period_completeness_def found get_node_run [OF assms(1)] documents_of_period_def
        latest_package_def first_row_sort Let_def)
  have "concat (map fst docs) = [] \<and> concat (map snd docs) = [] \<longleftrightarrow> (\<forall>r\<in>set docs. r = ([], []))" by (auto simp: prod_eq_iff)
  then have ok: "cr_ok ?r \<longleftrightarrow> ?bn \<noteq> None \<and> (\<forall>r\<in>set docs. r = ([], [])) \<and> (pns = [] \<and> pes = [] \<and> prs = []) \<and> (ens = [] \<and> ees = [])"
    by auto
  have "cr_ok ?r \<longleftrightarrow> period_complete tzr tenant p s"
  proof (cases ?bn)
    case None
    then show ?thesis unfolding ok by (simp add: period_complete_def)
  next
    case (Some bn)
    have "cr_ok ?r \<longleftrightarrow> (\<forall>r\<in>set docs. r = ([], [])) \<and> (pns = [] \<and> pes = [] \<and> prs = []) \<and> (ens = [] \<and> ees = [])"
      unfolding ok by (simp only: Some option.simps simp_thms)
    also have "\<dots> \<longleftrightarrow> (\<exists>pk pn. latest_package ?dates s = Some pk \<and> settled_status (cp_status pk) \<and>
        node_at tenant NODE_CLOSING_PACKAGE (cp_id pk) s = Some pn \<and> joined tenant EDGE_CLOSES pn bn s \<and>
        (\<forall>ty\<in>set required_types. \<exists>d dn. last_document ?dates ty s = Some d \<and> settled_status (gd_status d) \<and>
           node_at tenant NODE_DOCUMENT (gd_id d) s = Some dn \<and> joined tenant EDGE_INCLUDES pn dn s) \<and>
        exports_confirmed tenant bn (bp_id p) s)"
      unfolding docs(2) package(2) exports(2) [OF Some] required_all documents_by_type_last Some
        last_document_def [symmetric] by (rule merge_requirements)
    also have "\<dots> \<longleftrightarrow> period_complete tzr tenant p s"
      unfolding period_complete_def Some option.inject by blast
    finally show ?thesis .
  qed
  with run show ?thesis by blast
qed


definition plain_tz :: tz_rules where
  "plain_tz = \<lparr>tz_to_local = (\<lambda>_ t. t), tz_to_utc = (\<lambda>_ t. t)\<rparr>"

definition july :: billing_period where
  "july = \<lparr>bp_id = ''july'', bp_period_type = MONTHLY, bp_start_at = 0, bp_end_at = 30 * day_us, bp_tz = ''UTC'', bp_status = FINALIZED,
     bp_finalized_at = None, bp_locked_at = None\<rparr>"

definition complete_db :: "legal_document list \<Rightarrow> docs_db" where
  "complete_db extra = empty_docs_db
     \<lparr>billing_periods := [july],
      legal_nodes := [ref_node ''july'' 1 NODE_BILLING_PERIOD, ref_node ''package'' 1 NODE_CLOSING_PACKAGE,
        ref_node ''invoice'' 1 NODE_DOCUMENT, ref_node ''act'' 1 NODE_DOCUMENT, ref_node ''recon'' 1 NODE_DOCUMENT],
      legal_edges := [ref_edge ''e1'' EDGE_CLOSES ''package'' ''july'', ref_edge ''e2'' EDGE_INCLUDES ''package'' ''invoice'',
        ref_edge ''e3'' EDGE_INCLUDES ''package'' ''act'', ref_edge ''e4'' EDGE_INCLUDES ''package'' ''recon''],
      legal_documents := [demo_document ''invoice'' 1 DOC_INVOICE, demo_document ''act'' 1 DOC_ACT,
        demo_document ''recon'' 1 DOC_RECONCILIATION_ACT] @ extra,
      closing_packages := [demo_package]\<rparr>"

lemma complete_db_ok: "graph_ok (complete_db extra)" "billing_periods (complete_db extra) = [july]"
  by (simp_all add: graph_ok_def complete_db_def empty_docs_db_def ref_node_def ref_edge_def)


lemma july_dates: "period_dates plain_tz july = (0, 30)"
  by (simp add: period_dates_def plain_tz_def july_def day_us_def)



text \<open>
  The check takes the last document of a type from the documents of all tenants. A finalised invoice of tenant 2 for the
  same month, which has no node in the graph of tenant 1, makes the complete period of tenant 1 incomplete.
\<close>

theorem completeness_ignores_tenant:
  "\<exists>r t. check_billing_period_completeness plain_tz 1 ''july'' (complete_db [demo_document ''foreign'' 2 DOC_INVOICE]) = (Inr r, t) \<and> \<not> cr_ok r"
proof -
  let ?s = "complete_db [demo_document ''foreign'' 2 DOC_INVOICE]"
  have "last_document (0, 30) DOC_INVOICE ?s = Some (demo_document ''foreign'' 2 DOC_INVOICE)"
    and "node_at 1 NODE_DOCUMENT ''foreign'' ?s = None"
    by (simp_all add: last_document_def documents_of_period_def complete_db_def demo_document_def node_at_def node_scope_def ref_node_def)
  then have "\<not> period_complete plain_tz 1 july ?s"
    by (auto simp: period_complete_def july_dates required_types_def demo_document_def)
  with completeness_run [OF complete_db_ok(1), of _ july plain_tz 1] show ?thesis
    by (fastforce simp: complete_db_ok(2) july_def)
qed

end
