(* ===== verification/Transactions.thy ===== *)
theory Transactions
  imports Billing_Periods
begin

text \<open>
  Card transactions (\<open>services/transactions.py\<close>, \<open>models/operation.py\<close>): capturing, refunding and reversing an
  authorisation, and the view of a transaction that is computed from its operations. The helpers of the lifecycle
  raise the errors of their own module only, so they return \<open>tx_error + tx_operation\<close>.
\<close>

section \<open>The table of operations\<close>

datatype operation_type =
    OT_AUTH | OT_HOLD | OT_COMMIT | OT_REVERSE | OT_REFUND | OT_DECLINE | OT_CAPTURE | OT_REVERSAL

fun operation_type_value :: "operation_type \<Rightarrow> string" where
  "operation_type_value OT_AUTH = ''AUTH''"
| "operation_type_value OT_HOLD = ''HOLD''"
| "operation_type_value OT_COMMIT = ''COMMIT''"
| "operation_type_value OT_REVERSE = ''REVERSE''"
| "operation_type_value OT_REFUND = ''REFUND''"
| "operation_type_value OT_DECLINE = ''DECLINE''"
| "operation_type_value OT_CAPTURE = ''CAPTURE''"
| "operation_type_value OT_REVERSAL = ''REVERSAL''"

datatype operation_status =
    OP_PENDING | OP_AUTHORIZED | OP_HELD | OP_COMPLETED | OP_REVERSED | OP_REFUNDED | OP_DECLINED | OP_CANCELLED
  | OP_CAPTURED | OP_OPEN

text \<open>
  The columns that transactions and payouts read. Amounts are minor units, quantities thousandths; \<open>amount_settled\<close> has
  the default 0.
\<close>

record tx_operation =
  co_operation_id :: string
  co_created_at :: int
  co_operation_type :: operation_type
  co_status :: operation_status
  co_merchant_id :: string
  co_terminal_id :: string
  co_client_id :: string
  co_card_id :: string
  co_amount :: int
  co_amount_settled :: "int option"
  co_currency :: string
  co_quantity :: "int option"
  co_captured_amount :: int
  co_refunded_amount :: int
  co_parent_operation_id :: "string option"
  co_mcc :: "string option"
  co_product_code :: "string option"
  co_product_category :: "string option"
  co_tx_type :: "string option"

record tx_db = fin_db +
  tx_operations :: "tx_operation list"

datatype tx_error = ParentNotFound string | InvalidState string | AmountTooLarge string

section \<open>Lifecycle\<close>

definition get_operation_or_error :: "string \<Rightarrow> 'a tx_db_scheme \<Rightarrow> tx_error + tx_operation" where
  "get_operation_or_error i s =
     (case find (\<lambda>x. co_operation_id x = i) (tx_operations s) of
        None \<Rightarrow> Inl (ParentNotFound (''operation '' @ i @ '' not found''))
      | Some x \<Rightarrow> Inr x)"

text \<open>The row that capturing, refunding and reversing add below another operation.\<close>

definition child_operation ::
    "operation_type \<Rightarrow> operation_status \<Rightarrow> int \<Rightarrow> tx_operation \<Rightarrow> string \<Rightarrow> int \<Rightarrow> tx_operation" where
  "child_operation ty st amount p i now =
     \<lparr>co_operation_id = i, co_created_at = now, co_operation_type = ty, co_status = st,
      co_merchant_id = co_merchant_id p, co_terminal_id = co_terminal_id p, co_client_id = co_client_id p,
      co_card_id = co_card_id p, co_amount = amount, co_amount_settled = Some 0, co_currency = co_currency p,
      co_quantity = None, co_captured_amount = 0, co_refunded_amount = 0,
      co_parent_operation_id = Some (co_operation_id p), co_mcc = co_mcc p, co_product_code = co_product_code p,
      co_product_category = co_product_category p, co_tx_type = co_tx_type p\<rparr>"

text \<open>The identifier is drawn, the database stamps the row, and both rows are committed.\<close>

definition add_child ::
    "world \<Rightarrow> operation_type \<Rightarrow> operation_status \<Rightarrow> int \<Rightarrow> tx_operation \<Rightarrow> tx_operation \<Rightarrow> 'a tx_db_scheme \<Rightarrow>
     (tx_error + tx_operation) \<times> 'a tx_db_scheme" where
  "add_child w ty st amount p p' s =
     (let c = child_operation ty st amount p (uuid_at w (tick s)) (time_at w (Suc (tick s)))
      in (Inr c, s\<lparr>tick := Suc (Suc (tick s)), tx_operations := store_row co_operation_id p' (tx_operations s) @ [c]\<rparr>))"

definition capture_operation ::
    "world \<Rightarrow> string \<Rightarrow> int option \<Rightarrow> 'a tx_db_scheme \<Rightarrow> (tx_error + tx_operation) \<times> 'a tx_db_scheme" where
  "capture_operation w auth_id amount s =
     (case get_operation_or_error auth_id s of
        Inl e \<Rightarrow> (Inl e, s)
      | Inr a \<Rightarrow>
          if co_operation_type a \<noteq> OT_AUTH then (Inl (InvalidState ''only AUTH operations can be captured''), s)
          else if co_status a \<notin> {OP_AUTHORIZED, OP_CAPTURED}
          then (Inl (InvalidState ''auth is not in a capturable state''), s)
          else let remaining = co_amount a - co_captured_amount a
          in if remaining \<le> 0 then (Inl (InvalidState ''authorization already fully captured''), s)
          else let capture_amount = (case amount of None \<Rightarrow> remaining | Some x \<Rightarrow> x)
          in if capture_amount \<le> 0 then (Inl (InvalidState ''capture amount must be positive''), s)
          else if capture_amount > remaining
          then (Inl (AmountTooLarge ''capture amount exceeds authorized remainder''), s)
          else let captured = co_captured_amount a + capture_amount;
                   a' = a\<lparr>co_captured_amount := captured,
                          co_status := (if captured \<ge> co_amount a then OP_CAPTURED else OP_AUTHORIZED)\<rparr>
               in add_child w OT_CAPTURE OP_CAPTURED capture_amount a a' s)"

definition refund_operation ::
    "world \<Rightarrow> string \<Rightarrow> int option \<Rightarrow> 'a tx_db_scheme \<Rightarrow> (tx_error + tx_operation) \<times> 'a tx_db_scheme" where
  "refund_operation w captured_id amount s =
     (case get_operation_or_error captured_id s of
        Inl e \<Rightarrow> (Inl e, s)
      | Inr c \<Rightarrow>
          if co_operation_type c \<noteq> OT_CAPTURE then (Inl (InvalidState ''only CAPTURE operations can be refunded''), s)
          else if co_status c \<notin> {OP_CAPTURED, OP_REFUNDED} then (Inl (InvalidState ''capture is not refundable''), s)
          else let remaining = co_amount c - co_refunded_amount c;
                   refund_amount = (case amount of None \<Rightarrow> remaining | Some x \<Rightarrow> x)
          in if refund_amount \<le> 0 then (Inl (InvalidState ''refund amount must be positive''), s)
          else if refund_amount > remaining then (Inl (AmountTooLarge ''refund amount exceeds captured remainder''), s)
          else let refunded = co_refunded_amount c + refund_amount;
                   c' = c\<lparr>co_refunded_amount := refunded,
                          co_status := (if refunded \<ge> co_amount c then OP_REFUNDED else OP_CAPTURED)\<rparr>
               in add_child w OT_REFUND OP_REFUNDED refund_amount c c' s)"

definition reverse_auth ::
    "world \<Rightarrow> string \<Rightarrow> 'a tx_db_scheme \<Rightarrow> (tx_error + tx_operation) \<times> 'a tx_db_scheme" where
  "reverse_auth w auth_id s =
     (case get_operation_or_error auth_id s of
        Inl e \<Rightarrow> (Inl e, s)
      | Inr a \<Rightarrow>
          if co_operation_type a \<noteq> OT_AUTH then (Inl (InvalidState ''only AUTH operations can be reversed''), s)
          else let children = filter (\<lambda>x. co_parent_operation_id x = Some (co_operation_id a)) (tx_operations s)
          in if \<exists>x\<in>set children. co_operation_type x = OT_CAPTURE
          then (Inl (InvalidState ''cannot reverse auth with captures''), s)
          else add_child w OT_REVERSAL OP_REVERSED (co_amount a) a (a\<lparr>co_status := OP_REVERSED\<rparr>) s)"

section \<open>The view of a transaction\<close>

record transaction_view =
  tv_transaction_id :: string
  tv_created_at :: int
  tv_updated_at :: int
  tv_merchant_id :: string
  tv_terminal_id :: string
  tv_client_id :: string
  tv_card_id :: string
  tv_currency :: string
  tv_authorized_amount :: int
  tv_captured_amount :: int
  tv_refunded_amount :: int
  tv_status :: string
  tv_operation_types :: "string list"
  tv_auth_operation :: tx_operation
  tv_last_operation :: tx_operation
  tv_mcc :: "string option"
  tv_product_code :: "string option"
  tv_product_category :: "string option"
  tv_tx_type :: "string option"

definition determine_status :: "int \<Rightarrow> int \<Rightarrow> int \<Rightarrow> tx_operation list \<Rightarrow> string" where
  "determine_status authorized captured refunded ops =
     (if authorized \<le> 0 then ''ERROR''
      else if \<exists>x\<in>set ops. co_operation_type x = OT_REVERSAL \<or> co_operation_type x = OT_REVERSE then ''CANCELLED''
      else if refunded > 0 \<and> refunded \<ge> captured then ''REFUNDED''
      else if refunded > 0 \<and> captured > 0 \<and> refunded < captured then ''PARTIALLY_REFUNDED''
      else if captured \<ge> authorized then ''CAPTURED''
      else if 0 < captured \<and> captured < authorized then ''PARTIALLY_CAPTURED''
      else if captured = 0 then ''AUTHORIZED''
      else ''ERROR'')"

definition derive_tx_type :: "tx_operation option \<Rightarrow> string option \<Rightarrow> string option \<Rightarrow> string option" where
  "derive_tx_type auth_op product_category mcc =
     (let category = (if str_truthy product_category then product_category
                      else case auth_op of Some a \<Rightarrow> co_product_category a | None \<Rightarrow> None);
          category = (if str_truthy category then map_option (map upper_char) category else None);
          effective_mcc = (if str_truthy mcc then mcc else case auth_op of Some a \<Rightarrow> co_mcc a | None \<Rightarrow> None)
      in case category of
           Some c \<Rightarrow> if take 6 c = ''DIESEL'' \<or> take 8 c = ''GASOLINE'' \<or> take 3 c = ''GAS'' then Some ''FUEL'' else Some ''OTHER''
         | None \<Rightarrow> if effective_mcc \<in> {Some ''5541'', Some ''5542''} then Some ''FUEL'' else None)"

text \<open>\<open>max(xs, key=f)\<close>: the first row with the largest key.\<close>

fun max_row :: "('r \<Rightarrow> 'k::linorder) \<Rightarrow> 'r \<Rightarrow> 'r list \<Rightarrow> 'r" where
  "max_row f r [] = r"
| "max_row f r (x # xs) = max_row f (if f r < f x then x else r) xs"

definition tx_captures :: "string \<Rightarrow> tx_operation list \<Rightarrow> tx_operation list" where
  "tx_captures auth_id ops =
     filter (\<lambda>x. (co_operation_type x = OT_CAPTURE \<or> co_operation_type x = OT_COMMIT) \<and> co_parent_operation_id x = Some auth_id) ops"

definition tx_refunds :: "string \<Rightarrow> string list \<Rightarrow> tx_operation list \<Rightarrow> tx_operation list" where
  "tx_refunds auth_id capture_ids ops =
     filter (\<lambda>x. co_operation_type x = OT_REFUND \<and>
       (co_parent_operation_id x = Some auth_id \<or>
        (str_truthy (co_parent_operation_id x) \<and> the (co_parent_operation_id x) \<in> set capture_ids))) ops"

definition build_transaction_from_operations :: "tx_operation list \<Rightarrow> transaction_view option" where
  "build_transaction_from_operations ops =
     (case sort_key co_created_at (filter (\<lambda>x. co_operation_type x = OT_AUTH) ops) of
        [] \<Rightarrow> None
      | a # _ \<Rightarrow>
          let captures = tx_captures (co_operation_id a) ops;
              refunds = tx_refunds (co_operation_id a) (map co_operation_id captures) ops;
              authorized = sum_list (map co_amount (filter (\<lambda>x. co_operation_type x = OT_AUTH) ops));
              captured = sum_list (map co_amount captures);
              refunded = sum_list (map co_amount refunds)
          in Some
            \<lparr>tv_transaction_id = co_operation_id a, tv_created_at = co_created_at a,
             tv_updated_at = co_created_at (max_row co_created_at (hd ops) (tl ops)),
             tv_merchant_id = co_merchant_id a, tv_terminal_id = co_terminal_id a, tv_client_id = co_client_id a,
             tv_card_id = co_card_id a, tv_currency = co_currency a, tv_authorized_amount = authorized,
             tv_captured_amount = captured, tv_refunded_amount = refunded,
             tv_status = determine_status authorized captured refunded ops,
             tv_operation_types = sort (remdups (map (operation_type_value \<circ> co_operation_type) ops)),
             tv_auth_operation = a,
             tv_last_operation = max_row (\<lambda>x. (co_created_at x, co_operation_id x)) (hd ops) (tl ops),
             tv_mcc = co_mcc a, tv_product_code = co_product_code a, tv_product_category = co_product_category a,
             tv_tx_type = (if str_truthy (co_tx_type a) then co_tx_type a else derive_tx_type (Some a) None None)\<rparr>)"

section \<open>Collecting the operations of several authorisations\<close>

text \<open>The walk to the authorisation above an operation: at most five parents.\<close>

fun find_root :: "(string \<rightharpoonup> tx_operation) \<Rightarrow> string list \<Rightarrow> nat \<Rightarrow> tx_operation \<Rightarrow> string option" where
  "find_root by_id auth_ids 0 x = None"
| "find_root by_id auth_ids (Suc n) x =
     (if \<not> str_truthy (co_parent_operation_id x) then None
      else case by_id (the (co_parent_operation_id x)) of
             None \<Rightarrow> None
           | Some p \<Rightarrow>
               if co_operation_type p = OT_AUTH \<and> co_operation_id p \<in> set auth_ids then Some (co_operation_id p)
               else find_root by_id auth_ids n p)"

definition group_of :: "(string \<rightharpoonup> tx_operation) \<Rightarrow> string list \<Rightarrow> tx_operation \<Rightarrow> string option" where
  "group_of by_id auth_ids x =
     (if co_operation_type x = OT_AUTH \<and> co_operation_id x \<in> set auth_ids then Some (co_operation_id x)
      else find_root by_id auth_ids 5 x)"

text \<open>The mapping gives the empty list to every other identifier, as the caller's \<open>get(_, [])\<close> does.\<close>

definition group_operations_by_auth :: "tx_operation list \<Rightarrow> string list \<Rightarrow> string \<Rightarrow> tx_operation list" where
  "group_operations_by_auth ops auth_ids =
     (let by_id = map_of (rev (map (\<lambda>x. (co_operation_id x, x)) ops))
      in fold (\<lambda>x m. case group_of by_id auth_ids x of None \<Rightarrow> m | Some r \<Rightarrow> m(r := m r @ [x])) ops (\<lambda>_. []))"

definition op_order :: "tx_operation \<Rightarrow> int \<times> string" where
  "op_order x = (co_created_at x, co_operation_id x)"

definition fetch_operations_for_auths :: "'a tx_db_scheme \<Rightarrow> string list \<Rightarrow> string \<Rightarrow> tx_operation list" where
  "fetch_operations_for_auths s auth_ids =
     (if auth_ids = [] then (\<lambda>_. [])
      else
        let ops = sort_key op_order (filter (\<lambda>x. co_operation_id x \<in> set auth_ids \<or>
                    co_parent_operation_id x \<in> Some ` set auth_ids) (tx_operations s));
            capture_ids = map co_operation_id (filter (\<lambda>x. co_operation_type x = OT_CAPTURE \<and>
                    co_parent_operation_id x \<in> Some ` set auth_ids) ops);
            children = (if capture_ids = [] then []
                        else sort_key op_order (filter (\<lambda>x. co_operation_type x = OT_REFUND \<and>
                               co_parent_operation_id x \<in> Some ` set capture_ids) (tx_operations s)))
        in group_operations_by_auth (ops @ children) auth_ids)"

section \<open>Lists and single transactions\<close>

record tx_query =
  tq_client_id :: "string option"
  tq_card_id :: "string option"
  tq_merchant_id :: "string option"
  tq_terminal_id :: "string option"
  tq_status :: "string option"
  tq_from_created_at :: "int option"
  tq_to_created_at :: "int option"
  tq_min_amount :: "int option"
  tq_max_amount :: "int option"
  tq_order_by :: string
  tq_product_category :: "string option"
  tq_mcc :: "string option"
  tq_tx_type :: "string option"
  tq_no_pagination :: bool
  tq_limit :: nat
  tq_offset :: nat

definition given :: "string option \<Rightarrow> string option \<Rightarrow> bool" where
  "given wanted v \<longleftrightarrow> (str_truthy wanted \<longrightarrow> v = wanted)"

definition auth_matches :: "tx_query \<Rightarrow> tx_operation \<Rightarrow> bool" where
  "auth_matches q a \<longleftrightarrow> co_operation_type a = OT_AUTH \<and>
     given (tq_client_id q) (Some (co_client_id a)) \<and> given (tq_card_id q) (Some (co_card_id a)) \<and>
     given (tq_merchant_id q) (Some (co_merchant_id a)) \<and> given (tq_terminal_id q) (Some (co_terminal_id a)) \<and>
     (case tq_from_created_at q of Some t \<Rightarrow> t \<le> co_created_at a | None \<Rightarrow> True) \<and>
     (case tq_to_created_at q of Some t \<Rightarrow> co_created_at a \<le> t | None \<Rightarrow> True)"

definition view_matches :: "tx_query \<Rightarrow> transaction_view \<Rightarrow> bool" where
  "view_matches q v \<longleftrightarrow> given (tq_status q) (Some (tv_status v)) \<and>
     given (tq_product_category q) (tv_product_category v) \<and> given (tq_mcc q) (tv_mcc v) \<and>
     given (tq_tx_type q) (tv_tx_type v) \<and>
     (case tq_min_amount q of Some x \<Rightarrow> x \<le> tv_authorized_amount v | None \<Rightarrow> True) \<and>
     (case tq_max_amount q of Some x \<Rightarrow> tv_authorized_amount v \<le> x | None \<Rightarrow> True)"

definition view_order :: "string \<Rightarrow> transaction_view \<Rightarrow> int \<times> string" where
  "view_order order_by v =
     (if order_by = ''created_at_asc'' then (tv_created_at v, tv_transaction_id v)
      else if order_by = ''amount_desc'' then (- tv_authorized_amount v, tv_transaction_id v)
      else if order_by = ''amount_asc'' then (tv_authorized_amount v, tv_transaction_id v)
      else (- tv_created_at v, tv_transaction_id v))"

record transactions_page =
  tp_items :: "transaction_view list"
  tp_total :: nat
  tp_limit :: nat
  tp_offset :: nat

definition list_transactions :: "tx_query \<Rightarrow> 'a tx_db_scheme \<Rightarrow> transactions_page" where
  "list_transactions q s =
     (let auths = rev (sort_key op_order (filter (auth_matches q) (tx_operations s)));
          groups = fetch_operations_for_auths s (map co_operation_id auths);
          views = List.map_filter (\<lambda>a. build_transaction_from_operations (groups (co_operation_id a))) auths;
          items = sort_key (view_order (tq_order_by q)) (filter (view_matches q) views)
      in if tq_no_pagination q
         then \<lparr>tp_items = items, tp_total = length items, tp_limit = length items, tp_offset = 0\<rparr>
         else \<lparr>tp_items = take (tq_limit q) (drop (tq_offset q) items), tp_total = length items,
               tp_limit = tq_limit q, tp_offset = tq_offset q\<rparr>)"

definition get_transaction :: "string \<Rightarrow> 'a tx_db_scheme \<Rightarrow> (transaction_view \<times> tx_operation list) option" where
  "get_transaction i s =
     (let ops = sort_key op_order (filter (\<lambda>x. co_operation_id x = i \<or> co_parent_operation_id x = Some i) (tx_operations s))
      in if ops = [] then None
         else case build_transaction_from_operations ops of None \<Rightarrow> None | Some v \<Rightarrow> Some (v, ops))"

end
