(* ===== verification/Payouts.thy ===== *)
theory Payouts
  imports Transactions
begin

text \<open>
  Payouts to partners (\<open>services/payouts_service.py\<close>, \<open>models/payout_batch.py\<close>): closing a period into a batch,
  marking a batch as sent and settled, reconciling it with the operations. Amounts are whole minor units and
  quantities thousandths, as the columns hold them. Metrics are left out.
\<close>

section \<open>Tables\<close>

datatype payout_state = PAYOUT_DRAFT | PAYOUT_READY | PAYOUT_SENT | PAYOUT_SETTLED | PAYOUT_FAILED

record payout_item =
  pi_amount_gross :: int
  pi_commission_amount :: int
  pi_amount_net :: int
  pi_qty :: int
  pi_operations_count :: int

record payout_batch =
  pb_id :: string
  pb_tenant_id :: int
  pb_partner_id :: string
  pb_date_from :: int
  pb_date_to :: int
  pb_state :: payout_state
  pb_total_amount :: int
  pb_total_qty :: int
  pb_operations_count :: int
  pb_created_at :: int
  pb_sent_at :: "int option"
  pb_settled_at :: "int option"
  pb_provider :: "string option"
  pb_external_ref :: "string option"
  pb_billing_period_id :: string
  pb_items :: "payout_item list"

record payout_db = tx_db +
  payout_batches :: "payout_batch list"

text \<open>
  The surroundings of a call: the time zone of billing and the date that the database computes from an instant.
  \<open>committed\<close> in the operations below is the table of batches as other sessions have left it when this one flushes or
  commits; without them it is the table that the call started with.
\<close>

record payout_env =
  pe_world :: world
  pe_tz_rules :: tz_rules
  pe_billing_tz :: string
  pe_sql_date :: "int \<Rightarrow> int"

section \<open>The operations of a period\<close>

definition in_payout :: "payout_env \<Rightarrow> string \<Rightarrow> int \<Rightarrow> int \<Rightarrow> tx_operation \<Rightarrow> bool" where
  "in_payout env partner date_from date_to o1 \<longleftrightarrow>
     co_merchant_id o1 = partner \<and> (co_status o1 = OP_CAPTURED \<or> co_status o1 = OP_COMPLETED) \<and>
     date_from \<le> pe_sql_date env (co_created_at o1) \<and> pe_sql_date env (co_created_at o1) \<le> date_to"

definition operations_query :: "payout_env \<Rightarrow> string \<Rightarrow> int \<Rightarrow> int \<Rightarrow> 'a payout_db_scheme \<Rightarrow> tx_operation list" where
  "operations_query env partner date_from date_to s = filter (in_payout env partner date_from date_to) (tx_operations s)"

text \<open>\<open>coalesce(amount_settled, amount)\<close>; sums skip missing values and are zero for no rows.\<close>

definition payable_amount :: "tx_operation \<Rightarrow> int" where
  "payable_amount o1 = (case co_amount_settled o1 of None \<Rightarrow> co_amount o1 | Some x \<Rightarrow> x)"

definition total_payable :: "tx_operation list \<Rightarrow> int" where
  "total_payable ops = sum_list (map payable_amount ops)"

definition total_quantity :: "tx_operation list \<Rightarrow> int" where
  "total_quantity ops = sum_list (List.map_filter co_quantity ops)"

section \<open>Closing a period\<close>

record payout_call =
  py_tenant_id :: int
  py_partner_id :: string
  py_date_from :: int
  py_date_to :: int
  py_token :: "token option"

text \<open>The result of closing: \<open>PayoutBatchResult\<close>, or the batch itself, which the handler of a lost race returns.\<close>

datatype close_result = BatchResult payout_batch bool | BareBatch payout_batch

definition payout_scope :: "payout_call \<Rightarrow> payout_batch \<Rightarrow> bool" where
  "payout_scope q b \<longleftrightarrow> pb_tenant_id b = py_tenant_id q \<and> pb_partner_id b = py_partner_id q \<and>
     pb_date_from b = py_date_from q \<and> pb_date_to b = py_date_to q"

definition payout_resource :: "token option \<Rightarrow> int \<Rightarrow> string option \<Rightarrow> resource_context" where
  "payout_resource tok tenant status =
     \<lparr>rs_resource_type = ''PAYOUT_BATCH'',
      rs_tenant_id = (let t = ac_tenant_id (actor_from_token tok) in if t \<noteq> 0 then t else tenant),
      rs_client_id = None, rs_status = status\<rparr>"

definition new_batch :: "payout_call \<Rightarrow> string \<Rightarrow> int \<Rightarrow> string \<Rightarrow> tx_operation list \<Rightarrow> payout_batch" where
  "new_batch q i now period_id ops =
     \<lparr>pb_id = i, pb_tenant_id = py_tenant_id q, pb_partner_id = py_partner_id q, pb_date_from = py_date_from q,
      pb_date_to = py_date_to q, pb_state = PAYOUT_READY, pb_total_amount = total_payable ops,
      pb_total_qty = total_quantity ops, pb_operations_count = int (length ops), pb_created_at = now,
      pb_sent_at = None, pb_settled_at = None, pb_provider = None, pb_external_ref = None, pb_billing_period_id = period_id,
      pb_items = [\<lparr>pi_amount_gross = total_payable ops, pi_commission_amount = 0, pi_amount_net = total_payable ops,
        pi_qty = total_quantity ops, pi_operations_count = int (length ops)\<rparr>]\<rparr>"

text \<open>A rollback, after which the rows of the other sessions are visible.\<close>

definition rollback_committed :: "'a payout_db_scheme \<Rightarrow> payout_batch list \<Rightarrow> ('a payout_db_scheme, unit) act" where
  "rollback_committed base committed = update_state (\<lambda>s. base\<lparr>tick := tick s, payout_batches := committed\<rparr>)"

text \<open>The part of closing that follows the checks.\<close>

definition insert_batch ::
    "payout_env \<Rightarrow> 'a payout_db_scheme \<Rightarrow> payout_batch list \<Rightarrow> payout_call \<Rightarrow> string \<Rightarrow> ('a payout_db_scheme, close_result) act" where
  "insert_batch env base committed q period_id =
     and_then (query_one (payout_scope q) payout_batches) (\<lambda>existing.
     case existing of
       Some b \<Rightarrow> ret (BatchResult b False)
     | None \<Rightarrow>
         and_then (reading (operations_query env (py_partner_id q) (py_date_from q) (py_date_to q))) (\<lambda>ops.
         and_then (new_uuid_str (pe_world env)) (\<lambda>i.
         and_then (now_utc (pe_world env)) (\<lambda>now.
         let b = new_batch q i now period_id ops
         in if \<exists>x\<in>set committed. payout_scope q x
            then and_then (rollback_committed base committed) (\<lambda>_.
                 and_then (query_one (payout_scope q) payout_batches) (\<lambda>existing.
                 case existing of
                   Some x \<Rightarrow> ret (BareBatch x)
                 | None \<Rightarrow> raise_exc (PayoutError ''payout_batch_create_failed'')))
            else and_then (update_state (\<lambda>s. s\<lparr>payout_batches := payout_batches s @ [b]\<rparr>)) (\<lambda>_.
                 ret (BatchResult b True))))))"

definition close_payout_period ::
    "payout_env \<Rightarrow> 'a payout_db_scheme \<Rightarrow> payout_batch list \<Rightarrow> payout_call \<Rightarrow> ('a payout_db_scheme, close_result) act" where
  "close_payout_period env base committed q =
     and_then (asserting (py_date_from q \<le> py_date_to q) (ValueError ''invalid_period'')) (\<lambda>_.
     let w = pe_world env;
         (period_start, period_end) = period_bounds_for_dates (pe_tz_rules env) (py_date_from q) (py_date_to q) (pe_billing_tz env)
     in and_then (get_or_create_period w \<lparr>pk_type = ADHOC, pk_start = period_start, pk_end = period_end, pk_tz = pe_billing_tz env\<rparr>) (\<lambda>p.
     and_then (enforce_policy w (py_token q) PAYOUT_EXPORT_CREATE
       (payout_resource (py_token q) (py_tenant_id q) (Some (billing_period_status_value (bp_status p))))) (\<lambda>_.
     and_then (asserting (bp_status p = FINALIZED \<or> bp_status p = LOCKED) (PayoutError ''billing_period_not_finalized'')) (\<lambda>_.
     insert_batch env base committed q (bp_id p)))))"

section \<open>Sending and settling\<close>

record payout_mark =
  pm_batch_id :: string
  pm_provider :: string
  pm_external_ref :: string

record payout_state_result =
  pr_batch :: payout_batch
  pr_previous_state :: payout_state
  pr_is_replay :: bool

definition store_batch :: "payout_batch \<Rightarrow> ('a payout_db_scheme, unit) act" where
  "store_batch b = update_state (\<lambda>s. s\<lparr>payout_batches := store_row pb_id b (payout_batches s)\<rparr>)"

definition load_payout_batch :: "string \<Rightarrow> ('a payout_db_scheme, payout_batch option) act" where
  "load_payout_batch i = query_one (\<lambda>b. pb_id b = i) payout_batches"

definition same_ref :: "payout_mark \<Rightarrow> payout_batch \<Rightarrow> bool" where
  "same_ref m b \<longleftrightarrow> pb_provider b = Some (pm_provider m) \<and> pb_external_ref b = Some (pm_external_ref m)"

definition replayed_mark :: "payout_batch \<Rightarrow> payout_state_result" where
  "replayed_mark b = \<lparr>pr_batch = b, pr_previous_state = pb_state b, pr_is_replay = True\<rparr>"

definition mark_batch_sent ::
    "world \<Rightarrow> 'a payout_db_scheme \<Rightarrow> payout_batch list \<Rightarrow> payout_mark \<Rightarrow> ('a payout_db_scheme, payout_state_result) act" where
  "mark_batch_sent w base committed m =
     and_then (load_payout_batch (pm_batch_id m)) (\<lambda>found.
     case found of
       None \<Rightarrow> raise_exc (PayoutError ''batch_not_found'')
     | Some b \<Rightarrow>
         if pb_state b = PAYOUT_SENT \<or> pb_state b = PAYOUT_SETTLED
         then if same_ref m b then ret (replayed_mark b) else raise_exc (PayoutConflictError ''external_ref_conflict'')
         else
           and_then (asserting (pb_state b = PAYOUT_READY) (PayoutError ''invalid_state'')) (\<lambda>_.
           and_then (query_one (\<lambda>x. same_ref m x \<and> pb_id x \<noteq> pb_id b) payout_batches) (\<lambda>conflict.
           and_then (asserting (conflict = None) (PayoutConflictError ''external_ref_conflict'')) (\<lambda>_.
           and_then (now_utc w) (\<lambda>now.
           let b' = b\<lparr>pb_state := PAYOUT_SENT, pb_provider := Some (pm_provider m),
                      pb_external_ref := Some (pm_external_ref m), pb_sent_at := Some now\<rparr>
           in if \<exists>x\<in>set committed. same_ref m x \<and> pb_id x \<noteq> pb_id b
              then and_then (rollback_committed base committed) (\<lambda>_. raise_exc (PayoutConflictError ''external_ref_conflict''))
              else and_then (store_batch b') (\<lambda>_.
                   ret \<lparr>pr_batch = b', pr_previous_state = pb_state b, pr_is_replay = False\<rparr>))))))"

text \<open>Settling changes no column with a constraint, so its commit is not refused.\<close>

definition mark_batch_settled ::
    "world \<Rightarrow> token option \<Rightarrow> payout_mark \<Rightarrow> ('a payout_db_scheme, payout_state_result) act" where
  "mark_batch_settled w tok m =
     and_then (load_payout_batch (pm_batch_id m)) (\<lambda>found.
     case found of
       None \<Rightarrow> raise_exc (PayoutError ''batch_not_found'')
     | Some b \<Rightarrow>
         and_then (enforce_policy w tok PAYOUT_EXPORT_CONFIRM (payout_resource tok (pb_tenant_id b) None)) (\<lambda>_.
         if pb_state b = PAYOUT_SETTLED
         then if same_ref m b then ret (replayed_mark b) else raise_exc (PayoutConflictError ''external_ref_conflict'')
         else
           and_then (asserting (pb_state b = PAYOUT_SENT) (PayoutError ''invalid_state'')) (\<lambda>_.
           and_then (asserting (same_ref m b) (PayoutConflictError ''external_ref_conflict'')) (\<lambda>_.
           and_then (now_utc w) (\<lambda>now.
           let b' = b\<lparr>pb_state := PAYOUT_SETTLED, pb_settled_at := Some now\<rparr>
           in and_then (store_batch b') (\<lambda>_.
              ret \<lparr>pr_batch = b', pr_previous_state = pb_state b, pr_is_replay = False\<rparr>))))))"

section \<open>Reconciliation and lists\<close>

record payout_reconcile_result =
  rr_batch :: payout_batch
  rr_computed_amount :: int
  rr_computed_count :: int
  rr_recorded_amount :: int
  rr_recorded_count :: int

definition recorded_totals :: "payout_batch \<Rightarrow> int \<times> int" where
  "recorded_totals b =
     (if pb_items b \<noteq> [] then (sum_list (map pi_amount_net (pb_items b)), sum_list (map pi_operations_count (pb_items b)))
      else (pb_total_amount b, pb_operations_count b))"

definition reconcile_batch :: "payout_env \<Rightarrow> string \<Rightarrow> ('a payout_db_scheme, payout_reconcile_result) act" where
  "reconcile_batch env i =
     and_then (load_payout_batch i) (\<lambda>found.
     case found of
       None \<Rightarrow> raise_exc (PayoutError ''batch_not_found'')
     | Some b \<Rightarrow>
         and_then (reading (operations_query env (pb_partner_id b) (pb_date_from b) (pb_date_to b))) (\<lambda>ops.
         ret \<lparr>rr_batch = b, rr_computed_amount = total_payable ops, rr_computed_count = int (length ops),
              rr_recorded_amount = fst (recorded_totals b), rr_recorded_count = snd (recorded_totals b)\<rparr>))"

definition list_payout_batches ::
    "string option \<Rightarrow> payout_state option \<Rightarrow> int option \<Rightarrow> int option \<Rightarrow> nat \<Rightarrow> nat \<Rightarrow> 'a payout_db_scheme \<Rightarrow>
     payout_batch list \<times> nat" where
  "list_payout_batches partner state date_from date_to limit offset s =
     (let rows = filter (\<lambda>b.
            (case partner of Some p \<Rightarrow> p = [] \<or> pb_partner_id b = p | None \<Rightarrow> True) \<and>
            (case state of Some st \<Rightarrow> pb_state b = st | None \<Rightarrow> True) \<and>
            (case date_from of Some d \<Rightarrow> d \<le> pb_date_from b | None \<Rightarrow> True) \<and>
            (case date_to of Some d \<Rightarrow> pb_date_to b \<le> d | None \<Rightarrow> True)) (payout_batches s)
      in (take limit (drop offset (sort_key (\<lambda>b. (- pb_date_from b, - pb_created_at b)) rows)), length rows))"

end
