(* ===== verification/Transaction_Properties.thy ===== *)
theory Transaction_Properties
  imports Transactions Query_Order Ledger_Properties
begin

text \<open>
  What the lifecycle of card transactions guarantees: the amounts in the rows are those of their captures and refunds,
  nothing is captured beyond the authorisation or refunded beyond the capture, and the view of a transaction reports
  exactly that; and where the view of a single transaction does not.
\<close>

section \<open>Rows below rows\<close>

definition is_op :: "tx_operation list \<Rightarrow> string \<Rightarrow> operation_type \<Rightarrow> bool" where
  "is_op ops i ty \<longleftrightarrow> (i, ty) \<in> (\<lambda>x. (co_operation_id x, co_operation_type x)) ` set ops"

definition is_child :: "operation_type \<Rightarrow> string \<Rightarrow> tx_operation \<Rightarrow> bool" where
  "is_child ty i x \<longleftrightarrow> co_operation_type x = ty \<and> co_parent_operation_id x = Some i"

definition child_sum :: "operation_type \<Rightarrow> tx_operation list \<Rightarrow> string \<Rightarrow> int" where
  "child_sum ty ops i = sum_list (map co_amount (filter (is_child ty i) ops))"

definition has_child :: "operation_type \<Rightarrow> tx_operation list \<Rightarrow> string \<Rightarrow> bool" where
  "has_child ty ops i \<longleftrightarrow> (\<exists>x\<in>set ops. is_child ty i x)"

text \<open>A row in order, by its type.\<close>

definition tx_row :: "tx_operation list \<Rightarrow> tx_operation \<Rightarrow> bool" where
  "tx_row ops x \<longleftrightarrow>
     (case co_operation_type x of
        OT_AUTH \<Rightarrow> co_parent_operation_id x = None \<and> co_captured_amount x = child_sum OT_CAPTURE ops (co_operation_id x) \<and>
          co_captured_amount x \<le> max 0 (co_amount x) \<and>
          (co_status x = OP_REVERSED \<longleftrightarrow> has_child OT_REVERSAL ops (co_operation_id x)) \<and>
          (co_status x = OP_REVERSED \<longrightarrow> \<not> has_child OT_CAPTURE ops (co_operation_id x))
      | OT_CAPTURE \<Rightarrow> (\<exists>a. co_parent_operation_id x = Some a \<and> is_op ops a OT_AUTH) \<and> 0 < co_amount x \<and>
          co_refunded_amount x = child_sum OT_REFUND ops (co_operation_id x) \<and> co_refunded_amount x \<le> co_amount x
      | OT_REVERSAL \<Rightarrow> \<exists>a. co_parent_operation_id x = Some a \<and> is_op ops a OT_AUTH
      | OT_REFUND \<Rightarrow> (\<exists>c. co_parent_operation_id x = Some c \<and> is_op ops c OT_CAPTURE) \<and> 0 < co_amount x
      | _ \<Rightarrow> False)"

definition tx_ok :: "world \<Rightarrow> nat \<Rightarrow> tx_operation list \<Rightarrow> bool" where
  "tx_ok w n ops \<longleftrightarrow> distinct (map co_operation_id ops) \<and> (\<forall>x\<in>set ops. tx_row ops x \<and> co_operation_id x \<noteq> [] \<and>
     (if co_operation_type x = OT_AUTH then co_operation_id x \<notin> range (uuid_at w) else co_operation_id x \<in> uuid_at w ` {..<n}))"

lemma tx_ok_later: "tx_ok w n ops \<Longrightarrow> n \<le> m \<Longrightarrow> tx_ok w m ops"
  unfolding tx_ok_def by (elim conjE) (intro conjI ballI; fastforce split: if_splits)

lemma tx_ok_row: "tx_ok w n ops \<Longrightarrow> x \<in> set ops \<Longrightarrow> tx_row ops x"
  by (simp add: tx_ok_def)

lemma tx_ok_same: "tx_ok w n ops \<Longrightarrow> x \<in> set ops \<Longrightarrow> y \<in> set ops \<Longrightarrow> co_operation_id x = co_operation_id y \<Longrightarrow> x = y"
  unfolding tx_ok_def by (auto simp: distinct_map inj_on_def)

lemma child_sum_append [simp]: "child_sum ty (xs @ ys) i = child_sum ty xs i + child_sum ty ys i"
  by (simp add: child_sum_def)

lemma child_sum_single [simp]: "child_sum ty [x] i = (if is_child ty i x then co_amount x else 0)"
  by (simp add: child_sum_def)

lemma child_sum_none: "\<not> has_child ty ops i \<Longrightarrow> child_sum ty ops i = 0"
  unfolding has_child_def child_sum_def by (metis filter_False list.simps(8) sum_list.Nil)

lemma has_child_append [simp]: "has_child ty (xs @ ys) i \<longleftrightarrow> has_child ty xs i \<or> has_child ty ys i"
  by (auto simp: has_child_def)

lemma has_child_single [simp]: "has_child ty [x] i \<longleftrightarrow> is_child ty i x"
  by (simp add: has_child_def)

lemma is_op_append [simp]: "is_op (xs @ ys) i ty \<longleftrightarrow> is_op xs i ty \<or> is_op ys i ty"
  by (auto simp: is_op_def)

lemma is_op_single [simp]: "is_op [x] i ty \<longleftrightarrow> co_operation_id x = i \<and> co_operation_type x = ty"
  by (auto simp: is_op_def)

text \<open>Writing a row back that keeps identifier, type, parent and amount changes none of this.\<close>

definition same_place :: "tx_operation \<Rightarrow> tx_operation \<Rightarrow> bool" where
  "same_place p p' \<longleftrightarrow> co_operation_id p' = co_operation_id p \<and> co_operation_type p' = co_operation_type p \<and>
     co_parent_operation_id p' = co_parent_operation_id p \<and> co_amount p' = co_amount p"

lemma store_same_place_all:
  assumes "\<forall>x\<in>set ops. co_operation_id x = co_operation_id p \<longrightarrow> x = p" and "same_place p p'"
  shows "child_sum ty (store_row co_operation_id p' ops) i = child_sum ty ops i \<and>
    has_child ty (store_row co_operation_id p' ops) i = has_child ty ops i \<and>
    is_op (store_row co_operation_id p' ops) i ty = is_op ops i ty"
  using assms(1)
proof (induction ops)
  case (Cons x xs)
  have IH: "child_sum ty (store_row co_operation_id p' xs) i = child_sum ty xs i \<and>
    has_child ty (store_row co_operation_id p' xs) i = has_child ty xs i \<and> is_op (store_row co_operation_id p' xs) i ty = is_op xs i ty"
    by (rule Cons.IH) (simp add: Cons.prems)
  show ?case
  proof (cases "co_operation_id x = co_operation_id p")
    case True
    then have "x = p" using Cons.prems by simp
    moreover have "store_row co_operation_id p' (x # xs) = p' # store_row co_operation_id p' xs"
      using True assms(2) by (simp add: store_row_def same_place_def)
    ultimately show ?thesis using IH assms(2) by (simp add: child_sum_def has_child_def is_op_def is_child_def same_place_def)
  next
    case False
    then have "store_row co_operation_id p' (x # xs) = x # store_row co_operation_id p' xs"
      using assms(2) by (simp add: store_row_def same_place_def)
    then show ?thesis using IH by (simp add: child_sum_def has_child_def is_op_def)
  qed
qed (simp add: store_row_def)

lemma store_same_place:
  assumes "\<forall>x\<in>set ops. co_operation_id x = co_operation_id p \<longrightarrow> x = p" and "same_place p p'"
  shows "child_sum ty (store_row co_operation_id p' ops) i = child_sum ty ops i"
    and "has_child ty (store_row co_operation_id p' ops) i = has_child ty ops i"
    and "is_op (store_row co_operation_id p' ops) i ty = is_op ops i ty"
  using store_same_place_all [OF assms] by blast+

section \<open>One step\<close>

text \<open>A new identifier has no rows below it.\<close>

lemma parent_present:
  assumes "tx_ok w n ops" and "x \<in> set ops" and "co_parent_operation_id x = Some i"
  shows "i \<in> co_operation_id ` set ops"
  using tx_ok_row [OF assms(1,2)] assms(3) by (auto simp: tx_row_def is_op_def split: operation_type.splits)

lemma fresh_operation_id:
  assumes "inj (uuid_at w)" and "tx_ok w n ops"
  shows "uuid_at w n \<notin> co_operation_id ` set ops"
proof
  assume "uuid_at w n \<in> co_operation_id ` set ops"
  then obtain x where x: "x \<in> set ops" "co_operation_id x = uuid_at w n" by auto
  with assms(2) have "uuid_at w n \<in> uuid_at w ` {..<n}" unfolding tx_ok_def by (metis rangeI)
  with assms(1) show False by (auto dest: injD)
qed

lemma no_child_of_new:
  assumes "tx_ok w n ops" and "i \<notin> co_operation_id ` set ops"
  shows "\<not> has_child ty ops i" "child_sum ty ops i = 0"
proof -
  show none: "\<not> has_child ty ops i" using parent_present [OF assms(1)] assms(2) by (auto simp: has_child_def is_child_def)
  then show "child_sum ty ops i = 0" by (rule child_sum_none)
qed

lemma tx_row_other:
  assumes row: "tx_row ops x" and i: "co_operation_id x \<noteq> co_operation_id p"
    and p: "\<forall>x\<in>set ops. co_operation_id x = co_operation_id p \<longrightarrow> x = p" "same_place p p'"
    and c: "co_parent_operation_id c = Some (co_operation_id p)"
  shows "tx_row (store_row co_operation_id p' ops @ [c]) x"
proof -
  have "\<not> is_child ty (co_operation_id x) c" for ty using i c by (simp add: is_child_def)
  with row show ?thesis
    unfolding tx_row_def child_sum_append has_child_append is_op_append store_same_place [OF p]
    by (auto split: operation_type.splits)
qed

lemma add_child_keeps:
  assumes w: "inj (uuid_at w)" "[] \<notin> range (uuid_at w)" and ok: "tx_ok w (tick s) (tx_operations s)"
    and p: "p \<in> set (tx_operations s)" "same_place p p'" and ty: "ty \<noteq> OT_AUTH"
    and run: "add_child w ty st amount p p' s = (Inr c, t)"
    and rows: "tx_row (store_row co_operation_id p' (tx_operations s) @ [c]) p'" "tx_row (store_row co_operation_id p' (tx_operations s) @ [c]) c"
  shows "tx_ok w (tick t) (tx_operations t)"
proof -
  let ?ops = "tx_operations s"
  have c: "co_operation_id c = uuid_at w (tick s)" "co_operation_type c = ty" "co_parent_operation_id c = Some (co_operation_id p)"
    and t: "tx_operations t = store_row co_operation_id p' ?ops @ [c]" "tick t = Suc (Suc (tick s))"
    using run by (auto simp: add_child_def child_operation_def Let_def)
  have same: "\<forall>x\<in>set ?ops. co_operation_id x = co_operation_id p \<longrightarrow> x = p" using tx_ok_same [OF ok _ p(1)] by blast
  have new: "co_operation_id c \<notin> co_operation_id ` set ?ops" unfolding c(1) by (rule fresh_operation_id [OF w(1) ok])
  have "distinct (map co_operation_id (tx_operations t))"
    using ok new by (simp add: t(1) tx_ok_def flip: set_map)
  moreover have "tx_row (tx_operations t) x \<and> co_operation_id x \<noteq> [] \<and>
     (if co_operation_type x = OT_AUTH then co_operation_id x \<notin> range (uuid_at w) else co_operation_id x \<in> uuid_at w ` {..<tick t})"
    if "x \<in> set (tx_operations t)" for x
  proof -
    have "x = c \<or> x \<in> set (store_row co_operation_id p' ?ops)" using that by (auto simp: t(1))
    then have "x = c \<or> x = p' \<or> x \<in> set ?ops \<and> co_operation_id x \<noteq> co_operation_id p"
      using set_store_rowD [of x co_operation_id p' ?ops] p(2) unfolding same_place_def by metis
    then consider "x = c" | "x = p'" | "x \<in> set ?ops" "co_operation_id x \<noteq> co_operation_id p" by blast
    then show ?thesis
    proof cases
      case 1
      with rows(2) c ty w(2) show ?thesis by (simp add: t) (metis rangeI)
    next
      case 2
      with rows(1) p tx_ok_later [OF ok, of "tick t"] show ?thesis by (auto simp: t tx_ok_def same_place_def)
    next
      case 3
      with tx_row_other [OF tx_ok_row [OF ok 3(1)] 3(2) same p(2) c(3)] tx_ok_later [OF ok, of "tick t"] show ?thesis
        by (auto simp: t tx_ok_def)
    qed
  qed
  ultimately show ?thesis by (simp add: tx_ok_def)
qed

section \<open>The operations keep the table in order\<close>

lemma get_operation_found:
  "get_operation_or_error i s = Inr x \<Longrightarrow> x \<in> set (tx_operations s) \<and> co_operation_id x = i"
  by (auto simp: get_operation_or_error_def split: option.splits dest!: find_SomeD)

lemma capture_operation_cases:
  assumes "capture_operation w i amount s = (Inr c, t)"
  obtains a x where "a \<in> set (tx_operations s)" "co_operation_id a = i" "co_operation_type a = OT_AUTH"
    "co_status a \<in> {OP_AUTHORIZED, OP_CAPTURED}" "0 < x" "x \<le> co_amount a - co_captured_amount a"
    "add_child w OT_CAPTURE OP_CAPTURED x a
       (a\<lparr>co_captured_amount := co_captured_amount a + x,
          co_status := (if co_amount a \<le> co_captured_amount a + x then OP_CAPTURED else OP_AUTHORIZED)\<rparr>) s = (Inr c, t)"
proof -
  obtain a where a: "get_operation_or_error i s = Inr a"
    using assms by (cases "get_operation_or_error i s") (auto simp: capture_operation_def)
  let ?x = "case amount of None \<Rightarrow> co_amount a - co_captured_amount a | Some x \<Rightarrow> x"
  show thesis
    by (rule that [of a ?x])
      (use get_operation_found [OF a] assms a in \<open>auto simp: capture_operation_def Let_def split: if_split_asm\<close>)
qed

lemma refund_operation_cases:
  assumes "refund_operation w i amount s = (Inr r, t)"
  obtains c x where "c \<in> set (tx_operations s)" "co_operation_id c = i" "co_operation_type c = OT_CAPTURE"
    "0 < x" "x \<le> co_amount c - co_refunded_amount c"
    "add_child w OT_REFUND OP_REFUNDED x c
       (c\<lparr>co_refunded_amount := co_refunded_amount c + x,
          co_status := (if co_amount c \<le> co_refunded_amount c + x then OP_REFUNDED else OP_CAPTURED)\<rparr>) s = (Inr r, t)"
proof -
  obtain c where c: "get_operation_or_error i s = Inr c"
    using assms by (cases "get_operation_or_error i s") (auto simp: refund_operation_def)
  let ?x = "case amount of None \<Rightarrow> co_amount c - co_refunded_amount c | Some x \<Rightarrow> x"
  show thesis
    by (rule that [of c ?x])
      (use get_operation_found [OF c] assms c in \<open>auto simp: refund_operation_def Let_def split: if_split_asm\<close>)
qed

lemma reverse_auth_cases:
  assumes "reverse_auth w i s = (Inr r, t)"
  obtains a where "a \<in> set (tx_operations s)" "co_operation_id a = i" "co_operation_type a = OT_AUTH"
    "\<not> has_child OT_CAPTURE (tx_operations s) i"
    "add_child w OT_REVERSAL OP_REVERSED (co_amount a) a (a\<lparr>co_status := OP_REVERSED\<rparr>) s = (Inr r, t)"
  using assms
  by (auto simp: reverse_auth_def get_operation_or_error_def Let_def has_child_def is_child_def
      split: sum.splits option.splits if_splits dest!: find_SomeD)

lemma tx_refused:
  "capture_operation w i amount s = (Inl e, t) \<Longrightarrow> t = s" "refund_operation w i amount s = (Inl e, t) \<Longrightarrow> t = s"
  "reverse_auth w i s = (Inl e, t) \<Longrightarrow> t = s"
  by (auto simp: capture_operation_def refund_operation_def reverse_auth_def add_child_def Let_def split: sum.splits if_splits)

lemma add_child_fields:
  assumes "add_child w ty st amount p p' s = (Inr c, t)"
  shows "co_operation_id c = uuid_at w (tick s)" "co_operation_type c = ty" "co_parent_operation_id c = Some (co_operation_id p)"
    "co_amount c = amount" "co_refunded_amount c = 0" "co_status c = st"
    "tick s \<le> tick t"
  using assms by (auto simp: add_child_def child_operation_def Let_def)

lemma capture_keeps:
  assumes w: "inj (uuid_at w)" "[] \<notin> range (uuid_at w)" and ok: "tx_ok w (tick s) (tx_operations s)"
    and run: "capture_operation w i amount s = (Inr c, t)"
  shows "tx_ok w (tick t) (tx_operations t)"
  using run
proof (cases rule: capture_operation_cases)
  case (1 a x)
  let ?ops = "tx_operations s"
  note c = add_child_fields [OF 1(7)]
  have same: "\<forall>y\<in>set ?ops. co_operation_id y = co_operation_id a \<longrightarrow> y = a" using tx_ok_same [OF ok _ 1(1)] by blast
  have new: "uuid_at w (tick s) \<notin> co_operation_id ` set ?ops" by (rule fresh_operation_id [OF w(1) ok])
  have ne: "uuid_at w (tick s) \<noteq> co_operation_id a" using new 1(1) by auto
  have row: "tx_row ?ops a" by (rule tx_ok_row [OF ok 1(1)])
  have "is_op ?ops (co_operation_id a) OT_AUTH" using 1(1,3) by (auto simp: is_op_def)
  then show ?thesis
    using row 1(3-6) ne
    by (intro add_child_keeps [OF w ok 1(1) _ _ 1(7)])
      (auto simp: same_place_def tx_row_def store_same_place [OF same] is_child_def c no_child_of_new [OF ok new])
qed

lemma refund_keeps:
  assumes w: "inj (uuid_at w)" "[] \<notin> range (uuid_at w)" and ok: "tx_ok w (tick s) (tx_operations s)"
    and run: "refund_operation w i amount s = (Inr r, t)"
  shows "tx_ok w (tick t) (tx_operations t)"
  using run
proof (cases rule: refund_operation_cases)
  case (1 c x)
  let ?ops = "tx_operations s"
  note r = add_child_fields [OF 1(6)]
  have same: "\<forall>y\<in>set ?ops. co_operation_id y = co_operation_id c \<longrightarrow> y = c" using tx_ok_same [OF ok _ 1(1)] by blast
  have row: "tx_row ?ops c" by (rule tx_ok_row [OF ok 1(1)])
  have "is_op ?ops (co_operation_id c) OT_CAPTURE" using 1(1,3) by (auto simp: is_op_def)
  then show ?thesis
    using row 1(3-5)
    by (intro add_child_keeps [OF w ok 1(1) _ _ 1(6)])
      (auto simp: same_place_def tx_row_def store_same_place [OF same] is_child_def r)
qed

lemma reverse_keeps:
  assumes w: "inj (uuid_at w)" "[] \<notin> range (uuid_at w)" and ok: "tx_ok w (tick s) (tx_operations s)"
    and run: "reverse_auth w i s = (Inr r, t)"
  shows "tx_ok w (tick t) (tx_operations t)"
  using run
proof (cases rule: reverse_auth_cases)
  case (1 a)
  let ?ops = "tx_operations s"
  note r = add_child_fields [OF 1(5)]
  have same: "\<forall>y\<in>set ?ops. co_operation_id y = co_operation_id a \<longrightarrow> y = a" using tx_ok_same [OF ok _ 1(1)] by blast
  have row: "tx_row ?ops a" by (rule tx_ok_row [OF ok 1(1)])
  have "is_op ?ops (co_operation_id a) OT_AUTH" using 1(1,3) by (auto simp: is_op_def)
  then show ?thesis
    using row 1(2-4)
    by (intro add_child_keeps [OF w ok 1(1) _ _ 1(5)])
      (auto simp: same_place_def tx_row_def store_same_place [OF same] is_child_def r)
qed

section \<open>Histories\<close>

text \<open>
  A new authorisation: nothing captured, not reversed, under an identifier of the caller that is new and was not drawn
  by this service.
\<close>

definition new_auth :: "world \<Rightarrow> tx_operation list \<Rightarrow> tx_operation \<Rightarrow> bool" where
  "new_auth w ops a \<longleftrightarrow> co_operation_type a = OT_AUTH \<and> co_parent_operation_id a = None \<and> co_captured_amount a = 0 \<and>
     co_status a \<noteq> OP_REVERSED \<and> co_operation_id a \<notin> co_operation_id ` set ops \<and> co_operation_id a \<noteq> [] \<and>
     co_operation_id a \<notin> range (uuid_at w)"

inductive tx_history :: "world \<Rightarrow> 'a tx_db_scheme \<Rightarrow> bool" for w where
  nothing: "tx_operations s = [] \<Longrightarrow> tx_history w s"
| authorised: "tx_history w s \<Longrightarrow> new_auth w (tx_operations s) a \<Longrightarrow> tx_history w (s\<lparr>tx_operations := tx_operations s @ [a]\<rparr>)"
| captured: "tx_history w s \<Longrightarrow> tx_history w (snd (capture_operation w i amount s))"
| refunded: "tx_history w s \<Longrightarrow> tx_history w (snd (refund_operation w i amount s))"
| reversed: "tx_history w s \<Longrightarrow> tx_history w (snd (reverse_auth w i s))"
| elsewhere: "tx_history w s \<Longrightarrow> tx_operations t = tx_operations s \<Longrightarrow> tick s \<le> tick t \<Longrightarrow> tx_history w t"

lemma new_auth_keeps:
  assumes ok: "tx_ok w n ops" and a: "new_auth w ops a"
  shows "tx_ok w n (ops @ [a])"
proof -
  have new: "co_operation_id a \<notin> co_operation_id ` set ops" using a by (simp add: new_auth_def)
  have nc: "\<not> is_child ty i a" for ty i using a by (simp add: new_auth_def is_child_def)
  have "tx_row (ops @ [a]) x" if "tx_row ops x" for x
    using that by (auto simp: tx_row_def nc split: operation_type.splits)
  moreover have "tx_row (ops @ [a]) a"
    using a no_child_of_new [OF ok new] by (simp add: tx_row_def nc new_auth_def)
  ultimately show ?thesis using ok a by (auto simp: tx_ok_def new_auth_def)
qed

lemma tx_history_ok:
  assumes "tx_history w s" and w: "inj (uuid_at w)" "[] \<notin> range (uuid_at w)"
  shows "tx_ok w (tick s) (tx_operations s)"
  using assms(1)
proof induction
  case (nothing s)
  then show ?case by (simp add: tx_ok_def)
next
  case (authorised s a)
  then show ?case by (simp add: new_auth_keeps)
next
  case (captured s i amount)
  obtain r t where "capture_operation w i amount s = (r, t)" by fastforce
  with capture_keeps [OF w captured.IH] captured.IH show ?case by (cases r) (auto dest: tx_refused)
next
  case (refunded s i amount)
  obtain r t where "refund_operation w i amount s = (r, t)" by fastforce
  with refund_keeps [OF w refunded.IH] refunded.IH show ?case by (cases r) (auto dest: tx_refused)
next
  case (reversed s i)
  obtain r t where "reverse_auth w i s = (r, t)" by fastforce
  with reverse_keeps [OF w reversed.IH] reversed.IH show ?case by (cases r) (auto dest: tx_refused)
next
  case (elsewhere s t)
  with tx_ok_later show ?case by simp
qed

section \<open>The operations of one authorisation\<close>

text \<open>The authorisation, what hangs below it, and the refunds of its captures.\<close>

definition belongs :: "tx_operation list \<Rightarrow> string \<Rightarrow> tx_operation \<Rightarrow> bool" where
  "belongs ops i x \<longleftrightarrow> co_operation_type x = OT_AUTH \<and> co_operation_id x = i \<or>
     is_child OT_CAPTURE i x \<or> is_child OT_REVERSAL i x \<or>
     co_operation_type x = OT_REFUND \<and> (\<exists>c\<in>set ops. is_child OT_CAPTURE i c \<and> co_parent_operation_id x = Some (co_operation_id c))"

lemma group_fold:
  "fold (\<lambda>x m. case g x of None \<Rightarrow> m | Some r \<Rightarrow> m(r := m r @ [x])) ops m i = m i @ filter (\<lambda>x. g x = Some i) ops"
  by (induction ops arbitrary: m) (auto split: option.split)

lemma by_id_lookup:
  assumes "distinct (map co_operation_id ops)" and "x \<in> set ops"
  shows "map_of (rev (map (\<lambda>x. (co_operation_id x, x)) ops)) (co_operation_id x) = Some x"
  using assms by (subst map_of_eq_Some_iff) (auto simp: rev_map [symmetric] comp_def distinct_rev)

text \<open>What the two queries of a fetch return: the rows of the authorisations with these identifiers.\<close>

definition fetched :: "tx_operation list \<Rightarrow> string list \<Rightarrow> tx_operation list" where
  "fetched rows ids =
     (let ops = sort_key op_order (filter (\<lambda>x. co_operation_id x \<in> set ids \<or> co_parent_operation_id x \<in> Some ` set ids) rows);
          cs = map co_operation_id (filter (\<lambda>x. co_operation_type x = OT_CAPTURE \<and> co_parent_operation_id x \<in> Some ` set ids) ops)
      in ops @ (if cs = [] then [] else sort_key op_order (filter (\<lambda>x. co_operation_type x = OT_REFUND \<and>
           co_parent_operation_id x \<in> Some ` set cs) rows)))"

lemma fetch_fetched:
  "ids \<noteq> [] \<Longrightarrow> fetch_operations_for_auths s ids = group_operations_by_auth (fetched (tx_operations s) ids) ids"
  by (simp add: fetch_operations_for_auths_def fetched_def Let_def)

lemma is_op_type:
  assumes "tx_ok w n ops" and "x \<in> set ops" and "is_op ops (co_operation_id x) ty"
  shows "co_operation_type x = ty"
proof -
  obtain y where "y \<in> set ops" "co_operation_id y = co_operation_id x" "co_operation_type y = ty"
    using assms(3) by (auto simp: is_op_def)
  with tx_ok_same [OF assms(1) this(1) assms(2)] show ?thesis by simp
qed

lemma under_auth_type:
  assumes ok: "tx_ok w n ops" and x: "x \<in> set ops" "co_parent_operation_id x = Some i" "is_op ops i OT_AUTH"
  shows "co_operation_type x = OT_CAPTURE \<or> co_operation_type x = OT_REVERSAL"
proof -
  obtain a where a: "a \<in> set ops" "co_operation_id a = i" using x(3) by (auto simp: is_op_def)
  then have "co_operation_type a = OT_AUTH" using is_op_type [OF ok a(1)] x(3) by simp
  then have "\<not> is_op ops i OT_CAPTURE" using is_op_type [OF ok a(1)] a(2) by force
  with tx_ok_row [OF ok x(1)] x(2) show ?thesis by (simp add: tx_row_def split: operation_type.splits)
qed

lemma fetched_set:
  assumes "tx_ok w n rows" and ids: "\<forall>i\<in>set ids. is_op rows i OT_AUTH"
  shows "set (fetched rows ids) = {x\<in>set rows. \<exists>i\<in>set ids. belongs rows i x}"
    and "distinct (map co_operation_id (fetched rows ids))"
proof -
  let ?p = "\<lambda>x. co_operation_id x \<in> set ids \<or> co_parent_operation_id x \<in> Some ` set ids"
  let ?c = "\<lambda>x. co_operation_type x = OT_CAPTURE \<and> co_parent_operation_id x \<in> Some ` set ids"
  let ?cs = "co_operation_id ` {x\<in>set rows. ?c x}"
  let ?r = "\<lambda>x. co_operation_type x = OT_REFUND \<and> co_parent_operation_id x \<in> Some ` ?cs"
  have cs: "set (map co_operation_id (filter ?c (sort_key op_order (filter ?p rows)))) = ?cs" by auto
  have first: "?p x \<longleftrightarrow> (\<exists>i\<in>set ids. co_operation_type x = OT_AUTH \<and> co_operation_id x = i \<or> is_child OT_CAPTURE i x \<or> is_child OT_REVERSAL i x)"
    if x: "x \<in> set rows" for x
  proof -
    have "co_operation_type x = OT_AUTH" if "co_operation_id x \<in> set ids"
      using ids that by (intro is_op_type [OF assms(1) x]) blast
    moreover have "co_operation_type x = OT_CAPTURE \<or> co_operation_type x = OT_REVERSAL"
      if "i \<in> set ids" "co_parent_operation_id x = Some i" for i
      using ids that by (intro under_auth_type [OF assms(1) x that(2)]) blast
    ultimately show ?thesis by (auto simp: is_child_def)
  qed
  have refunds: "?r x \<longleftrightarrow> co_operation_type x = OT_REFUND \<and> (\<exists>i\<in>set ids. \<exists>c\<in>set rows. is_child OT_CAPTURE i c \<and> co_parent_operation_id x = Some (co_operation_id c))" for x
    by (auto simp: is_child_def)
  have apart: "\<not> ?r x" if "x \<in> set rows" "?p x" for x
    using first [OF that(1)] that(2) by (auto simp: is_child_def)
  have fetched: "fetched rows ids = sort_key op_order (filter ?p rows) @ sort_key op_order (filter ?r rows)"
  proof (cases "?cs = {}")
    case True
    then have "map co_operation_id (filter ?c (sort_key op_order (filter ?p rows))) = []" using cs by simp
    moreover have "filter ?r rows = []" unfolding True by simp
    ultimately show ?thesis by (simp only: fetched_def Let_def if_True) simp
  next
    case False
    then have "map co_operation_id (filter ?c (sort_key op_order (filter ?p rows))) \<noteq> []" unfolding set_empty [symmetric] cs .
    then show ?thesis by (simp only: fetched_def Let_def cs if_False)
  qed
  show "set (fetched rows ids) = {x\<in>set rows. \<exists>i\<in>set ids. belongs rows i x}"
  proof -
    have "set (fetched rows ids) = {x\<in>set rows. ?p x \<or> ?r x}"
      unfolding fetched set_append set_sort set_filter by blast
    also have "\<dots> = {x\<in>set rows. \<exists>i\<in>set ids. belongs rows i x}"
    proof (rule Collect_cong)
      fix x
      show "x \<in> set rows \<and> (?p x \<or> ?r x) \<longleftrightarrow> x \<in> set rows \<and> (\<exists>i\<in>set ids. belongs rows i x)"
        unfolding refunds belongs_def using first [of x] by blast
    qed
    finally show ?thesis .
  qed
  have "distinct (map co_operation_id rows)" using assms(1) by (simp add: tx_ok_def)
  then have "inj_on co_operation_id (set rows)" "distinct rows" by (simp_all add: distinct_map)
  then show "distinct (map co_operation_id (fetched rows ids))"
    unfolding fetched distinct_map using apart by (auto intro: inj_on_subset)
qed

lemma belongs_unique:
  assumes ok: "tx_ok w n rows" and "belongs rows i x" "belongs rows j x"
  shows "i = j"
proof -
  have "c = d" if "c \<in> set rows" "d \<in> set rows" "co_operation_id c = co_operation_id d" for c d
    using tx_ok_same [OF ok] that by blast
  with assms(2,3) show ?thesis unfolding belongs_def is_child_def by (elim disjE; clarsimp; metis option.inject)
qed

lemma group_members:
  assumes ok: "tx_ok w n rows" and ids: "\<forall>i\<in>set ids. is_op rows i OT_AUTH" and i: "i \<in> set ids"
  shows "group_operations_by_auth (fetched rows ids) ids i = filter (belongs rows i) (fetched rows ids)"
proof -
  let ?F = "fetched rows ids"
  define by_id where "by_id = map_of (rev (map (\<lambda>x. (co_operation_id x, x)) ?F))"
  note F = fetched_set [OF ok ids]
  have lookup: "by_id (co_operation_id x) = Some x" if "x \<in> set rows" "belongs rows j x" "j \<in> set ids" for x j
    unfolding by_id_def using that F(1) by (intro by_id_lookup [OF F(2)]) blast
  have nonempty: "co_operation_id x \<noteq> []" if "x \<in> set rows" for x using ok that by (simp add: tx_ok_def)
  have child: "find_root by_id ids (Suc m) x = Some j"
    if x: "co_parent_operation_id x = Some j" and j: "j \<in> set ids" for x j m
  proof -
    obtain a where a: "a \<in> set rows" "co_operation_id a = j" "co_operation_type a = OT_AUTH"
      using ids j by (force simp: is_op_def)
    then have "by_id j = Some a" using lookup [of a j] j by (simp add: belongs_def)
    with a j x nonempty [OF a(1)] show ?thesis by (simp add: str_truthy_def)
  qed
  have "group_of by_id ids x = Some j" if x: "x \<in> set rows" "belongs rows j x" and j: "j \<in> set ids" for x j
    using x(2) unfolding belongs_def
  proof (elim disjE conjE bexE)
    fix c assume c: "c \<in> set rows" "is_child OT_CAPTURE j c" "co_parent_operation_id x = Some (co_operation_id c)" "co_operation_type x = OT_REFUND"
    have "by_id (co_operation_id c) = Some c" using lookup [OF c(1) _ j] c(2) by (simp add: belongs_def)
    moreover have "find_root by_id ids 4 c = Some j" using child [of c j 3] c(2) j by (simp add: is_child_def numeral_eq_Suc)
    ultimately show ?thesis using c nonempty [OF c(1)]
      by (simp add: group_of_def str_truthy_def is_child_def numeral_eq_Suc del: find_root.simps) (simp add: str_truthy_def)
  qed (use child [of x j 4] j in \<open>auto simp: group_of_def is_child_def numeral_eq_Suc simp del: find_root.simps\<close>)
  then have "group_of by_id ids x = Some i \<longleftrightarrow> belongs rows i x" if "x \<in> set ?F" for x
    using that F(1) i belongs_unique [OF ok] by fastforce
  then show ?thesis
    by (auto simp: group_operations_by_auth_def group_fold simp flip: by_id_def intro!: filter_cong)
qed

section \<open>The view of one authorisation\<close>

lemma sum_filter_set:
  assumes "distinct xs" and "{x\<in>set xs. P x} = A"
  shows "sum_list (map f (filter P xs)) = sum f A"
  using assms sum_list_distinct_conv_sum_set [of "filter P xs" f] by simp

lemma filter_one: "distinct xs \<Longrightarrow> a \<in> set xs \<Longrightarrow> \<forall>x\<in>set xs. P x \<longleftrightarrow> x = a \<Longrightarrow> filter P xs = [a]"
  by (induction xs) (auto simp: filter_empty_conv)

definition refunded_total :: "tx_operation list \<Rightarrow> string \<Rightarrow> int" where
  "refunded_total rows i = sum_list (map co_refunded_amount (filter (is_child OT_CAPTURE i) rows))"

text \<open>The status of a transaction in terms of the columns of its authorisation and of what was refunded.\<close>

definition books_status :: "tx_operation \<Rightarrow> int \<Rightarrow> string" where
  "books_status a refunded =
     (if co_amount a \<le> 0 then ''ERROR''
      else if co_status a = OP_REVERSED then ''CANCELLED''
      else if co_captured_amount a = 0 then ''AUTHORIZED''
      else if refunded = co_captured_amount a then ''REFUNDED''
      else if 0 < refunded then ''PARTIALLY_REFUNDED''
      else if co_captured_amount a = co_amount a then ''CAPTURED''
      else ''PARTIALLY_CAPTURED'')"

lemma refund_positive: "tx_ok w n rows \<Longrightarrow> x \<in> set rows \<Longrightarrow> co_operation_type x = OT_REFUND \<Longrightarrow> 0 < co_amount x"
  by (drule (1) tx_ok_row) (simp add: tx_row_def)

lemma refunded_bounds:
  assumes ok: "tx_ok w n rows" and a: "a \<in> set rows" "co_operation_type a = OT_AUTH"
  shows "0 \<le> refunded_total rows (co_operation_id a)" "refunded_total rows (co_operation_id a) \<le> co_captured_amount a"
    "0 \<le> co_captured_amount a" "co_captured_amount a \<le> max 0 (co_amount a)"
proof -
  have cap: "0 \<le> co_refunded_amount c \<and> co_refunded_amount c \<le> co_amount c" if c: "c \<in> set (filter (is_child OT_CAPTURE i) rows)" for c i
  proof -
    have "tx_row rows c" "co_operation_type c = OT_CAPTURE" using c tx_ok_row [OF ok] by (auto simp: is_child_def)
    moreover have "0 \<le> child_sum OT_REFUND rows (co_operation_id c)"
      unfolding child_sum_def by (rule sum_list_nonneg) (auto simp: is_child_def dest!: refund_positive [OF ok])
    ultimately show ?thesis by (simp add: tx_row_def)
  qed
  show "0 \<le> refunded_total rows (co_operation_id a)"
    unfolding refunded_total_def by (rule sum_list_nonneg) (use cap in auto)
  moreover have row: "co_captured_amount a = child_sum OT_CAPTURE rows (co_operation_id a)" "co_captured_amount a \<le> max 0 (co_amount a)"
    using tx_ok_row [OF ok a(1)] a(2) by (simp_all add: tx_row_def)
  moreover have "refunded_total rows (co_operation_id a) \<le> co_captured_amount a"
    unfolding row(1) refunded_total_def child_sum_def by (rule sum_list_mono) (use cap in blast)
  ultimately show "refunded_total rows (co_operation_id a) \<le> co_captured_amount a" "0 \<le> co_captured_amount a"
    "co_captured_amount a \<le> max 0 (co_amount a)" by simp_all
qed

lemma refunds_sum:
  assumes ok: "tx_ok w n rows"
  shows "sum co_amount {x\<in>set rows. co_operation_type x = OT_REFUND \<and> (\<exists>c\<in>set rows. is_child OT_CAPTURE i c \<and> co_parent_operation_id x = Some (co_operation_id c))} =
    refunded_total rows i"
proof -
  let ?C = "{c\<in>set rows. is_child OT_CAPTURE i c}"
  let ?R = "\<lambda>c. {x\<in>set rows. is_child OT_REFUND (co_operation_id c) x}"
  have d: "distinct rows" using ok by (simp add: tx_ok_def distinct_map)
  have "{x\<in>set rows. co_operation_type x = OT_REFUND \<and> (\<exists>c\<in>set rows. is_child OT_CAPTURE i c \<and> co_parent_operation_id x = Some (co_operation_id c))} = (\<Union>c\<in>?C. ?R c)"
    by (auto simp: is_child_def)
  also have "sum co_amount \<dots> = (\<Sum>c\<in>?C. sum co_amount (?R c))"
    by (rule sum.UNION_disjoint) (use tx_ok_same [OF ok] in \<open>auto simp: is_child_def\<close>)
  also have "\<dots> = (\<Sum>c\<in>?C. co_refunded_amount c)"
  proof (rule sum.cong)
    fix c assume c: "c \<in> ?C"
    then have "co_refunded_amount c = child_sum OT_REFUND rows (co_operation_id c)"
      using tx_ok_row [OF ok, of c] by (auto simp: tx_row_def is_child_def)
    then show "sum co_amount (?R c) = co_refunded_amount c" unfolding child_sum_def by (simp add: sum_filter_set [OF d refl])
  qed simp
  also have "\<dots> = refunded_total rows i" unfolding refunded_total_def by (simp add: sum_filter_set [OF d refl])
  finally show ?thesis .
qed

text \<open>Operations that hold an authorisation with everything below it, except perhaps some refunds.\<close>

definition group_for :: "tx_operation list \<Rightarrow> string \<Rightarrow> tx_operation list \<Rightarrow> bool" where
  "group_for rows i G \<longleftrightarrow> distinct G \<and> (\<forall>x\<in>set G. x \<in> set rows \<and> belongs rows i x) \<and>
     (\<forall>x\<in>set rows. belongs rows i x \<and> co_operation_type x \<noteq> OT_REFUND \<longrightarrow> x \<in> set G)"

lemma group_for_sums:
  assumes ok: "tx_ok w n rows" and a: "a \<in> set rows" "co_operation_type a = OT_AUTH" and G: "group_for rows (co_operation_id a) G"
  shows "filter (\<lambda>x. co_operation_type x = OT_AUTH) G = [a]"
    and "sum_list (map co_amount (tx_captures (co_operation_id a) G)) = co_captured_amount a"
    and "sum_list (map co_amount (tx_refunds (co_operation_id a) (map co_operation_id (tx_captures (co_operation_id a) G)) G)) =
      sum co_amount {x\<in>set G. co_operation_type x = OT_REFUND}"
    and "(\<exists>x\<in>set G. co_operation_type x = OT_REVERSAL \<or> co_operation_type x = OT_REVERSE) \<longleftrightarrow> co_status a = OP_REVERSED"
proof -
  let ?i = "co_operation_id a"
  have d: "distinct G" "distinct rows" using G ok by (simp_all add: group_for_def tx_ok_def distinct_map)
  have row: "tx_row rows a" by (rule tx_ok_row [OF ok a(1)])
  have aG: "a \<in> set G" using G a by (auto simp: group_for_def belongs_def)
  have mem: "x \<in> set rows" "belongs rows ?i x" if "x \<in> set G" for x using G that by (auto simp: group_for_def)
  show "filter (\<lambda>x. co_operation_type x = OT_AUTH) G = [a]"
  proof (rule filter_one [OF d(1) aG], intro ballI iffI)
    fix x assume x: "x \<in> set G" "co_operation_type x = OT_AUTH"
    then have "co_operation_id x = ?i" using mem(2) [OF x(1)] by (auto simp: belongs_def is_child_def)
    then show "x = a" by (rule tx_ok_same [OF ok mem(1) [OF x(1)] a(1)])
  qed (use a in simp)
  have caps: "{x\<in>set G. (co_operation_type x = OT_CAPTURE \<or> co_operation_type x = OT_COMMIT) \<and> co_parent_operation_id x = Some ?i} =
      {x\<in>set rows. is_child OT_CAPTURE ?i x}"
    using G by (auto simp: group_for_def belongs_def is_child_def)
  show "sum_list (map co_amount (tx_captures ?i G)) = co_captured_amount a"
    unfolding tx_captures_def sum_filter_set [OF d(1) caps] using row a(2)
    by (simp add: tx_row_def child_sum_def sum_filter_set [OF d(2) refl])
  have capids: "set (map co_operation_id (tx_captures ?i G)) = co_operation_id ` {x\<in>set rows. is_child OT_CAPTURE ?i x}"
    using caps by (simp add: tx_captures_def)
  have "co_parent_operation_id x = Some ?i \<or> (str_truthy (co_parent_operation_id x) \<and>
      the (co_parent_operation_id x) \<in> co_operation_id ` {x\<in>set rows. is_child OT_CAPTURE ?i x})"
    if x: "x \<in> set G" "co_operation_type x = OT_REFUND" for x
  proof -
    obtain c where c: "c \<in> set rows" "is_child OT_CAPTURE ?i c" "co_parent_operation_id x = Some (co_operation_id c)"
      using mem(2) [OF x(1)] x(2) by (auto simp: belongs_def is_child_def)
    moreover have "co_operation_id c \<noteq> []" using ok c(1) by (simp add: tx_ok_def)
    ultimately show ?thesis by (auto simp: str_truthy_def)
  qed
  then have refs: "{x\<in>set G. co_operation_type x = OT_REFUND \<and> (co_parent_operation_id x = Some ?i \<or> (str_truthy (co_parent_operation_id x) \<and>
      the (co_parent_operation_id x) \<in> set (map co_operation_id (tx_captures ?i G))))} = {x\<in>set G. co_operation_type x = OT_REFUND}"
    unfolding capids by blast
  show "sum_list (map co_amount (tx_refunds ?i (map co_operation_id (tx_captures ?i G)) G)) = sum co_amount {x\<in>set G. co_operation_type x = OT_REFUND}"
    unfolding tx_refunds_def by (rule sum_filter_set [OF d(1) refs])
  have "(\<exists>x\<in>set G. co_operation_type x = OT_REVERSAL \<or> co_operation_type x = OT_REVERSE) \<longleftrightarrow> has_child OT_REVERSAL rows ?i"
    unfolding has_child_def using G by (force simp: group_for_def belongs_def is_child_def)
  then show "(\<exists>x\<in>set G. co_operation_type x = OT_REVERSAL \<or> co_operation_type x = OT_REVERSE) \<longleftrightarrow> co_status a = OP_REVERSED"
    using row a(2) by (simp add: tx_row_def)
qed

text \<open>The transaction as the columns have it.\<close>

definition reports :: "transaction_view \<Rightarrow> tx_operation \<Rightarrow> int \<Rightarrow> bool" where
  "reports v a refunded \<longleftrightarrow> tv_transaction_id v = co_operation_id a \<and> tv_auth_operation v = a \<and> tv_created_at v = co_created_at a \<and>
     tv_authorized_amount v = co_amount a \<and> tv_captured_amount v = co_captured_amount a \<and> tv_refunded_amount v = refunded \<and>
     tv_status v = books_status a refunded"

lemma build_group:
  assumes ok: "tx_ok w n rows" and a: "a \<in> set rows" "co_operation_type a = OT_AUTH" and G: "group_for rows (co_operation_id a) G"
    and refunded: "sum co_amount {x\<in>set G. co_operation_type x = OT_REFUND} = r" "0 \<le> r" "r \<le> co_captured_amount a"
  shows "\<exists>v. build_transaction_from_operations G = Some v \<and> reports v a r"
proof -
  note sums = group_for_sums [OF ok a G]
  have "determine_status (co_amount a) (co_captured_amount a) r G = books_status a r"
    using refunded(2,3) refunded_bounds [OF ok a] sums(4) by (auto simp: determine_status_def books_status_def)
  then show ?thesis
    using sums refunded(1) by (simp add: build_transaction_from_operations_def Let_def reports_def)
qed

lemma build_fetched:
  assumes ok: "tx_ok w n rows" and ids: "\<forall>i\<in>set ids. is_op rows i OT_AUTH"
    and a: "a \<in> set rows" "co_operation_type a = OT_AUTH" "co_operation_id a \<in> set ids"
  shows "\<exists>v. build_transaction_from_operations (group_operations_by_auth (fetched rows ids) ids (co_operation_id a)) = Some v \<and>
    reports v a (refunded_total rows (co_operation_id a))"
proof -
  let ?i = "co_operation_id a" and ?G = "filter (belongs rows (co_operation_id a)) (fetched rows ids)"
  note F = fetched_set [OF ok ids]
  have set_G: "set ?G = {x\<in>set rows. belongs rows ?i x}" using F(1) a(3) by auto
  have G: "group_for rows ?i ?G" using F(2) set_G by (simp add: group_for_def distinct_map)
  have "{x\<in>set ?G. co_operation_type x = OT_REFUND} = {x\<in>set rows. co_operation_type x = OT_REFUND \<and>
      (\<exists>c\<in>set rows. is_child OT_CAPTURE ?i c \<and> co_parent_operation_id x = Some (co_operation_id c))}"
    unfolding set_G by (auto simp: belongs_def is_child_def)
  then have "sum co_amount {x\<in>set ?G. co_operation_type x = OT_REFUND} = refunded_total rows ?i"
    using refunds_sum [OF ok] by simp
  with build_group [OF ok a(1,2) G] refunded_bounds [OF ok a(1,2)] show ?thesis
    unfolding group_members [OF ok ids a(3)] by blast
qed

lemma map_filter_total: "(\<And>x. x \<in> set xs \<Longrightarrow> f x = Some (g x)) \<Longrightarrow> List.map_filter f xs = map g xs"
  by (induction xs) (simp_all add: List.map_filter_def)

text \<open>C24. Whatever sequence of authorisations, captures, refunds and reversals runs, the list of transactions has exactly one entry
  for every authorisation that the query selects, in the order asked for. The entry reports the authorised amount, the
  captured amount in the row of the authorisation, what the rows of its captures record as refunded and the
  status that follows from these columns; and no more is refunded than captured and no more captured than authorised.\<close>

theorem transactions_match_books:
  fixes s :: "'a tx_db_scheme"
  assumes "inj (uuid_at w)" and "[] \<notin> range (uuid_at w)" and "tx_history w s"
  shows "\<exists>view. tp_items (list_transactions (q\<lparr>tq_no_pagination := True\<rparr>) s) =
      sort_key (view_order (tq_order_by q)) (filter (view_matches q)
        (map view (rev (sort_key op_order (filter (auth_matches q) (tx_operations s)))))) \<and>
    (\<forall>a\<in>set (tx_operations s). auth_matches q a \<longrightarrow>
       (let refunded = sum_list (map co_refunded_amount (filter (is_child OT_CAPTURE (co_operation_id a)) (tx_operations s)))
        in reports (view a) a refunded \<and> 0 \<le> refunded \<and> refunded \<le> co_captured_amount a \<and>
           co_captured_amount a \<le> max 0 (co_amount a)))"
proof -
  let ?rows = "tx_operations s"
  let ?auths = "rev (sort_key op_order (filter (auth_matches q) ?rows))"
  let ?ids = "map co_operation_id ?auths"
  let ?build = "\<lambda>a. build_transaction_from_operations (fetch_operations_for_auths s ?ids (co_operation_id a))"
  have ok: "tx_ok w (tick s) ?rows" by (rule tx_history_ok [OF assms(3,1,2)])
  have ids: "\<forall>i\<in>set ?ids. is_op ?rows i OT_AUTH" by (auto simp: is_op_def auth_matches_def)
  have built: "?build a = Some (the (?build a)) \<and> reports (the (?build a)) a (refunded_total ?rows (co_operation_id a))"
    if a: "a \<in> set ?rows" "auth_matches q a" for a
  proof -
    have "co_operation_id a \<in> set ?ids" "co_operation_type a = OT_AUTH" using a by (auto simp: auth_matches_def)
    then show ?thesis using build_fetched [OF ok ids a(1)] fetch_fetched [of ?ids s] by fastforce
  qed
  have "List.map_filter ?build ?auths = map (\<lambda>a. the (?build a)) ?auths"
    by (rule map_filter_total) (use built in auto)
  moreover have "auth_matches (q\<lparr>tq_no_pagination := True\<rparr>) = auth_matches q" "view_matches (q\<lparr>tq_no_pagination := True\<rparr>) = view_matches q"
    by (simp_all add: fun_eq_iff auth_matches_def view_matches_def)
  ultimately have "tp_items (list_transactions (q\<lparr>tq_no_pagination := True\<rparr>) s) =
      sort_key (view_order (tq_order_by q)) (filter (view_matches q) (map (\<lambda>a. the (?build a)) ?auths))"
    by (simp add: list_transactions_def Let_def)
  with built refunded_bounds [OF ok] show ?thesis
    by (intro exI [of _ "\<lambda>a. the (?build a)"]) (simp add: Let_def auth_matches_def flip: refunded_total_def)
qed

section \<open>A refunded card transaction\<close>

text \<open>A world whose identifiers are not empty, an authorisation, and its history: captured in two parts, one of them refunded.\<close>

definition card_world :: world where
  "card_world = ref_world\<lparr>uuid_at := (\<lambda>n. replicate (Suc n) (CHR ''u''))\<rparr>"

lemma card_world_uuids: "inj (uuid_at card_world)" "[] \<notin> range (uuid_at card_world)"
  by (auto simp: card_world_def inj_def simp flip: replicate_Suc)

definition ref_auth :: tx_operation where
  "ref_auth = \<lparr>co_operation_id = ''auth-1'', co_created_at = 5, co_operation_type = OT_AUTH, co_status = OP_AUTHORIZED,
     co_merchant_id = ''azs-1'', co_terminal_id = ''t-1'', co_client_id = ''c-1'', co_card_id = ''card-1'', co_amount = 900,
     co_amount_settled = Some 0, co_currency = ''RUB'', co_quantity = None, co_captured_amount = 0, co_refunded_amount = 0,
     co_parent_operation_id = None, co_mcc = Some ''5541'', co_product_code = None, co_product_category = None, co_tx_type = None\<rparr>"

definition empty_tx_db :: tx_db where
  "empty_tx_db = fin_db.extend empty_fin_db (tx_db.fields [])"

definition card_history :: tx_db where
  "card_history =
     (let s = empty_tx_db\<lparr>tx_operations := tx_operations empty_tx_db @ [ref_auth]\<rparr>;
          t = snd (capture_operation card_world ''auth-1'' (Some 300) s)
      in snd (refund_operation card_world (uuid_at card_world 0) None t))"

definition all_transactions :: tx_query where
  "all_transactions =
     \<lparr>tq_client_id = None, tq_card_id = None, tq_merchant_id = None, tq_terminal_id = None, tq_status = None,
      tq_from_created_at = None, tq_to_created_at = None, tq_min_amount = None, tq_max_amount = None,
      tq_order_by = ''created_at_desc'', tq_product_category = None, tq_mcc = None, tq_tx_type = None,
      tq_no_pagination = True, tq_limit = 50, tq_offset = 0\<rparr>"

lemma card_history_reached: "tx_history card_world card_history"
proof -
  have "new_auth card_world (tx_operations empty_tx_db) ref_auth"
    by (auto simp: new_auth_def ref_auth_def empty_tx_db_def tx_db.fields_def fin_db.extend_def card_world_def)
  moreover have "tx_operations empty_tx_db = []"
    by (simp add: empty_tx_db_def fin_db.extend_def tx_db.fields_def)
  ultimately show ?thesis
    unfolding card_history_def Let_def by (intro tx_history.refunded tx_history.captured tx_history.authorised tx_history.nothing)
qed

lemma card_history_rows:
  "\<exists>a c r. tx_operations card_history = [a, c, r] \<and>
     co_operation_id a = ''auth-1'' \<and> co_operation_type a = OT_AUTH \<and> co_status a = OP_AUTHORIZED \<and> co_amount a = 900 \<and> co_captured_amount a = 300 \<and>
     co_operation_type c = OT_CAPTURE \<and> co_parent_operation_id c = Some ''auth-1'' \<and> co_refunded_amount c = 300 \<and> co_operation_type r = OT_REFUND"
  by (simp add: card_history_def Let_def capture_operation_def refund_operation_def get_operation_or_error_def add_child_def
      child_operation_def store_row_def empty_tx_db_def empty_fin_db_def fin_db.extend_def tx_db.fields_def ref_auth_def card_world_def)

theorem transactions_match_books_witness:
  "\<exists>v. tp_items (list_transactions all_transactions card_history) = [v] \<and> tv_refunded_amount v = 300 \<and> tv_status v = ''REFUNDED''"
proof -
  obtain a c r where rows: "tx_operations card_history = [a, c, r]"
    and a: "co_operation_id a = ''auth-1''" "co_operation_type a = OT_AUTH" "co_status a = OP_AUTHORIZED" "co_amount a = 900" "co_captured_amount a = 300"
    and cr: "co_operation_type c = OT_CAPTURE" "co_parent_operation_id c = Some ''auth-1''" "co_refunded_amount c = 300" "co_operation_type r = OT_REFUND"
    using card_history_rows by blast
  have q: "all_transactions\<lparr>tq_no_pagination := True\<rparr> = all_transactions" by (simp add: all_transactions_def)
  have m: "auth_matches all_transactions x \<longleftrightarrow> co_operation_type x = OT_AUTH" "view_matches all_transactions v" for x v
    by (simp_all add: auth_matches_def view_matches_def all_transactions_def given_def str_truthy_def)
  have filters: "filter (auth_matches all_transactions) [a, c, r] = [a]"
    using a cr by (simp_all add: m)
  obtain view where "tp_items (list_transactions all_transactions card_history) = [view a]" "reports (view a) a 300"
    using transactions_match_books [OF card_world_uuids card_history_reached, of all_transactions]
    unfolding q rows filters by (auto simp: m Let_def a is_child_def cr)
  then show ?thesis by (auto simp: reports_def books_status_def a)
qed

section \<open>Where the code does something else\<close>

text \<open>The query for a single transaction does not look below the captures: it never reports a refund, and a transaction
  that is refunded completely as captured.\<close>

theorem get_transaction_misses_refunds:
  fixes s :: "'a tx_db_scheme"
  assumes "inj (uuid_at w)" and "[] \<notin> range (uuid_at w)" and "tx_history w s"
    and a: "a \<in> set (tx_operations s)" "co_operation_type a = OT_AUTH"
  shows "\<exists>v ops. get_transaction (co_operation_id a) s = Some (v, ops) \<and> reports v a 0"
proof -
  let ?rows = "tx_operations s" and ?i = "co_operation_id a"
  let ?p = "\<lambda>x. co_operation_id x = ?i \<or> co_parent_operation_id x = Some ?i"
  let ?G = "sort_key op_order (filter ?p ?rows)"
  have ok: "tx_ok w (tick s) ?rows" by (rule tx_history_ok [OF assms(3,1,2)])
  have auth: "is_op ?rows ?i OT_AUTH" using a by (force simp: is_op_def)
  have type: "x = a \<or> (co_operation_type x = OT_CAPTURE \<or> co_operation_type x = OT_REVERSAL) \<and> co_parent_operation_id x = Some ?i"
    if "x \<in> set ?rows" "?p x" for x
    using that tx_ok_same [OF ok _ a(1)] under_auth_type [OF ok that(1) _ auth] by blast
  have "distinct ?rows" using ok by (simp add: tx_ok_def distinct_map)
  then have G: "group_for ?rows ?i ?G"
    using type a by (auto simp: group_for_def belongs_def is_child_def)
  have none: "{x\<in>set ?G. co_operation_type x = OT_REFUND} = {}" using type a(2) by force
  obtain v where "build_transaction_from_operations ?G = Some v" "reports v a 0"
    using build_group [OF ok a G, unfolded none, of 0] refunded_bounds(3) [OF ok a] by auto
  moreover have "?G \<noteq> []" using a(1) by (auto simp: filter_empty_conv simp flip: set_empty)
  ultimately show ?thesis by (simp add: get_transaction_def Let_def)
qed

text \<open>Reversing looks for captures only, not at the status: an authorisation without captures is reversed again and again,
  also when it was declined, or completed by \<open>commit_operation\<close>, which adds no capture.\<close>

theorem reverse_ignores_status:
  assumes "distinct (map co_operation_id (tx_operations s))" and "a \<in> set (tx_operations s)" and "co_operation_type a = OT_AUTH"
    and "\<not> has_child OT_CAPTURE (tx_operations s) (co_operation_id a)"
  shows "\<exists>r t. reverse_auth w (co_operation_id a) s = (Inr r, t) \<and> r \<in> set (tx_operations t) \<and> co_amount r = co_amount a"
proof -
  obtain x where x: "find (\<lambda>x. co_operation_id x = co_operation_id a) (tx_operations s) = Some x"
    using assms(2) by (cases "find (\<lambda>x. co_operation_id x = co_operation_id a) (tx_operations s)") (auto simp: find_None_iff)
  then have "x = a" using assms(1,2) find_SomeD [OF x] by (auto simp: distinct_map inj_on_def)
  with x assms(3,4) show ?thesis
    by (auto simp: reverse_auth_def get_operation_or_error_def Let_def has_child_def is_child_def add_child_def child_operation_def)
qed

end
