(* ===== verification/Payout_Properties.thy ===== *)
theory Payout_Properties
  imports Payouts Period_Properties Transaction_Properties
begin

text \<open>
  What payouts guarantee: one batch per partner and period, no payment reference used twice, batches that only move
  forward and keep their amounts, totals that reconcile; and what the totals leave out.
\<close>

section \<open>The table of batches\<close>

definition batch_scope :: "payout_batch \<Rightarrow> int \<times> string \<times> int \<times> int" where
  "batch_scope b = (pb_tenant_id b, pb_partner_id b, pb_date_from b, pb_date_to b)"

lemma payout_scope_iff:
  "payout_scope q = (\<lambda>b. batch_scope b = (py_tenant_id q, py_partner_id q, py_date_from q, py_date_to q))"
  by (auto simp: payout_scope_def batch_scope_def fun_eq_iff)

definition went_out :: "payout_batch \<Rightarrow> bool" where
  "went_out b \<longleftrightarrow> pb_state b = PAYOUT_SENT \<or> pb_state b = PAYOUT_SETTLED"

text \<open>A batch in order: it has a reference exactly when it went out, and its items carry its totals.\<close>

definition batch_ok :: "payout_batch \<Rightarrow> bool" where
  "batch_ok b \<longleftrightarrow> (pb_state b = PAYOUT_READY \<or> went_out b) \<and> pb_date_from b \<le> pb_date_to b \<and>
     (went_out b \<longleftrightarrow> pb_external_ref b \<noteq> None) \<and> (pb_provider b = None \<longleftrightarrow> pb_external_ref b = None) \<and>
     recorded_totals b = (pb_total_amount b, pb_operations_count b)"

definition refs_unique :: "payout_batch list \<Rightarrow> bool" where
  "refs_unique bs \<longleftrightarrow> (\<forall>x\<in>set bs. \<forall>y\<in>set bs. pb_external_ref x \<noteq> None \<longrightarrow>
     (pb_provider x, pb_external_ref x) = (pb_provider y, pb_external_ref y) \<longrightarrow> pb_id x = pb_id y)"

definition batches_ok :: "world \<Rightarrow> nat \<Rightarrow> payout_batch list \<Rightarrow> bool" where
  "batches_ok w n bs \<longleftrightarrow> distinct (map pb_id bs) \<and> distinct (map batch_scope bs) \<and> refs_unique bs \<and>
     (\<forall>b\<in>set bs. batch_ok b) \<and> pb_id ` set bs \<subseteq> uuid_at w ` {..<n}"

lemma batches_ok_later: "batches_ok w n bs \<Longrightarrow> n \<le> m \<Longrightarrow> batches_ok w m bs"
  unfolding batches_ok_def by (auto intro: order_trans [OF _ image_mono])

text \<open>How a batch may change: forward, with its amounts, and never away from the reference it went out with.\<close>

definition batch_le :: "payout_batch \<Rightarrow> payout_batch \<Rightarrow> bool" where
  "batch_le b b' \<longleftrightarrow> pb_id b' = pb_id b \<and> batch_scope b' = batch_scope b \<and> pb_items b' = pb_items b \<and>
     pb_total_amount b' = pb_total_amount b \<and> pb_total_qty b' = pb_total_qty b \<and> pb_operations_count b' = pb_operations_count b \<and>
     (pb_state b = PAYOUT_SETTLED \<longrightarrow> b' = b) \<and>
     (went_out b \<longrightarrow> went_out b' \<and> pb_provider b' = pb_provider b \<and> pb_external_ref b' = pb_external_ref b \<and> pb_sent_at b' = pb_sent_at b)"

definition batches_le :: "payout_batch list \<Rightarrow> payout_batch list \<Rightarrow> bool" where
  "batches_le bs bs' \<longleftrightarrow> (\<forall>b\<in>set bs. \<exists>b'\<in>set bs'. batch_le b b')"

lemma batch_le_refl [simp]: "batch_le b b"
  by (simp add: batch_le_def)

lemma batch_le_trans: "batch_le a b \<Longrightarrow> batch_le b c \<Longrightarrow> batch_le a c"
  unfolding batch_le_def by (elim conjE) (intro conjI impI; simp)

lemma batches_le_refl [simp]: "batches_le bs bs"
  unfolding batches_le_def using batch_le_refl by blast

lemma batches_le_trans: "batches_le a b \<Longrightarrow> batches_le b c \<Longrightarrow> batches_le a c"
  unfolding batches_le_def using batch_le_trans by blast

lemma batches_le_append [simp]: "batches_le bs (bs @ cs)"
  unfolding batches_le_def using batch_le_refl by fastforce

lemma batches_le_store:
  assumes "distinct (map pb_id bs)" and "b \<in> set bs" and "batch_le b b'"
  shows "batches_le bs (store_row pb_id b' bs)"
  unfolding batches_le_def
proof
  fix x assume x: "x \<in> set bs"
  show "\<exists>y\<in>set (store_row pb_id b' bs). batch_le x y"
  proof (cases "pb_id x = pb_id b'")
    case True
    with assms x have "x = b" by (auto simp: batch_le_def distinct_map inj_on_def)
    with assms True x show ?thesis by (intro bexI [of _ b']) (auto simp: store_row_def)
  next
    case False
    with x show ?thesis by (intro bexI [of _ x]) (auto simp: store_row_def)
  qed
qed

section \<open>What one call does\<close>

lemma period_frame:
  assumes "get_or_create_period w k s = (r, t)"
  shows "payout_batches t = payout_batches s \<and> tx_operations t = tx_operations s \<and> tick s \<le> tick t"
proof (cases "one_or_none (same_bounds (pk_type k) (pk_start k) (pk_end k)) (billing_periods s)")
  case (Inl e)
  with assms show ?thesis by (simp add: get_or_create_period_def)
next
  case (Inr x)
  with assms show ?thesis
    by (cases x) (auto simp: get_or_create_period_def and_then_def Let_def simp del: one_or_none_None)
qed

lemma policy_frame:
  assumes "enforce_policy w tok action res s = (r, t)"
  shows "payout_batches t = payout_batches s \<and> tx_operations t = tx_operations s \<and> tick s \<le> tick t"
proof (cases "pd_allowed (policy_check (actor_from_token tok) action res)")
  case True
  with assms show ?thesis using enforce_policy_allowed [OF True, of w s] by simp
next
  case False
  with assms show ?thesis using enforce_policy_denied [OF False, of w s] by auto
qed

lemma insert_batch_new:
  assumes "\<forall>b\<in>set (payout_batches s). \<not> payout_scope q b" and "\<forall>b\<in>set committed. \<not> payout_scope q b"
  shows "insert_batch env base committed q pid s =
    (let b = new_batch q (uuid_at (pe_world env) (tick s)) (time_at (pe_world env) (Suc (tick s))) pid
           (operations_query env (py_partner_id q) (py_date_from q) (py_date_to q) s)
     in (Inr (BatchResult b True), s\<lparr>tick := Suc (Suc (tick s)), payout_batches := payout_batches s @ [b]\<rparr>))"
proof -
  have none: "one_or_none (payout_scope q) (payout_batches s) = Inr None" using assms(1) by simp
  have "\<not> (\<exists>x\<in>set committed. payout_scope q x)" using assms(2) by blast
  then show ?thesis by (simp add: insert_batch_def none Let_def)
qed

lemma insert_batch_effect:
  assumes run: "insert_batch env base committed q pid s = (r, t)"
  obtains "payout_batches t = payout_batches s" "tick s \<le> tick t"
  | b where "\<forall>x\<in>set (payout_batches s). \<not> payout_scope q x" "payout_batches t = payout_batches s @ [b]" "tick s < tick t"
      "b = new_batch q (uuid_at (pe_world env) (tick s)) (time_at (pe_world env) (Suc (tick s))) pid
             (operations_query env (py_partner_id q) (py_date_from q) (py_date_to q) s)"
  | "payout_batches t = committed" "tick s \<le> tick t"
proof (cases "one_or_none (payout_scope q) (payout_batches s) = Inr None")
  case False
  then consider e where "one_or_none (payout_scope q) (payout_batches s) = Inl e"
    | b where "one_or_none (payout_scope q) (payout_batches s) = Inr (Some b)"
    by (metis not_None_eq sum.exhaust)
  then have "t = s" using run by cases (simp_all add: insert_batch_def)
  with that(1) show thesis by simp
next
  case none: True
  then have new: "\<forall>x\<in>set (payout_batches s). \<not> payout_scope q x" by simp
  show thesis
  proof (cases "\<exists>x\<in>set committed. payout_scope q x")
    case False
    with insert_batch_new [OF new, of committed env base pid] run new show thesis
      by (intro that(2)) (auto simp: Let_def)
  next
    case True
    obtain x where x: "one_or_none (payout_scope q) committed = x" by blast
    have "payout_batches t = committed \<and> tick s \<le> tick t"
      using run True
      by (cases x; cases "projr x") (auto simp: insert_batch_def none Let_def rollback_committed_def x simp del: one_or_none_None)
    with that(3) show thesis by blast
  qed
qed


lemma close_effect:
  assumes run: "close_payout_period env base committed q s = (r, t)"
  obtains "payout_batches t = payout_batches s" "tick s \<le> tick t"
  | b m now pid where "\<forall>x\<in>set (payout_batches s). \<not> payout_scope q x" "payout_batches t = payout_batches s @ [b]"
      "tick s \<le> m" "m < tick t" "py_date_from q \<le> py_date_to q"
      "b = new_batch q (uuid_at (pe_world env) m) now pid (operations_query env (py_partner_id q) (py_date_from q) (py_date_to q) s)"
  | "payout_batches t = committed" "tick s \<le> tick t"
proof (cases "py_date_from q \<le> py_date_to q")
  case False
  with run have "t = s" by (simp add: close_payout_period_def)
  with that(1) show thesis by simp
next
  case dates: True
  let ?w = "pe_world env"
  obtain a b where ab: "period_bounds_for_dates (pe_tz_rules env) (py_date_from q) (py_date_to q) (pe_billing_tz env) = (a, b)"
    by fastforce
  let ?k = "\<lparr>pk_type = ADHOC, pk_start = a, pk_end = b, pk_tz = pe_billing_tz env\<rparr>"
  obtain x u where u: "get_or_create_period ?w ?k s = (x, u)" by fastforce
  note fu = period_frame [OF u]
  show thesis
  proof (cases x)
    case (Inl e)
    with run dates u ab have "t = u" by (simp add: close_payout_period_def Let_def)
    with fu that(1) show thesis by simp
  next
    case (Inr p)
    let ?res = "payout_resource (py_token q) (py_tenant_id q) (Some (billing_period_status_value (bp_status p)))"
    obtain y v where v: "enforce_policy ?w (py_token q) PAYOUT_EXPORT_CREATE ?res u = (y, v)" by fastforce
    note fv = policy_frame [OF v]
    show thesis
    proof (cases "y = Inr () \<and> (bp_status p = FINALIZED \<or> bp_status p = LOCKED)")
      case False
      with run dates u ab Inr v have "t = v" by (cases y) (auto simp: close_payout_period_def Let_def)
      with fu fv that(1) show thesis by simp
    next
      case True
      with run dates u ab Inr v have "insert_batch env base committed q (bp_id p) v = (r, t)"
        by (auto simp: close_payout_period_def Let_def)
      then show thesis
      proof (cases rule: insert_batch_effect)
        case 1
        with fu fv that(1) show thesis by simp
      next
        case (2 c)
        have "operations_query env (py_partner_id q) (py_date_from q) (py_date_to q) v =
            operations_query env (py_partner_id q) (py_date_from q) (py_date_to q) s"
          using fu fv by (simp add: operations_query_def)
        with 2 fu fv dates show thesis by (intro that(2) [of c "tick v"]) auto
      next
        case 3
        with fu fv that(3) show thesis by simp
      qed
    qed
  qed
qed

lemma new_batch_simps [simp]:
  "pb_id (new_batch q i now pid ops) = i" "pb_state (new_batch q i now pid ops) = PAYOUT_READY"
  "pb_external_ref (new_batch q i now pid ops) = None" "pb_provider (new_batch q i now pid ops) = None"
  "batch_scope (new_batch q i now pid ops) = (py_tenant_id q, py_partner_id q, py_date_from q, py_date_to q)"
  "recorded_totals (new_batch q i now pid ops) = (total_payable ops, int (length ops))"
  "pb_total_amount (new_batch q i now pid ops) = total_payable ops"
  "pb_operations_count (new_batch q i now pid ops) = int (length ops)"
  "pb_date_from (new_batch q i now pid ops) = py_date_from q" "pb_date_to (new_batch q i now pid ops) = py_date_to q"
  "pb_partner_id (new_batch q i now pid ops) = py_partner_id q"
  by (simp_all add: new_batch_def batch_scope_def recorded_totals_def)

lemma refs_unique_snoc:
  assumes "refs_unique bs" and "pb_external_ref b = None"
  shows "refs_unique (bs @ [b])"
  unfolding refs_unique_def
proof (intro ballI impI)
  fix x y
  assume "x \<in> set (bs @ [b])" and "y \<in> set (bs @ [b])" and ref: "pb_external_ref x \<noteq> None"
    and eq: "(pb_provider x, pb_external_ref x) = (pb_provider y, pb_external_ref y)"
  moreover have "x \<noteq> b" "y \<noteq> b" using assms(2) ref eq by auto
  ultimately have "x \<in> set bs" "y \<in> set bs" by auto
  with assms(1) ref eq show "pb_id x = pb_id y" unfolding refs_unique_def by blast
qed

lemma batches_ok_snoc:
  assumes inj: "inj (uuid_at w)" and ok: "batches_ok w n bs" and m: "n \<le> m" "m < k"
    and b: "pb_id b = uuid_at w m" "batch_ok b" "pb_external_ref b = None" "batch_scope b \<notin> batch_scope ` set bs"
  shows "batches_ok w k (bs @ [b])"
proof -
  have "uuid_at w m \<notin> pb_id ` set bs"
  proof
    assume "uuid_at w m \<in> pb_id ` set bs"
    then obtain i where "i < n" "uuid_at w m = uuid_at w i" using ok unfolding batches_ok_def by auto
    with inj m show False by (auto dest: injD)
  qed
  moreover have "pb_id ` set bs \<subseteq> uuid_at w ` {..<k}" using batches_ok_later [OF ok, of k] m by (simp add: batches_ok_def)
  moreover have "refs_unique (bs @ [b])"
    using ok b(3) by (simp add: batches_ok_def refs_unique_snoc)
  ultimately show ?thesis using ok b m by (simp add: batches_ok_def)
qed

lemma close_keeps:
  assumes inj: "inj (uuid_at (pe_world env))" and ok: "batches_ok (pe_world env) (tick s) (payout_batches s)"
    and committed: "batches_ok (pe_world env) (tick s) committed" "batches_le (payout_batches s) committed"
    and run: "close_payout_period env base committed q s = (r, t)"
  shows "batches_ok (pe_world env) (tick t) (payout_batches t) \<and> batches_le (payout_batches s) (payout_batches t)"
  using run
proof (cases rule: close_effect)
  case 1
  with batches_ok_later [OF ok] show ?thesis by simp
next
  case (2 b m now pid)
  have "batches_ok (pe_world env) (tick t) (payout_batches s @ [b])"
    by (rule batches_ok_snoc [OF inj ok 2(3,4)]) (use 2(1,5) in \<open>auto simp: 2(6) batch_ok_def went_out_def payout_scope_iff\<close>)
  with 2(2) show ?thesis by simp
next
  case 3
  with batches_ok_later [OF committed(1)] committed(2) show ?thesis by simp
qed


lemma map_store_same:
  assumes "distinct (map pb_id bs)" and "b \<in> set bs" and "pb_id b' = pb_id b" and "f b' = f b"
  shows "map f (store_row pb_id b' bs) = map f bs"
proof -
  have "x = b" if "x \<in> set bs" "pb_id x = pb_id b" for x using assms(1,2) that by (auto simp: distinct_map inj_on_def)
  then show ?thesis using assms(3,4) by (auto simp: store_row_def)
qed

lemma batches_ok_store:
  assumes ok: "batches_ok w n bs" and b: "b \<in> set bs" "pb_id b' = pb_id b" "batch_scope b' = batch_scope b" "batch_ok b'"
    and ref: "\<And>x. x \<in> set bs \<Longrightarrow> pb_id x \<noteq> pb_id b \<Longrightarrow> pb_external_ref x \<noteq> None \<Longrightarrow>
      (pb_provider x, pb_external_ref x) \<noteq> (pb_provider b', pb_external_ref b')"
  shows "batches_ok w n (store_row pb_id b' bs)"
proof -
  have ids: "distinct (map pb_id bs)" using ok by (simp add: batches_ok_def)
  have sub: "x = b' \<or> x \<in> set bs \<and> pb_id x \<noteq> pb_id b" if "x \<in> set (store_row pb_id b' bs)" for x
    using set_store_rowD [OF that] b(2) by simp
  have "refs_unique (store_row pb_id b' bs)"
    unfolding refs_unique_def
  proof (intro ballI impI)
    fix x y
    assume xy: "x \<in> set (store_row pb_id b' bs)" "y \<in> set (store_row pb_id b' bs)"
      and r: "pb_external_ref x \<noteq> None" and eq: "(pb_provider x, pb_external_ref x) = (pb_provider y, pb_external_ref y)"
    from r eq have ry: "pb_external_ref y \<noteq> None" by simp
    have old: "refs_unique bs" using ok by (simp add: batches_ok_def)
    from sub [OF xy(1)] sub [OF xy(2)] consider "x = b'" "y = b'" | "x = b'" "y \<in> set bs" "pb_id y \<noteq> pb_id b"
      | "x \<in> set bs" "pb_id x \<noteq> pb_id b" "y = b'" | "x \<in> set bs" "y \<in> set bs" by blast
    then show "pb_id x = pb_id y"
    proof cases
      case 2
      with ref [OF 2(2,3) ry] eq show ?thesis by simp
    next
      case 3
      with ref [OF 3(1,2) r] eq show ?thesis by simp
    next
      case 4
      with old r eq show ?thesis unfolding refs_unique_def by blast
    qed simp
  qed
  moreover have "map pb_id (store_row pb_id b' bs) = map pb_id bs" by (rule map_store_same [OF ids b(1,2,2)])
  moreover have "map batch_scope (store_row pb_id b' bs) = map batch_scope bs" by (rule map_store_same [OF ids b(1,2,3)])
  moreover have "\<forall>x\<in>set (store_row pb_id b' bs). batch_ok x" using sub ok b(4) by (auto simp: batches_ok_def)
  moreover have "pb_id ` set (store_row pb_id b' bs) = pb_id ` set bs"
    by (metis calculation(2) set_map)
  ultimately show ?thesis using ok by (simp add: batches_ok_def)
qed

lemma load_found:
  assumes "load_payout_batch i s = (Inr (Some b), t)"
  shows "b \<in> set (payout_batches s) \<and> pb_id b = i \<and> t = s"
  using assms by (auto simp: load_payout_batch_def dest: one_or_none_SomeD)

lemma mark_sent_effect:
  assumes run: "mark_batch_sent w base committed m s = (r, t)"
  obtains "payout_batches t = payout_batches s" "tick s \<le> tick t"
  | b now where "b \<in> set (payout_batches s)" "pb_state b = PAYOUT_READY"
      "\<forall>x\<in>set (payout_batches s). \<not> (same_ref m x \<and> pb_id x \<noteq> pb_id b)" "tick s \<le> tick t"
      "payout_batches t = store_row pb_id (b\<lparr>pb_state := PAYOUT_SENT, pb_provider := Some (pm_provider m),
         pb_external_ref := Some (pm_external_ref m), pb_sent_at := Some now\<rparr>) (payout_batches s)"
  | "payout_batches t = committed" "tick s \<le> tick t"
proof -
  obtain x where x: "load_payout_batch (pm_batch_id m) s = (x, s)" by (simp add: load_payout_batch_def)
  consider "\<And>b. x \<noteq> Inr (Some b)" | b where "x = Inr (Some b)" by blast
  then show thesis
  proof cases
    case 1
    then consider e where "x = Inl e" | "x = Inr None" by (metis not_None_eq sum.exhaust)
    then have "t = s" using run x by cases (auto simp: mark_batch_sent_def)
    with that(1) show thesis by simp
  next
    case (2 b)
    with x have b: "b \<in> set (payout_batches s)" using load_found [of "pm_batch_id m" s b s] by simp
    show thesis
    proof (cases "pb_state b = PAYOUT_READY")
      case False
      then have "t = s" using run x 2 by (auto simp: mark_batch_sent_def split: if_splits)
      with that(1) show thesis by simp
    next
      case ready: True
      let ?p = "\<lambda>x. same_ref m x \<and> pb_id x \<noteq> pb_id b"
      let ?b = "b\<lparr>pb_state := PAYOUT_SENT, pb_provider := Some (pm_provider m), pb_external_ref := Some (pm_external_ref m),
        pb_sent_at := Some (time_at w (tick s))\<rparr>"
      show thesis
      proof (cases "one_or_none ?p (payout_batches s) = Inr None")
        case False
        then consider e where "one_or_none ?p (payout_batches s) = Inl e" | y where "one_or_none ?p (payout_batches s) = Inr (Some y)"
          by (metis not_None_eq sum.exhaust)
        then have "t = s" using run x 2 ready by cases (auto simp: mark_batch_sent_def)
        with that(1) show thesis by simp
      next
        case none: True
        then have free: "\<forall>x\<in>set (payout_batches s). \<not> ?p x" by simp
        show thesis
        proof (cases "\<exists>x\<in>set committed. ?p x")
          case True
          then have c: "(\<exists>x\<in>set committed. ?p x) = True" by blast
          have "payout_batches t = committed \<and> tick s \<le> tick t"
            using run x 2 ready by (auto simp: mark_batch_sent_def none Let_def rollback_committed_def c)
          with that(3) show thesis by blast
        next
          case False
          then have c: "(\<exists>x\<in>set committed. ?p x) = False" by blast
          have "payout_batches t = store_row pb_id ?b (payout_batches s) \<and> tick s \<le> tick t"
            using run x 2 ready by (auto simp: mark_batch_sent_def none Let_def store_batch_def c)
          with that(2) [OF b ready free] show thesis by blast
        qed
      qed
    qed
  qed
qed

lemma mark_sent_keeps:
  assumes ok: "batches_ok w (tick s) (payout_batches s)"
    and committed: "batches_ok w (tick s) committed" "batches_le (payout_batches s) committed"
    and run: "mark_batch_sent w base committed m s = (r, t)"
  shows "batches_ok w (tick t) (payout_batches t) \<and> batches_le (payout_batches s) (payout_batches t)"
  using run
proof (cases rule: mark_sent_effect)
  case 1
  with batches_ok_later [OF ok] show ?thesis by simp
next
  case 3
  with batches_ok_later [OF committed(1)] committed(2) show ?thesis by simp
next
  case (2 b now)
  let ?b = "b\<lparr>pb_state := PAYOUT_SENT, pb_provider := Some (pm_provider m), pb_external_ref := Some (pm_external_ref m), pb_sent_at := Some now\<rparr>"
  have "batch_ok b" and ids: "distinct (map pb_id (payout_batches s))" using ok 2(1) by (auto simp: batches_ok_def)
  then have okb: "batch_ok ?b" using 2(2) by (auto simp: batch_ok_def went_out_def recorded_totals_def split: if_splits)
  have scope: "batch_scope ?b = batch_scope b" by (simp add: batch_scope_def)
  have "batches_ok w (tick s) (store_row pb_id ?b (payout_batches s))"
    by (rule batches_ok_store [OF ok 2(1) _ scope okb]) (use 2(3) in \<open>auto simp: same_ref_def\<close>)
  moreover have "batches_le (payout_batches s) (store_row pb_id ?b (payout_batches s))"
    by (rule batches_le_store [OF ids 2(1)]) (simp add: batch_le_def scope 2(2) went_out_def)
  ultimately show ?thesis using 2(4,5) batches_ok_later by simp
qed


lemma mark_settled_effect:
  assumes run: "mark_batch_settled w tok m s = (r, t)"
  obtains "payout_batches t = payout_batches s" "tick s \<le> tick t"
  | b now where "b \<in> set (payout_batches s)" "pb_state b = PAYOUT_SENT" "same_ref m b" "tick s \<le> tick t"
      "payout_batches t = store_row pb_id (b\<lparr>pb_state := PAYOUT_SETTLED, pb_settled_at := Some now\<rparr>) (payout_batches s)"
proof -
  obtain x where x: "load_payout_batch (pm_batch_id m) s = (x, s)" by (simp add: load_payout_batch_def)
  consider e where "x = Inl e" | "x = Inr None" | b where "x = Inr (Some b)" by (metis not_None_eq sum.exhaust)
  then show thesis
  proof cases
    case (3 b)
    with x have b: "b \<in> set (payout_batches s)" using load_found [of "pm_batch_id m" s b s] by simp
    obtain y u where u: "enforce_policy w tok PAYOUT_EXPORT_CONFIRM (payout_resource tok (pb_tenant_id b) None) s = (y, u)" by fastforce
    note fu = policy_frame [OF u]
    show thesis
    proof (cases "y = Inr () \<and> pb_state b = PAYOUT_SENT \<and> same_ref m b")
      case False
      then have "t = u" using run x 3 u by (cases y) (auto simp: mark_batch_settled_def and_then_def split: if_splits)
      with fu that(1) show thesis by simp
    next
      case True
      then have "payout_batches t = store_row pb_id (b\<lparr>pb_state := PAYOUT_SETTLED, pb_settled_at := Some (time_at w (tick u))\<rparr>) (payout_batches s)
          \<and> tick s \<le> tick t"
        using run x 3 u fu by (auto simp: mark_batch_settled_def Let_def store_batch_def)
      with True that(2) [OF b] show thesis by blast
    qed
  qed (use run x that(1) in \<open>auto simp: mark_batch_settled_def\<close>)
qed

lemma mark_settled_keeps:
  assumes ok: "batches_ok w (tick s) (payout_batches s)" and run: "mark_batch_settled w tok m s = (r, t)"
  shows "batches_ok w (tick t) (payout_batches t) \<and> batches_le (payout_batches s) (payout_batches t)"
  using run
proof (cases rule: mark_settled_effect)
  case 1
  with batches_ok_later [OF ok] show ?thesis by simp
next
  case (2 b now)
  let ?b = "b\<lparr>pb_state := PAYOUT_SETTLED, pb_settled_at := Some now\<rparr>"
  have bok: "batch_ok b" and ids: "distinct (map pb_id (payout_batches s))" and refs: "refs_unique (payout_batches s)"
    using ok 2(1) by (auto simp: batches_ok_def)
  have okb: "batch_ok ?b" using bok 2(2) by (auto simp: batch_ok_def went_out_def recorded_totals_def split: if_splits)
  have scope: "batch_scope ?b = batch_scope b" by (simp add: batch_scope_def)
  have "batches_ok w (tick s) (store_row pb_id ?b (payout_batches s))"
  proof (rule batches_ok_store [OF ok 2(1) _ scope okb])
    fix x assume "x \<in> set (payout_batches s)" "pb_id x \<noteq> pb_id b" "pb_external_ref x \<noteq> None"
    with refs 2(1) have "(pb_provider x, pb_external_ref x) \<noteq> (pb_provider b, pb_external_ref b)"
      unfolding refs_unique_def by blast
    then show "(pb_provider x, pb_external_ref x) \<noteq> (pb_provider ?b, pb_external_ref ?b)" by simp
  qed simp
  moreover have "batches_le (payout_batches s) (store_row pb_id ?b (payout_batches s))"
    by (rule batches_le_store [OF ids 2(1)]) (simp add: batch_le_def scope 2(2) went_out_def)
  ultimately show ?thesis using 2(4,5) batches_ok_later by simp
qed

section \<open>Sequences of calls\<close>

text \<open>
  What other sessions have committed while a call runs is a table in order that this one could have moved to as well.
\<close>

definition other_sessions :: "world \<Rightarrow> 'a payout_db_scheme \<Rightarrow> payout_batch list \<Rightarrow> bool" where
  "other_sessions w s committed \<longleftrightarrow> batches_ok w (tick s) committed \<and> batches_le (payout_batches s) committed"

inductive payout_runs :: "payout_env \<Rightarrow> 'a payout_db_scheme \<Rightarrow> 'a payout_db_scheme \<Rightarrow> bool" for env where
  no_call: "payout_runs env s s"
| closed: "payout_runs env s u \<Longrightarrow> other_sessions (pe_world env) u committed \<Longrightarrow>
    payout_runs env s (snd (close_payout_period env u committed q u))"
| sent: "payout_runs env s u \<Longrightarrow> other_sessions (pe_world env) u committed \<Longrightarrow>
    payout_runs env s (snd (mark_batch_sent (pe_world env) u committed m u))"
| settled: "payout_runs env s u \<Longrightarrow> payout_runs env s (snd (mark_batch_settled (pe_world env) tok m u))"
| elsewhere: "payout_runs env s u \<Longrightarrow> payout_batches u' = payout_batches u \<Longrightarrow> tick u \<le> tick u' \<Longrightarrow> payout_runs env s u'"

lemma payout_runs_keep:
  assumes "payout_runs env s t" and "inj (uuid_at (pe_world env))" and "batches_ok (pe_world env) (tick s) (payout_batches s)"
  shows "batches_ok (pe_world env) (tick t) (payout_batches t) \<and> batches_le (payout_batches s) (payout_batches t)"
  using assms(1,3)
proof (induction rule: payout_runs.induct)
  case (closed s u committed q)
  from closed.IH [OF closed.prems] closed.hyps(2)
    close_keeps [OF assms(2), of u committed u q "fst (close_payout_period env u committed q u)" "snd (close_payout_period env u committed q u)"]
  show ?case unfolding other_sessions_def using batches_le_trans by fastforce
next
  case (sent s u committed m)
  from sent.IH [OF sent.prems] sent.hyps(2)
    mark_sent_keeps [of "pe_world env" u committed u m "fst (mark_batch_sent (pe_world env) u committed m u)" "snd (mark_batch_sent (pe_world env) u committed m u)"]
  show ?case unfolding other_sessions_def using batches_le_trans by fastforce
next
  case (settled s u tok m)
  from settled.IH [OF settled.prems]
    mark_settled_keeps [of "pe_world env" u tok m "fst (mark_batch_settled (pe_world env) tok m u)" "snd (mark_batch_settled (pe_world env) tok m u)"]
  show ?case using batches_le_trans by fastforce
next
  case (elsewhere s u u')
  from elsewhere.IH [OF elsewhere.prems] elsewhere.hyps(2,3) show ?case using batches_ok_later by fastforce
qed simp



section \<open>Closing and reconciling\<close>

lemma payout_policy:
  assumes "finance_role tok" and "st = FINALIZED \<or> st = LOCKED"
  shows "pd_allowed (policy_check (actor_from_token tok) PAYOUT_EXPORT_CREATE (payout_resource tok tenant (Some (billing_period_status_value st))))"
  using finance_role_decides(1) [of tok "payout_resource tok tenant (Some (billing_period_status_value st))"] assms
  by (auto simp: payout_export_create_def payment_apply_def require_admin_def payout_resource_def allow_def deny_def split: if_splits)

text \<open>The conditions under which a period is closed into a new batch.\<close>

definition payout_admissible :: "payout_env \<Rightarrow> payout_call \<Rightarrow> 'a payout_db_scheme \<Rightarrow> bool" where
  "payout_admissible env q s \<longleftrightarrow> py_date_from q \<le> py_date_to q \<and> finance_role (py_token q) \<and>
     distinct (map period_scope (billing_periods s)) \<and>
     (\<exists>p\<in>set (billing_periods s). period_scope p =
        (ADHOC, period_bounds_for_dates (pe_tz_rules env) (py_date_from q) (py_date_to q) (pe_billing_tz env)) \<and>
        (bp_status p = FINALIZED \<or> bp_status p = LOCKED))"

lemma close_admissible:
  assumes "payout_admissible env q s"
  shows "\<exists>pid. close_payout_period env base committed q s = insert_batch env base committed q pid s"
proof -
  obtain a b where ab: "period_bounds_for_dates (pe_tz_rules env) (py_date_from q) (py_date_to q) (pe_billing_tz env) = (a, b)" by fastforce
  with assms obtain p where p: "p \<in> set (billing_periods s)" "period_scope p = (ADHOC, a, b)" "bp_status p = FINALIZED \<or> bp_status p = LOCKED"
    by (auto simp: payout_admissible_def)
  have "get_or_create_period (pe_world env) \<lparr>pk_type = ADHOC, pk_start = a, pk_end = b, pk_tz = pe_billing_tz env\<rparr> s = (Inr p, s)"
    by (rule get_or_create_found) (use assms p in \<open>simp_all add: payout_admissible_def\<close>)
  moreover have "enforce_policy (pe_world env) (py_token q) PAYOUT_EXPORT_CREATE
      (payout_resource (py_token q) (py_tenant_id q) (Some (billing_period_status_value (bp_status p)))) s = (Inr (), s)"
    by (rule enforce_policy_allowed, rule payout_policy) (use assms p(3) in \<open>simp_all add: payout_admissible_def\<close>)
  ultimately show ?thesis
    using assms ab p(3) by (intro exI [of _ "bp_id p"]) (simp add: close_payout_period_def payout_admissible_def Let_def)
qed

lemma insert_batch_again:
  assumes "distinct (map batch_scope (payout_batches t))" and "b \<in> set (payout_batches t)" and "payout_scope q b"
  shows "insert_batch env base committed q pid t = (Inr (BatchResult b False), t)"
  using one_or_none_unique_key [OF assms(1,2)] assms(3)
  by (simp add: insert_batch_def payout_scope_iff)

lemma reconcile_run:
  assumes "distinct (map pb_id (payout_batches u))" and "b \<in> set (payout_batches u)" and "recorded_totals b = (x, n)"
  shows "reconcile_batch env (pb_id b) u = (Inr
    \<lparr>rr_batch = b,
     rr_computed_amount = total_payable (operations_query env (pb_partner_id b) (pb_date_from b) (pb_date_to b) u),
     rr_computed_count = int (length (operations_query env (pb_partner_id b) (pb_date_from b) (pb_date_to b) u)),
     rr_recorded_amount = x, rr_recorded_count = n\<rparr>, u)"
  using one_or_none_unique_key [OF assms(1,2)] assms(3) by (simp add: reconcile_batch_def load_payout_batch_def)

text \<open>C25. Closing a finalised period for the first time creates one ready batch over exactly the captured and completed
  operations of the partner in the period and touches no other batch. Closing it again returns the same batch and
  changes nothing. As long as the operations stay as they are, every later reconciliation finds what was recorded,
  whatever calls sent and settled this or other batches in between.\<close>

theorem payout_closes_and_reconciles:
  fixes s :: "'a payout_db_scheme"
  assumes "inj (uuid_at (pe_world env))" and "batches_ok (pe_world env) (tick s) (payout_batches s)"
    and "payout_admissible env q s" and "\<forall>x\<in>set (payout_batches s). \<not> payout_scope q x"
  shows "\<exists>b t. close_payout_period env s (payout_batches s) q s = (Inr (BatchResult b True), t) \<and>
    payout_batches t = payout_batches s @ [b] \<and> pb_state b = PAYOUT_READY \<and>
    pb_total_amount b = sum_list (map payable_amount (operations_query env (py_partner_id q) (py_date_from q) (py_date_to q) s)) \<and>
    close_payout_period env t (payout_batches t) q t = (Inr (BatchResult b False), t) \<and>
    (\<forall>u. payout_runs env t u \<longrightarrow> tx_operations u = tx_operations s \<longrightarrow>
       (\<exists>r. reconcile_batch env (pb_id b) u = (Inr r, u) \<and>
          rr_computed_amount r = rr_recorded_amount r \<and> rr_computed_count r = rr_recorded_count r))"
proof -
  let ?w = "pe_world env" and ?ops = "operations_query env (py_partner_id q) (py_date_from q) (py_date_to q) s"
  obtain pid where run: "close_payout_period env s (payout_batches s) q s = insert_batch env s (payout_batches s) q pid s"
    using close_admissible [OF assms(3)] by blast
  define b where "b = new_batch q (uuid_at ?w (tick s)) (time_at ?w (Suc (tick s))) pid ?ops"
  define t where "t = s\<lparr>tick := Suc (Suc (tick s)), payout_batches := payout_batches s @ [b]\<rparr>"
  have first: "close_payout_period env s (payout_batches s) q s = (Inr (BatchResult b True), t)"
    unfolding run insert_batch_new [OF assms(4,4)] by (simp add: b_def t_def Let_def)
  have ok: "batches_ok ?w (tick t) (payout_batches t)"
    using close_keeps [OF assms(1,2,2) _ first] by simp
  have "payout_admissible env q t" using assms(3) by (simp add: payout_admissible_def t_def)
  then obtain pid' where "close_payout_period env t (payout_batches t) q t = insert_batch env t (payout_batches t) q pid' t"
    using close_admissible by blast
  moreover have "insert_batch env t (payout_batches t) q pid' t = (Inr (BatchResult b False), t)"
    by (rule insert_batch_again) (use ok in \<open>simp_all add: batches_ok_def t_def b_def payout_scope_iff\<close>)
  ultimately have again: "close_payout_period env t (payout_batches t) q t = (Inr (BatchResult b False), t)" by simp
  have "\<exists>r. reconcile_batch env (pb_id b) u = (Inr r, u) \<and>
      rr_computed_amount r = rr_recorded_amount r \<and> rr_computed_count r = rr_recorded_count r"
    if runs: "payout_runs env t u" and ops: "tx_operations u = tx_operations s" for u
  proof -
    have u: "batches_ok ?w (tick u) (payout_batches u)" "batches_le (payout_batches t) (payout_batches u)"
      using payout_runs_keep [OF runs assms(1) ok] by blast+
    then obtain c where c: "c \<in> set (payout_batches u)" "batch_le b c" by (auto simp: batches_le_def t_def)
    then have same: "pb_id c = pb_id b" "pb_items c = pb_items b" "batch_scope c = batch_scope b" by (simp_all add: batch_le_def)
    have "recorded_totals c = (total_payable ?ops, int (length ?ops))"
      using same(2) by (simp add: recorded_totals_def b_def new_batch_def)
    moreover have "operations_query env (pb_partner_id c) (pb_date_from c) (pb_date_to c) u = ?ops"
      using same(3) ops by (simp add: batch_scope_def b_def new_batch_def operations_query_def)
    moreover have "distinct (map pb_id (payout_batches u))" using u(1) by (simp add: batches_ok_def)
    ultimately show ?thesis using reconcile_run [of u c] c(1) same(1) by simp
  qed
  with first again show ?thesis
    by (intro exI [of _ b] exI [of _ t] conjI) (simp_all add: t_def b_def total_payable_def)
qed

text \<open>The policy engine refuses an open period before the service looks at its status: the error that the service has
  for it never occurs.\<close>

lemma get_or_create_period_error:
  "get_or_create_period w k s = (Inl e, t) \<Longrightarrow> e = MultipleResultsFound"
  by (cases "one_or_none (same_bounds (pk_type k) (pk_start k) (pk_end k)) (billing_periods s)")
    (auto simp: get_or_create_period_def and_then_def Let_def one_or_none_def split: option.splits list.splits if_splits simp del: one_or_none_None)

lemma insert_batch_error:
  assumes "insert_batch env base committed q pid s = (Inl e, t)"
  shows "e = MultipleResultsFound \<or> e = PayoutError ''payout_batch_create_failed''"
  using assms
  by (auto simp: insert_batch_def and_then_def query_one_def Let_def one_or_none_def rollback_committed_def
      split: sum.splits option.splits prod.splits list.splits if_splits simp del: one_or_none_None)

lemma payout_policy_status:
  assumes "pd_allowed (policy_check actor PAYOUT_EXPORT_CREATE (payout_resource tok tenant (Some (billing_period_status_value st))))"
  shows "st = FINALIZED \<or> st = LOCKED"
  using assms
  by (cases st) (auto simp: payout_export_create_def payout_resource_def require_admin_def allow_def deny_def split: if_splits option.splits)

theorem close_never_not_finalized:
  "fst (close_payout_period env base committed q s) \<noteq> Inl (PayoutError ''billing_period_not_finalized'')"
proof
  assume bad: "fst (close_payout_period env base committed q s) = Inl (PayoutError ''billing_period_not_finalized'')"
  obtain a b where ab: "period_bounds_for_dates (pe_tz_rules env) (py_date_from q) (py_date_to q) (pe_billing_tz env) = (a, b)"
    by fastforce
  let ?k = "\<lparr>pk_type = ADHOC, pk_start = a, pk_end = b, pk_tz = pe_billing_tz env\<rparr>"
  have dates: "py_date_from q \<le> py_date_to q" using bad by (rule contrapos_pp) (simp add: close_payout_period_def)
  obtain x u where u: "get_or_create_period (pe_world env) ?k s = (x, u)" by fastforce
  show False
  proof (cases x)
    case (Inl e)
    with u get_or_create_period_error have "e = MultipleResultsFound" by blast
    with bad dates ab u Inl show False by (simp add: close_payout_period_def Let_def)
  next
    case (Inr p)
    let ?res = "payout_resource (py_token q) (py_tenant_id q) (Some (billing_period_status_value (bp_status p)))"
    show False
    proof (cases "pd_allowed (policy_check (actor_from_token (py_token q)) PAYOUT_EXPORT_CREATE ?res)")
      case False
      with bad dates ab u Inr enforce_policy_denied [OF False, of "pe_world env" u] show False
        by (auto simp: close_payout_period_def Let_def)
    next
      case True
      with bad dates ab u Inr enforce_policy_allowed [OF True, of "pe_world env" u] payout_policy_status [OF True]
      have "fst (insert_batch env base committed q (bp_id p) u) = Inl (PayoutError ''billing_period_not_finalized'')"
        by (auto simp: close_payout_period_def Let_def)
      then show False using insert_batch_error [of env base committed q "bp_id p" u]
        by (cases "insert_batch env base committed q (bp_id p) u") auto
    qed
  qed
qed

section \<open>A lost race and overlapping periods\<close>

text \<open>When another session has closed the same period first, the caller receives the batch and not the result record
  that every other path returns.\<close>

theorem lost_race_returns_bare_batch:
  assumes "\<forall>x\<in>set (payout_batches s). \<not> payout_scope q x" and "distinct (map batch_scope committed)"
    and "b \<in> set committed" and "payout_scope q b"
  shows "\<exists>t. insert_batch env base committed q pid s = (Inr (BareBatch b), t) \<and> payout_batches t = committed"
proof -
  have none: "one_or_none (payout_scope q) (payout_batches s) = Inr None" using assms(1) by simp
  have found: "one_or_none (payout_scope q) committed = Inr (Some b)"
    using one_or_none_unique_key [OF assms(2,3)] assms(4) by (simp add: payout_scope_iff)
  have "\<exists>x\<in>set committed. payout_scope q x" using assms(3,4) by blast
  then show ?thesis by (simp add: insert_batch_def none found Let_def rollback_committed_def)
qed

text \<open>Nothing keeps the periods of two batches apart: an operation on a day of both is paid by both.\<close>

theorem overlapping_periods_pay_twice:
  fixes s :: "'a payout_db_scheme"
  assumes "payout_admissible env q1 s" and "payout_admissible env q2 s"
    and "\<forall>x\<in>set (payout_batches s). \<not> payout_scope q1 x \<and> \<not> payout_scope q2 x"
    and "py_date_from q1 \<noteq> py_date_from q2"
    and "o1 \<in> set (tx_operations s)" and "in_payout env (py_partner_id q1) (py_date_from q1) (py_date_to q1) o1"
    and "in_payout env (py_partner_id q2) (py_date_from q2) (py_date_to q2) o1"
  shows "\<exists>b1 b2 t u. close_payout_period env s (payout_batches s) q1 s = (Inr (BatchResult b1 True), t) \<and>
    close_payout_period env t (payout_batches t) q2 t = (Inr (BatchResult b2 True), u) \<and>
    o1 \<in> set (operations_query env (pb_partner_id b1) (pb_date_from b1) (pb_date_to b1) u) \<and>
    o1 \<in> set (operations_query env (pb_partner_id b2) (pb_date_from b2) (pb_date_to b2) u) \<and>
    payout_batches u = payout_batches s @ [b1, b2]"
proof -
  obtain p1 where run1: "close_payout_period env s (payout_batches s) q1 s = insert_batch env s (payout_batches s) q1 p1 s"
    using close_admissible [OF assms(1)] by blast
  let ?ops = "\<lambda>q. operations_query env (py_partner_id q) (py_date_from q) (py_date_to q)"
  define b1 where "b1 = new_batch q1 (uuid_at (pe_world env) (tick s)) (time_at (pe_world env) (Suc (tick s))) p1 (?ops q1 s)"
  define t where "t = s\<lparr>tick := Suc (Suc (tick s)), payout_batches := payout_batches s @ [b1]\<rparr>"
  have r1: "close_payout_period env s (payout_batches s) q1 s = (Inr (BatchResult b1 True), t)"
    unfolding run1 by (subst insert_batch_new) (use assms(3) in \<open>simp_all add: b1_def t_def Let_def\<close>)
  have "payout_admissible env q2 t" using assms(2) by (simp add: payout_admissible_def t_def)
  then obtain p2 where run2: "close_payout_period env t (payout_batches t) q2 t = insert_batch env t (payout_batches t) q2 p2 t"
    using close_admissible by blast
  have free: "\<forall>x\<in>set (payout_batches t). \<not> payout_scope q2 x"
    using assms(3,4) by (auto simp: t_def b1_def payout_scope_iff)
  define b2 where "b2 = new_batch q2 (uuid_at (pe_world env) (tick t)) (time_at (pe_world env) (Suc (tick t))) p2 (?ops q2 t)"
  define u where "u = t\<lparr>tick := Suc (Suc (tick t)), payout_batches := payout_batches t @ [b2]\<rparr>"
  have r2: "close_payout_period env t (payout_batches t) q2 t = (Inr (BatchResult b2 True), u)"
    unfolding run2 insert_batch_new [OF free free] by (simp add: b2_def u_def Let_def)
  from r1 r2 assms(5-7) show ?thesis
    by (intro exI [of _ b1] exI [of _ b2] exI [of _ t] exI [of _ u])
      (simp add: operations_query_def b1_def b2_def t_def u_def)
qed

text \<open>
  A capture leaves its settled amount at the default 0, which is not missing: the payout counts it and pays nothing for
  it, whatever was captured.
\<close>

theorem captured_operation_pays_nothing:
  assumes "capture_operation w i amount s = (Inr c, t)"
  shows "payable_amount c = 0 \<and> co_status c = OP_CAPTURED \<and> 0 < co_amount c \<and> c \<in> set (tx_operations t)"
  using assms by (rule capture_operation_cases) (auto simp: add_child_def child_operation_def payable_amount_def Let_def)

section \<open>A concrete partner\<close>

definition ref_payout_env :: payout_env where
  "ref_payout_env = \<lparr>pe_world = ref_world, pe_tz_rules = utc_rules, pe_billing_tz = ''UTC'', pe_sql_date = (\<lambda>t. t div day_us)\<rparr>"

definition ref_payout_call :: payout_call where
  "ref_payout_call = \<lparr>py_tenant_id = 1, py_partner_id = ''azs-1'', py_date_from = 0, py_date_to = 1, py_token = finance_admin\<rparr>"

definition ref_fuelling :: tx_operation where
  "ref_fuelling = \<lparr>co_operation_id = ''op-1'', co_created_at = 5, co_operation_type = OT_AUTH, co_status = OP_COMPLETED,
     co_merchant_id = ''azs-1'', co_terminal_id = ''t-1'', co_client_id = ''c-1'', co_card_id = ''card-1'', co_amount = 900,
     co_amount_settled = Some 700, co_currency = ''RUB'', co_quantity = Some 12000, co_captured_amount = 0, co_refunded_amount = 0,
     co_parent_operation_id = None, co_mcc = None, co_product_code = None, co_product_category = None, co_tx_type = None\<rparr>"

definition ref_payout_db :: payout_db where
  "ref_payout_db = tx_db.extend (fin_db.extend
     (empty_fin_db\<lparr>tick := 2, billing_periods := [(new_period (uuid_at ref_world 0) ADHOC 0 (2 * day_us - 1) ''UTC'')\<lparr>bp_status := FINALIZED\<rparr>]\<rparr>)
     (tx_db.fields [ref_fuelling])) (payout_db.fields [])"

lemma ref_payout_db_simps [simp]:
  "tick ref_payout_db = 2" "payout_batches ref_payout_db = []" "tx_operations ref_payout_db = [ref_fuelling]"
  "billing_periods ref_payout_db = [(new_period (uuid_at ref_world 0) ADHOC 0 (2 * day_us - 1) ''UTC'')\<lparr>bp_status := FINALIZED\<rparr>]"
  by (simp_all add: ref_payout_db_def fin_db.extend_def tx_db.extend_def tx_db.fields_def payout_db.fields_def)

lemma ref_payout_admissible: "payout_admissible ref_payout_env ref_payout_call ref_payout_db"
  by (simp add: payout_admissible_def ref_payout_call_def ref_payout_env_def finance_role_def finance_admin_roles
      period_bounds_for_dates_def utc_rules_def period_scope_def new_period_def)

lemma ref_payout_inj: "inj (uuid_at (pe_world ref_payout_env))"
  using ref_world_sane by (simp add: sane_world_def ref_payout_env_def)

theorem payout_closes_and_reconciles_witness:
  "\<exists>b t. close_payout_period ref_payout_env ref_payout_db [] ref_payout_call ref_payout_db = (Inr (BatchResult b True), t) \<and>
     pb_total_amount b = 700"
proof -
  have "batches_ok (pe_world ref_payout_env) (tick ref_payout_db) (payout_batches ref_payout_db)"
    by (simp add: batches_ok_def refs_unique_def)
  moreover have "operations_query ref_payout_env ''azs-1'' 0 1 ref_payout_db = [ref_fuelling]"
    by (simp add: operations_query_def in_payout_def ref_payout_env_def ref_fuelling_def day_us_def)
  ultimately show ?thesis
    using payout_closes_and_reconciles [OF ref_payout_inj _ ref_payout_admissible]
    by (auto simp: ref_payout_call_def payable_amount_def ref_fuelling_def)
qed





end
