(* ===== verification/Spec2Isabelle.thy ===== *)
theory Spec2Isabelle
  imports Finance_History Ledger_Chain Fuel_Replay Decision_Properties Abac_Properties Edo_Properties Op_Properties Graph_Completeness Payout_Properties
begin

text \<open>
  Verification of the core of the NEFT processing platform: the money, access and evidence
  services of \<open>src/platform/processing-core/app\<close>. Paths below are relative to that directory.

  \<^bold>\<open>The program.\<close> A FastAPI service works on one PostgreSQL database through SQLAlchemy sessions.
  The parts modelled here call each other as follows.
  \<^item> Every service writes to the hash-chained \<^emph>\<open>audit log\<close> and asks the \<^emph>\<open>policy engine\<close> whether
    the actor of a token may act; the newer routers ask \<^emph>\<open>attribute-based access control\<close>.
  \<^item> \<^emph>\<open>Finance\<close> books payments, credit notes and refunds of invoices. One booking runs the invoice
    state machine, the financial invariants, the internal double-entry ledger, the settlement
    allocations in the billing period of the event, the money flow, the legal graph, the job
    records and the advisory locks, in one transaction.
  \<^item> The \<^emph>\<open>decision engine\<close> answers whether an invoice may be issued, a note created or a payment
    taken, from deterministic rules, a scorer, and risk policies with thresholds.
  \<^item> The \<^emph>\<open>operation ledger\<close> keeps the accounts of clients, partners and the platform for card
    operations; refunds, reversals and disputes post to it. \<^emph>\<open>Card transactions\<close> capture, refund and
    reverse an authorisation, and \<^emph>\<open>payouts\<close> pay a partner for the operations of a closed period.
  \<^item> The \<^emph>\<open>legal graph\<close> records which document, payment, decision and export belongs to which; it is
    searched, frozen in hashed snapshots, and must be complete before a billing period is locked.
  \<^item> \<^emph>\<open>Electronic documents\<close> are sent through an outbox to the provider SBIS and follow its status.

  \<^bold>\<open>How the code is rendered.\<close> \<open>Neft_Prelude\<close> fixes the conventions. A service method is a
  computation on the state of the session that returns a result or raises (type \<open>act\<close>); an
  exception carries the state as well, because what was flushed stays in the session until
  somebody rolls back, and a rollback is an assignment of the remembered state. A table is the
  list of its rows in the order of insertion; \<open>one_or_none\<close>, \<open>first\<close> and \<open>order_by\<close> are functions on
  such lists (\<open>Query_Order\<close>), unique constraints are branches of the inserts. The rows are records
  with the columns that the modelled code reads or writes, enumerations are datatypes, Python
  integers are \<open>int\<close>, and the 64-bit lock keys are words. Clock, random identifiers and SHA-256 come
  from the record \<open>world\<close>, indexed by a counter of the session, so that two readings of the clock
  may differ in any way. The exceptions of the code are the constructors of \<open>py_exc\<close>.

  \<^bold>\<open>Theories and sources.\<close>
  \<^item> Values: \<open>Py_Json\<close>, \<open>Canonical_Json\<close>, \<open>Json_Loads\<close> (canonical \<open>json.dumps\<close>, that its texts are
    unambiguous, and \<open>json.loads\<close>, whose fuel is the length of the text, which no nesting exceeds);
    \<open>Py_Values\<close>, \<open>Py_Compare\<close> (truth, \<open>get\<close>, \<open>==\<close> and ordering of values).
  \<^item> Contracts: \<open>Hash_Chain\<close>, \<open>Double_Entry\<close>, \<open>Idempotency\<close>, \<open>Lifecycle\<close>, \<open>Act_Frames\<close> (see below).
  \<^item> Audit: \<open>Audit_Log\<close>, \<open>Audit_Properties\<close> (\<open>services/audit_service.py\<close>).
  \<^item> Access: \<open>Policy_Engine\<close>, \<open>Policy_Properties\<close> (\<open>services/policy\<close>); \<open>Abac_Engine\<close>,
    \<open>Abac_Properties\<close> (\<open>services/abac\<close>).
  \<^item> Internal ledger: \<open>Internal_Ledger\<close>, \<open>Ledger_Invariant\<close>, \<open>Ledger_Postings\<close>, \<open>Ledger_Properties\<close>,
    \<open>Ledger_Chain\<close> (\<open>services/internal_ledger.py\<close>).
  \<^item> Finance: \<open>Finance_Models\<close> (tables), \<open>Invoice_Machine\<close>, \<open>Invoice_Properties\<close>
    (\<open>services/invoice_state_machine.py\<close>), \<open>Finance_Invariants\<close> (\<open>services/finance_invariants\<close>),
    \<open>Billing_Periods\<close>, \<open>Period_Properties\<close> (\<open>services/billing_periods.py\<close>,
    \<open>services/settlement_allocations.py\<close>), \<open>Job_Runs\<close>, \<open>Job_Locks\<close>, \<open>Settlement\<close>,
    \<open>Settlement_Properties\<close>, \<open>Payments\<close>, \<open>Payment_Steps\<close>, \<open>Payment_Properties\<close>, \<open>Payment_Safety\<close>,
    \<open>Credit_Notes\<close>, \<open>Note_Steps\<close>, \<open>Note_Properties\<close>, \<open>Note_Safety\<close>, \<open>Note_Replay\<close>,
    \<open>Credit_Note_Properties\<close>, \<open>Finance_History\<close> (\<open>services/finance.py\<close>).
  \<^item> Evidence: \<open>Legal_Graph\<close> (registry), \<open>Graph_Builder\<close>, \<open>Graph_Queries\<close>, \<open>Graph_Snapshots\<close> and
    \<open>Graph_Completeness\<close> with the proofs \<open>Graph_Properties\<close> and \<open>Graph_Integrity\<close>
    (\<open>services/legal_graph\<close>); \<open>Money_Flow\<close>, \<open>Money_Flow_Properties\<close>, \<open>Fuel_Replay\<close>
    (\<open>services/money_flow\<close>).
  \<^item> Decisions: \<open>Decision_Rules\<close>, \<open>Decision_Engine\<close>, \<open>Decision_Properties\<close> (\<open>services/decision\<close>,
    \<open>services/risk/policy_resolver.py\<close>).
  \<^item> Electronic documents: \<open>Edo_Service\<close>, \<open>Edo_Properties\<close> (\<open>services/edo\<close>, \<open>integrations/edo\<close>,
    \<open>tasks/edo.py\<close>).
  \<^item> Card operations: \<open>Op_Ledger\<close>, \<open>Op_Scenarios\<close> (\<open>services/ledger\<close>, \<open>repositories\<close>,
    \<open>services/operations_scenarios\<close>) and their proofs \<open>Op_Books\<close>, \<open>Op_Transfers\<close>, \<open>Op_Frames\<close>,
    \<open>Op_Refunds\<close>, \<open>Op_Histories\<close>, \<open>Op_Disputes\<close>, \<open>Op_Properties\<close>; \<open>Transactions\<close>,
    \<open>Transaction_Properties\<close> (\<open>services/transactions.py\<close>, \<open>models/operation.py\<close>); \<open>Payouts\<close>,
    \<open>Payout_Properties\<close> (\<open>services/payouts_service.py\<close>).

  \<^bold>\<open>Interfaces.\<close> What several components promise is a locale whose consequences are proved once.
  \<^item> \<open>hash_chain\<close>: records that store the hash of their predecessor are tamper evident up to a
    collision; interpreted by the audit log and by the batches of the internal ledger.
  \<^item> \<open>double_entry\<close>: entries in batches that cancel give a zero trial balance; interpreted by the
    internal ledger and by the operation ledger.
  \<^item> \<open>idempotent_operation\<close>: a successful call, repeated any number of times, replays its result and
    leaves the database alone; interpreted by postings of both ledgers, billing periods, money flow
    links and snapshots, and snapshots of the legal graph.
  \<^item> \<open>lifecycle\<close>: steps along a table of successors; interpreted by invoices, billing periods, money
    flows and electronic documents.
  \<^item> \<open>booking\<close>: operations that succeed when admissible and keep an invariant, composed to
    histories; interpreted by the three operations of the finance service.
  \<^item> \<open>edo_frame\<close>, \<open>op_frame\<close>: a property that the basic steps keep is kept by every operation;
    each is interpreted for two properties of its component.

  \<^bold>\<open>What is shown.\<close> For finance: admissible calls succeed and book one amount everywhere, whole
  histories keep the allocations equal to the coverage of the invoices and the ledger balanced,
  nothing is overpaid, over-refunded or credited beyond what is due whatever the database holds, and
  refused calls leave no trace. For the ledgers: every reachable state balances in every currency,
  postings happen as a whole, and repeated requests replay. For evidence: logs verify, tampering
  shows, snapshots round trip, rebuilt links satisfy the comparison. For access and decisions: the
  engines refine their tables, deny by default and fail closed. For documents: only legal
  transitions are recorded, retries end, nothing is sent twice. For the legal graph: a trace is exactly
  the part of the graph within its depth, the search of a connected part ends with all of it, the graph
  stays consistent whatever is written, a snapshot determines the graph up to a collision, and the
  completeness check decides its specification. For transactions and payouts: the view of a
  transaction reports the amounts and the status in the columns, a period is paid once and reconciles, and batches of
  concurrent sessions are never rewritten. Step relations (\<open>op_history\<close>,
  \<open>tx_history\<close>, \<open>payout_runs\<close> and the histories of audit log, ledger, periods, graph and documents) carry the invariants by rule induction.
  Lemmas beside the properties exhibit where the code does something else than it means to.

  \<^bold>\<open>Loops.\<close> Loops over rows are structural recursions. The search of a connected part of the legal graph
  ends because every round but the last adds nodes of a finite table; it has no fuel. The walk from an
  operation to its authorisation makes at most five steps, which is the bound in the code. Retries of the
  outbox are limited by the attempts in its rows.

  \<^bold>\<open>Parameters and hypotheses.\<close> Code outside the sources is a parameter: SHA-256, random identifiers
  (where it matters, that they do not repeat), the time zone rules, regular expressions, object
  storage and the HTTP transport of the provider, the order in which Python iterates over a set, the
  calendar date that the database computes from an instant, and the rows that other sessions have committed
  when a call flushes. The finance service takes the decision engine as a
  parameter, because it calls it through its interface only; the engine is modelled separately.
  Every property with a hypothesis is followed by a witness that evaluates it on a concrete
  database.

  \<^bold>\<open>Not modelled.\<close> Routers and portals (requests, schemas, status codes) and the web interfaces; the other
  deployments under \<open>src/platform\<close> and \<open>src/services\<close>; token verification; metrics, log lines, e-mail and
  storage; the rendering of documents and exports; reports. Of the services with logic of their own: the
  authorisation of card operations with its limits (\<open>services/transactions_service.py\<close>), the aggregation of
  operations into billing summaries and clearing, subscriptions, partner settlement, bank statements,
  cases, and the fuel, fleet, logistics, marketplace and CRM domains. They work on schemas of their own, in part
  in floating point, or against external systems; where a modelled component reads their tables, the rows are
  in the model.
\<close>

end
